(* ===== verification/Prelude_C.thy ===== *)
theory Prelude_C
  imports Main "HOL-Library.Word" "HOL-Library.Monad_Syntax"
begin

text \<open>
  The part of C that every component of the model uses.

  \<^item> \<^verbatim>\<open>uint8_t\<close>, \<^verbatim>\<open>uint16_t\<close>, \<^verbatim>\<open>uint32_t\<close> and \<^verbatim>\<open>uint64_t\<close> (also \<^verbatim>\<open>size_t\<close> where its
    width matters) are words of their width; \<^verbatim>\<open>int64_t\<close> is a 64-bit word read by \<open>sint\<close>.
  \<^item> A pair of a pointer and a length is the list of the bytes it denotes. A read outside of that
    list is undefined behaviour: \<open>rd\<close> returns \<open>None\<close> there, and a function whose result type
    is an \<open>option\<close> for that reason says so where it is defined.
  \<^item> A NUL-terminated string is the list of its characters without the terminator.
  \<^item> \<^verbatim>\<open>lwm2m_malloc\<close> may fail. Functions whose code tests for that take the allocator's answers
    as the parameter \<open>mem\<close>: \<open>mem n\<close> says whether a request for \<open>n\<close> bytes succeeds.
\<close>

unbundle bit_operations_syntax

type_synonym u8 = "8 word"
type_synonym u16 = "16 word"
type_synonym u32 = "32 word"
type_synonym u64 = "64 word"
type_synonym bytes = "u8 list"
type_synonym allocator = "nat \<Rightarrow> bool"

text \<open>The allocator that never fails.\<close>

abbreviation (input) all_mem :: allocator where "all_mem \<equiv> \<lambda>_. True"

text \<open>Facts about the byte representation of integers that \<open>simp add: byte_simps\<close> may use.\<close>

named_theorems byte_simps

section \<open>Characters\<close>

abbreviation (input) ch_minus :: u8 where "ch_minus \<equiv> 45"
abbreviation (input) ch_dot :: u8 where "ch_dot \<equiv> 46"
abbreviation (input) ch_slash :: u8 where "ch_slash \<equiv> 47"
abbreviation (input) ch_0 :: u8 where "ch_0 \<equiv> 48"
abbreviation (input) ch_9 :: u8 where "ch_9 \<equiv> 57"
abbreviation (input) ch_colon :: u8 where "ch_colon \<equiv> 58"
abbreviation (input) ch_equals :: u8 where "ch_equals \<equiv> 61"
abbreviation (input) ch_ampersand :: u8 where "ch_ampersand \<equiv> 38"
abbreviation (input) ch_question :: u8 where "ch_question \<equiv> 63"

definition is_digit8 :: "u8 \<Rightarrow> bool" where
  "is_digit8 c \<longleftrightarrow> ch_0 \<le> c \<and> c \<le> ch_9"

section \<open>Status codes\<close>

text \<open>The codes of \<^verbatim>\<open>liblwm2m.h\<close>, lines 166 to 186.\<close>

abbreviation (input) COAP_NO_ERROR :: u8 where "COAP_NO_ERROR \<equiv> 0x00"
abbreviation (input) COAP_IGNORE :: u8 where "COAP_IGNORE \<equiv> 0x01"
abbreviation (input) COAP_RETRANSMISSION :: u8 where "COAP_RETRANSMISSION \<equiv> 0x02"
abbreviation (input) COAP_201_CREATED :: u8 where "COAP_201_CREATED \<equiv> 0x41"
abbreviation (input) COAP_202_DELETED :: u8 where "COAP_202_DELETED \<equiv> 0x42"
abbreviation (input) COAP_204_CHANGED :: u8 where "COAP_204_CHANGED \<equiv> 0x44"
abbreviation (input) COAP_205_CONTENT :: u8 where "COAP_205_CONTENT \<equiv> 0x45"
abbreviation (input) COAP_231_CONTINUE :: u8 where "COAP_231_CONTINUE \<equiv> 0x5F"
abbreviation (input) COAP_400_BAD_REQUEST :: u8 where "COAP_400_BAD_REQUEST \<equiv> 0x80"
abbreviation (input) COAP_404_NOT_FOUND :: u8 where "COAP_404_NOT_FOUND \<equiv> 0x84"
abbreviation (input) COAP_405_METHOD_NOT_ALLOWED :: u8 where "COAP_405_METHOD_NOT_ALLOWED \<equiv> 0x85"
abbreviation (input) COAP_406_NOT_ACCEPTABLE :: u8 where "COAP_406_NOT_ACCEPTABLE \<equiv> 0x86"
abbreviation (input) COAP_408_REQ_ENTITY_INCOMPLETE :: u8 where "COAP_408_REQ_ENTITY_INCOMPLETE \<equiv> 0x88"
abbreviation (input) COAP_402_BAD_OPTION :: u8 where "COAP_402_BAD_OPTION \<equiv> 0x82"
abbreviation (input) COAP_413_ENTITY_TOO_LARGE :: u8 where "COAP_413_ENTITY_TOO_LARGE \<equiv> 0x8D"
abbreviation (input) COAP_500_INTERNAL_SERVER_ERROR :: u8 where "COAP_500_INTERNAL_SERVER_ERROR \<equiv> 0xA0"
abbreviation (input) COAP_501_NOT_IMPLEMENTED :: u8 where "COAP_501_NOT_IMPLEMENTED \<equiv> 0xA1"
abbreviation (input) COAP_503_SERVICE_UNAVAILABLE :: u8 where "COAP_503_SERVICE_UNAVAILABLE \<equiv> 0xA3"

section \<open>Text in buffers\<close>

text \<open>The bytes of a string literal.\<close>

definition ascii :: "string \<Rightarrow> bytes" where
  "ascii s = map of_char s"

text \<open>Appending to what was written into a buffer of \<open>cap\<close> bytes, if it fits.\<close>

definition emit :: "nat \<Rightarrow> bytes \<Rightarrow> bytes \<Rightarrow> bytes option" where
  "emit cap s out = (if cap < length out + length s then None else Some (out @ s))"

lemma emit_Some: "emit cap s out = Some r \<longleftrightarrow> r = out @ s \<and> length r \<le> cap"
  by (auto simp: emit_def)

lemma length_ascii [simp]: "length (ascii s) = length s"
  by (simp add: ascii_def)

section \<open>Reading memory\<close>

definition rd :: "'a list \<Rightarrow> nat \<Rightarrow> 'a option" where
  "rd xs i = (if i < length xs then Some (xs ! i) else None)"

lemma rd_Nil [simp]: "rd [] i = None"
  by (simp add: rd_def)

lemma rd_Cons_0 [simp]: "rd (x # xs) 0 = Some x"
  by (simp add: rd_def)

lemma rd_Cons_Suc [simp]: "rd (x # xs) (Suc i) = rd xs i"
  by (simp add: rd_def)

lemma rd_eq_None_iff: "rd xs i = None \<longleftrightarrow> length xs \<le> i"
  by (auto simp: rd_def)

lemma rd_eq_Some_iff: "rd xs i = Some x \<longleftrightarrow> i < length xs \<and> xs ! i = x"
  by (auto simp: rd_def)

lemma rd_append_length [simp]: "rd (xs @ y # ys) (length xs) = Some y"
  by (simp add: rd_def)

section \<open>Big-endian integers\<close>

text \<open>The value of a list of bytes, most significant first, as a natural number.\<close>

definition be_val :: "bytes \<Rightarrow> nat" where
  "be_val bs = foldl (\<lambda>v b. 256 * v + unat b) 0 bs"

lemma foldl_be: "foldl (\<lambda>v (b::u8). 256 * v + unat b) v bs = v * 256 ^ length bs + be_val bs"
proof (induction bs arbitrary: v)
  case Nil
  then show ?case by (simp add: be_val_def)
next
  case (Cons b bs)
  have "be_val (b # bs) = unat b * 256 ^ length bs + be_val bs"
    using Cons [of "unat b"] by (simp add: be_val_def)
  then show ?case using Cons [of "256 * v + unat b"] by (simp add: algebra_simps)
qed

lemma be_val_Nil [simp]: "be_val [] = 0"
  by (simp add: be_val_def)

lemma be_val_Cons: "be_val (b # bs) = unat b * 256 ^ length bs + be_val bs"
  using foldl_be [of "unat b" bs] by (simp add: be_val_def)

lemma be_val_snoc: "be_val (bs @ [b]) = 256 * be_val bs + unat b"
  by (simp add: be_val_def)

lemma unat_u8_less [simp]: "unat (b::u8) < 256"
  using unsigned_less [of b, where 'a = nat] by simp

text \<open>Widening a word keeps its value.\<close>

lemma unat_ucast_up:
  assumes "LENGTH('a::len) \<le> LENGTH('b::len)"
  shows "unat (ucast (x :: 'a word) :: 'b word) = unat x"
proof -
  have "unat x < 2 ^ LENGTH('a)"
    by (rule unsigned_less)
  also have "(2 :: nat) ^ LENGTH('a) \<le> 2 ^ LENGTH('b)"
    using assms by (rule power_increasing) simp
  finally have "unat x < 2 ^ LENGTH('b)" .
  then show ?thesis by (simp add: unsigned_ucast_eq take_bit_nat_eq_self)
qed

lemma unat_ucast_widen [simp, byte_simps]:
  "unat (ucast (a :: u8) :: u16) = unat a"
  "unat (ucast (a :: u8) :: u32) = unat a"
  "unat (ucast (a :: u8) :: u64) = unat a"
  "unat (ucast (b :: u16) :: u32) = unat b"
  "unat (ucast (b :: u16) :: u64) = unat b"
  "unat (ucast (c :: u32) :: u64) = unat c"
  by (simp_all add: unat_ucast_up)

lemma ucast_back:
  assumes "LENGTH('a::len) \<le> LENGTH('b::len)"
  shows "ucast (ucast (x :: 'a word) :: 'b word) = x"
  by (rule word_unat_eq_iff [THEN iffD2]) (simp add: unsigned_ucast_eq [of "ucast x"] unat_ucast_up [OF assms] take_bit_nat_eq_self)

lemma ucast_widen_back [simp, byte_simps]:
  "ucast (ucast (a :: u8) :: u16) = a"
  "ucast (ucast (a :: u8) :: u32) = a"
  "ucast (ucast (a :: u8) :: u64) = a"
  "ucast (ucast (b :: u16) :: u32) = b"
  "ucast (ucast (b :: u16) :: u64) = b"
  "ucast (ucast (c :: u32) :: u64) = c"
  by (simp_all add: ucast_back)

text \<open>Narrowing keeps the values that fit.\<close>

lemma unat_narrow32: "unat (x :: u64) < 2 ^ 32 \<Longrightarrow> unat (ucast x :: u32) = unat x"
  by (simp add: unsigned_ucast_eq take_bit_nat_eq_self)

lemma unat_narrow16: "unat (x :: 'a::len word) < 2 ^ 16 \<Longrightarrow> unat (ucast x :: u16) = unat x"
  by (simp add: unsigned_ucast_eq take_bit_nat_eq_self)

lemma ucast_u32_back: "unat (x :: u64) < 2 ^ 32 \<Longrightarrow> ucast (ucast x :: u32) = x"
  by (simp add: word_unat_eq_iff unat_narrow32)

lemma ucast_u16_u32_back: "unat (x :: u64) < 2 ^ 16 \<Longrightarrow> ucast (ucast (ucast x :: u32) :: u16) = x"
  by (simp add: word_unat_eq_iff unat_narrow16 unat_narrow32)

lemma be_val_less: "be_val bs < 256 ^ length bs"
proof (induction bs)
  case Nil
  then show ?case by simp
next
  case (Cons b bs)
  have "Suc (unat b) \<le> 256"
    using unat_u8_less [of b] by linarith
  then have "Suc (unat b) * 256 ^ length bs \<le> 256 * 256 ^ length bs"
    by (rule mult_le_mono1)
  with Cons show ?case unfolding be_val_Cons mult_Suc length_Cons power_Suc by linarith
qed

text \<open>The signed reading of a 64-bit word.\<close>

lemma odd_top: "(k::int) < 2 ^ 64 \<Longrightarrow> 0 \<le> k \<Longrightarrow> odd (k div 2 ^ 63) \<longleftrightarrow> 2 ^ 63 \<le> k"
proof -
  assume a: "k < 2 ^ 64" "0 \<le> k"
  have "k div 2^63 = (if 2^63 \<le> k then 1 else 0)"
    using a by (auto intro: int_div_pos_eq [of _ _ _ "k - 2^63"] )
  then show ?thesis by simp
qed

lemma sint_u64: "sint (x :: u64) = (if unat x < 2 ^ 63 then int (unat x) else int (unat x) - 2 ^ 64)"
proof -
  have lt: "uint x < 2 ^ 64" "0 \<le> uint x"
    using unsigned_less [of x, where 'a = int] by simp_all
  have "sint x = take_bit 64 (uint x) - 2 ^ 64 * of_bool (bit (uint x) 63)"
    by (simp add: sint_uint signed_take_bit_eq_take_bit_minus)
  also have "take_bit 64 (uint x) = uint x"
    using lt by (simp add: take_bit_int_eq_self)
  also have "bit (uint x) 63 \<longleftrightarrow> 2 ^ 63 \<le> uint x"
    using odd_top [OF lt] by (simp add: bit_iff_odd)
  finally have "sint x = (if uint x < 2 ^ 63 then uint x else uint x - 2 ^ 64)"
    by simp
  moreover have "uint x < 2 ^ 63 \<longleftrightarrow> unat x < 2 ^ 63"
    using of_nat_less_iff [of "unat x" "2 ^ 63", where 'a = int] by simp
  ultimately show ?thesis by simp
qed

lemma unat_u64_less: "unat (x :: u64) < 2 ^ 64"
  using unsigned_less [of x, where 'a = nat] by simp

lemma sint_neg_iff: "sint (x :: u64) < 0 \<longleftrightarrow> 2 ^ 63 \<le> unat x"
proof -
  have "int (unat x) < 2 ^ 64"
    using unsigned_less [of x, where 'a = int] by simp
  then show ?thesis by (auto simp: sint_u64 simp del: uint_nat)
qed

lemma unat_neg_u64:
  assumes "0 < unat (x :: u64)"
  shows "unat (- x) = 2 ^ 64 - unat x"
proof -
  have "(unat x + unat (- x)) mod 2 ^ 64 = 0"
    using unat_word_ariths(1) [of x "- x"] by simp
  then obtain q where q: "unat x + unat (- x) = 2 ^ 64 * q"
    unfolding mod_eq_0_iff_dvd dvd_def by blast
  have "q = 1"
    using q assms unat_u64_less [of x] unat_u64_less [of "- x"] by (cases q; cases "q - 1") auto
  with q show ?thesis by simp
qed

lemma sint_small:
  assumes "0 \<le> sint (v :: u64)" and "sint v < 2 ^ 32"
  shows "sint v = int (unat v)" and "unat v < 2 ^ 32"
proof -
  have "sint v = int (unat v) \<and> unat v < 2 ^ 32"
  proof (cases "unat v < 2 ^ 63")
    case True
    then have e: "sint v = int (unat v)" unfolding sint_u64 by (rule if_P)
    then have "int (unat v) < 2 ^ 32" using assms(2) by (simp only:)
    with e show ?thesis by (simp only: of_nat_less_numeral_power_cancel_iff)
  next
    case False
    then have "sint v = int (unat v) - 2 ^ 64" unfolding sint_u64 by (rule if_not_P)
    moreover have "int (unat v) < 2 ^ 64"
      using unat_u64_less [of v] by (simp only: of_nat_less_numeral_power_cancel_iff)
    ultimately show ?thesis using assms(1) by linarith
  qed
  then show "sint v = int (unat v)" and "unat v < 2 ^ 32" by (simp_all only:)
qed

section \<open>Bits\<close>

text \<open>
  Shifts and masks read as arithmetic; and equality of bytes bit by bit, which \<open>simp add: bit_simps\<close>
  decides for shifts, masks and disjunctions of variables.
\<close>

lemma u8_no_bit [simp]: "8 \<le> n \<Longrightarrow> \<not> bit (a :: u8) n"
  using bit_imp_le_length [of a n] by auto

lemma unat_shr: "unat (drop_bit k (w :: 'a::len word)) = unat w div 2 ^ k"
  unfolding unat_drop_bit_eq by (rule drop_bit_eq_div)

lemma unat_shl: "unat (push_bit k (w :: 'a::len word)) = (unat w * 2 ^ k) mod 2 ^ LENGTH('a)"
  unfolding unsigned_push_bit_eq push_bit_eq_mult [where 'a = nat] by (rule take_bit_eq_mod)

lemma unat_and_mask: "unat ((w :: 'a::len word) AND mask k) = unat w mod 2 ^ k"
  unfolding take_bit_eq_mask [symmetric] unsigned_take_bit_eq by (rule take_bit_eq_mod)

lemma or_eq_add: "a AND b = 0 \<Longrightarrow> (a :: 'a::len word) OR b = a + b"
  by (rule disjunctive_add_eq_or [symmetric])

lemma unat_or_disjoint: "a AND b = 0 \<Longrightarrow> unat ((a :: 'a::len word) OR b) = unat a + unat b"
  by (metis disjunctive_add_eq_or unsigned_and_eq unsigned_or_eq unsigned_0)

lemma byte_eqI:
  "\<lbrakk>bit a 0 = bit b 0; bit a 1 = bit b 1; bit a 2 = bit b 2; bit a 3 = bit b 3;
   bit a 4 = bit b 4; bit a 5 = bit b 5; bit a 6 = bit b 6; bit a 7 = bit b 7\<rbrakk> \<Longrightarrow> a = (b :: u8)"
proof (rule bit_word_eqI)
  fix n
  assume "n < LENGTH(8)"
  then have "n \<in> {0,1,2,3,4,5,6,7}" by auto
  moreover assume "bit a 0 = bit b 0" "bit a 1 = bit b 1" "bit a 2 = bit b 2" "bit a 3 = bit b 3"
   "bit a 4 = bit b 4" "bit a 5 = bit b 5" "bit a 6 = bit b 6" "bit a 7 = bit b 7"
  ultimately show "bit a n = bit b n" by auto
qed

lemma low6: "\<not> bit v 6 \<Longrightarrow> \<not> bit v 7 \<Longrightarrow> (v::u8) < 64"
proof -
  assume "\<not> bit v 6" "\<not> bit v 7"
  then have "v AND mask 6 = v" by (intro byte_eqI) (simp_all add: bit_simps)
  then show ?thesis using unat_and_mask [of v 6] by (simp add: word_less_nat_alt)
qed

section \<open>Lists\<close>

lemma take_all_eq: "n = length xs \<Longrightarrow> take n (xs @ ys) = xs"
  by simp

lemma drop_all_eq: "n = length xs \<Longrightarrow> drop n (xs @ ys) = ys"
  by simp

end
