(* ===== verification/Id_List.thy ===== *)
theory Id_List
  imports Prelude_C
begin

text \<open>
  Sorted linked lists of numbered nodes (\<^verbatim>\<open>core/list.c\<close>), the container of every object's
  instances, of the objects and of the servers.

  A node is any structure that starts with \<^verbatim>\<open>next\<close> and a 16-bit \<^verbatim>\<open>id\<close>; the model takes the
  nodes of one list as a HOL list and the \<^verbatim>\<open>id\<close> field as the parameter \<open>key\<close>. The loops of the
  code that walk with a \<^verbatim>\<open>target\<close> pointer become recursive functions on the rest of the list.
  The locale \<open>id_store\<close> is the interface the object components rely on; it is interpreted here
  on the model of the code.
\<close>

section \<open>The operations\<close>

text \<open>The walk of \<^verbatim>\<open>lwm2m_list_add\<close> from \<^verbatim>\<open>target\<close>: its argument is the list after the target.\<close>

fun list_add_after :: "('n \<Rightarrow> u16) \<Rightarrow> 'n list \<Rightarrow> 'n \<Rightarrow> 'n list" where
  "list_add_after key [] node = [node]"
| "list_add_after key (x # xs) node =
     (if key x < key node then x # list_add_after key xs node else node # x # xs)"

fun lwm2m_list_add :: "('n \<Rightarrow> u16) \<Rightarrow> 'n list \<Rightarrow> 'n \<Rightarrow> 'n list" where
  "lwm2m_list_add key [] node = [node]"
| "lwm2m_list_add key (head # tail) node =
     (if key head > key node then node # head # tail
      else head # list_add_after key tail node)"

fun lwm2m_list_find :: "('n \<Rightarrow> u16) \<Rightarrow> 'n list \<Rightarrow> u16 \<Rightarrow> 'n option" where
  "lwm2m_list_find key [] i = None"
| "lwm2m_list_find key (head # tail) i =
     (if key head < i then lwm2m_list_find key tail i
      else if key head = i then Some head else None)"

fun list_remove_after :: "('n \<Rightarrow> u16) \<Rightarrow> 'n list \<Rightarrow> u16 \<Rightarrow> 'n list \<times> 'n option" where
  "list_remove_after key [] i = ([], None)"
| "list_remove_after key (x # xs) i =
     (if key x < i then (let (ys, r) = list_remove_after key xs i in (x # ys, r))
      else if key x = i then (xs, Some x)
      else (x # xs, None))"

fun lwm2m_list_remove :: "('n \<Rightarrow> u16) \<Rightarrow> 'n list \<Rightarrow> u16 \<Rightarrow> 'n list \<times> 'n option" where
  "lwm2m_list_remove key [] i = ([], None)"
| "lwm2m_list_remove key (head # tail) i =
     (if key head = i then (tail, Some head)
      else (let (ys, r) = list_remove_after key tail i in (head # ys, r)))"

text \<open>\<^verbatim>\<open>id = target->id + 1\<close> is stored back into a \<^verbatim>\<open>uint16_t\<close>, so it wraps.\<close>

fun list_newId_from :: "('n \<Rightarrow> u16) \<Rightarrow> 'n list \<Rightarrow> u16 \<Rightarrow> u16" where
  "list_newId_from key [] i = i"
| "list_newId_from key (x # xs) i = (if i = key x then list_newId_from key xs (key x + 1) else i)"

definition lwm2m_list_newId :: "('n \<Rightarrow> u16) \<Rightarrow> 'n list \<Rightarrow> u16" where
  "lwm2m_list_newId key head = list_newId_from key head 0"

text \<open>
  A caller that holds the node \<^verbatim>\<open>lwm2m_list_find\<close> returned writes its fields in place:
  \<open>list_put\<close> is the list after such writes, with the first node of that number replaced.
\<close>

fun list_put :: "('n \<Rightarrow> u16) \<Rightarrow> 'n list \<Rightarrow> 'n \<Rightarrow> 'n list" where
  "list_put key [] node = []"
| "list_put key (x # xs) node = (if key x = key node then node # xs else x # list_put key xs node)"

section \<open>The invariant and what each operation does to it\<close>

definition ids_sorted :: "('n \<Rightarrow> u16) \<Rightarrow> 'n list \<Rightarrow> bool" where
  "ids_sorted key xs \<longleftrightarrow> sorted_wrt (<) (map key xs)"

lemma ids_sorted_Nil [simp]: "ids_sorted key []"
  by (simp add: ids_sorted_def)

lemma ids_sorted_Cons [simp]:
  "ids_sorted key (x # xs) \<longleftrightarrow> (\<forall>y \<in> set xs. key x < key y) \<and> ids_sorted key xs"
  by (simp add: ids_sorted_def)

lemma set_list_add_after: "set (list_add_after key xs n) = insert n (set xs)"
  by (induction xs) auto

lemma set_list_add: "set (lwm2m_list_add key xs n) = insert n (set xs)"
  by (cases xs) (auto simp: set_list_add_after)

lemma ids_sorted_add_after:
  "ids_sorted key xs \<Longrightarrow> key n \<notin> key ` set xs \<Longrightarrow> ids_sorted key (list_add_after key xs n)"
  by (induction xs) (auto simp: set_list_add_after intro: less_trans)

lemma ids_sorted_add:
  "ids_sorted key xs \<Longrightarrow> key n \<notin> key ` set xs \<Longrightarrow> ids_sorted key (lwm2m_list_add key xs n)"
  by (cases xs) (auto simp: set_list_add_after intro!: ids_sorted_add_after intro: less_trans)

text \<open>On a sorted list the head needs no case of its own.\<close>

lemma list_add_eq_after:
  "ids_sorted key xs \<Longrightarrow> key n \<notin> key ` set xs \<Longrightarrow>
   lwm2m_list_add key xs n = list_add_after key xs n"
  by (cases xs) auto

lemma list_remove_eq_after:
  "ids_sorted key xs \<Longrightarrow> lwm2m_list_remove key xs i = list_remove_after key xs i"
proof (cases xs)
  case (Cons x ys)
  assume "ids_sorted key xs"
  with Cons have *: "\<And>y. y \<in> set ys \<Longrightarrow> key x < key y" by simp
  show ?thesis
  proof (cases "key x < i \<or> key x = i")
    case False
    then have "i < key x" by auto
    then have "list_remove_after key ys i = (ys, None)"
      using * by (cases ys) (auto dest: less_trans)
    with False Cons show ?thesis by simp
  qed (use Cons in auto)
qed simp

lemma find_Some:
  "lwm2m_list_find key xs i = Some n \<Longrightarrow> n \<in> set xs \<and> key n = i"
  by (induction xs) (auto split: if_splits)

lemma find_member: "ids_sorted key xs \<Longrightarrow> x \<in> set xs \<Longrightarrow> lwm2m_list_find key xs (key x) = Some x"
  by (induction xs) auto

lemma find_None_iff:
  "ids_sorted key xs \<Longrightarrow> lwm2m_list_find key xs i = None \<longleftrightarrow> i \<notin> key ` set xs"
  by (induction xs) (auto dest: less_trans)

lemma find_below: "\<forall>y \<in> set xs. i < key y \<Longrightarrow> lwm2m_list_find key xs i = None"
  by (cases xs) auto

lemma find_beyond:
  "\<forall>y \<in> set xs. k < key y \<Longrightarrow> \<not> k < i \<Longrightarrow> lwm2m_list_find key xs i = None"
  by (rule find_below) auto

lemma find_add_after:
  "ids_sorted key xs \<Longrightarrow> key n \<notin> key ` set xs \<Longrightarrow>
   lwm2m_list_find key (list_add_after key xs n) i =
     (if i = key n then Some n else lwm2m_list_find key xs i)"
  by (induction xs) (auto simp: find_below dest: less_trans)

lemma find_add:
  "ids_sorted key xs \<Longrightarrow> key n \<notin> key ` set xs \<Longrightarrow>
   lwm2m_list_find key (lwm2m_list_add key xs n) i =
     (if i = key n then Some n else lwm2m_list_find key xs i)"
  by (simp add: list_add_eq_after find_add_after)

lemma set_remove_after: "set (fst (list_remove_after key xs i)) \<subseteq> set xs"
  by (induction xs) (auto split: prod.splits)

lemma ids_sorted_remove_after:
  "ids_sorted key xs \<Longrightarrow> ids_sorted key (fst (list_remove_after key xs i))"
proof (induction xs)
  case (Cons x xs)
  then show ?case using set_remove_after [of key xs i] by (auto split: prod.splits)
qed simp

lemma snd_remove_after: "snd (list_remove_after key xs i) = lwm2m_list_find key xs i"
  by (induction xs) (auto split: prod.splits)

lemma find_remove_after:
  "ids_sorted key xs \<Longrightarrow>
   lwm2m_list_find key (fst (list_remove_after key xs i)) j =
     (if i = j then None else lwm2m_list_find key xs j)"
proof (induction xs)
  case (Cons x xs)
  show ?case
  proof (cases "key x < i")
    case True
    with Cons show ?thesis by (auto split: prod.splits)
  next
    case False
    with Cons.prems show ?thesis
      by (cases "key x = i") (auto simp: find_beyond [of xs i] find_beyond [of xs "key x"])
  qed
qed simp

lemma key_list_put: "map key (list_put key xs n) = map key xs"
  by (induction xs) auto

lemma set_list_put: "set (list_put key xs n) \<subseteq> insert n (set xs)"
  by (induction xs) auto

lemma list_put_found: "lwm2m_list_find key xs (key n) = Some n \<Longrightarrow> list_put key xs n = xs"
  by (induction xs) (auto split: if_splits)

lemma ids_sorted_put [simp]: "ids_sorted key (list_put key xs n) = ids_sorted key xs"
  by (simp add: ids_sorted_def key_list_put)

lemma find_put:
  "lwm2m_list_find key xs (key n) = Some m \<Longrightarrow>
   lwm2m_list_find key (list_put key xs n) i =
     (if i = key n then Some n else lwm2m_list_find key xs i)"
  by (induction xs) (auto split: if_splits)

lemma ids_sorted_unique:
  "ids_sorted key xs \<Longrightarrow> ids_sorted key ys \<Longrightarrow>
   (\<And>i. lwm2m_list_find key xs i = lwm2m_list_find key ys i) \<Longrightarrow> xs = ys"
proof (induction xs arbitrary: ys)
  case Nil
  show ?case
  proof (cases ys)
    case (Cons y zs)
    with Nil.prems(3) [of "key y"] show ?thesis by simp
  qed simp
next
  case (Cons x xs)
  show ?case
  proof (cases ys)
    case Nil
    with Cons.prems(3) [of "key x"] show ?thesis by simp
  next
    case (Cons y zs)
    note ys = this
    have x: "\<forall>z \<in> set xs. key x < key z" and y: "\<forall>z \<in> set zs. key y < key z"
      using Cons.prems(1,2) ys by simp_all
    have "lwm2m_list_find key ys (key x) = Some x" and "lwm2m_list_find key (x # xs) (key y) = Some y"
      using Cons.prems(3) [of "key x"] Cons.prems(3) [of "key y"] ys by simp_all
    then have xy: "x = y"
      using ys x y find_beyond [of zs "key y" key "key x"] by (auto split: if_splits)
    have "lwm2m_list_find key xs i = lwm2m_list_find key zs i" for i
      using Cons.prems(3) [of i] x y ys xy
      by (cases "key x < i") (auto simp: find_beyond [of xs "key x"] find_beyond [of zs "key y"])
    then show ?thesis using Cons.IH [of zs] Cons.prems(1,2) ys xy by simp
  qed
qed

section \<open>The lowest unused number\<close>

lemma newId_from:
  "ids_sorted key xs \<Longrightarrow> \<forall>x \<in> set xs. i \<le> key x \<Longrightarrow> length xs + unat i < 2 ^ 16 \<Longrightarrow>
   i \<le> list_newId_from key xs i \<and> list_newId_from key xs i \<notin> key ` set xs \<and>
   (\<forall>j. i \<le> j \<and> j < list_newId_from key xs i \<longrightarrow> j \<in> key ` set xs)"
proof (induction xs arbitrary: i)
  case Nil
  then show ?case by auto
next
  case (Cons x xs)
  show ?case
  proof (cases "i = key x")
    case False
    with Cons.prems have "i < key x" by (simp add: order_less_le)
    with Cons.prems False show ?thesis by (auto dest: less_trans)
  next
    case True
    define r where "r = list_newId_from key xs (i + 1)"
    have i1: "unat (i + 1) = unat i + 1"
      using Cons.prems(3) by (simp add: unat_word_ariths)
    have IH: "i + 1 \<le> r" "r \<notin> key ` set xs" "\<forall>j. i + 1 \<le> j \<and> j < r \<longrightarrow> j \<in> key ` set xs"
      using Cons.IH [of "i + 1"] Cons.prems True i1 by (auto simp: r_def inc_le)
    have "i < r"
      using IH(1) i1 by (simp add: word_le_nat_alt word_less_nat_alt)
    moreover have "j = i \<or> i + 1 \<le> j" if "i \<le> j" for j
      using that by (metis inc_le order_less_le)
    ultimately show ?thesis using IH True by (auto simp: r_def)
  qed
qed

section \<open>The interface\<close>

text \<open>
  What the owners of a list rely on: a store of nodes by number, its invariant, and the effect
  of each operation seen through \<open>find\<close>. A store is determined by what \<open>find\<close> returns.
\<close>

locale id_store =
  fixes inv :: "'s \<Rightarrow> bool"
    and key :: "'n \<Rightarrow> u16"
    and find :: "'s \<Rightarrow> u16 \<Rightarrow> 'n option"
    and add :: "'s \<Rightarrow> 'n \<Rightarrow> 's"
    and remove :: "'s \<Rightarrow> u16 \<Rightarrow> 's \<times> 'n option"
    and put :: "'s \<Rightarrow> 'n \<Rightarrow> 's"
  assumes inv_add: "inv s \<Longrightarrow> find s (key n) = None \<Longrightarrow> inv (add s n)"
    and find_add: "inv s \<Longrightarrow> find s (key n) = None \<Longrightarrow>
      find (add s n) i = (if i = key n then Some n else find s i)"
    and inv_remove: "inv s \<Longrightarrow> inv (fst (remove s i))"
    and find_remove: "inv s \<Longrightarrow> find (fst (remove s i)) j = (if i = j then None else find s j)"
    and removed: "inv s \<Longrightarrow> snd (remove s i) = find s i"
    and inv_put: "inv s \<Longrightarrow> inv (put s n)"
    and find_put: "inv s \<Longrightarrow> find s (key n) = Some m \<Longrightarrow>
      find (put s n) i = (if i = key n then Some n else find s i)"
    and find_key: "find s i = Some n \<Longrightarrow> key n = i"
    and extensional: "inv s \<Longrightarrow> inv t \<Longrightarrow> (\<And>i. find s i = find t i) \<Longrightarrow> s = t"
begin

lemma remove_absent:
  assumes "inv s" and "find s i = None"
  shows "remove s i = (s, None)"
proof -
  have "fst (remove s i) = s"
    using assms by (intro extensional) (auto simp: inv_remove find_remove)
  then show ?thesis using assms by (simp add: prod_eq_iff removed)
qed

lemma remove_added:
  assumes "inv s" and "find s (key n) = None"
  shows "remove (add s n) (key n) = (s, Some n)"
proof -
  have "fst (remove (add s n) (key n)) = s"
    using assms by (intro extensional) (auto simp: inv_add inv_remove find_remove find_add)
  then show ?thesis using assms by (simp add: prod_eq_iff removed inv_add find_add)
qed

text \<open>A node that was added and then written in place is removed without a trace.\<close>

lemma remove_put_added:
  assumes "inv s" and "find s (key n) = None" and "key n' = key n"
  shows "remove (put (add s n) n') (key n) = (s, Some n')"
proof -
  have found: "find (add s n) (key n') = Some n"
    using assms by (simp add: find_add)
  have inv: "inv (put (add s n) n')"
    using assms by (simp add: inv_add inv_put)
  have "fst (remove (put (add s n) n') (key n)) = s"
    using assms inv found
    by (intro extensional) (auto simp: inv_add inv_remove find_remove find_put find_add)
  then show ?thesis
    using assms inv found by (simp add: prod_eq_iff removed inv_add find_put)
qed

lemma put_same:
  assumes "inv s" and "find s i = Some n"
  shows "put s n = s"
  using assms find_key [OF assms(2)] by (intro extensional) (auto simp: inv_put find_put)

lemma put_put:
  assumes "inv s" and "find s (key n) = Some m" and "key n' = key n"
  shows "put (put s n) n' = put s n'"
  using assms by (intro extensional) (auto simp: inv_put find_put)

lemma remove_put:
  assumes "inv s" and "find s i = Some m" and "key n = i"
  shows "fst (remove (put s n) i) = fst (remove s i)"
  using assms by (intro extensional) (auto simp: inv_put inv_remove find_remove find_put)

lemma add_removed:
  assumes "inv s" and "find s i = Some n"
  shows "add (fst (remove s i)) n = s"
  using assms find_key [OF assms(2)]
  by (intro extensional) (auto simp: inv_remove inv_add find_remove find_add)

end

interpretation id_list: id_store "ids_sorted key" key "lwm2m_list_find key" "lwm2m_list_add key"
    "lwm2m_list_remove key" "list_put key"
  for key :: "'n \<Rightarrow> u16"
proof unfold_locales
  fix s t :: "'n list" and n m :: 'n and i j :: u16
  show "ids_sorted key s \<Longrightarrow> lwm2m_list_find key s (key n) = None \<Longrightarrow>
    ids_sorted key (lwm2m_list_add key s n)"
    by (simp add: find_None_iff ids_sorted_add)
  show "ids_sorted key s \<Longrightarrow> lwm2m_list_find key s (key n) = None \<Longrightarrow>
    lwm2m_list_find key (lwm2m_list_add key s n) i =
      (if i = key n then Some n else lwm2m_list_find key s i)"
    by (simp add: find_None_iff find_add)
  show "ids_sorted key s \<Longrightarrow> ids_sorted key (fst (lwm2m_list_remove key s i))"
    by (simp add: list_remove_eq_after ids_sorted_remove_after)
  show "ids_sorted key s \<Longrightarrow> lwm2m_list_find key (fst (lwm2m_list_remove key s i)) j =
      (if i = j then None else lwm2m_list_find key s j)"
    by (simp add: list_remove_eq_after find_remove_after)
  show "ids_sorted key s \<Longrightarrow> snd (lwm2m_list_remove key s i) = lwm2m_list_find key s i"
    by (simp add: list_remove_eq_after snd_remove_after)
  show "ids_sorted key s \<Longrightarrow> ids_sorted key (list_put key s n)"
    by simp
  show "lwm2m_list_find key s (key n) = Some m \<Longrightarrow>
    lwm2m_list_find key (list_put key s n) i =
      (if i = key n then Some n else lwm2m_list_find key s i)"
    by (rule find_put)
  show "lwm2m_list_find key s i = Some n \<Longrightarrow> key n = i"
    by (simp add: find_Some)
  show "ids_sorted key s \<Longrightarrow> ids_sorted key t \<Longrightarrow>
    (\<And>i. lwm2m_list_find key s i = lwm2m_list_find key t i) \<Longrightarrow> s = t"
    by (rule ids_sorted_unique)
qed

section \<open>Properties\<close>

text \<open>
  C10: on a list with strictly increasing numbers, adding a node with a new number keeps the
  order and changes what is found under that number only; removing a number returns the node
  found under it, keeps the order, and makes that number, and no other, absent.
\<close>

theorem list_refines_map:
  assumes "ids_sorted key xs" and "key n \<notin> key ` set xs"
  shows "ids_sorted key (lwm2m_list_add key xs n) \<and>
    lwm2m_list_find key (lwm2m_list_add key xs n) = (lwm2m_list_find key xs)(key n \<mapsto> n) \<and>
    ids_sorted key (fst (lwm2m_list_remove key xs i)) \<and>
    snd (lwm2m_list_remove key xs i) = lwm2m_list_find key xs i \<and>
    lwm2m_list_find key (fst (lwm2m_list_remove key xs i)) = (lwm2m_list_find key xs)(i := None)"
  using assms by (auto simp: fun_eq_iff find_None_iff [symmetric] id_list.inv_add id_list.find_add
      id_list.inv_remove id_list.removed id_list.find_remove)

theorem list_refines_map_witness:
  "lwm2m_list_find id (lwm2m_list_add id [1, 5, 9] 7) = (lwm2m_list_find id [1, 5, 9])(7 \<mapsto> 7)"
proof -
  have "ids_sorted id [1, 5, 9]" and "id 7 \<notin> id ` set [1, 5, 9 :: u16]" by simp_all
  from list_refines_map [OF this] show ?thesis unfolding id_apply by blast
qed

text \<open>
  \<^verbatim>\<open>lwm2m_list_newId\<close> returns the lowest number that no node of the list has, as long as
  a number is left; when all 65536 are taken the 16-bit counter wraps.
\<close>

theorem newId_lowest_unused:
  assumes "ids_sorted key xs" and "length xs < 2 ^ 16"
  shows "lwm2m_list_newId key xs \<notin> key ` set xs \<and>
    (\<forall>j < lwm2m_list_newId key xs. j \<in> key ` set xs)"
  using newId_from [of key xs 0] assms by (simp add: lwm2m_list_newId_def)

theorem newId_lowest_unused_witness: "lwm2m_list_newId id [0, 1, 3] \<notin> id ` set [0, 1, 3]"
proof -
  have "ids_sorted id [0, 1, 3]" and "length [0, 1, 3 :: u16] < 2 ^ 16" by simp_all
  from newId_lowest_unused [OF this] show ?thesis by blast
qed

end
