(* ===== verification/Num_Text.thy ===== *)
theory Num_Text
  imports Prelude_C
begin

text \<open>
  Numbers and object links as text (\<^verbatim>\<open>core/utils.c\<close>, lines 60 to 265 and 549 to 566), the
  encoding of the plain-text content format and of every URI.

  The parsers are written on the list of the bytes they are given; \<^verbatim>\<open>1\<close> with the value in
  \<^verbatim>\<open>*dataP\<close> is \<open>Some\<close>, \<^verbatim>\<open>0\<close> is \<open>None\<close>. The printers take the buffer as a list (its length is
  the \<^verbatim>\<open>length\<close> argument) and return the size with the buffer as the code leaves it.
  The reference for both directions is the value of a digit string, \<open>dec_val\<close>.
\<close>

section \<open>Parsing\<close>

text \<open>
  The digit loop shared by \<^verbatim>\<open>utils_textToInt\<close> and \<^verbatim>\<open>utils_textToUInt\<close>. The range test of the
  code looks at the product only: \<^verbatim>\<open>result += digit\<close> may still wrap.
\<close>

definition u64_max :: u64 where "u64_max = - 1"

fun text_digits :: "u64 \<Rightarrow> bytes \<Rightarrow> u64 option" where
  "text_digits result [] = Some result"
| "text_digits result (c # cs) =
     (if ch_0 \<le> c \<and> c \<le> ch_9
      then (if result > u64_max div 10 then None
            else text_digits (result * 10 + (ucast c - 48)) cs)
      else None)"

definition utils_textToUInt :: "bytes \<Rightarrow> u64 option" where
  "utils_textToUInt buffer = (if buffer = [] then None else text_digits 0 buffer)"

text \<open>\<^verbatim>\<open>INT64_MAX + (uint64_t)(sign == -1 ? 1 : 0)\<close> is \<open>2 ^ 63 - 1\<close> or \<open>2 ^ 63\<close>.\<close>

definition utils_textToInt :: "bytes \<Rightarrow> u64 option" where
  "utils_textToInt buffer =
     (case buffer of
        [] \<Rightarrow> None
      | c # cs \<Rightarrow>
          let neg = (c = ch_minus) in
          (case text_digits 0 (if neg then cs else buffer) of
             None \<Rightarrow> None
           | Some result \<Rightarrow>
               if result > 0x7FFFFFFFFFFFFFFF + (if neg then 1 else 0) then None
               else Some (if neg then 0 - result else result)))"

section \<open>Printing\<close>

text \<open>
  \<^verbatim>\<open>do { string[index] = '0' + data%10; data /= 10; index--; } while (index >= 0 && data > 0)\<close>:
  \<open>u2t_loop data n string\<close> is the loop entered with \<open>index = n - 1\<close>; it returns what is left
  of \<^verbatim>\<open>data\<close> and the value of \<^verbatim>\<open>index + 1\<close>.
\<close>

fun u2t_loop :: "u64 \<Rightarrow> nat \<Rightarrow> bytes \<Rightarrow> u64 \<times> nat \<times> bytes" where
  "u2t_loop data 0 string = (data, 0, string)"
| "u2t_loop data (Suc index) string =
     (let string' = string[index := ch_0 + ucast (data mod 10)];
          data' = data div 10
      in if 0 < index \<and> data' > 0 then u2t_loop data' index string'
         else (data', index, string'))"

definition utils_uintToText :: "u64 \<Rightarrow> bytes \<Rightarrow> nat \<times> bytes" where
  "utils_uintToText data string =
     (if length string = 0 then (0, string)
      else
        let (data', index, string') = u2t_loop data (length string) string in
        if data' > 0 then (0, string')
        else
          let result = length string - index in
          (result,
           if result < length string
           then drop index string' @ [0] @ drop (Suc result) string'
           else string'))"

definition int64_min_str :: bytes where
  "int64_min_str = [45, 57, 50, 50, 51, 51, 55, 50, 48, 51, 54, 56, 53, 52, 55, 55, 53, 56, 48, 56]"

definition utils_intToText :: "u64 \<Rightarrow> bytes \<Rightarrow> nat \<times> bytes" where
  "utils_intToText data string =
     (if sint data < 0 then
        (if length string = 0 then (0, string)
         else
           let string = string[0 := ch_minus] in
           if data = 0x8000000000000000 then
             (if length string \<le> length int64_min_str then (0, string)
              else (length int64_min_str,
                    int64_min_str @ [0] @ drop (Suc (length int64_min_str)) string))
           else
             let (result, rest) = utils_uintToText (- data) (tl string) in
             (if result \<noteq> 0 then result + 1 else result, hd string # rest))
      else utils_uintToText data string)"

text \<open>Printing a number after what a buffer of \<open>cap\<close> bytes already holds.\<close>

definition emit_int :: "nat \<Rightarrow> u64 \<Rightarrow> bytes \<Rightarrow> bytes option" where
  "emit_int cap v out =
     (let (n, s) = utils_intToText v (replicate (cap - length out) 0) in
      if n = 0 then None else Some (out @ take n s))"

section \<open>Object links\<close>

definition utils_textToObjLink :: "bytes \<Rightarrow> (u16 \<times> u16) option" where
  "utils_textToObjLink buffer =
     (let sep = length (takeWhile (\<lambda>c. c \<noteq> ch_colon) buffer) in
      if sep = 0 \<or> sep = length buffer then None
      else
        case utils_textToUInt (take sep buffer) of
          None \<Rightarrow> None
        | Some object \<Rightarrow>
            (case utils_textToUInt (drop (sep + 1) buffer) of
               None \<Rightarrow> None
             | Some instance \<Rightarrow>
                 if object > 0xFFFF \<or> instance > 0xFFFF then None
                 else Some (ucast object, ucast instance)))"

definition utils_objLinkToText :: "u16 \<Rightarrow> u16 \<Rightarrow> bytes \<Rightarrow> nat \<times> bytes" where
  "utils_objLinkToText objectId objectInstanceId string =
     (let (res, string) = utils_uintToText (ucast objectId) string in
      if res = 0 then (0, string)
      else if length string - res < 1 then (0, string)
      else
        let string = string[res := ch_colon];
            head = res + 1;
            (res, rest) = utils_uintToText (ucast objectInstanceId) (drop head string);
            string = take head string @ rest
        in if res = 0 then (0, string) else (head + res, string))"

section \<open>Reference: the value and the digits of a number\<close>

definition digit_val :: "u8 \<Rightarrow> nat" where
  "digit_val c = unat c - 48"

definition dec_val :: "bytes \<Rightarrow> nat" where
  "dec_val s = foldl (\<lambda>v c. 10 * v + digit_val c) 0 s"

fun dec_digits :: "nat \<Rightarrow> bytes" where
  "dec_digits n = (if n < 10 then [ch_0 + of_nat n] else dec_digits (n div 10) @ [ch_0 + of_nat (n mod 10)])"

declare dec_digits.simps [simp del]

lemma foldl_dec: "foldl (\<lambda>v c. 10 * v + digit_val c) v s = v * 10 ^ length s + dec_val s"
proof (induction s arbitrary: v)
  case Nil
  then show ?case by (simp add: dec_val_def)
next
  case (Cons c s)
  have "dec_val (c # s) = digit_val c * 10 ^ length s + dec_val s"
    using Cons [of "digit_val c"] by (simp add: dec_val_def)
  then show ?case using Cons [of "10 * v + digit_val c"] by (simp add: algebra_simps)
qed

lemma dec_val_simps [simp]: "dec_val [] = 0" "dec_val (s @ [c]) = 10 * dec_val s + digit_val c"
  by (simp_all add: dec_val_def)

lemma dec_val_Cons: "dec_val (c # s) = digit_val c * 10 ^ length s + dec_val s"
  using foldl_dec [of "digit_val c" s] by (simp add: dec_val_def)

lemma digit_char:
  assumes "d < 10"
  shows "is_digit8 (ch_0 + of_nat d)" and "digit_val (ch_0 + of_nat d) = d"
proof -
  have "unat (ch_0 + of_nat d) = 48 + d"
    using assms by (simp add: unat_word_ariths unat_of_nat)
  then show "is_digit8 (ch_0 + of_nat d)" and "digit_val (ch_0 + of_nat d) = d"
    using assms by (simp_all add: is_digit8_def digit_val_def word_le_nat_alt)
qed

lemma digit_val_less: "is_digit8 c \<Longrightarrow> digit_val c < 10"
  by (auto simp: is_digit8_def digit_val_def word_le_nat_alt)

lemma dec_digits_val [simp]: "dec_val (dec_digits n) = n"
proof (induction n rule: dec_digits.induct)
  case (1 n)
  show ?case
  proof (cases "n < 10")
    case True
    then show ?thesis by (subst dec_digits.simps) (simp add: dec_val_Cons digit_char)
  next
    case False
    with 1 show ?thesis by (subst dec_digits.simps) (simp add: digit_char)
  qed
qed

lemma dec_digits_all: "c \<in> set (dec_digits n) \<Longrightarrow> is_digit8 c"
proof (induction n rule: dec_digits.induct)
  case (1 n)
  show ?case
  proof (cases "n < 10")
    case True
    with "1.prems" show ?thesis by (subst (asm) dec_digits.simps) (auto simp: digit_char)
  next
    case False
    with 1 show ?thesis by (subst (asm) dec_digits.simps) (auto simp: digit_char)
  qed
qed

lemma dec_digits_not_Nil [simp]: "dec_digits n \<noteq> []"
  by (subst dec_digits.simps) simp

lemma dec_digits_bound: "n < 10 ^ k \<Longrightarrow> 0 < k \<Longrightarrow> length (dec_digits n) \<le> k"
proof (induction k arbitrary: n)
  case (Suc k)
  show ?case
  proof (cases "n < 10")
    case True
    then show ?thesis by (subst dec_digits.simps) simp
  next
    case False
    with Suc.prems have "0 < k" and "n div 10 < 10 ^ k" by (cases k; simp)+
    with Suc.IH have "length (dec_digits (n div 10)) \<le> k" by blast
    with False show ?thesis by (subst dec_digits.simps) simp
  qed
qed simp

section \<open>What the parsers accept\<close>

lemma unat_text_step:
  assumes "r \<le> u64_max div 10" and "is_digit8 c"
  shows "unat (r * 10 + (ucast c - 48) :: u64) = (unat r * 10 + digit_val c) mod 2 ^ 64"
proof -
  have "unat r \<le> 1844674407370955161"
    using assms(1) by (simp add: u64_max_def word_le_nat_alt)
  then have r: "unat (r * 10) = unat r * 10"
    by (simp add: unat_word_ariths)
  have "48 \<le> (ucast c :: u64)"
    using assms(2) by (simp add: is_digit8_def word_le_nat_alt)
  then have "unat (ucast c - 48 :: u64) = digit_val c"
    by (simp add: unat_sub digit_val_def)
  with r show ?thesis by (simp add: unat_word_ariths)
qed

lemma text_digits_Some:
  "text_digits r s = Some v \<Longrightarrow>
   list_all is_digit8 s \<and> unat v = (unat r * 10 ^ length s + dec_val s) mod 2 ^ 64"
proof (induction s arbitrary: r)
  case Nil
  then show ?case using unat_u64_less [of v] by simp
next
  case (Cons c s)
  then have c: "is_digit8 c" and r: "r \<le> u64_max div 10"
    and v: "text_digits (r * 10 + (ucast c - 48)) s = Some v"
    by (auto simp: is_digit8_def split: if_splits)
  have "unat v = ((unat r * 10 + digit_val c) mod 2 ^ 64 * 10 ^ length s + dec_val s) mod 2 ^ 64"
    using Cons.IH [OF v] by (simp add: unat_text_step [OF r c])
  also have "\<dots> = ((unat r * 10 + digit_val c) * 10 ^ length s + dec_val s) mod 2 ^ 64"
    by (rule mod_add_cong [OF _ refl]) (simp add: mod_mult_left_eq)
  finally show ?case
    using c Cons.IH [OF v] by (simp add: dec_val_Cons algebra_simps)
qed

lemma text_digits_exact:
  "list_all is_digit8 s \<Longrightarrow> unat r * 10 ^ length s + dec_val s < 2 ^ 64 \<Longrightarrow>
   text_digits r s = Some (of_nat (unat r * 10 ^ length s + dec_val s))"
proof (induction s arbitrary: r)
  case Nil
  then show ?case by simp
next
  case (Cons c s)
  define m where "m = unat r * 10 + digit_val c"
  have c: "is_digit8 c" using Cons.prems by simp
  have val: "unat r * 10 ^ length (c # s) + dec_val (c # s) = m * 10 ^ length s + dec_val s"
    by (simp add: m_def dec_val_Cons algebra_simps)
  have "m * 1 \<le> m * 10 ^ length s" by (rule mult_le_mono2) simp
  then have m: "m < 2 ^ 64" using Cons.prems(2) val by linarith
  then have r: "r \<le> u64_max div 10"
    by (simp add: m_def u64_max_def word_le_nat_alt)
  have "unat (r * 10 + (ucast c - 48) :: u64) = m"
    using m unat_text_step [OF r c] by (simp add: m_def)
  then have "text_digits (r * 10 + (ucast c - 48)) s = Some (of_nat (m * 10 ^ length s + dec_val s))"
    using Cons.IH [of "r * 10 + (ucast c - 48)"] Cons.prems val by simp
  then show ?case
    using c r val by (simp add: is_digit8_def)
qed

lemma textToUInt_exact:
  assumes "list_all is_digit8 s" and "s \<noteq> []" and "dec_val s < 2 ^ 64"
  shows "utils_textToUInt s = Some (of_nat (dec_val s))"
  using text_digits_exact [of s 0] assms by (simp add: utils_textToUInt_def)

section \<open>What the printers write\<close>

lemma u64_div_mod_10:
  "unat (data div 10 :: u64) = unat data div 10"
  "ch_0 + ucast (data mod 10 :: u64) = ch_0 + of_nat (unat data mod 10)"
proof -
  show "unat (data div 10 :: u64) = unat data div 10"
    by (simp add: unat_div_distrib)
  have "ucast (data mod 10) = (of_nat (unat (data mod 10)) :: u8)"
    by simp
  then show "ch_0 + ucast (data mod 10 :: u64) = ch_0 + of_nat (unat data mod 10)"
    by (simp add: unat_mod_distrib)
qed

lemma u2t_loop_fits:
  "0 < n \<Longrightarrow> n \<le> length string \<Longrightarrow> length (dec_digits (unat data)) \<le> n \<Longrightarrow>
   u2t_loop data n string =
     (0, n - length (dec_digits (unat data)),
      take (n - length (dec_digits (unat data))) string @ dec_digits (unat data) @ drop n string)"
proof (induction n arbitrary: data string)
  case (Suc i)
  define d where "d = unat data"
  show ?case
  proof (cases "d < 10")
    case True
    then have "data div 10 = 0"
      using u64_div_mod_10(1) [of data] by (simp add: d_def unat_eq_zero [symmetric])
    moreover have "string[i := c] = take i string @ [c] @ drop (Suc i) string" for c
      using Suc.prems(2) by (simp add: upd_conv_take_nth_drop)
    ultimately show ?thesis
      using True u64_div_mod_10(2) [of data] by (simp add: d_def dec_digits.simps [of "unat data"])
  next
    case False
    let ?D = "dec_digits (d div 10)"
    have D: "dec_digits d = ?D @ [ch_0 + of_nat (d mod 10)]"
      using False by (subst dec_digits.simps) simp
    have i: "0 < i" "length ?D \<le> i"
      using Suc.prems(3) False by (auto simp: d_def [symmetric] D intro: gr0I)
    have pos: "data div 10 > 0"
      using False by (simp add: word_less_nat_alt u64_div_mod_10(1) d_def)
    define string' where "string' = string[i := ch_0 + of_nat (d mod 10)]"
    have "u2t_loop (data div 10) i string' =
        (0, i - length ?D, take (i - length ?D) string' @ ?D @ drop i string')"
      using Suc.IH [of string' "data div 10"] i Suc.prems(2)
      by (simp add: u64_div_mod_10(1) d_def [symmetric] string'_def)
    moreover have "drop i string' = (ch_0 + of_nat (d mod 10)) # drop (Suc i) string"
      using Suc.prems(2) by (simp add: string'_def upd_conv_take_nth_drop)
    moreover have "take (i - length ?D) string' = take (i - length ?D) string"
      using i by (simp add: string'_def)
    ultimately show ?thesis
      using i pos D u64_div_mod_10(2) [of data]
      by (simp add: d_def [symmetric] string'_def [symmetric])
  qed
qed simp

lemma u2t_loop_too_small:
  "0 < n \<Longrightarrow> n \<le> length string \<Longrightarrow> n < length (dec_digits (unat data)) \<Longrightarrow>
   fst (u2t_loop data n string) > 0"
proof (induction n arbitrary: data string)
  case (Suc i)
  have ge: "\<not> unat data < 10"
    using Suc.prems(3) by (auto simp: dec_digits.simps [of "unat data"] split: if_splits)
  then have pos: "data div 10 > 0"
    by (simp add: word_less_nat_alt u64_div_mod_10(1))
  have "i < length (dec_digits (unat data div 10))"
    using Suc.prems(3) ge by (simp add: dec_digits.simps [of "unat data"])
  then show ?case
    using Suc.IH [of "string[i := ch_0 + ucast (data mod 10)]" "data div 10"] Suc.prems(2) pos
    by (auto simp: Let_def u64_div_mod_10(1))
qed simp

lemma uintToText_fits:
  assumes "length (dec_digits (unat data)) \<le> length string"
  shows "utils_uintToText data string =
    (length (dec_digits (unat data)),
     dec_digits (unat data) @
       (if length (dec_digits (unat data)) < length string
        then 0 # drop (Suc (length (dec_digits (unat data))))
          (snd (snd (u2t_loop data (length string) string)))
        else []))"
proof -
  have "0 < length string"
    using assms dec_digits_not_Nil [of "unat data"] by (cases string) auto
  with u2t_loop_fits [OF this order_refl assms] assms show ?thesis
    by (auto simp: utils_uintToText_def Let_def)
qed

lemma uintToText_too_small:
  "length string < length (dec_digits (unat data)) \<Longrightarrow> fst (utils_uintToText data string) = 0"
  using u2t_loop_too_small [of "length string" string data]
  by (cases "string = []") (auto simp: utils_uintToText_def split: prod.splits)

lemma length_u2t_loop: "length (snd (snd (u2t_loop data n string))) = length string"
  by (induction data n string rule: u2t_loop.induct) (auto simp: Let_def)

lemma u2t_loop_index: "fst (snd (u2t_loop data n string)) \<le> n"
  by (induction data n string rule: u2t_loop.induct) (auto simp: Let_def intro: le_SucI)

lemma length_uintToText: "length (snd (utils_uintToText data string)) = length string"
proof -
  obtain data' index string' where u: "u2t_loop data (length string) string = (data', index, string')"
    by (metis prod_cases3)
  then have "length string' = length string"
    using length_u2t_loop [of data "length string" string] by simp
  moreover have "index \<le> length string"
    using u2t_loop_index [of data "length string" string] u by simp
  ultimately show ?thesis using u by (auto simp: utils_uintToText_def Let_def)
qed

section \<open>Round trips\<close>

lemma uintToText_le: "fst (utils_uintToText data string) \<le> length string"
  using uintToText_fits [of data string] uintToText_too_small [of string data]
  by (cases "length (dec_digits (unat data)) \<le> length string") simp_all

lemma uintToText_result:
  assumes "utils_uintToText data string = (n, string')" and "0 < n"
  shows "take n string' = dec_digits (unat data)"
proof (cases "length (dec_digits (unat data)) \<le> length string")
  case True
  then show ?thesis using uintToText_fits [OF True] assms by auto
next
  case False
  then show ?thesis using uintToText_too_small [of string data] assms by simp
qed

lemma dec_digits_list_all [simp]: "list_all is_digit8 (dec_digits n)"
  by (simp add: list_all_iff dec_digits_all)

lemma textToUInt_digits [simp]: "utils_textToUInt (dec_digits (unat (data :: u64))) = Some data"
  using textToUInt_exact [of "dec_digits (unat data)"] unat_u64_less [of data] by simp

lemma hd_dec_digits: "hd (dec_digits n) \<noteq> ch_minus"
  using dec_digits_all [of "hd (dec_digits n)" n] by (auto simp: is_digit8_def)

lemma textToInt_digits:
  assumes "\<not> sint data < 0"
  shows "utils_textToInt (dec_digits (unat data)) = Some data"
proof -
  obtain c cs where D: "dec_digits (unat data) = c # cs"
    by (cases "dec_digits (unat data)") auto
  have "text_digits 0 (c # cs) = Some data"
    using textToUInt_digits [of data] by (simp add: utils_textToUInt_def D)
  moreover have "c \<noteq> ch_minus"
    using hd_dec_digits [of "unat data"] D by simp
  moreover have "data \<le> 0x7FFFFFFFFFFFFFFF"
    using assms by (simp add: sint_neg_iff word_le_nat_alt)
  ultimately show ?thesis
    by (simp add: utils_textToInt_def D not_less)
qed

lemma textToInt_minus_digits:
  assumes "sint data < 0"
  shows "utils_textToInt (ch_minus # dec_digits (unat (- data))) = Some data"
proof -
  have "text_digits 0 (dec_digits (unat (- data))) = Some (- data)"
    using textToUInt_digits [of "- data"] by (simp add: utils_textToUInt_def)
  moreover have "- data \<le> 0x8000000000000000"
  proof -
    have "2 ^ 63 \<le> unat data"
      using assms by (simp add: sint_neg_iff)
    then have "unat (- data) \<le> 2 ^ 63"
      by (simp add: unat_neg_u64)
    then show ?thesis by (simp add: word_le_nat_alt)
  qed
  ultimately show ?thesis by (simp add: utils_textToInt_def not_less)
qed

lemma intToText_result:
  assumes "utils_intToText data string = (n, string')" and "0 < n"
  shows "take n string' =
    (if sint data < 0 then ch_minus # dec_digits (unat (- data)) else dec_digits (unat data))"
proof (cases "sint data < 0")
  case False
  then show ?thesis
    using assms uintToText_result [of data string] by (simp add: utils_intToText_def)
next
  case True
  show ?thesis
  proof (cases "data = 0x8000000000000000")
    case True
    have "take n string' = int64_min_str"
      using assms True by (auto simp: utils_intToText_def Let_def split: if_splits)
    moreover have "int64_min_str = ch_minus # dec_digits 9223372036854775808"
      by (simp add: int64_min_str_def dec_digits.simps)
    ultimately show ?thesis using True by simp
  next
    case False
    obtain m rest where u: "utils_uintToText (- data) (tl string) = (m, rest)"
      by (cases "utils_uintToText (- data) (tl string)")
    have "n = Suc m" and "string' = ch_minus # rest" and "0 < m"
      using assms u True False
      by (cases string; auto simp: utils_intToText_def Let_def split: if_splits)+
    then show ?thesis
      using uintToText_result [OF u] True by simp
  qed
qed

lemma intToText_back:
  assumes "utils_intToText data string = (n, string')" and "0 < n"
  shows "utils_textToInt (take n string') = Some data"
  using intToText_result [OF assms] textToInt_digits [of data] textToInt_minus_digits [of data]
  by (auto split: if_splits)

lemma uintToText_back:
  assumes "utils_uintToText data string = (n, string')" and "0 < n"
  shows "utils_textToUInt (take n string') = Some data"
  using uintToText_result [OF assms] by simp

lemma dec_digits_u64: "0 < length (dec_digits (unat (d :: u64))) \<and> length (dec_digits (unat d)) \<le> 20"
  using dec_digits_bound [of "unat d" 20] unat_u64_less [of d] by simp

lemma uintToText_space: "20 \<le> length string \<Longrightarrow> 0 < fst (utils_uintToText data string)"
  using uintToText_fits [of data string] dec_digits_u64 [of data] by simp

lemma intToText_space: "21 \<le> length string \<Longrightarrow> 0 < fst (utils_intToText data string)"
  using uintToText_space [of "tl string" "- data"] uintToText_space [of string data]
  by (cases string) (auto simp: utils_intToText_def Let_def int64_min_str_def split: prod.splits)

lemma intToText_le:
  "fst (utils_intToText data string) \<le> length string \<and> length (snd (utils_intToText data string)) = length string"
proof (cases string)
  case (Cons c cs)
  then show ?thesis
    using uintToText_le [of "- data" cs] length_uintToText [of "- data" cs]
      uintToText_le [of data string] length_uintToText [of data string]
    by (auto simp: utils_intToText_def Let_def int64_min_str_def split: prod.splits)
qed (auto simp: utils_intToText_def utils_uintToText_def)

text \<open>Printing a number that is not negative.\<close>

lemma emit_int_nonneg:
  assumes "\<not> sint v < 0"
  shows "emit_int cap v out =
    (if length out + length (dec_digits (unat v)) \<le> cap then Some (out @ dec_digits (unat v)) else None)"
proof -
  let ?b = "replicate (cap - length out) 0 :: bytes" and ?d = "dec_digits (unat v)"
  have d: "0 < length ?d" using dec_digits_u64 [of v] by simp
  show ?thesis
  proof (cases "length ?d \<le> length ?b")
    case True
    then have "length out + length ?d \<le> cap" using d by (simp del: length_greater_0_conv)
    then show ?thesis
      using uintToText_fits [OF True] d assms by (auto simp: emit_int_def utils_intToText_def)
  next
    case False
    then have "fst (utils_uintToText v ?b) = 0" using uintToText_too_small [of ?b v] by simp
    then show ?thesis
      using False d assms by (auto simp: emit_int_def utils_intToText_def split: prod.splits)
  qed
qed

lemma emit_int_u16 [simp]:
  "emit_int cap (ucast (i :: u16)) out =
    (if length out + length (dec_digits (unat i)) \<le> cap then Some (out @ dec_digits (unat i)) else None)"
proof -
  have "unat i < 2 ^ 16" using unsigned_less [of i, where 'a = nat] by simp
  then have "\<not> sint (ucast i :: u64) < 0"
    by (simp add: sint_neg_iff)
  then show ?thesis by (simp add: emit_int_nonneg)
qed

section \<open>Properties\<close>

text \<open>
  C30: what \<^verbatim>\<open>utils_intToText\<close> prints, \<^verbatim>\<open>utils_textToInt\<close> reads back as the same 64-bit
  integer, whatever the buffer held before; the same for the unsigned pair.
\<close>

theorem int_text_roundtrip:
  "(0 < fst (utils_intToText data string) \<longrightarrow>
      utils_textToInt (take (fst (utils_intToText data string)) (snd (utils_intToText data string))) = Some data) \<and>
   (0 < fst (utils_uintToText data string) \<longrightarrow>
      utils_textToUInt (take (fst (utils_uintToText data string)) (snd (utils_uintToText data string))) = Some data)"
  using intToText_back [of data string] uintToText_back [of data string] by (auto simp: prod_eq_iff)

theorem int_text_roundtrip_witness:
  "utils_textToInt (take 4 (snd (utils_intToText (- 123) (replicate 6 0)))) = Some (- 123) \<and>
   utils_textToUInt (take 3 (snd (utils_uintToText 123 (replicate 3 0)))) = Some 123"
proof -
  have "fst (utils_intToText (- 123) (replicate 6 0)) = 4" "fst (utils_uintToText 123 (replicate 3 0)) = 3"
    by code_simp+
  then show ?thesis
    using int_text_roundtrip [of "- 123" "replicate 6 0"] int_text_roundtrip [of 123 "replicate 3 0"] by simp
qed

text \<open>
  a buffer of 20 bytes is enough for every unsigned 64-bit number and one of 21 for every
  signed one (with the terminator of \<^verbatim>\<open>INT64_MIN\<close>): the printers do not report failure there.
\<close>

theorem int_text_enough_space:
  assumes "20 \<le> length string" and "21 \<le> length string'"
  shows "0 < fst (utils_uintToText data string) \<and> 0 < fst (utils_intToText data' string')"
  using uintToText_space [OF assms(1)] intToText_space [OF assms(2)] by simp

theorem int_text_enough_space_witness:
  "0 < fst (utils_uintToText (- 1) (replicate 20 0)) \<and>
   0 < fst (utils_intToText 0x8000000000000000 (replicate 21 0))"
  by (rule int_text_enough_space) simp_all

text \<open>
  a non-empty string of digits whose value fits 64 bits is parsed as exactly that value, and
  whatever the parser accepts is a string of digits whose value it returns modulo \<open>2 ^ 64\<close>.
\<close>

theorem textToUInt_value:
  "(s \<noteq> [] \<and> list_all is_digit8 s \<and> dec_val s < 2 ^ 64 \<longrightarrow>
      utils_textToUInt s = Some (of_nat (dec_val s))) \<and>
   (\<forall>v. utils_textToUInt s = Some v \<longrightarrow>
      s \<noteq> [] \<and> list_all is_digit8 s \<and> unat v = dec_val s mod 2 ^ 64)"
  by (auto simp: textToUInt_exact) (auto simp: utils_textToUInt_def dest: text_digits_Some split: if_splits)

theorem textToUInt_value_witness: "utils_textToUInt [52, 50] = Some 42"
proof -
  have "dec_val [52, 50] = 42" by code_simp
  moreover have "list_all is_digit8 [52, 50]" by code_simp
  ultimately show ?thesis using textToUInt_value [of "[52, 50]"] by simp
qed

text \<open>
  the range test of the digit loop is incomplete. The text of \<open>2 ^ 64\<close> is accepted, as 0,
  and \<open>2 ^ 64\<close> followed by three more digits is accepted as those three digits, by the signed
  and the unsigned parser alike.
\<close>

theorem textToUInt_wraps:
  "utils_textToUInt [49, 56, 52, 52, 54, 55, 52, 52, 48, 55, 51, 55, 48, 57, 53, 53, 49, 54, 49, 54]
     = Some 0 \<and>
   utils_textToUInt
     [49, 56, 52, 52, 54, 55, 52, 52, 48, 55, 51, 55, 48, 57, 53, 53, 49, 54, 49, 54, 57, 57, 57]
     = Some 999 \<and>
   utils_textToInt
     [49, 56, 52, 52, 54, 55, 52, 52, 48, 55, 51, 55, 48, 57, 53, 53, 49, 54, 49, 54, 57, 57, 57]
     = Some 999"
  by code_simp

lemma takeWhile_digits:
  "takeWhile (\<lambda>c. c \<noteq> ch_colon) (dec_digits n @ ch_colon # s) = dec_digits n"
proof -
  have "c \<noteq> ch_colon" if "c \<in> set (dec_digits n)" for c
    using dec_digits_all [OF that] by (auto simp: is_digit8_def)
  then show ?thesis by (simp add: takeWhile_append)
qed

lemma textToObjLink_digits:
  "utils_textToObjLink (dec_digits (unat o1) @ ch_colon # dec_digits (unat i1)) = Some (o1, i1)"
proof -
  have "utils_textToUInt (dec_digits (unat x)) = Some (ucast x)" for x :: u16
    using textToUInt_digits [of "ucast x"] by simp
  moreover have "\<not> (ucast x :: u64) > 0xFFFF" for x :: u16
    using unsigned_less [of x, where 'a = nat] by (simp add: word_less_nat_alt)
  ultimately show ?thesis
    by (simp add: utils_textToObjLink_def takeWhile_digits)
qed

lemma textToObjLink_no_colon: "ch_colon \<notin> set s \<Longrightarrow> utils_textToObjLink s = None"
proof -
  assume "ch_colon \<notin> set s"
  then have "takeWhile (\<lambda>c. c \<noteq> ch_colon) s = s" by (auto simp: takeWhile_eq_all_conv)
  then show ?thesis unfolding utils_textToObjLink_def by (simp only: Let_def) simp
qed

lemma objLink_result:
  assumes "utils_objLinkToText o1 i1 string = (n, string')" and "0 < n"
  shows "take n string' = dec_digits (unat o1) @ ch_colon # dec_digits (unat i1)"
proof -
  obtain r1 s1 where u1: "utils_uintToText (ucast o1) string = (r1, s1)"
    by (cases "utils_uintToText (ucast o1) string")
  obtain r2 s2 where u2: "utils_uintToText (ucast i1) (drop (r1 + 1) (s1[r1 := ch_colon])) = (r2, s2)"
    by (cases "utils_uintToText (ucast i1) (drop (r1 + 1) (s1[r1 := ch_colon]))")
  have len: "length s1 = length string"
    using length_uintToText [of "ucast o1" string] u1 by simp
  have r: "0 < r1" "0 < r2" "r1 < length s1" and n: "n = r1 + 1 + r2"
    and s': "string' = take (r1 + 1) (s1[r1 := ch_colon]) @ s2"
    using assms u1 u2 len by (auto simp: utils_objLinkToText_def Let_def split: if_splits)
  have "take (r1 + 1) (s1[r1 := ch_colon]) = take r1 s1 @ [ch_colon]"
    using r(3) by (simp add: take_Suc_conv_app_nth)
  moreover have d: "take r1 s1 = dec_digits (unat o1)" "take r2 s2 = dec_digits (unat i1)"
    using uintToText_result [OF u1 r(1)] uintToText_result [OF u2 r(2)] by simp_all
  moreover have "length (dec_digits (unat o1)) = r1" using r(3) d(1) by (simp flip: d(1))
  ultimately show ?thesis using n s' by simp
qed

text \<open>
  an object link printed by \<^verbatim>\<open>utils_objLinkToText\<close> is read back by \<^verbatim>\<open>utils_textToObjLink\<close>.
\<close>

theorem objlink_roundtrip:
  assumes "utils_objLinkToText o1 i1 string = (n, string')" and "0 < n"
  shows "utils_textToObjLink (take n string') = Some (o1, i1)"
  using objLink_result [OF assms] textToObjLink_digits by simp

theorem objlink_roundtrip_witness:
  "utils_textToObjLink (take 4 (snd (utils_objLinkToText 3 42 (replicate 6 0)))) = Some (3, 42)"
proof -
  have "utils_objLinkToText 3 42 (replicate 6 0) =
      (4, snd (utils_objLinkToText 3 42 (replicate 6 0)))"
    by code_simp
  from objlink_roundtrip [OF this] show ?thesis by simp
qed

end
