(* ===== verification/Base64.thy ===== *)
theory Base64
  imports Prelude_C
begin

text \<open>
  Base64 (\<^verbatim>\<open>core/utils.c\<close>, lines 953 to 1119), used for opaque values in the text formats.

  The encoder and the decoder walk their input in groups of three and four characters; the model
  recurses on the input that is left. The decoder returns the size the code returns together with
  the bytes it has written to \<^verbatim>\<open>bufferP\<close> up to then, so that writes outside of the buffer show.
\<close>

section \<open>Encoding\<close>

definition b64Alphabet :: bytes where
  "b64Alphabet =
    [65, 66, 67, 68, 69, 70, 71, 72, 73, 74, 75, 76, 77, 78, 79, 80,
     81, 82, 83, 84, 85, 86, 87, 88, 89, 90, 97, 98, 99, 100, 101, 102,
     103, 104, 105, 106, 107, 108, 109, 110, 111, 112, 113, 114, 115, 116, 117, 118,
     119, 120, 121, 122, 48, 49, 50, 51, 52, 53, 54, 55, 56, 57, 43, 47]"

abbreviation (input) b64 :: "u8 \<Rightarrow> u8" where
  "b64 i \<equiv> b64Alphabet ! unat i"

definition prv_encodeBlock :: "u8 \<Rightarrow> u8 \<Rightarrow> u8 \<Rightarrow> bytes" where
  "prv_encodeBlock i0 i1 i2 =
    [b64 (drop_bit 2 i0),
     b64 (push_bit 4 (i0 AND 0x03) OR drop_bit 4 i1),
     b64 (push_bit 2 (i1 AND 0x0F) OR drop_bit 6 i2),
     b64 (i2 AND 0x3F)]"

definition utils_base64GetSize :: "nat \<Rightarrow> nat" where
  "utils_base64GetSize dataLen = 4 * (dataLen div 3) + (if dataLen mod 3 \<noteq> 0 then 4 else 0)"

fun b64_encode :: "bytes \<Rightarrow> bytes" where
  "b64_encode [] = []"
| "b64_encode [d0] =
     [b64 (drop_bit 2 d0), b64 (push_bit 4 (d0 AND 0x03)), ch_equals, ch_equals]"
| "b64_encode [d0, d1] =
     [b64 (drop_bit 2 d0), b64 (push_bit 4 (d0 AND 0x03) OR drop_bit 4 d1),
      b64 (push_bit 2 (d1 AND 0x0F)), ch_equals]"
| "b64_encode (d0 # d1 # d2 # ds) = prv_encodeBlock d0 d1 d2 @ b64_encode ds"

definition utils_base64Encode :: "bytes \<Rightarrow> nat \<Rightarrow> nat \<times> bytes" where
  "utils_base64Encode dataP bufferLen =
     (let result_len = utils_base64GetSize (length dataP) in
      if result_len > bufferLen then (0, []) else (result_len, b64_encode dataP))"

section \<open>Decoding\<close>

definition utils_base64GetDecodedSize :: "bytes \<Rightarrow> nat" where
  "utils_base64GetDecodedSize dataP =
     (let dataLen = length dataP; result = 3 * (dataLen div 4) in
      if dataLen mod 4 = 0 then
        (if result > 0 then
           (if dataP ! (dataLen - 2) = ch_equals then result - 2
            else if dataP ! (dataLen - 1) = ch_equals then result - 1
            else result)
         else result)
      else if dataLen mod 4 = 2 then result + 1
      else if dataLen mod 4 = 3 then result + 2
      else result)"

definition prv_base64Value :: "u8 \<Rightarrow> u8" where
  "prv_base64Value digit =
     (if digit \<ge> 65 \<and> digit \<le> 90 then digit - 65
      else if digit \<ge> 97 \<and> digit \<le> 122 then digit - 97 + 26
      else if digit \<ge> 48 \<and> digit \<le> 57 then digit - 48 + 52
      else if digit = 43 then 62
      else if digit = 47 then 63
      else 0xFF)"

text \<open>
  One turn of the loop reads two to four characters. The first component of the result is
  whether the loop reached the end of the input (otherwise the code has returned 0), the second
  is what has been written to \<^verbatim>\<open>bufferP\<close>; \<^verbatim>\<open>bufferIndex\<close> is the length of \<open>out\<close>.
\<close>

function b64_decode_loop :: "nat \<Rightarrow> bytes \<Rightarrow> bytes \<Rightarrow> bool \<times> bytes" where
  "b64_decode_loop decodedSize [] out = (True, out)"
| "b64_decode_loop decodedSize [c1] out = (False, out)"
| "b64_decode_loop decodedSize (c1 # c2 # rest) out =
     (let v1 = prv_base64Value c1; v2 = prv_base64Value c2 in
      if v1 \<ge> 64 then (False, out)
      else if v2 \<ge> 64 then (False, out)
      else
        let out = out @ [push_bit 2 v1 + drop_bit 4 v2] in
        case rest of
          [] \<Rightarrow> b64_decode_loop decodedSize [] out
        | c3 # rest3 \<Rightarrow>
            if c3 \<noteq> ch_equals then
              let v3 = prv_base64Value c3 in
              if v3 \<ge> 64 then (False, out)
              else
                let out = out @ [push_bit 4 v2 + drop_bit 2 v3] in
                case rest3 of
                  [] \<Rightarrow> b64_decode_loop decodedSize [] out
                | c4 # rest4 \<Rightarrow>
                    if c4 \<noteq> ch_equals then
                      let v4 = prv_base64Value c4 in
                      if v4 \<ge> 64 then (False, out)
                      else b64_decode_loop decodedSize rest4 (out @ [push_bit 6 v3 + v4])
                    else if length out \<noteq> decodedSize then (False, out)
                    else b64_decode_loop decodedSize rest4 out
            else if length out \<noteq> decodedSize then (False, out)
            else b64_decode_loop decodedSize (drop 1 rest3) out)"
  by pat_completeness auto
termination
  by (relation "measure (\<lambda>(d, s, out). length s)") auto

definition utils_base64Decode :: "bytes \<Rightarrow> nat \<Rightarrow> nat \<times> bytes" where
  "utils_base64Decode dataP bufferLen =
     (let decodedSize = utils_base64GetDecodedSize dataP in
      if decodedSize > bufferLen then (0, [])
      else
        case b64_decode_loop decodedSize dataP [] of
          (True, out) \<Rightarrow> (decodedSize, out)
        | (False, out) \<Rightarrow> (0, out))"

section \<open>Decoding undoes encoding\<close>

lemma b64_value:
  assumes "v < 64"
  shows "prv_base64Value (b64 v) = v" and "b64 v \<noteq> ch_equals"
proof -
  have "unat v \<in> set [0..<64]" using assms by (simp add: word_less_nat_alt)
  moreover have "\<forall>i \<in> set [0..<64]. prv_base64Value (b64Alphabet ! i) = of_nat i \<and>
    b64Alphabet ! i \<noteq> ch_equals"
    by code_simp
  ultimately show "prv_base64Value (b64 v) = v" and "b64 v \<noteq> ch_equals"
    by fastforce+
qed

text \<open>The four sextets of three bytes, and back.\<close>

lemma sextets_less:
  "drop_bit 2 (a::u8) < 64"
  "push_bit 4 (a AND 0x03) OR drop_bit 4 b < (64::u8)"
  "push_bit 2 (b AND 0x0F) OR drop_bit 6 c < (64::u8)"
  "(c::u8) AND 0x3F < 64"
  "push_bit 4 ((a::u8) AND 0x03) < 64"
  "push_bit 2 ((b::u8) AND 0x0F) < 64"
  by (rule low6; simp add: bit_simps)+

lemma sextets_join:
  "push_bit 2 (drop_bit 2 (a::u8)) + drop_bit 4 (push_bit 4 (a AND 0x03) OR drop_bit 4 b) = a"
  "push_bit 4 (push_bit 4 (a AND 0x03) OR drop_bit 4 (b::u8)) +
     drop_bit 2 (push_bit 2 (b AND 0x0F) OR drop_bit 6 c) = b"
  "push_bit 6 (push_bit 2 (b AND 0x0F) OR drop_bit 6 (c::u8)) + (c AND 0x3F) = c"
  "push_bit 2 (drop_bit 2 (a::u8)) + drop_bit 4 (push_bit 4 (a AND 0x03)) = a"
  "push_bit 4 (push_bit 4 (a AND 0x03) OR drop_bit 4 (b::u8)) +
     drop_bit 2 (push_bit 2 (b AND 0x0F)) = b"
  by (subst disjunctive_add_eq_or; rule byte_eqI; simp add: bit_simps)+

lemmas sextet_simps = b64_value [OF sextets_less(1)] b64_value [OF sextets_less(2)]
  b64_value [OF sextets_less(3)] b64_value [OF sextets_less(4)]
  b64_value [OF sextets_less(5)] b64_value [OF sextets_less(6)]

lemmas sextet_not_ge = sextets_less [THEN not_le [THEN iffD2]]

lemma decode_encode_loop:
  "decodedSize = length out + length ds \<Longrightarrow>
   b64_decode_loop decodedSize (b64_encode ds) out = (True, out @ ds)"
proof (induction ds arbitrary: out rule: b64_encode.induct)
  case 1
  then show ?case by simp
next
  case (2 d0)
  then show ?case
    by (simp add: sextet_simps sextet_not_ge sextets_join Let_def
        del: push_bit_and push_bit_or)
next
  case (3 d0 d1)
  then show ?case
    by (simp add: sextet_simps sextet_not_ge sextets_join Let_def
        del: push_bit_and push_bit_or)
next
  case (4 d0 d1 d2 ds)
  then show ?case
    by (simp add: prv_encodeBlock_def sextet_simps sextet_not_ge sextets_join Let_def
        del: push_bit_and push_bit_or)
qed

lemma length_b64_encode: "length (b64_encode ds) = utils_base64GetSize (length ds)"
  by (induction ds rule: b64_encode.induct)
    (auto simp: utils_base64GetSize_def prv_encodeBlock_def div_add_self1 mod_add_self1)

lemma decodedSize_step:
  "rest \<noteq> [] \<Longrightarrow> utils_base64GetDecodedSize (c1 # c2 # c3 # c4 # rest) =
    3 + utils_base64GetDecodedSize rest"
proof -
  assume "rest \<noteq> []"
  show ?thesis
  proof (cases "length rest < 4")
    case True
    then have "length rest = 0 \<or> length rest = 1 \<or> length rest = 2 \<or> length rest = 3" by arith
    then have "length rest \<in> {1, 2, 3}" using \<open>rest \<noteq> []\<close> by auto
    then show ?thesis by (auto simp: utils_base64GetDecodedSize_def Let_def)
  next
    case False
    then have L: "4 \<le> length rest" by simp
    have nth: "(c1 # c2 # c3 # c4 # rest) ! (length (c1 # c2 # c3 # c4 # rest) - j) =
        rest ! (length rest - j)" if "j \<le> 4" for j
      using that L nth_append_length_plus [of "[c1, c2, c3, c4]" rest "length rest - j"] by simp
    have "0 < length rest div 4" using L by (simp add: div_greater_zero_iff)
    then obtain q where q: "length rest div 4 = Suc q" using gr0_implies_Suc by blast
    have "length (c1 # c2 # c3 # c4 # rest) div 4 = Suc (Suc q)"
      and "length (c1 # c2 # c3 # c4 # rest) mod 4 = length rest mod 4"
      using q by simp_all
    then show ?thesis
      using nth [of 1] nth [of 2] q unfolding utils_base64GetDecodedSize_def Let_def by simp
  qed
qed

lemma decodedSize_short:
  "utils_base64GetDecodedSize [] = 0"
  "utils_base64GetDecodedSize [c1] = 0"
  "utils_base64GetDecodedSize [c1, c2] = 1"
  "utils_base64GetDecodedSize [c1, c2, c3] = 2"
  "utils_base64GetDecodedSize [c1, c2, c3, c4] =
    (if c3 = ch_equals then 1 else if c4 = ch_equals then 2 else 3)"
  by (simp_all add: utils_base64GetDecodedSize_def)

lemma decode_loop_bounds:
  "b64_decode_loop (length out + utils_base64GetDecodedSize s) s out = (ok, out') \<Longrightarrow>
   length out' \<le> length out + utils_base64GetDecodedSize s \<and>
   (ok \<longrightarrow> length out' = length out + utils_base64GetDecodedSize s)"
proof (induction s arbitrary: out rule: length_induct)
  case (1 s)
  consider "s = []" | c1 where "s = [c1]" | c1 c2 where "s = [c1, c2]"
    | c1 c2 c3 where "s = [c1, c2, c3]" | c1 c2 c3 c4 where "s = [c1, c2, c3, c4]"
    | c1 c2 c3 c4 r where "s = c1 # c2 # c3 # c4 # r" "r \<noteq> []"
    by (metis list.exhaust)
  then show ?case
  proof cases
    case 6
    show ?thesis
    proof (cases "fst (b64_decode_loop (length out + utils_base64GetDecodedSize s) s out) \<or>
        c3 \<noteq> ch_equals \<and> c4 \<noteq> ch_equals")
      case False
      then show ?thesis
        using "1.prems" 6 by (auto simp: Let_def decodedSize_step split: if_splits)
    next
      case True
      define D where "D = length out + utils_base64GetDecodedSize s"
      have D: "D = length (out @ [x, y, z]) + utils_base64GetDecodedSize r" for x y z
        using 6 by (simp add: D_def decodedSize_step)
      have IH: "b64_decode_loop D r (out @ [x, y, z]) = (ok, out') \<Longrightarrow>
          length out' \<le> D \<and> (ok \<longrightarrow> length out' = D)" for x y z
        using "1.IH" [rule_format, of r "out @ [x, y, z]"] 6(1) unfolding D [of x y z] by simp
      have neq: "Suc (length out) \<noteq> D" "Suc (Suc (length out)) \<noteq> D" "length out \<le> D"
        "Suc (length out) \<le> D" "Suc (Suc (length out)) \<le> D"
        using D by simp_all
      show ?thesis
        using "1.prems" True 6(1) IH neq unfolding D_def [symmetric]
        by (auto simp: Let_def split: if_splits)
    qed
  qed (use "1.prems" in \<open>auto simp: Let_def decodedSize_short split: if_splits\<close>)
qed

section \<open>Properties\<close>

text \<open>
  C31: the decoder reads back what the encoder wrote, when the buffer has room for the data.
\<close>

theorem base64_roundtrip:
  assumes "length ds \<le> bufferLen"
  shows "utils_base64Decode (b64_encode ds) bufferLen = (length ds, ds)"
proof -
  have "utils_base64GetDecodedSize (b64_encode ds) = length ds"
  proof (induction ds rule: b64_encode.induct)
    case (4 d0 d1 d2 ds)
    then show ?case
      by (cases ds rule: b64_encode.cases)
        (simp_all add: prv_encodeBlock_def decodedSize_step decodedSize_short sextet_simps
          del: push_bit_and push_bit_or)
  qed (simp_all add: decodedSize_short sextet_simps del: push_bit_and push_bit_or)
  then show ?thesis
    using assms decode_encode_loop [of "length ds" "[]" ds] by (simp add: utils_base64Decode_def)
qed

theorem base64_roundtrip_witness:
  "utils_base64Decode (b64_encode [77, 97, 110, 255]) 4 = (4, [77, 97, 110, 255])"
  using base64_roundtrip [of "[77, 97, 110, 255]" 4] by simp

text \<open>
  on any input the decoder writes at most \<^verbatim>\<open>bufferLen\<close> bytes, and the size it returns, when
  it is not 0, is the number of bytes it has written. The encoder writes the size it returns.
\<close>

theorem base64_bounds:
  "length (snd (utils_base64Decode dataP bufferLen)) \<le> bufferLen \<and>
   (fst (utils_base64Decode dataP bufferLen) = 0 \<or>
    fst (utils_base64Decode dataP bufferLen) = length (snd (utils_base64Decode dataP bufferLen))) \<and>
   fst (utils_base64Encode ds bufferLen) = length (snd (utils_base64Encode ds bufferLen)) \<and>
   length (snd (utils_base64Encode ds bufferLen)) \<le> bufferLen"
proof -
  obtain ok out where l: "b64_decode_loop (utils_base64GetDecodedSize dataP) dataP [] = (ok, out)"
    by (cases "b64_decode_loop (utils_base64GetDecodedSize dataP) dataP []")
  show ?thesis
    using decode_loop_bounds [of "[]" dataP ok out] l
    by (cases ok) (auto simp: utils_base64Decode_def utils_base64Encode_def Let_def length_b64_encode)
qed

end
