(* ===== verification/Data_Types.thy ===== *)
theory Data_Types
  imports Prelude_C
begin

text \<open>
  The data model of LWM2M values (\<^verbatim>\<open>include/liblwm2m.h\<close>, lines 336 to 394) and the build flags.

  \<^verbatim>\<open>lwm2m_data_t\<close> is a tagged union whose tag and content are separate fields: \<^verbatim>\<open>type\<close> says how
  \<^verbatim>\<open>value\<close> is to be read, but nothing keeps the two in step. The model keeps them separate too:
  \<open>dtype\<close> is the tag, \<open>dvalue\<close> what was last stored. Reading a member of the union other than the
  one that was stored is \<open>None\<close> (the code reads bytes of another type there). A zero-filled union
  (\<^verbatim>\<open>lwm2m_data_new\<close>) reads as the zero of every member.
\<close>

datatype lwm2m_data_type =
    LWM2M_TYPE_UNDEFINED
  | LWM2M_TYPE_OBJECT
  | LWM2M_TYPE_OBJECT_INSTANCE
  | LWM2M_TYPE_MULTIPLE_RESOURCE
  | LWM2M_TYPE_STRING
  | LWM2M_TYPE_OPAQUE
  | LWM2M_TYPE_INTEGER
  | LWM2M_TYPE_UNSIGNED_INTEGER
  | LWM2M_TYPE_FLOAT
  | LWM2M_TYPE_BOOLEAN
  | LWM2M_TYPE_OBJECT_LINK
  | LWM2M_TYPE_CORE_LINK

text \<open>\<^verbatim>\<open>asFloat\<close> holds the 64 bits of the IEEE double.\<close>

datatype lwm2m_data = Data (dtype: lwm2m_data_type) (did: u16) (dvalue: lwm2m_value)
and lwm2m_value =
    AsZero
  | AsBoolean bool
  | AsInteger u64
  | AsUnsigned u64
  | AsFloat u64
  | AsBuffer bytes
  | AsChildren "lwm2m_data list"
  | AsObjLink u16 u16

section \<open>Reading and writing the fields\<close>

fun as_buffer :: "lwm2m_value \<Rightarrow> bytes option" where
  "as_buffer AsZero = Some []"
| "as_buffer (AsBuffer b) = Some b"
| "as_buffer _ = None"

fun as_children :: "lwm2m_value \<Rightarrow> lwm2m_data list option" where
  "as_children AsZero = Some []"
| "as_children (AsChildren ds) = Some ds"
| "as_children _ = None"

fun as_integer :: "lwm2m_value \<Rightarrow> u64 option" where
  "as_integer AsZero = Some 0"
| "as_integer (AsInteger n) = Some n"
| "as_integer (AsUnsigned n) = Some n"
| "as_integer _ = None"

fun as_float :: "lwm2m_value \<Rightarrow> u64 option" where
  "as_float AsZero = Some 0"
| "as_float (AsFloat n) = Some n"
| "as_float _ = None"

fun as_boolean :: "lwm2m_value \<Rightarrow> bool option" where
  "as_boolean AsZero = Some False"
| "as_boolean (AsBoolean b) = Some b"
| "as_boolean _ = None"

fun as_objlink :: "lwm2m_value \<Rightarrow> (u16 \<times> u16) option" where
  "as_objlink AsZero = Some (0, 0)"
| "as_objlink (AsObjLink a b) = Some (a, b)"
| "as_objlink _ = None"

definition set_type :: "lwm2m_data_type \<Rightarrow> lwm2m_data \<Rightarrow> lwm2m_data" where
  "set_type t d = Data t (did d) (dvalue d)"

definition set_value :: "lwm2m_data_type \<Rightarrow> lwm2m_value \<Rightarrow> lwm2m_data \<Rightarrow> lwm2m_data" where
  "set_value t v d = Data t (did d) v"

definition set_id :: "u16 \<Rightarrow> lwm2m_data \<Rightarrow> lwm2m_data" where
  "set_id i d = Data (dtype d) i (dvalue d)"

lemma set_sel [simp]:
  "did (set_type t d) = did d" "dtype (set_type t d) = t" "dvalue (set_type t d) = dvalue d"
  "did (set_value t v d) = did d" "dtype (set_value t v d) = t" "dvalue (set_value t v d) = v"
  "did (set_id i d) = i" "dtype (set_id i d) = dtype d" "dvalue (set_id i d) = dvalue d"
  by (simp_all add: set_type_def set_value_def set_id_def)

text \<open>Tag and content agree, here and in every child.\<close>

fun value_ok :: "lwm2m_data_type \<Rightarrow> lwm2m_value \<Rightarrow> bool" where
  "value_ok LWM2M_TYPE_UNDEFINED v \<longleftrightarrow> True"
| "value_ok t (AsChildren _) \<longleftrightarrow>
     t = LWM2M_TYPE_OBJECT \<or> t = LWM2M_TYPE_OBJECT_INSTANCE \<or> t = LWM2M_TYPE_MULTIPLE_RESOURCE"
| "value_ok t (AsBuffer _) \<longleftrightarrow>
     t = LWM2M_TYPE_STRING \<or> t = LWM2M_TYPE_OPAQUE \<or> t = LWM2M_TYPE_CORE_LINK"
| "value_ok t (AsInteger _) \<longleftrightarrow> t = LWM2M_TYPE_INTEGER"
| "value_ok t (AsUnsigned _) \<longleftrightarrow> t = LWM2M_TYPE_UNSIGNED_INTEGER"
| "value_ok t (AsFloat _) \<longleftrightarrow> t = LWM2M_TYPE_FLOAT"
| "value_ok t (AsBoolean _) \<longleftrightarrow> t = LWM2M_TYPE_BOOLEAN"
| "value_ok t (AsObjLink _ _) \<longleftrightarrow> t = LWM2M_TYPE_OBJECT_LINK"
| "value_ok t AsZero \<longleftrightarrow> False"

definition tag_ok :: "lwm2m_data \<Rightarrow> bool" where
  "tag_ok d \<longleftrightarrow> value_ok (dtype d) (dvalue d)"

text \<open>\<^verbatim>\<open>sizeof(lwm2m_data_t)\<close> on a 64-bit platform: the tag, the number, and a 16-byte union.\<close>

definition sizeof_lwm2m_data :: nat where
  "sizeof_lwm2m_data = 24"

text \<open>\<^verbatim>\<open>lwm2m_data_new\<close>: \<open>None\<close> is the null pointer.\<close>

definition lwm2m_data_new :: "allocator \<Rightarrow> int \<Rightarrow> lwm2m_data list option" where
  "lwm2m_data_new mem n =
     (if n \<le> 0 then None
      else if mem (nat n * sizeof_lwm2m_data)
      then Some (replicate (nat n) (Data LWM2M_TYPE_UNDEFINED 0 AsZero))
      else None)"

section \<open>Content formats\<close>

datatype lwm2m_media_type =
    LWM2M_CONTENT_TEXT
  | LWM2M_CONTENT_LINK
  | LWM2M_CONTENT_OPAQUE
  | LWM2M_CONTENT_TLV_OLD
  | LWM2M_CONTENT_TLV
  | LWM2M_CONTENT_JSON_OLD
  | LWM2M_CONTENT_JSON
  | LWM2M_CONTENT_SENML_JSON

fun media_type_num :: "lwm2m_media_type \<Rightarrow> u16" where
  "media_type_num LWM2M_CONTENT_TEXT = 0"
| "media_type_num LWM2M_CONTENT_LINK = 40"
| "media_type_num LWM2M_CONTENT_OPAQUE = 42"
| "media_type_num LWM2M_CONTENT_TLV_OLD = 1542"
| "media_type_num LWM2M_CONTENT_TLV = 11542"
| "media_type_num LWM2M_CONTENT_JSON_OLD = 1543"
| "media_type_num LWM2M_CONTENT_JSON = 11543"
| "media_type_num LWM2M_CONTENT_SENML_JSON = 110"

text \<open>
  The preprocessor symbols the code tests: \<^verbatim>\<open>LWM2M_SUPPORT_TLV\<close>, \<^verbatim>\<open>LWM2M_SUPPORT_JSON\<close>,
  \<^verbatim>\<open>LWM2M_SUPPORT_SENML_JSON\<close>, \<^verbatim>\<open>LWM2M_OLD_CONTENT_FORMAT_SUPPORT\<close>, \<^verbatim>\<open>LWM2M_VERSION_1_0\<close>,
  \<^verbatim>\<open>LWM2M_LITTLE_ENDIAN\<close>, \<^verbatim>\<open>LWM2M_RAW_BLOCK1_REQUESTS\<close>.
\<close>

record build =
  support_tlv :: bool
  support_json :: bool
  support_senml :: bool
  old_formats :: bool
  version_1_0 :: bool
  little_endian :: bool
  raw_block1 :: bool

text \<open>The configuration of \<^verbatim>\<open>lwm2m/CMakeLists.txt\<close> with the default version 1.1.\<close>

definition client_build :: build where
  "client_build = \<lparr>support_tlv = False, support_json = True, support_senml = True,
    old_formats = False, version_1_0 = False, little_endian = True, raw_block1 = False\<rparr>"

end
