(* ===== verification/Formats.thy ===== *)
theory Formats
  imports Data_Types
begin

text \<open>
  The small decoders of \<^verbatim>\<open>core/utils.c\<close>: versions, bindings, content formats, the choice of the
  response format, alternative paths, and two buffer utilities.
\<close>

section \<open>Versions and bindings\<close>

datatype lwm2m_version = VERSION_MISSING | VERSION_UNRECOGNIZED | VERSION_1_0 | VERSION_1_1

definition utils_stringToVersion :: "bytes \<Rightarrow> lwm2m_version" where
  "utils_stringToVersion buffer =
     (if length buffer = 0 then VERSION_MISSING
      else if length buffer \<noteq> 3 then VERSION_UNRECOGNIZED
      else if buffer ! 1 \<noteq> ch_dot then VERSION_UNRECOGNIZED
      else if buffer ! 0 = 49 then
        (if buffer ! 2 = 48 then VERSION_1_0
         else if buffer ! 2 = 49 then VERSION_1_1
         else VERSION_UNRECOGNIZED)
      else VERSION_UNRECOGNIZED)"

abbreviation (input) BINDING_UNKNOWN :: u8 where "BINDING_UNKNOWN \<equiv> 0x01"
abbreviation (input) BINDING_U :: u8 where "BINDING_U \<equiv> 0x02"
abbreviation (input) BINDING_T :: u8 where "BINDING_T \<equiv> 0x04"
abbreviation (input) BINDING_S :: u8 where "BINDING_S \<equiv> 0x08"
abbreviation (input) BINDING_N :: u8 where "BINDING_N \<equiv> 0x10"
abbreviation (input) BINDING_Q :: u8 where "BINDING_Q \<equiv> 0x20"

text \<open>The characters are \<^verbatim>\<open>'N'\<close> 78, \<^verbatim>\<open>'Q'\<close> 81, \<^verbatim>\<open>'S'\<close> 83, \<^verbatim>\<open>'T'\<close> 84 and \<^verbatim>\<open>'U'\<close> 85.\<close>

definition binding_bit :: "u8 \<Rightarrow> u8 option" where
  "binding_bit c =
     (if c = 78 then Some BINDING_N
      else if c = 81 then Some BINDING_Q
      else if c = 83 then Some BINDING_S
      else if c = 84 then Some BINDING_T
      else if c = 85 then Some BINDING_U
      else None)"

fun binding_loop :: "u8 \<Rightarrow> bytes \<Rightarrow> u8" where
  "binding_loop binding [] = binding"
| "binding_loop binding (c # cs) =
     (case binding_bit c of
        Some b \<Rightarrow> binding_loop (binding OR b) cs
      | None \<Rightarrow> BINDING_UNKNOWN)"

definition binding_1_0 :: "bytes \<Rightarrow> u8" where
  "binding_1_0 buffer =
     (if length buffer = 0 then BINDING_UNKNOWN
      else if buffer ! 0 = 85 then
        (if length buffer = 1 then BINDING_U
         else if length buffer = 2 then
           (if buffer ! 1 = 81 then BINDING_U OR BINDING_Q
            else if buffer ! 1 = 83 then BINDING_U OR BINDING_S
            else BINDING_UNKNOWN)
         else if length buffer = 3 then
           (if buffer ! 1 = 81 \<and> buffer ! 2 = 83 then BINDING_U OR BINDING_Q OR BINDING_S
            else BINDING_UNKNOWN)
         else BINDING_UNKNOWN)
      else if buffer ! 0 = 83 then
        (if length buffer = 1 then BINDING_S
         else if length buffer = 2 then
           (if buffer ! 1 = 81 then BINDING_S OR BINDING_Q else BINDING_UNKNOWN)
         else BINDING_UNKNOWN)
      else BINDING_UNKNOWN)"

definition utils_stringToBinding :: "build \<Rightarrow> bytes \<Rightarrow> u8" where
  "utils_stringToBinding cfg buffer =
     (if version_1_0 cfg then binding_1_0 buffer else binding_loop BINDING_UNKNOWN buffer)"

section \<open>Content formats\<close>

text \<open>
  The numbers: \<^verbatim>\<open>TEXT_PLAIN\<close> 0, \<^verbatim>\<open>APPLICATION_LINK_FORMAT\<close> 40, \<^verbatim>\<open>APPLICATION_OCTET_STREAM\<close> 42,
  and those of \<open>media_type_num\<close>. The argument is the CoAP option's value, cast to 16 bits.
\<close>

definition utils_convertMediaType :: "build \<Rightarrow> u32 \<Rightarrow> lwm2m_media_type" where
  "utils_convertMediaType cfg type =
     (let t = (ucast type :: u16) in
      if t = 0 then LWM2M_CONTENT_TEXT
      else if t = 42 then LWM2M_CONTENT_OPAQUE
      else if old_formats cfg \<and> t = 1542 then LWM2M_CONTENT_TLV_OLD
      else if t = 11542 then LWM2M_CONTENT_TLV
      else if old_formats cfg \<and> t = 1543 then LWM2M_CONTENT_JSON_OLD
      else if t = 11543 then LWM2M_CONTENT_JSON
      else if t = 110 then LWM2M_CONTENT_SENML_JSON
      else if t = 40 then LWM2M_CONTENT_LINK
      else LWM2M_CONTENT_TEXT)"

text \<open>One turn of the loop over the Accept options: the format if this one is found acceptable.\<close>

definition accept_one :: "build \<Rightarrow> bool \<Rightarrow> u16 \<Rightarrow> lwm2m_media_type option" where
  "accept_one cfg singular a =
     (if a = 0 then (if singular then Some LWM2M_CONTENT_TEXT else None)
      else if a = 42 then (if singular then Some LWM2M_CONTENT_OPAQUE else None)
      else if support_tlv cfg \<and> old_formats cfg \<and> a = 1542 then Some LWM2M_CONTENT_TLV_OLD
      else if support_tlv cfg \<and> a = 11542 then Some LWM2M_CONTENT_TLV
      else if support_json cfg \<and> old_formats cfg \<and> a = 1543 then Some LWM2M_CONTENT_JSON_OLD
      else if support_json cfg \<and> a = 11543 then Some LWM2M_CONTENT_JSON
      else if support_senml cfg \<and> a = 110 then Some LWM2M_CONTENT_SENML_JSON
      else None)"

fun accept_loop :: "build \<Rightarrow> bool \<Rightarrow> u16 list \<Rightarrow> lwm2m_media_type option" where
  "accept_loop cfg singular [] = None"
| "accept_loop cfg singular (a # as) =
     (case accept_one cfg singular a of Some f \<Rightarrow> Some f | None \<Rightarrow> accept_loop cfg singular as)"

definition response_singular :: "lwm2m_data list \<Rightarrow> bool \<Rightarrow> bool" where
  "response_singular dataP singleResource =
     (if length dataP = 1 then
        (case dtype (dataP ! 0) of
           LWM2M_TYPE_OBJECT \<Rightarrow> False
         | LWM2M_TYPE_OBJECT_INSTANCE \<Rightarrow> False
         | LWM2M_TYPE_MULTIPLE_RESOURCE \<Rightarrow> False
         | _ \<Rightarrow> singleResource)
      else singleResource)"

definition utils_getResponseFormat ::
  "build \<Rightarrow> u16 list \<Rightarrow> lwm2m_data list \<Rightarrow> bool \<Rightarrow> u8 \<times> lwm2m_media_type" where
  "utils_getResponseFormat cfg accept dataP singleResource =
     (let singular = response_singular dataP singleResource in
      if length accept > 0 then
        (case accept_loop cfg singular accept of
           Some f \<Rightarrow> (COAP_205_CONTENT, f)
         | None \<Rightarrow> (COAP_406_NOT_ACCEPTABLE, LWM2M_CONTENT_TEXT))
      else if support_senml cfg then (COAP_205_CONTENT, LWM2M_CONTENT_SENML_JSON)
      else if support_json cfg then (COAP_205_CONTENT, LWM2M_CONTENT_JSON)
      else if support_tlv cfg then (COAP_205_CONTENT, LWM2M_CONTENT_TLV)
      else (COAP_500_INTERNAL_SERVER_ERROR, LWM2M_CONTENT_TEXT))"

section \<open>Alternative paths and buffers\<close>

text \<open>The characters \<^verbatim>\<open>A-Z a-z 0-9 - . _ ~ %\<close>.\<close>

definition alt_path_char :: "u8 \<Rightarrow> bool" where
  "alt_path_char c \<longleftrightarrow>
     \<not> ((c < 65 \<or> c > 90) \<and> (c < 97 \<or> c > 122) \<and> (c < 48 \<or> c > 57) \<and>
        c \<noteq> 45 \<and> c \<noteq> 46 \<and> c \<noteq> 95 \<and> c \<noteq> 126 \<and> c \<noteq> 37)"

fun alt_path_loop :: "bytes \<Rightarrow> bool" where
  "alt_path_loop [] = True"
| "alt_path_loop (c # cs) =
     (if c = ch_slash then False else if \<not> alt_path_char c then False else alt_path_loop cs)"

definition utils_isAltPathValid :: "bytes option \<Rightarrow> bool" where
  "utils_isAltPathValid altPath =
     (case altPath of
        None \<Rightarrow> False
      | Some [] \<Rightarrow> False
      | Some (c # cs) \<Rightarrow> if c \<noteq> ch_slash then False else alt_path_loop cs)"

text \<open>The copy writes as much as fits before it finds that the buffer is too small.\<close>

definition utils_stringCopy :: "bytes \<Rightarrow> bytes \<Rightarrow> int \<times> bytes" where
  "utils_stringCopy buffer str =
     (let i = min (length buffer) (length str) in
      if i = length buffer then (-1, take i str)
      else (int i, take i str @ [0] @ drop (Suc i) buffer))"

definition utils_copyValue :: "build \<Rightarrow> bytes \<Rightarrow> bytes" where
  "utils_copyValue cfg src = (if little_endian cfg then rev src else src)"

section \<open>What they decide\<close>

lemma binding_loop_bits:
  "(if \<exists>c \<in> set s. binding_bit c = None then binding_loop b s = BINDING_UNKNOWN
    else \<forall>k. bit (binding_loop b s) k \<longleftrightarrow> bit b k \<or> (\<exists>c \<in> set s. \<exists>m. binding_bit c = Some m \<and> bit m k))"
  by (induction s arbitrary: b) (auto simp: bit_or_iff split: option.splits if_splits)

lemma accept_loop_first:
  "accept_loop cfg singular as = Some f \<longleftrightarrow>
   (\<exists>i < length as. accept_one cfg singular (as ! i) = Some f \<and>
     (\<forall>j < i. accept_one cfg singular (as ! j) = None))"
proof (induction as)
  case (Cons a as)
  show ?case
  proof (cases "accept_one cfg singular a")
    case None
    then show ?thesis
      by (auto simp: Cons Ex_less_Suc2 All_less_Suc2)
  next
    case (Some g)
    then show ?thesis
      by (auto simp: Ex_less_Suc2 All_less_Suc2)
  qed
qed simp

lemma accept_loop_None: "accept_loop cfg singular as = None \<longleftrightarrow> (\<forall>a \<in> set as. accept_one cfg singular a = None)"
  by (induction as) (auto split: option.splits)

lemma accept_one_num: "accept_one cfg singular a = Some f \<Longrightarrow> a = media_type_num f"
  by (auto simp: accept_one_def split: if_splits)

lemma alt_path_loop_all: "alt_path_loop s \<longleftrightarrow> (\<forall>c \<in> set s. c \<noteq> ch_slash \<and> alt_path_char c)"
  by (induction s) auto

text \<open>What the client can answer with, for a single resource or not: the contract of the choice.\<close>

fun acceptable :: "build \<Rightarrow> bool \<Rightarrow> lwm2m_media_type \<Rightarrow> bool" where
  "acceptable cfg singular LWM2M_CONTENT_TEXT \<longleftrightarrow> singular"
| "acceptable cfg singular LWM2M_CONTENT_OPAQUE \<longleftrightarrow> singular"
| "acceptable cfg singular LWM2M_CONTENT_LINK \<longleftrightarrow> False"
| "acceptable cfg singular LWM2M_CONTENT_TLV_OLD \<longleftrightarrow> support_tlv cfg \<and> old_formats cfg"
| "acceptable cfg singular LWM2M_CONTENT_TLV \<longleftrightarrow> support_tlv cfg"
| "acceptable cfg singular LWM2M_CONTENT_JSON_OLD \<longleftrightarrow> support_json cfg \<and> old_formats cfg"
| "acceptable cfg singular LWM2M_CONTENT_JSON \<longleftrightarrow> support_json cfg"
| "acceptable cfg singular LWM2M_CONTENT_SENML_JSON \<longleftrightarrow> support_senml cfg"

lemma accept_one_acceptable:
  "accept_one cfg singular a = Some f \<longleftrightarrow> a = media_type_num f \<and> acceptable cfg singular f"
  by (cases f) (auto simp: accept_one_def)

lemma accept_one_refused:
  "accept_one cfg singular a = None \<longleftrightarrow> (\<nexists>g. a = media_type_num g \<and> acceptable cfg singular g)"
  using accept_one_acceptable[of cfg singular a] by (cases "accept_one cfg singular a") auto

text \<open>
  C32: with Accept options present, the answer is 2.05 in format f exactly when f is the format of the
  first Accept option that the client can answer with; with none acceptable it is 4.06.
\<close>
theorem response_format_first_acceptable:
  assumes "accept \<noteq> []"
  shows "(utils_getResponseFormat cfg accept ds single = (COAP_205_CONTENT, f) \<longleftrightarrow>
           (\<exists>i < length accept. accept ! i = media_type_num f \<and>
              acceptable cfg (response_singular ds single) f \<and>
              (\<nexists>j g. j < i \<and> accept ! j = media_type_num g \<and>
                 acceptable cfg (response_singular ds single) g))) \<and>
         (fst (utils_getResponseFormat cfg accept ds single) = COAP_406_NOT_ACCEPTABLE \<longleftrightarrow>
           (\<nexists>g. media_type_num g \<in> set accept \<and> acceptable cfg (response_singular ds single) g))"
proof -
  let ?s = "response_singular ds single"
  have eq: "utils_getResponseFormat cfg accept ds single =
      (case accept_loop cfg ?s accept of
         Some f \<Rightarrow> (COAP_205_CONTENT, f) | None \<Rightarrow> (COAP_406_NOT_ACCEPTABLE, LWM2M_CONTENT_TEXT))"
    using assms by (simp add: utils_getResponseFormat_def Let_def)
  have first: "utils_getResponseFormat cfg accept ds single = (COAP_205_CONTENT, f) \<longleftrightarrow>
      accept_loop cfg ?s accept = Some f"
    unfolding eq by (cases "accept_loop cfg ?s accept") simp_all
  have none: "fst (utils_getResponseFormat cfg accept ds single) = COAP_406_NOT_ACCEPTABLE \<longleftrightarrow>
      accept_loop cfg ?s accept = None"
    unfolding eq by (cases "accept_loop cfg ?s accept") simp_all
  show ?thesis
    unfolding first none accept_loop_first accept_loop_None accept_one_acceptable accept_one_refused
    by blast
qed

theorem response_format_first_acceptable_witness:
  "utils_getResponseFormat client_build [0, 11542, 11543, 110] [] False =
     (COAP_205_CONTENT, LWM2M_CONTENT_JSON) \<and>
   fst (utils_getResponseFormat client_build [0, 42] [] False) = COAP_406_NOT_ACCEPTABLE"
proof -
  have "\<nexists>g. media_type_num g \<in> set [0, 42] \<and> acceptable client_build (response_singular [] False) g"
  proof
    assume "\<exists>g. media_type_num g \<in> set [0, 42] \<and> acceptable client_build (response_singular [] False) g"
    then obtain g where "media_type_num g \<in> set [0, 42]"
      "acceptable client_build (response_singular [] False) g" by blast
    then show False by (cases g) (simp_all add: client_build_def response_singular_def)
  qed
  then have "fst (utils_getResponseFormat client_build [0, 42] [] False) = COAP_406_NOT_ACCEPTABLE"
    using response_format_first_acceptable[of "[0, 42]" client_build "[]" False] by blast
  then show ?thesis by code_simp
qed

text \<open>
  in a 1.1 build a binding string made of known letters yields the bits of its letters, and the
  UNKNOWN bit with them, because the loop starts from BINDING_UNKNOWN; any other letter yields
  UNKNOWN alone.
\<close>
theorem binding_bits_of_letters:
  "utils_stringToBinding (cfg\<lparr>version_1_0 := False\<rparr>) s =
     (if set s \<subseteq> {78, 81, 83, 84, 85}
      then BINDING_UNKNOWN OR (if 78 \<in> set s then BINDING_N else 0) OR (if 81 \<in> set s then BINDING_Q else 0)
        OR (if 83 \<in> set s then BINDING_S else 0) OR (if 84 \<in> set s then BINDING_T else 0)
        OR (if 85 \<in> set s then BINDING_U else 0)
      else BINDING_UNKNOWN)"
proof -
  have "binding_loop b s =
     (if set s \<subseteq> {78, 81, 83, 84, 85}
      then b OR (if 78 \<in> set s then BINDING_N else 0) OR (if 81 \<in> set s then BINDING_Q else 0)
        OR (if 83 \<in> set s then BINDING_S else 0) OR (if 84 \<in> set s then BINDING_T else 0)
        OR (if 85 \<in> set s then BINDING_U else 0)
      else BINDING_UNKNOWN)" for b
  proof (induction s arbitrary: b)
    case (Cons c s)
    show ?case
      unfolding binding_loop.simps Cons by (auto simp: binding_bit_def or.assoc or.left_commute or.commute)
  qed simp
  from this[of BINDING_UNKNOWN] show ?thesis by (simp add: utils_stringToBinding_def)
qed

end
