(* ===== verification/Uri.thy ===== *)
theory Uri
  imports Num_Text Data_Types
begin

text \<open>
  URIs (\<^verbatim>\<open>core/uri.c\<close>): the identifiers in a CoAP path (\<^verbatim>\<open>uri_decode\<close>), the text form
  \<^verbatim>\<open>/object/instance/resource/resource-instance\<close> and its printer.

  The accumulator of \<^verbatim>\<open>prv_parseNumber\<close> is a 32-bit signed \<^verbatim>\<open>int\<close>: where it would overflow, and
  where a byte past the end of the text is read, the result is \<open>None\<close>. A path is the list of its
  segments; \<^verbatim>\<open>altPath\<close> is a string that \<^verbatim>\<open>utils_isAltPathValid\<close> accepted (so ASCII), without its
  terminator.
\<close>

section \<open>State\<close>

record lwm2m_uri =
  objectId :: u16
  instanceId :: u16
  resourceId :: u16
  resourceInstanceId :: u16

abbreviation (input) LWM2M_MAX_ID :: u16 where "LWM2M_MAX_ID \<equiv> 0xFFFF"

definition uri_reset :: lwm2m_uri where
  "uri_reset = \<lparr>objectId = 0xFFFF, instanceId = 0xFFFF, resourceId = 0xFFFF, resourceInstanceId = 0xFFFF\<rparr>"

datatype uri_depth =
    URI_DEPTH_NONE | URI_DEPTH_OBJECT | URI_DEPTH_OBJECT_INSTANCE | URI_DEPTH_RESOURCE
  | URI_DEPTH_RESOURCE_INSTANCE

datatype lwm2m_request_type =
    LWM2M_REQUEST_TYPE_UNKNOWN | LWM2M_REQUEST_TYPE_DM | LWM2M_REQUEST_TYPE_REGISTRATION
  | LWM2M_REQUEST_TYPE_BOOTSTRAP | LWM2M_REQUEST_TYPE_DELETE_ALL

text \<open>A number is set only under a number that is set.\<close>

definition uri_ok :: "build \<Rightarrow> lwm2m_uri \<Rightarrow> bool" where
  "uri_ok cfg u \<longleftrightarrow>
     (objectId u = 0xFFFF \<longrightarrow> instanceId u = 0xFFFF) \<and>
     (instanceId u = 0xFFFF \<longrightarrow> resourceId u = 0xFFFF) \<and>
     (resourceId u = 0xFFFF \<or> version_1_0 cfg \<longrightarrow> resourceInstanceId u = 0xFFFF)"

fun utils_depthToDatatype :: "uri_depth \<Rightarrow> lwm2m_data_type" where
  "utils_depthToDatatype URI_DEPTH_OBJECT = LWM2M_TYPE_OBJECT"
| "utils_depthToDatatype URI_DEPTH_OBJECT_INSTANCE = LWM2M_TYPE_OBJECT_INSTANCE"
| "utils_depthToDatatype _ = LWM2M_TYPE_UNDEFINED"

section \<open>Numbers\<close>

text \<open>
  The loop, entered with the accumulator, \<^verbatim>\<open>*headP\<close>, and what is left of the text from there. It
  returns the number (-1 on a character that is no digit) and the new head.
\<close>

fun parse_number_loop :: "int \<Rightarrow> nat \<Rightarrow> bytes \<Rightarrow> (int \<times> nat) option" where
  "parse_number_loop result head [] = Some (result, head)"
| "parse_number_loop result head (c # cs) =
     (if c = ch_slash then Some (result, head)
      else if ch_0 \<le> c \<and> c \<le> ch_9 then
        (let result = result * 10 + (int (unat c) - 48) in
         if result > 2147483647 then None
         else parse_number_loop result (head + 1) cs)
      else Some (-1, head))"

definition prv_parseNumber :: "bytes \<Rightarrow> nat \<Rightarrow> (int \<times> nat) option" where
  "prv_parseNumber uriString head =
     (case rd uriString head of
        None \<Rightarrow> None
      | Some c \<Rightarrow>
          if c = ch_slash then Some (-1, head)
          else parse_number_loop 0 head (drop head uriString))"

definition uri_getNumber :: "bytes \<Rightarrow> int option" where
  "uri_getNumber uriString =
     (case prv_parseNumber uriString 0 of None \<Rightarrow> None | Some (n, _) \<Rightarrow> Some n)"

section \<open>Paths of CoAP requests\<close>

definition uri_error :: "lwm2m_request_type \<times> lwm2m_uri" where
  "uri_error = (LWM2M_REQUEST_TYPE_UNKNOWN, uri_reset)"

text \<open>
  \<^verbatim>\<open>readNum = uri_getNumber(...); if (readNum < 0 || readNum >= LWM2M_MAX_ID) goto error;\<close> and the
  rest of the function, given the number.
\<close>

definition read_segment ::
  "bytes \<Rightarrow> (u16 \<Rightarrow> (lwm2m_request_type \<times> lwm2m_uri) option) \<Rightarrow>
    (lwm2m_request_type \<times> lwm2m_uri) option" where
  "read_segment seg rest =
     (case uri_getNumber seg of
        None \<Rightarrow> None
      | Some readNum \<Rightarrow>
          if readNum < 0 \<or> readNum \<ge> 65535 then Some uri_error else rest (of_int readNum))"

definition decode_resource_instance ::
  "lwm2m_uri \<Rightarrow> bytes list \<Rightarrow> (lwm2m_request_type \<times> lwm2m_uri) option" where
  "decode_resource_instance u uriPath =
     (case uriPath of
        [] \<Rightarrow> Some (LWM2M_REQUEST_TYPE_DM, u)
      | seg # next \<Rightarrow>
          let last = (\<lambda>u. if next = [] then Some (LWM2M_REQUEST_TYPE_DM, u) else Some uri_error) in
          if length seg \<noteq> 0 then
            (if resourceId u = LWM2M_MAX_ID then Some uri_error
             else read_segment seg (\<lambda>n. last (u\<lparr>resourceInstanceId := n\<rparr>)))
          else last u)"

text \<open>What follows the resource segment: another number in version 1.1, the end in version 1.0.\<close>

definition decode_after_resource ::
  "build \<Rightarrow> lwm2m_uri \<Rightarrow> bytes list \<Rightarrow> (lwm2m_request_type \<times> lwm2m_uri) option" where
  "decode_after_resource cfg u next =
     (if version_1_0 cfg
      then (if next = [] then Some (LWM2M_REQUEST_TYPE_DM, u) else Some uri_error)
      else decode_resource_instance u next)"

definition decode_resource ::
  "build \<Rightarrow> lwm2m_uri \<Rightarrow> bytes list \<Rightarrow> (lwm2m_request_type \<times> lwm2m_uri) option" where
  "decode_resource cfg u uriPath =
     (case uriPath of
        [] \<Rightarrow> Some (LWM2M_REQUEST_TYPE_DM, u)
      | seg # next \<Rightarrow>
          if length seg \<noteq> 0 then
            (if instanceId u = LWM2M_MAX_ID then Some uri_error
             else read_segment seg (\<lambda>n. decode_after_resource cfg (u\<lparr>resourceId := n\<rparr>) next))
          else decode_after_resource cfg u next)"

definition decode_instance ::
  "build \<Rightarrow> lwm2m_uri \<Rightarrow> bytes list \<Rightarrow> (lwm2m_request_type \<times> lwm2m_uri) option" where
  "decode_instance cfg u uriPath =
     (case uriPath of
        [] \<Rightarrow> Some (LWM2M_REQUEST_TYPE_DM, u)
      | seg # next \<Rightarrow>
          if length seg \<noteq> 0
          then read_segment seg (\<lambda>n. decode_resource cfg (u\<lparr>instanceId := n\<rparr>) next)
          else decode_resource cfg u next)"

text \<open>The comparison of the first segment with \<^verbatim>\<open>altPath + 1\<close>, over the segment's length only.\<close>

fun alt_path_match :: "bytes \<Rightarrow> nat \<Rightarrow> bytes \<Rightarrow> bool option" where
  "alt_path_match altPath i [] = Some True"
| "alt_path_match altPath i (c # cs) =
     (case rd (altPath @ [0]) (i + 1) of
        None \<Rightarrow> None
      | Some a \<Rightarrow> if c \<noteq> a then Some False else alt_path_match altPath (i + 1) cs)"

abbreviation (input) COAP_DELETE :: u8 where "COAP_DELETE \<equiv> 4"

definition decode_dm ::
  "build \<Rightarrow> bytes list \<Rightarrow> u8 \<Rightarrow> (lwm2m_request_type \<times> lwm2m_uri) option" where
  "decode_dm cfg uriPath code =
     (case uriPath of
        [] \<Rightarrow> Some (if code = COAP_DELETE then LWM2M_REQUEST_TYPE_DELETE_ALL else LWM2M_REQUEST_TYPE_DM,
                   uri_reset)
      | seg # next \<Rightarrow>
          if length seg = 0
          then Some (if code = COAP_DELETE then LWM2M_REQUEST_TYPE_DELETE_ALL else LWM2M_REQUEST_TYPE_DM,
                     uri_reset)
          else read_segment seg (\<lambda>n. decode_instance cfg (uri_reset\<lparr>objectId := n\<rparr>) next))"

definition uri_decode ::
  "build \<Rightarrow> bytes option \<Rightarrow> bytes list \<Rightarrow> u8 \<Rightarrow> (lwm2m_request_type \<times> lwm2m_uri) option" where
  "uri_decode cfg altPath uriPath code =
     (if uriPath \<noteq> [] \<and> hd uriPath = [114, 100] then
        (case tl uriPath of
           [] \<Rightarrow> Some (LWM2M_REQUEST_TYPE_REGISTRATION, uri_reset)
         | seg # next \<Rightarrow>
             read_segment seg (\<lambda>n.
               if next \<noteq> [] then Some uri_error
               else Some (LWM2M_REQUEST_TYPE_REGISTRATION, uri_reset\<lparr>objectId := n\<rparr>)))
      else if uriPath \<noteq> [] \<and> hd uriPath = [98, 115] then
        (if tl uriPath \<noteq> [] then Some uri_error
         else Some (LWM2M_REQUEST_TYPE_BOOTSTRAP, uri_reset))
      else
        (case altPath of
           None \<Rightarrow> decode_dm cfg uriPath code
         | Some alt \<Rightarrow>
             (case uriPath of
                [] \<Rightarrow> Some uri_error
              | seg # next \<Rightarrow>
                  (case alt_path_match alt 0 seg of
                     None \<Rightarrow> None
                   | Some ok \<Rightarrow> if ok then decode_dm cfg next code else Some uri_error))))"

section \<open>The text form\<close>

text \<open>\<^verbatim>\<open>isspace\<close> in the C locale.\<close>

definition isspace :: "u8 \<Rightarrow> bool" where
  "isspace c \<longleftrightarrow> c = 32 \<or> (9 \<le> c \<and> c \<le> 13)"

text \<open>
  One number of the text form: read it, skip one slash after it when \<open>slash\<close>, and go on.
  The result of the whole parser is the returned length with the URI as the code leaves it.
\<close>

definition read_string ::
  "bytes \<Rightarrow> nat \<Rightarrow> bool \<Rightarrow> lwm2m_uri \<Rightarrow> (u16 \<Rightarrow> nat \<Rightarrow> (nat \<times> lwm2m_uri) option) \<Rightarrow>
    (nat \<times> lwm2m_uri) option" where
  "read_string buffer head slash u rest =
     (case prv_parseNumber buffer head of
        None \<Rightarrow> None
      | Some (readNum, head) \<Rightarrow>
          if readNum < 0 \<or> readNum \<ge> 65535 then Some (0, u)
          else rest (of_int readNum)
            (if slash \<and> head < length buffer \<and> buffer ! head = ch_slash then head + 1 else head))"

definition string_resource_instance :: "bytes \<Rightarrow> nat \<Rightarrow> lwm2m_uri \<Rightarrow> (nat \<times> lwm2m_uri) option" where
  "string_resource_instance buffer head u =
     (let last = (\<lambda>u head. if head \<noteq> length buffer then Some (0, u) else Some (head, u)) in
      if head < length buffer
      then read_string buffer head False u (\<lambda>n head. last (u\<lparr>resourceInstanceId := n\<rparr>) head)
      else last u head)"

definition string_resource :: "build \<Rightarrow> bytes \<Rightarrow> nat \<Rightarrow> lwm2m_uri \<Rightarrow> (nat \<times> lwm2m_uri) option" where
  "string_resource cfg buffer head u =
     (if head < length buffer
      then read_string buffer head (\<not> version_1_0 cfg) u (\<lambda>n head.
        if version_1_0 cfg
        then (if head \<noteq> length buffer then Some (0, u\<lparr>resourceId := n\<rparr>)
              else Some (head, u\<lparr>resourceId := n\<rparr>))
        else string_resource_instance buffer head (u\<lparr>resourceId := n\<rparr>))
      else Some (head, u))"

definition string_instance :: "build \<Rightarrow> bytes \<Rightarrow> nat \<Rightarrow> lwm2m_uri \<Rightarrow> (nat \<times> lwm2m_uri) option" where
  "string_instance cfg buffer head u =
     (if head < length buffer
      then read_string buffer head True u (\<lambda>n head. string_resource cfg buffer head (u\<lparr>instanceId := n\<rparr>))
      else Some (head, u))"

definition lwm2m_stringToUri :: "build \<Rightarrow> bytes \<Rightarrow> (nat \<times> lwm2m_uri) option" where
  "lwm2m_stringToUri cfg buffer =
     (let head = length (takeWhile isspace buffer) in
      if head = length buffer then Some (0, uri_reset)
      else if buffer ! head \<noteq> ch_slash then Some (0, uri_reset)
      else
        let head = head + 1 in
        if head < length buffer
        then read_string buffer head True uri_reset (\<lambda>n head.
          string_instance cfg buffer head (uri_reset\<lparr>objectId := n\<rparr>))
        else Some (head, uri_reset))"

text \<open>
  The printer. One segment: the room check (\<^verbatim>\<open>bufferLen - 1\<close> is a \<^verbatim>\<open>size_t\<close>, so it is huge for an empty
  buffer), the slash and the number. \<open>Inl\<close> is the error return, with the buffer as it is then.
\<close>

definition uri_segment :: "u16 \<Rightarrow> nat \<Rightarrow> bytes \<Rightarrow> (bytes + nat \<times> bytes) option" where
  "uri_segment ident head buffer =
     (if head \<ge> (if length buffer = 0 then 2 ^ 64 - 1 else length buffer - 1) then Some (Inl buffer)
      else if head \<ge> length buffer then None
      else
        let buffer = buffer[head := ch_slash];
            (res, rest) = utils_intToText (ucast ident) (drop (head + 1) buffer);
            buffer = take (head + 1) buffer @ rest
        in if res = 0 then Some (Inl buffer) else Some (Inr (head + 1 + res, buffer)))"

text \<open>A segment that is printed when its identifier is set, and what follows it.\<close>

definition print_segment ::
  "uri_depth \<Rightarrow> u16 \<Rightarrow> nat \<Rightarrow> bytes \<Rightarrow> uri_depth \<Rightarrow>
    (nat \<Rightarrow> bytes \<Rightarrow> uri_depth \<Rightarrow> (int \<times> bytes \<times> uri_depth option) option) \<Rightarrow>
    (int \<times> bytes \<times> uri_depth option) option" where
  "print_segment new_depth ident head buffer depth rest =
     (if ident \<noteq> LWM2M_MAX_ID then
        (case uri_segment ident head buffer of
           None \<Rightarrow> None
         | Some (Inl buffer) \<Rightarrow> Some (-1, buffer, None)
         | Some (Inr (head, buffer)) \<Rightarrow> rest head buffer new_depth)
      else Some (int head, buffer, Some depth))"

definition uri_toString ::
  "build \<Rightarrow> lwm2m_uri option \<Rightarrow> bytes \<Rightarrow> (int \<times> bytes \<times> uri_depth option) option" where
  "uri_toString cfg uriP buffer =
     (let finish = (\<lambda>head buffer depth. Some (int head, buffer, Some depth)) in
      case uriP of
        None \<Rightarrow> finish 0 buffer URI_DEPTH_NONE
      | Some u \<Rightarrow>
          if objectId u \<noteq> LWM2M_MAX_ID then
            print_segment URI_DEPTH_OBJECT (objectId u) 0 buffer URI_DEPTH_NONE (\<lambda>head buffer depth.
            print_segment URI_DEPTH_OBJECT_INSTANCE (instanceId u) head buffer depth (\<lambda>head buffer depth.
            print_segment URI_DEPTH_RESOURCE (resourceId u) head buffer depth (\<lambda>head buffer depth.
              if version_1_0 cfg then finish head buffer depth
              else print_segment URI_DEPTH_RESOURCE_INSTANCE (resourceInstanceId u) head buffer depth
                finish)))
          else if (if length buffer = 0 then 2 ^ 64 - 1 else length buffer - 1) = 0
          then Some (-1, buffer, None)
          else if length buffer = 0 then None
          else finish 1 (buffer[0 := ch_slash]) URI_DEPTH_NONE)"

section \<open>What the parsers read\<close>

lemma number_loop_digits:
  assumes "list_all is_digit8 ds" and "r * 10 ^ length ds + dec_val ds \<le> 2147483647"
    and "rest = [] \<or> hd rest = ch_slash"
  shows "parse_number_loop (int r) head (ds @ rest) =
    Some (int (r * 10 ^ length ds + dec_val ds), head + length ds)"
  using assms(1,2)
proof (induction ds arbitrary: r head)
  case Nil
  then show ?case using assms(3) by (cases rest) simp_all
next
  case (Cons c ds)
  let ?d = "unat c - 48"
  have c: "48 \<le> unat c" "unat c \<le> 57" "c \<noteq> ch_slash"
    using Cons.prems(1) by (auto simp: is_digit8_def word_le_nat_alt)
  have v: "(r * 10 + ?d) * 10 ^ length ds + dec_val ds = r * 10 ^ length (c # ds) + dec_val (c # ds)"
    by (simp add: dec_val_Cons digit_val_def algebra_simps)
  have le: "r * 10 + ?d \<le> (r * 10 + ?d) * 10 ^ length ds" by simp
  have small: "r * 10 + ?d \<le> 2147483647"
    using Cons.prems(2) le v by linarith
  have acc: "int r * 10 + (int (unat c) - 48) = int (r * 10 + ?d)" using c by (simp add: of_nat_diff)
  have ok: "\<not> int (r * 10 + ?d) > 2147483647" using small by linarith
  have "parse_number_loop (int r) head ((c # ds) @ rest) =
      parse_number_loop (int (r * 10 + ?d)) (head + 1) (ds @ rest)"
    using c(3) Cons.prems(1) ok
    by (simp only: append_Cons parse_number_loop.simps Let_def acc list.pred_inject is_digit8_def if_False if_True
        simp_thms)
  also have "\<dots> = Some (int ((r * 10 + ?d) * 10 ^ length ds + dec_val ds), head + 1 + length ds)"
    using Cons.prems v by (intro Cons.IH) auto
  finally show ?case using v by simp
qed

lemma dec_digits_hd: "\<exists>c cs. dec_digits n = c # cs \<and> is_digit8 c"
  by (cases "dec_digits n") (use dec_digits_all [of _ n] in auto)

lemma parseNumber_digits:
  assumes "n < 65535" and "rest = [] \<or> hd rest = ch_slash"
  shows "prv_parseNumber (pre @ dec_digits n @ rest) (length pre) =
    Some (int n, length pre + length (dec_digits n))"
proof -
  obtain c cs where c: "dec_digits n = c # cs" "is_digit8 c" using dec_digits_hd by blast
  have "c \<noteq> ch_slash" using c(2) by (auto simp: is_digit8_def)
  then have "prv_parseNumber (pre @ dec_digits n @ rest) (length pre) =
      parse_number_loop (int 0) (length pre) (dec_digits n @ rest)"
    using c(1) by (simp add: prv_parseNumber_def)
  then show ?thesis
    using assms number_loop_digits [of "dec_digits n" 0 rest "length pre"] by simp
qed

lemma getNumber_digits: "n < 65535 \<Longrightarrow> uri_getNumber (dec_digits n) = Some (int n)"
  using parseNumber_digits [of n "[]" "[]"] by (simp add: uri_getNumber_def)

lemma id_range:
  assumes "(i :: u16) \<noteq> 0xFFFF"
  shows "unat i < 65535" and "uint i < 65535"
proof -
  have "unat i \<noteq> 65535" using assms by (simp add: word_unat_eq_iff)
  then show "unat i < 65535" using unsigned_less [of i, where 'a = nat] by simp
  then show "uint i < 65535" unfolding uint_nat by linarith
qed

lemma read_segment_digits [simp]:
  "i \<noteq> 0xFFFF \<Longrightarrow> read_segment (dec_digits (unat (i :: u16))) rest = rest i"
  using id_range [of i] by (simp add: read_segment_def getNumber_digits not_le)

lemma of_int_id: "0 \<le> n \<Longrightarrow> n < 65535 \<Longrightarrow> (of_int n :: u16) \<noteq> 0xFFFF"
proof
  assume "0 \<le> n" "n < 65535" "(of_int n :: u16) = 0xFFFF"
  then have "uint (of_int n :: u16) = 65535" by simp
  with \<open>0 \<le> n\<close> \<open>n < 65535\<close> show False by (simp add: uint_word_of_int)
qed

lemma read_segment_Some:
  "read_segment seg rest = Some r \<Longrightarrow> r = uri_error \<or> (\<exists>n. n \<noteq> LWM2M_MAX_ID \<and> rest n = Some r)"
  by (simp add: read_segment_def split: option.splits if_splits) (metis of_int_id linorder_not_less)

section \<open>Identifiers come in order\<close>

fun id_segments :: "u16 list \<Rightarrow> bytes list" where
  "id_segments [] = []"
| "id_segments (i # ids) = (if i = LWM2M_MAX_ID then [] else dec_digits (unat i) # id_segments ids)"

definition uri_segments :: "lwm2m_uri \<Rightarrow> bytes list" where
  "uri_segments u = id_segments [objectId u, instanceId u, resourceId u, resourceInstanceId u]"

lemma uri_ok_reset [simp]: "uri_ok cfg uri_reset"
  by (simp add: uri_ok_def uri_reset_def)

lemma resource_instance_ok:
  assumes "decode_resource_instance u path = Some (t, v)" and "uri_ok cfg u" and "\<not> version_1_0 cfg"
  shows "uri_ok cfg v"
  using assms by (cases path) (auto simp: decode_resource_instance_def uri_error_def uri_ok_def uri_reset_def Let_def
      split: if_splits dest!: read_segment_Some)

lemma after_resource_ok:
  assumes "decode_after_resource cfg u path = Some (t, v)" and "uri_ok cfg u"
  shows "uri_ok cfg v"
  using assms resource_instance_ok [of u path t v cfg]
  by (auto simp: decode_after_resource_def uri_error_def split: if_splits)

lemma resource_ok:
  assumes "decode_resource cfg u path = Some (t, v)" and "uri_ok cfg u" and "resourceInstanceId u = 0xFFFF"
  shows "uri_ok cfg v"
proof -
  have "uri_ok cfg (u\<lparr>resourceId := n\<rparr>)" if "instanceId u \<noteq> 0xFFFF" for n
    using that assms(2,3) by (auto simp: uri_ok_def)
  then show ?thesis
    using assms(1,2) by (cases path) (auto simp: decode_resource_def uri_error_def split: if_splits
        dest!: read_segment_Some intro: after_resource_ok)
qed

lemma instance_ok:
  assumes "decode_instance cfg u path = Some (t, v)" and "objectId u \<noteq> 0xFFFF" and "instanceId u = 0xFFFF"
    and "resourceId u = 0xFFFF" and "resourceInstanceId u = 0xFFFF"
  shows "uri_ok cfg v"
proof -
  have u: "uri_ok cfg (u\<lparr>instanceId := n\<rparr>)" "uri_ok cfg u" for n
    using assms(2-5) by (simp_all add: uri_ok_def)
  have res: "uri_ok cfg v" if "decode_resource cfg (u\<lparr>instanceId := n\<rparr>) next = Some (t, v)" for n "next"
    using resource_ok [OF that u(1)] assms(5) by simp
  have res': "uri_ok cfg v" if "decode_resource cfg u next = Some (t, v)" for "next"
    using resource_ok [OF that u(2)] assms(5) by simp
  show ?thesis
    using assms(1) u(2) res res'
    by (cases path) (auto simp: decode_instance_def uri_error_def split: if_splits dest!: read_segment_Some)
qed

lemma dm_ok: "decode_dm cfg path code = Some (t, v) \<Longrightarrow> uri_ok cfg v"
  by (cases path) (auto simp: decode_dm_def uri_error_def uri_reset_def split: if_splits
      dest!: read_segment_Some intro: instance_ok uri_ok_reset [unfolded uri_reset_def])

text \<open>
  whatever the path, the URI that \<^verbatim>\<open>uri_decode\<close> leaves sets an identifier only under one that
  is set.
\<close>
theorem uri_decode_ok:
  assumes "uri_decode cfg altPath uriPath code = Some (requestType, u)"
  shows "uri_ok cfg u"
  using assms
  by (auto simp: uri_decode_def uri_error_def uri_ok_def uri_reset_def dest!: read_segment_Some
      dest: dm_ok [unfolded uri_ok_def] split: if_splits option.splits list.splits)


lemma decode_uri_segments:
  assumes "uri_ok cfg u" and "objectId u \<noteq> LWM2M_MAX_ID"
  shows "uri_decode cfg None (uri_segments u) code = Some (LWM2M_REQUEST_TYPE_DM, u)"
proof -
  have seg: "dec_digits n \<noteq> [114, 100]" "dec_digits n \<noteq> [98, 115]" for n
    using dec_digits_hd [of n] by (auto simp: is_digit8_def)
  have u: "u = \<lparr>objectId = objectId u, instanceId = instanceId u, resourceId = resourceId u,
      resourceInstanceId = resourceInstanceId u\<rparr>" by simp
  show ?thesis
    using assms
    by (subst (2) u) (auto simp: uri_ok_def uri_segments_def uri_decode_def seg decode_dm_def decode_instance_def
        decode_resource_def decode_after_resource_def decode_resource_instance_def uri_reset_def Let_def)
qed

text \<open>
  C22: the segments of a URI, as the numbers of a CoAP path, are decoded to that URI.
\<close>
theorem uri_decode_segments:
  assumes "uri_ok cfg u" and "objectId u \<noteq> LWM2M_MAX_ID"
  shows "uri_decode cfg None (uri_segments u) code = Some (LWM2M_REQUEST_TYPE_DM, u)"
  by (rule decode_uri_segments [OF assms])

text \<open>The text of a URI is its segments, each after a slash.\<close>

definition uri_text :: "bytes list \<Rightarrow> bytes" where
  "uri_text segs = concat (map ((#) ch_slash) segs)"

lemma uri_text_simps [simp]: "uri_text [] = []" "uri_text (s # segs) = ch_slash # s @ uri_text segs"
  by (simp_all add: uri_text_def)

lemma uri_text_hd: "uri_text segs = [] \<or> hd (uri_text segs) = ch_slash"
  by (cases segs) simp_all

lemma read_string_digits:
  assumes "i \<noteq> LWM2M_MAX_ID" and "buffer = pre @ dec_digits (unat i) @ uri_text segs" and "head = length pre"
  shows "read_string buffer head slash u rest =
    rest i (head + length (dec_digits (unat i)) + (if slash \<and> segs \<noteq> [] then 1 else 0))"
proof -
  have "prv_parseNumber buffer head = Some (int (unat i), head + length (dec_digits (unat i)))"
    using parseNumber_digits [of "unat i" "uri_text segs" pre] id_range [OF assms(1)] uri_text_hd assms(2,3)
    by simp
  then show ?thesis
    using id_range [OF assms(1)] assms(2,3)
    by (cases segs) (simp_all add: read_string_def not_le nth_append)
qed

lemma string_resource_instance_text:
  assumes "buffer = pre @ uri_text (id_segments [m])" and "resourceInstanceId u = LWM2M_MAX_ID"
    and "head = length pre + (if id_segments [m] \<noteq> [] then 1 else 0)"
  shows "string_resource_instance buffer head u = Some (length buffer, u\<lparr>resourceInstanceId := m\<rparr>)"
  using assms read_string_digits [of m buffer "pre @ [ch_slash]" "[]" head]
  by (cases "m = LWM2M_MAX_ID") (auto simp: string_resource_instance_def Let_def)

lemma string_resource_text:
  assumes "buffer = pre @ uri_text (id_segments [r, m])" and "resourceInstanceId u = LWM2M_MAX_ID"
    and "resourceId u = LWM2M_MAX_ID" and "r = LWM2M_MAX_ID \<or> version_1_0 cfg \<longrightarrow> m = LWM2M_MAX_ID"
    and "head = length pre + (if id_segments [r, m] \<noteq> [] then 1 else 0)"
  shows "string_resource cfg buffer head u =
    Some (length buffer, u\<lparr>resourceId := r, resourceInstanceId := m\<rparr>)"
proof (cases "r = LWM2M_MAX_ID")
  case True
  then show ?thesis using assms by (simp add: string_resource_def)
next
  case False
  let ?pre = "pre @ ch_slash # dec_digits (unat r)"
  have "read_string buffer head slash u rest =
      rest r (length ?pre + (if slash \<and> id_segments [m] \<noteq> [] then 1 else 0))" for slash rest
    using False assms(1,5) by (subst read_string_digits [of r _ "pre @ [ch_slash]" "id_segments [m]"]) simp_all
  moreover have "string_resource_instance buffer (length ?pre + (if id_segments [m] \<noteq> [] then 1 else 0))
      (u\<lparr>resourceId := r\<rparr>) = Some (length buffer, u\<lparr>resourceId := r, resourceInstanceId := m\<rparr>)"
    using False assms by (subst string_resource_instance_text [of _ ?pre m]) simp_all
  moreover have "head < length buffer" using False assms(1,5) dec_digits_hd [of "unat r"] by auto
  ultimately show ?thesis using False assms by (simp add: string_resource_def)
qed

lemma string_instance_text:
  assumes "buffer = pre @ uri_text (id_segments [i, r, m])" and "resourceInstanceId u = LWM2M_MAX_ID"
    and "resourceId u = LWM2M_MAX_ID" and "instanceId u = LWM2M_MAX_ID"
    and "r = LWM2M_MAX_ID \<or> version_1_0 cfg \<longrightarrow> m = LWM2M_MAX_ID" and "i = LWM2M_MAX_ID \<longrightarrow> r = LWM2M_MAX_ID"
    and "head = length pre + (if id_segments [i, r, m] \<noteq> [] then 1 else 0)"
  shows "string_instance cfg buffer head u =
    Some (length buffer, u\<lparr>instanceId := i, resourceId := r, resourceInstanceId := m\<rparr>)"
proof (cases "i = LWM2M_MAX_ID")
  case True
  then show ?thesis using assms by (simp add: string_instance_def)
next
  case False
  let ?pre = "pre @ ch_slash # dec_digits (unat i)"
  have "read_string buffer head True u rest =
      rest i (length ?pre + (if id_segments [r, m] \<noteq> [] then 1 else 0))" for rest
    using False assms(1,7) by (subst read_string_digits [of i _ "pre @ [ch_slash]" "id_segments [r, m]"]) simp_all
  moreover have "string_resource cfg buffer (length ?pre + (if id_segments [r, m] \<noteq> [] then 1 else 0))
      (u\<lparr>instanceId := i\<rparr>) =
      Some (length buffer, u\<lparr>instanceId := i, resourceId := r, resourceInstanceId := m\<rparr>)"
    using False assms by (subst string_resource_text [of _ ?pre r m]) simp_all
  moreover have "head < length buffer" using False assms(1,7) dec_digits_hd [of "unat i"] by auto
  ultimately show ?thesis by (simp add: string_instance_def)
qed

lemma stringToUri_text:
  assumes "uri_ok cfg u" and "objectId u \<noteq> LWM2M_MAX_ID"
  shows "lwm2m_stringToUri cfg (uri_text (uri_segments u)) = Some (length (uri_text (uri_segments u)), u)"
proof -
  obtain ob i r m where u: "u = \<lparr>objectId = ob, instanceId = i, resourceId = r, resourceInstanceId = m\<rparr>"
    by (cases u)
  let ?b = "uri_text (uri_segments u)" and ?pre = "ch_slash # dec_digits (unat ob)"
  have ob: "objectId u = ob" by (simp add: u)
  have b: "?b = ?pre @ uri_text (id_segments [i, r, m])"
    using assms(2) by (simp add: u uri_segments_def)
  have "read_string ?b 1 True v rest = rest ob (length ?pre + (if id_segments [i, r, m] \<noteq> [] then 1 else 0))"
    for v rest
    using assms(2) ob
    by (subst read_string_digits [of ob _ "[ch_slash]" "id_segments [i, r, m]"])
      (simp_all add: b del: id_segments.simps)
  moreover have "string_instance cfg ?b (length ?pre + (if id_segments [i, r, m] \<noteq> [] then 1 else 0))
      (uri_reset\<lparr>objectId := ob\<rparr>) = Some (length ?b, u)"
    using assms by (subst string_instance_text [OF b]) (auto simp: uri_reset_def uri_ok_def u)
  moreover have "takeWhile isspace ?b = []" "?b ! 0 = ch_slash" "1 < length ?b" "?b \<noteq> []"
    using dec_digits_hd [of "unat ob"] by (auto simp: b isspace_def)
  ultimately show ?thesis by (simp add: lwm2m_stringToUri_def Let_def)
qed


section \<open>What the printer writes\<close>

lemma uri_segment_Inr:
  assumes "uri_segment i head buffer = Some (Inr (head', buffer'))"
  shows "head' \<le> length buffer'" and
    "take head' buffer' = take head buffer @ ch_slash # dec_digits (unat i)"
proof -
  let ?b = "buffer[head := ch_slash]"
  obtain res rest where r: "utils_intToText (ucast i) (drop (head + 1) ?b) = (res, rest)"
    by (cases "utils_intToText (ucast i) (drop (head + 1) ?b)")
  have h: "head < length buffer" "res \<noteq> 0" "head' = head + 1 + res" "buffer' = take (head + 1) ?b @ rest"
    using assms r by (auto simp: uri_segment_def Let_def split: if_splits)
  have pos: "\<not> sint (ucast i :: u64) < 0"
    using unsigned_less [of i, where 'a = nat] by (simp add: sint_neg_iff)
  have t: "take res rest = dec_digits (unat i)"
    using intToText_result [OF r] h(2) pos by simp
  have "res \<le> length rest"
    using uintToText_le [of "ucast i" "drop (head + 1) ?b"] length_uintToText [of "ucast i" "drop (head + 1) ?b"]
      r pos by (simp add: utils_intToText_def)
  then show "head' \<le> length buffer'" using h by simp
  show "take head' buffer' = take head buffer @ ch_slash # dec_digits (unat i)"
    using h t by (simp add: take_Suc_conv_app_nth)
qed

lemma print_segment_cases:
  assumes "print_segment nd i head buffer d rest = Some (n, buffer', Some d')" and "head \<le> length buffer"
  shows "if i = LWM2M_MAX_ID then n = int head \<and> buffer' = buffer \<and> d' = d
    else \<exists>head1 buffer1. rest head1 buffer1 nd = Some (n, buffer', Some d') \<and> head1 \<le> length buffer1 \<and>
      take head1 buffer1 = take head buffer @ ch_slash # dec_digits (unat i)"
  using assms uri_segment_Inr [of i head buffer]
  by (fastforce simp: print_segment_def split: option.splits sum.splits if_splits)


text \<open>The three nested segments under the object, as one continuation after another.\<close>

definition print_below :: "build \<Rightarrow> lwm2m_uri \<Rightarrow> nat \<Rightarrow> bytes \<Rightarrow> uri_depth \<Rightarrow>
    (int \<times> bytes \<times> uri_depth option) option" where
  "print_below cfg u head buffer depth =
     print_segment URI_DEPTH_OBJECT_INSTANCE (instanceId u) head buffer depth (\<lambda>head buffer depth.
     print_segment URI_DEPTH_RESOURCE (resourceId u) head buffer depth (\<lambda>head buffer depth.
       if version_1_0 cfg then Some (int head, buffer, Some depth)
       else print_segment URI_DEPTH_RESOURCE_INSTANCE (resourceInstanceId u) head buffer depth
         (\<lambda>head buffer depth. Some (int head, buffer, Some depth))))"

lemma print_last_text:
  assumes "print_segment nd m head buffer d1 (\<lambda>head buffer depth. Some (int head, buffer, Some depth)) =
      Some (n, buffer', Some d)" and "head \<le> length buffer"
  shows "take (nat n) buffer' = take head buffer @ uri_text (id_segments [m]) \<and> 0 \<le> n"
  using print_segment_cases [OF assms] by (auto split: if_splits)

lemma print_resource_text:
  assumes "print_segment nd r head buffer d1 (\<lambda>head buffer depth.
        if version_1_0 cfg then Some (int head, buffer, Some depth)
        else print_segment ne m head buffer depth (\<lambda>head buffer depth. Some (int head, buffer, Some depth))) =
      Some (n, buffer', Some d)" and "head \<le> length buffer" and "r = LWM2M_MAX_ID \<or> version_1_0 cfg \<longrightarrow> m = LWM2M_MAX_ID"
  shows "take (nat n) buffer' = take head buffer @ uri_text (id_segments [r, m]) \<and> 0 \<le> n"
proof (cases "r = LWM2M_MAX_ID")
  case True
  then show ?thesis using print_segment_cases [OF assms(1,2)] by simp
next
  case False
  then obtain head1 buffer1 where 1: "(if version_1_0 cfg then Some (int head1, buffer1, Some nd)
        else print_segment ne m head1 buffer1 nd (\<lambda>head buffer depth. Some (int head, buffer, Some depth))) =
      Some (n, buffer', Some d)"
    "head1 \<le> length buffer1" "take head1 buffer1 = take head buffer @ ch_slash # dec_digits (unat r)"
    using print_segment_cases [OF assms(1,2)] by auto
  then show ?thesis
    using print_last_text [of ne m head1 buffer1 nd n buffer' d] assms(3) False
    by (cases "version_1_0 cfg") auto
qed

lemma print_below_text:
  assumes "print_below cfg u head buffer d1 = Some (n, buffer', Some d)" and "head \<le> length buffer"
    and "uri_ok cfg u"
  shows "take (nat n) buffer' =
    take head buffer @ uri_text (id_segments [instanceId u, resourceId u, resourceInstanceId u]) \<and> 0 \<le> n"
proof (cases "instanceId u = LWM2M_MAX_ID")
  case True
  then show ?thesis
    using print_segment_cases [OF assms(1) [unfolded print_below_def] assms(2)] by simp
next
  case False
  then obtain head1 buffer1 where 1:
    "print_segment URI_DEPTH_RESOURCE (resourceId u) head1 buffer1 URI_DEPTH_OBJECT_INSTANCE (\<lambda>head buffer depth.
       if version_1_0 cfg then Some (int head, buffer, Some depth)
       else print_segment URI_DEPTH_RESOURCE_INSTANCE (resourceInstanceId u) head buffer depth
         (\<lambda>head buffer depth. Some (int head, buffer, Some depth))) = Some (n, buffer', Some d)"
    "head1 \<le> length buffer1" "take head1 buffer1 = take head buffer @ ch_slash # dec_digits (unat (instanceId u))"
    using print_segment_cases [OF assms(1) [unfolded print_below_def] assms(2)] by auto
  show ?thesis
    using print_resource_text [OF 1(1,2)] 1(3) False assms(3) by (simp add: uri_ok_def)
qed

lemma toString_text:
  assumes "uri_toString cfg (Some u) buffer = Some (n, buffer', Some d)" and "uri_ok cfg u"
    and "objectId u \<noteq> LWM2M_MAX_ID"
  shows "take (nat n) buffer' = uri_text (uri_segments u) \<and> 0 \<le> n"
proof -
  have "print_segment URI_DEPTH_OBJECT (objectId u) 0 buffer URI_DEPTH_NONE (print_below cfg u) =
      Some (n, buffer', Some d)"
    using assms(1,3) by (simp add: uri_toString_def print_below_def [abs_def] Let_def)
  then obtain head1 buffer1 where 1: "print_below cfg u head1 buffer1 URI_DEPTH_OBJECT = Some (n, buffer', Some d)"
    "head1 \<le> length buffer1" "take head1 buffer1 = ch_slash # dec_digits (unat (objectId u))"
    using print_segment_cases [of URI_DEPTH_OBJECT "objectId u" 0 buffer URI_DEPTH_NONE "print_below cfg u"] assms(3)
    by auto
  show ?thesis
    using print_below_text [OF 1(1,2) assms(2)] 1(3) assms(3) by (simp add: uri_segments_def)
qed



theorem uri_decode_ok_witness:
  "uri_ok client_build (snd (the (uri_decode client_build None [[51], [48]] 1)))"
proof -
  have d: "uri_decode client_build None [[51], [48]] 1 = Some (LWM2M_REQUEST_TYPE_DM,
      \<lparr>objectId = 3, instanceId = 0, resourceId = 0xFFFF, resourceInstanceId = 0xFFFF\<rparr>)" by code_simp
  from uri_decode_ok [OF d] show ?thesis unfolding d by simp
qed

theorem uri_decode_segments_witness:
  "uri_decode client_build None [[49], [48], [52], [55]] 2 = Some (LWM2M_REQUEST_TYPE_DM,
     \<lparr>objectId = 1, instanceId = 0, resourceId = 4, resourceInstanceId = 7\<rparr>)"
proof -
  let ?u = "\<lparr>objectId = 1, instanceId = 0, resourceId = 4, resourceInstanceId = 7\<rparr>"
  have "uri_ok client_build ?u" by (simp add: uri_ok_def client_build_def)
  from uri_decode_segments [OF this, of 2] have "uri_decode client_build None (uri_segments ?u) 2 =
      Some (LWM2M_REQUEST_TYPE_DM, ?u)" by simp
  moreover have "uri_segments ?u = [[49], [48], [52], [55]]" by code_simp
  ultimately show ?thesis by simp
qed

text \<open>
  where the parsers are looser than the comments and the protocol say. A proper prefix of the
  alternative path is taken for it; the texts "/" and "/1/2/3/", which the header calls invalid, are
  accepted; a number above the range of \<^verbatim>\<open>int\<close> overflows before it is compared with the largest
  identifier.
\<close>
theorem uri_parsers_loose:
  "uri_decode client_build (Some [47, 108, 119, 109, 50, 109]) [[108, 119], [49]] 1 =
     Some (LWM2M_REQUEST_TYPE_DM, uri_reset\<lparr>objectId := 1\<rparr>) \<and>
   lwm2m_stringToUri client_build [47] = Some (1, uri_reset) \<and>
   lwm2m_stringToUri client_build [47, 49, 47, 50, 47, 51, 47] =
     Some (7, \<lparr>objectId = 1, instanceId = 2, resourceId = 3, resourceInstanceId = 0xFFFF\<rparr>) \<and>
   lwm2m_stringToUri client_build [47, 50, 49, 52, 55, 52, 56, 51, 54, 52, 56] = None"
  by code_simp

end
