(* ===== verification/Data_Values.thy ===== *)
theory Data_Values
  imports Num_Text Base64 Formats
begin

text \<open>
  Storing values in \<^verbatim>\<open>lwm2m_data_t\<close> and reading them back (\<^verbatim>\<open>data/data.c\<close>, lines 27 to 637): the
  \<^verbatim>\<open>lwm2m_data_encode_*\<close> and \<^verbatim>\<open>lwm2m_data_decode_*\<close> families, \<^verbatim>\<open>lwm2m_data_include\<close> and the
  plain-text serializer.

  A decoder returns \<open>None\<close> when it reads the union through a member that was not stored, \<open>Some None\<close>
  for \<^verbatim>\<open>0\<close> and \<open>Some (Some v)\<close> for \<^verbatim>\<open>1\<close> with the value. Doubles are their 64 bits; the conversions
  of C between integers, floats and doubles are written out on the bits (round to nearest even).
  The conversions between doubles and text (\<^verbatim>\<open>utils_floatToText\<close>, \<^verbatim>\<open>utils_textToFloat\<close>) are arguments.
\<close>

section \<open>Floating point conversions on the bits\<close>

text \<open>\<open>n / 2 ^ k\<close> rounded to the nearest integer, ties to even.\<close>

definition round_shift :: "nat \<Rightarrow> nat \<Rightarrow> nat" where
  "round_shift n k =
     (let q = n div 2 ^ k; r = n mod 2 ^ k in
      if k = 0 then n
      else if 2 * r > 2 ^ k \<or> (2 * r = 2 ^ k \<and> odd q) then q + 1 else q)"

fun top_bit :: "nat \<Rightarrow> nat" where
  "top_bit n = (if n < 2 then 0 else Suc (top_bit (n div 2)))"

declare top_bit.simps [simp del]

definition f64_sign :: "u64 \<Rightarrow> nat" where "f64_sign b = unat b div 2 ^ 63"
definition f64_exp :: "u64 \<Rightarrow> nat" where "f64_exp b = unat b div 2 ^ 52 mod 2 ^ 11"
definition f64_frac :: "u64 \<Rightarrow> nat" where "f64_frac b = unat b mod 2 ^ 52"

text \<open>\<^verbatim>\<open>(float)data\<close>\<close>

definition f64_to_f32 :: "u64 \<Rightarrow> u32" where
  "f64_to_f32 b =
     (let e = f64_exp b; m = f64_frac b;
          magnitude =
            (if e = 2047 then 255 * 2 ^ 23 + (if m = 0 then 0 else 2 ^ 22 + m div 2 ^ 29 mod 2 ^ 22)
             else if e > 896 then min (255 * 2 ^ 23) ((e - 896) * 2 ^ 23 + round_shift m 29)
             else round_shift (if e = 0 then m else 2 ^ 52 + m) (29 + (897 - max 1 e)))
      in of_nat (f64_sign b * 2 ^ 31 + magnitude))"

text \<open>\<^verbatim>\<open>double = float\<close>\<close>

definition f32_to_f64 :: "u32 \<Rightarrow> u64" where
  "f32_to_f64 b =
     (let s = unat b div 2 ^ 31; e = unat b div 2 ^ 23 mod 2 ^ 8; m = unat b mod 2 ^ 23;
          magnitude =
            (if e = 255 then 2047 * 2 ^ 52 + (if m = 0 then 0 else 2 ^ 51 + (m mod 2 ^ 22) * 2 ^ 29)
             else if e = 0 then
               (if m = 0 then 0
                else (top_bit m + 874) * 2 ^ 52 + (m - 2 ^ top_bit m) * 2 ^ (52 - top_bit m))
             else (e + 896) * 2 ^ 52 + m * 2 ^ 29)
      in of_nat (s * 2 ^ 63 + magnitude))"

text \<open>\<^verbatim>\<open>(double)n\<close> for a natural number below \<open>2 ^ 64\<close>, as the bits of the magnitude.\<close>

definition nat_to_f64 :: "nat \<Rightarrow> nat" where
  "nat_to_f64 n =
     (if n = 0 then 0
      else
        let k = top_bit n in
        (k + 1023) * 2 ^ 52 +
        (if k \<le> 52 then (n - 2 ^ k) * 2 ^ (52 - k) else round_shift n (k - 52) - 2 ^ 52))"

definition u64_to_f64 :: "u64 \<Rightarrow> u64" where
  "u64_to_f64 n = of_nat (nat_to_f64 (unat n))"

definition i64_to_f64 :: "u64 \<Rightarrow> u64" where
  "i64_to_f64 n =
     (if sint n < 0 then of_nat (2 ^ 63 + nat_to_f64 (unat (- n))) else of_nat (nat_to_f64 (unat n)))"

text \<open>\<^verbatim>\<open>(data < 0.0 - (double)FLT_MAX) || (data > (double)FLT_MAX)\<close>; comparisons with NaN are false.\<close>

definition f64_above_float :: "u64 \<Rightarrow> bool" where
  "f64_above_float b =
     (let a = unat b mod 2 ^ 63 in a > 0x47EFFFFFE0000000 \<and> a \<le> 0x7FF0000000000000)"

section \<open>Encoding\<close>

text \<open>The value of an object in memory, given its bytes in address order.\<close>

definition load_mem :: "build \<Rightarrow> bytes \<Rightarrow> nat" where
  "load_mem cfg bs = be_val (if little_endian cfg then rev bs else bs)"

text \<open>
  \<^verbatim>\<open>prv_setBuffer\<close>: when the allocation fails the buffer pointer is null; the length stored with it
  is stale, but every caller then either marks the value undefined or frees it.
\<close>

definition prv_setBuffer :: "allocator \<Rightarrow> bytes \<Rightarrow> lwm2m_data \<Rightarrow> bool \<times> lwm2m_data" where
  "prv_setBuffer mem buffer d =
     (if mem (length buffer) then (True, set_value (dtype d) (AsBuffer buffer) d)
      else (False, set_value (dtype d) (AsBuffer []) d))"

text \<open>A C string is its bytes before the terminator; \<open>None\<close> is the null pointer.\<close>

definition lwm2m_data_encode_string :: "allocator \<Rightarrow> bytes option \<Rightarrow> lwm2m_data \<Rightarrow> lwm2m_data" where
  "lwm2m_data_encode_string mem string d =
     (let s = (case string of None \<Rightarrow> [] | Some s \<Rightarrow> s);
          (res, d) = (if length s = 0 then (True, set_value (dtype d) (AsBuffer []) d)
                      else prv_setBuffer mem s d)
      in if res then set_type LWM2M_TYPE_STRING d else set_type LWM2M_TYPE_UNDEFINED d)"

definition lwm2m_data_encode_opaque :: "allocator \<Rightarrow> bytes \<Rightarrow> lwm2m_data \<Rightarrow> lwm2m_data" where
  "lwm2m_data_encode_opaque mem buffer d =
     (let (res, d) = (if length buffer = 0 then (True, set_value (dtype d) (AsBuffer []) d)
                      else prv_setBuffer mem buffer d)
      in if res then set_type LWM2M_TYPE_OPAQUE d else set_type LWM2M_TYPE_UNDEFINED d)"

definition lwm2m_data_encode_nstring :: "allocator \<Rightarrow> bytes \<Rightarrow> lwm2m_data \<Rightarrow> lwm2m_data" where
  "lwm2m_data_encode_nstring mem string d =
     (let d = lwm2m_data_encode_opaque mem string d in
      if dtype d = LWM2M_TYPE_OPAQUE then set_type LWM2M_TYPE_STRING d else d)"

definition lwm2m_data_encode_int :: "u64 \<Rightarrow> lwm2m_data \<Rightarrow> lwm2m_data" where
  "lwm2m_data_encode_int v d = set_value LWM2M_TYPE_INTEGER (AsInteger v) d"

definition lwm2m_data_encode_uint :: "u64 \<Rightarrow> lwm2m_data \<Rightarrow> lwm2m_data" where
  "lwm2m_data_encode_uint v d = set_value LWM2M_TYPE_UNSIGNED_INTEGER (AsUnsigned v) d"

definition lwm2m_data_encode_float :: "u64 \<Rightarrow> lwm2m_data \<Rightarrow> lwm2m_data" where
  "lwm2m_data_encode_float v d = set_value LWM2M_TYPE_FLOAT (AsFloat v) d"

definition lwm2m_data_encode_bool :: "bool \<Rightarrow> lwm2m_data \<Rightarrow> lwm2m_data" where
  "lwm2m_data_encode_bool v d = set_value LWM2M_TYPE_BOOLEAN (AsBoolean v) d"

definition lwm2m_data_encode_corelink :: "allocator \<Rightarrow> bytes option \<Rightarrow> lwm2m_data \<Rightarrow> lwm2m_data" where
  "lwm2m_data_encode_corelink mem corelink d =
     (let d = lwm2m_data_encode_string mem corelink d in
      if dtype d = LWM2M_TYPE_STRING then set_type LWM2M_TYPE_CORE_LINK d else d)"

definition lwm2m_data_encode_objlink :: "u16 \<Rightarrow> u16 \<Rightarrow> lwm2m_data \<Rightarrow> lwm2m_data" where
  "lwm2m_data_encode_objlink ob inst d = set_value LWM2M_TYPE_OBJECT_LINK (AsObjLink ob inst) d"

definition lwm2m_data_include :: "lwm2m_data list \<Rightarrow> lwm2m_data \<Rightarrow> lwm2m_data" where
  "lwm2m_data_include subData d =
     (case subData of
        [] \<Rightarrow> d
      | sub # _ \<Rightarrow>
          set_value
            (case dtype sub of
               LWM2M_TYPE_OBJECT_INSTANCE \<Rightarrow> LWM2M_TYPE_OBJECT
             | LWM2M_TYPE_OBJECT \<Rightarrow> LWM2M_TYPE_MULTIPLE_RESOURCE
             | LWM2M_TYPE_UNDEFINED \<Rightarrow> LWM2M_TYPE_MULTIPLE_RESOURCE
             | _ \<Rightarrow> LWM2M_TYPE_OBJECT_INSTANCE)
            (AsChildren subData) d)"

definition lwm2m_data_encode_instances :: "lwm2m_data list \<Rightarrow> lwm2m_data \<Rightarrow> lwm2m_data" where
  "lwm2m_data_encode_instances subData d =
     set_type LWM2M_TYPE_MULTIPLE_RESOURCE (lwm2m_data_include subData d)"

section \<open>Decoding\<close>

definition lwm2m_data_decode_int :: "build \<Rightarrow> lwm2m_data \<Rightarrow> u64 option option" where
  "lwm2m_data_decode_int cfg d =
     (case dtype d of
        LWM2M_TYPE_INTEGER \<Rightarrow> map_option Some (as_integer (dvalue d))
      | LWM2M_TYPE_UNSIGNED_INTEGER \<Rightarrow>
          map_option (\<lambda>v. if v \<le> 0x7FFFFFFFFFFFFFFF then Some v else None) (as_integer (dvalue d))
      | LWM2M_TYPE_STRING \<Rightarrow> map_option utils_textToInt (as_buffer (dvalue d))
      | LWM2M_TYPE_OPAQUE \<Rightarrow>
          map_option (\<lambda>b.
            let value = load_mem cfg (utils_copyValue cfg b) in
            if length b = 1 then Some (scast (b ! 0))
            else if length b = 2 then Some (scast (of_nat value :: u16))
            else if length b = 4 then Some (scast (of_nat value :: u32))
            else if length b = 8 then Some (of_nat value)
            else None) (as_buffer (dvalue d))
      | _ \<Rightarrow> Some None)"

definition lwm2m_data_decode_uint :: "build \<Rightarrow> lwm2m_data \<Rightarrow> u64 option option" where
  "lwm2m_data_decode_uint cfg d =
     (case dtype d of
        LWM2M_TYPE_INTEGER \<Rightarrow>
          map_option (\<lambda>v. if sint v \<ge> 0 then Some v else None) (as_integer (dvalue d))
      | LWM2M_TYPE_UNSIGNED_INTEGER \<Rightarrow> map_option Some (as_integer (dvalue d))
      | LWM2M_TYPE_STRING \<Rightarrow> map_option utils_textToUInt (as_buffer (dvalue d))
      | LWM2M_TYPE_OPAQUE \<Rightarrow>
          map_option (\<lambda>b.
            let value = load_mem cfg (utils_copyValue cfg b) in
            if length b = 1 then Some (ucast (b ! 0))
            else if length b = 2 then Some (ucast (of_nat value :: u16))
            else if length b = 4 then Some (ucast (of_nat value :: u32))
            else if length b = 8 then Some (of_nat value)
            else None) (as_buffer (dvalue d))
      | _ \<Rightarrow> Some None)"

definition lwm2m_data_decode_float ::
  "build \<Rightarrow> (bytes \<Rightarrow> bool \<Rightarrow> u64 option) \<Rightarrow> lwm2m_data \<Rightarrow> u64 option option" where
  "lwm2m_data_decode_float cfg textToFloat d =
     (case dtype d of
        LWM2M_TYPE_FLOAT \<Rightarrow> map_option Some (as_float (dvalue d))
      | LWM2M_TYPE_INTEGER \<Rightarrow> map_option (\<lambda>v. Some (i64_to_f64 v)) (as_integer (dvalue d))
      | LWM2M_TYPE_UNSIGNED_INTEGER \<Rightarrow> map_option (\<lambda>v. Some (u64_to_f64 v)) (as_integer (dvalue d))
      | LWM2M_TYPE_STRING \<Rightarrow> map_option (\<lambda>b. textToFloat b False) (as_buffer (dvalue d))
      | LWM2M_TYPE_OPAQUE \<Rightarrow>
          map_option (\<lambda>b.
            let value = load_mem cfg (utils_copyValue cfg b) in
            if length b = 4 then Some (f32_to_f64 (of_nat value))
            else if length b = 8 then Some (of_nat value)
            else None) (as_buffer (dvalue d))
      | _ \<Rightarrow> Some None)"

definition lwm2m_data_decode_bool :: "lwm2m_data \<Rightarrow> bool option option" where
  "lwm2m_data_decode_bool d =
     (case dtype d of
        LWM2M_TYPE_BOOLEAN \<Rightarrow> map_option Some (as_boolean (dvalue d))
      | LWM2M_TYPE_STRING \<Rightarrow>
          map_option (\<lambda>b. if length b \<noteq> 1 then None
            else if b ! 0 = 48 then Some False else if b ! 0 = 49 then Some True else None)
            (as_buffer (dvalue d))
      | LWM2M_TYPE_OPAQUE \<Rightarrow>
          map_option (\<lambda>b. if length b \<noteq> 1 then None
            else if b ! 0 = 0 then Some False else if b ! 0 = 1 then Some True else None)
            (as_buffer (dvalue d))
      | _ \<Rightarrow> Some None)"

section \<open>Plain text\<close>

text \<open>
  Result: what \<^verbatim>\<open>prv_textSerialize\<close> returns and the buffer it allocated, if any. \<open>stack\<close> is what the
  local arrays hold before they are written; \<open>floatToText\<close> is the text of a double that fits the given
  space, empty when it fails.
\<close>

definition text_number :: "allocator \<Rightarrow> nat \<times> bytes \<Rightarrow> int \<times> bytes option" where
  "text_number mem printed =
     (let (res, intString) = printed in
      if res = 0 then (-1, None)
      else if mem res then (int res, Some (take res intString))
      else (-1, None))"

definition text_objlink :: "allocator \<Rightarrow> bytes \<Rightarrow> u16 \<Rightarrow> u16 \<Rightarrow> int \<times> bytes option" where
  "text_objlink mem stack ob inst =
     (let stringBuffer = take 11 stack;
          (l, s) = utils_intToText (ucast ob) (take 5 stringBuffer);
          stringBuffer = s @ drop 5 stringBuffer
      in
      if l = 0 then (-1, None)
      else
        let stringBuffer = stringBuffer[5 := ch_colon];
            res = l + 1;
            (l, s) = utils_intToText (ucast inst) (take 5 (drop res stringBuffer));
            stringBuffer = take res stringBuffer @ s @ drop (res + 5) stringBuffer
        in
        if l = 0 then (-1, None)
        else if mem (res + l) then (int (res + l), Some (take (res + l) stringBuffer))
        else (-1, None))"

definition prv_textSerialize ::
  "allocator \<Rightarrow> (u64 \<Rightarrow> nat \<Rightarrow> bool \<Rightarrow> bytes) \<Rightarrow> bytes \<Rightarrow> lwm2m_data \<Rightarrow> (int \<times> bytes option) option" where
  "prv_textSerialize mem floatToText stack d =
     (let text = (\<lambda>b. if mem (length b) then (int (length b), Some b) else (0, None)) in
      case dtype d of
        LWM2M_TYPE_STRING \<Rightarrow> map_option text (as_buffer (dvalue d))
      | LWM2M_TYPE_CORE_LINK \<Rightarrow> map_option text (as_buffer (dvalue d))
      | LWM2M_TYPE_INTEGER \<Rightarrow>
          map_option (\<lambda>v. text_number mem (utils_intToText v (take 32 stack))) (as_integer (dvalue d))
      | LWM2M_TYPE_UNSIGNED_INTEGER \<Rightarrow>
          map_option (\<lambda>v. text_number mem (utils_uintToText v (take 32 stack))) (as_integer (dvalue d))
      | LWM2M_TYPE_FLOAT \<Rightarrow>
          map_option (\<lambda>v. let t = floatToText v 64 False in text_number mem (length t, t))
            (as_float (dvalue d))
      | LWM2M_TYPE_BOOLEAN \<Rightarrow>
          map_option (\<lambda>v. if mem 1 then (1, Some [if v then 49 else 48]) else (-1, None))
            (as_boolean (dvalue d))
      | LWM2M_TYPE_OBJECT_LINK \<Rightarrow>
          map_option (\<lambda>(ob, inst). text_objlink mem stack ob inst) (as_objlink (dvalue d))
      | LWM2M_TYPE_OPAQUE \<Rightarrow>
          map_option (\<lambda>b.
            let size = utils_base64GetSize (length b) in
            if \<not> mem size then (0, None)
            else
              let (length, out) = utils_base64Encode b size in
              if length = 0 then (0, None) else (int length, Some out)) (as_buffer (dvalue d))
      | _ \<Rightarrow> Some (-1, None))"

end
