(* ===== verification/Tlv.thy ===== *)
theory Tlv
  imports Data_Values
begin

text \<open>
  The TLV format (\<^verbatim>\<open>data/tlv.c\<close>): headers, the serializer with its length pass, the parser.

  \<^verbatim>\<open>int\<close> lengths are \<open>int\<close>: the sizes of a message stay far below \<open>2 ^ 31\<close>. The buffer the serializer
  allocates is the list of the bytes written to it, in order; the theorems show that there are never
  more of them than were allocated.
\<close>

section \<open>Headers\<close>

text \<open>The number in big-endian order, as \<^verbatim>\<open>utils_copyValue\<close> stores an integer of \<open>n\<close> bytes.\<close>

fun be_bytes :: "nat \<Rightarrow> nat \<Rightarrow> bytes" where
  "be_bytes 0 v = []"
| "be_bytes (Suc n) v = be_bytes n (v div 256) @ [of_nat v]"

text \<open>The bytes of an \<open>n\<close>-byte integer in memory.\<close>

definition store_mem :: "build \<Rightarrow> nat \<Rightarrow> nat \<Rightarrow> bytes" where
  "store_mem cfg n v = (if little_endian cfg then rev (be_bytes n v) else be_bytes n v)"

definition prv_encodeFloat :: "build \<Rightarrow> u64 \<Rightarrow> bytes" where
  "prv_encodeFloat cfg data =
     (if f64_above_float data then utils_copyValue cfg (store_mem cfg 8 (unat data))
      else utils_copyValue cfg (store_mem cfg 4 (unat (f64_to_f32 data))))"

definition prv_encodeInt :: "build \<Rightarrow> u64 \<Rightarrow> bytes" where
  "prv_encodeInt cfg data =
     (if - 128 \<le> sint data \<and> sint data \<le> 127 then [ucast data]
      else if - 32768 \<le> sint data \<and> sint data \<le> 32767 then
        (let v = (ucast data :: u16) in
         [ucast (signed_drop_bit 8 v AND 0xFF), ucast (v AND 0xFF)])
      else if - 2147483648 \<le> sint data \<and> sint data \<le> 2147483647
      then utils_copyValue cfg (store_mem cfg 4 (unat (ucast data :: u32)))
      else utils_copyValue cfg (store_mem cfg 8 (unat data)))"

definition prv_encodeUInt :: "build \<Rightarrow> u64 \<Rightarrow> bytes" where
  "prv_encodeUInt cfg data =
     (if data \<le> 0xFF then [ucast data]
      else if data \<le> 0xFFFF then
        (let v = (ucast data :: u16) in [ucast (drop_bit 8 v AND 0xFF), ucast (v AND 0xFF)])
      else if data \<le> 0xFFFFFFFF
      then utils_copyValue cfg (store_mem cfg 4 (unat (ucast data :: u32)))
      else utils_copyValue cfg (store_mem cfg 8 (unat data)))"

definition prv_getHeaderType :: "lwm2m_data_type \<Rightarrow> u8" where
  "prv_getHeaderType type =
     (case type of
        LWM2M_TYPE_OBJECT \<Rightarrow> 0x10
      | LWM2M_TYPE_OBJECT_INSTANCE \<Rightarrow> 0x00
      | LWM2M_TYPE_MULTIPLE_RESOURCE \<Rightarrow> 0x80
      | LWM2M_TYPE_UNDEFINED \<Rightarrow> 0xFF
      | _ \<Rightarrow> 0xC0)"

definition prv_getDataType :: "u8 \<Rightarrow> lwm2m_data_type" where
  "prv_getDataType type =
     (if type = 0x10 then LWM2M_TYPE_OBJECT
      else if type = 0x00 then LWM2M_TYPE_OBJECT_INSTANCE
      else if type = 0x80 then LWM2M_TYPE_MULTIPLE_RESOURCE
      else if type = 0xC0 \<or> type = 0x40 then LWM2M_TYPE_OPAQUE
      else LWM2M_TYPE_UNDEFINED)"

definition prv_getHeaderLength :: "u16 \<Rightarrow> nat \<Rightarrow> nat" where
  "prv_getHeaderLength ident dataLen =
     2 + (if ident > 0xFF then 1 else 0) +
     (if dataLen > 0xFFFF then 3 else if dataLen > 0xFF then 2 else if dataLen > 7 then 1 else 0)"

text \<open>
  The bytes \<^verbatim>\<open>prv_createHeader\<close> writes. Above \<^verbatim>\<open>0xFFFFFF\<close> it writes no length although
  \<^verbatim>\<open>prv_getHeaderLength\<close> counts three bytes for it, which stay uninitialised: \<open>None\<close>.
\<close>

definition prv_createHeader :: "bool \<Rightarrow> lwm2m_data_type \<Rightarrow> u16 \<Rightarrow> nat \<Rightarrow> bytes option" where
  "prv_createHeader isInstance type ident data_len =
     (let hdrType = (if isInstance then 0x40 else prv_getHeaderType type);
          h0 = hdrType AND 0xC0;
          (h0, idBytes) =
            (if ident > 0xFF then (h0 OR 0x20, [ucast (drop_bit 8 ident AND 0xFF), ucast (ident AND 0xFF)])
             else (h0, [ucast ident]))
      in
      if data_len \<le> 7 then Some ((h0 + of_nat data_len) # idBytes)
      else if data_len \<le> 0xFF then Some ((h0 OR 0x08) # idBytes @ [of_nat data_len])
      else if data_len \<le> 0xFFFF then
        Some ((h0 OR 0x10) # idBytes @ [of_nat (data_len div 2 ^ 8 mod 256), of_nat (data_len mod 256)])
      else if data_len \<le> 0xFFFFFF then
        Some ((h0 OR 0x18) # idBytes @
          [of_nat (data_len div 2 ^ 16 mod 256), of_nat (data_len div 2 ^ 8 mod 256), of_nat (data_len mod 256)])
      else None)"

text \<open>The result: the size of the whole TLV, its type, number, and where its data starts and how long it is.\<close>

type_synonym tlv_header = "nat \<times> lwm2m_data_type \<times> u16 \<times> nat \<times> nat"

definition decode_TLV_end :: "bytes \<Rightarrow> lwm2m_data_type \<Rightarrow> u16 \<Rightarrow> nat \<Rightarrow> nat \<Rightarrow> tlv_header option" where
  "decode_TLV_end buffer oType oID oDataIndex oDataLen =
     (if oDataIndex + oDataLen > length buffer then None
      else Some (oDataIndex + oDataLen, oType, oID, oDataIndex, oDataLen))"

definition lwm2m_decode_TLV :: "bytes \<Rightarrow> tlv_header option" where
  "lwm2m_decode_TLV buffer =
     (if length buffer < 2 then None
      else
        let oType = prv_getDataType (buffer ! 0 AND 0xC0) in
        if buffer ! 0 AND 0x20 = 0x20 \<and> length buffer < 3 then None
        else
          let (oDataIndex, oID) =
            (if buffer ! 0 AND 0x20 = 0x20
             then (3, push_bit 8 (ucast (buffer ! 1)) + ucast (buffer ! 2) :: u16)
             else (2, ucast (buffer ! 1)));
            k = buffer ! 0 AND 0x18;
            at = (\<lambda>i. unat (buffer ! i))
          in
          if k = 0x00 then decode_TLV_end buffer oType oID oDataIndex (unat (buffer ! 0 AND 0x07))
          else if k = 0x08 then
            (if length buffer < oDataIndex + 1 then None
             else decode_TLV_end buffer oType oID (oDataIndex + 1) (at oDataIndex))
          else if k = 0x10 then
            (if length buffer < oDataIndex + 2 then None
             else decode_TLV_end buffer oType oID (oDataIndex + 2)
               (at oDataIndex * 2 ^ 8 + at (oDataIndex + 1)))
          else if k = 0x18 then
            (if length buffer < oDataIndex + 3 then None
             else decode_TLV_end buffer oType oID (oDataIndex + 3)
               (at oDataIndex * 2 ^ 16 + at (oDataIndex + 1) * 2 ^ 8 + at (oDataIndex + 2)))
          else None)"

section \<open>Parsing\<close>

lemma decode_TLV_bounds:
  assumes "lwm2m_decode_TLV buffer = Some (result, oType, oID, oDataIndex, oDataLen)"
  shows "2 \<le> oDataIndex" and "result = oDataIndex + oDataLen" and "result \<le> length buffer"
  using assms
  by (auto simp: lwm2m_decode_TLV_def decode_TLV_end_def Let_def split: if_splits)

lemma decode_TLV_shrinks:
  assumes "lwm2m_decode_TLV buffer = Some (result, oType, oID, oDataIndex, oDataLen)"
  shows "length buffer - result < length buffer \<and> min (length buffer - oDataIndex) oDataLen < length buffer"
  using decode_TLV_bounds [OF assms] by linarith

text \<open>
  \<^verbatim>\<open>acc\<close> is \<^verbatim>\<open>*dataP\<close> with its \<^verbatim>\<open>size\<close> elements. \<open>Some (Some ds)\<close>: the size of \<open>ds\<close> is returned.
  \<open>Some None\<close>: 0 is returned and the array has been freed. \<open>None\<close>: the first array could not be
  allocated, and the null pointer is used.
\<close>

function tlv_parse_loop :: "allocator \<Rightarrow> lwm2m_data list \<Rightarrow> bytes \<Rightarrow> lwm2m_data list option option" where
  "tlv_parse_loop mem acc buffer =
     (case lwm2m_decode_TLV buffer of
        None \<Rightarrow> Some (Some acc)
      | Some (result, type, ident, dataIndex, dataLen) \<Rightarrow>
          if \<not> mem ((length acc + 1) * sizeof_lwm2m_data)
          then (if length acc \<ge> 1 then Some None else None)
          else if type = LWM2M_TYPE_OBJECT_INSTANCE \<or> type = LWM2M_TYPE_MULTIPLE_RESOURCE then
            (case tlv_parse_loop mem [] (take dataLen (drop dataIndex buffer)) of
               None \<Rightarrow> None
             | Some None \<Rightarrow> Some None
             | Some (Some ds) \<Rightarrow>
                 if length ds = 0 then Some None
                 else tlv_parse_loop mem (acc @ [Data type ident (AsChildren ds)]) (drop result buffer))
          else
            tlv_parse_loop mem
              (acc @ [lwm2m_data_encode_opaque mem (take dataLen (drop dataIndex buffer))
                        (Data type ident AsZero)])
              (drop result buffer))"
  by pat_completeness auto
termination
  by (relation "measure (\<lambda>(mem, acc, buffer). length buffer)")
    (auto dest!: decode_TLV_shrinks)

declare tlv_parse_loop.simps [simp del]

definition tlv_parse :: "allocator \<Rightarrow> bytes \<Rightarrow> lwm2m_data list option option" where
  "tlv_parse mem buffer = tlv_parse_loop mem [] buffer"

section \<open>Serializing\<close>

text \<open>\<^verbatim>\<open>prv_getLength\<close>: -1 stops the loop. \<open>None\<close> where the union is read through another member.\<close>

definition leaf_length :: "build \<Rightarrow> lwm2m_data_type \<Rightarrow> lwm2m_value \<Rightarrow> int option" where
  "leaf_length cfg type v =
     (case type of
        LWM2M_TYPE_STRING \<Rightarrow> map_option (\<lambda>b. int (length b)) (as_buffer v)
      | LWM2M_TYPE_OPAQUE \<Rightarrow> map_option (\<lambda>b. int (length b)) (as_buffer v)
      | LWM2M_TYPE_CORE_LINK \<Rightarrow> map_option (\<lambda>b. int (length b)) (as_buffer v)
      | LWM2M_TYPE_INTEGER \<Rightarrow> map_option (\<lambda>n. int (length (prv_encodeInt cfg n))) (as_integer v)
      | LWM2M_TYPE_UNSIGNED_INTEGER \<Rightarrow> map_option (\<lambda>n. int (length (prv_encodeUInt cfg n))) (as_integer v)
      | LWM2M_TYPE_FLOAT \<Rightarrow> map_option (\<lambda>f. if f64_above_float f then 8 else 4) (as_float v)
      | LWM2M_TYPE_BOOLEAN \<Rightarrow> Some 1
      | LWM2M_TYPE_OBJECT_LINK \<Rightarrow> Some 4
      | _ \<Rightarrow> Some (-1))"

definition with_header_length :: "u16 \<Rightarrow> int option \<Rightarrow> int option" where
  "with_header_length ident sub =
     map_option (\<lambda>l. if l = -1 then -1 else int (prv_getHeaderLength ident (nat l)) + l) sub"

fun prv_getLength :: "build \<Rightarrow> lwm2m_data list \<Rightarrow> int option"
  and item_length :: "build \<Rightarrow> lwm2m_data \<Rightarrow> int option" where
  "prv_getLength cfg [] = Some 0"
| "prv_getLength cfg (d # ds) =
     (case item_length cfg d of
        None \<Rightarrow> None
      | Some l \<Rightarrow> if l = -1 then Some (-1)
          else map_option (\<lambda>r. if r = -1 then -1 else l + r) (prv_getLength cfg ds))"
| "item_length cfg (Data type ident v) =
     with_header_length ident
       (if type = LWM2M_TYPE_OBJECT_INSTANCE \<or> type = LWM2M_TYPE_MULTIPLE_RESOURCE
        then (case v of
                AsChildren ds \<Rightarrow> prv_getLength cfg ds
              | AsZero \<Rightarrow> Some 0
              | _ \<Rightarrow> None)
        else leaf_length cfg type v)"

text \<open>The bytes of a value that has no children; \<open>Some None\<close> is the default case of the switch.\<close>

definition leaf_bytes :: "build \<Rightarrow> lwm2m_data_type \<Rightarrow> lwm2m_value \<Rightarrow> bytes option option" where
  "leaf_bytes cfg type v =
     (case type of
        LWM2M_TYPE_STRING \<Rightarrow> map_option Some (as_buffer v)
      | LWM2M_TYPE_OPAQUE \<Rightarrow> map_option Some (as_buffer v)
      | LWM2M_TYPE_CORE_LINK \<Rightarrow> map_option Some (as_buffer v)
      | LWM2M_TYPE_INTEGER \<Rightarrow> map_option (\<lambda>n. Some (prv_encodeInt cfg n)) (as_integer v)
      | LWM2M_TYPE_UNSIGNED_INTEGER \<Rightarrow> map_option (\<lambda>n. Some (prv_encodeUInt cfg n)) (as_integer v)
      | LWM2M_TYPE_FLOAT \<Rightarrow> map_option (\<lambda>f. Some (prv_encodeFloat cfg f)) (as_float v)
      | LWM2M_TYPE_BOOLEAN \<Rightarrow> map_option (\<lambda>b. Some [if b then 1 else 0]) (as_boolean v)
      | LWM2M_TYPE_OBJECT_LINK \<Rightarrow>
          map_option (\<lambda>(ob, inst).
            let v = push_bit 16 (ucast ob :: u32) OR ucast inst in
            Some [ucast (drop_bit 24 v), ucast (drop_bit 16 v), ucast (drop_bit 8 v), ucast v])
            (as_objlink v)
      | _ \<Rightarrow> Some None)"

text \<open>
  \<^verbatim>\<open>tlv_serialize\<close>, given the result of the length pass and of the loop over the elements (\<open>Some None\<close> when
  an element failed, \<open>Some (Some out)\<close> with the bytes written otherwise): the returned length and the bytes.
\<close>

definition serialize_end :: "allocator \<Rightarrow> int option \<Rightarrow> bytes option option \<Rightarrow> (int \<times> bytes) option" where
  "serialize_end mem len items =
     (case len of
        None \<Rightarrow> None
      | Some len_all \<Rightarrow>
          if len_all \<le> 0 then Some (len_all, [])
          else if \<not> mem (nat len_all) then Some (0, [])
          else map_option (\<lambda>r. case r of None \<Rightarrow> (-1, []) | Some out \<Rightarrow> (len_all, out)) items)"

text \<open>
  The bytes of a container. \<^verbatim>\<open>memcpy\<close> takes as many bytes as the inner call returned: \<open>None\<close> where
  that is more than it wrote.
\<close>

definition container_bytes ::
  "lwm2m_data_type \<Rightarrow> u16 \<Rightarrow> (int \<times> bytes) option \<Rightarrow> bytes option option" where
  "container_bytes type ident sub =
     (case sub of
        None \<Rightarrow> None
      | Some (res, tmp) \<Rightarrow>
          if res < 0 then Some None
          else if length tmp < nat res then None
          else map_option (\<lambda>header. Some (header @ take (nat res) tmp))
            (prv_createHeader False type ident (nat res)))"

definition join_items :: "bytes option option \<Rightarrow> bytes option option \<Rightarrow> bytes option option" where
  "join_items item rest =
     (case item of
        None \<Rightarrow> None
      | Some None \<Rightarrow> map_option (\<lambda>_. None) rest
      | Some (Some out) \<Rightarrow> map_option (map_option (\<lambda>r. out @ r)) rest)"

fun tlv_items :: "build \<Rightarrow> allocator \<Rightarrow> bool \<Rightarrow> lwm2m_data list \<Rightarrow> bytes option option"
  and tlv_item :: "build \<Rightarrow> allocator \<Rightarrow> bool \<Rightarrow> lwm2m_data \<Rightarrow> bytes option option" where
  "tlv_items cfg mem isResourceInstance [] = Some (Some [])"
| "tlv_items cfg mem isResourceInstance (d # ds) =
     join_items (tlv_item cfg mem isResourceInstance d) (tlv_items cfg mem isResourceInstance ds)"
| "tlv_item cfg mem isResourceInstance (Data type ident v) =
     (if type = LWM2M_TYPE_OBJECT_INSTANCE \<or> type = LWM2M_TYPE_MULTIPLE_RESOURCE
      then container_bytes type ident
        (case v of
           AsChildren ds \<Rightarrow>
             serialize_end mem (prv_getLength cfg ds)
               (tlv_items cfg mem (isResourceInstance \<or> type = LWM2M_TYPE_MULTIPLE_RESOURCE) ds)
         | AsZero \<Rightarrow> Some (0, [])
         | _ \<Rightarrow> None)
      else
        (case leaf_bytes cfg type v of
           None \<Rightarrow> None
         | Some None \<Rightarrow> Some None
         | Some (Some b) \<Rightarrow>
             map_option (\<lambda>header. Some (header @ b))
               (prv_createHeader isResourceInstance type ident (length b))))"

definition tlv_serialize :: "build \<Rightarrow> allocator \<Rightarrow> bool \<Rightarrow> lwm2m_data list \<Rightarrow> (int \<times> bytes) option" where
  "tlv_serialize cfg mem isResourceInstance ds =
     serialize_end mem (prv_getLength cfg ds) (tlv_items cfg mem isResourceInstance ds)"

section \<open>Headers round trip\<close>

lemma unat_of_nat_u8 [simp]: "n < 256 \<Longrightarrow> unat (of_nat n :: u8) = n"
  by (simp add: unat_of_nat)

lemma unat_and_FF: "unat (w AND 0xFF :: 'a::len word) = unat w mod 256"
  using unat_and_mask [of w 8] by (simp add: mask_numeral)

lemma unat_narrow:
  assumes "unat w < 256"
  shows "unat (ucast (w :: 'a::len word) :: u8) = unat w"
proof -
  have "unat (ucast w :: u8) = take_bit LENGTH(8) (unat w)" by (rule unsigned_ucast_eq)
  also have "\<dots> = unat w" using assms by (intro take_bit_nat_eq_self) simp
  finally show ?thesis .
qed

lemma unat_high_byte: "unat (ucast (drop_bit 8 (i :: u16) AND 0xFF) :: u8) = unat i div 256"
proof -
  have "unat (drop_bit 8 i AND 0xFF) = unat i div 256"
    using unsigned_less [of i, where 'a = nat] by (simp add: unat_and_FF unat_shr)
  then show ?thesis using unsigned_less [of i, where 'a = nat] by (simp add: unat_narrow)
qed

lemma unat_low_byte: "unat (ucast ((i :: u16) AND 0xFF) :: u8) = unat i mod 256"
  by (simp add: unat_narrow unat_and_FF)

lemma unat_join: "unat (push_bit 8 (ucast (hi :: u8)) + ucast (lo :: u8) :: u16) = unat hi * 256 + unat lo"
proof -
  have "unat hi * 256 + unat lo < 65536" using unat_u8_less [of hi] unat_u8_less [of lo] by linarith
  then show ?thesis by (simp add: unat_word_ariths unat_shl)
qed

lemma join_id_bytes:
  "push_bit 8 (ucast (ucast (drop_bit 8 (i :: u16) AND 0xFF) :: u8)) + ucast (ucast (i AND 0xFF) :: u8) = i"
proof -
  have "unat (push_bit 8 (ucast hi) + ucast lo :: u16) = unat i"
    if "unat (hi :: u8) = unat i div 256" "unat (lo :: u8) = unat i mod 256" for hi lo
    unfolding unat_join that by (rule div_mult_mod_eq)
  from this [OF unat_high_byte unat_low_byte] show ?thesis by (rule word_unat_eq_iff [THEN iffD2])
qed

lemma small_id: "(i :: u16) \<le> 0xFF \<Longrightarrow> ucast (ucast i :: u8) = i"
  by (rule word_unat_eq_iff [THEN iffD2]) (simp add: unat_narrow word_le_nat_alt)

text \<open>The two top bits of the header, by type.\<close>

definition tlv_top :: "bool \<Rightarrow> lwm2m_data_type \<Rightarrow> u8" where
  "tlv_top isInstance type = (if isInstance then 0x40 else prv_getHeaderType type) AND 0xC0"

lemma tlv_top_cases: "tlv_top isInstance type \<in> {0x00, 0x40, 0x80, 0xC0}"
  by (cases type) (simp_all add: tlv_top_def prv_getHeaderType_def)

text \<open>The first byte with its flags, for each of the four type bits.\<close>

lemma first_byte:
  assumes "t \<in> {0x00, 0x40, 0x80, 0xC0 :: u8}" and "l \<in> {0x20, 0x00}" and "n < 8" and "k \<in> {0x00, 0x08, 0x10, 0x18}"
  shows "(t OR l OR k) + of_nat n AND 0xC0 = t" "(t OR l OR k) + of_nat n AND 0x20 = l"
    "(t OR l OR k) + of_nat n AND 0x18 = k" "(t OR l OR k) + of_nat n AND 0x07 = of_nat n"
proof -
  have "\<forall>t \<in> set [0x00, 0x40, 0x80, 0xC0 :: u8]. \<forall>l \<in> set [0x20, 0x00]. \<forall>k \<in> set [0x00, 0x08, 0x10, 0x18].
      \<forall>n \<in> set [0, 1, 2, 3, 4, 5, 6, 7].
      (t OR l OR k) + of_nat n AND 0xC0 = t \<and> (t OR l OR k) + of_nat n AND 0x20 = l \<and>
      (t OR l OR k) + of_nat n AND 0x18 = k \<and> (t OR l OR k) + of_nat n AND 0x07 = of_nat n"
    by code_simp
  moreover have "n \<in> set [0, 1, 2, 3, 4, 5, 6, 7]" using assms(3) by auto
  moreover have "t \<in> set [0x00, 0x40, 0x80, 0xC0]" "l \<in> set [0x20, 0x00]" "k \<in> set [0x00, 0x08, 0x10, 0x18]"
    using assms by simp_all
  ultimately show "(t OR l OR k) + of_nat n AND 0xC0 = t" "(t OR l OR k) + of_nat n AND 0x20 = l"
    "(t OR l OR k) + of_nat n AND 0x18 = k" "(t OR l OR k) + of_nat n AND 0x07 = of_nat n"
    by blast+
qed

lemma data_len_bytes:
  "n < 2 ^ 16 \<Longrightarrow> n div 2 ^ 8 mod 256 * 2 ^ 8 + n mod 256 = (n :: nat)"
  "n < 2 ^ 24 \<Longrightarrow> n div 2 ^ 16 mod 256 * 2 ^ 16 + n div 2 ^ 8 mod 256 * 2 ^ 8 + n mod 256 = n"
proof -
  assume n: "n < 2 ^ 16"
  then have "n div 2 ^ 8 mod 256 = n div 2 ^ 8" by simp
  then show "n div 2 ^ 8 mod 256 * 2 ^ 8 + n mod 256 = n" by simp
next
  assume n: "n < 2 ^ 24"
  have "n div 2 ^ 8 = n div 2 ^ 16 * 256 + n div 2 ^ 8 mod 256"
    using div_mult_mod_eq [of "n div 2 ^ 8" 256] div_mult2_eq [of n "2 ^ 8" 256] by simp
  moreover have "n div 2 ^ 16 mod 256 = n div 2 ^ 16" using n by simp
  moreover have "n = n div 2 ^ 8 * 256 + n mod 256" by simp
  moreover have "e mod 256 * 65536 + f * 256 + r = n"
    if "d = e * 256 + f" "e mod 256 = e" "n = d * 256 + r" for d e f r :: nat
    using that by simp
  ultimately have "n div 2 ^ 16 mod 256 * 65536 + n div 2 ^ 8 mod 256 * 256 + n mod 256 = n" by blast
  moreover have "(2 :: nat) ^ 8 = 256" "(2 :: nat) ^ 16 = 65536" by simp_all
  ultimately show "n div 2 ^ 16 mod 256 * 2 ^ 16 + n div 2 ^ 8 mod 256 * 2 ^ 8 + n mod 256 = n"
    by (simp only:)
qed

text \<open>The decoder after the identifier: the length field \<open>xs\<close> begins with, by the flags \<open>k\<close>.\<close>

definition decode_length :: "bytes \<Rightarrow> lwm2m_data_type \<Rightarrow> u16 \<Rightarrow> nat \<Rightarrow> u8 \<Rightarrow> nat \<Rightarrow> bytes \<Rightarrow> tlv_header option" where
  "decode_length buffer type ident pos k n xs =
     (if k = 0x00 then decode_TLV_end buffer type ident pos n
      else if k = 0x08 then
        (if length xs < 1 then None else decode_TLV_end buffer type ident (pos + 1) (unat (xs ! 0)))
      else if k = 0x10 then
        (if length xs < 2 then None
         else decode_TLV_end buffer type ident (pos + 2) (unat (xs ! 0) * 2 ^ 8 + unat (xs ! 1)))
      else if k = 0x18 then
        (if length xs < 3 then None
         else decode_TLV_end buffer type ident (pos + 3)
           (unat (xs ! 0) * 2 ^ 16 + unat (xs ! 1) * 2 ^ 8 + unat (xs ! 2)))
      else None)"

lemma decode_TLV_wide:
  assumes "c AND 0x20 = 0x20"
  shows "lwm2m_decode_TLV (c # x # y # xs) =
    decode_length (c # x # y # xs) (prv_getDataType (c AND 0xC0)) (push_bit 8 (ucast x) + ucast y) 3
      (c AND 0x18) (unat (c AND 0x07)) xs"
proof -
  have n: "(c # x # y # xs) ! 0 = c" "(c # x # y # xs) ! 1 = x" "(c # x # y # xs) ! 2 = y"
    "(c # x # y # xs) ! 3 = xs ! 0" "(c # x # y # xs) ! (3 + 1) = xs ! 1" "(c # x # y # xs) ! (3 + 2) = xs ! 2"
    by (simp_all add: numeral_nat)
  have l: "\<not> length (c # x # y # xs) < 2" "\<not> length (c # x # y # xs) < 3"
    "length (c # x # y # xs) < 3 + 1 \<longleftrightarrow> length xs < 1" "length (c # x # y # xs) < 3 + 2 \<longleftrightarrow> length xs < 2"
    "length (c # x # y # xs) < 3 + 3 \<longleftrightarrow> length xs < 3"
    by auto
  show ?thesis
    unfolding lwm2m_decode_TLV_def decode_length_def Let_def n l assms
    by (simp only: if_True if_False simp_thms prod.case n l)
qed

lemma decode_TLV_narrow:
  assumes "c AND 0x20 \<noteq> 0x20"
  shows "lwm2m_decode_TLV (c # x # xs) =
    decode_length (c # x # xs) (prv_getDataType (c AND 0xC0)) (ucast x) 2
      (c AND 0x18) (unat (c AND 0x07)) xs"
proof -
  have n: "(c # x # xs) ! 0 = c" "(c # x # xs) ! 1 = x"
    "(c # x # xs) ! 2 = xs ! 0" "(c # x # xs) ! (2 + 1) = xs ! 1" "(c # x # xs) ! (2 + 2) = xs ! 2"
    by (simp_all add: numeral_nat)
  have l: "\<not> length (c # x # xs) < 2"
    "length (c # x # xs) < 2 + 1 \<longleftrightarrow> length xs < 1" "length (c # x # xs) < 2 + 2 \<longleftrightarrow> length xs < 2"
    "length (c # x # xs) < 2 + 3 \<longleftrightarrow> length xs < 3"
    by auto
  show ?thesis
    unfolding lwm2m_decode_TLV_def decode_length_def Let_def n l
    by (simp only: assms if_True if_False simp_thms prod.case n l)
qed

lemma decode_createHeader:
  assumes h: "prv_createHeader isInstance type ident (length data) = Some h"
  shows "lwm2m_decode_TLV (h @ data @ rest) =
      Some (length h + length data, prv_getDataType (tlv_top isInstance type), ident, length h, length data)"
    and "length h = prv_getHeaderLength ident (length data)"
proof -
  let ?n = "length data" and ?t = "tlv_top isInstance type"
  define l where "l = (if ident > 0xFF then 0x20 else 0 :: u8)"
  define ids where "ids = (if ident > 0xFF then [ucast (drop_bit 8 ident AND 0xFF), ucast (ident AND 0xFF)]
    else [ucast ident :: u8])"
  define k where "k = (if ?n \<le> 7 then 0x00 else if ?n \<le> 0xFF then 0x08 else if ?n \<le> 0xFFFF then 0x10 else 0x18 :: u8)"
  define lens where "lens = (if ?n \<le> 7 then [] else if ?n \<le> 0xFF then [of_nat ?n]
    else if ?n \<le> 0xFFFF then [of_nat (?n div 2 ^ 8 mod 256), of_nat (?n mod 256)]
    else [of_nat (?n div 2 ^ 16 mod 256), of_nat (?n div 2 ^ 8 mod 256), of_nat (?n mod 256) :: u8])"
  define m where "m = (if ?n \<le> 7 then ?n else 0)"
  have small: "?n \<le> 0xFFFFFF" using h by (auto simp: prv_createHeader_def Let_def split: if_splits)
  have h': "h = ((?t OR l OR k) + of_nat m) # ids @ lens"
    using h small
    by (auto simp: prv_createHeader_def tlv_top_def l_def ids_def k_def lens_def m_def Let_def or.assoc
        split: if_splits)
  have b: "(?t OR l OR k) + of_nat m AND 0xC0 = ?t" "(?t OR l OR k) + of_nat m AND 0x20 = l"
    "(?t OR l OR k) + of_nat m AND 0x18 = k" "(?t OR l OR k) + of_nat m AND 0x07 = of_nat m"
    using first_byte [of ?t l m k] tlv_top_cases [of isInstance type]
    by (simp_all add: l_def k_def m_def)
  show "length h = prv_getHeaderLength ident ?n"
    using small by (simp add: h' ids_def lens_def prv_getHeaderLength_def)
  let ?c = "(?t OR l OR k) + of_nat m" and ?xs = "lens @ data @ rest"
  have head: "lwm2m_decode_TLV (h @ data @ rest) = decode_length (h @ data @ rest) (prv_getDataType ?t) ident
      (Suc (length ids)) k (unat (of_nat m :: u8)) ?xs"
  proof (cases "ident > 0xFF")
    case True
    then obtain x y where i: "ids = [x, y]" "push_bit 8 (ucast x) + ucast y = ident"
      using join_id_bytes [of ident] by (simp add: ids_def)
    have "l = 0x20" using True by (simp add: l_def)
    then have w: "?c AND 0x20 = 0x20" by (subst b(2))
    show ?thesis
      using decode_TLV_wide [OF w, of x y ?xs, unfolded i(2)] by (simp add: h' i(1) b numeral_nat)
  next
    case False
    then obtain x where i: "ids = [x]" "ucast x = ident"
      using small_id [of ident] by (simp add: ids_def linorder_not_less)
    have "l \<noteq> 0x20" using False by (simp add: l_def)
    then have w: "?c AND 0x20 \<noteq> 0x20" by (subst b(2))
    show ?thesis
      using decode_TLV_narrow [OF w, of x ?xs] by (simp add: h' i b numeral_nat)
  qed
  have len: "length h = Suc (length ids) + length lens" by (simp add: h')
  consider (n1) "?n \<le> 7" | (n2) "7 < ?n" "?n \<le> 0xFF" | (n3) "0xFF < ?n" "?n \<le> 0xFFFF" | (n4) "0xFFFF < ?n" "?n \<le> 0xFFFFFF"
    using small by linarith
  then have "decode_length (h @ data @ rest) (prv_getDataType ?t) ident (Suc (length ids)) k (unat (of_nat m :: u8)) ?xs =
      decode_TLV_end (h @ data @ rest) (prv_getDataType ?t) ident (length h) ?n"
  proof cases
    case n1
    then show ?thesis by (simp add: len decode_length_def k_def m_def lens_def)
  next
    case n2
    then show ?thesis by (simp add: len decode_length_def k_def m_def lens_def)
  next
    case n3
    then show ?thesis
      using data_len_bytes(1) [of ?n] by (simp add: len decode_length_def k_def m_def lens_def)
  next
    case n4
    define x y z where xyz: "x = (of_nat (?n div 2 ^ 16 mod 256) :: u8)" "y = (of_nat (?n div 2 ^ 8 mod 256) :: u8)"
      "z = (of_nat (?n mod 256) :: u8)"
    have "unat x = ?n div 2 ^ 16 mod 256" "unat y = ?n div 2 ^ 8 mod 256" "unat z = ?n mod 256"
      unfolding xyz by (rule unat_of_nat_u8, simp)+
    then have v: "unat x * 2 ^ 16 + unat y * 2 ^ 8 + unat z = ?n"
      using data_len_bytes(2) [of ?n] n4(2) by (simp only:) simp
    have "k = 0x18" "lens = [x, y, z]"
      using n4 unfolding k_def lens_def xyz by simp_all
    with v show ?thesis unfolding len decode_length_def
      by simp (rule arg_cong [where f = "\<lambda>p. decode_TLV_end _ _ _ p _"], simp)
  qed
  moreover have "decode_TLV_end (h @ data @ rest) (prv_getDataType ?t) ident (length h) ?n =
      Some (length h + ?n, prv_getDataType ?t, ident, length h, ?n)"
    by (simp add: decode_TLV_end_def)
  ultimately show "lwm2m_decode_TLV (h @ data @ rest) =
      Some (length h + ?n, prv_getDataType ?t, ident, length h, ?n)"
    unfolding head by (rule trans)
qed


section \<open>Integers round trip\<close>

lemma load_copy [simp]: "load_mem cfg (utils_copyValue cfg b) = be_val b"
  by (simp add: load_mem_def utils_copyValue_def)

lemma copy_store [simp]: "utils_copyValue cfg (store_mem cfg n v) = be_bytes n v"
  by (simp add: store_mem_def utils_copyValue_def)

lemma length_be_bytes [simp]: "length (be_bytes n v) = n"
  by (induction n arbitrary: v) simp_all

lemma be_val_be_bytes: "be_val (be_bytes n v) = v mod 256 ^ n"
proof (induction n arbitrary: v)
  case (Suc n)
  have "unat (of_nat v :: u8) = v mod 256" by (simp add: unat_of_nat)
  then show ?case
    using mod_mult2_eq [of v 256 "256 ^ n"] by (simp add: be_val_snoc Suc)
qed simp

lemma high_byte_signed: "ucast (signed_drop_bit 8 (v :: u16) AND 0xFF) = (ucast (drop_bit 8 v AND 0xFF) :: u8)"
proof (rule byte_eqI)
  have FF: "(0xFF :: u16) = mask 8" by (simp add: mask_numeral)
  show "bit (ucast (signed_drop_bit 8 v AND 0xFF) :: u8) 0 = bit (ucast (drop_bit 8 v AND 0xFF) :: u8) 0"
    "bit (ucast (signed_drop_bit 8 v AND 0xFF) :: u8) 1 = bit (ucast (drop_bit 8 v AND 0xFF) :: u8) 1"
    "bit (ucast (signed_drop_bit 8 v AND 0xFF) :: u8) 2 = bit (ucast (drop_bit 8 v AND 0xFF) :: u8) 2"
    "bit (ucast (signed_drop_bit 8 v AND 0xFF) :: u8) 3 = bit (ucast (drop_bit 8 v AND 0xFF) :: u8) 3"
    "bit (ucast (signed_drop_bit 8 v AND 0xFF) :: u8) 4 = bit (ucast (drop_bit 8 v AND 0xFF) :: u8) 4"
    "bit (ucast (signed_drop_bit 8 v AND 0xFF) :: u8) 5 = bit (ucast (drop_bit 8 v AND 0xFF) :: u8) 5"
    "bit (ucast (signed_drop_bit 8 v AND 0xFF) :: u8) 6 = bit (ucast (drop_bit 8 v AND 0xFF) :: u8) 6"
    "bit (ucast (signed_drop_bit 8 v AND 0xFF) :: u8) 7 = bit (ucast (drop_bit 8 v AND 0xFF) :: u8) 7"
    unfolding FF by (simp_all add: bit_simps)
qed

lemma be_val_2: "be_val [x, y] = unat x * 256 + unat y"
  by (simp add: be_val_Cons)

lemma be_val_u16: "be_val [ucast (drop_bit 8 (v :: u16) AND 0xFF), ucast (v AND 0xFF)] = unat v"
  unfolding be_val_2 unat_high_byte [of v] unat_low_byte [of v] by (rule div_mult_mod_eq)

lemma scast_ucast_range:
  assumes "- (2 ^ (LENGTH('b::len) - 1)) \<le> sint (x :: u64)" and "sint x < 2 ^ (LENGTH('b) - 1)"
    and "LENGTH('b) \<le> 64"
  shows "scast (ucast x :: 'b word) = x"
proof -
  have "sint (ucast x :: 'b word) = signed_take_bit (LENGTH('b) - 1) (uint x)"
    by (simp add: signed_ucast_eq)
  also have "\<dots> = signed_take_bit (LENGTH('b) - 1) (sint x)"
    using assms(3) by (simp add: sint_uint signed_take_bit_signed_take_bit)
  also have "\<dots> = sint x"
    using assms(1,2) by (intro signed_take_bit_int_eq_self) simp_all
  finally have "sint (ucast x :: 'b word) = sint x" .
  then show ?thesis unfolding scast_eq by simp
qed

lemma ucast_range:
  assumes "unat (x :: u64) < 2 ^ LENGTH('b::len)"
  shows "ucast (ucast x :: 'b word) = x"
proof -
  have "unat (ucast x :: 'b word) = take_bit LENGTH('b) (unat x)" by (rule unsigned_ucast_eq)
  also have "\<dots> = unat x" using assms by (rule take_bit_nat_eq_self)
  finally have u: "unat (ucast x :: 'b word) = unat x" .
  have "unat (ucast (ucast x :: 'b word) :: u64) = take_bit LENGTH(64) (unat x)"
    unfolding u [symmetric] by (rule unsigned_ucast_eq)
  also have "\<dots> = unat x" using unat_u64_less [of x] by (intro take_bit_nat_eq_self) simp
  finally show ?thesis by (rule word_unat_eq_iff [THEN iffD2])
qed

text \<open>
  an integer in its shortest TLV form (1, 2, 4 or 8 bytes) is decoded to the same 64-bit value, on
  little and big endian machines; the same for unsigned integers.
\<close>
theorem tlv_integer_roundtrip:
  "lwm2m_data_decode_int cfg (Data LWM2M_TYPE_OPAQUE i (AsBuffer (prv_encodeInt cfg n))) = Some (Some n) \<and>
   lwm2m_data_decode_uint cfg (Data LWM2M_TYPE_OPAQUE i (AsBuffer (prv_encodeUInt cfg m))) = Some (Some m)"
proof
  consider (b1) "- 128 \<le> sint n \<and> sint n \<le> 127"
    | (b2) "\<not> (- 128 \<le> sint n \<and> sint n \<le> 127)" "- 32768 \<le> sint n \<and> sint n \<le> 32767"
    | (b4) "\<not> (- 128 \<le> sint n \<and> sint n \<le> 127)" "\<not> (- 32768 \<le> sint n \<and> sint n \<le> 32767)"
        "- 2147483648 \<le> sint n \<and> sint n \<le> 2147483647"
    | (b8) "\<not> (- 128 \<le> sint n \<and> sint n \<le> 127)" "\<not> (- 32768 \<le> sint n \<and> sint n \<le> 32767)"
        "\<not> (- 2147483648 \<le> sint n \<and> sint n \<le> 2147483647)" by blast
  then show "lwm2m_data_decode_int cfg (Data LWM2M_TYPE_OPAQUE i (AsBuffer (prv_encodeInt cfg n))) = Some (Some n)"
  proof cases
    case b1
    then have "prv_encodeInt cfg n = [ucast n]" by (simp only: prv_encodeInt_def if_True simp_thms)
    moreover have "scast (ucast n :: u8) = n" by (rule scast_ucast_range) (use b1 in simp_all)
    ultimately show ?thesis by (simp add: lwm2m_data_decode_int_def Let_def)
  next
    case b2
    then have "prv_encodeInt cfg n = [ucast (drop_bit 8 (ucast n :: u16) AND 0xFF), ucast ((ucast n :: u16) AND 0xFF)]"
      by (simp only: prv_encodeInt_def simp_thms if_False if_True Let_def high_byte_signed)
    moreover have "scast (ucast n :: u16) = n" by (rule scast_ucast_range) (use b2 in simp_all)
    ultimately show ?thesis
      by (simp only: lwm2m_data_decode_int_def lwm2m_data.sel lwm2m_data_type.case as_buffer.simps Let_def load_copy
          be_val_u16 option.map) simp
  next
    case b4
    then have "prv_encodeInt cfg n = be_bytes 4 (unat (ucast n :: u32))"
      by (simp only: prv_encodeInt_def simp_thms if_False if_True copy_store)
    moreover have "unat (ucast n :: u32) < 2 ^ 32" using unsigned_less [of "ucast n :: u32", where 'a = nat] by simp
    moreover have "scast (ucast n :: u32) = n" by (rule scast_ucast_range) (use b4 in simp_all)
    ultimately show ?thesis by (simp add: lwm2m_data_decode_int_def Let_def be_val_be_bytes)
  next
    case b8
    then have "prv_encodeInt cfg n = be_bytes 8 (unat n)"
      by (simp only: prv_encodeInt_def simp_thms if_False copy_store)
    then show ?thesis
      using unat_u64_less [of n] by (simp add: lwm2m_data_decode_int_def Let_def be_val_be_bytes)
  qed
next
  consider (b1) "m \<le> 0xFF" | (b2) "\<not> m \<le> 0xFF" "m \<le> 0xFFFF"
    | (b4) "\<not> m \<le> 0xFF" "\<not> m \<le> 0xFFFF" "m \<le> 0xFFFFFFFF"
    | (b8) "\<not> m \<le> 0xFF" "\<not> m \<le> 0xFFFF" "\<not> m \<le> 0xFFFFFFFF" by blast
  then show "lwm2m_data_decode_uint cfg (Data LWM2M_TYPE_OPAQUE i (AsBuffer (prv_encodeUInt cfg m))) = Some (Some m)"
  proof cases
    case b1
    then have "prv_encodeUInt cfg m = [ucast m]" by (simp only: prv_encodeUInt_def if_True)
    moreover have "ucast (ucast m :: u8) = m" by (rule ucast_range) (use b1 in \<open>simp add: word_le_nat_alt\<close>)
    ultimately show ?thesis by (simp add: lwm2m_data_decode_uint_def Let_def)
  next
    case b2
    then have "prv_encodeUInt cfg m = [ucast (drop_bit 8 (ucast m :: u16) AND 0xFF), ucast ((ucast m :: u16) AND 0xFF)]"
      by (simp only: prv_encodeUInt_def if_False if_True Let_def)
    moreover have "ucast (ucast m :: u16) = m" by (rule ucast_range) (use b2 in \<open>simp add: word_le_nat_alt\<close>)
    ultimately show ?thesis
      by (simp only: lwm2m_data_decode_uint_def lwm2m_data.sel lwm2m_data_type.case as_buffer.simps Let_def load_copy
          be_val_u16 option.map) simp
  next
    case b4
    then have "prv_encodeUInt cfg m = be_bytes 4 (unat (ucast m :: u32))"
      by (simp only: prv_encodeUInt_def if_False if_True copy_store)
    moreover have "unat (ucast m :: u32) < 2 ^ 32" using unsigned_less [of "ucast m :: u32", where 'a = nat] by simp
    moreover have "ucast (ucast m :: u32) = m" by (rule ucast_range) (use b4 in \<open>simp add: word_le_nat_alt\<close>)
    ultimately show ?thesis by (simp add: lwm2m_data_decode_uint_def Let_def be_val_be_bytes)
  next
    case b8
    then have "prv_encodeUInt cfg m = be_bytes 8 (unat m)"
      by (simp only: prv_encodeUInt_def if_False copy_store)
    then show ?thesis
      using unat_u64_less [of m] by (simp add: lwm2m_data_decode_uint_def Let_def be_val_be_bytes)
  qed
qed

section \<open>Whole messages\<close>

text \<open>Nothing is written past the allocated buffer, whatever allocations fail.\<close>

lemma header_length: "prv_createHeader isInstance type ident n = Some h \<Longrightarrow> length h = prv_getHeaderLength ident n"
  using decode_createHeader(2) [of isInstance type ident "replicate n 0" h] by simp

lemma header_length_mono: "n \<le> m \<Longrightarrow> prv_getHeaderLength ident n \<le> prv_getHeaderLength ident m"
  by (simp add: prv_getHeaderLength_def)

lemma leaf_length_bytes:
  assumes "leaf_bytes cfg type v = Some (Some b)"
  shows "leaf_length cfg type v = Some (int (length b))"
  using assms by (cases type) (auto simp: leaf_bytes_def leaf_length_def prv_encodeFloat_def Let_def split: prod.splits)

lemma container_bytes_length:
  assumes "container_bytes type ident (serialize_end mem len items) = Some (Some out)" and "len = Some l" and "l \<noteq> - 1"
    and "0 \<le> l"
  shows "int (length out) \<le> int (prv_getHeaderLength ident (nat l)) + l"
proof -
  obtain res tmp where s: "serialize_end mem len items = Some (res, tmp)" "\<not> res < 0" "nat res \<le> length tmp"
    and h: "\<exists>h. prv_createHeader False type ident (nat res) = Some h \<and> out = h @ take (nat res) tmp"
    using assms(1) by (auto simp: container_bytes_def split: option.splits prod.splits if_splits)
  have "res \<le> l"
    using s(1) assms(2,4) by (fastforce simp: serialize_end_def split: if_splits option.splits)
  moreover obtain h where "prv_createHeader False type ident (nat res) = Some h" "out = h @ take (nat res) tmp"
    using h by blast
  ultimately show ?thesis
    using header_length [of False type ident "nat res" h]
      header_length_mono [of "nat res" "nat l" ident, OF nat_mono] s(2,3)
    by simp
qed

lemma getLength_Cons:
  assumes "prv_getLength cfg (d # ds) = Some l" and "l \<noteq> - 1"
  obtains a b where "item_length cfg d = Some a" "prv_getLength cfg ds = Some b" "a \<noteq> - 1" "b \<noteq> - 1" "l = a + b"
  using assms by (auto split: option.splits if_splits)

lemma join_items_Some:
  assumes "join_items x y = Some (Some out)"
  obtains a b where "x = Some (Some a)" "y = Some (Some b)" "out = a @ b"
  using assms by (auto simp: join_items_def split: option.splits option.splits)

lemma with_header_length_Some:
  assumes "with_header_length ident sub = Some l" and "l \<noteq> - 1"
  obtains k where "sub = Some k" "k \<noteq> - 1" "l = int (prv_getHeaderLength ident (nat k)) + k"
  using assms by (auto simp: with_header_length_def split: if_splits)

abbreviation (input) is_container :: "lwm2m_data_type \<Rightarrow> bool" where
  "is_container type \<equiv> type = LWM2M_TYPE_OBJECT_INSTANCE \<or> type = LWM2M_TYPE_MULTIPLE_RESOURCE"

lemma leaf_length_nonneg: "leaf_length cfg type v = Some k \<Longrightarrow> k \<noteq> - 1 \<Longrightarrow> 0 \<le> k"
  by (cases type) (auto simp: leaf_length_def)

lemma getLength_nonneg:
  "prv_getLength cfg ds = Some l \<Longrightarrow> l \<noteq> - 1 \<Longrightarrow> 0 \<le> l \<and> (ds \<noteq> [] \<longrightarrow> 0 < l)"
  "item_length cfg d = Some l \<Longrightarrow> l \<noteq> - 1 \<Longrightarrow> 0 < l"
proof (induction cfg ds and cfg d arbitrary: l and l rule: prv_getLength_item_length.induct)
  case (2 cfg d ds)
  show ?case
    using 2(3,4)
  proof (elim getLength_Cons)
    fix a b
    assume "item_length cfg d = Some a" "prv_getLength cfg ds = Some b" "a \<noteq> - 1" "b \<noteq> - 1" "l = a + b"
    then show ?thesis using 2(1) [of a] 2(2) [of a b] by simp
  qed
next
  case (3 cfg type ident v)
  from 3(2) obtain k where k: "k \<noteq> - 1" "l = int (prv_getHeaderLength ident (nat k)) + k"
    "(if is_container type then (case v of AsChildren ds \<Rightarrow> prv_getLength cfg ds | AsZero \<Rightarrow> Some 0 | _ \<Rightarrow> None)
      else leaf_length cfg type v) = Some k"
    using 3(3) unfolding item_length.simps by (elim with_header_length_Some) blast
  have "0 \<le> k"
    using k(1,3) 3(1) leaf_length_nonneg by (auto split: if_splits lwm2m_value.splits)
  then show ?case using k(2) by (simp add: prv_getHeaderLength_def)
qed simp

lemma items_length:
  "tlv_items cfg mem inst ds = Some (Some out) \<Longrightarrow> prv_getLength cfg ds = Some l \<Longrightarrow> l \<noteq> - 1 \<Longrightarrow>
     int (length out) \<le> l"
  "tlv_item cfg mem inst d = Some (Some out) \<Longrightarrow> item_length cfg d = Some l \<Longrightarrow> l \<noteq> - 1 \<Longrightarrow>
     int (length out) \<le> l"
proof (induction cfg mem inst ds and cfg mem inst d arbitrary: out l and out l rule: tlv_items_tlv_item.induct)
  case (2 cfg mem inst d ds)
  obtain a b where ab: "tlv_item cfg mem inst d = Some (Some a)" "tlv_items cfg mem inst ds = Some (Some b)" "out = a @ b"
    using 2(3) unfolding tlv_items.simps by (rule join_items_Some)
  show ?case
    using 2(4,5)
  proof (elim getLength_Cons)
    fix k m
    assume "item_length cfg d = Some k" "prv_getLength cfg ds = Some m" "k \<noteq> - 1" "m \<noteq> - 1" "l = k + m"
    then show ?thesis using 2(1) [OF ab(1), of k] 2(2) [OF ab(2), of m] ab(3) by simp
  qed
next
  case (3 cfg mem inst type ident v)
  obtain k where k: "k \<noteq> - 1" "l = int (prv_getHeaderLength ident (nat k)) + k"
    "(if is_container type then (case v of AsChildren ds \<Rightarrow> prv_getLength cfg ds | AsZero \<Rightarrow> Some 0 | _ \<Rightarrow> None)
      else leaf_length cfg type v) = Some k"
    using 3(3,4) unfolding item_length.simps by (elim with_header_length_Some) blast
  show ?case
  proof (cases "is_container type")
    case True
    note c = 3(2) [unfolded tlv_item.simps if_P [OF True]]
    consider (z) "v = AsZero" | (c) ds where "v = AsChildren ds" | (n) "v \<noteq> AsZero" "\<nexists>ds. v = AsChildren ds" by blast
    then show ?thesis
    proof cases
      case z
      then show ?thesis using c k True header_length by (auto simp: container_bytes_def)
    next
      case (c ds)
      then have "0 \<le> k" using k True getLength_nonneg(1) [of cfg ds k] by simp
      then show ?thesis
        using container_bytes_length [of type ident mem "Some k"] c k True \<open>v = AsChildren ds\<close> 3(2) by simp
    next
      case n
      then show ?thesis using c by (cases v) (auto simp: container_bytes_def)
    qed
  next
    case False
    then obtain b where "leaf_bytes cfg type v = Some (Some b)"
      and "\<exists>h. prv_createHeader inst type ident (length b) = Some h \<and> out = h @ b"
      using 3(2) by (auto split: option.splits)
    then show ?thesis
      using k False leaf_length_bytes [of cfg type v b] header_length by auto
  qed
qed simp


text \<open>
  C21: the serializer never writes past the buffer it allocated, whichever allocations fail.
\<close>
theorem tlv_serialize_in_buffer:
  assumes "tlv_serialize cfg mem inst ds = Some (n, out)" and "0 \<le> n"
  shows "length out \<le> nat n"
proof (cases "0 < n")
  case True
  then obtain l where l: "prv_getLength cfg ds = Some l" "l \<noteq> - 1" "tlv_items cfg mem inst ds = Some (Some out)" "n = l"
    using assms(1) by (auto simp: tlv_serialize_def serialize_end_def split: option.splits if_splits)
  then show ?thesis using items_length(1) [OF l(3,1,2)] by simp
next
  case False
  then show ?thesis
    using assms by (auto simp: tlv_serialize_def serialize_end_def split: option.splits if_splits)
qed

section \<open>Parsing what was serialized\<close>

text \<open>The tree the parser gives back: containers keep their type, values become opaque bytes.\<close>

fun tlv_view :: "build \<Rightarrow> lwm2m_data \<Rightarrow> lwm2m_data" where
  "tlv_view cfg (Data type ident v) =
     (if is_container type
      then (case v of AsChildren ds \<Rightarrow> Data type ident (AsChildren (map (tlv_view cfg) ds)) | _ \<Rightarrow> Data type ident v)
      else (case leaf_bytes cfg type v of
              Some (Some b) \<Rightarrow> Data LWM2M_TYPE_OPAQUE ident (AsBuffer b)
            | _ \<Rightarrow> Data type ident v))"

text \<open>Every container holds something, at every depth.\<close>

fun no_empty :: "lwm2m_data \<Rightarrow> bool" where
  "no_empty (Data type ident v) \<longleftrightarrow>
     (is_container type \<longrightarrow> (case v of AsChildren ds \<Rightarrow> ds \<noteq> [] \<and> list_all no_empty ds | _ \<Rightarrow> False))"

lemma tlv_top_container [simp]:
  "prv_getDataType (tlv_top False LWM2M_TYPE_OBJECT_INSTANCE) = LWM2M_TYPE_OBJECT_INSTANCE"
  "prv_getDataType (tlv_top False LWM2M_TYPE_MULTIPLE_RESOURCE) = LWM2M_TYPE_MULTIPLE_RESOURCE"
  by (simp_all add: prv_getDataType_def tlv_top_def prv_getHeaderType_def)

lemma tlv_top_leaf: "leaf_bytes cfg type v = Some (Some b) \<Longrightarrow> prv_getDataType (tlv_top inst type) = LWM2M_TYPE_OPAQUE"
  by (cases type) (auto simp: leaf_bytes_def prv_getDataType_def tlv_top_def prv_getHeaderType_def)

lemma parse_leaf:
  assumes "prv_createHeader inst type ident (length b) = Some h" and "leaf_bytes cfg type v = Some (Some b)"
  shows "tlv_parse_loop all_mem acc (h @ b @ rest) =
    tlv_parse_loop all_mem (acc @ [Data LWM2M_TYPE_OPAQUE ident (AsBuffer b)]) rest"
  using decode_createHeader(1) [OF assms(1), of rest] tlv_top_leaf [OF assms(2), of inst]
  by (subst tlv_parse_loop.simps)
    (simp add: lwm2m_data_encode_opaque_def prv_setBuffer_def set_value_def set_type_def)

lemma parse_container:
  assumes "prv_createHeader False type ident (length b) = Some h" and "is_container type" and "ds \<noteq> []"
    and "tlv_parse_loop all_mem [] b = Some (Some ds)"
  shows "tlv_parse_loop all_mem acc (h @ b @ rest) =
    tlv_parse_loop all_mem (acc @ [Data type ident (AsChildren ds)]) rest"
proof -
  have "prv_getDataType (tlv_top False type) = type" using assms(2) by auto
  then show ?thesis
    using decode_createHeader(1) [OF assms(1), of rest] assms(2-4)
    by (subst tlv_parse_loop.simps) auto
qed

text \<open>A container in which the parser finds nothing, or cannot read something, makes it refuse everything.\<close>

lemma parse_bad_container:
  assumes "prv_createHeader False type ident (length b) = Some h" and "is_container type"
    and "tlv_parse_loop all_mem [] b = Some None \<or> tlv_parse_loop all_mem [] b = Some (Some [])"
  shows "tlv_parse_loop all_mem acc (h @ b @ rest) = Some None"
proof -
  have "prv_getDataType (tlv_top False type) = type" using assms(2) by auto
  then show ?thesis
    using decode_createHeader(1) [OF assms(1), of rest] assms(2-3)
    by (subst tlv_parse_loop.simps) auto
qed

lemma decode_TLV_Nil [simp]: "lwm2m_decode_TLV [] = None"
  by (simp add: lwm2m_decode_TLV_def)

lemma parse_loop_Nil [simp]: "tlv_parse_loop mem acc [] = Some (Some acc)"
  by (subst tlv_parse_loop.simps) simp

lemma parse_items:
  "tlv_items cfg all_mem inst ds = Some (Some out) \<Longrightarrow> prv_getLength cfg ds = Some l \<Longrightarrow> l \<noteq> - 1 \<Longrightarrow>
     int (length out) = l \<and>
     (\<forall>acc rest. tlv_parse_loop all_mem acc (out @ rest) =
       (if list_all no_empty ds then tlv_parse_loop all_mem (acc @ map (tlv_view cfg) ds) rest else Some None))"
  "tlv_item cfg all_mem inst d = Some (Some out) \<Longrightarrow> item_length cfg d = Some l \<Longrightarrow> l \<noteq> - 1 \<Longrightarrow>
     int (length out) = l \<and>
     (\<forall>acc rest. tlv_parse_loop all_mem acc (out @ rest) =
       (if no_empty d then tlv_parse_loop all_mem (acc @ [tlv_view cfg d]) rest else Some None))"
proof (induction cfg "all_mem :: allocator" inst ds and cfg "all_mem :: allocator" inst d
    arbitrary: out l and out l rule: tlv_items_tlv_item.induct)
  case (2 cfg inst d ds)
  obtain a b where ab: "tlv_item cfg all_mem inst d = Some (Some a)" "tlv_items cfg all_mem inst ds = Some (Some b)"
    "out = a @ b"
    using 2(3) unfolding tlv_items.simps by (rule join_items_Some)
  show ?case
    using 2(4,5)
  proof (elim getLength_Cons)
    fix k m
    assume "item_length cfg d = Some k" "prv_getLength cfg ds = Some m" "k \<noteq> - 1" "m \<noteq> - 1" "l = k + m"
    then show ?thesis using 2(1) [OF ab(1), of k] 2(2) [OF ab(2), of m] ab(3) by simp
  qed
next
  case (3 cfg inst type ident v)
  obtain k where k: "k \<noteq> - 1" "l = int (prv_getHeaderLength ident (nat k)) + k"
    "(if is_container type then (case v of AsChildren ds \<Rightarrow> prv_getLength cfg ds | AsZero \<Rightarrow> Some 0 | _ \<Rightarrow> None)
      else leaf_length cfg type v) = Some k"
    using 3(3,4) unfolding item_length.simps by (elim with_header_length_Some) blast
  show ?case
  proof (cases "is_container type")
    case True
    obtain b h where h: "prv_createHeader False type ident (length b) = Some h" "out = h @ b" "int (length b) = k"
      and b: "if no_empty (Data type ident v)
        then \<exists>ds. v = AsChildren ds \<and> ds \<noteq> [] \<and> tlv_parse_loop all_mem [] b = Some (Some (map (tlv_view cfg) ds))
        else tlv_parse_loop all_mem [] b = Some None \<or> tlv_parse_loop all_mem [] b = Some (Some [])"
    proof (cases "v = AsZero \<or> v = AsChildren []")
      case empty: True
      then have "k = 0" "\<exists>h. prv_createHeader False type ident 0 = Some h \<and> out = h"
        using k(3) True 3(2) by (auto simp: container_bytes_def serialize_end_def)
      with empty True that [of "[]"] show thesis by auto
    next
      case False
      then obtain ds where ds: "v = AsChildren ds" "ds \<noteq> []" "prv_getLength cfg ds = Some k"
        using k(3) True by (auto split: lwm2m_value.splits)
      have pos: "0 < k" using getLength_nonneg(1) [OF ds(3) k(1)] ds(2) by simp
      obtain b where b: "tlv_items cfg all_mem (inst \<or> type = LWM2M_TYPE_MULTIPLE_RESOURCE) ds = Some (Some b)"
        and h: "\<exists>h. prv_createHeader False type ident (nat k) = Some h \<and> out = h @ take (nat k) b"
        using 3(2) True ds(1,3) pos
        by (auto simp: container_bytes_def serialize_end_def split: option.splits if_splits)
      note IH = 3(1) [OF True ds(1) b ds(3) k(1)]
      from IH h ds(1,2) that [of b] show thesis using IH [THEN conjunct2, rule_format, of "[]" "[]"] True by auto
    qed
    note length = header_length [OF h(1)] h(2,3) k(2)
    show ?thesis
    proof (cases "no_empty (Data type ident v)")
      case good: True
      then obtain ds where ds: "v = AsChildren ds" "ds \<noteq> []" "tlv_parse_loop all_mem [] b = Some (Some (map (tlv_view cfg) ds))"
        using b by auto
      then show ?thesis using parse_container [OF h(1) True _ ds(3)] length good True by auto
    next
      case False
      then show ?thesis using parse_bad_container [OF h(1) True] b length by (auto simp del: no_empty.simps)
    qed
  next
    case False
    then obtain b where b: "leaf_bytes cfg type v = Some (Some b)"
      and "\<exists>h. prv_createHeader inst type ident (length b) = Some h \<and> out = h @ b"
      using 3(2) by (auto split: option.splits)
    then obtain h where h: "prv_createHeader inst type ident (length b) = Some h" "out = h @ b" by blast
    show ?thesis
      using parse_leaf [OF h(1) b] k False leaf_length_bytes [OF b] header_length [OF h(1)] h(2) b by auto
  qed
qed simp

text \<open>
  C9: what the serializer produces, the parser reads back in full, when every container of the tree holds something:
  the same tree, with each value as the opaque bytes of its encoding. A tree with an empty container at any depth is
  serialized all the same (an empty multiple resource 6 as the bytes 128, 6), and then the parser refuses the whole
  message: the round trip fails for these trees and for no others.
\<close>
theorem tlv_roundtrip:
  assumes "tlv_serialize cfg all_mem inst ds = Some (n, out)" and "0 < n"
  shows "length out = nat n \<and>
    tlv_parse all_mem out = Some (if list_all no_empty ds then Some (map (tlv_view cfg) ds) else None)"
proof -
  obtain l where l: "prv_getLength cfg ds = Some l" "tlv_items cfg all_mem inst ds = Some (Some out)" "n = l"
    using assms(1,2) by (auto simp: tlv_serialize_def serialize_end_def split: option.splits if_splits)
  have "l \<noteq> - 1" using assms(2) l(3) by simp
  note r = parse_items(1) [OF l(2,1) this]
  then have "int (length out) = l" by blast
  then show ?thesis
    using r [THEN conjunct2, rule_format, of "[]" "[]"] l(3) by (auto simp: tlv_parse_def)
qed

lemmas tlv_eval = tlv_serialize_def serialize_end_def container_bytes_def leaf_length_def leaf_bytes_def
  with_header_length_def prv_getHeaderLength_def prv_encodeInt_def prv_createHeader_def prv_getHeaderType_def
  join_items_def

theorem tlv_serialize_in_buffer_witness:
  "tlv_serialize client_build (\<lambda>n. n \<noteq> 4) False
     [Data LWM2M_TYPE_MULTIPLE_RESOURCE 6 (AsChildren [Data LWM2M_TYPE_INTEGER 0 (AsInteger 500)])] =
     Some (6, [128, 6]) \<and> length [128 :: u8, 6] \<le> nat 6"
proof -
  have r: "tlv_serialize client_build (\<lambda>n. n \<noteq> 4) False
     [Data LWM2M_TYPE_MULTIPLE_RESOURCE 6 (AsChildren [Data LWM2M_TYPE_INTEGER 0 (AsInteger 500)])] =
     Some (6, [128, 6])"
    by (simp add: tlv_eval)
  from tlv_serialize_in_buffer [OF r] r show ?thesis by simp
qed

theorem tlv_roundtrip_witness:
  "tlv_parse all_mem [135, 6, 66, 0, 1, 244, 65, 1, 7] = Some (Some
     [Data LWM2M_TYPE_MULTIPLE_RESOURCE 6 (AsChildren
        [Data LWM2M_TYPE_OPAQUE 0 (AsBuffer [1, 244]), Data LWM2M_TYPE_OPAQUE 1 (AsBuffer [7])])]) \<and>
   tlv_parse all_mem [193, 1, 7, 128, 6] = Some None"
proof -
  let ?ds = "[Data LWM2M_TYPE_MULTIPLE_RESOURCE 6 (AsChildren
    [Data LWM2M_TYPE_INTEGER 0 (AsInteger 500), Data LWM2M_TYPE_STRING 1 (AsBuffer [7])])]"
  let ?es = "[Data LWM2M_TYPE_STRING 1 (AsBuffer [7]), Data LWM2M_TYPE_MULTIPLE_RESOURCE 6 (AsChildren [])]"
  have r: "tlv_serialize client_build all_mem False ?ds = Some (9, [135, 6, 66, 0, 1, 244, 65, 1, 7])"
    "tlv_serialize client_build all_mem False ?es = Some (5, [193, 1, 7, 128, 6])"
    by (simp_all add: tlv_eval)
  from tlv_roundtrip [OF r(1)] tlv_roundtrip [OF r(2)] show ?thesis by (simp add: leaf_bytes_def prv_encodeInt_def)
qed

text \<open>
  What the format loses. A resource without instances is serialized but its own parser refuses the
  message; bytes after a malformed element are dropped without an error; an object, whose header
  would read as an object instance, is refused by the serializer; and when the buffer of the inner
  level cannot be allocated, the outer one returns its full length (6) although only the header of an
  empty resource (2 bytes) was written.
\<close>
theorem tlv_limits:
  "tlv_serialize client_build all_mem False [Data LWM2M_TYPE_MULTIPLE_RESOURCE 6 (AsChildren [])] = Some (2, [128, 6]) \<and>
   tlv_parse all_mem [128, 6] = Some None \<and>
   tlv_parse all_mem [193, 1, 7, 200, 2, 99] = Some (Some [Data LWM2M_TYPE_OPAQUE 1 (AsBuffer [7])]) \<and>
   tlv_serialize cfg mem inst [Data LWM2M_TYPE_OBJECT i v] = Some (- 1, []) \<and>
   tlv_serialize client_build (\<lambda>n. n \<noteq> 4) False
     [Data LWM2M_TYPE_MULTIPLE_RESOURCE 6 (AsChildren [Data LWM2M_TYPE_INTEGER 0 (AsInteger 500)])] =
     Some (6, [128, 6])"
  by (simp add: tlv_eval tlv_parse_def)
    (simp add: tlv_parse_loop.simps lwm2m_decode_TLV_def prv_getDataType_def decode_TLV_end_def
      lwm2m_data_encode_opaque_def prv_setBuffer_def set_value_def set_type_def)

end
