(* ===== verification/Block_Transfer.thy ===== *)
theory Block_Transfer
  imports Prelude_C
begin

text \<open>
Block-wise transfer (\<^verbatim>\<open>coap/block.c\<close>): the list of the transfers of a peer, the handler that
  accumulates a body, the handler that passes raw blocks on, and the entry points for Block1 and
  Block2. The C functions work on pointers into the list; here an entry is its position.

  The locale \<open>block_keys\<close> is the interface between the handler and the two kinds of keys; it is
  interpreted for the URIs of Block1 and the message identifiers of Block2.
\<close>

section \<open>State\<close>

datatype block_type = BLOCK_1 | BLOCK_2

text \<open>The union \<^verbatim>\<open>block_data_identifier_t\<close> with the member that was stored.\<close>

datatype block_id = Id_Uri "bytes option" | Id_Mid u16

text \<open>
  The pointer \<^verbatim>\<open>blockBuffer\<close>: not yet written, null, or the bytes it points to. The fields of a new
  entry are those of \<^verbatim>\<open>lwm2m_malloc\<close>, hence \<open>Unset\<close> and \<open>None\<close>.
\<close>

datatype block_buffer = Unset | Null | Buffer bytes

record block_data =
  b_type :: block_type
  b_id :: block_id
  b_buffer :: block_buffer
  b_size :: nat
  b_num :: "u32 option"
  b_mid :: "u16 option"

section \<open>The list of transfers\<close>

text \<open>
  Reading the union through the other member is \<open>None\<close>: the upper bytes of a pointer that was stored as
  an identifier are not determined, the value of a pointer read as an identifier is that of the heap.
\<close>

definition prv_matchBlock1 :: "block_id \<Rightarrow> block_data \<Rightarrow> bool option" where
  "prv_matchBlock1 identifier bd =
     (case (b_id bd, identifier) of
        (Id_Uri stored, Id_Uri given) \<Rightarrow>
          (case stored of
             None \<Rightarrow> Some False
           | Some s \<Rightarrow> (case given of None \<Rightarrow> Some False | Some g \<Rightarrow> Some (g = s)))
      | _ \<Rightarrow> None)"

definition prv_matchBlock2 :: "block_id \<Rightarrow> block_data \<Rightarrow> bool option" where
  "prv_matchBlock2 identifier bd =
     (case (b_id bd, identifier) of (Id_Mid stored, Id_Mid given) \<Rightarrow> Some (given = stored) | _ \<Rightarrow> None)"

definition prv_get_matcher :: "block_type \<Rightarrow> block_id \<Rightarrow> block_data \<Rightarrow> bool option" where
  "prv_get_matcher blockType = (if blockType = BLOCK_1 then prv_matchBlock1 else prv_matchBlock2)"

text \<open>A pointer into the list is the position of the entry.\<close>

fun find_block_data :: "block_data list \<Rightarrow> block_id \<Rightarrow> block_type \<Rightarrow> nat option option" where
  "find_block_data [] identifier blockType = Some None"
| "find_block_data (bd # bds) identifier blockType =
     (case prv_get_matcher blockType identifier bd of
        None \<Rightarrow> None
      | Some True \<Rightarrow> Some (Some 0)
      | Some False \<Rightarrow> map_option (map_option Suc) (find_block_data bds identifier blockType))"

text \<open>
  The new entry is the head of the list. The copy of the URI may fail, then the entry has none.
\<close>

definition prv_block_insert :: "allocator \<Rightarrow> block_data list \<Rightarrow> block_id \<Rightarrow> block_type \<Rightarrow> block_data list option" where
  "prv_block_insert mem bds identifier blockType =
     (if \<not> mem 48 then None
      else
        let identifier =
              (if blockType = BLOCK_1 then
                 (case identifier of
                    Id_Uri (Some uri) \<Rightarrow> Id_Uri (if mem (length uri + 1) then Some uri else None)
                  | _ \<Rightarrow> identifier)
               else identifier)
        in Some (\<lparr>b_type = blockType, b_id = identifier, b_buffer = Unset, b_size = 0, b_num = None, b_mid = None\<rparr> # bds))"

text \<open>Freeing an entry frees its buffer, which must have been written; \<open>raw\<close> is \<^verbatim>\<open>LWM2M_RAW_BLOCK1_REQUESTS\<close>.\<close>

definition free_block_data :: "bool \<Rightarrow> block_data \<Rightarrow> unit option" where
  "free_block_data raw bd = (if \<not> raw \<and> b_buffer bd = Unset then None else Some ())"

definition prv_block_data_delete :: "bool \<Rightarrow> block_data list \<Rightarrow> block_id \<Rightarrow> block_type \<Rightarrow> block_data list option" where
  "prv_block_data_delete raw bds identifier blockType =
     (case find_block_data bds identifier blockType of
        None \<Rightarrow> None
      | Some None \<Rightarrow> Some bds
      | Some (Some i) \<Rightarrow>
          (case free_block_data raw (bds ! i) of
             None \<Rightarrow> None | Some _ \<Rightarrow> Some (take i bds @ drop (Suc i) bds)))"

section \<open>The raw handler\<close>

definition prv_coap_raw_block_handler ::
  "allocator \<Rightarrow> block_data list \<Rightarrow> block_id \<Rightarrow> u16 \<Rightarrow> block_type \<Rightarrow> u32 \<Rightarrow> bool \<Rightarrow> (u8 \<times> block_data list) option" where
  "prv_coap_raw_block_handler mem bds identifier mid blockType blockNum blockMore =
     (let proceed = (\<lambda>bds i.
            let bds = bds[i := (bds ! i)\<lparr>b_num := Some blockNum, b_mid := Some mid\<rparr>] in
            if blockMore then Some (COAP_231_CONTINUE, bds)
            else map_option (Pair COAP_NO_ERROR) (prv_block_data_delete True bds identifier blockType))
      in
      case find_block_data bds identifier blockType of
        None \<Rightarrow> None
      | Some found \<Rightarrow>
          if blockNum = 0 then
            (case found of
               None \<Rightarrow> (case prv_block_insert mem bds identifier blockType of None \<Rightarrow> None | Some bds \<Rightarrow> proceed bds 0)
             | Some i \<Rightarrow>
                 (case b_mid (bds ! i) of
                    None \<Rightarrow> None
                  | Some stored \<Rightarrow> if stored = mid then Some (COAP_IGNORE, bds) else proceed bds i))
          else
            (case found of
               None \<Rightarrow> Some (COAP_408_REQ_ENTITY_INCOMPLETE, bds)
             | Some i \<Rightarrow>
                 (case b_num (bds ! i) of
                    None \<Rightarrow> None
                  | Some n \<Rightarrow> if blockNum \<le> n then Some (COAP_IGNORE, bds) else proceed bds i)))"

section \<open>The accumulating handler\<close>

text \<open>
  Result: the code, the list, and the output buffer with its length where the handler sets both;
  \<open>None\<close> is an access through a null or unset pointer.
\<close>

type_synonym block_outcome = "(u8 \<times> block_data list \<times> (block_buffer \<times> nat) option) option"

definition block_result :: "block_data list \<Rightarrow> nat \<Rightarrow> bool \<Rightarrow> block_outcome" where
  "block_result bds i blockMore =
     (if blockMore then Some (COAP_231_CONTINUE, bds, None)
      else Some (COAP_NO_ERROR, bds, Some (b_buffer (bds ! i), b_size (bds ! i))))"

text \<open>Block 0: clear or insert the entry, then store the block.\<close>

definition first_block ::
  "allocator \<Rightarrow> block_data list \<Rightarrow> nat option \<Rightarrow> block_id \<Rightarrow> block_type \<Rightarrow> bytes \<Rightarrow> bool \<Rightarrow> block_outcome" where
  "first_block mem bds found identifier blockType buffer blockMore =
     (let store = (\<lambda>bds i.
            if \<not> mem (length buffer) then Some (COAP_500_INTERNAL_SERVER_ERROR, bds, None)
            else
              block_result
                (bds[i := (bds ! i)\<lparr>b_buffer := Buffer buffer, b_size := length buffer, b_num := Some 0\<rparr>])
                i blockMore)
      in
      case found of
        None \<Rightarrow>
          (case prv_block_insert mem bds identifier blockType of
             None \<Rightarrow> (if \<not> mem (length buffer) then Some (COAP_500_INTERNAL_SERVER_ERROR, bds, None) else None)
           | Some bds \<Rightarrow> store bds 0)
      | Some i \<Rightarrow>
          if b_buffer (bds ! i) = Unset then None
          else store (bds[i := (bds ! i)\<lparr>b_buffer := Null, b_size := 0\<rparr>]) i)"

text \<open>A later block, found at position \<open>i\<close>.\<close>

definition next_block ::
  "allocator \<Rightarrow> block_data list \<Rightarrow> nat \<Rightarrow> bytes \<Rightarrow> u16 \<Rightarrow> u32 \<Rightarrow> bool \<Rightarrow> block_outcome" where
  "next_block mem bds i buffer blockSize blockNum blockMore =
     (case b_num (bds ! i) of
        None \<Rightarrow> None
      | Some n \<Rightarrow>
          if blockNum \<le> n then Some (COAP_RETRANSMISSION, bds, None)
          else if blockNum = n + 1 then
            (let oldSize = b_size (bds ! i); newSize = oldSize + length buffer in
             if oldSize \<noteq> unat (ucast blockSize * blockNum) then Some (COAP_408_REQ_ENTITY_INCOMPLETE, bds, None)
             else if \<not> mem newSize
             then Some (COAP_500_INTERNAL_SERVER_ERROR, bds[i := (bds ! i)\<lparr>b_buffer := Null, b_size := newSize\<rparr>], None)
             else
               (case b_buffer (bds ! i) of
                  Buffer old \<Rightarrow>
                    block_result
                      (bds[i := (bds ! i)\<lparr>b_buffer := Buffer (old @ buffer), b_size := newSize, b_num := Some blockNum\<rparr>])
                      i blockMore
                | _ \<Rightarrow> None))
          else block_result bds i blockMore)"

definition prv_coap_block_handler ::
  "allocator \<Rightarrow> block_data list \<Rightarrow> block_id \<Rightarrow> block_type \<Rightarrow> bytes \<Rightarrow> u16 \<Rightarrow> u32 \<Rightarrow> bool \<Rightarrow> block_outcome" where
  "prv_coap_block_handler mem bds identifier blockType buffer blockSize blockNum blockMore =
     (case find_block_data bds identifier blockType of
        None \<Rightarrow> None
      | Some found \<Rightarrow>
          if blockNum = 0 then first_block mem bds found identifier blockType buffer blockMore
          else
            (case found of
               None \<Rightarrow> Some (COAP_408_REQ_ENTITY_INCOMPLETE, bds, None)
             | Some i \<Rightarrow> next_block mem bds i buffer blockSize blockNum blockMore))"

section \<open>The entry points\<close>

definition block1_create :: "allocator \<Rightarrow> block_data list \<Rightarrow> bytes option \<Rightarrow> block_data list option" where
  "block1_create mem bds uri = prv_block_insert mem bds (Id_Uri uri) BLOCK_1"

definition block1_delete :: "bool \<Rightarrow> block_data list \<Rightarrow> bytes option \<Rightarrow> block_data list option" where
  "block1_delete raw bds uri = prv_block_data_delete raw bds (Id_Uri uri) BLOCK_1"

definition coap_block1_handler ::
  "bool \<Rightarrow> allocator \<Rightarrow> block_data list \<Rightarrow> bytes option \<Rightarrow> u16 \<Rightarrow> bytes \<Rightarrow> u16 \<Rightarrow> u32 \<Rightarrow> bool \<Rightarrow> block_outcome" where
  "coap_block1_handler raw mem bds uri mid buffer blockSize blockNum blockMore =
     (if raw then
        map_option (\<lambda>(code, bds). (code, bds, None))
          (prv_coap_raw_block_handler mem bds (Id_Uri uri) mid BLOCK_1 blockNum blockMore)
      else prv_coap_block_handler mem bds (Id_Uri uri) BLOCK_1 buffer blockSize blockNum blockMore)"

definition block2_create :: "allocator \<Rightarrow> block_data list \<Rightarrow> u16 \<Rightarrow> block_data list option" where
  "block2_create mem bds mid = prv_block_insert mem bds (Id_Mid mid) BLOCK_2"

definition block2_delete :: "bool \<Rightarrow> block_data list \<Rightarrow> u16 \<Rightarrow> block_data list option" where
  "block2_delete raw bds mid = prv_block_data_delete raw bds (Id_Mid mid) BLOCK_2"

definition coap_block2_set_expected_mid :: "block_data list \<Rightarrow> u16 \<Rightarrow> u16 \<Rightarrow> block_data list option" where
  "coap_block2_set_expected_mid bds currentMid expectedMid =
     (case find_block_data bds (Id_Mid currentMid) BLOCK_2 of
        None \<Rightarrow> None
      | Some None \<Rightarrow> Some bds
      | Some (Some i) \<Rightarrow> Some (bds[i := (bds ! i)\<lparr>b_id := Id_Mid expectedMid\<rparr>]))"

definition coap_block2_handler ::
  "allocator \<Rightarrow> block_data list \<Rightarrow> u16 \<Rightarrow> bytes \<Rightarrow> u16 \<Rightarrow> u32 \<Rightarrow> bool \<Rightarrow> block_outcome" where
  "coap_block2_handler mem bds mid buffer blockSize blockNum blockMore =
     prv_coap_block_handler mem bds (Id_Mid mid) BLOCK_2 buffer blockSize blockNum blockMore"

section \<open>What a transfer accumulates\<close>

text \<open>The specification: the last block number and the bytes so far, per key.\<close>

definition reassemble ::
  "(u32 \<times> bytes) option \<Rightarrow> bytes \<Rightarrow> u16 \<Rightarrow> u32 \<Rightarrow> bool \<Rightarrow> u8 \<times> (u32 \<times> bytes) option \<times> bytes option" where
  "reassemble t buffer blockSize blockNum blockMore =
     (let stored = (\<lambda>n d. if blockMore then (COAP_231_CONTINUE, Some (n, d), None)
                          else (COAP_NO_ERROR, Some (n, d), Some d))
      in
      if blockNum = 0 then stored 0 buffer
      else
        (case t of
           None \<Rightarrow> (COAP_408_REQ_ENTITY_INCOMPLETE, None, None)
         | Some (n, d) \<Rightarrow>
             if blockNum \<le> n then (COAP_RETRANSMISSION, t, None)
             else if blockNum = n + 1 then
               (if length d \<noteq> unat (ucast blockSize * blockNum) then (COAP_408_REQ_ENTITY_INCOMPLETE, t, None)
                else stored blockNum (d @ buffer))
             else stored n d))"

definition entry_transfer :: "block_data \<Rightarrow> (u32 \<times> bytes) option" where
  "entry_transfer bd = (case (b_num bd, b_buffer bd) of (Some n, Buffer b) \<Rightarrow> Some (n, b) | _ \<Rightarrow> None)"

fun transfer_of :: "block_data list \<Rightarrow> block_id \<Rightarrow> (u32 \<times> bytes) option" where
  "transfer_of [] i = None"
| "transfer_of (bd # bds) i = (if b_id bd = i then entry_transfer bd else transfer_of bds i)"

definition filled :: "block_data \<Rightarrow> bool" where
  "filled bd \<longleftrightarrow> (\<exists>n b. b_num bd = Some n \<and> b_buffer bd = Buffer b \<and> b_size bd = length b)"

text \<open>
  The interface of the two families of keys: the URI of a Block1 request and the message identifier of
  a Block2 response. A matcher compares the keys of entries of its own kind, and a new entry holds the key.
\<close>

locale block_keys =
  fixes kind :: block_type and ident :: "'k \<Rightarrow> block_id"
  assumes matcher: "b_id bd \<in> range ident \<Longrightarrow> prv_get_matcher kind (ident k) bd = Some (b_id bd = ident k)"
    and insertion: "\<lbrakk>\<And>n. mem n\<rbrakk> \<Longrightarrow> \<exists>bd. prv_block_insert mem bds (ident k) kind = Some (bd # bds) \<and> b_id bd = ident k"
begin

definition own :: "block_data list \<Rightarrow> bool" where
  "own bds \<longleftrightarrow> (\<forall>bd \<in> set bds. b_id bd \<in> range ident \<and> filled bd)"

lemma own_Nil [simp]: "own []"
  by (simp add: own_def)

lemma own_Cons [simp]: "own (bd # bds) \<longleftrightarrow> b_id bd \<in> range ident \<and> filled bd \<and> own bds"
  by (auto simp: own_def)

lemma own_update: "own bds \<Longrightarrow> b_id bd \<in> range ident \<Longrightarrow> filled bd \<Longrightarrow> own (bds[i := bd])"
  by (auto simp: own_def dest: set_update_subset_insert [THEN subsetD])

text \<open>Position \<open>i\<close> is that of the entry with key \<open>k\<close>.\<close>

definition points :: "block_data list \<Rightarrow> nat \<Rightarrow> 'k \<Rightarrow> bool" where
  "points bds i k \<longleftrightarrow> i < length bds \<and> b_id (bds ! i) = ident k \<and> filled (bds ! i) \<and>
     transfer_of bds (ident k) = entry_transfer (bds ! i) \<and>
     (\<forall>bd j. b_id bd = ident k \<longrightarrow>
        transfer_of (bds[i := bd]) j = (if j = ident k then entry_transfer bd else transfer_of bds j))"

lemma find_own:
  "own bds \<Longrightarrow>
   find_block_data bds (ident k) kind = Some None \<and> transfer_of bds (ident k) = None \<or>
   (\<exists>i. find_block_data bds (ident k) kind = Some (Some i) \<and> points bds i k)"
proof (induction bds)
  case (Cons bd bds)
  show ?case
  proof (cases "b_id bd = ident k")
    case True
    then show ?thesis using Cons.prems by (intro disjI2 exI [of _ 0]) (simp add: matcher points_def)
  next
    case False
    then have f: "find_block_data (bd # bds) (ident k) kind = map_option (map_option Suc) (find_block_data bds (ident k) kind)"
      using Cons.prems by (simp add: matcher)
    have "points bds i k \<Longrightarrow> points (bd # bds) (Suc i) k" for i
      using False by (auto simp: points_def)
    then show ?thesis using Cons f False by auto
  qed
qed simp

text \<open>Writing block \<open>n\<close> and the bytes \<open>d\<close> to the entry at \<open>i\<close>.\<close>

lemma store_entry:
  assumes "own bds" "points bds i k" "b_id bd = ident k" "b_num bd = Some n" "b_buffer bd = Buffer d" "b_size bd = length d"
  shows "own (bds[i := bd])" and "transfer_of (bds[i := bd]) j = (if j = ident k then Some (n, d) else transfer_of bds j)"
    and "block_result (bds[i := bd]) i blockMore =
      (if blockMore then Some (COAP_231_CONTINUE, bds[i := bd], None)
       else Some (COAP_NO_ERROR, bds[i := bd], Some (Buffer d, length d)))"
proof -
  have "filled bd" "entry_transfer bd = Some (n, d)" using assms(4-6) by (simp_all add: filled_def entry_transfer_def)
  then show "own (bds[i := bd])" "transfer_of (bds[i := bd]) j = (if j = ident k then Some (n, d) else transfer_of bds j)"
    using assms by (simp_all add: own_update points_def)
  show "block_result (bds[i := bd]) i blockMore =
      (if blockMore then Some (COAP_231_CONTINUE, bds[i := bd], None)
       else Some (COAP_NO_ERROR, bds[i := bd], Some (Buffer d, length d)))"
    using assms by (simp add: block_result_def points_def)
qed

lemma points_Cons: "own bds \<Longrightarrow> b_id bd = ident k \<Longrightarrow> filled bd \<Longrightarrow> points (bd # bds) 0 k"
  by (simp add: points_def)

lemma unchanged_at:
  "points bds i k \<Longrightarrow> entry_transfer (bds ! i) = t \<Longrightarrow> transfer_of bds j = (if j = ident k then t else transfer_of bds j)"
  by (simp add: points_def)

definition simulates :: "block_data list \<Rightarrow> 'k \<Rightarrow> (u8 \<times> (u32 \<times> bytes) option \<times> bytes option) \<Rightarrow> block_outcome \<Rightarrow> bool" where
  "simulates bds k spec res \<longleftrightarrow>
     (\<exists>bds'. res = Some (fst spec, bds', map_option (\<lambda>b. (Buffer b, length b)) (snd (snd spec))) \<and> own bds' \<and>
        (\<forall>j. transfer_of bds' j = (if j = ident k then fst (snd spec) else transfer_of bds j)))"

lemma first_refines:
  assumes "own bds" "\<And>n. mem n" "find_block_data bds (ident k) kind = Some found"
  shows "simulates bds k (reassemble t buffer blockSize 0 blockMore) (first_block mem bds found (ident k) kind buffer blockMore)"
  using find_own [OF assms(1), of k]
proof
  assume "find_block_data bds (ident k) kind = Some None \<and> transfer_of bds (ident k) = None"
  then have f: "found = None" using assms(3) by simp
  obtain bd where bd: "prv_block_insert mem bds (ident k) kind = Some (bd # bds)" "b_id bd = ident k"
    using insertion [of mem bds k] assms(2) by auto
  let ?bd = "bd\<lparr>b_buffer := Buffer buffer, b_size := length buffer, b_num := Some 0\<rparr>"
  have "filled ?bd" "entry_transfer ?bd = Some (0, buffer)" by (simp_all add: filled_def entry_transfer_def)
  then show ?thesis using bd assms f
    by (auto simp: simulates_def first_block_def reassemble_def block_result_def Let_def)
next
  assume "\<exists>i. find_block_data bds (ident k) kind = Some (Some i) \<and> points bds i k"
  then obtain i where i: "found = Some i" "points bds i k" using assms(3) by auto
  let ?bd = "(bds ! i)\<lparr>b_buffer := Buffer buffer, b_size := length buffer, b_num := Some 0\<rparr>"
  have "b_id ?bd = ident k" using i(2) by (simp add: points_def)
  note s = store_entry [OF assms(1) i(2) this, of 0 buffer, simplified]
  have "b_buffer (bds ! i) \<noteq> Unset" "i < length bds" using i(2) by (auto simp: points_def filled_def)
  then have "first_block mem bds found (ident k) kind buffer blockMore = block_result (bds[i := ?bd]) i blockMore"
    using i(1) assms(2) by (simp add: first_block_def Let_def)
  then show ?thesis using s by (auto simp: simulates_def reassemble_def Let_def)
qed

lemma next_refines:
  assumes "own bds" "\<And>n. mem n" "points bds i k" "blockNum \<noteq> 0"
  shows "simulates bds k (reassemble (transfer_of bds (ident k)) buffer blockSize blockNum blockMore)
    (next_block mem bds i buffer blockSize blockNum blockMore)"
proof -
  obtain n d where e: "b_num (bds ! i) = Some n" "b_buffer (bds ! i) = Buffer d" "b_size (bds ! i) = length d"
    using assms(3) by (auto simp: points_def filled_def)
  then have t: "transfer_of bds (ident k) = Some (n, d)"
    using assms(3) by (simp add: points_def entry_transfer_def)
  have len: "i < length bds" using assms(3) by (simp add: points_def)
  have same: "simulates bds k (c, Some (n, d), out) (Some (c, bds, map_option (\<lambda>b. (Buffer b, length b)) out))" for c out
    using assms(1) t by (auto simp: simulates_def)
  let ?bd = "(bds ! i)\<lparr>b_buffer := Buffer (d @ buffer), b_size := length d + length buffer, b_num := Some blockNum\<rparr>"
  have "b_id ?bd = ident k" using assms(3) by (simp add: points_def)
  note s = store_entry [OF assms(1,3) this, of blockNum "d @ buffer", simplified]
  show ?thesis
    using assms(2,4) s same [of _ None, simplified] same [of _ "Some d", simplified]
    unfolding next_block_def reassemble_def t e Let_def
    by (auto simp: simulates_def block_result_def e len)
qed

lemma handler_refines:
  assumes "own bds" "\<And>n. mem n"
  shows "simulates bds k (reassemble (transfer_of bds (ident k)) buffer blockSize blockNum blockMore)
    (prv_coap_block_handler mem bds (ident k) kind buffer blockSize blockNum blockMore)"
proof (cases "blockNum = 0")
  case True
  then show ?thesis using find_own [OF assms(1), of k] first_refines [OF assms] by (auto simp: prv_coap_block_handler_def)
next
  case False
  show ?thesis using find_own [OF assms(1), of k]
  proof
    assume "find_block_data bds (ident k) kind = Some None \<and> transfer_of bds (ident k) = None"
    then show ?thesis using False assms(1) by (auto simp: prv_coap_block_handler_def simulates_def reassemble_def Let_def)
  next
    assume "\<exists>i. find_block_data bds (ident k) kind = Some (Some i) \<and> points bds i k"
    then show ?thesis using False next_refines [OF assms _ False] by (auto simp: prv_coap_block_handler_def)
  qed
qed

end

lemma insert_uri:
  assumes "\<And>n. mem n"
  shows "\<exists>bd. prv_block_insert mem bds (Id_Uri (Some u)) BLOCK_1 = Some (bd # bds) \<and> b_id bd = Id_Uri (Some u)"
  using assms by (simp add: prv_block_insert_def)

interpretation block1: block_keys BLOCK_1 "\<lambda>u. Id_Uri (Some u)"
  by unfold_locales (auto simp: prv_get_matcher_def prv_matchBlock1_def insert_uri)

interpretation block2: block_keys BLOCK_2 Id_Mid
  by unfold_locales (auto simp: prv_get_matcher_def prv_matchBlock2_def prv_block_insert_def)

text \<open>A list of Block1 transfers whose entries have been filled, and one of Block2 transfers.\<close>

definition block1_list :: "block_data list \<Rightarrow> bool" where
  "block1_list bds \<longleftrightarrow> (\<forall>bd \<in> set bds. (\<exists>u. b_id bd = Id_Uri (Some u)) \<and> filled bd)"

definition block2_list :: "block_data list \<Rightarrow> bool" where
  "block2_list bds \<longleftrightarrow> (\<forall>bd \<in> set bds. (\<exists>m. b_id bd = Id_Mid m) \<and> filled bd)"

lemma block1_own: "block1.own = block1_list"
  by (auto simp: block1_list_def block1.own_def fun_eq_iff)

lemma block2_own: "block2.own = block2_list"
  by (auto simp: block2_list_def block2.own_def fun_eq_iff)

text \<open>
  C25: With memory available, the Block1 handler implements the reassembly specification for the URI of
  the request and leaves the transfers of every other URI alone.
\<close>
theorem coap_block1_handler_refines:
  assumes "block1_list bds" "\<And>n. mem n"
    and "reassemble (transfer_of bds (Id_Uri (Some uri))) buffer blockSize blockNum blockMore = (code, t, out)"
  shows "\<exists>bds'. coap_block1_handler False mem bds (Some uri) mid buffer blockSize blockNum blockMore =
      Some (code, bds', map_option (\<lambda>b. (Buffer b, length b)) out) \<and> block1_list bds' \<and>
      (\<forall>j. transfer_of bds' j = (if j = Id_Uri (Some uri) then t else transfer_of bds j))"
  using block1.handler_refines [of bds mem uri buffer blockSize blockNum blockMore] assms(1,2)
  unfolding block1_own block1.simulates_def coap_block1_handler_def assms(3) fst_conv snd_conv by simp

theorem coap_block1_handler_refines_witness:
  "\<exists>bds'. coap_block1_handler False (\<lambda>n. True) [] (Some [47, 53]) 9 [1, 2] 16 0 True = Some (COAP_231_CONTINUE, bds', None) \<and>
     transfer_of bds' (Id_Uri (Some [47, 53])) = Some (0, [1, 2])"
  using coap_block1_handler_refines [of "[]" "\<lambda>n. True" "[47, 53]" "[1, 2]" 16 0 True COAP_231_CONTINUE "Some (0, [1, 2])" None 9]
  by (auto simp: block1_list_def reassemble_def)

text \<open>
  The Block2 handler implements the same specification, keyed by the message identifier.
\<close>
theorem coap_block2_handler_refines:
  assumes "block2_list bds" "\<And>n. mem n"
    and "reassemble (transfer_of bds (Id_Mid mid)) buffer blockSize blockNum blockMore = (code, t, out)"
  shows "\<exists>bds'. coap_block2_handler mem bds mid buffer blockSize blockNum blockMore =
      Some (code, bds', map_option (\<lambda>b. (Buffer b, length b)) out) \<and> block2_list bds' \<and>
      (\<forall>j. transfer_of bds' j = (if j = Id_Mid mid then t else transfer_of bds j))"
  using block2.handler_refines [of bds mem mid buffer blockSize blockNum blockMore] assms(1,2)
  unfolding block2_own block2.simulates_def coap_block2_handler_def assms(3) fst_conv snd_conv by simp

theorem coap_block2_handler_refines_witness:
  "\<exists>bds'. coap_block2_handler (\<lambda>n. True) [] 9 [1, 2] 16 3 False = Some (COAP_408_REQ_ENTITY_INCOMPLETE, bds', None)"
  using coap_block2_handler_refines [of "[]" "\<lambda>n. True" 9 "[1, 2]" 16 3 False COAP_408_REQ_ENTITY_INCOMPLETE None None]
  by (auto simp: block2_list_def reassemble_def)

section \<open>Whole transfers\<close>

text \<open>
  The blocks of a body as they arrive, \<open>k\<close> of them being there: the next one; a block after the first again; or
  block 0 again, with which the sender starts over, since it makes the receiver drop what it has. The
  transmission ends when all blocks are there.
\<close>

type_synonym arrival = "bytes \<times> u32 \<times> bool"

inductive transmission :: "bytes list \<Rightarrow> nat \<Rightarrow> arrival list \<Rightarrow> bool" for body where
  complete: "k = length body \<Longrightarrow> transmission body k []"
| next_block: "k < length body \<Longrightarrow> transmission body (Suc k) as \<Longrightarrow>
    transmission body k ((body ! k, of_nat k, Suc k < length body) # as)"
| again: "0 < j \<Longrightarrow> j < k \<Longrightarrow> transmission body k as \<Longrightarrow> transmission body k ((b, of_nat j, m) # as)"
| restart: "0 < k \<Longrightarrow> transmission body (Suc 0) as \<Longrightarrow>
    transmission body k ((body ! 0, 0, Suc 0 < length body) # as)"

text \<open>All blocks but the last have the full size.\<close>

definition full_blocks :: "u16 \<Rightarrow> bytes list \<Rightarrow> bool" where
  "full_blocks sz body \<longleftrightarrow> list_all (\<lambda>c. length c = unat sz) (butlast body)"

fun run_block1 ::
  "allocator \<Rightarrow> block_data list \<Rightarrow> bytes \<Rightarrow> u16 \<Rightarrow> arrival list \<Rightarrow> ((u8 \<times> (block_buffer \<times> nat) option) list \<times> block_data list) option" where
  "run_block1 mem bds uri sz [] = Some ([], bds)"
| "run_block1 mem bds uri sz ((buffer, num, m) # as) =
     (case coap_block1_handler False mem bds (Some uri) 0 buffer sz num m of
        None \<Rightarrow> None
      | Some (code, bds, out) \<Rightarrow>
          (case run_block1 mem bds uri sz as of None \<Rightarrow> None | Some (outs, bds) \<Rightarrow> Some ((code, out) # outs, bds)))"

fun run_spec :: "(u32 \<times> bytes) option \<Rightarrow> u16 \<Rightarrow> arrival list \<Rightarrow> (u8 \<times> bytes option) list \<times> (u32 \<times> bytes) option" where
  "run_spec t sz [] = ([], t)"
| "run_spec t sz ((buffer, num, m) # as) =
     (let (code, t, out) = reassemble t buffer sz num m; (outs, t) = run_spec t sz as in ((code, out) # outs, t))"

lemma run_block1_spec:
  "block1_list bds \<Longrightarrow> (\<And>n. mem n) \<Longrightarrow> run_spec (transfer_of bds (Id_Uri (Some uri))) sz as = (outs, t) \<Longrightarrow>
   \<exists>bds'. run_block1 mem bds uri sz as = Some (map (map_prod id (map_option (\<lambda>b. (Buffer b, length b)))) outs, bds') \<and>
     transfer_of bds' (Id_Uri (Some uri)) = t"
proof (induction as arbitrary: bds outs)
  case (Cons a as)
  obtain buffer num m where a: "a = (buffer, num, m)" by (cases a)
  obtain code t1 out where r: "reassemble (transfer_of bds (Id_Uri (Some uri))) buffer sz num m = (code, t1, out)"
    by (cases "reassemble (transfer_of bds (Id_Uri (Some uri))) buffer sz num m")
  have "block1.simulates bds uri (code, t1, out) (prv_coap_block_handler mem bds (Id_Uri (Some uri)) BLOCK_1 buffer sz num m)"
    using block1.handler_refines [of bds mem uri buffer sz num m] Cons.prems(1,2) r by (simp add: block1_own)
  then obtain bds1 where b: "coap_block1_handler False mem bds (Some uri) 0 buffer sz num m =
      Some (code, bds1, map_option (\<lambda>b. (Buffer b, length b)) out)" "block1_list bds1"
      "transfer_of bds1 (Id_Uri (Some uri)) = t1"
    unfolding block1.simulates_def block1_own coap_block1_handler_def fst_conv snd_conv by auto
  obtain outs1 where o: "run_spec t1 sz as = (outs1, t)" "outs = (code, out) # outs1"
    using Cons.prems(3) a r by (auto simp: Let_def split: prod.splits)
  have "run_spec (transfer_of bds1 (Id_Uri (Some uri))) sz as = (outs1, t)" using b(3) o(1) by simp
  from Cons.IH [OF b(2) Cons.prems(2) this] show ?case using b(1) o(2) a by auto
qed simp

lemma block_number:
  fixes sz :: u16
  assumes "unat sz * Suc k < 2 ^ 32" "Suc k < 2 ^ 32"
  shows "(of_nat k :: u32) + 1 = of_nat (Suc k)" "(of_nat (Suc k) :: u32) \<noteq> 0" "\<not> (of_nat (Suc k) :: u32) \<le> of_nat k"
    "unat (ucast sz * of_nat (Suc k) :: u32) = unat sz * Suc k"
proof -
  have u: "unat (of_nat (Suc k) :: u32) = Suc k" "unat (of_nat k :: u32) = k"
    using assms(2) by (simp_all add: unat_of_nat del: of_nat_Suc)
  show "(of_nat k :: u32) + 1 = of_nat (Suc k)" by simp
  show "(of_nat (Suc k) :: u32) \<noteq> 0" using u(1) by (metis Suc_not_Zero unat_0)
  show "\<not> (of_nat (Suc k) :: u32) \<le> of_nat k" using u by (simp only: word_le_nat_alt not_le lessI)
  show "unat (ucast sz * of_nat (Suc k) :: u32) = unat sz * Suc k"
    using assms(1) u(1) by (simp only: unat_word_ariths unat_ucast_widen) simp
qed

lemma again_number: "0 < j \<Longrightarrow> j \<le> k \<Longrightarrow> Suc k < 2 ^ 32 \<Longrightarrow> (of_nat j :: u32) \<noteq> 0 \<and> (of_nat j :: u32) \<le> of_nat k"
proof -
  assume a: "0 < j" "j \<le> k" "Suc k < 2 ^ 32"
  have "unat (of_nat j :: u32) = j" "unat (of_nat k :: u32) = k"
    using a by (simp_all add: unat_of_nat del: of_nat_Suc)
  then show ?thesis using a by (metis neq0_conv unat_0 word_le_nat_alt)
qed

lemma reassemble_next:
  assumes "n + 1 = num" "num \<noteq> 0" "\<not> num \<le> n" "length d = unat (ucast sz * num)"
  shows "reassemble (Some (n, d)) c sz num m =
    (if m then (COAP_231_CONTINUE, Some (num, d @ c), None) else (COAP_NO_ERROR, Some (num, d @ c), Some (d @ c)))"
  using assms(2-4) by (simp add: reassemble_def Let_def assms(1))

text \<open>The answers to the blocks of a body: only the whole body is handed out.\<close>

definition answer_ok :: "bytes \<Rightarrow> u8 \<times> bytes option \<Rightarrow> bool" where
  "answer_ok body r \<longleftrightarrow>
     r = (COAP_NO_ERROR, Some body) \<or> r = (COAP_231_CONTINUE, None) \<or> r = (COAP_RETRANSMISSION, None)"

text \<open>What is stored when \<open>k\<close> blocks are there.\<close>

definition blocks_held :: "bytes list \<Rightarrow> nat \<Rightarrow> u32 \<times> bytes" where
  "blocks_held body k = (of_nat (k - 1), concat (take k body))"

lemma length_full: "full_blocks sz body \<Longrightarrow> k < length body \<Longrightarrow> length (concat (take k body)) = unat sz * k"
proof (induction k)
  case (Suc k)
  have "body ! k \<in> set (butlast body)"
    using Suc.prems(2) by (metis Suc_lessD length_butlast less_diff_conv nth_butlast nth_mem plus_1_eq_Suc add.commute)
  then have "length (body ! k) = unat sz" using Suc.prems(1) by (simp add: full_blocks_def list_all_iff)
  with Suc show ?case by (simp add: take_Suc_conv_app_nth)
qed simp

lemma first_block_answer:
  assumes "body \<noteq> []"
  shows "\<exists>r. reassemble t (body ! 0) sz 0 (Suc 0 < length body) = (fst r, Some (blocks_held body (Suc 0)), snd r) \<and>
    answer_ok (concat body) r \<and> (length body = Suc 0 \<longrightarrow> r = (COAP_NO_ERROR, Some (concat body)))"
  using assms by (cases body; cases "tl body") (auto simp: reassemble_def blocks_held_def answer_ok_def)

lemma next_block_answer:
  assumes "full_blocks sz body" "0 < k" "k < length body" "unat sz * length body < 2 ^ 32" "length body < 2 ^ 32"
  shows "\<exists>r. reassemble (Some (blocks_held body k)) (body ! k) sz (of_nat k) (Suc k < length body) =
      (fst r, Some (blocks_held body (Suc k)), snd r) \<and>
    answer_ok (concat body) r \<and> (length body = Suc k \<longrightarrow> r = (COAP_NO_ERROR, Some (concat body)))"
proof -
  obtain i where i: "k = Suc i" using assms(2) gr0_conv_Suc by blast
  have "unat sz * Suc i \<le> unat sz * length body" using assms(3) i by (intro mult_le_mono2) simp
  then have small: "unat sz * Suc i < 2 ^ 32" "Suc i < 2 ^ 32" using assms(3-5) i by linarith+
  define w :: u32 where "w = of_nat (Suc i)"
  note n = block_number [OF small, folded w_def]
  have "length (concat (take k body)) = unat (ucast sz * w :: u32)"
    using length_full [OF assms(1,3)] n(4) i by simp
  note r = reassemble_next [OF n(1-3) this, of "body ! k" "Suc k < length body"]
  have "concat (take k body) @ body ! k = concat (take (Suc k) body)"
    using assms(3) by (simp add: take_Suc_conv_app_nth)
  with r have "reassemble (Some (blocks_held body k)) (body ! k) sz w (Suc k < length body) =
      (if Suc k < length body then (COAP_231_CONTINUE, Some (blocks_held body (Suc k)), None)
       else (COAP_NO_ERROR, Some (blocks_held body (Suc k)), Some (concat (take (Suc k) body))))"
    by (simp add: blocks_held_def i w_def del: of_nat_Suc)
  then show ?thesis using assms(3) unfolding w_def [folded i] by (auto simp: answer_ok_def i)
qed

lemma again_answer:
  assumes "0 < j" "j < k" "k \<le> length body" "length body < 2 ^ 32"
  shows "reassemble (Some (blocks_held body k)) b sz (of_nat j) m = (COAP_RETRANSMISSION, Some (blocks_held body k), None)"
  using again_number [of j "k - 1"] assms by (simp add: reassemble_def blocks_held_def Let_def)

lemma transmission_spec:
  assumes "transmission body k as" and "full_blocks sz body" "unat sz * length body < 2 ^ 32" "length body < 2 ^ 32"
    and "body \<noteq> []" "k \<le> length body" and "k = 0 \<or> t = Some (blocks_held body k)"
  shows "\<exists>outs. run_spec t sz as = (outs, Some (blocks_held body (length body))) \<and>
     list_all (answer_ok (concat body)) outs \<and> (k < length body \<longrightarrow> (COAP_NO_ERROR, Some (concat body)) \<in> set outs)"
  using assms(1,6,7)
proof (induction arbitrary: t rule: transmission.induct)
  case (complete k)
  with assms(5) show ?case by simp
next
  case (next_block k as)
  obtain r where r: "reassemble t (body ! k) sz (of_nat k) (Suc k < length body) = (fst r, Some (blocks_held body (Suc k)), snd r)"
    "answer_ok (concat body) r" "length body = Suc k \<longrightarrow> r = (COAP_NO_ERROR, Some (concat body))"
    using first_block_answer [OF assms(5), of t sz] next_block_answer [OF assms(2) _ next_block.hyps(1) assms(3,4)]
      next_block.prems(2) by (cases "k = 0") auto
  obtain outs where "run_spec (Some (blocks_held body (Suc k))) sz as = (outs, Some (blocks_held body (length body)))"
    "list_all (answer_ok (concat body)) outs" "Suc k < length body \<longrightarrow> (COAP_NO_ERROR, Some (concat body)) \<in> set outs"
    using next_block.IH [of "Some (blocks_held body (Suc k))"] next_block.hyps(1) by auto
  with r next_block.hyps(1) show ?case by (cases r) auto
next
  case (again j k as b m)
  obtain outs where "run_spec t sz as = (outs, Some (blocks_held body (length body)))"
    "list_all (answer_ok (concat body)) outs" "k < length body \<longrightarrow> (COAP_NO_ERROR, Some (concat body)) \<in> set outs"
    using again.IH [OF again.prems] by blast
  moreover have "t = Some (blocks_held body k)" using again by simp
  ultimately show ?case using again_answer [OF again.hyps(1,2) again.prems(1) assms(4)] by (simp add: answer_ok_def [of _ "(COAP_RETRANSMISSION, None)"])
next
  case (restart k as)
  obtain r where r: "reassemble t (body ! 0) sz 0 (Suc 0 < length body) = (fst r, Some (blocks_held body (Suc 0)), snd r)"
    "answer_ok (concat body) r" "length body = Suc 0 \<longrightarrow> r = (COAP_NO_ERROR, Some (concat body))"
    using first_block_answer [OF assms(5), of t sz] by blast
  obtain outs where "run_spec (Some (blocks_held body (Suc 0))) sz as = (outs, Some (blocks_held body (length body)))"
    "list_all (answer_ok (concat body)) outs" "Suc 0 < length body \<longrightarrow> (COAP_NO_ERROR, Some (concat body)) \<in> set outs"
    using restart.IH [of "Some (blocks_held body (Suc 0))"] assms(5) by (auto simp: Suc_le_eq)
  with r restart.prems(1) restart.hyps(1) show ?case by (cases r) auto
qed

text \<open>
  C19: A body sent block by block is handed out once it is complete and never in another state: every
  answer is 2.31, a retransmission, or the whole body. Blocks that have been received may arrive again at any point;
  block 0 again makes the receiver start over, and the blocks after it have to come again as well.
\<close>
theorem coap_block1_reassembles:
  assumes "transmission body 0 as" "body \<noteq> []" "full_blocks sz body"
    and "unat sz * length body < 2 ^ 32" "length body < 2 ^ 32" and "block1_list bds" "\<And>n. mem n"
  shows "\<exists>outs bds'. run_block1 mem bds uri sz as = Some (outs, bds') \<and>
     (COAP_NO_ERROR, Some (Buffer (concat body), length (concat body))) \<in> set outs \<and>
     (\<forall>(code, out) \<in> set outs. code = COAP_NO_ERROR \<and> out = Some (Buffer (concat body), length (concat body)) \<or>
        code \<in> {COAP_231_CONTINUE, COAP_RETRANSMISSION} \<and> out = None)"
proof -
  let ?t = "transfer_of bds (Id_Uri (Some uri))"
  obtain outs where o: "run_spec ?t sz as = (outs, Some (blocks_held body (length body)))"
    "list_all (answer_ok (concat body)) outs" "(COAP_NO_ERROR, Some (concat body)) \<in> set outs"
    using transmission_spec [OF assms(1,3,4,5,2), of ?t] assms(2) by auto
  from run_block1_spec [where mem = mem, OF assms(6,7) o(1)] obtain bds' where
    "run_block1 mem bds uri sz as = Some (map (map_prod id (map_option (\<lambda>b. (Buffer b, length b)))) outs, bds')"
    by blast
  with o(2,3) show ?thesis
    by (intro exI [of _ "map (map_prod id (map_option (\<lambda>b. (Buffer b, length b)))) outs"] exI [of _ bds'])
      (force simp: answer_ok_def list_all_iff)
qed

text \<open>Block 1 comes twice, then the sender starts over.\<close>

theorem coap_block1_reassembles_witness:
  "\<exists>outs bds'. run_block1 (\<lambda>n. True) [] [47, 53] 2
       [([1, 2], 0, True), ([3, 4], 1, True), ([3, 4], 1, True), ([1, 2], 0, True), ([3, 4], 1, True), ([5], 2, False)] =
       Some (outs, bds') \<and>
     (COAP_NO_ERROR, Some (Buffer [1, 2, 3, 4, 5], 5)) \<in> set outs"
proof -
  let ?body = "[[1, 2], [3, 4], [5 :: u8]]"
  have "transmission ?body 3 []" by (rule transmission.complete) simp
  from transmission.next_block [of 2 ?body, simplified, OF this]
  have "transmission ?body 2 [([5], 2, False)]" by simp
  from transmission.next_block [of 1 ?body, simplified, OF this [unfolded numeral_2_eq_2]]
  have "transmission ?body (Suc 0) [([3, 4], 1, True), ([5], 2, False)]" by simp
  from transmission.again [of 1 2 ?body _ "[3, 4]" True, OF _ _ transmission.restart [of 2 ?body, simplified, OF this]]
  have "transmission ?body (Suc (Suc 0)) [([3, 4], 1, True), ([1, 2], 0, True), ([3, 4], 1, True), ([5], 2, False)]"
    by (simp add: numeral_2_eq_2)
  from transmission.next_block [of 1 ?body, simplified, OF this]
  have "transmission ?body (Suc 0) [([3, 4], 1, True), ([3, 4], 1, True), ([1, 2], 0, True), ([3, 4], 1, True), ([5], 2, False)]" by simp
  from transmission.next_block [of 0 ?body, simplified, OF this]
  have run: "transmission ?body 0
    [([1, 2], 0, True), ([3, 4], 1, True), ([3, 4], 1, True), ([1, 2], 0, True), ([3, 4], 1, True), ([5], 2, False)]" by simp
  have c: "concat ?body = [1, 2, 3, 4, 5 :: u8]" "length [1, 2, 3, 4, 5 :: u8] = 5" by simp_all
  have "full_blocks 2 ?body" "unat (2 :: u16) * length ?body < 2 ^ 32" "length ?body < 2 ^ 32" "block1_list []" "?body \<noteq> []"
    by (simp_all add: block1_list_def full_blocks_def)
  from coap_block1_reassembles [OF run this(5,1-4), of "\<lambda>n. True" "[47, 53]"] show ?thesis unfolding c by blast
qed

text \<open>
  What the handlers accept or lose. A last block whose number skips others completes the transfer
  with the blocks before the gap; a Block2 transfer in the list of a peer makes the search for a Block1
  transfer read the union through the wrong member; without memory for a new entry block 0 is blocks_held
  through the null pointer; and an entry whose first block could not be blocks_held is freed with a buffer
  pointer that was never set.
\<close>
theorem coap_block_limits:
  "(\<exists>bds bds'. coap_block1_handler False (\<lambda>n. True) [] (Some [47]) 1 [1, 2] 2 0 True = Some (COAP_231_CONTINUE, bds, None) \<and>
      coap_block1_handler False (\<lambda>n. True) bds (Some [47]) 2 [9] 2 5 False = Some (COAP_NO_ERROR, bds', Some (Buffer [1, 2], 2))) \<and>
   (\<exists>bds bds'. coap_block2_handler (\<lambda>n. True) [] 7 [1] 16 0 True = Some (COAP_231_CONTINUE, bds, bds') \<and>
      coap_block1_handler False (\<lambda>n. True) bds (Some [47]) 1 [1] 16 0 True = None) \<and>
   coap_block1_handler False (\<lambda>n. n \<noteq> 48) [] (Some [47]) 1 [1] 16 0 True = None \<and>
   (\<exists>bds. coap_block1_handler False (\<lambda>n. n \<noteq> 1) [] (Some [47]) 1 [1] 16 0 True = Some (COAP_500_INTERNAL_SERVER_ERROR, bds, None) \<and>
      block1_delete False bds (Some [47]) = None)"
  by (simp add: coap_block1_handler_def coap_block2_handler_def prv_coap_block_handler_def first_block_def next_block_def
      prv_block_insert_def block_result_def Let_def prv_get_matcher_def prv_matchBlock1_def prv_matchBlock2_def
      block1_delete_def prv_block_data_delete_def free_block_data_def)

text \<open>
  The raw handler passes each new block on exactly once: while a transfer is blocks_held, a block whose
  number does not exceed the last one is ignored and changes nothing, as is a repetition of block 0
  with the same message identifier.
\<close>
theorem raw_block_once:
  assumes "find_block_data bds identifier kind = Some (Some i)" "b_num (bds ! i) = Some n" "b_mid (bds ! i) = Some m"
  shows "prv_coap_raw_block_handler mem bds identifier mid kind num cont =
    (if num = 0 \<and> mid = m \<or> num \<noteq> 0 \<and> num \<le> n then Some (COAP_IGNORE, bds)
     else if cont then Some (COAP_231_CONTINUE, bds[i := (bds ! i)\<lparr>b_num := Some num, b_mid := Some mid\<rparr>])
     else map_option (Pair COAP_NO_ERROR)
       (prv_block_data_delete True (bds[i := (bds ! i)\<lparr>b_num := Some num, b_mid := Some mid\<rparr>]) identifier kind))"
  using assms by (auto simp: prv_coap_raw_block_handler_def Let_def)

theorem raw_block_once_witness:
  "prv_coap_raw_block_handler (\<lambda>n. True) [\<lparr>b_type = BLOCK_1, b_id = Id_Uri (Some [47]), b_buffer = Unset, b_size = 0,
      b_num = Some 3, b_mid = Some 8\<rparr>] (Id_Uri (Some [47])) 9 BLOCK_1 3 True =
    Some (COAP_IGNORE, [\<lparr>b_type = BLOCK_1, b_id = Id_Uri (Some [47]), b_buffer = Unset, b_size = 0,
      b_num = Some 3, b_mid = Some 8\<rparr>])"
  by (subst raw_block_once [where i = 0 and n = 3 and m = 8]) (simp_all add: prv_get_matcher_def prv_matchBlock1_def)

end
