(* ===== verification/Client_Context.thy ===== *)
theory Client_Context
  imports Id_List Data_Types Uri Block_Transfer
begin

text \<open>
  The state of a client (\<^verbatim>\<open>include/liblwm2m.h\<close>, lines 425 to 480, 560 to 590, 640 to 780): the objects
  with their callbacks, the servers, and the observed URIs with their watchers.

  The callbacks of an object see and change the state of that object only; the state is a value of
  the type \<open>'s\<close>, and \<open>o_instanceList\<close> is the view of it that \<^verbatim>\<open>instanceList\<close> gives: the numbers of
  the nodes in their order. Reading and discovering change nothing. A callback that is null is
  \<open>None\<close>; its result is \<open>None\<close> when it leaves the memory it may use.

  A server is the node of a sorted list whose number is that of its Security object instance.
  A watcher refers to its server by that number; a number that is not in the list is a dangling
  pointer. A session handle is a number, \<open>None\<close> is the null handle.
\<close>

section \<open>Servers\<close>

datatype lwm2m_status =
    STATE_DEREGISTERED
  | STATE_REG_HOLD_OFF
  | STATE_REG_PENDING
  | STATE_REGISTERED
  | STATE_REG_FAILED
  | STATE_REG_UPDATE_PENDING
  | STATE_REG_UPDATE_NEEDED
  | STATE_REG_FULL_UPDATE_NEEDED
  | STATE_DEREG_PENDING
  | STATE_BS_HOLD_OFF
  | STATE_BS_INITIATED
  | STATE_BS_PENDING
  | STATE_BS_FINISHING
  | STATE_BS_FINISHED
  | STATE_BS_FAILING
  | STATE_BS_FAILED

record lwm2m_server =
  sv_secObjInstID :: u16
  sv_shortID :: u16
  sv_lifetime :: int
  sv_registration :: int
  sv_binding :: u8
  sv_sessionH :: "nat option"
  sv_status :: lwm2m_status
  sv_location :: "bytes option"
  sv_dirty :: bool
  sv_blockData :: "block_data list"
  sv_servObjInstID :: u16
  sv_attempt :: u8
  sv_sequence :: u8

section \<open>Observations\<close>

text \<open>Doubles are their 64 bits.\<close>

record lwm2m_attributes =
  at_toSet :: u8
  at_toClear :: u8
  at_minPeriod :: u32
  at_maxPeriod :: u32
  at_greaterThan :: u64
  at_lessThan :: u64
  at_step :: u64

abbreviation (input) LWM2M_ATTR_FLAG_MIN_PERIOD :: u8 where "LWM2M_ATTR_FLAG_MIN_PERIOD \<equiv> 0x01"
abbreviation (input) LWM2M_ATTR_FLAG_MAX_PERIOD :: u8 where "LWM2M_ATTR_FLAG_MAX_PERIOD \<equiv> 0x02"
abbreviation (input) LWM2M_ATTR_FLAG_GREATER_THAN :: u8 where "LWM2M_ATTR_FLAG_GREATER_THAN \<equiv> 0x04"
abbreviation (input) LWM2M_ATTR_FLAG_LESS_THAN :: u8 where "LWM2M_ATTR_FLAG_LESS_THAN \<equiv> 0x08"
abbreviation (input) LWM2M_ATTR_FLAG_STEP :: u8 where "LWM2M_ATTR_FLAG_STEP \<equiv> 0x10"
abbreviation (input) ATTR_FLAG_NUMERIC :: u8 where "ATTR_FLAG_NUMERIC \<equiv> 0x1C"

text \<open>The union \<^verbatim>\<open>lastValue\<close> is its 64 bits, whichever member was stored.\<close>

record lwm2m_watcher =
  w_active :: bool
  w_update :: bool
  w_server :: u16
  w_parameters :: "lwm2m_attributes option"
  w_format :: lwm2m_media_type
  w_token :: bytes
  w_lastTime :: int
  w_counter :: u32
  w_lastMid :: u16
  w_lastValue :: u64

record lwm2m_observed =
  ob_uri :: lwm2m_uri
  ob_watcherList :: "lwm2m_watcher list"

section \<open>Objects\<close>

datatype lwm2m_write_type =
    LWM2M_WRITE_PARTIAL_UPDATE
  | LWM2M_WRITE_REPLACE_RESOURCES
  | LWM2M_WRITE_REPLACE_INSTANCE

type_synonym 's raw_call = "'s \<Rightarrow> lwm2m_uri \<Rightarrow> lwm2m_media_type \<Rightarrow> bytes option \<Rightarrow> u32 \<Rightarrow> u8 \<Rightarrow> (u8 \<times> 's) option"

record 's lwm2m_object =
  o_objID :: u16
  o_versionMajor :: u8
  o_versionMinor :: u8
  o_state :: 's
  o_instanceList :: "'s \<Rightarrow> u16 list"
  o_readFunc :: "('s \<Rightarrow> u16 \<Rightarrow> lwm2m_data list \<Rightarrow> (u8 \<times> lwm2m_data list) option) option"
  o_writeFunc :: "('s \<Rightarrow> u16 \<Rightarrow> lwm2m_data list \<Rightarrow> lwm2m_write_type \<Rightarrow> (u8 \<times> 's) option) option"
  o_executeFunc :: "('s \<Rightarrow> u16 \<Rightarrow> u16 \<Rightarrow> bytes option \<Rightarrow> (u8 \<times> 's) option) option"
  o_createFunc :: "('s \<Rightarrow> u16 \<Rightarrow> lwm2m_data list \<Rightarrow> (u8 \<times> 's) option) option"
  o_deleteFunc :: "('s \<Rightarrow> u16 \<Rightarrow> (u8 \<times> 's) option) option"
  o_discoverFunc :: "('s \<Rightarrow> u16 \<Rightarrow> lwm2m_data list \<Rightarrow> (u8 \<times> lwm2m_data list) option) option"
  o_rawBlock1CreateFunc :: "'s raw_call option"
  o_rawBlock1WriteFunc :: "'s raw_call option"
  o_rawBlock1ExecuteFunc :: "'s raw_call option"

definition instances_of :: "'s lwm2m_object \<Rightarrow> u16 list" where
  "instances_of ob = o_instanceList ob (o_state ob)"

abbreviation (input) LWM2M_SECURITY_OBJECT_ID :: u16 where "LWM2M_SECURITY_OBJECT_ID \<equiv> 0"
abbreviation (input) LWM2M_SERVER_OBJECT_ID :: u16 where "LWM2M_SERVER_OBJECT_ID \<equiv> 1"
abbreviation (input) LWM2M_DEVICE_OBJECT_ID :: u16 where "LWM2M_DEVICE_OBJECT_ID \<equiv> 3"
abbreviation (input) LWM2M_OSCORE_OBJECT_ID :: u16 where "LWM2M_OSCORE_OBJECT_ID \<equiv> 21"

section \<open>The context\<close>

datatype lwm2m_client_state =
    STATE_INITIAL
  | STATE_BOOTSTRAP_REQUIRED
  | STATE_BOOTSTRAPPING
  | STATE_REGISTER_REQUIRED
  | STATE_REGISTERING
  | STATE_READY

record 's client =
  cl_state :: lwm2m_client_state
  cl_endpointName :: "bytes option"
  cl_msisdn :: "bytes option"
  cl_altPath :: "bytes option"
  cl_bootstrapServerList :: "lwm2m_server list"
  cl_serverList :: "lwm2m_server list"
  cl_objectList :: "'s lwm2m_object list"
  cl_observedList :: "lwm2m_observed list"
  cl_nextMID :: u16

text \<open>Writing into a node that was found in one of the lists.\<close>

definition put_object :: "'s lwm2m_object \<Rightarrow> 's client \<Rightarrow> 's client" where
  "put_object ob c = c\<lparr>cl_objectList := list_put o_objID (cl_objectList c) ob\<rparr>"

definition put_server :: "lwm2m_server \<Rightarrow> 's client \<Rightarrow> 's client" where
  "put_server sv c = c\<lparr>cl_serverList := list_put sv_secObjInstID (cl_serverList c) sv\<rparr>"

definition find_object :: "'s client \<Rightarrow> u16 \<Rightarrow> 's lwm2m_object option" where
  "find_object c i = lwm2m_list_find o_objID (cl_objectList c) i"

text \<open>\<^verbatim>\<open>lwm2m_session_is_equal\<close> of the client compares the handles.\<close>

definition utils_findServer :: "'s client \<Rightarrow> nat \<Rightarrow> lwm2m_server option" where
  "utils_findServer c peer = find (\<lambda>sv. sv_sessionH sv = Some peer) (cl_serverList c)"

definition utils_findBootstrapServer :: "'s client \<Rightarrow> nat \<Rightarrow> lwm2m_server option" where
  "utils_findBootstrapServer c peer = find (\<lambda>sv. sv_sessionH sv = Some peer) (cl_bootstrapServerList c)"

end
