(* ===== verification/Coap_Packet.thy ===== *)
theory Coap_Packet
  imports Prelude_C
begin

text \<open>
  The CoAP packet in memory (\<^verbatim>\<open>coap/er-coap-13/er-coap-13.h\<close> and the setters, getters and string
  helpers of \<^verbatim>\<open>er-coap-13.c\<close>).

  A pointer with its length is the list of the bytes it points to; a null pointer is the empty list,
  except for the payload, where the code tells the two apart. The linked list of a repeated option is
  the list of its values. The bitmap \<^verbatim>\<open>options\<close>, five bytes, is a 40-bit word: bit \<open>n\<close> is bit
  \<open>n mod 8\<close> of byte \<open>n div 8\<close>. \<^verbatim>\<open>is_static\<close>, which says who frees a value, is not represented.
\<close>

section \<open>State\<close>

record coap_packet =
  p_version :: u8
  p_type :: u8
  p_code :: u8
  p_mid :: u16
  p_options :: "40 word"
  p_content_type :: u32
  p_max_age :: u32
  p_proxy_uri :: bytes
  p_etag :: bytes
  p_uri_host :: bytes
  p_location_path :: "bytes list"
  p_uri_port :: u16
  p_location_query :: bytes
  p_uri_path :: "bytes list"
  p_observe :: u32
  p_token :: bytes
  p_accept :: "u16 list"
  p_if_match :: bytes
  p_block2_num :: u32
  p_block2_more :: u8
  p_block2_size :: u16
  p_block2_offset :: u32
  p_block1_num :: u32
  p_block1_more :: u8
  p_block1_size :: u16
  p_block1_offset :: u32
  p_size :: u32
  p_uri_query :: "bytes list"
  p_if_none_match :: u8
  p_payload :: "bytes option"

abbreviation (input) COAP_OPTION_IF_MATCH :: nat where "COAP_OPTION_IF_MATCH \<equiv> 1"
abbreviation (input) COAP_OPTION_URI_HOST :: nat where "COAP_OPTION_URI_HOST \<equiv> 3"
abbreviation (input) COAP_OPTION_ETAG :: nat where "COAP_OPTION_ETAG \<equiv> 4"
abbreviation (input) COAP_OPTION_IF_NONE_MATCH :: nat where "COAP_OPTION_IF_NONE_MATCH \<equiv> 5"
abbreviation (input) COAP_OPTION_OBSERVE :: nat where "COAP_OPTION_OBSERVE \<equiv> 6"
abbreviation (input) COAP_OPTION_URI_PORT :: nat where "COAP_OPTION_URI_PORT \<equiv> 7"
abbreviation (input) COAP_OPTION_LOCATION_PATH :: nat where "COAP_OPTION_LOCATION_PATH \<equiv> 8"
abbreviation (input) COAP_OPTION_URI_PATH :: nat where "COAP_OPTION_URI_PATH \<equiv> 11"
abbreviation (input) COAP_OPTION_CONTENT_TYPE :: nat where "COAP_OPTION_CONTENT_TYPE \<equiv> 12"
abbreviation (input) COAP_OPTION_MAX_AGE :: nat where "COAP_OPTION_MAX_AGE \<equiv> 14"
abbreviation (input) COAP_OPTION_URI_QUERY :: nat where "COAP_OPTION_URI_QUERY \<equiv> 15"
abbreviation (input) COAP_OPTION_ACCEPT :: nat where "COAP_OPTION_ACCEPT \<equiv> 17"
abbreviation (input) COAP_OPTION_TOKEN :: nat where "COAP_OPTION_TOKEN \<equiv> 19"
abbreviation (input) COAP_OPTION_LOCATION_QUERY :: nat where "COAP_OPTION_LOCATION_QUERY \<equiv> 20"
abbreviation (input) COAP_OPTION_BLOCK2 :: nat where "COAP_OPTION_BLOCK2 \<equiv> 23"
abbreviation (input) COAP_OPTION_BLOCK1 :: nat where "COAP_OPTION_BLOCK1 \<equiv> 27"
abbreviation (input) COAP_OPTION_SIZE :: nat where "COAP_OPTION_SIZE \<equiv> 28"
abbreviation (input) COAP_OPTION_PROXY_URI :: nat where "COAP_OPTION_PROXY_URI \<equiv> 35"

section \<open>The bitmap\<close>

text \<open>
  \<^verbatim>\<open>SET_OPTION\<close> tests \<^verbatim>\<open>opt <= 40\<close>: option 40 is in range of the test and one byte past the array
  (\<open>None\<close>). \<^verbatim>\<open>IS_OPTION\<close> is only used with the constants above, all below 40.
\<close>

definition SET_OPTION :: "nat \<Rightarrow> coap_packet \<Rightarrow> coap_packet option" where
  "SET_OPTION opt p =
     (if opt \<le> 40 then
        (if opt = 40 then None else Some (p\<lparr>p_options := p_options p OR push_bit opt 1\<rparr>))
      else Some p)"

definition IS_OPTION :: "nat \<Rightarrow> coap_packet \<Rightarrow> bool" where
  "IS_OPTION opt p = bit (p_options p) opt"

text \<open>\<^verbatim>\<open>SET_OPTION\<close> with one of the constants.\<close>

definition set_known :: "nat \<Rightarrow> coap_packet \<Rightarrow> coap_packet" where
  "set_known opt p = p\<lparr>p_options := p_options p OR push_bit opt 1\<rparr>"

lemma SET_OPTION_known [simp]: "opt < 40 \<Longrightarrow> SET_OPTION opt p = Some (set_known opt p)"
  by (simp add: SET_OPTION_def set_known_def)

lemma IS_OPTION_set [simp]: "opt < 40 \<Longrightarrow> IS_OPTION k (set_known opt p) \<longleftrightarrow> k = opt \<or> IS_OPTION k p"
  by (auto simp: IS_OPTION_def set_known_def bit_or_iff bit_exp_iff)

section \<open>Repeated options\<close>

text \<open>
  The length is stored in a byte. \<^verbatim>\<open>sizeof(multi_option_t)\<close> is 24 bytes; a value that is not static is
  copied, and dropped without an error when one of the two allocations fails.
\<close>

definition coap_add_multi_option :: "allocator \<Rightarrow> bytes list \<Rightarrow> bytes \<Rightarrow> bool \<Rightarrow> bytes list" where
  "coap_add_multi_option mem dst option is_static =
     (if \<not> mem 24 then dst
      else if \<not> is_static \<and> \<not> mem (length option) then dst
      else dst @ [take (length option mod 256) option])"

definition prv_coap_get_multi_option_as_string :: "allocator \<Rightarrow> bytes list \<Rightarrow> u8 \<Rightarrow> u8 \<Rightarrow> bytes option" where
  "prv_coap_get_multi_option_as_string mem option prefix delimiter =
     (let len = sum_list (map (\<lambda>opt. length opt + 1) option) in
      if \<not> mem (len + 1) then None
      else
        (case option of
           [] \<Rightarrow> Some []
         | opt # rest \<Rightarrow> Some ((prefix # opt) @ concat (map ((#) delimiter) rest))))"

definition coap_get_multi_option_as_path_string :: "allocator \<Rightarrow> bytes list \<Rightarrow> bytes option" where
  "coap_get_multi_option_as_path_string mem option =
     prv_coap_get_multi_option_as_string mem option ch_slash ch_slash"

definition coap_get_multi_option_as_query_string :: "allocator \<Rightarrow> bytes list \<Rightarrow> bytes option" where
  "coap_get_multi_option_as_query_string mem option =
     prv_coap_get_multi_option_as_string mem option ch_question ch_ampersand"

section \<open>The URI of a packet\<close>

definition is_non_std_coap_port :: "u16 \<Rightarrow> bool" where
  "is_non_std_coap_port port \<longleftrightarrow> \<not> (port = 0 \<or> port = 5683 \<or> port = 5684)"

definition nDigits :: "nat \<Rightarrow> nat" where
  "nDigits x =
     (if x \<ge> 1000000000 then 10 else if x \<ge> 100000000 then 9 else if x \<ge> 10000000 then 8
      else if x \<ge> 1000000 then 7 else if x \<ge> 100000 then 6 else if x \<ge> 10000 then 5
      else if x \<ge> 1000 then 4 else if x \<ge> 100 then 3 else if x \<ge> 10 then 2 else 1)"

text \<open>The C string that starts at a list of bytes followed by a terminator.\<close>

definition cstr :: "bytes \<Rightarrow> bytes" where
  "cstr b = takeWhile (\<lambda>c. c \<noteq> 0) b"

text \<open>
  \<open>None\<close> where \<^verbatim>\<open>strlen\<close> gets the null pointer of a failed allocation; \<open>Some None\<close> is the null result.
  The size of the buffer counts the digits of the port, which are never written.
\<close>

definition packet_uri_size :: "coap_packet \<Rightarrow> bytes \<Rightarrow> bytes \<Rightarrow> nat" where
  "packet_uri_size p path query =
     2 + length (p_uri_host p) +
     (if is_non_std_coap_port (p_uri_port p) then nDigits (unat (p_uri_port p)) else 0) +
     (if 1 > length path then 1 else length path) + length query"

definition coap_get_packet_uri_as_string :: "allocator \<Rightarrow> coap_packet \<Rightarrow> bytes option option" where
  "coap_get_packet_uri_as_string mem p =
     (case coap_get_multi_option_as_path_string mem (p_uri_path p) of
        None \<Rightarrow> None
      | Some path \<Rightarrow>
          (case coap_get_multi_option_as_query_string mem (p_uri_query p) of
             None \<Rightarrow> None
           | Some query \<Rightarrow>
               let path = cstr path; query = cstr query in
               if \<not> mem (packet_uri_size p path query + 1) then Some None
               else Some (Some ([ch_slash, ch_slash] @ cstr (p_uri_host p) @
                 (if 1 > length path then [ch_slash] else path) @ query))))"

section \<open>Variables of a payload\<close>

text \<open>
  The loop of \<^verbatim>\<open>coap_get_variable\<close>: \<open>first\<close> says whether the byte before is \<^verbatim>\<open>&\<close> or there is none. The
  value runs to the next \<^verbatim>\<open>&\<close>; the returned length is that of the value, 0 when there is none.
\<close>

fun get_variable_loop :: "bytes \<Rightarrow> bool \<Rightarrow> bytes \<Rightarrow> bytes option" where
  "get_variable_loop name first [] = None"
| "get_variable_loop name first (c # cs) =
     (if \<not> length name < length (c # cs) then None
      else if first \<and> (c # cs) ! length name = ch_equals \<and> take (length name) (c # cs) = name
      then Some (takeWhile (\<lambda>c. c \<noteq> ch_ampersand) (drop (length name + 1) (c # cs)))
      else get_variable_loop name (c = ch_ampersand) cs)"

definition coap_get_variable :: "bytes \<Rightarrow> bytes \<Rightarrow> bytes option" where
  "coap_get_variable buffer name = get_variable_loop name True buffer"

definition coap_get_post_variable :: "coap_packet \<Rightarrow> bytes \<Rightarrow> bytes option" where
  "coap_get_post_variable p name =
     (case p_payload p of
        None \<Rightarrow> None
      | Some payload \<Rightarrow> if length payload \<noteq> 0 then coap_get_variable payload name else None)"

section \<open>Message identifiers, initialisation\<close>

text \<open>The state is \<^verbatim>\<open>current_mid\<close>.\<close>

definition coap_get_mid :: "u16 \<Rightarrow> u16 \<times> u16" where
  "coap_get_mid current_mid = (let current_mid = current_mid + 1 in (current_mid, current_mid))"

definition zero_packet :: coap_packet where
  "zero_packet = \<lparr>p_version = 0, p_type = 0, p_code = 0, p_mid = 0, p_options = 0, p_content_type = 0,
     p_max_age = 0, p_proxy_uri = [], p_etag = [], p_uri_host = [], p_location_path = [], p_uri_port = 0,
     p_location_query = [], p_uri_path = [], p_observe = 0, p_token = [], p_accept = [], p_if_match = [],
     p_block2_num = 0, p_block2_more = 0, p_block2_size = 0, p_block2_offset = 0,
     p_block1_num = 0, p_block1_more = 0, p_block1_size = 0, p_block1_offset = 0,
     p_size = 0, p_uri_query = [], p_if_none_match = 0, p_payload = None\<rparr>"

definition coap_init_message :: "u8 \<Rightarrow> u8 \<Rightarrow> u16 \<Rightarrow> coap_packet" where
  "coap_init_message type code mid = zero_packet\<lparr>p_type := type, p_code := code, p_mid := mid\<rparr>"

definition coap_free_header :: "coap_packet \<Rightarrow> coap_packet" where
  "coap_free_header p = p\<lparr>p_uri_path := [], p_uri_query := [], p_location_path := []\<rparr>"

section \<open>Getters and setters\<close>

text \<open>
  A getter returns \<open>None\<close> where the C function returns "not set" (0, or -1 for the content type); a
  setter returns the packet and the value of the C function. A C string is its bytes.
\<close>

definition coap_set_status_code :: "coap_packet \<Rightarrow> nat \<Rightarrow> coap_packet \<times> int" where
  "coap_set_status_code p code = (if code \<le> 0xFF then (p\<lparr>p_code := of_nat code\<rparr>, 1) else (p, 0))"

definition coap_get_header_content_type :: "coap_packet \<Rightarrow> u32" where
  "coap_get_header_content_type p =
     (if \<not> IS_OPTION COAP_OPTION_CONTENT_TYPE p then - 1 else p_content_type p)"

definition coap_set_header_content_type :: "coap_packet \<Rightarrow> u32 \<Rightarrow> coap_packet \<times> int" where
  "coap_set_header_content_type p content_type =
     (set_known COAP_OPTION_CONTENT_TYPE (p\<lparr>p_content_type := content_type\<rparr>), 1)"

definition coap_get_header_accept :: "coap_packet \<Rightarrow> u16 list option" where
  "coap_get_header_accept p = (if \<not> IS_OPTION COAP_OPTION_ACCEPT p then None else Some (p_accept p))"

definition coap_set_header_accept :: "coap_packet \<Rightarrow> u16 \<Rightarrow> coap_packet \<times> int" where
  "coap_set_header_accept p accept =
     (if length (p_accept p) < 2
      then (set_known COAP_OPTION_ACCEPT (p\<lparr>p_accept := p_accept p @ [accept]\<rparr>), int (length (p_accept p)) + 1)
      else (p, int (length (p_accept p))))"

text \<open>\<^verbatim>\<open>COAP_DEFAULT_MAX_AGE\<close> is 60.\<close>

definition coap_get_header_max_age :: "coap_packet \<Rightarrow> u32" where
  "coap_get_header_max_age p = (if \<not> IS_OPTION COAP_OPTION_MAX_AGE p then 60 else p_max_age p)"

definition coap_set_header_max_age :: "coap_packet \<Rightarrow> u32 \<Rightarrow> coap_packet \<times> int" where
  "coap_set_header_max_age p age = (set_known COAP_OPTION_MAX_AGE (p\<lparr>p_max_age := age\<rparr>), 1)"

definition coap_get_header_etag :: "coap_packet \<Rightarrow> bytes option" where
  "coap_get_header_etag p = (if \<not> IS_OPTION COAP_OPTION_ETAG p then None else Some (p_etag p))"

definition coap_set_header_etag :: "coap_packet \<Rightarrow> bytes \<Rightarrow> coap_packet \<times> int" where
  "coap_set_header_etag p etag =
     (set_known COAP_OPTION_ETAG (p\<lparr>p_etag := take 8 etag\<rparr>), int (min 8 (length etag)))"

definition coap_get_header_if_match :: "coap_packet \<Rightarrow> bytes option" where
  "coap_get_header_if_match p = (if \<not> IS_OPTION COAP_OPTION_IF_MATCH p then None else Some (p_if_match p))"

definition coap_set_header_if_match :: "coap_packet \<Rightarrow> bytes \<Rightarrow> coap_packet \<times> int" where
  "coap_set_header_if_match p etag =
     (set_known COAP_OPTION_IF_MATCH (p\<lparr>p_if_match := take 8 etag\<rparr>), int (min 8 (length etag)))"

definition coap_get_header_if_none_match :: "coap_packet \<Rightarrow> bool" where
  "coap_get_header_if_none_match p = IS_OPTION COAP_OPTION_IF_NONE_MATCH p"

definition coap_set_header_if_none_match :: "coap_packet \<Rightarrow> coap_packet \<times> int" where
  "coap_set_header_if_none_match p = (set_known COAP_OPTION_IF_NONE_MATCH p, 1)"

definition coap_get_header_token :: "coap_packet \<Rightarrow> bytes option" where
  "coap_get_header_token p = (if \<not> IS_OPTION COAP_OPTION_TOKEN p then None else Some (p_token p))"

definition coap_set_header_token :: "coap_packet \<Rightarrow> bytes \<Rightarrow> coap_packet \<times> int" where
  "coap_set_header_token p token =
     (set_known COAP_OPTION_TOKEN (p\<lparr>p_token := take 8 token\<rparr>), int (min 8 (length token)))"

definition coap_get_header_proxy_uri :: "coap_packet \<Rightarrow> bytes option" where
  "coap_get_header_proxy_uri p = (if \<not> IS_OPTION COAP_OPTION_PROXY_URI p then None else Some (p_proxy_uri p))"

definition coap_set_header_proxy_uri :: "coap_packet \<Rightarrow> bytes \<Rightarrow> coap_packet \<times> int" where
  "coap_set_header_proxy_uri p uri =
     (set_known COAP_OPTION_PROXY_URI (p\<lparr>p_proxy_uri := uri\<rparr>), int (length uri))"

definition coap_get_header_uri_host :: "coap_packet \<Rightarrow> bytes option" where
  "coap_get_header_uri_host p = (if \<not> IS_OPTION COAP_OPTION_URI_HOST p then None else Some (p_uri_host p))"

definition coap_set_header_uri_host :: "coap_packet \<Rightarrow> bytes \<Rightarrow> coap_packet \<times> int" where
  "coap_set_header_uri_host p host =
     (set_known COAP_OPTION_URI_HOST (p\<lparr>p_uri_host := host\<rparr>), int (length host))"

definition coap_get_header_uri_port :: "coap_packet \<Rightarrow> u16" where
  "coap_get_header_uri_port p = (if \<not> IS_OPTION COAP_OPTION_URI_PORT p then 0 else p_uri_port p)"

definition coap_set_header_uri_port :: "coap_packet \<Rightarrow> u16 \<Rightarrow> coap_packet" where
  "coap_set_header_uri_port p port = set_known COAP_OPTION_URI_PORT (p\<lparr>p_uri_port := port\<rparr>)"

text \<open>
  The loop that splits a path at the slashes or a query at the ampersands, adding one option per part.
  A separator at the end starts no further part; an empty string is one empty part.
\<close>

fun split_loop :: "allocator \<Rightarrow> u8 \<Rightarrow> bytes list \<Rightarrow> nat \<Rightarrow> bytes \<Rightarrow> bytes list \<times> nat" where
  "split_loop mem sep dst len path =
     (let seg = takeWhile (\<lambda>c. c \<noteq> sep) path;
          dst = coap_add_multi_option mem dst seg False;
          i = (if length seg < length path then length seg + 1 else length seg);
          len = len + i
      in
      if length path \<le> i then (dst, len)
      else split_loop mem sep dst len (drop i path))"

declare split_loop.simps [simp del]

definition skip_first :: "u8 \<Rightarrow> bytes \<Rightarrow> bytes" where
  "skip_first c s = (case s of [] \<Rightarrow> s | d # ds \<Rightarrow> if d = c then ds else s)"

definition coap_set_header_uri_path :: "allocator \<Rightarrow> coap_packet \<Rightarrow> bytes \<Rightarrow> coap_packet \<times> int" where
  "coap_set_header_uri_path mem p path =
     (let (segs, len) = split_loop mem ch_slash [] 0 (skip_first ch_slash path) in
      (set_known COAP_OPTION_URI_PATH (p\<lparr>p_uri_path := segs\<rparr>), int len))"

definition coap_set_header_location_path :: "allocator \<Rightarrow> coap_packet \<Rightarrow> bytes \<Rightarrow> coap_packet \<times> int" where
  "coap_set_header_location_path mem p path =
     (let (segs, len) = split_loop mem ch_slash [] 0 (skip_first ch_slash path) in
      (set_known COAP_OPTION_LOCATION_PATH (p\<lparr>p_location_path := segs\<rparr>), int len))"

definition coap_set_header_uri_query :: "allocator \<Rightarrow> coap_packet \<Rightarrow> bytes \<Rightarrow> coap_packet \<times> int" where
  "coap_set_header_uri_query mem p query =
     (let (segs, len) = split_loop mem ch_ampersand [] 0 (skip_first ch_question query) in
      (set_known COAP_OPTION_URI_QUERY (p\<lparr>p_uri_query := segs\<rparr>), int len))"

definition coap_set_header_uri_path_segment :: "allocator \<Rightarrow> coap_packet \<Rightarrow> bytes option \<Rightarrow> coap_packet \<times> int" where
  "coap_set_header_uri_path_segment mem p segment =
     (let (seg, static) = (case segment of None \<Rightarrow> ([], True) | Some [] \<Rightarrow> ([], True) | Some s \<Rightarrow> (s, False)) in
      (set_known COAP_OPTION_URI_PATH (p\<lparr>p_uri_path := coap_add_multi_option mem (p_uri_path p) seg static\<rparr>),
       int (length seg)))"

definition coap_set_header_uri_query_segment :: "allocator \<Rightarrow> coap_packet \<Rightarrow> bytes option \<Rightarrow> coap_packet \<times> int" where
  "coap_set_header_uri_query_segment mem p segment =
     (let (seg, static) = (case segment of None \<Rightarrow> ([], True) | Some [] \<Rightarrow> ([], True) | Some s \<Rightarrow> (s, False)) in
      (set_known COAP_OPTION_URI_QUERY (p\<lparr>p_uri_query := coap_add_multi_option mem (p_uri_query p) seg static\<rparr>),
       int (length seg)))"

definition coap_get_header_location_query :: "coap_packet \<Rightarrow> bytes option" where
  "coap_get_header_location_query p =
     (if \<not> IS_OPTION COAP_OPTION_LOCATION_QUERY p then None else Some (p_location_query p))"

definition coap_set_header_location_query :: "coap_packet \<Rightarrow> bytes \<Rightarrow> coap_packet \<times> int" where
  "coap_set_header_location_query p query =
     (let query = dropWhile (\<lambda>c. c = ch_question) query in
      (set_known COAP_OPTION_LOCATION_QUERY (p\<lparr>p_location_query := query\<rparr>), int (length query)))"

definition coap_get_header_observe :: "coap_packet \<Rightarrow> u32 option" where
  "coap_get_header_observe p = (if \<not> IS_OPTION COAP_OPTION_OBSERVE p then None else Some (p_observe p))"

definition coap_set_header_observe :: "coap_packet \<Rightarrow> u32 \<Rightarrow> coap_packet \<times> int" where
  "coap_set_header_observe p observe =
     (set_known COAP_OPTION_OBSERVE (p\<lparr>p_observe := 0x00FFFFFF AND observe\<rparr>), 1)"

definition coap_get_header_block2 :: "coap_packet \<Rightarrow> (u32 \<times> u8 \<times> u16 \<times> u32) option" where
  "coap_get_header_block2 p =
     (if \<not> IS_OPTION COAP_OPTION_BLOCK2 p then None
      else Some (p_block2_num p, p_block2_more p, p_block2_size p, p_block2_offset p))"

definition coap_set_header_block2 :: "coap_packet \<Rightarrow> u32 \<Rightarrow> u8 \<Rightarrow> u16 \<Rightarrow> coap_packet \<times> int" where
  "coap_set_header_block2 p num more_blocks block_size =
     (if block_size < 16 then (p, 0)
      else if block_size > 2048 then (p, 0)
      else if num > 0x0FFFFF then (p, 0)
      else (set_known COAP_OPTION_BLOCK2
              (p\<lparr>p_block2_num := num, p_block2_more := if more_blocks \<noteq> 0 then 1 else 0, p_block2_size := block_size\<rparr>), 1))"

definition coap_get_header_block1 :: "coap_packet \<Rightarrow> (u32 \<times> u8 \<times> u16 \<times> u32) option" where
  "coap_get_header_block1 p =
     (if \<not> IS_OPTION COAP_OPTION_BLOCK1 p then None
      else Some (p_block1_num p, p_block1_more p, p_block1_size p, p_block1_offset p))"

definition coap_set_header_block1 :: "coap_packet \<Rightarrow> u32 \<Rightarrow> u8 \<Rightarrow> u16 \<Rightarrow> coap_packet \<times> int" where
  "coap_set_header_block1 p num more_blocks block_size =
     (if block_size < 16 then (p, 0)
      else if block_size > 2048 then (p, 0)
      else if num > 0x0FFFFF then (p, 0)
      else (set_known COAP_OPTION_BLOCK1
              (p\<lparr>p_block1_num := num, p_block1_more := more_blocks, p_block1_size := block_size\<rparr>), 1))"

text \<open>Both branches ask for the Block1 option.\<close>

definition coap_get_header_block :: "coap_packet \<Rightarrow> (u32 \<times> u8 \<times> u16 \<times> u32) option" where
  "coap_get_header_block p =
     (case coap_get_header_block1 p of Some b \<Rightarrow> Some b | None \<Rightarrow> coap_get_header_block1 p)"

definition coap_get_header_size :: "coap_packet \<Rightarrow> u32 option" where
  "coap_get_header_size p = (if \<not> IS_OPTION COAP_OPTION_SIZE p then None else Some (p_size p))"

definition coap_set_header_size :: "coap_packet \<Rightarrow> u32 \<Rightarrow> coap_packet \<times> int" where
  "coap_set_header_size p sz = (set_known COAP_OPTION_SIZE (p\<lparr>p_size := sz\<rparr>), 1)"

definition coap_get_payload :: "coap_packet \<Rightarrow> bytes option" where
  "coap_get_payload p = p_payload p"

text \<open>The length is cut to 16 bits.\<close>

definition coap_set_payload :: "coap_packet \<Rightarrow> bytes \<Rightarrow> coap_packet \<times> nat" where
  "coap_set_payload p payload =
     (let len = length payload mod 65536 in (p\<lparr>p_payload := Some (take len payload)\<rparr>, len))"

end
