(* ===== verification/Observed_List.thy ===== *)
theory Observed_List
  imports Client_Context Data_Values Coap_Packet
begin

text \<open>
  The observed URIs of the client and their watchers (\<^verbatim>\<open>core/observe.c\<close>, lines 57 to 332 and 433 to 513):
  finding, adding, cancelling, clearing, and tagging them when a value has changed.

  The list of observed URIs is a list of records, each with the list of its watchers. A pointer into
  one of the lists is the position of the entry. \<open>None\<close> is undefined behaviour: a null or a dangling
  pointer is used.
\<close>

abbreviation (input) IS_SET_OBJECT :: "lwm2m_uri \<Rightarrow> bool" where
  "IS_SET_OBJECT u \<equiv> objectId u \<noteq> LWM2M_MAX_ID"
abbreviation (input) IS_SET_INSTANCE :: "lwm2m_uri \<Rightarrow> bool" where
  "IS_SET_INSTANCE u \<equiv> instanceId u \<noteq> LWM2M_MAX_ID"
abbreviation (input) IS_SET_RESOURCE :: "lwm2m_uri \<Rightarrow> bool" where
  "IS_SET_RESOURCE u \<equiv> resourceId u \<noteq> LWM2M_MAX_ID"
abbreviation (input) IS_SET_RESOURCE_INSTANCE :: "lwm2m_uri \<Rightarrow> bool" where
  "IS_SET_RESOURCE_INSTANCE u \<equiv> resourceInstanceId u \<noteq> LWM2M_MAX_ID"

text \<open>\<^verbatim>\<open>sizeof(lwm2m_observed_t)\<close> and \<^verbatim>\<open>sizeof(lwm2m_watcher_t)\<close> on a 64-bit platform.\<close>

definition sizeof_observed :: nat where "sizeof_observed = 24"
definition sizeof_watcher :: nat where "sizeof_watcher = 80"

section \<open>Finding\<close>

text \<open>The number of a URI is compared only where the URI asked for has one.\<close>

definition same_where_set :: "build \<Rightarrow> lwm2m_uri \<Rightarrow> lwm2m_uri \<Rightarrow> bool" where
  "same_where_set cfg u stored \<longleftrightarrow>
     \<not> (IS_SET_OBJECT u \<and> objectId stored \<noteq> objectId u
        \<or> IS_SET_INSTANCE u \<and> instanceId stored \<noteq> instanceId u
        \<or> IS_SET_RESOURCE u \<and> resourceId stored \<noteq> resourceId u
        \<or> \<not> version_1_0 cfg \<and> IS_SET_RESOURCE_INSTANCE u \<and> resourceInstanceId stored \<noteq> resourceInstanceId u)"

fun prv_findObserved :: "build \<Rightarrow> lwm2m_observed list \<Rightarrow> lwm2m_uri \<Rightarrow> nat option" where
  "prv_findObserved cfg [] u = None"
| "prv_findObserved cfg (ob # obs) u =
     (if same_where_set cfg u (ob_uri ob) then Some 0 else map_option Suc (prv_findObserved cfg obs u))"

definition prv_unlinkObserved :: "lwm2m_observed list \<Rightarrow> nat \<Rightarrow> lwm2m_observed list" where
  "prv_unlinkObserved obs i = take i obs @ drop (Suc i) obs"

fun prv_findWatcher :: "lwm2m_watcher list \<Rightarrow> u16 \<Rightarrow> nat option" where
  "prv_findWatcher [] server = None"
| "prv_findWatcher (w # ws) server =
     (if w_server w = server then Some 0 else map_option Suc (prv_findWatcher ws server))"

text \<open>Both numbers are unset, or both are set and equal.\<close>

definition same_number :: "u16 \<Rightarrow> u16 \<Rightarrow> bool" where
  "same_number a b \<longleftrightarrow>
     a = LWM2M_MAX_ID \<and> b = LWM2M_MAX_ID \<or> a \<noteq> LWM2M_MAX_ID \<and> b \<noteq> LWM2M_MAX_ID \<and> a = b"

definition same_uri :: "build \<Rightarrow> lwm2m_uri \<Rightarrow> lwm2m_uri \<Rightarrow> bool" where
  "same_uri cfg u stored \<longleftrightarrow>
     objectId stored = objectId u \<and> same_number (instanceId u) (instanceId stored) \<and>
     same_number (resourceId u) (resourceId stored) \<and>
     (version_1_0 cfg \<or> same_number (resourceInstanceId u) (resourceInstanceId stored))"

definition observe_findByUri :: "build \<Rightarrow> lwm2m_observed list \<Rightarrow> lwm2m_uri \<Rightarrow> lwm2m_observed option" where
  "observe_findByUri cfg obs u = find (\<lambda>ob. same_uri cfg u (ob_uri ob)) obs"

section \<open>Adding a watcher\<close>

definition new_watcher :: "u16 \<Rightarrow> lwm2m_watcher" where
  "new_watcher server = \<lparr>w_active = False, w_update = False, w_server = server, w_parameters = None,
     w_format = LWM2M_CONTENT_TEXT, w_token = [], w_lastTime = 0, w_counter = 0, w_lastMid = 0, w_lastValue = 0\<rparr>"

text \<open>
  The list and the position of the watcher, if there is one. When the watcher of a new entry cannot
  be allocated the entry is released while it is still the head of the list: \<open>None\<close>.
\<close>

definition prv_getWatcher ::
  "build \<Rightarrow> allocator \<Rightarrow> lwm2m_observed list \<Rightarrow> lwm2m_uri \<Rightarrow> u16 \<Rightarrow>
   (lwm2m_observed list \<times> (nat \<times> nat) option) option" where
  "prv_getWatcher cfg mem obs u server =
     (case prv_findObserved cfg obs u of
        None \<Rightarrow>
          if \<not> mem sizeof_observed then Some (obs, None)
          else if \<not> mem sizeof_watcher then None
          else Some (\<lparr>ob_uri = u, ob_watcherList = [new_watcher server]\<rparr> # obs, Some (0, 0))
      | Some i \<Rightarrow>
          let ws = ob_watcherList (obs ! i) in
          (case prv_findWatcher ws server of
             Some j \<Rightarrow> Some (obs, Some (i, j))
           | None \<Rightarrow>
               if \<not> mem sizeof_watcher then Some (obs, None)
               else Some (obs[i := (obs ! i)\<lparr>ob_watcherList := new_watcher server # ws\<rparr>], Some (i, 0))))"

definition get_watcher :: "lwm2m_observed list \<Rightarrow> nat \<times> nat \<Rightarrow> lwm2m_watcher" where
  "get_watcher obs = (\<lambda>(i, j). ob_watcherList (obs ! i) ! j)"

definition put_watcher :: "lwm2m_observed list \<Rightarrow> nat \<times> nat \<Rightarrow> lwm2m_watcher \<Rightarrow> lwm2m_observed list" where
  "put_watcher obs = (\<lambda>(i, j) w. obs[i := (obs ! i)\<lparr>ob_watcherList := (ob_watcherList (obs ! i))[j := w]\<rparr>])"

section \<open>Cancelling and clearing\<close>

definition watcher_matches ::
  "lwm2m_server list \<Rightarrow> u16 \<Rightarrow> nat option \<Rightarrow> lwm2m_watcher \<Rightarrow> bool option" where
  "watcher_matches servers mid peer w =
     (if w_lastMid w \<noteq> mid then Some False
      else map_option (\<lambda>sv. sv_sessionH sv = peer) (lwm2m_list_find sv_secObjInstID servers (w_server w)))"

text \<open>The list without its first match; \<open>Some None\<close> when there is no match.\<close>

fun cancel_watcher :: "(lwm2m_watcher \<Rightarrow> bool option) \<Rightarrow> lwm2m_watcher list \<Rightarrow> lwm2m_watcher list option option" where
  "cancel_watcher m [] = Some None"
| "cancel_watcher m (w # ws) =
     (case m w of
        None \<Rightarrow> None
      | Some True \<Rightarrow> Some (Some ws)
      | Some False \<Rightarrow> map_option (map_option (Cons w)) (cancel_watcher m ws))"

fun cancel_loop :: "(lwm2m_watcher \<Rightarrow> bool option) \<Rightarrow> lwm2m_observed list \<Rightarrow> lwm2m_observed list option" where
  "cancel_loop m [] = Some []"
| "cancel_loop m (ob # obs) =
     (if ob_watcherList ob = [] then None
      else
        (case cancel_watcher m (ob_watcherList ob) of
           None \<Rightarrow> None
         | Some None \<Rightarrow> map_option (Cons ob) (cancel_loop m obs)
         | Some (Some ws) \<Rightarrow> Some (if ws = [] then obs else ob\<lparr>ob_watcherList := ws\<rparr> # obs)))"

definition observe_cancel :: "u16 \<Rightarrow> nat option \<Rightarrow> 's client \<Rightarrow> 's client option" where
  "observe_cancel mid peer c =
     map_option (\<lambda>obs. c\<lparr>cl_observedList := obs\<rparr>)
       (cancel_loop (watcher_matches (cl_serverList c) mid peer) (cl_observedList c))"

fun clear_loop :: "lwm2m_uri \<Rightarrow> lwm2m_observed list \<Rightarrow> lwm2m_observed list" where
  "clear_loop u [] = []"
| "clear_loop u (ob # obs) =
     (if objectId (ob_uri ob) = objectId u \<and> (\<not> IS_SET_INSTANCE u \<or> instanceId (ob_uri ob) = instanceId u)
      then clear_loop u obs else ob # clear_loop u obs)"

definition observe_clear :: "lwm2m_uri \<Rightarrow> 's client \<Rightarrow> 's client" where
  "observe_clear u c = c\<lparr>cl_observedList := clear_loop u (cl_observedList c)\<rparr>"

section \<open>Changed values\<close>

definition affected :: "build \<Rightarrow> lwm2m_uri \<Rightarrow> lwm2m_uri \<Rightarrow> bool" where
  "affected cfg u stored \<longleftrightarrow>
     objectId stored = objectId u \<and>
     (\<not> IS_SET_INSTANCE u \<or> \<not> IS_SET_INSTANCE stored \<or> instanceId u = instanceId stored) \<and>
     (\<not> IS_SET_RESOURCE u \<or> \<not> IS_SET_RESOURCE stored \<or> resourceId u = resourceId stored) \<and>
     (version_1_0 cfg \<or> \<not> IS_SET_RESOURCE_INSTANCE u \<or> \<not> IS_SET_RESOURCE_INSTANCE stored \<or>
      resourceInstanceId u = resourceInstanceId stored)"

definition lwm2m_resource_value_changed :: "build \<Rightarrow> lwm2m_uri \<Rightarrow> 's client \<Rightarrow> 's client" where
  "lwm2m_resource_value_changed cfg u c =
     c\<lparr>cl_observedList := map (\<lambda>ob.
       if affected cfg u (ob_uri ob)
       then ob\<lparr>ob_watcherList := map (\<lambda>w. if w_active w then w\<lparr>w_update := True\<rparr> else w) (ob_watcherList ob)\<rparr>
       else ob) (cl_observedList c)\<rparr>"

section \<open>Observe requests\<close>

text \<open>\<^verbatim>\<open>(lwm2m_media_type_t)response->content_type\<close>; only the numbers of formats are stored there.\<close>

definition media_type_of_num :: "u32 \<Rightarrow> lwm2m_media_type option" where
  "media_type_of_num n = find (\<lambda>f. ucast (media_type_num f) = n)
     [LWM2M_CONTENT_TEXT, LWM2M_CONTENT_LINK, LWM2M_CONTENT_OPAQUE, LWM2M_CONTENT_TLV_OLD, LWM2M_CONTENT_TLV,
      LWM2M_CONTENT_JSON_OLD, LWM2M_CONTENT_JSON, LWM2M_CONTENT_SENML_JSON]"

text \<open>A multiple resource with one instance stands for that instance.\<close>

definition single_value :: "build \<Rightarrow> lwm2m_uri \<Rightarrow> lwm2m_data \<Rightarrow> lwm2m_data option" where
  "single_value cfg u d =
     (if \<not> version_1_0 cfg \<and> IS_SET_RESOURCE_INSTANCE u \<and> dtype d = LWM2M_TYPE_MULTIPLE_RESOURCE
      then map_option (\<lambda>ds. case ds of [d'] \<Rightarrow> d' | _ \<Rightarrow> d) (as_children (dvalue d))
      else Some d)"

text \<open>The number to remember: \<open>Some None\<close> when it cannot be read, \<open>Some (Some None)\<close> for other types.\<close>

definition numeric_value :: "build \<Rightarrow> lwm2m_data \<Rightarrow> u64 option option option" where
  "numeric_value cfg d =
     (case dtype d of
        LWM2M_TYPE_INTEGER \<Rightarrow> map_option (map_option Some) (lwm2m_data_decode_int cfg d)
      | LWM2M_TYPE_UNSIGNED_INTEGER \<Rightarrow> map_option (map_option Some) (lwm2m_data_decode_uint cfg d)
      | LWM2M_TYPE_FLOAT \<Rightarrow> map_option (map_option Some) (lwm2m_data_decode_float cfg (\<lambda>b e. None) d)
      | _ \<Rightarrow> Some (Some None))"

text \<open>\<open>dataP\<close> is null when the read returned nothing.\<close>

definition observed_value :: "build \<Rightarrow> lwm2m_uri \<Rightarrow> lwm2m_data list \<Rightarrow> u64 option option option" where
  "observed_value cfg u dataP =
     (if \<not> IS_SET_RESOURCE u then
        (if \<not> version_1_0 cfg \<and> IS_SET_RESOURCE_INSTANCE u \<and> dataP = [] then None else Some (Some None))
      else
        (case dataP of
           [] \<Rightarrow> None
         | d # _ \<Rightarrow> (case single_value cfg u d of None \<Rightarrow> None | Some d \<Rightarrow> numeric_value cfg d)))"

definition observe_start ::
  "build \<Rightarrow> allocator \<Rightarrow> int \<Rightarrow> lwm2m_uri \<Rightarrow> lwm2m_server \<Rightarrow> lwm2m_data list \<Rightarrow> coap_packet \<Rightarrow> coap_packet \<Rightarrow>
   's client \<Rightarrow> (u8 \<times> coap_packet \<times> 's client) option" where
  "observe_start cfg mem now u sv dataP m response c =
     (if \<not> IS_SET_INSTANCE u \<and> IS_SET_RESOURCE u then Some (COAP_400_BAD_REQUEST, response, c)
      else if p_token m = [] then Some (COAP_400_BAD_REQUEST, response, c)
      else
        (case prv_getWatcher cfg mem (cl_observedList c) u (sv_secObjInstID sv) of
           None \<Rightarrow> None
         | Some (obs, None) \<Rightarrow> Some (COAP_500_INTERNAL_SERVER_ERROR, response, c\<lparr>cl_observedList := obs\<rparr>)
         | Some (obs, Some pos) \<Rightarrow>
             (case (media_type_of_num (p_content_type response), observed_value cfg u dataP) of
                (Some format, Some value) \<Rightarrow>
                  let w = (get_watcher obs pos)\<lparr>w_token := p_token m, w_active := True, w_lastTime := now,
                             w_lastMid := p_mid response, w_format := format\<rparr>;
                      store = (\<lambda>w. c\<lparr>cl_observedList := put_watcher obs pos w\<rparr>)
                  in
                  (case value of
                     None \<Rightarrow> Some (COAP_500_INTERNAL_SERVER_ERROR, response, store w)
                   | Some number \<Rightarrow>
                       let w = (case number of None \<Rightarrow> w | Some n \<Rightarrow> w\<lparr>w_lastValue := n\<rparr>);
                           (response, _) = coap_set_header_observe response (w_counter w)
                       in Some (COAP_205_CONTENT, response, store (w\<lparr>w_counter := w_counter w + 1\<rparr>)))
              | _ \<Rightarrow> None)))"

definition observe_stop :: "build \<Rightarrow> lwm2m_uri \<Rightarrow> lwm2m_server \<Rightarrow> 's client \<Rightarrow> 's client option" where
  "observe_stop cfg u sv c =
     (case prv_findObserved cfg (cl_observedList c) u of
        None \<Rightarrow> Some c
      | Some i \<Rightarrow>
          let ws = ob_watcherList (cl_observedList c ! i) in
          (case prv_findWatcher ws (sv_secObjInstID sv) of
             None \<Rightarrow> Some c
           | Some j \<Rightarrow> observe_cancel (w_lastMid (ws ! j)) (sv_sessionH sv) c))"

definition observe_handleRequest ::
  "build \<Rightarrow> allocator \<Rightarrow> int \<Rightarrow> lwm2m_uri \<Rightarrow> lwm2m_server \<Rightarrow> lwm2m_data list \<Rightarrow> coap_packet \<Rightarrow> coap_packet \<Rightarrow>
   's client \<Rightarrow> (u8 \<times> coap_packet \<times> 's client) option" where
  "observe_handleRequest cfg mem now u sv dataP m response c =
     (case coap_get_header_observe m of
        None \<Rightarrow> None
      | Some count \<Rightarrow>
          if count = 0 then observe_start cfg mem now u sv dataP m response c
          else if count = 1 then map_option (\<lambda>c. (COAP_205_CONTENT, response, c)) (observe_stop cfg u sv c)
          else Some (COAP_400_BAD_REQUEST, response, c))"

end
