(* ===== verification/Discover.thy ===== *)
theory Discover
  imports Observed_List
begin

text \<open>
  The answer to a discover request (\<^verbatim>\<open>core/discover.c\<close>): the links of an object, an instance or a
  resource with the attributes that the asking server has set on them.

  What was written into a buffer is the list of its bytes; \<^verbatim>\<open>-1\<close> is \<open>None\<close>, or \<open>Some None\<close> where
  the outer \<open>None\<close> is a read of the union through another member. \<open>observed\<close> and \<open>server\<close> are the
  pointers to the context and to the server, which may be null. The text of doubles is an argument.
\<close>

section \<open>Attributes\<close>

text \<open>The loop keeps the last watcher of the server.\<close>

definition prv_findAttributes ::
  "build \<Rightarrow> lwm2m_observed list option \<Rightarrow> lwm2m_uri \<Rightarrow> u16 option \<Rightarrow> lwm2m_attributes option" where
  "prv_findAttributes cfg observed u server =
     (case (observed, server) of
        (Some obs, Some sv) \<Rightarrow>
          (case observe_findByUri cfg obs u of
             None \<Rightarrow> None
           | Some ob \<Rightarrow>
               (case filter (\<lambda>w. w_server w = sv) (ob_watcherList ob) of
                  [] \<Rightarrow> None
                | ws \<Rightarrow> w_parameters (last ws)))
      | _ \<Rightarrow> None)"

definition emit_number_attribute :: "nat \<Rightarrow> string \<Rightarrow> u32 \<Rightarrow> bytes \<Rightarrow> bytes option" where
  "emit_number_attribute cap name v out =
     do { out \<leftarrow> emit cap (ascii '';'') out; out \<leftarrow> emit cap (ascii name) out; emit_int cap (ucast v) out }"

definition emit_double_attribute ::
  "(u64 \<Rightarrow> nat \<Rightarrow> bool \<Rightarrow> bytes) \<Rightarrow> nat \<Rightarrow> string \<Rightarrow> u64 \<Rightarrow> bytes \<Rightarrow> bytes option" where
  "emit_double_attribute floatToText cap name v out =
     do { out \<leftarrow> emit cap (ascii '';'') out;
          out \<leftarrow> emit cap (ascii name) out;
          let s = floatToText v (cap - length out) False in
          if s = [] then None else Some (out @ s) }"

definition flag_set :: "u8 \<Rightarrow> lwm2m_attributes \<Rightarrow> bool" where
  "flag_set flag p \<longleftrightarrow> at_toSet p AND flag \<noteq> 0"

text \<open>The attributes replace the comma that ends the link and end with one.\<close>

definition prv_serializeAttributes ::
  "(u64 \<Rightarrow> nat \<Rightarrow> bool \<Rightarrow> bytes) \<Rightarrow> nat \<Rightarrow> lwm2m_attributes option \<Rightarrow> lwm2m_attributes option \<Rightarrow> bytes \<Rightarrow> bytes option" where
  "prv_serializeAttributes floatToText cap found objectParam out =
     (case (case found of None \<Rightarrow> objectParam | Some p \<Rightarrow> Some p) of
        None \<Rightarrow> Some out
      | Some p \<Rightarrow>
          let own_or_object = (\<lambda>flag name field out.
                if flag_set flag p then emit_number_attribute cap name (field p) out
                else
                  (case objectParam of
                     None \<Rightarrow> Some out
                   | Some q \<Rightarrow> if flag_set flag q then emit_number_attribute cap name (field q) out else Some out));
              own = (\<lambda>flag name field out.
                if flag_set flag p then emit_double_attribute floatToText cap name (field p) out else Some out)
          in do {
            out \<leftarrow> own_or_object LWM2M_ATTR_FLAG_MIN_PERIOD ''pmin='' at_minPeriod (butlast out);
            out \<leftarrow> own_or_object LWM2M_ATTR_FLAG_MAX_PERIOD ''pmax='' at_maxPeriod out;
            out \<leftarrow> own LWM2M_ATTR_FLAG_GREATER_THAN ''gt='' at_greaterThan out;
            out \<leftarrow> own LWM2M_ATTR_FLAG_LESS_THAN ''lt='' at_lessThan out;
            out \<leftarrow> own LWM2M_ATTR_FLAG_STEP ''st='' at_step out;
            emit cap (ascii '','') out
          })"

section \<open>Links\<close>

record link_env =
  le_cfg :: build
  le_floatToText :: "u64 \<Rightarrow> nat \<Rightarrow> bool \<Rightarrow> bytes"
  le_observed :: "lwm2m_observed list option"
  le_server :: "u16 option"

definition attributes_for ::
  "link_env \<Rightarrow> nat \<Rightarrow> lwm2m_uri \<Rightarrow> lwm2m_attributes option \<Rightarrow> bytes \<Rightarrow> bytes option" where
  "attributes_for L cap u objectParam out =
     (if le_server L = None then Some out
      else prv_serializeAttributes (le_floatToText L) cap
        (prv_findAttributes (le_cfg L) (le_observed L) u (le_server L)) objectParam out)"

text \<open>The link of a resource; \<open>dim\<close> is the number of its instances if it is a multiple one.\<close>

definition resource_link ::
  "link_env \<Rightarrow> nat \<Rightarrow> lwm2m_attributes option \<Rightarrow> lwm2m_uri \<Rightarrow> bytes \<Rightarrow> u16 \<Rightarrow> nat option \<Rightarrow> bytes option" where
  "resource_link L cap objectParam parent parentStr ident dim =
     do {
       out \<leftarrow> emit cap (ascii ''<'') [];
       out \<leftarrow> emit cap parentStr out;
       out \<leftarrow> emit cap (ascii ''/'') out;
       out \<leftarrow> emit_int cap (ucast ident) out;
       out \<leftarrow> (case dim of
                None \<Rightarrow> emit cap (ascii ''>,'') out
              | Some n \<Rightarrow>
                  do { out \<leftarrow> emit cap (ascii ''>;dim='') out;
                       out \<leftarrow> emit_int cap (of_nat n) out;
                       emit cap (ascii '','') out });
       attributes_for L cap (parent\<lparr>resourceId := ident\<rparr>) objectParam out
     }"

definition uri_max_string_len :: "build \<Rightarrow> nat" where
  "uri_max_string_len cfg = (if version_1_0 cfg then 18 else 24)"

definition instance_path :: "build \<Rightarrow> bytes \<Rightarrow> u16 \<Rightarrow> bytes option" where
  "instance_path cfg parentStr ident =
     do { out \<leftarrow> emit (uri_max_string_len cfg) parentStr [];
          out \<leftarrow> emit (uri_max_string_len cfg) (ascii ''/'') out;
          emit_int (uri_max_string_len cfg) (ucast ident) out }"

text \<open>The link of an instance is taken back when there are no attributes for it.\<close>

definition instance_link :: "link_env \<Rightarrow> nat \<Rightarrow> lwm2m_uri \<Rightarrow> bytes \<Rightarrow> bytes option" where
  "instance_link L cap u path =
     do {
       link \<leftarrow> emit cap (ascii ''<'') [];
       link \<leftarrow> emit cap path link;
       link \<leftarrow> emit cap (ascii ''>,'') link;
       if le_server L = None then Some link
       else do { out \<leftarrow> attributes_for L cap u None link; Some (if length out = length link then [] else out) }
     }"

text \<open>The bytes of the links and those of a list of links; \<open>Some None\<close> is \<^verbatim>\<open>-1\<close>.\<close>

fun prv_serializeLinkData ::
  "link_env \<Rightarrow> lwm2m_attributes option \<Rightarrow> lwm2m_uri \<Rightarrow> bytes \<Rightarrow> nat \<Rightarrow> lwm2m_data \<Rightarrow> bytes option option"
  and serialize_links ::
  "link_env \<Rightarrow> lwm2m_attributes option \<Rightarrow> lwm2m_uri \<Rightarrow> bytes \<Rightarrow> nat \<Rightarrow> lwm2m_data list \<Rightarrow> bytes option option" where
  "prv_serializeLinkData L objectParam parent parentStr cap (Data type ident v) =
     (case type of
        LWM2M_TYPE_OBJECT \<Rightarrow> Some None
      | LWM2M_TYPE_OBJECT_INSTANCE \<Rightarrow>
          (case instance_path (le_cfg L) parentStr ident of
             None \<Rightarrow> Some None
           | Some path \<Rightarrow>
               let u = parent\<lparr>instanceId := ident\<rparr> in
               (case instance_link L cap u path of
                  None \<Rightarrow> Some None
                | Some link \<Rightarrow>
                    (case v of
                       AsChildren ds \<Rightarrow>
                         map_option (map_option (\<lambda>rest. link @ rest))
                           (serialize_links L objectParam u path (cap - length link) ds)
                     | AsZero \<Rightarrow> Some (Some link)
                     | _ \<Rightarrow> None)))
      | LWM2M_TYPE_MULTIPLE_RESOURCE \<Rightarrow>
          map_option (\<lambda>ds. resource_link L cap objectParam parent parentStr ident (Some (length ds)))
            (as_children v)
      | _ \<Rightarrow> Some (resource_link L cap objectParam parent parentStr ident None))"
| "serialize_links L objectParam parent parentStr cap [] = Some (Some [])"
| "serialize_links L objectParam parent parentStr cap (d # ds) =
     (case prv_serializeLinkData L objectParam parent parentStr cap d of
        None \<Rightarrow> None
      | Some None \<Rightarrow> Some None
      | Some (Some out) \<Rightarrow>
          map_option (map_option (\<lambda>rest. out @ rest))
            (serialize_links L objectParam parent parentStr (cap - length out) ds))"

section \<open>The answer\<close>

text \<open>The attributes of the object and of the instance, those of the instance first.\<close>

definition merge_attributes ::
  "lwm2m_attributes option \<Rightarrow> lwm2m_attributes option \<Rightarrow> lwm2m_attributes option" where
  "merge_attributes objParam instParam =
     (case (objParam, instParam) of
        (None, i) \<Rightarrow> i
      | (ob, None) \<Rightarrow> ob
      | (Some ob, Some i) \<Rightarrow>
          let set = at_toSet ob OR at_toSet i;
              pick = (\<lambda>flag field. if set AND flag = 0 then 0 else if flag_set flag i then field i else field ob)
          in Some \<lparr>at_toSet = set, at_toClear = 0, at_minPeriod = pick LWM2M_ATTR_FLAG_MIN_PERIOD at_minPeriod,
               at_maxPeriod = pick LWM2M_ATTR_FLAG_MAX_PERIOD at_maxPeriod,
               at_greaterThan = 0, at_lessThan = 0, at_step = 0\<rparr>)"

definition only_object :: "u16 \<Rightarrow> lwm2m_uri" where
  "only_object i = uri_reset\<lparr>objectId := i\<rparr>"

text \<open>The link of the object or of the instance that was asked for.\<close>

definition head_link :: "link_env \<Rightarrow> nat \<Rightarrow> lwm2m_uri \<Rightarrow> bytes option" where
  "head_link L cap u =
     do {
       out \<leftarrow> emit cap (ascii ''<'') [];
       out \<leftarrow> emit cap (ascii ''/'') out;
       out \<leftarrow> emit_int cap (ucast (objectId u)) out;
       if IS_SET_INSTANCE u
       then do {
         out \<leftarrow> emit cap (ascii ''/'') out;
         out \<leftarrow> emit_int cap (ucast (instanceId u)) out;
         out \<leftarrow> emit cap (ascii ''>,'') out;
         attributes_for L cap ((only_object (objectId u))\<lparr>instanceId := instanceId u\<rparr>) None out
       }
       else do {
         out \<leftarrow> emit cap (ascii ''>,'') out;
         attributes_for L cap (only_object (objectId u)) None out
       }
     }"

text \<open>The loop over the data stops when the buffer is full.\<close>

fun link_loop ::
  "link_env \<Rightarrow> lwm2m_attributes option \<Rightarrow> lwm2m_uri \<Rightarrow> bytes \<Rightarrow> nat \<Rightarrow> bytes \<Rightarrow> lwm2m_data list \<Rightarrow> bytes option option" where
  "link_loop L param u base cap out [] = Some (Some out)"
| "link_loop L param u base cap out (d # ds) =
     (if cap \<le> length out then Some (Some out)
      else
        (case prv_serializeLinkData L param u base (cap - length out) d of
           None \<Rightarrow> None
         | Some None \<Rightarrow> Some None
         | Some (Some s) \<Rightarrow> link_loop L param u base cap (out @ s) ds))"

abbreviation (input) PRV_LINK_BUFFER_SIZE :: nat where "PRV_LINK_BUFFER_SIZE \<equiv> 1024"

text \<open>
  The result: the returned value and \<^verbatim>\<open>*bufferP\<close>. The last comma is dropped. An answer of no links
  at all leaves \<^verbatim>\<open>*bufferP\<close> as it was.
\<close>

definition discover_serialize ::
  "build \<Rightarrow> allocator \<Rightarrow> (u64 \<Rightarrow> nat \<Rightarrow> bool \<Rightarrow> bytes) \<Rightarrow> lwm2m_observed list option \<Rightarrow> u16 option \<Rightarrow>
   lwm2m_uri \<Rightarrow> lwm2m_data list \<Rightarrow> (int \<times> bytes option) option" where
  "discover_serialize cfg mem floatToText observed server u dataP =
     (let L = \<lparr>le_cfg = cfg, le_floatToText = floatToText, le_observed = observed, le_server = server\<rparr>;
          attributes = (\<lambda>u. prv_findAttributes cfg observed u server);
          obj = only_object (objectId u);
          (param, u, first) =
            (if IS_SET_RESOURCE u
             then (merge_attributes (attributes obj) (attributes (obj\<lparr>instanceId := instanceId u\<rparr>)),
                   u\<lparr>resourceId := LWM2M_MAX_ID\<rparr>, Some [])
             else (None, u, head_link L PRV_LINK_BUFFER_SIZE u))
      in
      case (first, uri_toString cfg (Some u) (replicate (uri_max_string_len cfg) 0)) of
        (None, _) \<Rightarrow> Some (-1, None)
      | (_, None) \<Rightarrow> None
      | (Some out, Some (n, base, _)) \<Rightarrow>
          if n < 0 then Some (-1, None)
          else
            map_option (\<lambda>r.
              case r of
                None \<Rightarrow> (-1, None)
              | Some out \<Rightarrow>
                  if out = [] then (0, None)
                  else if mem (length out - 1) then (int (length out) - 1, Some (butlast out))
                  else (0, None))
              (link_loop L param u (take (nat n) base) PRV_LINK_BUFFER_SIZE out dataP))"

end
