(* ===== verification/Json_Text.thy ===== *)
theory Json_Text
  imports Num_Text Data_Values
begin

text \<open>
  The lexical part of the JSON formats (\<^verbatim>\<open>data/json_common.c\<close>, lines 25 to 448): white space, the
  token and value of a member (\<^verbatim>\<open>json_split\<close>), the extent of an object, numbers, and the escape
  sequences of strings.

  A buffer and its length are one list. The macro \<^verbatim>\<open>_GO_TO_NEXT_CHAR\<close> is \<open>next_char\<close>; every use of
  it starts at an index inside of the buffer, so that it ends inside or just behind it; \<open>None\<close> is its
  jump to the error label there. The
  length of a JSON text is assumed to fit an \<^verbatim>\<open>int\<close>.
\<close>

abbreviation (input) ch_quote :: u8 where "ch_quote \<equiv> 34"
abbreviation (input) ch_comma :: u8 where "ch_comma \<equiv> 44"
abbreviation (input) ch_backslash :: u8 where "ch_backslash \<equiv> 92"
abbreviation (input) ch_open_bracket :: u8 where "ch_open_bracket \<equiv> 91"
abbreviation (input) ch_close_bracket :: u8 where "ch_close_bracket \<equiv> 93"
abbreviation (input) ch_open_brace :: u8 where "ch_open_brace \<equiv> 123"
abbreviation (input) ch_close_brace :: u8 where "ch_close_brace \<equiv> 125"

section \<open>White space and members\<close>

definition prv_isReserved :: "u8 \<Rightarrow> bool" where
  "prv_isReserved sign \<longleftrightarrow>
     sign = ch_open_bracket \<or> sign = ch_open_brace \<or> sign = ch_close_bracket \<or> sign = ch_close_brace \<or>
     sign = ch_colon \<or> sign = ch_comma \<or> sign = ch_quote"

definition prv_isWhiteSpace :: "u8 \<Rightarrow> bool" where
  "prv_isWhiteSpace sign \<longleftrightarrow> sign = 0x20 \<or> sign = 0x09 \<or> sign = 0x0A \<or> sign = 0x0D"

definition json_skipSpace :: "bytes \<Rightarrow> nat" where
  "json_skipSpace buffer = length (takeWhile prv_isWhiteSpace buffer)"

definition next_char :: "bytes \<Rightarrow> nat \<Rightarrow> nat option" where
  "next_char buffer i =
     (let i = i + 1 + json_skipSpace (drop (i + 1) buffer) in if length buffer \<le> i then None else Some i)"

datatype item_state =
    STEP_START | STEP_TOKEN | STEP_ANY_SEPARATOR | STEP_SEPARATOR | STEP_QUOTED_VALUE | STEP_VALUE | STEP_DONE

text \<open>The four results of \<^verbatim>\<open>json_split\<close>.\<close>

record split_token =
  tokenStart :: nat
  tokenLen :: nat
  valueStart :: nat
  valueLen :: nat

text \<open>One turn of the loop: return -1, \<^verbatim>\<open>goto loop_exit\<close>, or go on with the next character.\<close>

datatype split_move = Split_Fail | Split_Exit | Split_Go item_state split_token

fun split_step :: "bytes \<Rightarrow> nat \<Rightarrow> item_state \<Rightarrow> split_token \<Rightarrow> split_move" where
  "split_step buffer index STEP_START t =
     (if buffer ! index = ch_comma then Split_Exit
      else if buffer ! index \<noteq> ch_quote then Split_Fail
      else Split_Go STEP_TOKEN (t\<lparr>tokenStart := index + 1\<rparr>))"
| "split_step buffer index STEP_TOKEN t =
     (if buffer ! index = ch_comma then Split_Exit
      else if buffer ! index = ch_quote
      then Split_Go STEP_ANY_SEPARATOR (t\<lparr>tokenLen := index - tokenStart t\<rparr>)
      else Split_Go STEP_TOKEN t)"
| "split_step buffer index STEP_ANY_SEPARATOR t =
     (if buffer ! index = ch_comma then Split_Exit
      else if buffer ! index \<noteq> ch_colon then Split_Fail
      else Split_Go STEP_SEPARATOR t)"
| "split_step buffer index STEP_SEPARATOR t =
     (if buffer ! index = ch_comma then Split_Exit
      else if buffer ! index = ch_quote then Split_Go STEP_QUOTED_VALUE (t\<lparr>valueStart := index\<rparr>)
      else if \<not> prv_isReserved (buffer ! index) then Split_Go STEP_VALUE (t\<lparr>valueStart := index\<rparr>)
      else Split_Fail)"
| "split_step buffer index STEP_QUOTED_VALUE t =
     (if buffer ! index = ch_quote \<and> buffer ! (index - 1) \<noteq> ch_backslash
      then Split_Go STEP_DONE (t\<lparr>valueLen := index - valueStart t + 1\<rparr>)
      else Split_Go STEP_QUOTED_VALUE t)"
| "split_step buffer index STEP_VALUE t =
     (if buffer ! index = ch_comma then Split_Exit
      else if prv_isWhiteSpace (buffer ! index)
      then Split_Go STEP_DONE (t\<lparr>valueLen := index - valueStart t\<rparr>)
      else Split_Go STEP_VALUE t)"
| "split_step buffer index STEP_DONE t =
     (if buffer ! index = ch_comma then Split_Exit else Split_Fail)"

definition skips_space :: "item_state \<Rightarrow> bool" where
  "skips_space step \<longleftrightarrow>
     step = STEP_START \<or> step = STEP_ANY_SEPARATOR \<or> step = STEP_SEPARATOR \<or> step = STEP_DONE"

function split_walk ::
  "bytes \<Rightarrow> nat \<Rightarrow> item_state \<Rightarrow> split_token \<Rightarrow> (nat \<times> item_state \<times> split_token) option" where
  "split_walk buffer index step t =
     (if index < length buffer then
        (case split_step buffer index step t of
           Split_Fail \<Rightarrow> None
         | Split_Exit \<Rightarrow> Some (index, step, t)
         | Split_Go step t \<Rightarrow>
             split_walk buffer
               (index + 1 + (if skips_space step then json_skipSpace (drop (index + 1) buffer) else 0)) step t)
      else Some (index, step, t))"
  by pat_completeness auto
termination by (relation "measure (\<lambda>(buffer, index, _). length buffer - index)") auto

declare split_walk.simps [simp del]

definition json_split :: "bytes \<Rightarrow> (nat \<times> split_token) option" where
  "json_split buffer =
     (let index = json_skipSpace buffer in
      if index = length buffer then None
      else
        case split_walk buffer index STEP_START
            \<lparr>tokenStart = 0, tokenLen = 0, valueStart = 0, valueLen = 0\<rparr> of
          None \<Rightarrow> None
        | Some (index, step, t) \<Rightarrow>
            if step = STEP_VALUE then Some (index, t\<lparr>valueLen := index - valueStart t\<rparr>)
            else if step = STEP_DONE then Some (index, t)
            else None)"

lemma split_walk_index:
  "split_walk buffer index step t = Some (n, step', t') \<Longrightarrow> index \<le> n \<and> (n = index \<longrightarrow> step' = step)"
proof (induction "length buffer - index" arbitrary: index step t rule: less_induct)
  case less
  show ?case
  proof (cases "index < length buffer \<and> (\<exists>s u. split_step buffer index step t = Split_Go s u)")
    case True
    then obtain s u where "index < length buffer" "split_step buffer index step t = Split_Go s u" by blast
    then show ?thesis
      using less.prems less.hyps [of "index + 1 + (if skips_space s then json_skipSpace (drop (index + 1) buffer) else 0)" s u]
      by (simp add: split_walk.simps [of buffer index]) linarith
  next
    case False
    then show ?thesis
      using less.prems by (auto simp: split_walk.simps [of buffer index] split: if_splits split_move.splits)
  qed
qed

lemma json_split_pos: "json_split buffer = Some (n, t) \<Longrightarrow> 0 < n"
  by (fastforce simp: json_split_def Let_def split: if_splits option.splits dest: split_walk_index)

section \<open>The extent of an object\<close>

lemma next_char_greater: "next_char buffer i = Some j \<Longrightarrow> i < j \<and> j < length buffer"
  by (auto simp: next_char_def Let_def split: if_splits)

text \<open>\<open>item_loop\<close> is the loop with the variable \<^verbatim>\<open>in\<close>: 0 before the brace, 1 inside of it, 2 in a string.\<close>

function item_loop :: "bytes \<Rightarrow> nat \<Rightarrow> nat \<Rightarrow> nat option" where
  "item_loop buffer index st =
     (if length buffer \<le> index then None
      else
        let c = buffer ! index in
        if st = 0 then
          (if c \<noteq> ch_open_brace then None
           else case next_char buffer index of None \<Rightarrow> None | Some i \<Rightarrow> item_loop buffer i 1)
        else if st = 1 then
          (if c = ch_open_brace then None
           else if c = ch_close_brace then Some (index + 1)
           else if c = ch_quote
           then (case next_char buffer index of None \<Rightarrow> None | Some i \<Rightarrow> item_loop buffer i 2)
           else (case next_char buffer index of None \<Rightarrow> None | Some i \<Rightarrow> item_loop buffer i 1))
        else
          (if c = ch_quote
           then (case next_char buffer index of None \<Rightarrow> None | Some i \<Rightarrow> item_loop buffer i 1)
           else if c = ch_backslash then
             (if index + 1 = length buffer then None
              else case next_char buffer (index + 1) of None \<Rightarrow> None | Some i \<Rightarrow> item_loop buffer i 2)
           else (case next_char buffer index of None \<Rightarrow> None | Some i \<Rightarrow> item_loop buffer i 2)))"
  by pat_completeness auto
termination by (relation "measure (\<lambda>(buffer, index, _). length buffer - index)")
    (auto dest!: next_char_greater)

declare item_loop.simps [simp del]

definition json_itemLength :: "bytes \<Rightarrow> nat option" where
  "json_itemLength buffer = item_loop buffer 0 0"

lemma item_loop_move:
  assumes "item_loop buffer index st = Some n"
  shows "index < length buffer \<and> (n = index + 1 \<or> (\<exists>i st'. index < i \<and> item_loop buffer i st' = Some n))"
  using assms next_char_greater [of buffer index] next_char_greater [of buffer "index + 1"]
  unfolding item_loop.simps [of buffer index st] Let_def
  by (auto simp del: One_nat_def split: if_splits option.splits)

lemma item_loop_bounds: "item_loop buffer index st = Some n \<Longrightarrow> index < n \<and> n \<le> length buffer"
proof (induction "length buffer - index" arbitrary: index st rule: less_induct)
  case less
  from item_loop_move [OF less.prems] consider "n = index + 1" "index < length buffer"
    | i st' where "index < length buffer" "index < i" "item_loop buffer i st' = Some n" by blast
  then show ?case
  proof cases
    case 2
    then have "i < n \<and> n \<le> length buffer" using item_loop_move [OF 2(3)] by (intro less.hyps) auto
    with 2 show ?thesis by simp
  qed simp
qed

text \<open>The objects of an array, which \<open>buffer\<close> begins after the bracket. \<^verbatim>\<open>len <= 0\<close> is the failure only.\<close>

function count_loop :: "bytes \<Rightarrow> nat \<Rightarrow> nat \<Rightarrow> nat option" where
  "count_loop buffer index count =
     (if length buffer \<le> index then Some count
      else
        case json_itemLength (drop index buffer) of
          None \<Rightarrow> None
        | Some len \<Rightarrow>
            (case next_char buffer (index + len - 1) of
               None \<Rightarrow> None
             | Some i \<Rightarrow>
                 if buffer ! i = ch_close_bracket then Some (count + 1)
                 else if buffer ! i = ch_comma
                 then (case next_char buffer i of None \<Rightarrow> None | Some j \<Rightarrow> count_loop buffer j (count + 1))
                 else None))"
  by pat_completeness auto
termination
proof (relation "measure (\<lambda>(buffer, index, _). length buffer - index)", simp)
  fix buffer index and count :: nat and len i j
  assume a: "\<not> length buffer \<le> index" "json_itemLength (drop index buffer) = Some len"
    "next_char buffer (index + len - 1) = Some i" "next_char buffer i = Some j"
  then have "0 < len" using item_loop_bounds by (fastforce simp: json_itemLength_def)
  then show "((buffer, j, count + 1), buffer, index, count) \<in> measure (\<lambda>(buffer, index, _). length buffer - index)"
    using a(1) next_char_greater [OF a(3)] next_char_greater [OF a(4)] by auto
qed

declare count_loop.simps [simp del]

definition json_countItems :: "bytes \<Rightarrow> nat option" where
  "json_countItems buffer = count_loop buffer 0 0"

section \<open>Numbers\<close>

text \<open>
  The outer \<open>None\<close> is the read of \<^verbatim>\<open>value[0]\<close> of an empty value; the inner one is the result 0.
\<close>

definition json_convertNumeric ::
  "(bytes \<Rightarrow> bool \<Rightarrow> u64 option) \<Rightarrow> bytes \<Rightarrow> lwm2m_data \<Rightarrow> lwm2m_data option option" where
  "json_convertNumeric textToFloat value d =
     (if \<forall>c \<in> set value. c \<noteq> ch_dot \<and> c \<noteq> 101 \<and> c \<noteq> 69 then
        (case value of
           [] \<Rightarrow> None
         | c # _ \<Rightarrow>
             if c = ch_minus
             then Some (map_option (\<lambda>v. lwm2m_data_encode_int v d) (utils_textToInt value))
             else Some (map_option (\<lambda>v. lwm2m_data_encode_uint v d) (utils_textToUInt value)))
      else Some (map_option (\<lambda>v. lwm2m_data_encode_float v d) (textToFloat value True)))"

section \<open>Strings\<close>

definition prv_hexValue :: "u8 \<Rightarrow> u8" where
  "prv_hexValue digit =
     (if digit \<ge> 48 \<and> digit \<le> 57 then digit - 48
      else if digit \<ge> 97 \<and> digit \<le> 102 then digit - 97 + 10
      else if digit \<ge> 65 \<and> digit \<le> 70 then digit - 65 + 10
      else 0xFF)"

text \<open>
  \<^verbatim>\<open>json_unescapeString(dst, src, len)\<close>. \<open>src\<close> is all that may be read from the pointer on, \<open>len\<close> may be
  less; a read past \<open>src\<close> is \<open>None\<close>. The result is what was stored in \<open>dst\<close>, and \<open>[]\<close> where the
  function returns 0. In \<^verbatim>\<open>i >= len - 4\<close> the subtraction wraps for \<^verbatim>\<open>len < 4\<close>, and the test is then false.
\<close>

fun simple_escape :: "u8 \<Rightarrow> u8 option" where
  "simple_escape c =
     (if c = ch_quote \<or> c = ch_backslash \<or> c = ch_slash then Some c
      else if c = 98 then Some 8
      else if c = 102 then Some 12
      else if c = 110 then Some 10
      else if c = 114 then Some 13
      else if c = 116 then Some 9
      else None)"

definition unescape_hex :: "bytes \<Rightarrow> nat \<Rightarrow> nat \<Rightarrow> u8 option option" where
  "unescape_hex src len i =
     (if 4 \<le> len \<and> i \<ge> len - 4 then Some None
      else do {
        z1 \<leftarrow> rd src i;
        if z1 \<noteq> ch_0 then Some None else do {
        z2 \<leftarrow> rd src (i + 1);
        if z2 \<noteq> ch_0 then Some None else do {
        d1 \<leftarrow> rd src (i + 2);
        if prv_hexValue d1 > 15 then Some None else do {
        d2 \<leftarrow> rd src (i + 3);
        if prv_hexValue d2 > 15 then Some None
        else Some (Some (push_bit 4 (prv_hexValue d1) + prv_hexValue d2)) }}}})"

function unescape_loop :: "bytes \<Rightarrow> nat \<Rightarrow> nat \<Rightarrow> bytes \<Rightarrow> bytes option" where
  "unescape_loop src len i dst =
     (if len \<le> i then Some dst
      else
        case rd src i of
          None \<Rightarrow> None
        | Some c \<Rightarrow>
            if c \<noteq> ch_backslash then unescape_loop src len (i + 1) (dst @ [c])
            else if len \<le> i + 1 then Some []
            else
              (case rd src (i + 1) of
                 None \<Rightarrow> None
               | Some e \<Rightarrow>
                   if e = 117 then
                     (case unescape_hex src len (i + 2) of
                        None \<Rightarrow> None
                      | Some None \<Rightarrow> Some []
                      | Some (Some v) \<Rightarrow> unescape_loop src len (i + 6) (dst @ [v]))
                   else
                     (case simple_escape e of
                        None \<Rightarrow> Some []
                      | Some v \<Rightarrow> unescape_loop src len (i + 2) (dst @ [v]))))"
  by pat_completeness auto
termination by (relation "measure (\<lambda>(src, len, i, _). len - i)") auto

declare unescape_loop.simps [simp del]

definition json_unescapeString :: "bytes \<Rightarrow> nat \<Rightarrow> bytes option" where
  "json_unescapeString src len = unescape_loop src len 0 []"

definition prv_hexDigit :: "u8 \<Rightarrow> u8" where
  "prv_hexDigit value = (let value = value AND 0xF in if value < 10 then 48 + value else 65 + value - 10)"

text \<open>The bytes written for one character, and the loop with its test of the room that is left.\<close>

definition escape_char :: "u8 \<Rightarrow> bytes" where
  "escape_char c =
     (if c < 0x20 then
        (if c = 8 then [ch_backslash, 98]
         else if c = 12 then [ch_backslash, 102]
         else if c = 10 then [ch_backslash, 110]
         else if c = 13 then [ch_backslash, 114]
         else if c = 9 then [ch_backslash, 116]
         else [ch_backslash, 117, ch_0, ch_0, prv_hexDigit (drop_bit 4 c), prv_hexDigit c])
      else if c = ch_quote then [ch_backslash, ch_quote]
      else if c = ch_backslash then [ch_backslash, ch_backslash]
      else [c])"

fun escape_loop :: "nat \<Rightarrow> bytes \<Rightarrow> bytes \<Rightarrow> bytes option" where
  "escape_loop dstLen [] dst = Some dst"
| "escape_loop dstLen (c # src) dst =
     (case emit dstLen (escape_char c) dst of None \<Rightarrow> None | Some dst \<Rightarrow> escape_loop dstLen src dst)"

definition json_escapeString :: "nat \<Rightarrow> bytes \<Rightarrow> bytes" where
  "json_escapeString dstLen src = (case escape_loop dstLen src [] of None \<Rightarrow> [] | Some dst \<Rightarrow> dst)"

section \<open>The strings that survive\<close>

text \<open>What the printer writes when there is room, and the control characters that take a code.\<close>

definition escape_text :: "bytes \<Rightarrow> bytes" where
  "escape_text s = concat (map escape_char s)"

definition takes_code :: "u8 \<Rightarrow> bool" where
  "takes_code c \<longleftrightarrow> c < 0x20 \<and> c \<notin> {8, 9, 10, 12, 13}"

lemma escape_text_simps [simp]:
  "escape_text [] = []" "escape_text (c # s) = escape_char c @ escape_text s"
  "escape_text (s @ s') = escape_text s @ escape_text s'"
  by (simp_all add: escape_text_def)

lemma escape_char_not_Nil [simp]: "escape_char c \<noteq> []"
  by (simp add: escape_char_def)

lemma escape_text_Nil [simp]: "escape_text s = [] \<longleftrightarrow> s = []"
  by (cases s) simp_all

lemma escape_loop_eq:
  "escape_loop cap s out = (if s = [] \<or> length out + length (escape_text s) \<le> cap
     then Some (out @ escape_text s) else None)"
proof (induction s arbitrary: out)
  case (Cons c s)
  show ?case by (cases "s = []") (auto simp: emit_def Cons.IH)
qed simp

lemma escapeString_eq:
  "json_escapeString cap s = (if length (escape_text s) \<le> cap then escape_text s else [])"
  by (cases s) (auto simp: json_escapeString_def escape_loop_eq)

lemma u8_below_32:
  assumes "(c :: u8) < 0x20"
  obtains k where "k < 32" "c = of_nat k"
  using assms that [of "unat c"] by (simp add: word_less_nat_alt)

lemma hex_digits_back:
  assumes "c < 0x20"
  shows "prv_hexValue (prv_hexDigit (drop_bit 4 c)) \<le> 15" and "prv_hexValue (prv_hexDigit c) \<le> 15"
    and "push_bit 4 (prv_hexValue (prv_hexDigit (drop_bit 4 c))) + prv_hexValue (prv_hexDigit c) = c"
proof -
  have "\<forall>k \<in> set [0..<32]. let c = of_nat k in
      prv_hexValue (prv_hexDigit (drop_bit 4 c)) \<le> 15 \<and> prv_hexValue (prv_hexDigit c) \<le> 15 \<and>
      push_bit 4 (prv_hexValue (prv_hexDigit (drop_bit 4 c))) + prv_hexValue (prv_hexDigit c) = c"
    by code_simp
  moreover obtain k where "k < 32" "c = of_nat k" using u8_below_32 [OF assms] .
  ultimately show "prv_hexValue (prv_hexDigit (drop_bit 4 c)) \<le> 15" "prv_hexValue (prv_hexDigit c) \<le> 15"
    "push_bit 4 (prv_hexValue (prv_hexDigit (drop_bit 4 c))) + prv_hexValue (prv_hexDigit c) = c"
    by (simp_all add: Let_def)
qed

lemma escape_char_cases:
  obtains "takes_code c" "escape_char c =
      [ch_backslash, 117, ch_0, ch_0, prv_hexDigit (drop_bit 4 c), prv_hexDigit c]"
  | e where "\<not> takes_code c" "escape_char c = [ch_backslash, e]" "e \<noteq> 117" "simple_escape e = Some c"
  | "\<not> takes_code c" "escape_char c = [c]" "c \<noteq> ch_backslash" "c \<noteq> ch_quote"
proof -
  consider "takes_code c" | "c \<in> {8, 12, 10, 13, 9, ch_quote, ch_backslash}"
    | "\<not> c < 0x20" "c \<noteq> ch_quote" "c \<noteq> ch_backslash" by (auto simp: takes_code_def)
  then show thesis
  proof cases
    case 1
    then have "escape_char c = [ch_backslash, 117, ch_0, ch_0, prv_hexDigit (drop_bit 4 c), prv_hexDigit c]"
      by (simp add: takes_code_def escape_char_def)
    with 1 that(1) show thesis by blast
  next
    case 2
    define e :: u8 where "e = (if c = 8 then 98 else if c = 12 then 102 else if c = 10 then 110
      else if c = 13 then 114 else if c = 9 then 116 else c)"
    from 2 have "\<not> takes_code c" "escape_char c = [ch_backslash, e]" "e \<noteq> 117" "simple_escape e = Some c"
      by (auto simp: takes_code_def escape_char_def e_def)
    with that(2) show thesis by blast
  next
    case 3
    then show thesis using that(3) by (simp add: takes_code_def escape_char_def)
  qed
qed

lemma rd_append_ge [simp]: "length pre \<le> i \<Longrightarrow> rd (pre @ xs) i = rd xs (i - length pre)"
  by (auto simp: rd_def nth_append)

lemma rd_Cons_numeral [simp]: "rd (x # xs) (numeral n) = rd xs (pred_numeral n)"
  by (simp add: numeral_eq_Suc)

text \<open>One character of the string, at its place in the escaped text.\<close>

lemma unescape_code:
  assumes "len = length pre + 6 + n" and "takes_code c"
    and t: "t = pre @ [ch_backslash, 117, ch_0, ch_0, prv_hexDigit (drop_bit 4 c), prv_hexDigit c] @ rest"
  shows "unescape_loop t len (length pre) out =
    (if n = 0 then Some [] else unescape_loop t len (length pre + 6) (out @ [c]))"
proof -
  have "c < 0x20" using assms(2) by (simp add: takes_code_def)
  note hex = hex_digits_back [OF this]
  have "unescape_hex t len (length pre + 2) = Some (if n = 0 then None else Some c)"
    using hex assms(1) by (auto simp: unescape_hex_def t)
  moreover have "rd t (length pre) = Some ch_backslash" "rd t (length pre + 1) = Some 117" by (simp_all add: t)
  ultimately show ?thesis
    using assms(1) by (subst unescape_loop.simps) (simp del: add_2_eq_Suc' One_nat_def)
qed

lemma unescape_pair:
  assumes "length pre + 2 \<le> len" and "e \<noteq> 117" and "simple_escape e = Some c"
  shows "unescape_loop (pre @ [ch_backslash, e] @ rest) len (length pre) out =
    unescape_loop (pre @ [ch_backslash, e] @ rest) len (length pre + 2) (out @ [c])"
  using assms by (subst unescape_loop.simps) simp

lemma unescape_plain:
  assumes "length pre + 1 \<le> len" and "c \<noteq> ch_backslash"
  shows "unescape_loop (pre @ [c] @ rest) len (length pre) out =
    unescape_loop (pre @ [c] @ rest) len (length pre + 1) (out @ [c])"
  using assms by (subst unescape_loop.simps) simp

lemma unescape_char:
  assumes "len = length pre + length (escape_char c) + length (escape_text s)"
  shows "unescape_loop (pre @ escape_char c @ escape_text s @ rest) len (length pre) out =
    (if takes_code c \<and> s = [] then Some []
     else unescape_loop (pre @ escape_char c @ escape_text s @ rest) len (length (pre @ escape_char c)) (out @ [c]))"
proof (cases c rule: escape_char_cases)
  case 1
  have "len = length pre + 6 + length (escape_text s)" using assms 1(2) by simp
  from unescape_code [OF this 1(1) refl, of "escape_text s @ rest" out] show ?thesis
    unfolding 1(2) using 1(1) by (simp add: numeral_eq_Suc)
next
  case (2 e)
  then show ?thesis
    using unescape_pair [of pre len e c "escape_text s @ rest" out] assms by simp
next
  case 3
  then show ?thesis
    using unescape_plain [of pre len c "escape_text s @ rest" out] assms by simp
qed

lemma unescape_text:
  "len = length pre + length (escape_text s) \<Longrightarrow>
   unescape_loop (pre @ escape_text s @ rest) len (length pre) out =
     Some (if s \<noteq> [] \<and> takes_code (last s) then [] else out @ s)"
proof (induction s arbitrary: pre out)
  case Nil
  then show ?case by (subst unescape_loop.simps) simp
next
  case (Cons c s)
  then show ?case
    using unescape_char [of len pre c s rest out] Cons.IH [of "pre @ escape_char c" "out @ [c]"] by auto
qed

text \<open>
  C34: a string that was printed with escape sequences is read back as it was, unless its last
  character is one of the control characters that are printed as a code: then the reader refuses it.
\<close>
theorem json_string_roundtrip:
  assumes "length (escape_text s) \<le> cap"
  shows "json_unescapeString (json_escapeString cap s @ rest) (length (json_escapeString cap s)) =
    Some (if s \<noteq> [] \<and> takes_code (last s) then [] else s)"
  using assms unescape_text [of "length (escape_text s)" "[]" s rest "[]"]
  by (simp add: json_unescapeString_def escapeString_eq)

theorem json_string_roundtrip_witness:
  "json_unescapeString (json_escapeString 20 [97, 34, 10, 1, 98] @ [34]) (length (json_escapeString 20 [97, 34, 10, 1, 98]))
     = Some [97, 34, 10, 1, 98] \<and>
   json_unescapeString (json_escapeString 20 [97, 1] @ [34]) (length (json_escapeString 20 [97, 1])) = Some []"
proof -
  have "length (escape_text [97, 34, 10, 1, 98]) \<le> 20" "length (escape_text [97, 1]) \<le> 20"
    "\<not> takes_code 98" "takes_code 1" by code_simp+
  then show ?thesis
    using json_string_roundtrip [of "[97, 34, 10, 1, 98]" 20 "[34]"] json_string_roundtrip [of "[97, 1]" 20 "[34]"]
    by (simp del: escape_text_simps)
qed

end
