(* ===== verification/Json_Tree.thy ===== *)
theory Json_Tree
  imports Json_Text Uri
begin

text \<open>
  The trees of values that the JSON formats share (\<^verbatim>\<open>data/json_common.c\<close>, lines 450 to 804): a child
  more, the lookup of a child, the copy that leaves the strings behind, and the choice of the part
  of a tree that a URI names.

  Results with two options: the outer \<open>None\<close> is undefined behaviour (a member of the union other than
  the one stored, a null pointer), the inner one the failure that the code reports.
\<close>

text \<open>The depths are compared as the numbers of the enumeration.\<close>

fun depth_num :: "uri_depth \<Rightarrow> nat" where
  "depth_num URI_DEPTH_NONE = 0"
| "depth_num URI_DEPTH_OBJECT = 1"
| "depth_num URI_DEPTH_OBJECT_INSTANCE = 2"
| "depth_num URI_DEPTH_RESOURCE = 3"
| "depth_num URI_DEPTH_RESOURCE_INSTANCE = 4"

instantiation uri_depth :: linorder
begin

definition less_eq_uri_depth :: "uri_depth \<Rightarrow> uri_depth \<Rightarrow> bool" where
  "less_eq_uri_depth a b \<longleftrightarrow> depth_num a \<le> depth_num b"

definition less_uri_depth :: "uri_depth \<Rightarrow> uri_depth \<Rightarrow> bool" where
  "less_uri_depth a b \<longleftrightarrow> depth_num a < depth_num b"

instance
proof
  fix a b :: uri_depth
  assume "a \<le> b" "b \<le> a"
  then show "a = b" by (cases a; cases b) (simp_all add: less_eq_uri_depth_def)
qed (auto simp: less_eq_uri_depth_def less_uri_depth_def)

end

section \<open>Children\<close>

definition zero_data :: lwm2m_data where
  "zero_data = Data LWM2M_TYPE_UNDEFINED 0 AsZero"

definition json_extendData :: "allocator \<Rightarrow> lwm2m_data \<Rightarrow> lwm2m_data option option" where
  "json_extendData mem parent =
     (case as_children (dvalue parent) of
        None \<Rightarrow> None
      | Some children \<Rightarrow>
          Some (case lwm2m_data_new mem (int (length children) + 1) of
             None \<Rightarrow> None
           | Some new \<Rightarrow>
               Some (set_value (dtype parent) (AsChildren (children @ drop (length children) new)) parent)))"

text \<open>The position of the child.\<close>

fun json_findDataItem :: "lwm2m_data list \<Rightarrow> u16 \<Rightarrow> nat option" where
  "json_findDataItem [] ident = None"
| "json_findDataItem (d # ds) ident =
     (if dtype d \<noteq> LWM2M_TYPE_UNDEFINED \<and> did d = ident then Some 0
      else map_option Suc (json_findDataItem ds ident))"

fun json_decreaseLevel :: "uri_depth \<Rightarrow> uri_depth" where
  "json_decreaseLevel URI_DEPTH_NONE = URI_DEPTH_OBJECT"
| "json_decreaseLevel URI_DEPTH_OBJECT = URI_DEPTH_OBJECT_INSTANCE"
| "json_decreaseLevel URI_DEPTH_OBJECT_INSTANCE = URI_DEPTH_RESOURCE"
| "json_decreaseLevel URI_DEPTH_RESOURCE = URI_DEPTH_RESOURCE_INSTANCE"
| "json_decreaseLevel URI_DEPTH_RESOURCE_INSTANCE = URI_DEPTH_RESOURCE_INSTANCE"

abbreviation (input) is_object_or_instance :: "lwm2m_data_type \<Rightarrow> bool" where
  "is_object_or_instance t \<equiv> t = LWM2M_TYPE_OBJECT \<or> t = LWM2M_TYPE_OBJECT_INSTANCE"

abbreviation (input) holds_children :: "lwm2m_data_type \<Rightarrow> bool" where
  "holds_children t \<equiv>
     t = LWM2M_TYPE_OBJECT \<or> t = LWM2M_TYPE_OBJECT_INSTANCE \<or> t = LWM2M_TYPE_MULTIPLE_RESOURCE"

section \<open>Stripping\<close>

text \<open>
  The copy that \<^verbatim>\<open>json_dataStrip\<close> makes takes the buffers over from \<^verbatim>\<open>dataP\<close>. An item whose children
  cannot be copied is overwritten by the next one, but the result keeps the size of the input:
  \<open>skipped\<close> is the item that was skipped and not overwritten since, \<open>Some None\<close> when its number of
  children is stale, so that it must not be read.
\<close>

definition strip_result ::
  "nat \<Rightarrow> lwm2m_data list \<times> lwm2m_data option option \<Rightarrow> lwm2m_data list option" where
  "strip_result n r =
     (case r of
        (kept, None) \<Rightarrow> Some (kept @ replicate (n - length kept) zero_data)
      | (kept, Some None) \<Rightarrow> None
      | (kept, Some (Some d)) \<Rightarrow> Some (kept @ [d] @ replicate (n - length kept - 1) zero_data))"

fun strip_loop :: "allocator \<Rightarrow> lwm2m_data list \<Rightarrow> lwm2m_data list \<Rightarrow> lwm2m_data option option \<Rightarrow>
    (lwm2m_data list \<times> lwm2m_data option option) option" where
  "strip_loop mem [] out skipped = Some (out, skipped)"
| "strip_loop mem (Data t ident v # ds) out skipped =
     (if holds_children t then
        (case v of
           AsZero \<Rightarrow> strip_loop mem ds out (Some (Some (Data t ident AsZero)))
         | AsChildren cs \<Rightarrow>
             if cs = [] then strip_loop mem ds out (Some (Some (Data t ident (AsChildren []))))
             else if \<not> mem (length cs * sizeof_lwm2m_data) then strip_loop mem ds out (Some None)
             else
               (case Option.bind (strip_loop mem cs [] None) (strip_result (length cs)) of
                  None \<Rightarrow> None
                | Some cs' \<Rightarrow> strip_loop mem ds (out @ [Data t ident (AsChildren cs')]) None)
         | _ \<Rightarrow> None)
      else strip_loop mem ds (out @ [Data t ident v]) None)"

definition json_dataStrip :: "allocator \<Rightarrow> lwm2m_data list \<Rightarrow> lwm2m_data list option option" where
  "json_dataStrip mem ds =
     (if ds = [] then Some None
      else if \<not> mem (length ds * sizeof_lwm2m_data) then Some None
      else map_option Some (Option.bind (strip_loop mem ds [] None) (strip_result (length ds))))"

section \<open>The part of a tree that a URI names\<close>

text \<open>\<open>Some (Some (target, level))\<close>: the number of targets is returned, they start at \<^verbatim>\<open>*targetP\<close>.\<close>

lemma find_children_size:
  assumes "List.find P ds = Some d" and "as_children (dvalue d) = Some cs"
  shows "size_list size cs < size_list size ds"
proof -
  have "d \<in> set ds" using assms(1) by (auto simp: find_Some_iff)
  then have "size d \<le> size_list size ds" by (rule size_list_estimation') simp
  moreover have "size_list size cs < size d"
    using assms(2) by (cases d; cases "dvalue d") auto
  ultimately show ?thesis by simp
qed

definition kinds_agree :: "lwm2m_data list \<Rightarrow> bool" where
  "kinds_agree ds \<longleftrightarrow>
     (if is_object_or_instance (dtype (hd ds)) then list_all (\<lambda>d. dtype d = dtype (hd ds)) ds
      else list_all (\<lambda>d. \<not> is_object_or_instance (dtype d)) ds)"

text \<open>The branch that \<^verbatim>\<open>switch (desiredLevel)\<close> and \<^verbatim>\<open>switch (tlvP[0].type)\<close> choose.\<close>

datatype find_move = Find_Fail | Find_Here | Find_Level uri_depth | Find_Below "lwm2m_uri \<Rightarrow> u16" uri_depth

fun find_branch :: "uri_depth \<Rightarrow> lwm2m_data_type \<Rightarrow> find_move" where
  "find_branch URI_DEPTH_OBJECT t =
     (if t = LWM2M_TYPE_OBJECT then Find_Level URI_DEPTH_OBJECT else Find_Fail)"
| "find_branch URI_DEPTH_OBJECT_INSTANCE t =
     (if t = LWM2M_TYPE_OBJECT then Find_Below objectId URI_DEPTH_OBJECT_INSTANCE
      else if t = LWM2M_TYPE_OBJECT_INSTANCE then Find_Here else Find_Fail)"
| "find_branch URI_DEPTH_RESOURCE t =
     (if t = LWM2M_TYPE_OBJECT then Find_Below objectId URI_DEPTH_OBJECT_INSTANCE
      else if t = LWM2M_TYPE_OBJECT_INSTANCE then Find_Below instanceId URI_DEPTH_RESOURCE else Find_Here)"
| "find_branch URI_DEPTH_RESOURCE_INSTANCE t =
     (if t = LWM2M_TYPE_OBJECT then Find_Below objectId URI_DEPTH_OBJECT_INSTANCE
      else if t = LWM2M_TYPE_OBJECT_INSTANCE then Find_Below instanceId URI_DEPTH_RESOURCE
      else if t = LWM2M_TYPE_MULTIPLE_RESOURCE then Find_Below resourceId URI_DEPTH_RESOURCE_INSTANCE
      else Find_Here)"
| "find_branch URI_DEPTH_NONE t = Find_Fail"

function prv_findAndCheckData ::
  "lwm2m_uri option \<Rightarrow> uri_depth \<Rightarrow> lwm2m_data list \<Rightarrow> uri_depth \<Rightarrow>
    (lwm2m_data list \<times> uri_depth) option option" where
  "prv_findAndCheckData uriP desiredLevel ds targetLevel =
     (if ds = [] then Some (Some ([], targetLevel))
      else if \<not> kinds_agree ds then Some None
      else
        case find_branch desiredLevel (dtype (hd ds)) of
          Find_Fail \<Rightarrow> Some None
        | Find_Here \<Rightarrow> Some (Some (ds, targetLevel))
        | Find_Level level \<Rightarrow> Some (Some (ds, level))
        | Find_Below field level \<Rightarrow>
            (case uriP of
               None \<Rightarrow> None
             | Some u \<Rightarrow>
                 (case List.find (\<lambda>d. did d = field u) ds of
                    None \<Rightarrow> Some None
                  | Some d \<Rightarrow>
                      (case as_children (dvalue d) of
                         None \<Rightarrow> None
                       | Some cs \<Rightarrow> prv_findAndCheckData uriP desiredLevel cs level))))"
  by pat_completeness auto
termination
  by (relation "measure (\<lambda>(_, _, ds, _). size_list size ds)") (auto dest: find_children_size)

declare prv_findAndCheckData.simps [simp del]

definition json_findAndCheckData ::
  "lwm2m_uri option \<Rightarrow> uri_depth \<Rightarrow> lwm2m_data list \<Rightarrow> (lwm2m_data list \<times> uri_depth) option option" where
  "json_findAndCheckData uriP baseLevel ds =
     (let desiredLevel = json_decreaseLevel baseLevel in
      prv_findAndCheckData uriP desiredLevel ds
        (if baseLevel < URI_DEPTH_RESOURCE then desiredLevel else baseLevel))"

end
