(* ===== verification/Json_Read.thy ===== *)
theory Json_Read
  imports Json_Tree
begin

text \<open>
  The JSON parser (\<^verbatim>\<open>data/json.c\<close>, lines 68 to 751): the items of the message as records, their
  values, the tree that the records make below the base name, and the part of it that was asked for.

  The text to number conversion of a double is the parameter \<open>textToFloat\<close>. Results with two options:
  the outer \<open>None\<close> is undefined behaviour (a read behind the buffer, a member of the union other than
  the one stored), the inner one the jump to the error label.
\<close>

section \<open>Items\<close>

datatype json_type = TYPE_UNSET | TYPE_FALSE | TYPE_TRUE | TYPE_FLOAT | TYPE_STRING | TYPE_OBJECT_LINK

text \<open>\<open>r_value\<close> is what may be read from the value pointer on, the rest of the item.\<close>

record json_record =
  r_ids :: "u16 list"
  r_type :: json_type
  r_value :: bytes
  r_valueLen :: nat

definition empty_record :: json_record where
  "empty_record = \<lparr>r_ids = replicate 4 LWM2M_MAX_ID, r_type = TYPE_UNSET, r_value = [], r_valueLen = 0\<rparr>"

text \<open>
  The name of an item, with its quotes: the digits up to a slash or the last character, and the loop
  over the segments. \<^verbatim>\<open>readId\<close> is at most \<open>65535\<close> before each multiplication.
\<close>

function name_digits :: "bytes \<Rightarrow> nat \<Rightarrow> nat \<Rightarrow> (nat \<times> nat) option" where
  "name_digits v i readId =
     (if i < length v - 1 \<and> v ! i \<noteq> ch_slash then
        (if v ! i < ch_0 \<or> v ! i > ch_9 then None
         else
           let readId = readId * 10 + (unat (v ! i) - 48) in
           if readId > 65535 then None else name_digits v (i + 1) readId)
      else Some (i, readId))"
  by pat_completeness auto
termination by (relation "measure (\<lambda>(v, i, _). length v - i)") auto

declare name_digits.simps [simp del]

function name_loop :: "bytes \<Rightarrow> nat \<Rightarrow> nat \<Rightarrow> u16 list \<Rightarrow> u16 list option" where
  "name_loop v i j ids =
     (case name_digits v (i + 1) 0 of
        None \<Rightarrow> None
      | Some (i, readId) \<Rightarrow>
          let ids = ids[j := of_nat readId] in
          if i < length v - 1 \<and> j + 1 < 4 \<and> v ! i = ch_slash then name_loop v i (j + 1) ids
          else if i < length v - 1 then None
          else Some ids)"
  by pat_completeness auto
termination by (relation "measure (\<lambda>(_, _, j, _). 4 - j)") auto

declare name_loop.simps [simp del]

text \<open>The check for quotes around a value.\<close>

definition is_quoted :: "bytes \<Rightarrow> bool" where
  "is_quoted v \<longleftrightarrow> 2 \<le> length v \<and> hd v = ch_quote \<and> last v = ch_quote"

definition parse_name :: "bytes \<Rightarrow> u16 list \<Rightarrow> u16 list option" where
  "parse_name v ids =
     (if ids ! 0 \<noteq> LWM2M_MAX_ID then None
      else if \<not> is_quoted v then None
      else if v ! 1 = ch_slash
      then (if length v < 4 then None else name_loop (drop 1 v) 0 0 ids)
      else name_loop v 0 0 ids)"

text \<open>\<open>0 == lwm2m_strncmp(literal, value, valueLen)\<close>: the value may also be a beginning of the literal.\<close>

definition literal_matches :: "bytes \<Rightarrow> bytes \<Rightarrow> bool" where
  "literal_matches literal v \<longleftrightarrow> take (length v) (literal @ [0]) = take (length literal + 1) v"

definition quoted_value :: "json_type \<Rightarrow> bytes \<Rightarrow> nat \<Rightarrow> json_record \<Rightarrow> json_record option" where
  "quoted_value type value len r =
     (if r_type r \<noteq> TYPE_UNSET then None
      else if \<not> is_quoted (take len value) then None
      else Some (r\<lparr>r_type := type, r_value := drop 1 value, r_valueLen := len - 2\<rparr>))"

text \<open>One member: the token is a list of its characters, \<open>value\<close> the rest of the item from the value on.\<close>

definition parse_member :: "bytes \<Rightarrow> bytes \<Rightarrow> nat \<Rightarrow> json_record \<Rightarrow> json_record option" where
  "parse_member token value len r =
     (if length token = 1 then
        (if token ! 0 = 110 then map_option (\<lambda>ids. r\<lparr>r_ids := ids\<rparr>) (parse_name (take len value) (r_ids r))
         else if token ! 0 = 118 then
           (if r_type r \<noteq> TYPE_UNSET then None
            else Some (r\<lparr>r_type := TYPE_FLOAT, r_value := value, r_valueLen := len\<rparr>))
         else if token ! 0 = 116 then Some r
         else None)
      else if length token = 2 then
        (if token ! 1 \<noteq> 118 then None
         else if token ! 0 = 98 then
           (if r_type r \<noteq> TYPE_UNSET then None
            else if literal_matches (ascii ''true'') (take len value) then Some (r\<lparr>r_type := TYPE_TRUE\<rparr>)
            else if literal_matches (ascii ''false'') (take len value) then Some (r\<lparr>r_type := TYPE_FALSE\<rparr>)
            else None)
         else if token ! 0 = 111 then quoted_value TYPE_OBJECT_LINK value len r
         else if token ! 0 = 115 then quoted_value TYPE_STRING value len r
         else None)
      else None)"

text \<open>The members of an item; \<open>buffer\<close> is what is between its braces, from \<^verbatim>\<open>index\<close> on.\<close>

function item_members :: "bytes \<Rightarrow> json_record \<Rightarrow> json_record option" where
  "item_members buffer r =
     (case json_split buffer of
        None \<Rightarrow> None
      | Some (next, t) \<Rightarrow>
          (case parse_member (take (tokenLen t) (drop (tokenStart t) buffer)) (drop (valueStart t) buffer)
                  (valueLen t) r of
             None \<Rightarrow> None
           | Some r \<Rightarrow>
               if next + 1 < length buffer then item_members (drop (next + 1) buffer) r else Some r))"
  by pat_completeness auto
termination by (relation "measure (\<lambda>(buffer, _). length buffer)") auto

declare item_members.simps [simp del]

definition json_parseItem :: "bytes \<Rightarrow> json_record option" where
  "json_parseItem buffer = item_members buffer empty_record"

section \<open>Values\<close>

definition json_convertValue ::
  "allocator \<Rightarrow> (bytes \<Rightarrow> bool \<Rightarrow> u64 option) \<Rightarrow> json_record \<Rightarrow> lwm2m_data \<Rightarrow> lwm2m_data option option" where
  "json_convertValue mem textToFloat r target =
     (let value = take (r_valueLen r) (r_value r) in
      case r_type r of
        TYPE_FALSE \<Rightarrow> Some (Some (lwm2m_data_encode_bool False target))
      | TYPE_TRUE \<Rightarrow> Some (Some (lwm2m_data_encode_bool True target))
      | TYPE_FLOAT \<Rightarrow> json_convertNumeric textToFloat value target
      | TYPE_STRING \<Rightarrow>
          if r_valueLen r \<noteq> 0 then
            (if \<not> mem (r_valueLen r) then Some None
             else
               case json_unescapeString (r_value r) (r_valueLen r) of
                 None \<Rightarrow> None
               | Some string \<Rightarrow>
                   if string \<noteq> [] then Some (Some (lwm2m_data_encode_nstring mem string target))
                   else Some None)
          else Some (Some (lwm2m_data_encode_nstring mem [] target))
      | TYPE_OBJECT_LINK \<Rightarrow>
          (case utils_textToObjLink value of
             None \<Rightarrow> Some None
           | Some (ob, inst) \<Rightarrow> Some (Some (set_value LWM2M_TYPE_OBJECT_LINK (AsObjLink ob inst) target)))
      | TYPE_UNSET \<Rightarrow> Some None)"

section \<open>The tree of the records\<close>

text \<open>
  The way from an item of the root to the target of a record: the child with the next number is
  found, or added with the type of its level, and \<open>write\<close> is applied to the last one.
\<close>

fun descend ::
  "allocator \<Rightarrow> uri_depth \<Rightarrow> u16 list \<Rightarrow> (lwm2m_data \<Rightarrow> lwm2m_data option option) \<Rightarrow> lwm2m_data \<Rightarrow>
    lwm2m_data option option" where
  "descend mem level [] write d = write d"
| "descend mem level (ident # idents) write d =
     (case as_children (dvalue d) of
        None \<Rightarrow> None
      | Some children \<Rightarrow>
          (case json_findDataItem children ident of
             Some n \<Rightarrow>
               map_option (map_option (\<lambda>c. set_value (dtype d) (AsChildren (children[n := c])) d))
                 (descend mem (json_decreaseLevel level) idents write (children ! n))
           | None \<Rightarrow>
               if lwm2m_data_new mem (int (length children) + 1) = None then Some None
               else
                 map_option (map_option (\<lambda>c. set_value (dtype d) (AsChildren (children @ [c])) d))
                   (descend mem (json_decreaseLevel level) idents write
                     (Data (utils_depthToDatatype level) ident AsZero))))"

text \<open>A resource instance: the target becomes a multiple resource with one child more.\<close>

definition write_instance ::
  "allocator \<Rightarrow> u16 \<Rightarrow> (lwm2m_data \<Rightarrow> lwm2m_data option option) \<Rightarrow> lwm2m_data \<Rightarrow> lwm2m_data option option" where
  "write_instance mem ident write d =
     (case json_extendData mem (set_type LWM2M_TYPE_MULTIPLE_RESOURCE d) of
        None \<Rightarrow> None
      | Some None \<Rightarrow> Some None
      | Some (Some d) \<Rightarrow>
          (case as_children (dvalue d) of
             None \<Rightarrow> None
           | Some children \<Rightarrow>
               map_option (map_option (\<lambda>c. set_value (dtype d) (AsChildren (butlast children @ [c])) d))
                 (write (Data LWM2M_TYPE_UNDEFINED ident (dvalue (last children))))))"

text \<open>\<^verbatim>\<open>resSegmentIndex + 1\<close>, how many numbers lead to the resource.\<close>

fun segments_below :: "uri_depth \<Rightarrow> nat option" where
  "segments_below URI_DEPTH_OBJECT = Some 3"
| "segments_below URI_DEPTH_OBJECT_INSTANCE = Some 2"
| "segments_below URI_DEPTH_RESOURCE = Some 1"
| "segments_below URI_DEPTH_RESOURCE_INSTANCE = Some 0"
| "segments_below URI_DEPTH_NONE = None"

definition record_fits :: "nat \<Rightarrow> u16 list \<Rightarrow> bool" where
  "record_fits segs ids \<longleftrightarrow>
     (\<forall>i < segs. ids ! i \<noteq> LWM2M_MAX_ID) \<and> (segs < 3 \<longrightarrow> ids ! (segs + 1) = LWM2M_MAX_ID)"

definition convert_record ::
  "allocator \<Rightarrow> (bytes \<Rightarrow> bool \<Rightarrow> u64 option) \<Rightarrow> uri_depth \<Rightarrow> nat \<Rightarrow> json_record \<Rightarrow>
    lwm2m_data \<Rightarrow> lwm2m_data option option" where
  "convert_record mem textToFloat rootLevel segs r target =
     (let convert = json_convertValue mem textToFloat r; ids = r_ids r in
      if ids ! 1 \<noteq> LWM2M_MAX_ID then
        descend mem (json_decreaseLevel rootLevel) (drop 1 (take segs ids))
          (if ids ! segs \<noteq> LWM2M_MAX_ID then write_instance mem (ids ! segs) convert else convert) target
      else convert target)"

text \<open>The loop over the records; \<open>root\<close> holds the items of \<^verbatim>\<open>rootP\<close> before \<^verbatim>\<open>freeIndex\<close>.\<close>

fun convert_records ::
  "allocator \<Rightarrow> (bytes \<Rightarrow> bool \<Rightarrow> u64 option) \<Rightarrow> uri_depth \<Rightarrow> nat \<Rightarrow> json_record list \<Rightarrow>
    lwm2m_data list \<Rightarrow> lwm2m_data list option option" where
  "convert_records mem textToFloat rootLevel segs [] root = Some (Some root)"
| "convert_records mem textToFloat rootLevel segs (r # rs) root =
     (if \<not> record_fits segs (r_ids r) then Some None
      else
        let ident = r_ids r ! 0;
            (n, target) =
              (case json_findDataItem root ident of
                 Some n \<Rightarrow> (n, root ! n)
               | None \<Rightarrow> (length root, Data (utils_depthToDatatype rootLevel) ident AsZero))
        in
        case convert_record mem textToFloat rootLevel segs r target of
          None \<Rightarrow> None
        | Some None \<Rightarrow> Some None
        | Some (Some d) \<Rightarrow>
            convert_records mem textToFloat rootLevel segs rs
              (if n < length root then root[n := d] else root @ [d]))"

text \<open>The items of the root under the numbers that the base name sets.\<close>

definition wrap_root :: "lwm2m_uri \<Rightarrow> lwm2m_data list \<Rightarrow> lwm2m_data" where
  "wrap_root u root =
     Data LWM2M_TYPE_OBJECT (objectId u) (AsChildren
       (if instanceId u = LWM2M_MAX_ID then root
        else [Data LWM2M_TYPE_OBJECT_INSTANCE (instanceId u) (AsChildren
          (if resourceId u = LWM2M_MAX_ID then root
           else [Data LWM2M_TYPE_MULTIPLE_RESOURCE (resourceId u) (AsChildren root)]))]))"

definition root_level :: "lwm2m_uri option \<Rightarrow> uri_depth" where
  "root_level uriP =
     (case uriP of
        None \<Rightarrow> URI_DEPTH_OBJECT
      | Some u \<Rightarrow>
          if instanceId u = LWM2M_MAX_ID then URI_DEPTH_OBJECT_INSTANCE
          else if resourceId u = LWM2M_MAX_ID then URI_DEPTH_RESOURCE
          else URI_DEPTH_RESOURCE_INSTANCE)"

definition json_convertRecord ::
  "allocator \<Rightarrow> (bytes \<Rightarrow> bool \<Rightarrow> u64 option) \<Rightarrow> lwm2m_uri option \<Rightarrow> json_record list \<Rightarrow>
    lwm2m_data list option option" where
  "json_convertRecord mem textToFloat uriP rs =
     (case segments_below (root_level uriP) of
        None \<Rightarrow> Some None
      | Some segs \<Rightarrow>
          if uriP \<noteq> None \<and> lwm2m_data_new mem 1 = None then Some None
          else if lwm2m_data_new mem (int (length rs)) = None then Some None
          else
            (case convert_records mem textToFloat (root_level uriP) segs rs [] of
               None \<Rightarrow> None
             | Some None \<Rightarrow> Some None
             | Some (Some root) \<Rightarrow>
                 if length root < length rs \<and> lwm2m_data_new mem (int (length root)) = None then Some None
                 else Some (Some (case uriP of None \<Rightarrow> root | Some u \<Rightarrow> [wrap_root u root]))))"

section \<open>The message\<close>

text \<open>The items of the array; \<open>n\<close> are left to be read.\<close>

fun read_items :: "bytes \<Rightarrow> nat \<Rightarrow> nat \<Rightarrow> json_record list \<Rightarrow> (nat \<times> json_record list) option" where
  "read_items buffer index 0 rs = Some (index, rs)"
| "read_items buffer index (Suc n) rs =
     do { itemLen \<leftarrow> json_itemLength (drop index buffer);
          r \<leftarrow> json_parseItem (take (itemLen - 2) (drop (index + 1) buffer));
          i \<leftarrow> next_char buffer (index + itemLen - 1);
          if buffer ! i = ch_comma then do { j \<leftarrow> next_char buffer i; read_items buffer j n (rs @ [r]) }
          else if buffer ! i = ch_close_bracket \<and> n = 0 then Some (i, rs @ [r])
          else None }"

text \<open>What the loop over the members of the message has found: the records, the base name and a base time.\<close>

record parse_state =
  ps_e :: "json_record list option"
  ps_bn :: "bytes option"
  ps_bt :: bool

text \<open>\<^verbatim>\<open>sizeof(_record_t)\<close> on a 64-bit platform.\<close>

definition sizeof_record :: nat where "sizeof_record = 32"

definition read_e :: "allocator \<Rightarrow> bytes \<Rightarrow> nat \<Rightarrow> parse_state \<Rightarrow> (nat \<times> parse_state) option" where
  "read_e mem buffer index st =
     (if length buffer - index < 21 then None
      else if buffer ! (index + 1) \<noteq> ch_quote then None
      else if ps_e st \<noteq> None then None
      else
        do { i \<leftarrow> next_char buffer (index + 1);
             if buffer ! i \<noteq> ch_colon then None else do {
             i \<leftarrow> next_char buffer i;
             if buffer ! i \<noteq> ch_open_bracket then None else do {
             i \<leftarrow> next_char buffer i;
             count \<leftarrow> json_countItems (drop i buffer);
             if count = 0 \<or> \<not> mem (count * sizeof_record) then None else do {
             (k, rs) \<leftarrow> read_items buffer i count [];
             if buffer ! k \<noteq> ch_close_bracket then None else Some (k, st\<lparr>ps_e := Some rs\<rparr>) }}}})"

abbreviation (input) member_end :: "u8 \<Rightarrow> bool" where
  "member_end c \<equiv> c = ch_comma \<or> c = ch_close_brace"

text \<open>
  The base time is skipped. The end of the base name is looked for without a test of the index
  before the read, so that a message that ends in the name is read beyond its end.
\<close>

definition read_b :: "bytes \<Rightarrow> nat \<Rightarrow> parse_state \<Rightarrow> (nat \<times> parse_state) option option" where
  "read_b buffer index st =
     (if length buffer - index < 5 then Some None
      else if buffer ! (index + 1) = 116 then
        (let j = index + 2 + length (takeWhile (\<lambda>c. \<not> member_end c) (drop (index + 2) buffer)) in
         if buffer ! (index + 2) \<noteq> ch_quote \<or> ps_bt st \<or> j = length buffer then Some None
         else Some (Some (j - 1, st\<lparr>ps_bt := True\<rparr>)))
      else if buffer ! (index + 1) = 110 then
        (if buffer ! (index + 2) \<noteq> ch_quote \<or> ps_bn st \<noteq> None then Some None
         else
           let start = index - 1; item = takeWhile (\<lambda>c. \<not> member_end c) (drop start buffer) in
           if start + length item = length buffer then None
           else
             (case json_split item of
                None \<Rightarrow> Some None
              | Some (next, t) \<Rightarrow>
                  Some (Some (start + next - 1,
                    st\<lparr>ps_bn := Some (take (valueLen t) (drop (valueStart t) item))\<rparr>))))
      else Some None)"

text \<open>
  A member, from the index of its quote on, with the index of its last character. The test
  \<^verbatim>\<open>index++ >= bufferLen\<close> looks at the old index: nothing keeps the read after it inside of the buffer.
\<close>

definition read_member ::
  "allocator \<Rightarrow> bytes \<Rightarrow> nat \<Rightarrow> parse_state \<Rightarrow> (nat \<times> parse_state) option option" where
  "read_member mem buffer i st =
     (if buffer ! i \<noteq> ch_quote then Some None
      else
        case rd buffer (i + 1) of
          None \<Rightarrow> None
        | Some c \<Rightarrow>
            if c = 101 then Some (read_e mem buffer (i + 1) st)
            else if c = 98 then read_b buffer (i + 1) st
            else Some None)"

lemma read_items_index: "read_items buffer index n rs = Some (k, rs') \<Longrightarrow> index \<le> k"
proof (induction n arbitrary: index rs)
  case (Suc n)
  from Suc.prems obtain itemLen r i where i: "json_itemLength (drop index buffer) = Some itemLen"
    "next_char buffer (index + itemLen - 1) = Some i"
    and k: "k = i \<or> (\<exists>j. next_char buffer i = Some j \<and> read_items buffer j n (rs @ [r]) = Some (k, rs'))"
    by (auto simp: bind_eq_Some_conv split: if_splits)
  have "0 < itemLen" using i(1) item_loop_bounds by (fastforce simp: json_itemLength_def)
  then have "index \<le> i" using next_char_greater [OF i(2)] by linarith
  with k Suc.IH next_char_greater show ?case by fastforce
qed simp

lemma read_member_index:
  assumes "read_member mem buffer i st = Some (Some (k, st'))"
  shows "i \<le> k"
proof -
  have "i \<le> k" if "read_e mem buffer (i + 1) st = Some (k, st')"
    using that by (auto simp: read_e_def bind_eq_Some_conv split: if_splits
        dest!: next_char_greater read_items_index)
  moreover have "i \<le> k" if "read_b buffer (i + 1) st = Some (Some (k, st'))"
    using that by (auto simp: read_b_def Let_def split: if_splits option.splits dest!: json_split_pos)
  ultimately show ?thesis using assms by (auto simp: read_member_def split: if_splits option.splits)
qed

function read_members ::
  "allocator \<Rightarrow> bytes \<Rightarrow> nat \<Rightarrow> parse_state \<Rightarrow> parse_state option option" where
  "read_members mem buffer index st =
     (case next_char buffer index of
        None \<Rightarrow> Some None
      | Some i \<Rightarrow>
          (case read_member mem buffer i st of
             None \<Rightarrow> None
           | Some None \<Rightarrow> Some None
           | Some (Some (k, st)) \<Rightarrow>
               (case next_char buffer k of
                  None \<Rightarrow> Some None
                | Some m \<Rightarrow>
                    if buffer ! m = ch_comma then read_members mem buffer m st
                    else if buffer ! m \<noteq> ch_close_brace then Some None
                    else Some (Some st))))"
  by pat_completeness auto
termination
  by (relation "measure (\<lambda>(_, buffer, index, _). length buffer - index)")
    (auto dest!: next_char_greater read_member_index)

declare read_members.simps [simp del]

text \<open>The URI that the base name gives: the outer \<open>Some None\<close> is the name \<^verbatim>\<open>"/"\<close>, the null pointer.\<close>

definition base_uri :: "build \<Rightarrow> bytes \<Rightarrow> lwm2m_uri option option option" where
  "base_uri cfg v =
     (if length v < 3 \<or> \<not> is_quoted v then Some None
      else
        let name = butlast (tl v) in
        if length name = 1 then (if hd name \<noteq> ch_slash then Some None else Some (Some None))
        else
          let name = (if last name = ch_slash then butlast name else name) in
          case lwm2m_stringToUri cfg name of
            None \<Rightarrow> None
          | Some (res, u) \<Rightarrow> if res \<noteq> length name then Some None else Some (Some (Some u)))"

section \<open>The part that was asked for\<close>

text \<open>The first instance with the number that has children.\<close>

fun find_instance :: "u16 \<Rightarrow> lwm2m_data list \<Rightarrow> lwm2m_data list option option" where
  "find_instance ident [] = Some None"
| "find_instance ident (d # ds) =
     (if did d = ident then
        (case as_children (dvalue d) of
           None \<Rightarrow> None
         | Some [] \<Rightarrow> find_instance ident ds
         | Some cs \<Rightarrow> Some (Some cs))
      else find_instance ident ds)"

definition json_select ::
  "allocator \<Rightarrow> lwm2m_uri \<Rightarrow> lwm2m_data list \<Rightarrow> lwm2m_data list option option" where
  "json_select mem u parsed =
     (let top = hd parsed in
      if dtype top \<noteq> LWM2M_TYPE_OBJECT \<or> did top \<noteq> objectId u then Some None
      else
        case as_children (dvalue top) of
          None \<Rightarrow> None
        | Some children \<Rightarrow>
            if instanceId u = LWM2M_MAX_ID then json_dataStrip mem children
            else
              (case find_instance (instanceId u) children of
                 None \<Rightarrow> None
               | Some None \<Rightarrow> Some None
               | Some (Some resources) \<Rightarrow>
                   if resourceId u = LWM2M_MAX_ID then json_dataStrip mem resources
                   else
                     (case List.find (\<lambda>d. did d = resourceId u) resources of
                        None \<Rightarrow> Some None
                      | Some d \<Rightarrow> json_dataStrip mem [d])))"

text \<open>The result: the returned value and \<^verbatim>\<open>*dataP\<close>. A message without items returns 0.\<close>

definition json_parse ::
  "build \<Rightarrow> allocator \<Rightarrow> (bytes \<Rightarrow> bool \<Rightarrow> u64 option) \<Rightarrow> lwm2m_uri option \<Rightarrow> bytes \<Rightarrow>
    (int \<times> lwm2m_data list) option" where
  "json_parse cfg mem textToFloat uriP buffer =
     (let index = json_skipSpace buffer;
          finish = map_option (\<lambda>r. case r of None \<Rightarrow> (-1, []) | Some ds \<Rightarrow> (int (length ds), ds))
      in
      if index = length buffer then Some (-1, [])
      else if buffer ! index \<noteq> ch_open_brace then Some (-1, [])
      else
        case read_members mem buffer index \<lparr>ps_e = None, ps_bn = None, ps_bt = False\<rparr> of
          None \<Rightarrow> None
        | Some None \<Rightarrow> Some (-1, [])
        | Some (Some st) \<Rightarrow>
            (case ps_e st of
               None \<Rightarrow> Some (0, [])
             | Some rs \<Rightarrow>
                 (case (case ps_bn st of None \<Rightarrow> Some (Some uriP) | Some v \<Rightarrow> base_uri cfg v) of
                    None \<Rightarrow> None
                  | Some None \<Rightarrow> Some (-1, [])
                  | Some (Some baseUriP) \<Rightarrow>
                      (case json_convertRecord mem textToFloat baseUriP rs of
                         None \<Rightarrow> None
                       | Some None \<Rightarrow> Some (-1, [])
                       | Some (Some parsed) \<Rightarrow>
                           finish (case uriP of
                               None \<Rightarrow> json_dataStrip mem parsed
                             | Some u \<Rightarrow> json_select mem u parsed)))))"

end
