(* ===== verification/Json_Write.thy ===== *)
theory Json_Write
  imports Json_Tree Discover Base64
begin

text \<open>
  The JSON serializer (\<^verbatim>\<open>data/json.c\<close>, lines 753 to 1085).

  Everything is written into one buffer of 1024 bytes; the pointer and the room that the functions
  pass on are here the capacity \<open>cap\<close> of that buffer and the text \<open>out\<close> before it. The text of a
  double is the parameter \<open>floatToText\<close>, as in the plain text format. Results with two options: the
  outer \<open>None\<close> is undefined behaviour, the inner one the return of -1.
\<close>

definition PRV_JSON_BUFFER_SIZE :: nat where "PRV_JSON_BUFFER_SIZE = 1024"

definition JSON_RES_ITEM_URI :: bytes where "JSON_RES_ITEM_URI = ascii ''{\"n\":\"''"
definition JSON_ITEM_BOOL_TRUE :: bytes where "JSON_ITEM_BOOL_TRUE = ascii ''\",\"bv\":true},''"
definition JSON_ITEM_BOOL_FALSE :: bytes where "JSON_ITEM_BOOL_FALSE = ascii ''\",\"bv\":false},''"
definition JSON_ITEM_NUM :: bytes where "JSON_ITEM_NUM = ascii ''\",\"v\":''"
definition JSON_ITEM_NUM_END :: bytes where "JSON_ITEM_NUM_END = ascii ''},''"
definition JSON_ITEM_STRING_BEGIN :: bytes where "JSON_ITEM_STRING_BEGIN = ascii ''\",\"sv\":\"''"
definition JSON_ITEM_STRING_END :: bytes where "JSON_ITEM_STRING_END = ascii ''\"},''"
definition JSON_ITEM_OBJECT_LINK_BEGIN :: bytes where "JSON_ITEM_OBJECT_LINK_BEGIN = ascii ''\",\"ov\":\"''"
definition JSON_ITEM_OBJECT_LINK_END :: bytes where "JSON_ITEM_OBJECT_LINK_END = ascii ''\"},''"
definition JSON_BN_HEADER_1 :: bytes where "JSON_BN_HEADER_1 = ascii ''{\"bn\":\"''"
definition JSON_BN_HEADER_2 :: bytes where "JSON_BN_HEADER_2 = ascii ''\",\"e\":[''"
definition JSON_HEADER :: bytes where "JSON_HEADER = ascii ''{\"e\":[''"
definition JSON_FOOTER :: bytes where "JSON_FOOTER = ascii '']}''"

section \<open>Values\<close>

text \<open>A string, its escape sequences or its base64 text: empty only for the empty value.\<close>

definition emit_text :: "bytes \<Rightarrow> bytes \<Rightarrow> bytes \<Rightarrow> bytes option" where
  "emit_text value text out = (if value \<noteq> [] \<and> text = [] then None else Some (out @ text))"

definition emit_unsigned :: "nat \<Rightarrow> u64 \<Rightarrow> bytes \<Rightarrow> bytes option" where
  "emit_unsigned cap v out =
     (let (n, s) = utils_uintToText v (replicate (cap - length out) 0) in
      if n = 0 then None else Some (out @ take n s))"

definition emit_objlink :: "nat \<Rightarrow> u16 \<Rightarrow> u16 \<Rightarrow> bytes \<Rightarrow> bytes option" where
  "emit_objlink cap ob inst out =
     (let (n, s) = utils_objLinkToText ob inst (replicate (cap - length out) 0) in
      if n = 0 then None else Some (out @ take n s))"

text \<open>The test for an infinity or a value that is not a number looks at the first two characters.\<close>

definition emit_float :: "(u64 \<Rightarrow> nat \<Rightarrow> bool \<Rightarrow> bytes) \<Rightarrow> nat \<Rightarrow> u64 \<Rightarrow> bytes \<Rightarrow> bytes option" where
  "emit_float floatToText cap v out =
     (let text = floatToText v (cap - length out) True in
      if text = [] then None
      else if hd text \<noteq> ch_minus \<and> \<not> is_digit8 (hd text) then None
      else if length text > 1 \<and> hd text = ch_minus \<and> \<not> is_digit8 (text ! 1) then None
      else Some (out @ text))"

definition serialize_number :: "nat \<Rightarrow> (bytes \<Rightarrow> bytes option) \<Rightarrow> bytes \<Rightarrow> bytes option" where
  "serialize_number cap number out =
     do { out \<leftarrow> emit cap JSON_ITEM_NUM out; out \<leftarrow> number out; emit cap JSON_ITEM_NUM_END out }"

definition serialize_text :: "nat \<Rightarrow> bytes \<Rightarrow> (nat \<Rightarrow> bytes) \<Rightarrow> bytes \<Rightarrow> bytes option" where
  "serialize_text cap value text out =
     do { out \<leftarrow> emit cap JSON_ITEM_STRING_BEGIN out;
          out \<leftarrow> emit_text value (text (cap - length out)) out;
          emit cap JSON_ITEM_STRING_END out }"

definition json_serializeValue ::
  "build \<Rightarrow> (u64 \<Rightarrow> nat \<Rightarrow> bool \<Rightarrow> bytes) \<Rightarrow> nat \<Rightarrow> bytes \<Rightarrow> lwm2m_data \<Rightarrow> bytes option option" where
  "json_serializeValue cfg floatToText cap out d =
     (let string = map_option (\<lambda>s. serialize_text cap s (\<lambda>room. json_escapeString room s) out)
            (as_buffer (dvalue d))
      in
      case dtype d of
        LWM2M_TYPE_STRING \<Rightarrow> string
      | LWM2M_TYPE_CORE_LINK \<Rightarrow> string
      | LWM2M_TYPE_INTEGER \<Rightarrow>
          map_option (\<lambda>v. Option.bind v (\<lambda>v. serialize_number cap (emit_int cap v) out))
            (lwm2m_data_decode_int cfg d)
      | LWM2M_TYPE_UNSIGNED_INTEGER \<Rightarrow>
          map_option (\<lambda>v. Option.bind v (\<lambda>v. serialize_number cap (emit_unsigned cap v) out))
            (lwm2m_data_decode_uint cfg d)
      | LWM2M_TYPE_FLOAT \<Rightarrow>
          map_option (\<lambda>v. serialize_number cap (emit_float floatToText cap v) out) (as_float (dvalue d))
      | LWM2M_TYPE_BOOLEAN \<Rightarrow>
          map_option (\<lambda>v. Option.bind v (\<lambda>v.
              emit cap (if v then JSON_ITEM_BOOL_TRUE else JSON_ITEM_BOOL_FALSE) out))
            (lwm2m_data_decode_bool d)
      | LWM2M_TYPE_OPAQUE \<Rightarrow>
          map_option (\<lambda>b. serialize_text cap b (\<lambda>room. snd (utils_base64Encode b room)) out)
            (as_buffer (dvalue d))
      | LWM2M_TYPE_OBJECT_LINK \<Rightarrow>
          map_option (\<lambda>(ob, inst).
              do { out \<leftarrow> emit cap JSON_ITEM_OBJECT_LINK_BEGIN out;
                   out \<leftarrow> emit_objlink cap ob inst out;
                   emit cap JSON_ITEM_OBJECT_LINK_END out })
            (as_objlink (dvalue d))
      | _ \<Rightarrow> Some None)"

section \<open>Trees\<close>

text \<open>
  The path of the children: the number is printed where the path of the parent ends, and the slash
  is stored after it without a test. \<open>Some None\<close> is -1, \<open>None\<close> the store behind \<^verbatim>\<open>uriStr\<close>.
\<close>

definition child_path :: "build \<Rightarrow> bytes \<Rightarrow> u16 \<Rightarrow> bytes option option" where
  "child_path cfg parentUri ident =
     (let max_len = uri_max_string_len cfg in
      if max_len < length parentUri then Some None
      else
        case emit_int max_len (ucast ident) parentUri of
          None \<Rightarrow> Some None
        | Some uriStr \<Rightarrow> if length uriStr < max_len then Some (Some (uriStr @ [ch_slash])) else None)"

fun json_serializeData ::
  "build \<Rightarrow> (u64 \<Rightarrow> nat \<Rightarrow> bool \<Rightarrow> bytes) \<Rightarrow> bytes \<Rightarrow> nat \<Rightarrow> bytes \<Rightarrow> lwm2m_data \<Rightarrow> bytes option option"
  and json_serializeChildren ::
  "build \<Rightarrow> (u64 \<Rightarrow> nat \<Rightarrow> bool \<Rightarrow> bytes) \<Rightarrow> bytes \<Rightarrow> nat \<Rightarrow> bytes \<Rightarrow> lwm2m_data list \<Rightarrow> bytes option option" where
  "json_serializeData cfg floatToText parentUri cap out (Data t ident v) =
     (if holds_children t then
        (case child_path cfg parentUri ident of
           None \<Rightarrow> None
         | Some None \<Rightarrow> Some None
         | Some (Some uriStr) \<Rightarrow>
             (case v of
                AsZero \<Rightarrow> Some (Some out)
              | AsChildren cs \<Rightarrow> json_serializeChildren cfg floatToText uriStr cap out cs
              | _ \<Rightarrow> None))
      else
        case do { out \<leftarrow> emit cap JSON_RES_ITEM_URI out;
                  out \<leftarrow> emit cap parentUri out;
                  emit_int cap (ucast ident) out } of
          None \<Rightarrow> Some None
        | Some out \<Rightarrow> json_serializeValue cfg floatToText cap out (Data t ident v))"
| "json_serializeChildren cfg floatToText parentUri cap out [] = Some (Some out)"
| "json_serializeChildren cfg floatToText parentUri cap out (d # ds) =
     (case json_serializeData cfg floatToText parentUri cap out d of
        Some (Some out) \<Rightarrow> json_serializeChildren cfg floatToText parentUri cap out ds
      | failed \<Rightarrow> failed)"

section \<open>The message\<close>

text \<open>\<open>while (baseUriLen > 1 && baseUriStr[baseUriLen - 1] != '/') baseUriLen--\<close>\<close>

function remove_last_id :: "bytes \<Rightarrow> bytes" where
  "remove_last_id base =
     (if length base > 1 \<and> last base \<noteq> ch_slash then remove_last_id (butlast base) else base)"
  by pat_completeness auto
termination by (relation "measure length") auto

declare remove_last_id.simps [simp del]

text \<open>
  A single container is no item of the message: its number goes to the base name. \<open>Some None\<close> is the
  return of 0.
\<close>

function extend_base ::
  "build \<Rightarrow> bytes \<Rightarrow> lwm2m_data list \<Rightarrow> (bytes \<times> lwm2m_data list) option option" where
  "extend_base cfg base ds =
     (case ds of
        [d] \<Rightarrow>
          if holds_children (dtype d) then
            (if length base \<ge> uri_max_string_len cfg - 1 then Some None
             else
               case emit_int (uri_max_string_len cfg) (ucast (did d)) (base @ [ch_slash]) of
                 None \<Rightarrow> Some None
               | Some base \<Rightarrow>
                   (case as_children (dvalue d) of
                      None \<Rightarrow> None
                    | Some cs \<Rightarrow> extend_base cfg base cs))
          else Some (Some (base, ds))
      | _ \<Rightarrow> Some (Some (base, ds)))"
  by pat_completeness auto
termination
  by (relation "measure (\<lambda>(_, _, ds). size_list size ds)")
    (auto intro!: find_children_size [where P = "\<lambda>_. True" and ds = "[d]" for d, simplified])

declare extend_base.simps [simp del]

text \<open>
  The items. \<open>head < PRV_JSON_BUFFER_SIZE\<close> stops the loop at a full buffer, which the test that follows
  then refuses.
\<close>

fun serialize_items ::
  "build \<Rightarrow> (u64 \<Rightarrow> nat \<Rightarrow> bool \<Rightarrow> bytes) \<Rightarrow> bytes \<Rightarrow> lwm2m_data list \<Rightarrow> bytes \<Rightarrow> bytes option option" where
  "serialize_items cfg floatToText parentUri [] out = Some (Some out)"
| "serialize_items cfg floatToText parentUri (d # ds) out =
     (if length out < PRV_JSON_BUFFER_SIZE then
        (case json_serializeData cfg floatToText parentUri PRV_JSON_BUFFER_SIZE out d of
           Some (Some out) \<Rightarrow> serialize_items cfg floatToText parentUri ds out
         | failed \<Rightarrow> failed)
      else Some (Some out))"

text \<open>The header with the base name; without one the items have an absolute path.\<close>

definition json_message ::
  "build \<Rightarrow> allocator \<Rightarrow> (u64 \<Rightarrow> nat \<Rightarrow> bool \<Rightarrow> bytes) \<Rightarrow> bytes \<Rightarrow> lwm2m_data list \<Rightarrow>
    (int \<times> bytes option) option" where
  "json_message cfg mem floatToText base ds =
     (if base \<noteq> [] \<and> length base \<ge> uri_max_string_len cfg - 1 then Some (0, None)
      else
        let (parentUri, head) =
              (if base \<noteq> [] then ([], JSON_BN_HEADER_1 @ base @ [ch_slash] @ JSON_BN_HEADER_2)
               else ([ch_slash], JSON_HEADER))
        in
        case serialize_items cfg floatToText parentUri ds head of
          None \<Rightarrow> None
        | Some None \<Rightarrow> Some (-1, None)
        | Some (Some out) \<Rightarrow>
            if length out + length JSON_FOOTER - 1 > PRV_JSON_BUFFER_SIZE then Some (0, None)
            else
              let out = (if ds \<noteq> [] then butlast out else out) @ JSON_FOOTER in
              if mem (length out) then Some (int (length out), Some out) else Some (-1, None))"

definition strip_resource_instance :: "build \<Rightarrow> lwm2m_uri \<Rightarrow> lwm2m_uri" where
  "strip_resource_instance cfg u =
     (if \<not> version_1_0 cfg \<and> resourceInstanceId u \<noteq> LWM2M_MAX_ID
      then u\<lparr>resourceInstanceId := LWM2M_MAX_ID\<rparr> else u)"

text \<open>The base name that the URI gives, and the part of the tree below it.\<close>

definition json_target ::
  "build \<Rightarrow> lwm2m_uri option \<Rightarrow> lwm2m_data list \<Rightarrow> (bytes \<times> lwm2m_data list) option option" where
  "json_target cfg uriP ds =
     (case uri_toString cfg uriP (replicate (uri_max_string_len cfg) 0) of
        Some (n, baseUriStr, Some baseLevel) \<Rightarrow>
          (case json_findAndCheckData uriP baseLevel ds of
             None \<Rightarrow> None
           | Some None \<Rightarrow> Some None
           | Some (Some (target, rootLevel)) \<Rightarrow>
               let base = take (nat n) baseUriStr in
               Some (Some
                 (if URI_DEPTH_RESOURCE \<le> baseLevel \<and> rootLevel = baseLevel \<and> length base > 1 then
                    let base = remove_last_id base in
                    (if length base > 1 \<and> last base = ch_slash then butlast base else base)
                  else base, target)))
      | Some _ \<Rightarrow> Some None
      | None \<Rightarrow> None)"

text \<open>The result: the returned value and \<^verbatim>\<open>*bufferP\<close>.\<close>

definition json_serialize ::
  "build \<Rightarrow> allocator \<Rightarrow> (u64 \<Rightarrow> nat \<Rightarrow> bool \<Rightarrow> bytes) \<Rightarrow> lwm2m_uri option \<Rightarrow> lwm2m_data list \<Rightarrow>
    (int \<times> bytes option) option" where
  "json_serialize cfg mem floatToText uriP ds =
     (case json_target cfg (map_option (strip_resource_instance cfg) uriP) ds of
        None \<Rightarrow> None
      | Some None \<Rightarrow> Some (-1, None)
      | Some (Some (base, target)) \<Rightarrow>
          (case extend_base cfg base target of
             None \<Rightarrow> None
           | Some None \<Rightarrow> Some (0, None)
           | Some (Some (base, items)) \<Rightarrow> json_message cfg mem floatToText base items))"

end
