(* ===== verification/Data_Model.thy ===== *)
theory Data_Model
  imports Tlv Uri Discover Json_Read Json_Write
begin

text \<open>
  The entry points of the data model (\<^verbatim>\<open>data/data.c\<close>, lines 639 to 820): \<^verbatim>\<open>lwm2m_data_parse\<close> and
  \<^verbatim>\<open>lwm2m_data_serialize\<close> choose the format and check that it fits the URI and the data.

  The SenML format and the text of doubles are fields of \<open>formats\<close>: what
  \<^verbatim>\<open>senml_json_parse\<close>, \<^verbatim>\<open>senml_json_serialize\<close>,
  \<^verbatim>\<open>utils_floatToText\<close> and \<^verbatim>\<open>utils_textToFloat\<close> return, with the data or the bytes they produce.
\<close>

record formats =
  senml_json_parse :: "lwm2m_uri \<Rightarrow> bytes \<Rightarrow> int \<times> lwm2m_data list"
  senml_json_serialize :: "lwm2m_uri option \<Rightarrow> lwm2m_data list \<Rightarrow> int \<times> bytes option"
  float_to_text :: "u64 \<Rightarrow> nat \<Rightarrow> bool \<Rightarrow> bytes"
  text_to_float :: "bytes \<Rightarrow> bool \<Rightarrow> u64 option"

section \<open>Parsing\<close>

text \<open>The result: the returned value and \<^verbatim>\<open>*dataP\<close>. \<open>parse_single\<close> is the text and the opaque case.\<close>

definition parse_single ::
  "build \<Rightarrow> allocator \<Rightarrow> lwm2m_data_type \<Rightarrow> lwm2m_uri \<Rightarrow> bytes \<Rightarrow> int \<times> lwm2m_data list" where
  "parse_single cfg mem type u buffer =
     (if resourceId u = LWM2M_MAX_ID then (0, [])
      else
        (case lwm2m_data_new mem 1 of
           None \<Rightarrow> (0, [])
         | Some ds \<Rightarrow>
             let ident = (if \<not> version_1_0 cfg \<and> resourceInstanceId u \<noteq> LWM2M_MAX_ID
                          then resourceInstanceId u else resourceId u);
                 (res, d) = prv_setBuffer mem buffer (set_type type (set_id ident (hd ds)))
             in if res then (1, [d]) else (0, [])))"

definition lwm2m_data_parse ::
  "build \<Rightarrow> allocator \<Rightarrow> formats \<Rightarrow> lwm2m_uri \<Rightarrow> bytes \<Rightarrow> lwm2m_media_type \<Rightarrow>
    (int \<times> lwm2m_data list) option" where
  "lwm2m_data_parse cfg mem ext u buffer format =
     (let tlv = map_option (\<lambda>r. case r of None \<Rightarrow> (0, []) | Some ds \<Rightarrow> (int (length ds), ds))
                  (tlv_parse mem buffer)
      in
      case format of
        LWM2M_CONTENT_TEXT \<Rightarrow> Some (parse_single cfg mem LWM2M_TYPE_STRING u buffer)
      | LWM2M_CONTENT_OPAQUE \<Rightarrow> Some (parse_single cfg mem LWM2M_TYPE_OPAQUE u buffer)
      | LWM2M_CONTENT_TLV_OLD \<Rightarrow> if support_tlv cfg \<and> old_formats cfg then tlv else Some (0, [])
      | LWM2M_CONTENT_TLV \<Rightarrow> if support_tlv cfg then tlv else Some (0, [])
      | LWM2M_CONTENT_JSON_OLD \<Rightarrow>
          if support_json cfg \<and> old_formats cfg then json_parse cfg mem (text_to_float ext) (Some u) buffer else Some (0, [])
      | LWM2M_CONTENT_JSON \<Rightarrow> if support_json cfg then json_parse cfg mem (text_to_float ext) (Some u) buffer else Some (0, [])
      | LWM2M_CONTENT_SENML_JSON \<Rightarrow>
          if support_senml cfg then Some (senml_json_parse ext u buffer) else Some (0, [])
      | LWM2M_CONTENT_LINK \<Rightarrow> Some (0, []))"

section \<open>Serializing\<close>

text \<open>The format check: a single value that is no container may be text or opaque, else a structured format.\<close>

definition final_format ::
  "build \<Rightarrow> lwm2m_uri option \<Rightarrow> lwm2m_data list \<Rightarrow> lwm2m_media_type \<Rightarrow> lwm2m_media_type option" where
  "final_format cfg uriP ds format =
     (if (format = LWM2M_CONTENT_TEXT \<or> format = LWM2M_CONTENT_OPAQUE) \<and>
         (length ds \<noteq> 1
          \<or> (case uriP of None \<Rightarrow> False | Some u \<Rightarrow> resourceId u = LWM2M_MAX_ID)
          \<or> dtype (ds ! 0) = LWM2M_TYPE_OBJECT
          \<or> dtype (ds ! 0) = LWM2M_TYPE_OBJECT_INSTANCE
          \<or> dtype (ds ! 0) = LWM2M_TYPE_MULTIPLE_RESOURCE)
      then
        (if support_senml cfg then Some LWM2M_CONTENT_SENML_JSON
         else if support_json cfg then Some LWM2M_CONTENT_JSON
         else if support_tlv cfg then Some LWM2M_CONTENT_TLV
         else None)
      else Some format)"

definition serialize_tlv ::
  "build \<Rightarrow> allocator \<Rightarrow> lwm2m_uri option \<Rightarrow> lwm2m_data list \<Rightarrow> (int \<times> bytes option) option" where
  "serialize_tlv cfg mem uriP ds =
     (let run = (\<lambda>inst. map_option (\<lambda>(n, out). (n, if n > 0 then Some out else None))
                  (tlv_serialize cfg mem inst ds))
      in
      case uriP of
        None \<Rightarrow> run False
      | Some u \<Rightarrow>
          if \<not> version_1_0 cfg \<and> resourceInstanceId u \<noteq> LWM2M_MAX_ID then
            (if length ds \<noteq> 1 \<or> did (ds ! 0) \<noteq> resourceInstanceId u then Some (-1, None) else run True)
          else
            run (resourceId u \<noteq> LWM2M_MAX_ID \<and> (length ds \<noteq> 1 \<or> did (ds ! 0) \<noteq> resourceId u)))"

text \<open>The result: the returned value, \<^verbatim>\<open>*formatP\<close> and \<^verbatim>\<open>*bufferP\<close>; \<open>stack\<close> as in \<open>prv_textSerialize\<close>.\<close>

definition lwm2m_data_serialize ::
  "build \<Rightarrow> allocator \<Rightarrow> formats \<Rightarrow> bytes \<Rightarrow> lwm2m_uri option \<Rightarrow> lwm2m_data list \<Rightarrow> lwm2m_media_type \<Rightarrow>
    (int \<times> lwm2m_media_type \<times> bytes option) option" where
  "lwm2m_data_serialize cfg mem ext stack uriP ds format =
     (case final_format cfg uriP ds format of
        None \<Rightarrow> Some (-1, format, None)
      | Some format \<Rightarrow>
          if format = LWM2M_CONTENT_OPAQUE \<and> dtype (ds ! 0) \<noteq> LWM2M_TYPE_OPAQUE
          then Some (-1, format, None)
          else
            let with_format = map_option (\<lambda>(n, b). (n, format, b)) in
            case format of
              LWM2M_CONTENT_TEXT \<Rightarrow> with_format (prv_textSerialize mem (float_to_text ext) stack (ds ! 0))
            | LWM2M_CONTENT_OPAQUE \<Rightarrow>
                with_format (map_option (\<lambda>b. if mem (length b) then (int (length b), Some b) else (-1, None))
                  (as_buffer (dvalue (ds ! 0))))
            | LWM2M_CONTENT_TLV \<Rightarrow>
                if support_tlv cfg then with_format (serialize_tlv cfg mem uriP ds)
                else Some (-1, format, None)
            | LWM2M_CONTENT_TLV_OLD \<Rightarrow>
                if support_tlv cfg \<and> old_formats cfg then with_format (serialize_tlv cfg mem uriP ds)
                else Some (-1, format, None)
            | LWM2M_CONTENT_LINK \<Rightarrow> with_format
                (case uriP of None \<Rightarrow> None
                 | Some u \<Rightarrow> discover_serialize cfg mem (float_to_text ext) None None u ds)
            | LWM2M_CONTENT_JSON \<Rightarrow>
                if support_json cfg then with_format (json_serialize cfg mem (float_to_text ext) uriP ds)
                else Some (-1, format, None)
            | LWM2M_CONTENT_JSON_OLD \<Rightarrow>
                if support_json cfg \<and> old_formats cfg then with_format (json_serialize cfg mem (float_to_text ext) uriP ds)
                else Some (-1, format, None)
            | LWM2M_CONTENT_SENML_JSON \<Rightarrow>
                if support_senml cfg then with_format (Some (senml_json_serialize ext uriP ds))
                else Some (-1, format, None))"

section \<open>Text round trips\<close>

lemma text_number_int:
  assumes "32 \<le> length stack"
  obtains b where "text_number all_mem (utils_intToText n (take 32 stack)) = (int (length b), Some b)"
    "utils_textToInt b = Some n"
proof -
  obtain r s where p: "utils_intToText n (take 32 stack) = (r, s)"
    by (cases "utils_intToText n (take 32 stack)")
  have r: "0 < r"
    using assms intToText_space [of "take 32 stack" n] p by simp
  have "utils_textToInt (take r s) = Some n" using intToText_back [OF p r] .
  moreover have "r \<le> length s" using intToText_le [of n "take 32 stack"] p by simp
  ultimately show ?thesis using that [of "take r s"] r p by (simp add: text_number_def min_absorb2)
qed

lemma text_number_uint:
  assumes "32 \<le> length stack"
  obtains b where "text_number all_mem (utils_uintToText n (take 32 stack)) = (int (length b), Some b)"
    "utils_textToUInt b = Some n"
proof -
  obtain r s where p: "utils_uintToText n (take 32 stack) = (r, s)"
    by (cases "utils_uintToText n (take 32 stack)")
  have r: "0 < r"
    using assms uintToText_space [of "take 32 stack" n] p by simp
  have "utils_textToUInt (take r s) = Some n" using uintToText_back [OF p r] .
  moreover have "r \<le> length s"
    using uintToText_le [of n "take 32 stack"] length_uintToText [of n "take 32 stack"] p by simp
  ultimately show ?thesis using that [of "take r s"] r p by (simp add: text_number_def min_absorb2)
qed

lemma serialize_text:
  assumes "\<not> is_container t"
    and "resourceId u \<noteq> LWM2M_MAX_ID" and "t \<noteq> LWM2M_TYPE_OBJECT"
  shows "lwm2m_data_serialize cfg mem ext stack (Some u) [Data t i v] LWM2M_CONTENT_TEXT =
    map_option (\<lambda>(n, b). (n, LWM2M_CONTENT_TEXT, b)) (prv_textSerialize mem (float_to_text ext) stack (Data t i v))"
  using assms by (simp add: lwm2m_data_serialize_def final_format_def)

lemma parse_text:
  assumes "resourceId u \<noteq> LWM2M_MAX_ID"
  shows "\<exists>ident. lwm2m_data_parse cfg all_mem ext u b LWM2M_CONTENT_TEXT =
    Some (1, [Data LWM2M_TYPE_STRING ident (AsBuffer b)])"
  using assms
  by (auto simp: lwm2m_data_parse_def parse_single_def lwm2m_data_new_def prv_setBuffer_def set_value_def
      set_type_def set_id_def)

text \<open>
  with memory available, integers, unsigned integers and booleans of a resource survive the plain
  text format: what \<^verbatim>\<open>lwm2m_data_serialize\<close> produces, \<^verbatim>\<open>lwm2m_data_parse\<close> accepts, and the value
  decoded from it is the one that was serialized.
\<close>
theorem text_format_roundtrip:
  assumes "resourceId u \<noteq> LWM2M_MAX_ID" and "32 \<le> length stack"
  shows
    "(\<exists>b d. lwm2m_data_serialize cfg all_mem ext stack (Some u) [Data LWM2M_TYPE_INTEGER i (AsInteger n)]
          LWM2M_CONTENT_TEXT = Some (int (length b), LWM2M_CONTENT_TEXT, Some b) \<and>
        lwm2m_data_parse cfg all_mem ext u b LWM2M_CONTENT_TEXT = Some (1, [d]) \<and>
        lwm2m_data_decode_int cfg d = Some (Some n)) \<and>
     (\<exists>b d. lwm2m_data_serialize cfg all_mem ext stack (Some u) [Data LWM2M_TYPE_UNSIGNED_INTEGER i (AsUnsigned n)]
          LWM2M_CONTENT_TEXT = Some (int (length b), LWM2M_CONTENT_TEXT, Some b) \<and>
        lwm2m_data_parse cfg all_mem ext u b LWM2M_CONTENT_TEXT = Some (1, [d]) \<and>
        lwm2m_data_decode_uint cfg d = Some (Some n)) \<and>
     (\<exists>b d. lwm2m_data_serialize cfg all_mem ext stack (Some u) [Data LWM2M_TYPE_BOOLEAN i (AsBoolean v)]
          LWM2M_CONTENT_TEXT = Some (int (length b), LWM2M_CONTENT_TEXT, Some b) \<and>
        lwm2m_data_parse cfg all_mem ext u b LWM2M_CONTENT_TEXT = Some (1, [d]) \<and>
        lwm2m_data_decode_bool d = Some (Some v))"
proof (intro conjI)
  obtain b where "text_number all_mem (utils_intToText n (take 32 stack)) = (int (length b), Some b)"
    "utils_textToInt b = Some n" using text_number_int [OF assms(2)] by blast
  then show "\<exists>b d. lwm2m_data_serialize cfg all_mem ext stack (Some u) [Data LWM2M_TYPE_INTEGER i (AsInteger n)]
          LWM2M_CONTENT_TEXT = Some (int (length b), LWM2M_CONTENT_TEXT, Some b) \<and>
        lwm2m_data_parse cfg all_mem ext u b LWM2M_CONTENT_TEXT = Some (1, [d]) \<and>
        lwm2m_data_decode_int cfg d = Some (Some n)"
    using parse_text [OF assms(1), of cfg ext b] assms(1)
    by (intro exI [of _ b]) (auto simp: serialize_text prv_textSerialize_def Let_def lwm2m_data_decode_int_def)
next
  obtain b where "text_number all_mem (utils_uintToText n (take 32 stack)) = (int (length b), Some b)"
    "utils_textToUInt b = Some n" using text_number_uint [OF assms(2)] by blast
  then show "\<exists>b d. lwm2m_data_serialize cfg all_mem ext stack (Some u) [Data LWM2M_TYPE_UNSIGNED_INTEGER i (AsUnsigned n)]
          LWM2M_CONTENT_TEXT = Some (int (length b), LWM2M_CONTENT_TEXT, Some b) \<and>
        lwm2m_data_parse cfg all_mem ext u b LWM2M_CONTENT_TEXT = Some (1, [d]) \<and>
        lwm2m_data_decode_uint cfg d = Some (Some n)"
    using parse_text [OF assms(1), of cfg ext b] assms(1)
    by (intro exI [of _ b]) (auto simp: serialize_text prv_textSerialize_def Let_def lwm2m_data_decode_uint_def)
next
  show "\<exists>b d. lwm2m_data_serialize cfg all_mem ext stack (Some u) [Data LWM2M_TYPE_BOOLEAN i (AsBoolean v)]
          LWM2M_CONTENT_TEXT = Some (int (length b), LWM2M_CONTENT_TEXT, Some b) \<and>
        lwm2m_data_parse cfg all_mem ext u b LWM2M_CONTENT_TEXT = Some (1, [d]) \<and>
        lwm2m_data_decode_bool d = Some (Some v)"
    using parse_text [OF assms(1), of cfg ext "[if v then 49 else 48]"] assms(1)
    by (intro exI [of _ "[if v then 49 else 48]"])
      (auto simp: serialize_text prv_textSerialize_def Let_def lwm2m_data_decode_bool_def)
qed

definition no_formats :: formats where
  "no_formats = \<lparr>senml_json_parse = \<lambda>u b. (0, []), senml_json_serialize = \<lambda>u d. (-1, None),
     float_to_text = \<lambda>b n e. [], text_to_float = \<lambda>b e. None\<rparr>"

theorem text_format_roundtrip_witness:
  "\<exists>b d. lwm2m_data_serialize client_build all_mem no_formats (replicate 32 0)
       (Some \<lparr>objectId = 3, instanceId = 0, resourceId = 9, resourceInstanceId = 0xFFFF\<rparr>)
       [Data LWM2M_TYPE_INTEGER 9 (AsInteger 100)] LWM2M_CONTENT_TEXT =
       Some (int (length b), LWM2M_CONTENT_TEXT, Some b) \<and>
     lwm2m_data_parse client_build all_mem no_formats
       \<lparr>objectId = 3, instanceId = 0, resourceId = 9, resourceInstanceId = 0xFFFF\<rparr> b LWM2M_CONTENT_TEXT = Some (1, [d]) \<and>
     lwm2m_data_decode_int client_build d = Some (Some 100)"
  using text_format_roundtrip [of "\<lparr>objectId = 3, instanceId = 0, resourceId = 9, resourceInstanceId = 0xFFFF\<rparr>"
      "replicate 32 0" client_build no_formats 9 100 True] by simp

text \<open>The text of an object link: what the two calls of the printer leave in the 11 bytes.\<close>

lemma five_digits: "length (dec_digits (unat (i :: u16))) \<le> 5"
  using dec_digits_bound [of "unat i" 5] unsigned_less [of i, where 'a = nat] by simp

lemma print_id:
  assumes "length s = 5"
  obtains rest where "utils_intToText (ucast (i :: u16)) s =
      (length (dec_digits (unat i)), dec_digits (unat i) @ rest)"
    "length (dec_digits (unat i)) < 5 \<longrightarrow> rest \<noteq> [] \<and> hd rest = 0"
    "length (dec_digits (unat i)) + length rest = 5"
proof -
  have pos: "\<not> sint (ucast i :: u64) < 0"
    using unsigned_less [of i, where 'a = nat] by (simp add: sint_neg_iff)
  have "length (dec_digits (unat (ucast i :: u64))) \<le> length s" using five_digits [of i] assms by simp
  from uintToText_fits [OF this] length_uintToText [of "ucast i" s] show ?thesis
    using that pos assms five_digits [of i] by (simp add: utils_intToText_def split: if_splits)
qed

lemma dec_val_less: "list_all is_digit8 s \<Longrightarrow> dec_val s < 10 ^ length s"
proof (induction s rule: rev_induct)
  case (snoc c s)
  then have "unat c \<le> 57" by (simp add: is_digit8_def word_le_nat_alt)
  then have "digit_val c < 10" unfolding digit_val_def by linarith
  with snoc show ?case by simp
qed simp

lemma length_dec_digits_5: "length (dec_digits (unat (i :: u16))) < 5 \<longleftrightarrow> unat i < 10000"
proof
  assume "length (dec_digits (unat i)) < 5"
  then have "(10 :: nat) ^ length (dec_digits (unat i)) \<le> 10 ^ 4" by (intro power_increasing) simp_all
  then show "unat i < 10000" using dec_val_less [of "dec_digits (unat i)"] by simp
next
  assume "unat i < 10000"
  then show "length (dec_digits (unat i)) < 5" using dec_digits_bound [of "unat i" 4] by simp
qed

lemma text_objlink_bytes:
  assumes "11 \<le> length stack"
  shows "text_objlink all_mem stack ob inst =
    (let b = dec_digits (unat ob) @ (if unat ob < 10000 then 0 else ch_colon) # dec_digits (unat inst)
     in (int (length b), Some b))"
proof -
  let ?d1 = "dec_digits (unat ob)" and ?d2 = "dec_digits (unat inst)"
  obtain rest1 where r1: "utils_intToText (ucast ob) (take 5 (take 11 stack)) = (length ?d1, ?d1 @ rest1)"
    "length ?d1 < 5 \<longrightarrow> rest1 \<noteq> [] \<and> hd rest1 = 0" "length ?d1 + length rest1 = 5"
    by (rule print_id [of "take 5 (take 11 stack)" ob]) (use assms in simp_all)
  define sb where "sb = ((?d1 @ rest1) @ drop 5 (take 11 stack))[5 := ch_colon]"
  have len: "length sb = 11" using r1(3) assms by (simp add: sb_def)
  have sb: "take (length ?d1 + 1) sb = ?d1 @ [if unat ob < 10000 then 0 else ch_colon]"
  proof (cases "length ?d1 < 5")
    case True
    obtain r where "rest1 = 0 # r" using True r1(2) by (cases rest1) auto
    moreover obtain j where "5 - length ?d1 = Suc j" using True by (cases "5 - length ?d1") auto
    ultimately show ?thesis using True r1(3) by (simp add: sb_def length_dec_digits_5 list_update_append)
  next
    case False
    then have "rest1 = []" "length ?d1 = 5" using r1(3) five_digits [of ob] by simp_all
    moreover obtain x xs where "drop 5 (take 11 stack) = x # xs" using assms by (cases "drop 5 (take 11 stack)") auto
    ultimately show ?thesis using False length_dec_digits_5 [of ob] by (simp add: sb_def list_update_append)
  qed
  obtain rest2 where r2: "utils_intToText (ucast inst) (take 5 (drop (length ?d1 + 1) sb)) = (length ?d2, ?d2 @ rest2)"
    by (rule print_id [of "take 5 (drop (length ?d1 + 1) sb)" inst]) (use len five_digits [of ob] in simp_all)
  have "?d1 \<noteq> []" "?d2 \<noteq> []" by simp_all
  then show ?thesis
    unfolding text_objlink_def Let_def r1(1) prod.case sb_def [symmetric] r2
    using sb len five_digits [of ob] by (simp add: min_absorb2)
qed

text \<open>
  the text of an object link is right only for object numbers of five digits. The separator is
  stored at a fixed place in the buffer, so below 10000 the two numbers are separated by the
  terminator of the first one, a null byte, and the text is not read back.
\<close>
theorem text_objlink_separator:
  assumes "11 \<le> length stack"
  shows "\<exists>b. text_objlink all_mem stack ob inst = (int (length b), Some b) \<and>
    utils_textToObjLink b = (if unat ob < 10000 then None else Some (ob, inst))"
proof -
  let ?b = "dec_digits (unat ob) @ (if unat ob < 10000 then 0 else ch_colon) # dec_digits (unat inst)"
  have "ch_colon \<notin> set (dec_digits n)" for n
    using dec_digits_all [of ch_colon n] by (auto simp: is_digit8_def)
  then have "utils_textToObjLink ?b = (if unat ob < 10000 then None else Some (ob, inst))"
    using textToObjLink_digits [of ob inst] textToObjLink_no_colon [of ?b] by auto
  then show ?thesis using text_objlink_bytes [OF assms, of ob inst] by (auto simp: Let_def)
qed

theorem text_objlink_separator_witness:
  "\<exists>b. text_objlink all_mem (replicate 11 0) 3 0 = (int (length b), Some b) \<and> utils_textToObjLink b = None"
  using text_objlink_separator [of "replicate 11 0" 3 0] by simp

end
