(* ===== verification/Coap_Serialize.thy ===== *)
theory Coap_Serialize
  imports Coap_Packet
begin

text \<open>
  Writing a CoAP message (\<^verbatim>\<open>er-coap-13.c\<close>, lines 74 to 235 and 488 to 715): option headers, the three
  forms of options, the size computed beforehand and the serializer. What is written to the buffer is
  the list of its bytes, in order.
\<close>

section \<open>Option headers\<close>

function log2_loop :: "u16 \<Rightarrow> u16 \<Rightarrow> u16" where
  "log2_loop v result =
     (let v = drop_bit 1 v; result = result + 1 in
      if v \<noteq> 0 then log2_loop v result else result)"
  by pat_completeness auto
termination
proof (relation "measure (\<lambda>(v, result). unat v)")
  fix v v' result result' :: u16
  assume v': "v' = drop_bit 1 v" "v' \<noteq> 0"
  have "unat v' = unat v div 2" using v'(1) unat_shr [of 1 v] by simp
  moreover have "unat v' \<noteq> 0" using v'(2) by (simp only: unat_eq_0 not_False_eq_True)
  ultimately have "unat v' < unat v" by linarith
  then show "((v', result'), (v, result)) \<in> measure (\<lambda>(v, result). unat v)" by simp
qed simp

declare log2_loop.simps [simp del]

definition coap_log_2 :: "u16 \<Rightarrow> u16" where
  "coap_log_2 v = (let result = log2_loop v 0 in if result \<noteq> 0 then result - 1 else result)"

definition coap_option_nibble :: "nat \<Rightarrow> u8" where
  "coap_option_nibble v = (if v < 13 then of_nat v else if v \<le> 0xFF + 13 then 13 else 14)"

text \<open>The extended bytes of a delta or a length.\<close>

definition option_ext :: "nat \<Rightarrow> bytes" where
  "option_ext x =
     (if x > 268 then [of_nat ((x - 269) div 256), of_nat (x - 269)]
      else if x > 12 then [of_nat (x - 13)]
      else [])"

definition coap_set_option_header :: "nat \<Rightarrow> nat \<Rightarrow> bytes" where
  "coap_set_option_header delta len =
     (push_bit 4 (coap_option_nibble delta) OR coap_option_nibble len) # option_ext delta @ option_ext len"

section \<open>Options\<close>

text \<open>The bytes of a 32-bit value, most significant first, without leading zero bytes.\<close>

definition int_bytes :: "u32 \<Rightarrow> bytes" where
  "int_bytes v =
     (if 0xFF000000 AND v \<noteq> 0 then [ucast (drop_bit 24 v)] else []) @
     (if 0xFFFF0000 AND v \<noteq> 0 then [ucast (drop_bit 16 v)] else []) @
     (if 0xFFFFFF00 AND v \<noteq> 0 then [ucast (drop_bit 8 v)] else []) @
     (if 0xFFFFFFFF AND v \<noteq> 0 then [ucast v] else [])"

definition coap_serialize_int_option :: "nat \<Rightarrow> nat \<Rightarrow> u32 \<Rightarrow> bytes" where
  "coap_serialize_int_option number current v =
     (let i = (if 0xFF000000 AND v \<noteq> 0 then 1 else 0) + (if 0xFFFF0000 AND v \<noteq> 0 then 1 else 0) +
              (if 0xFFFFFF00 AND v \<noteq> 0 then 1 else 0) + (if 0xFFFFFFFF AND v \<noteq> 0 then 1 else 0)
      in coap_set_option_header (number - current) i @ int_bytes v)"

text \<open>
  The split form: \<open>part\<close> is what lies between \<^verbatim>\<open>part_start\<close> and \<open>j\<close>. After a splitter \<open>j\<close> moves twice,
  so the first byte of the next part is not examined. The test of the loop also reads \<^verbatim>\<open>array[length]\<close>, the byte after the
  array (the zero that ends a string); both outcomes of that test write the last part.
\<close>

fun array_split_loop :: "u8 \<Rightarrow> nat \<Rightarrow> bytes \<Rightarrow> bytes \<Rightarrow> bytes" where
  "array_split_loop split_char delta part [] = coap_set_option_header delta (length part) @ part"
| "array_split_loop split_char delta part (c # cs) =
     (if c = split_char then
        (coap_set_option_header delta (length part) @ part) @
        (case cs of [] \<Rightarrow> [] | d # ds \<Rightarrow> array_split_loop split_char 0 [d] ds)
      else array_split_loop split_char delta (part @ [c]) cs)"

definition coap_serialize_array_option :: "nat \<Rightarrow> nat \<Rightarrow> bytes \<Rightarrow> u8 \<Rightarrow> bytes" where
  "coap_serialize_array_option number current array split_char =
     (if split_char \<noteq> 0 then array_split_loop split_char (number - current) [] array
      else coap_set_option_header (number - current) (length array) @ array)"

fun coap_serialize_multi_option :: "nat \<Rightarrow> nat \<Rightarrow> bytes list \<Rightarrow> bytes" where
  "coap_serialize_multi_option number current [] = []"
| "coap_serialize_multi_option number current (v # vs) =
     (coap_set_option_header (number - current) (length v) @ v) @ coap_serialize_multi_option number number vs"

section \<open>The size computed beforehand\<close>

definition payload_of :: "coap_packet \<Rightarrow> bytes" where
  "payload_of p = (case p_payload p of None \<Rightarrow> [] | Some b \<Rightarrow> b)"

definition coap_serialize_get_size :: "coap_packet \<Rightarrow> nat" where
  "coap_serialize_get_size p =
     (let when = (\<lambda>opt n. if IS_OPTION opt p then n else 0 :: nat);
          multi = (\<lambda>vs. sum_list (map (\<lambda>v. 5 + length v) vs))
      in
      4 + length (payload_of p) + length (p_token p) +
      when COAP_OPTION_IF_MATCH (5 + length (p_if_match p)) +
      when COAP_OPTION_URI_HOST (5 + length (p_uri_host p)) +
      when COAP_OPTION_ETAG (5 + length (p_etag p)) +
      when COAP_OPTION_IF_NONE_MATCH 5 +
      when COAP_OPTION_OBSERVE 5 +
      when COAP_OPTION_URI_PORT 5 +
      when COAP_OPTION_LOCATION_PATH (multi (p_location_path p)) +
      when COAP_OPTION_URI_PATH (multi (p_uri_path p)) +
      when COAP_OPTION_CONTENT_TYPE 5 +
      when COAP_OPTION_MAX_AGE 5 +
      when COAP_OPTION_URI_QUERY (multi (p_uri_query p)) +
      when COAP_OPTION_ACCEPT (length (p_accept p) * 5) +
      when COAP_OPTION_LOCATION_QUERY (5 + length (p_location_query p)) +
      when COAP_OPTION_BLOCK2 5 +
      when COAP_OPTION_BLOCK1 5 +
      when COAP_OPTION_SIZE 5 +
      when COAP_OPTION_PROXY_URI (5 + length (p_proxy_uri p)) +
      (if length (payload_of p) \<noteq> 0 then 1 else 0))"

section \<open>The serializer\<close>

text \<open>
  The state of the option macros: the bytes written so far and \<^verbatim>\<open>current_number\<close>. The macro of a
  repeated option sets \<^verbatim>\<open>current_number\<close> even when its list is empty; that of Accept does not.
\<close>

type_synonym ser_state = "bytes \<times> nat"

definition ser_int :: "coap_packet \<Rightarrow> nat \<Rightarrow> u32 \<Rightarrow> ser_state \<Rightarrow> ser_state" where
  "ser_int p number field s =
     (if IS_OPTION number p
      then (fst s @ coap_serialize_int_option number (snd s) field, number) else s)"

definition ser_array :: "coap_packet \<Rightarrow> nat \<Rightarrow> bytes \<Rightarrow> u8 \<Rightarrow> ser_state \<Rightarrow> ser_state" where
  "ser_array p number field splitter s =
     (if IS_OPTION number p
      then (fst s @ coap_serialize_array_option number (snd s) field splitter, number) else s)"

definition ser_multi :: "coap_packet \<Rightarrow> nat \<Rightarrow> bytes list \<Rightarrow> ser_state \<Rightarrow> ser_state" where
  "ser_multi p number field s =
     (if IS_OPTION number p
      then (fst s @ coap_serialize_multi_option number (snd s) field, number) else s)"

fun accept_options :: "nat \<Rightarrow> u16 list \<Rightarrow> ser_state \<Rightarrow> ser_state" where
  "accept_options number [] s = s"
| "accept_options number (a # as) s =
     accept_options number as (fst s @ coap_serialize_int_option number (snd s) (ucast a), number)"

definition ser_accept :: "coap_packet \<Rightarrow> nat \<Rightarrow> u16 list \<Rightarrow> ser_state \<Rightarrow> ser_state" where
  "ser_accept p number field s = (if IS_OPTION number p then accept_options number field s else s)"

definition block_value :: "u32 \<Rightarrow> u8 \<Rightarrow> u16 \<Rightarrow> u32" where
  "block_value num more_blocks block_size =
     (let block = push_bit 4 num;
          block = (if more_blocks \<noteq> 0 then block OR 0x8 else block)
      in block OR (0xF AND ucast (coap_log_2 (block_size div 16))))"

definition ser_block :: "coap_packet \<Rightarrow> nat \<Rightarrow> u32 \<Rightarrow> u8 \<Rightarrow> u16 \<Rightarrow> ser_state \<Rightarrow> ser_state" where
  "ser_block p number num more_blocks block_size s =
     (if IS_OPTION number p
      then (fst s @ coap_serialize_int_option number (snd s) (block_value num more_blocks block_size), number)
      else s)"

definition serialize_options :: "coap_packet \<Rightarrow> bytes" where
  "serialize_options p =
     (let s = ([], 0);
          s = ser_array p COAP_OPTION_IF_MATCH (p_if_match p) 0 s;
          s = ser_array p COAP_OPTION_URI_HOST (p_uri_host p) 0 s;
          s = ser_array p COAP_OPTION_ETAG (p_etag p) 0 s;
          s = ser_int p COAP_OPTION_IF_NONE_MATCH (p_content_type p - p_content_type p) s;
          s = ser_int p COAP_OPTION_OBSERVE (p_observe p) s;
          s = ser_int p COAP_OPTION_URI_PORT (ucast (p_uri_port p)) s;
          s = ser_multi p COAP_OPTION_LOCATION_PATH (p_location_path p) s;
          s = ser_multi p COAP_OPTION_URI_PATH (p_uri_path p) s;
          s = ser_int p COAP_OPTION_CONTENT_TYPE (p_content_type p) s;
          s = ser_int p COAP_OPTION_MAX_AGE (p_max_age p) s;
          s = ser_multi p COAP_OPTION_URI_QUERY (p_uri_query p) s;
          s = ser_accept p COAP_OPTION_ACCEPT (p_accept p) s;
          s = ser_array p COAP_OPTION_LOCATION_QUERY (p_location_query p) ch_ampersand s;
          s = ser_block p COAP_OPTION_BLOCK2 (p_block2_num p) (p_block2_more p) (p_block2_size p) s;
          s = ser_block p COAP_OPTION_BLOCK1 (p_block1_num p) (p_block1_more p) (p_block1_size p) s;
          s = ser_int p COAP_OPTION_SIZE (p_size p) s;
          s = ser_array p COAP_OPTION_PROXY_URI (p_proxy_uri p) 0 s
      in fst s)"

definition serialize_header :: "coap_packet \<Rightarrow> bytes" where
  "serialize_header p =
     [(0xC0 AND push_bit 6 (p_version p)) OR (0x30 AND push_bit 4 (p_type p)) OR
        (0x0F AND of_nat (length (p_token p))),
      p_code p, ucast (drop_bit 8 (p_mid p)), ucast (p_mid p)] @ p_token p"

text \<open>The result: the packet, whose option lists have been freed, and the bytes written.\<close>

definition coap_serialize_message :: "coap_packet \<Rightarrow> coap_packet \<times> bytes" where
  "coap_serialize_message p =
     (let p = p\<lparr>p_version := 1\<rparr>;
          out = serialize_header p @ serialize_options p
      in (coap_free_header p,
          out @ (if length (payload_of p) \<noteq> 0 then [0xFF] else []) @ payload_of p))"

end
