(* ===== verification/Coap_Parse.thy ===== *)
theory Coap_Parse
  imports Coap_Serialize
begin

text \<open>
  Reading a CoAP message (\<^verbatim>\<open>er-coap-13.c\<close>, lines 90 to 101, 236 to 257 and 716 to 932). The parser
  looks at the bytes of the message only through the position it has reached; \<open>None\<close> is a read past
  the last byte, or an option number for which \<^verbatim>\<open>SET_OPTION\<close> leaves its array. The global error
  message is not represented.
\<close>

section \<open>Option values\<close>

definition coap_parse_int_option :: "bytes \<Rightarrow> u32" where
  "coap_parse_int_option bs = foldl (\<lambda>var b. push_bit 8 var OR ucast b) 0 bs"

text \<open>
  The parts of a repeated query are merged in place in the message; the bytes written over are those
  of option headers that have been read.
\<close>

definition coap_merge_multi_option :: "bytes \<Rightarrow> bytes \<Rightarrow> u8 \<Rightarrow> bytes" where
  "coap_merge_multi_option dst option separator =
     (if length dst > 0 then dst @ [separator] @ option else option)"

text \<open>The fields of a block option: number, more, size, offset.\<close>

definition parse_block :: "bytes \<Rightarrow> u32 \<times> u8 \<times> u16 \<times> u32" where
  "parse_block v =
     (let num = coap_parse_int_option v in
      (drop_bit 4 num, ucast (drop_bit 3 (num AND 0x08)), push_bit (unat (num AND 0x07)) 16,
       push_bit (unat (num AND 0x07)) (num AND NOT 0x0F)))"

abbreviation (input) NO_ERROR :: u8 where "NO_ERROR \<equiv> 0"
abbreviation (input) BAD_REQUEST_4_00 :: u8 where "BAD_REQUEST_4_00 \<equiv> 128"
abbreviation (input) BAD_OPTION_4_02 :: u8 where "BAD_OPTION_4_02 \<equiv> 130"
abbreviation (input) PROXYING_NOT_SUPPORTED_5_05 :: u8 where "PROXYING_NOT_SUPPORTED_5_05 \<equiv> 165"

text \<open>The switch over the option number: \<open>Inl\<close> where the function returns.\<close>

definition apply_option :: "allocator \<Rightarrow> nat \<Rightarrow> bytes \<Rightarrow> coap_packet \<Rightarrow> (u8 \<times> coap_packet) + coap_packet" where
  "apply_option mem number v p =
     (if number = COAP_OPTION_CONTENT_TYPE then Inr (p\<lparr>p_content_type := coap_parse_int_option v\<rparr>)
      else if number = COAP_OPTION_MAX_AGE then Inr (p\<lparr>p_max_age := coap_parse_int_option v\<rparr>)
      else if number = COAP_OPTION_ETAG then Inr (p\<lparr>p_etag := take 8 v\<rparr>)
      else if number = COAP_OPTION_ACCEPT then
        (if length (p_accept p) < 2
         then Inr (p\<lparr>p_accept := p_accept p @ [ucast (coap_parse_int_option v)]\<rparr>) else Inr p)
      else if number = COAP_OPTION_IF_MATCH then Inr (p\<lparr>p_if_match := take 8 v\<rparr>)
      else if number = COAP_OPTION_IF_NONE_MATCH then Inr (p\<lparr>p_if_none_match := 1\<rparr>)
      else if number = COAP_OPTION_URI_HOST then Inr (p\<lparr>p_uri_host := v\<rparr>)
      else if number = COAP_OPTION_URI_PORT then Inr (p\<lparr>p_uri_port := ucast (coap_parse_int_option v)\<rparr>)
      else if number = COAP_OPTION_URI_PATH
      then Inr (p\<lparr>p_uri_path := coap_add_multi_option mem (p_uri_path p) v True\<rparr>)
      else if number = COAP_OPTION_URI_QUERY
      then Inr (p\<lparr>p_uri_query := coap_add_multi_option mem (p_uri_query p) v True\<rparr>)
      else if number = COAP_OPTION_LOCATION_PATH
      then Inr (p\<lparr>p_location_path := coap_add_multi_option mem (p_location_path p) v True\<rparr>)
      else if number = COAP_OPTION_LOCATION_QUERY
      then Inr (p\<lparr>p_location_query := coap_merge_multi_option (p_location_query p) v ch_ampersand\<rparr>)
      else if number = COAP_OPTION_PROXY_URI
      then Inl (PROXYING_NOT_SUPPORTED_5_05, p\<lparr>p_proxy_uri := v\<rparr>)
      else if number = COAP_OPTION_OBSERVE then Inr (p\<lparr>p_observe := coap_parse_int_option v\<rparr>)
      else if number = COAP_OPTION_BLOCK2 then
        (let (num, more_blocks, block_size, offset) = parse_block v in
         Inr (p\<lparr>p_block2_num := num, p_block2_more := more_blocks, p_block2_size := block_size,
                p_block2_offset := offset\<rparr>))
      else if number = COAP_OPTION_BLOCK1 then
        (let (num, more_blocks, block_size, offset) = parse_block v in
         Inr (p\<lparr>p_block1_num := num, p_block1_more := more_blocks, p_block1_size := block_size,
                p_block1_offset := offset\<rparr>))
      else if number = COAP_OPTION_SIZE then Inr (p\<lparr>p_size := coap_parse_int_option v\<rparr>)
      else if odd number then Inl (BAD_OPTION_4_02, coap_free_header p)
      else Inr p)"

section \<open>Messages\<close>

text \<open>An extended delta or length: the value and what follows its bytes.\<close>

definition read_ext :: "nat \<Rightarrow> bytes \<Rightarrow> (nat \<times> bytes) option" where
  "read_ext x cur =
     (if x = 13 then (case cur of [] \<Rightarrow> None | a # cur \<Rightarrow> Some (x + unat a, cur))
      else if x = 14 then
        (case cur of
           [] \<Rightarrow> None
         | a # cur \<Rightarrow> (case cur of [] \<Rightarrow> None | b # cur \<Rightarrow> Some (x + 255 + unat a * 2 ^ 8 + unat b, cur)))
      else Some (x, cur))"

lemma read_ext_length: "read_ext x cur = Some (y, cur') \<Longrightarrow> length cur' \<le> length cur"
  by (auto simp: read_ext_def split: if_splits list.splits)

function parse_options :: "allocator \<Rightarrow> coap_packet \<Rightarrow> nat \<Rightarrow> bytes \<Rightarrow> (u8 \<times> coap_packet) option" where
  "parse_options mem p option_number [] = Some (NO_ERROR, p)"
| "parse_options mem p option_number (c # cur) =
     (if c AND 0xF0 = 0xF0 then Some (NO_ERROR, p\<lparr>p_payload := Some cur\<rparr>)
      else
        (case read_ext (unat (drop_bit 4 c)) cur of
           None \<Rightarrow> None
         | Some (option_delta, cur) \<Rightarrow>
             (case read_ext (unat (c AND 0x0F)) cur of
                None \<Rightarrow> None
              | Some (option_length, cur) \<Rightarrow>
                  let option_number = option_number + option_delta in
                  if length cur < option_length then Some (BAD_REQUEST_4_00, coap_free_header p)
                  else
                    (case SET_OPTION option_number p of
                       None \<Rightarrow> None
                     | Some p \<Rightarrow>
                         (case apply_option mem option_number (take option_length cur) p of
                            Inl r \<Rightarrow> Some r
                          | Inr p \<Rightarrow> parse_options mem p option_number (drop option_length cur))))))"
  by pat_completeness auto
termination
proof (relation "measure (\<lambda>(mem, p, n, cur). length cur)")
  fix mem :: allocator and p p1 p2 :: coap_packet and n m delta len :: nat and c :: u8 and cur cur1 cur2 :: bytes
    and x y :: "nat \<times> bytes"
  assume "read_ext (unat (drop_bit 4 c)) cur = Some x" "(delta, cur1) = x"
    "read_ext (unat (c AND 0x0F)) cur1 = Some y" "(len, cur2) = y"
  then have "length cur2 \<le> length cur"
    by (auto dest!: read_ext_length)
  then show "((mem, p2, m, drop len cur2), (mem, p, n, c # cur)) \<in> measure (\<lambda>(mem, p, n, cur). length cur)"
    by simp
qed simp

declare parse_options.simps [simp del]

text \<open>
  The header. The four bytes are read without a look at the length of the message, as is the token; a
  token length above 8 is read as 8. The packet of a wrong version has a token of zeros.
\<close>

definition coap_parse_message :: "allocator \<Rightarrow> bytes \<Rightarrow> (u8 \<times> coap_packet) option" where
  "coap_parse_message mem data =
     (if length data < 4 then None
      else
        let b0 = data ! 0;
            token_len = min 8 (unat (b0 AND 0x0F));
            p = zero_packet\<lparr>p_version := drop_bit 6 (0xC0 AND b0), p_type := drop_bit 4 (0x30 AND b0),
                  p_code := data ! 1, p_mid := push_bit 8 (ucast (data ! 2)) OR ucast (data ! 3),
                  p_token := replicate token_len 0\<rparr>
        in
        if p_version p \<noteq> 1 then Some (BAD_REQUEST_4_00, p)
        else if length data < 4 + token_len then None
        else
          let p = (if token_len \<noteq> 0
                   then set_known COAP_OPTION_TOKEN (p\<lparr>p_token := take token_len (drop 4 data)\<rparr>) else p)
          in parse_options mem p 0 (drop (4 + token_len) data))"

end
