(* ===== verification/Coap_Roundtrip.thy ===== *)
theory Coap_Roundtrip
  imports Coap_Parse
begin

text \<open>
  The parser reads back what the serializer writes: header, token, options and payload. The proof goes
  through the list of the numbered options of a packet (\<open>packet_options\<close>): the serializer writes that
  list (\<open>enc\<close>), the parser applies it option by option (\<open>apply_all\<close>).
\<close>

section \<open>Option headers are read back\<close>

lemma nibble_le: "unat (coap_option_nibble n) \<le> 14"
  by (simp add: coap_option_nibble_def unat_of_nat)

lemma nibble_cases: "coap_option_nibble n \<in> set (map of_nat [0..<15])"
proof (cases "n < 13")
  case True
  then have "coap_option_nibble n = of_nat n" "n < 15" by (simp_all add: coap_option_nibble_def)
  then show ?thesis by (simp only: set_map atLeast0LessThan set_upt) (rule imageI, simp)
next
  case False
  then have "coap_option_nibble n = of_nat 13 \<or> coap_option_nibble n = of_nat 14"
    by (simp add: coap_option_nibble_def)
  then show ?thesis unfolding set_map set_upt by (elim disjE) (simp only:, rule imageI, simp)+
qed

lemma header_byte:
  defines "c \<equiv> \<lambda>d l. push_bit 4 (coap_option_nibble d) OR coap_option_nibble l"
  shows "c d l AND 0xF0 \<noteq> 0xF0" "drop_bit 4 (c d l) = coap_option_nibble d" "c d l AND 0x0F = coap_option_nibble l"
proof -
  have "\<forall>x \<in> set (map of_nat [0..<15] :: u8 list).
      \<forall>y \<in> set (map of_nat [0..<15]).
      (push_bit 4 x OR y) AND 0xF0 \<noteq> 0xF0 \<and> drop_bit 4 (push_bit 4 x OR y) = x \<and> (push_bit 4 x OR y) AND 0x0F = y"
    by code_simp
  then show "c d l AND 0xF0 \<noteq> 0xF0" "drop_bit 4 (c d l) = coap_option_nibble d"
    "c d l AND 0x0F = coap_option_nibble l"
    using nibble_cases [of d] nibble_cases [of l] unfolding c_def by blast+
qed

lemma read_ext_option:
  assumes "n < 65805"
  shows "read_ext (unat (coap_option_nibble n)) (option_ext n @ rest) = Some (n, rest)"
proof -
  consider (a) "n < 13" | (b) "13 \<le> n" "n \<le> 268" | (c) "268 < n" by linarith
  then show ?thesis
  proof cases
    case a
    then show ?thesis by (simp add: read_ext_def coap_option_nibble_def option_ext_def unat_of_nat)
  next
    case b
    then have "unat (of_nat (n - 13) :: u8) = n - 13" by (simp add: unat_of_nat del: of_nat_diff)
    then show ?thesis using b by (simp add: read_ext_def coap_option_nibble_def option_ext_def del: of_nat_diff)
  next
    case c
    then have "(n - 269) div 256 < 256" using assms by simp
    then have "unat (of_nat ((n - 269) div 256) :: u8) = (n - 269) div 256" "unat (of_nat (n - 269) :: u8) = (n - 269) mod 256"
      by (simp_all add: unat_of_nat del: of_nat_diff)
    moreover have "269 + ((n - 269) div 256 * 256 + (n - 269) mod 256) = n" using c by simp
    ultimately show ?thesis using c by (simp add: read_ext_def coap_option_nibble_def option_ext_def del: of_nat_diff)
  qed
qed

lemma length_option_header: "length (coap_set_option_header d l) \<le> 5"
  by (simp add: coap_set_option_header_def option_ext_def)

text \<open>A list of options, each with its number and value, as the serializer lays it out after \<open>current\<close>.\<close>

fun enc :: "nat \<Rightarrow> (nat \<times> bytes) list \<Rightarrow> bytes" where
  "enc current [] = []"
| "enc current ((n, v) # os) = coap_set_option_header (n - current) (length v) @ v @ enc n os"

fun last_number :: "nat \<Rightarrow> (nat \<times> bytes) list \<Rightarrow> nat" where
  "last_number current [] = current"
| "last_number current ((n, v) # os) = last_number n os"

lemma enc_append: "enc c (os @ os') = enc c os @ enc (last_number c os) os'"
  by (induction c os rule: enc.induct) simp_all

lemma last_number_append [simp]: "last_number c (os @ os') = last_number (last_number c os) os'"
  by (induction c os rule: enc.induct) simp_all

text \<open>Numbers do not decrease, and are known; values fit the length field.\<close>

fun options_ok :: "nat \<Rightarrow> (nat \<times> bytes) list \<Rightarrow> bool" where
  "options_ok current [] \<longleftrightarrow> True"
| "options_ok current ((n, v) # os) \<longleftrightarrow> current \<le> n \<and> n < 40 \<and> length v < 65805 \<and> options_ok n os"

lemma parse_option_step:
  assumes "current \<le> n" "n < 40" "length v < 65805"
  shows "parse_options mem p current (coap_set_option_header (n - current) (length v) @ v @ rest) =
    (case apply_option mem n v (set_known n p) of
       Inl r \<Rightarrow> Some r | Inr p \<Rightarrow> parse_options mem p n rest)"
proof -
  have d: "n - current < 65805" "current + (n - current) = n" using assms(1,2) by simp_all
  have "option_ext (n - current) @ option_ext (length v) @ v @ rest = option_ext (n - current) @ (option_ext (length v) @ v @ rest)"
    by simp
  then show ?thesis
    unfolding coap_set_option_header_def append_Cons append_assoc parse_options.simps header_byte
      read_ext_option [OF d(1)] option.case prod.case read_ext_option [OF assms(3)] Let_def d(2)
    using assms(2) header_byte(1) by (simp split: sum.split)
qed

fun apply_all :: "allocator \<Rightarrow> (nat \<times> bytes) list \<Rightarrow> coap_packet \<Rightarrow> (u8 \<times> coap_packet) + coap_packet" where
  "apply_all mem [] p = Inr p"
| "apply_all mem ((n, v) # os) p =
     (case apply_option mem n v (set_known n p) of Inl r \<Rightarrow> Inl r | Inr p \<Rightarrow> apply_all mem os p)"

lemma parse_enc:
  "options_ok current os \<Longrightarrow>
   parse_options mem p current (enc current os @ rest) =
     (case apply_all mem os p of Inl r \<Rightarrow> Some r | Inr p \<Rightarrow> parse_options mem p (last_number current os) rest)"
proof (induction current os arbitrary: p rule: enc.induct)
  case (2 current n v os)
  then show ?case
    using parse_option_step [of current n v mem p "enc n os @ rest"] by (simp split: sum.splits)
qed simp

lemma apply_all_append:
  "apply_all mem (os @ os') p = (case apply_all mem os p of Inl r \<Rightarrow> Inl r | Inr p \<Rightarrow> apply_all mem os' p)"
  by (induction mem os p rule: apply_all.induct) (simp_all split: sum.splits)

section \<open>Integers are read back\<close>

lemma parse_int_be: "coap_parse_int_option bs = of_nat (be_val bs)"
proof -
  have step: "push_bit 8 x OR ucast b = of_nat 256 * x + of_nat (unat b)" for x :: u32 and b :: u8
  proof -
    have "push_bit 8 x AND ucast b = 0"
      by (rule bit_word_eqI) (auto simp: bit_simps)
    then have "push_bit 8 x OR ucast b = push_bit 8 x + ucast b" by (rule or_eq_add)
    then show ?thesis by (simp add: push_bit_eq_mult)
  qed
  have "foldl (\<lambda>var b. push_bit 8 var OR ucast b) (of_nat v) bs = (of_nat (foldl (\<lambda>v b. 256 * v + unat b) v bs) :: u32)" for v
  proof (induction bs arbitrary: v)
    case (Cons a bs)
    have "push_bit 8 (of_nat v) OR ucast a = (of_nat (256 * v + unat a) :: u32)" unfolding step by simp
    then show ?case by (simp only: foldl_Cons Cons)
  qed simp
  from this [of 0] show ?thesis by (simp add: coap_parse_int_option_def be_val_def)
qed

lemma high_bits: "(NOT (mask n) AND v \<noteq> 0) \<longleftrightarrow> 2 ^ n \<le> unat (v :: u32)" if "n < 32"
proof -
  have "v = (v AND mask n) + (NOT (mask n) AND v)"
    by (subst disjunctive_add_eq_or) (auto intro!: bit_word_eqI simp: bit_simps)
  then have "(NOT (mask n) AND v = 0) \<longleftrightarrow> v AND mask n = v"
    by (metis add.right_neutral add_left_cancel)
  also have "\<dots> \<longleftrightarrow> unat v mod 2 ^ n = unat v"
    by (simp add: word_unat_eq_iff unat_and_mask)
  also have "\<dots> \<longleftrightarrow> unat v < 2 ^ n"
    by (metis mod_less mod_less_divisor zero_less_numeral zero_less_power)
  finally show ?thesis by (simp add: not_less)
qed

lemma int_bytes_value:
  "int_bytes v =
     (if 2 ^ 24 \<le> unat v then [ucast (drop_bit 24 v)] else []) @
     (if 2 ^ 16 \<le> unat v then [ucast (drop_bit 16 v)] else []) @
     (if 2 ^ 8 \<le> unat v then [ucast (drop_bit 8 v)] else []) @
     (if 0 < unat v then [ucast v] else [])"
proof -
  have m: "(0xFF000000 :: u32) = NOT (mask 24)" "(0xFFFF0000 :: u32) = NOT (mask 16)"
    "(0xFFFFFF00 :: u32) = NOT (mask 8)" "(0xFFFFFFFF :: u32) = NOT (mask 0)"
    by (simp_all add: mask_numeral)
  show ?thesis
    unfolding int_bytes_def m using high_bits [of 24 v] high_bits [of 16 v] high_bits [of 8 v] high_bits [of 0 v]
    by simp
qed

lemma unat_byte_at: "unat (ucast (drop_bit k (v :: u32)) :: u8) = unat v div 2 ^ k mod 256"
proof -
  have "unat (ucast (drop_bit k v) :: u8) = take_bit LENGTH(8) (unat (drop_bit k v))" by (rule unsigned_ucast_eq)
  then show ?thesis by (simp add: take_bit_eq_mod unat_shr)
qed

lemma four_bytes:
  "n div 16777216 * 16777216 + (n div 65536 mod 256 * 65536 + (n div 256 mod 256 * 256 + n mod 256)) = (n :: nat)"
proof -
  let ?a = "n div 256" and ?b = "n div 65536" and ?c = "n div 16777216"
  have "?b = ?a div 256" "?c = ?b div 256" by (simp_all flip: div_mult2_eq)
  then have "?a = ?b * 256 + ?a mod 256" "?b = ?c * 256 + ?b mod 256" by simp_all
  moreover have "n = ?a * 256 + n mod 256" by simp
  moreover have "c * 16777216 + (f * 65536 + (e * 256 + r)) = m"
    if "a = b * 256 + e" "b = c * 256 + f" "m = a * 256 + r" for a b c e f r m :: nat
    using that by simp
  ultimately show ?thesis by blast
qed

lemma int_bytes_be: "be_val (int_bytes v) = unat v" and length_int_bytes:
  "length (int_bytes v) = (if unat v = 0 then 0 else if unat v < 2 ^ 8 then 1 else if unat v < 2 ^ 16 then 2
     else if unat v < 2 ^ 24 then 3 else 4)"
proof -
  have b0: "unat (ucast v :: u8) = unat v mod 256" using unat_byte_at [of 0 v] by simp
  show "length (int_bytes v) = (if unat v = 0 then 0 else if unat v < 2 ^ 8 then 1 else if unat v < 2 ^ 16 then 2
     else if unat v < 2 ^ 24 then 3 else 4)"
    unfolding int_bytes_value by auto
  have v32: "unat v < 2 ^ 32" using unsigned_less [of v, where 'a = nat] by simp
  consider (z) "unat v = 0" | (a) "0 < unat v" "unat v < 2 ^ 8" | (b) "2 ^ 8 \<le> unat v" "unat v < 2 ^ 16"
    | (c) "2 ^ 16 \<le> unat v" "unat v < 2 ^ 24" | (d) "2 ^ 24 \<le> unat v" by linarith
  then show "be_val (int_bytes v) = unat v"
  proof cases
    case d
    then show ?thesis
      unfolding int_bytes_value using v32 four_bytes [of "unat v"] by (simp add: be_val_Cons unat_byte_at b0)
  next
    case c
    then show ?thesis
      unfolding int_bytes_value using four_bytes [of "unat v"] by (simp add: be_val_Cons unat_byte_at b0)
  qed (unfold int_bytes_value, simp_all add: be_val_Cons unat_byte_at b0)
qed

lemma parse_int_bytes [simp]: "coap_parse_int_option (int_bytes v) = v"
  by (simp add: parse_int_be int_bytes_be)

lemma serialize_int_option_enc: "coap_serialize_int_option n c v = enc c [(n, int_bytes v)]"
  unfolding coap_serialize_int_option_def Let_def by (simp add: int_bytes_def)

section \<open>The serializer writes an option list\<close>

lemma ser_multi_enc: "coap_serialize_multi_option n c vs = enc c (map (Pair n) vs)"
  by (induction n c vs rule: coap_serialize_multi_option.induct) simp_all

lemma split_no_separator:
  "sep \<notin> set array \<Longrightarrow> array_split_loop sep d part array = coap_set_option_header d (length (part @ array)) @ part @ array"
  by (induction array arbitrary: part) auto

lemma ser_array_enc:
  "splitter = 0 \<or> splitter \<notin> set array \<Longrightarrow> coap_serialize_array_option n c array splitter = enc c [(n, array)]"
  by (auto simp: coap_serialize_array_option_def split_no_separator)

text \<open>The options a packet stands for, in the order of their numbers.\<close>

definition opt :: "coap_packet \<Rightarrow> nat \<Rightarrow> bytes list \<Rightarrow> (nat \<times> bytes) list" where
  "opt p n vs = (if IS_OPTION n p then map (Pair n) vs else [])"

definition packet_options :: "coap_packet \<Rightarrow> (nat \<times> bytes) list" where
  "packet_options p =
     opt p 1 [p_if_match p] @ opt p 3 [p_uri_host p] @ opt p 4 [p_etag p] @ opt p 5 [[]] @
     opt p 6 [int_bytes (p_observe p)] @ opt p 7 [int_bytes (ucast (p_uri_port p))] @
     opt p 8 (p_location_path p) @ opt p 11 (p_uri_path p) @ opt p 12 [int_bytes (p_content_type p)] @
     opt p 14 [int_bytes (p_max_age p)] @ opt p 15 (p_uri_query p) @
     opt p 17 (map (\<lambda>a. int_bytes (ucast a)) (p_accept p)) @ opt p 20 [p_location_query p] @
     opt p 23 [int_bytes (block_value (p_block2_num p) (p_block2_more p) (p_block2_size p))] @
     opt p 27 [int_bytes (block_value (p_block1_num p) (p_block1_more p) (p_block1_size p))] @
     opt p 28 [int_bytes (p_size p)] @ opt p 35 [p_proxy_uri p]"

text \<open>A macro that finds \<open>os\<close> written leaves \<open>os @ os'\<close> written.\<close>

definition written :: "(nat \<times> bytes) list \<Rightarrow> ser_state \<Rightarrow> bool" where
  "written os s \<longleftrightarrow> s = (enc 0 os, last_number 0 os)"

lemma written_start: "written [] ([], 0)"
  by (simp add: written_def)

lemma written_int: "written os s \<Longrightarrow> written (os @ opt p n [int_bytes v]) (ser_int p n v s)"
  by (simp add: written_def ser_int_def opt_def serialize_int_option_enc enc_append)

lemma written_array:
  "written os s \<Longrightarrow> splitter = 0 \<or> splitter \<notin> set array \<Longrightarrow> written (os @ opt p n [array]) (ser_array p n array splitter s)"
  by (simp add: written_def ser_array_def opt_def ser_array_enc enc_append)

lemma written_first: "written (opt p n [array]) (ser_array p n array 0 ([], 0))"
  using written_array [OF written_start, of 0 array p n] by simp

lemma written_zero: "written os s \<Longrightarrow> written (os @ opt p n [[]]) (ser_int p n (v - v) s)"
  using written_int [of os s p n 0] by (simp add: int_bytes_def)

lemma last_number_map: "last_number c (map (Pair n) vs) = (if vs = [] then c else n)"
  by (induction vs arbitrary: c) simp_all

lemma written_multi:
  "written os s \<Longrightarrow> IS_OPTION n p \<longrightarrow> vs \<noteq> [] \<Longrightarrow> written (os @ opt p n vs) (ser_multi p n vs s)"
  by (simp add: written_def ser_multi_def opt_def ser_multi_enc enc_append last_number_map)

lemma written_accept_options:
  "written os s \<Longrightarrow> written (os @ map (\<lambda>a. (n, int_bytes (ucast a))) as) (accept_options n as s)"
proof (induction n as s arbitrary: os rule: accept_options.induct)
  case (2 n a as s)
  have "written (os @ [(n, int_bytes (ucast a))]) (fst s @ coap_serialize_int_option n (snd s) (ucast a), n)"
    using 2(2) by (simp add: written_def serialize_int_option_enc enc_append)
  from 2(1) [OF this] show ?case by simp
qed simp

lemma written_accept: "written os s \<Longrightarrow> written (os @ opt p n (map (\<lambda>a. int_bytes (ucast a)) as)) (ser_accept p n as s)"
  using written_accept_options [of os s n as] by (simp add: ser_accept_def opt_def comp_def)

lemma written_block:
  "written os s \<Longrightarrow> written (os @ opt p n [int_bytes (block_value num m sz)]) (ser_block p n num m sz s)"
  by (simp add: written_def ser_block_def opt_def serialize_int_option_enc enc_append)

lemma serialize_options_enc:
  assumes "IS_OPTION 8 p \<longrightarrow> p_location_path p \<noteq> []" "IS_OPTION 11 p \<longrightarrow> p_uri_path p \<noteq> []"
    "IS_OPTION 15 p \<longrightarrow> p_uri_query p \<noteq> []" "ch_ampersand \<notin> set (p_location_query p)"
  shows "serialize_options p = enc 0 (packet_options p)"
proof -
  have "written (packet_options p)
      (ser_array p 35 (p_proxy_uri p) 0 (ser_int p 28 (p_size p)
        (ser_block p 27 (p_block1_num p) (p_block1_more p) (p_block1_size p)
        (ser_block p 23 (p_block2_num p) (p_block2_more p) (p_block2_size p)
        (ser_array p 20 (p_location_query p) ch_ampersand (ser_accept p 17 (p_accept p)
        (ser_multi p 15 (p_uri_query p) (ser_int p 14 (p_max_age p) (ser_int p 12 (p_content_type p)
        (ser_multi p 11 (p_uri_path p) (ser_multi p 8 (p_location_path p) (ser_int p 7 (ucast (p_uri_port p))
        (ser_int p 6 (p_observe p) (ser_int p 5 (p_content_type p - p_content_type p) (ser_array p 4 (p_etag p) 0
        (ser_array p 3 (p_uri_host p) 0 (ser_array p 1 (p_if_match p) 0 ([], 0))))))))))))))))))"
    unfolding packet_options_def append_assoc [symmetric]
    by (intro written_first written_array written_zero written_int written_multi written_accept written_block)
      (use assms in simp_all)
  then show ?thesis by (simp add: serialize_options_def Let_def written_def)
qed

section \<open>Block options are read back\<close>

definition block_size_ok :: "u16 \<Rightarrow> bool" where
  "block_size_ok sz \<longleftrightarrow> sz \<in> set [16, 32, 64, 128, 256, 512, 1024, 2048]"

lemma bit_8: "bit (8 :: int) k \<longleftrightarrow> k = 3"
proof -
  have "(8 :: int) = 2 ^ 3" by simp
  then show ?thesis by (auto simp only: bit_exp_iff) simp
qed

lemma low_nibble_bits:
  assumes "take_bit 4 c = (c :: u32)" and "take_bit 28 num = (num :: u32)"
  shows "drop_bit 4 (push_bit 4 num OR c) = num"
    and "(push_bit 4 num OR c) AND 0x08 = c AND 0x08"
    and "(push_bit 4 num OR c) AND 0x07 = c AND 0x07"
    and "(push_bit 4 num OR c) AND NOT 0x0F = push_bit 4 num"
proof -
  have c: "bit c n \<Longrightarrow> n < 4" for n
    using assms(1) by (metis bit_take_bit_iff)
  have m: "(0x0F :: u32) = mask 4" "(0x07 :: u32) = mask 3" by (simp_all add: mask_numeral)
  have n: "bit num k \<Longrightarrow> k < 28" for k using assms(2) by (metis bit_take_bit_iff)
  show "drop_bit 4 (push_bit 4 num OR c) = num"
    by (rule bit_word_eqI) (auto simp: bit_simps dest: c n)
  show "(push_bit 4 num OR c) AND 0x08 = c AND 0x08"
    by (rule bit_word_eqI) (auto simp: bit_simps bit_8)
  show "(push_bit 4 num OR c) AND 0x07 = c AND 0x07"
    unfolding m by (rule bit_word_eqI) (auto simp: bit_simps)
  show "(push_bit 4 num OR c) AND NOT 0x0F = push_bit 4 num"
    unfolding m by (rule bit_word_eqI) (auto simp: bit_simps dest: c)
qed

lemma coap_log_2_sizes:
  "block_size_ok sz \<Longrightarrow>
     push_bit (unat ((0xF AND ucast (coap_log_2 (sz div 16))) AND 0x07 :: u32)) 16 = sz \<and>
     push_bit (unat ((0xF AND ucast (coap_log_2 (sz div 16))) AND 0x07 :: u32)) (push_bit 4 (num :: u32)) = num * ucast sz \<and>
     (0xF AND ucast (coap_log_2 (sz div 16))) AND 0x08 = (0 :: u32)"
proof -
  have l: "coap_log_2 1 = 0" "coap_log_2 2 = 1" "coap_log_2 4 = 2" "coap_log_2 8 = 3" "coap_log_2 16 = 4"
    "coap_log_2 32 = 5" "coap_log_2 64 = 6" "coap_log_2 128 = 7"
    by code_simp+
  assume "block_size_ok sz"
  then show ?thesis by (auto simp: block_size_ok_def l push_bit_eq_mult)
qed

lemma parse_block_value:
  assumes "num \<le> 0xFFFFF" and "block_size_ok sz"
  shows "parse_block (int_bytes (block_value num m sz)) = (num, if m \<noteq> 0 then 1 else 0, sz, num * ucast sz)"
proof -
  let ?k = "0xF AND ucast (coap_log_2 (sz div 16)) :: u32"
  define c where "c = (if m \<noteq> 0 then 0x8 OR ?k else ?k)"
  have v: "block_value num m sz = push_bit 4 num OR c"
    by (simp add: block_value_def c_def Let_def or.assoc)
  have n: "take_bit 28 num = num"
    using assms(1) unat_and_mask [of num 28] unfolding take_bit_eq_mask
    by (intro word_unat_eq_iff [THEN iffD2]) (simp add: word_le_nat_alt)
  have m4: "(0xF :: u32) = mask 4" by (simp add: mask_numeral)
  have c4: "take_bit 4 c = c"
    unfolding c_def take_bit_eq_mask m4 by (auto intro!: bit_word_eqI simp: bit_simps bit_8)
  note b = low_nibble_bits [OF c4 n]
  have c7: "c AND 0x07 = ?k AND 0x07" unfolding c_def by (auto simp: and.assoc bit.conj_disj_distrib2)
  have "c AND 0x08 = (if m \<noteq> 0 then 0x08 else 0)"
    using coap_log_2_sizes [OF assms(2), of num] unfolding c_def by (auto simp: bit.conj_disj_distrib2)
  then have c8: "drop_bit 3 (c AND 0x08) = (if m \<noteq> 0 then 1 else 0)" by (simp only:) simp
  show ?thesis
    unfolding parse_block_def Let_def parse_int_bytes v b c7 c8
    using coap_log_2_sizes [OF assms(2), of num] by auto
qed

section \<open>Packets are read back\<close>

text \<open>
  The packets that the format can carry: known options only, set exactly where a field holds
  something; values within the lengths the parser keeps; no proxy URI, which the parser refuses; and
  no ampersand in the location query, where the serializer splits.
\<close>

definition foreign_options :: "nat list" where
  "foreign_options = [0, 2, 9, 10, 13, 16, 18, 21, 22, 24, 25, 26, 29, 30, 31, 32, 33, 34, 35, 36, 37, 38, 39]"

definition carried_options :: "nat list" where
  "carried_options = [1, 3, 4, 5, 6, 7, 8, 11, 12, 14, 15, 17, 19, 20, 23, 27, 28]"

lemma options_partition: "k < 40 \<Longrightarrow> k \<in> set carried_options \<or> k \<in> set foreign_options"
proof -
  have "list_all (\<lambda>k. k \<in> set carried_options \<or> k \<in> set foreign_options) [0..<40]" by code_simp
  then show "k < 40 \<Longrightarrow> k \<in> set carried_options \<or> k \<in> set foreign_options" by (simp add: list_all_iff)
qed

definition unset_or :: "coap_packet \<Rightarrow> nat \<Rightarrow> bool \<Rightarrow> bool" where
  "unset_or p n unset \<longleftrightarrow> IS_OPTION n p \<or> unset"

definition block_ok :: "coap_packet \<Rightarrow> nat \<Rightarrow> u32 \<Rightarrow> u8 \<Rightarrow> u16 \<Rightarrow> u32 \<Rightarrow> bool" where
  "block_ok p n num m sz offset \<longleftrightarrow>
     (if IS_OPTION n p then num \<le> 0xFFFFF \<and> block_size_ok sz
      else num = 0 \<and> m = 0 \<and> sz = 0 \<and> offset = 0)"

definition multi_ok :: "coap_packet \<Rightarrow> nat \<Rightarrow> bytes list \<Rightarrow> bool" where
  "multi_ok p n vs \<longleftrightarrow> (IS_OPTION n p \<longleftrightarrow> vs \<noteq> []) \<and> list_all (\<lambda>v. length v < 256) vs"

definition packet_ok :: "coap_packet \<Rightarrow> bool" where
  "packet_ok p \<longleftrightarrow>
     list_all (\<lambda>k. \<not> IS_OPTION k p) foreign_options \<and>
     p_type p < 4 \<and> length (p_token p) \<le> 8 \<and> (IS_OPTION 19 p \<longleftrightarrow> p_token p \<noteq> []) \<and>
     unset_or p 1 (p_if_match p = []) \<and> length (p_if_match p) \<le> 8 \<and>
     unset_or p 3 (p_uri_host p = []) \<and> length (p_uri_host p) < 65536 \<and>
     unset_or p 4 (p_etag p = []) \<and> length (p_etag p) \<le> 8 \<and>
     unset_or p 6 (p_observe p = 0) \<and> unset_or p 7 (p_uri_port p = 0) \<and>
     multi_ok p 8 (p_location_path p) \<and> multi_ok p 11 (p_uri_path p) \<and> multi_ok p 15 (p_uri_query p) \<and>
     unset_or p 12 (p_content_type p = 0) \<and> unset_or p 14 (p_max_age p = 0) \<and>
     (IS_OPTION 17 p \<longleftrightarrow> p_accept p \<noteq> []) \<and> length (p_accept p) \<le> 2 \<and>
     unset_or p 20 (p_location_query p = []) \<and> length (p_location_query p) < 65536 \<and>
     ch_ampersand \<notin> set (p_location_query p) \<and>
     block_ok p 23 (p_block2_num p) (p_block2_more p) (p_block2_size p) (p_block2_offset p) \<and>
     block_ok p 27 (p_block1_num p) (p_block1_more p) (p_block1_size p) (p_block1_offset p) \<and>
     unset_or p 28 (p_size p = 0) \<and> p_proxy_uri p = [] \<and> p_payload p \<noteq> Some []"

text \<open>
  What the parser makes of a packet: the version of the message, the flag of If-None-Match, the byte
  offset of a block, and 1 for any value of the flag that more blocks follow.
\<close>

definition parsed_view :: "coap_packet \<Rightarrow> coap_packet" where
  "parsed_view p = p\<lparr>p_version := 1, p_if_none_match := if IS_OPTION 5 p then 1 else 0,
     p_block2_more := if p_block2_more p \<noteq> 0 then 1 else 0,
     p_block2_offset := p_block2_num p * ucast (p_block2_size p),
     p_block1_more := if p_block1_more p \<noteq> 0 then 1 else 0,
     p_block1_offset := p_block1_num p * ucast (p_block1_size p)\<rparr>"

text \<open>One segment of options at a time, as one conditional update of the fields it touches.\<close>

definition bits_of :: "coap_packet \<Rightarrow> nat \<Rightarrow> 40 word \<Rightarrow> 40 word" where
  "bits_of p n w = (if IS_OPTION n p then w OR push_bit n 1 else w)"

lemma bit_bits_of [simp]: "n < 40 \<Longrightarrow> bit (bits_of p n w) k \<longleftrightarrow> bit w k \<or> (k = n \<and> IS_OPTION k p)"
  by (auto simp: bits_of_def bit_or_iff bit_exp_iff)

abbreviation (input) given :: "coap_packet \<Rightarrow> nat \<Rightarrow> 'a \<Rightarrow> 'a \<Rightarrow> 'a" where
  "given p n v old \<equiv> if IS_OPTION n p then v else old"

lemma apply_opt_bytes:
  "apply_all mem (opt p 1 [v]) q = Inr (q\<lparr>p_options := bits_of p 1 (p_options q), p_if_match := given p 1 (take 8 v) (p_if_match q)\<rparr>)"
  "apply_all mem (opt p 3 [v]) q = Inr (q\<lparr>p_options := bits_of p 3 (p_options q), p_uri_host := given p 3 v (p_uri_host q)\<rparr>)"
  "apply_all mem (opt p 4 [v]) q = Inr (q\<lparr>p_options := bits_of p 4 (p_options q), p_etag := given p 4 (take 8 v) (p_etag q)\<rparr>)"
  "apply_all mem (opt p 5 [v]) q = Inr (q\<lparr>p_options := bits_of p 5 (p_options q), p_if_none_match := given p 5 1 (p_if_none_match q)\<rparr>)"
  "apply_all mem (opt p 20 [v]) q = Inr (q\<lparr>p_options := bits_of p 20 (p_options q),
     p_location_query := given p 20 (coap_merge_multi_option (p_location_query q) v ch_ampersand) (p_location_query q)\<rparr>)"
  by (simp_all add: opt_def apply_option_def set_known_def bits_of_def)

lemma apply_opt_ints:
  "apply_all mem (opt p 6 [int_bytes v]) q = Inr (q\<lparr>p_options := bits_of p 6 (p_options q), p_observe := given p 6 v (p_observe q)\<rparr>)"
  "apply_all mem (opt p 7 [int_bytes (ucast w)]) q = Inr (q\<lparr>p_options := bits_of p 7 (p_options q), p_uri_port := given p 7 w (p_uri_port q)\<rparr>)"
  "apply_all mem (opt p 12 [int_bytes v]) q = Inr (q\<lparr>p_options := bits_of p 12 (p_options q), p_content_type := given p 12 v (p_content_type q)\<rparr>)"
  "apply_all mem (opt p 14 [int_bytes v]) q = Inr (q\<lparr>p_options := bits_of p 14 (p_options q), p_max_age := given p 14 v (p_max_age q)\<rparr>)"
  "apply_all mem (opt p 28 [int_bytes v]) q = Inr (q\<lparr>p_options := bits_of p 28 (p_options q), p_size := given p 28 v (p_size q)\<rparr>)"
  by (simp_all add: opt_def apply_option_def set_known_def bits_of_def)

lemma apply_multi:
  assumes "mem 24"
  shows "list_all (\<lambda>v. length v < 256) vs \<Longrightarrow> vs \<noteq> [] \<Longrightarrow> apply_all mem (map (Pair 8) vs) q =
      Inr (q\<lparr>p_options := p_options q OR push_bit 8 1, p_location_path := p_location_path q @ vs\<rparr>)"
    and "list_all (\<lambda>v. length v < 256) vs \<Longrightarrow> vs \<noteq> [] \<Longrightarrow> apply_all mem (map (Pair 11) vs) q =
      Inr (q\<lparr>p_options := p_options q OR push_bit 11 1, p_uri_path := p_uri_path q @ vs\<rparr>)"
    and "list_all (\<lambda>v. length v < 256) vs \<Longrightarrow> vs \<noteq> [] \<Longrightarrow> apply_all mem (map (Pair 15) vs) q =
      Inr (q\<lparr>p_options := p_options q OR push_bit 15 1, p_uri_query := p_uri_query q @ vs\<rparr>)"
proof (induction vs arbitrary: q)
  case (Cons v vs)
  {
    case 1
    then show ?case using Cons(1) assms
      by (cases "vs = []") (simp_all add: apply_option_def set_known_def coap_add_multi_option_def or.assoc)
  next
    case 2
    then show ?case using Cons(2) assms
      by (cases "vs = []") (simp_all add: apply_option_def set_known_def coap_add_multi_option_def or.assoc)
  next
    case 3
    then show ?case using Cons(3) assms
      by (cases "vs = []") (simp_all add: apply_option_def set_known_def coap_add_multi_option_def or.assoc)
  }
qed simp_all

lemma apply_opt_multi:
  assumes "mem 24"
  shows "multi_ok p 8 vs \<Longrightarrow> apply_all mem (opt p 8 vs) q =
      Inr (q\<lparr>p_options := bits_of p 8 (p_options q), p_location_path := p_location_path q @ vs\<rparr>)"
    and "multi_ok p 11 vs \<Longrightarrow> apply_all mem (opt p 11 vs) q =
      Inr (q\<lparr>p_options := bits_of p 11 (p_options q), p_uri_path := p_uri_path q @ vs\<rparr>)"
    and "multi_ok p 15 vs \<Longrightarrow> apply_all mem (opt p 15 vs) q =
      Inr (q\<lparr>p_options := bits_of p 15 (p_options q), p_uri_query := p_uri_query q @ vs\<rparr>)"
  using apply_multi [of mem vs q, OF assms] by (auto simp: multi_ok_def opt_def bits_of_def)

lemma apply_opt_accept:
  assumes "IS_OPTION 17 p \<longleftrightarrow> as \<noteq> []" and "length as \<le> 2" and "p_accept q = []"
  shows "apply_all mem (opt p 17 (map (\<lambda>a. int_bytes (ucast a)) as)) q =
    Inr (q\<lparr>p_options := bits_of p 17 (p_options q), p_accept := as\<rparr>)"
proof -
  consider "as = []" | a where "as = [a]" | a b where "as = [a, b]"
    using assms(2) by (cases as; cases "tl as"; cases "tl (tl as)") auto
  then show ?thesis
    using assms(1,3) by cases (auto simp: opt_def apply_option_def set_known_def bits_of_def or.assoc)
qed

lemma apply_opt_blocks:
  "IS_OPTION 23 p \<longrightarrow> num \<le> 0xFFFFF \<and> block_size_ok sz \<Longrightarrow>
   apply_all mem (opt p 23 [int_bytes (block_value num m sz)]) q = Inr (q\<lparr>p_options := bits_of p 23 (p_options q),
     p_block2_num := given p 23 num (p_block2_num q), p_block2_more := given p 23 (if m \<noteq> 0 then 1 else 0) (p_block2_more q),
     p_block2_size := given p 23 sz (p_block2_size q), p_block2_offset := given p 23 (num * ucast sz) (p_block2_offset q)\<rparr>)"
  "IS_OPTION 27 p \<longrightarrow> num \<le> 0xFFFFF \<and> block_size_ok sz \<Longrightarrow>
   apply_all mem (opt p 27 [int_bytes (block_value num m sz)]) q = Inr (q\<lparr>p_options := bits_of p 27 (p_options q),
     p_block1_num := given p 27 num (p_block1_num q), p_block1_more := given p 27 (if m \<noteq> 0 then 1 else 0) (p_block1_more q),
     p_block1_size := given p 27 sz (p_block1_size q), p_block1_offset := given p 27 (num * ucast sz) (p_block1_offset q)\<rparr>)"
  by (simp_all add: opt_def apply_option_def set_known_def bits_of_def parse_block_value)

lemma apply_opt_none: "\<not> IS_OPTION n p \<Longrightarrow> apply_all mem (opt p n vs) q = Inr q"
  by (simp add: opt_def)

text \<open>What the parser starts from: the fixed header and the token.\<close>

definition header_packet :: "coap_packet \<Rightarrow> coap_packet" where
  "header_packet p = zero_packet\<lparr>p_version := 1, p_type := p_type p, p_code := p_code p, p_mid := p_mid p,
     p_token := p_token p, p_options := bits_of p 19 0\<rparr>"

lemma bitmap_back:
  assumes "list_all (\<lambda>k. \<not> IS_OPTION k p) foreign_options"
  shows "bits_of p 28 (bits_of p 27 (bits_of p 23 (bits_of p 20 (bits_of p 17 (bits_of p 15 (bits_of p 14
      (bits_of p 12 (bits_of p 11 (bits_of p 8 (bits_of p 7 (bits_of p 6 (bits_of p 5 (bits_of p 4
      (bits_of p 3 (bits_of p 1 (bits_of p 19 0)))))))))))))))) = p_options p" (is "?w = _")
proof (rule bit_word_eqI)
  fix k
  assume "k < LENGTH(40)"
  then have c: "IS_OPTION k p \<Longrightarrow> k \<in> set carried_options"
    using assms options_partition [of k] by (auto simp: list_all_iff)
  show "bit ?w k = bit (p_options p) k"
  proof (cases "IS_OPTION k p")
    case True
    then show ?thesis using c [OF True]
      by (simp add: carried_options_def) (simp add: IS_OPTION_def disj_ac)
  next
    case False
    then show ?thesis by simp (simp add: IS_OPTION_def)
  qed
qed

lemma apply_step:
  "apply_all mem a q = Inr q' \<Longrightarrow> apply_all mem b q' = r \<Longrightarrow> apply_all mem (a @ b) q = r"
  by (simp add: apply_all_append)

lemma apply_packet_options:
  assumes ok: "packet_ok p" and mem: "mem 24"
  shows "apply_all mem (packet_options p) (header_packet p) = Inr ((parsed_view p)\<lparr>p_payload := None\<rparr>)"
proof -
  have none: "opt p 35 [p_proxy_uri p] = []"
    using ok by (simp add: packet_ok_def foreign_options_def opt_def)
  have multi: "multi_ok p 8 (p_location_path p)" "multi_ok p 11 (p_uri_path p)" "multi_ok p 15 (p_uri_query p)"
    using ok by (simp_all add: packet_ok_def)
  have acc: "IS_OPTION 17 p \<longleftrightarrow> p_accept p \<noteq> []" "length (p_accept p) \<le> 2"
    using ok unfolding packet_ok_def by blast+
  have blk: "IS_OPTION 23 p \<longrightarrow> p_block2_num p \<le> 0xFFFFF \<and> block_size_ok (p_block2_size p)"
    "IS_OPTION 27 p \<longrightarrow> p_block1_num p \<le> 0xFFFFF \<and> block_size_ok (p_block1_size p)"
    using ok by (auto simp: packet_ok_def block_ok_def)
  have "p_options p = bits_of p 28 (bits_of p 27 (bits_of p 23 (bits_of p 20 (bits_of p 17 (bits_of p 15 (bits_of p 14
      (bits_of p 12 (bits_of p 11 (bits_of p 8 (bits_of p 7 (bits_of p 6 (bits_of p 5 (bits_of p 4
      (bits_of p 3 (bits_of p 1 (bits_of p 19 0))))))))))))))))"
    using ok bitmap_back [of p] by (simp add: packet_ok_def)
  note bits = this [symmetric]
  have len: "length (p_if_match p) \<le> 8" "length (p_etag p) \<le> 8" using ok by (simp_all add: packet_ok_def)
  have d: "unset_or p 1 (p_if_match p = [])" "unset_or p 3 (p_uri_host p = [])" "unset_or p 4 (p_etag p = [])"
    "unset_or p 6 (p_observe p = 0)" "unset_or p 7 (p_uri_port p = 0)" "unset_or p 12 (p_content_type p = 0)"
    "unset_or p 14 (p_max_age p = 0)" "unset_or p 20 (p_location_query p = [])" "unset_or p 28 (p_size p = 0)"
    using ok by (simp_all add: packet_ok_def)
  have b: "block_ok p 23 (p_block2_num p) (p_block2_more p) (p_block2_size p) (p_block2_offset p)"
    "block_ok p 27 (p_block1_num p) (p_block1_more p) (p_block1_size p) (p_block1_offset p)"
    "p_proxy_uri p = []"
    using ok by (simp_all add: packet_ok_def)
  have fields: "given p 1 (take 8 (p_if_match p)) [] = p_if_match p" "given p 3 (p_uri_host p) [] = p_uri_host p"
    "given p 4 (take 8 (p_etag p)) [] = p_etag p" "given p 6 (p_observe p) 0 = p_observe p"
    "given p 7 (p_uri_port p) 0 = p_uri_port p" "given p 12 (p_content_type p) 0 = p_content_type p"
    "given p 14 (p_max_age p) 0 = p_max_age p" "given p 20 (p_location_query p) [] = p_location_query p"
    "given p 28 (p_size p) 0 = p_size p"
    using d len by (auto simp: unset_or_def)
  have blocks: "given p 23 (p_block2_num p) 0 = p_block2_num p" "given p 27 (p_block1_num p) 0 = p_block1_num p"
    "given p 23 (if p_block2_more p \<noteq> 0 then 1 else 0) 0 = (if p_block2_more p \<noteq> 0 then 1 else (0 :: u8))"
    "given p 27 (if p_block1_more p \<noteq> 0 then 1 else 0) 0 = (if p_block1_more p \<noteq> 0 then 1 else (0 :: u8))"
    "given p 23 (p_block2_size p) 0 = p_block2_size p" "given p 27 (p_block1_size p) 0 = p_block1_size p"
    "given p 23 (p_block2_num p * ucast (p_block2_size p)) 0 = p_block2_num p * ucast (p_block2_size p)"
    "given p 27 (p_block1_num p * ucast (p_block1_size p)) 0 = p_block1_num p * ucast (p_block1_size p)"
    using b by (auto simp: block_ok_def)
  have first: "coap_merge_multi_option [] v sep = v" for v sep by (simp add: coap_merge_multi_option_def)
  note steps = apply_opt_bytes apply_opt_ints
    apply_opt_accept [OF acc] apply_opt_blocks(1) [OF blk(1)] apply_opt_blocks(2) [OF blk(2)]
    apply_opt_multi(1) [where mem = mem, OF mem multi(1)] apply_opt_multi(2) [where mem = mem, OF mem multi(2)]
    apply_opt_multi(3) [where mem = mem, OF mem multi(3)]
  show ?thesis
    unfolding packet_options_def none
    unfolding header_packet_def zero_packet_def coap_packet.simps
    apply ((rule apply_step, rule steps, (simp only: coap_packet.simps fields blocks first append_Nil)+)+)
    by (simp only: coap_packet.simps bits apply_all.simps(1)) (simp add: parsed_view_def b split del: if_split)
qed

lemma options_ok_append:
  "options_ok c os \<Longrightarrow> options_ok (last_number c os) os' \<Longrightarrow> options_ok c (os @ os')"
  by (induction c os rule: enc.induct) simp_all

text \<open>A list of options whose numbers are all at least \<open>n\<close>.\<close>

definition from_number :: "nat \<Rightarrow> (nat \<times> bytes) list \<Rightarrow> bool" where
  "from_number n os \<longleftrightarrow> (\<forall>c \<le> n. options_ok c os)"


lemma from_number_opt:
  assumes "from_number m os" "n \<le> m" "n < 40" "\<forall>v\<in>set vs. length v < 65805"
  shows "from_number n (opt p n vs @ os)"
proof (cases "IS_OPTION n p")
  case True
  have "c' \<le> n \<Longrightarrow> options_ok c' (map (Pair n) vs @ os)" for c'
    using assms(4) by (induction vs arbitrary: c') (use assms in \<open>auto simp: from_number_def\<close>)
  then show ?thesis using True by (simp add: opt_def from_number_def)
qed (use assms in \<open>auto simp: opt_def from_number_def\<close>)

lemma from_number_nil: "from_number 40 []"
  by (simp add: from_number_def)

lemma short_values:
  "\<forall>v\<in>set [int_bytes w]. length v < 65805" "\<forall>v\<in>set [[]]. length (v :: bytes) < 65805"
  "\<forall>v\<in>set (map (\<lambda>a. int_bytes (ucast a)) as). length v < 65805"
  by (auto simp: length_int_bytes)

lemma packet_options_ok:
  assumes "packet_ok p"
  shows "options_ok 0 (packet_options p)"
proof -
  have none: "opt p 35 [p_proxy_uri p] = []"
    using assms by (simp add: packet_ok_def foreign_options_def opt_def)
  have multi: "multi_ok p 8 (p_location_path p)" "multi_ok p 11 (p_uri_path p)" "multi_ok p 15 (p_uri_query p)"
    using assms by (simp_all add: packet_ok_def)
  then have m: "\<forall>v\<in>set (p_location_path p). length v < 65805" "\<forall>v\<in>set (p_uri_path p). length v < 65805"
    "\<forall>v\<in>set (p_uri_query p). length v < 65805"
    by (fastforce simp: multi_ok_def list_all_iff)+
  have a: "\<forall>v\<in>set [p_if_match p]. length v < 65805" "\<forall>v\<in>set [p_uri_host p]. length v < 65805"
     "\<forall>v\<in>set [p_etag p]. length v < 65805" "\<forall>v\<in>set [p_location_query p]. length v < 65805"
    using assms by (simp_all add: packet_ok_def)
  have "from_number 1 (packet_options p)"
    unfolding packet_options_def none
    by (rule from_number_opt)+ (rule from_number_nil short_values a m | simp)+
  then show ?thesis by (simp add: from_number_def)
qed

lemma header_first_byte:
  fixes t k :: u8
  assumes "t < 4" "n \<le> 8"
  defines "b \<equiv> (0xC0 AND push_bit 6 1) OR (0x30 AND push_bit 4 t) OR (0x0F AND of_nat n)"
  shows "drop_bit 6 (0xC0 AND b) = 1" "drop_bit 4 (0x30 AND b) = t" "unat (b AND 0x0F) = n"
proof -
  have t: "t \<in> set [0, 1, 2, 3]"
  proof -
    have "unat t < 4" using assms(1) by (simp add: word_less_nat_alt)
    then have "unat t = 0 \<or> unat t = 1 \<or> unat t = 2 \<or> unat t = 3" by linarith
    then show ?thesis by (auto simp: word_unat_eq_iff)
  qed
  have n: "n \<in> set [0, 1, 2, 3, 4, 5, 6, 7, 8]"
    using assms(2) by auto
  have "\<forall>t \<in> set [0, 1, 2, 3 :: u8]. \<forall>n \<in> set [0, 1, 2, 3, 4, 5, 6, 7, 8].
      let b = (0xC0 AND push_bit 6 1) OR (0x30 AND push_bit 4 t) OR (0x0F AND of_nat n) in
      drop_bit 6 (0xC0 AND b) = 1 \<and> drop_bit 4 (0x30 AND b) = t \<and> unat (b AND 0x0F) = n"
    by code_simp
  then show "drop_bit 6 (0xC0 AND b) = 1" "drop_bit 4 (0x30 AND b) = t" "unat (b AND 0x0F) = n"
    using t n unfolding b_def Let_def by blast+
qed

lemma mid_bytes:
  "push_bit 8 (ucast (ucast (drop_bit 8 m) :: u8)) OR ucast (ucast m :: u8) = (m :: u16)"
  by (rule bit_word_eqI) (auto simp: bit_simps)

lemma parse_header:
  assumes "p_type p < 4" "length (p_token p) \<le> 8" "p_version p = 1" "IS_OPTION 19 p \<longleftrightarrow> p_token p \<noteq> []"
  shows "coap_parse_message mem (serialize_header p @ rest) = parse_options mem (header_packet p) 0 rest"
proof -
  define b0 :: u8 where
    "b0 = (0xC0 AND push_bit 6 1) OR (0x30 AND push_bit 4 (p_type p)) OR (0x0F AND of_nat (length (p_token p)))"
  note b = header_first_byte [OF assms(1,2), folded b0_def]
  have "serialize_header p = [b0, p_code p, ucast (drop_bit 8 (p_mid p)), ucast (p_mid p)] @ p_token p"
    by (simp add: serialize_header_def assms(3) b0_def del: push_bit_of_1)
  moreover have "drop (4 + n) (w # x # y # z # cs) = drop n cs" for n and w x y z :: u8 and cs
    by (simp add: numeral_eq_Suc)
  ultimately show ?thesis
    using assms(2,4) unfolding coap_parse_message_def Let_def
    by (simp add: b b [simplified] mid_bytes min_absorb2 header_packet_def zero_packet_def bits_of_def set_known_def)
qed

lemma packet_ok_version [simp]: "packet_ok (p\<lparr>p_version := v\<rparr>) = packet_ok p"
  by (simp add: packet_ok_def unset_or_def multi_ok_def block_ok_def IS_OPTION_def)

lemma parsed_view_version [simp]: "parsed_view (p\<lparr>p_version := v\<rparr>) = parsed_view p"
  by (simp add: parsed_view_def IS_OPTION_def)

lemma parse_payload:
  assumes "p_payload p \<noteq> Some []" "p_payload q = None"
  shows "parse_options mem q n ((if length (payload_of p) \<noteq> 0 then [0xFF] else []) @ payload_of p) =
    Some (NO_ERROR, q\<lparr>p_payload := p_payload p\<rparr>)"
  using assms by (cases "p_payload p") (auto simp: payload_of_def parse_options.simps)

lemma parse_serialized:
  assumes "packet_ok p" and "mem 24"
  shows "coap_parse_message mem (snd (coap_serialize_message p)) = Some (NO_ERROR, parsed_view p)"
proof -
  define q where "q = p\<lparr>p_version := 1\<rparr>"
  have q: "packet_ok q" "p_version q = 1" "parsed_view q = parsed_view p" "payload_of q = payload_of p"
    "p_payload q = p_payload p"
    using assms(1) by (simp_all add: q_def payload_of_def)
  have opts: "serialize_options q = enc 0 (packet_options q)"
    by (rule serialize_options_enc) (use q(1) in \<open>auto simp: packet_ok_def multi_ok_def\<close>)
  have h: "coap_parse_message mem (serialize_header q @ rest) = parse_options mem (header_packet q) 0 rest" for rest
    by (rule parse_header) (use q in \<open>simp_all add: packet_ok_def\<close>)
  have pl: "p_payload q \<noteq> Some []" using q(1) by (simp add: packet_ok_def)
  have none: "p_payload ((parsed_view q)\<lparr>p_payload := None\<rparr>) = None" by simp
  have "snd (coap_serialize_message p) =
      serialize_header q @ enc 0 (packet_options q) @ (if length (payload_of q) \<noteq> 0 then [0xFF] else []) @ payload_of q"
    unfolding coap_serialize_message_def Let_def opts [symmetric] by (simp add: q_def)
  then have "coap_parse_message mem (snd (coap_serialize_message p)) =
      Some (NO_ERROR, (parsed_view q)\<lparr>p_payload := None, p_payload := p_payload q\<rparr>)"
    by (simp only: h parse_enc [OF packet_options_ok [OF q(1)]] apply_packet_options [of q mem, OF q(1) assms(2)]
        sum.case parse_payload [OF pl none])
  then show ?thesis using q by (simp add: parsed_view_def)
qed

text \<open>
  C1: The parser reads back what the serializer wrote, for every packet that the format can carry
  (\<open>packet_ok\<close>): header, token, all options and payload are those of the packet.
\<close>

theorem coap_message_roundtrip:
  assumes "packet_ok p" and "mem 24"
  shows "coap_parse_message mem (snd (coap_serialize_message p)) = Some (NO_ERROR, parsed_view p)"
  by (rule parse_serialized [of p mem, OF assms])

definition example_packet :: coap_packet where
  "example_packet = (let p = coap_init_message 0 1 0xBEEF;
     p = fst (coap_set_header_token p [1, 2, 3]);
     p = set_known 11 (p\<lparr>p_uri_path := [[114, 100], [53, 97]]\<rparr>);
     p = fst (coap_set_header_observe p 300);
     p = fst (coap_set_header_content_type p 11542);
     p = fst (coap_set_header_accept p 60)
   in fst (coap_set_payload p [255, 1]))"

theorem coap_message_roundtrip_witness:
  "coap_parse_message (\<lambda>n. True) (snd (coap_serialize_message example_packet)) =
     Some (NO_ERROR, parsed_view example_packet) \<and> p_observe (parsed_view example_packet) = 300"
proof -
  have "packet_ok example_packet" "p_observe (parsed_view example_packet) = 300"
    by (simp_all add: example_packet_def packet_ok_def foreign_options_def unset_or_def multi_ok_def block_ok_def
        parsed_view_def coap_set_header_token_def coap_set_header_observe_def coap_set_header_content_type_def
        coap_set_header_accept_def coap_set_payload_def coap_init_message_def zero_packet_def Let_def
        set_known_def IS_OPTION_def bit_or_iff bit_exp_iff)
  then show ?thesis using coap_message_roundtrip [of example_packet "\<lambda>n. True"] by simp
qed

end
