(* ===== verification/Coap_Bounds.thy ===== *)
theory Coap_Bounds
  imports Coap_Roundtrip
begin

text \<open>
The limits of the CoAP packet code: the buffer computed by \<^verbatim>\<open>coap_serialize_get_size\<close>, the fixed
  arrays of a packet, the text of a path, and the places where the code leaves its buffers.
\<close>

section \<open>The buffer computed beforehand\<close>

text \<open>At most \<open>n\<close> bytes written, and the last option is a known one.\<close>

definition fits :: "nat \<Rightarrow> ser_state \<Rightarrow> bool" where
  "fits n s \<longleftrightarrow> length (fst s) \<le> n \<and> snd s \<le> 35"

abbreviation (input) room :: "coap_packet \<Rightarrow> nat \<Rightarrow> nat \<Rightarrow> nat" where
  "room p k n \<equiv> if IS_OPTION k p then n else 0"

lemma option_header_length:
  "d \<le> 268 \<Longrightarrow> length (coap_set_option_header d l) \<le> 4"
  "d \<le> 268 \<Longrightarrow> l \<le> 12 \<Longrightarrow> length (coap_set_option_header d l) \<le> 2"
  by (simp_all add: coap_set_option_header_def option_ext_def)

lemma int_option_length:
  assumes "unat v < 2 ^ 24" "n \<le> 35"
  shows "length (coap_serialize_int_option n c v) \<le> 5"
proof -
  have "length (int_bytes v) \<le> 3" using assms(1) by (simp add: length_int_bytes)
  moreover have "length (coap_set_option_header (n - c) (length (int_bytes v))) \<le> 2"
    by (rule option_header_length) (use assms(2) calculation in linarith)+
  ultimately show ?thesis by (simp add: serialize_int_option_enc)
qed

lemma fits_int: "fits m s \<Longrightarrow> unat v < 2 ^ 24 \<Longrightarrow> n \<le> 35 \<Longrightarrow> fits (m + room p n 5) (ser_int p n v s)"
  using int_option_length [of v n "snd s"] by (simp add: fits_def ser_int_def)

lemma fits_array:
  assumes "fits m s" "splitter = 0 \<or> splitter \<notin> set array" "n \<le> 35"
  shows "fits (m + room p n (5 + length array)) (ser_array p n array splitter s)"
proof -
  have "length (coap_set_option_header (n - snd s) (length array)) \<le> 4"
    by (rule option_header_length) (use assms(3) in simp)
  then show ?thesis using assms by (simp add: fits_def ser_array_def ser_array_enc)
qed

lemma multi_option_length:
  "n \<le> 35 \<Longrightarrow> length (coap_serialize_multi_option n c vs) \<le> sum_list (map (\<lambda>v. 5 + length v) vs)"
proof (induction n c vs rule: coap_serialize_multi_option.induct)
  case (2 n c v vs)
  have "length (coap_set_option_header (n - c) (length v)) \<le> 4"
    by (rule option_header_length) (use 2(2) in simp)
  then show ?case using 2 by simp
qed simp

lemma fits_multi:
  "fits m s \<Longrightarrow> n \<le> 35 \<Longrightarrow> fits (m + room p n (sum_list (map (\<lambda>v. 5 + length v) vs))) (ser_multi p n vs s)"
  using multi_option_length [of n "snd s" vs] by (simp add: fits_def ser_multi_def)

lemma accept_options_length:
  "n \<le> 35 \<Longrightarrow> snd s \<le> 35 \<Longrightarrow>
   length (fst (accept_options n as s)) \<le> length (fst s) + length as * 5 \<and> snd (accept_options n as s) \<le> 35"
proof (induction n as s rule: accept_options.induct)
  case (2 n a as s)
  have "unat (ucast a :: u32) < 2 ^ 24"
  proof -
    have "unat (ucast a :: u32) = take_bit LENGTH(32) (unat a)" by (rule unsigned_ucast_eq)
    also have "\<dots> \<le> unat a" by (rule take_bit_nat_less_eq_self)
    finally show ?thesis using unsigned_less [of a, where 'a = nat] by simp
  qed
  then show ?case using 2 int_option_length [of "ucast a" n "snd s"] by simp
qed simp

lemma fits_accept:
  "fits m s \<Longrightarrow> n \<le> 35 \<Longrightarrow> fits (m + room p n (length as * 5)) (ser_accept p n as s)"
  using accept_options_length [of n s as] by (simp add: fits_def ser_accept_def)

lemma block_value_small:
  assumes "num \<le> 0xFFFFF"
  shows "unat (block_value num m sz) < 2 ^ 24"
proof -
  have n: "take_bit 20 num = num"
    using assms unat_and_mask [of num 20] unfolding take_bit_eq_mask
    by (intro word_unat_eq_iff [THEN iffD2]) (simp add: word_le_nat_alt)
  have num: "bit num k \<Longrightarrow> k < 20" for k using n by (metis bit_take_bit_iff)
  have low: "bit (0xF AND ucast (coap_log_2 (sz div 16)) :: u32) k \<Longrightarrow> k < 24" for k
  proof -
    have "(0xF :: u32) = mask 4" by (simp add: mask_numeral)
    then show "bit (0xF AND ucast (coap_log_2 (sz div 16)) :: u32) k \<Longrightarrow> k < 24"
      by (auto simp only: bit_and_iff bit_mask_iff)
  qed
  have "bit (8 :: u32) k \<Longrightarrow> k < 24" for k by (simp add: bit_simps bit_8)
  moreover have "bit (push_bit 4 num) k \<Longrightarrow> k < 24" for k
    using num [of "k - 4"] by (auto simp: bit_push_bit_iff)
  ultimately have "bit (block_value num m sz) k \<Longrightarrow> k < 24" for k
    unfolding block_value_def Let_def using low [of k] by (auto simp only: bit_or_iff split: if_splits)
  then have "take_bit 24 (block_value num m sz) = block_value num m sz"
    by (intro bit_word_eqI) (auto simp only: bit_take_bit_iff)
  then have "unat (block_value num m sz) = unat (block_value num m sz) mod 2 ^ 24"
    by (metis take_bit_eq_mod unsigned_take_bit_eq)
  then show ?thesis by (metis mod_less_divisor zero_less_numeral zero_less_power)
qed

lemma fits_block:
  "fits m s \<Longrightarrow> num \<le> 0xFFFFF \<Longrightarrow> n \<le> 35 \<Longrightarrow> fits (m + room p n 5) (ser_block p n num b sz s)"
  using int_option_length [OF block_value_small, of num n "snd s" b sz] by (simp add: fits_def ser_block_def)

text \<open>
  The values of the integer options that fit three bytes, and a location query in one piece.
\<close>

definition small_values :: "coap_packet \<Rightarrow> bool" where
  "small_values p \<longleftrightarrow>
     unat (p_observe p) < 2 ^ 24 \<and> unat (p_content_type p) < 2 ^ 24 \<and> unat (p_max_age p) < 2 ^ 24 \<and>
     unat (p_size p) < 2 ^ 24 \<and> p_block1_num p \<le> 0xFFFFF \<and> p_block2_num p \<le> 0xFFFFF \<and>
     ch_ampersand \<notin> set (p_location_query p)"

lemma unat_port: "unat (ucast (w :: u16) :: u32) < 2 ^ 24"
proof -
  have "unat (ucast w :: u32) = take_bit LENGTH(32) (unat w)" by (rule unsigned_ucast_eq)
  also have "\<dots> \<le> unat w" by (rule take_bit_nat_less_eq_self)
  finally show ?thesis using unsigned_less [of w, where 'a = nat] by simp
qed

lemma serialize_options_length:
  assumes "small_values p"
  shows "length (serialize_options p) \<le> room p 1 (5 + length (p_if_match p)) + room p 3 (5 + length (p_uri_host p)) +
    room p 4 (5 + length (p_etag p)) + room p 5 5 + room p 6 5 + room p 7 5 +
    room p 8 (sum_list (map (\<lambda>v. 5 + length v) (p_location_path p))) +
    room p 11 (sum_list (map (\<lambda>v. 5 + length v) (p_uri_path p))) + room p 12 5 + room p 14 5 +
    room p 15 (sum_list (map (\<lambda>v. 5 + length v) (p_uri_query p))) + room p 17 (length (p_accept p) * 5) +
    room p 20 (5 + length (p_location_query p)) + room p 23 5 + room p 27 5 + room p 28 5 +
    room p 35 (5 + length (p_proxy_uri p))" (is "_ \<le> ?n")
proof -
  have start: "fits 0 ([], 0)" by (simp add: fits_def)
  have first: "fits (room p 1 (5 + length (p_if_match p))) (ser_array p 1 (p_if_match p) 0 ([], 0))"
    using fits_array [OF start, of 0 "p_if_match p" 1 p] by simp
  note small = assms [unfolded small_values_def]
  have "fits ?n (ser_array p 35 (p_proxy_uri p) 0 (ser_int p 28 (p_size p)
        (ser_block p 27 (p_block1_num p) (p_block1_more p) (p_block1_size p)
        (ser_block p 23 (p_block2_num p) (p_block2_more p) (p_block2_size p)
        (ser_array p 20 (p_location_query p) ch_ampersand (ser_accept p 17 (p_accept p)
        (ser_multi p 15 (p_uri_query p) (ser_int p 14 (p_max_age p) (ser_int p 12 (p_content_type p)
        (ser_multi p 11 (p_uri_path p) (ser_multi p 8 (p_location_path p) (ser_int p 7 (ucast (p_uri_port p))
        (ser_int p 6 (p_observe p) (ser_int p 5 (p_content_type p - p_content_type p) (ser_array p 4 (p_etag p) 0
        (ser_array p 3 (p_uri_host p) 0 (ser_array p 1 (p_if_match p) 0 ([], 0))))))))))))))))))"
    by (intro first fits_array fits_int fits_multi fits_accept fits_block unat_port) (use small in simp_all)
  then show ?thesis unfolding serialize_options_def Let_def fits_def by (rule conjunct1)
qed

lemma serialize_options_version [simp]: "serialize_options (p\<lparr>p_version := v\<rparr>) = serialize_options p"
proof -
  have "ser_int (p\<lparr>p_version := v\<rparr>) = ser_int p" "ser_array (p\<lparr>p_version := v\<rparr>) = ser_array p"
    "ser_multi (p\<lparr>p_version := v\<rparr>) = ser_multi p" "ser_accept (p\<lparr>p_version := v\<rparr>) = ser_accept p"
    "ser_block (p\<lparr>p_version := v\<rparr>) = ser_block p"
    by (intro ext; simp add: ser_int_def ser_array_def ser_multi_def ser_accept_def ser_block_def IS_OPTION_def)+
  then show ?thesis unfolding serialize_options_def by simp
qed

lemma serialize_message_length:
  "length (snd (coap_serialize_message p)) = 4 + length (p_token p) + length (serialize_options p) +
     (if length (payload_of p) \<noteq> 0 then 1 else 0) + length (payload_of p)"
  by (simp add: coap_serialize_message_def Let_def serialize_header_def payload_of_def)

lemma serialize_fits:
  "small_values p \<Longrightarrow> length (snd (coap_serialize_message p)) \<le> coap_serialize_get_size p"
  using serialize_options_length [of p]
  unfolding serialize_message_length coap_serialize_get_size_def Let_def by simp

text \<open>
  C28: The buffer computed beforehand is large enough: a packet whose integer options fit three bytes
  and whose location query is in one piece is never written past \<open>coap_serialize_get_size\<close> bytes.
\<close>
theorem coap_serialize_fits:
  assumes "small_values p"
  shows "length (snd (coap_serialize_message p)) \<le> coap_serialize_get_size p"
  by (rule serialize_fits [OF assms])

text \<open>
  It is not large enough for every packet: a response whose only option is a Max-Age of at least
  \<open>2 ^ 24\<close> takes one byte more than was computed.
\<close>
theorem coap_size_too_small:
  fixes t c :: u8 and mid :: u16
  assumes "0x1000000 \<le> age"
  defines "p \<equiv> fst (coap_set_header_max_age (coap_init_message t c mid) age)"
  shows "length (snd (coap_serialize_message p)) = coap_serialize_get_size p + 1"
proof -
  have "unat age \<ge> 2 ^ 24" using assms(1) by (simp add: word_le_nat_alt)
  then have v: "length (int_bytes age) = 4" by (simp add: length_int_bytes)
  have b: "IS_OPTION n p \<longleftrightarrow> n = 14" for n
    by (simp add: p_def coap_set_header_max_age_def coap_init_message_def zero_packet_def) (simp add: IS_OPTION_def)
  have f: "p_max_age p = age" "p_token p = []" "payload_of p = []"
    by (simp_all add: p_def coap_set_header_max_age_def coap_init_message_def zero_packet_def set_known_def payload_of_def)
  have "serialize_options p = coap_serialize_int_option 14 0 age"
    by (simp add: serialize_options_def Let_def ser_int_def ser_array_def ser_multi_def ser_accept_def ser_block_def b f)
  then have "length (serialize_options p) = 6"
    by (simp add: serialize_int_option_enc v coap_set_option_header_def option_ext_def)
  then show ?thesis by (simp add: serialize_message_length coap_serialize_get_size_def Let_def b f)
qed

theorem coap_size_too_small_witness:
  "length (snd (coap_serialize_message (fst (coap_set_header_max_age (coap_init_message 2 69 1) 31536000)))) = 10 \<and>
   coap_serialize_get_size (fst (coap_set_header_max_age (coap_init_message 2 69 1) 31536000)) = 9"
proof -
  have "coap_serialize_get_size (fst (coap_set_header_max_age (coap_init_message 2 69 1) 31536000)) = 9"
    by (simp add: coap_serialize_get_size_def coap_set_header_max_age_def coap_init_message_def zero_packet_def
        set_known_def IS_OPTION_def payload_of_def)
  then show ?thesis using coap_size_too_small [of 31536000 2 69 1] by simp
qed

theorem coap_serialize_fits_witness:
  "length (snd (coap_serialize_message example_packet)) \<le> coap_serialize_get_size example_packet"
proof -
  have "small_values example_packet"
    by (simp add: example_packet_def small_values_def coap_set_header_token_def coap_set_header_observe_def
        coap_set_header_content_type_def coap_set_header_accept_def coap_set_payload_def coap_init_message_def
        zero_packet_def Let_def set_known_def)
  then show ?thesis by (rule coap_serialize_fits)
qed

section \<open>The fixed arrays of a packet\<close>

text \<open>
  The token, the entity tags and the accept list are arrays of fixed size; the length of a repeated
  option is one byte.
\<close>

definition in_arrays :: "coap_packet \<Rightarrow> bool" where
  "in_arrays p \<longleftrightarrow> length (p_token p) \<le> 8 \<and> length (p_etag p) \<le> 8 \<and> length (p_if_match p) \<le> 8 \<and>
     length (p_accept p) \<le> 2 \<and>
     list_all (\<lambda>v. length v < 256) (p_uri_path p @ p_uri_query p @ p_location_path p)"

lemma add_multi_short:
  "list_all (\<lambda>v. length v < 256) vs \<Longrightarrow> list_all (\<lambda>v. length v < 256) (coap_add_multi_option mem vs v static)"
  by (simp add: coap_add_multi_option_def list_all_iff)

lemma in_arrays_set [simp]: "in_arrays (set_known n p) = in_arrays p"
  by (simp add: in_arrays_def set_known_def)

lemma in_arrays_SET: "SET_OPTION n p = Some q \<Longrightarrow> in_arrays q = in_arrays p"
  by (auto simp: SET_OPTION_def in_arrays_def split: if_splits)

lemma in_arrays_free: "in_arrays p \<Longrightarrow> in_arrays (coap_free_header p)"
  by (simp add: in_arrays_def coap_free_header_def)

lemma apply_option_arrays:
  assumes "in_arrays p"
  shows "case apply_option mem n v p of Inl r \<Rightarrow> in_arrays (snd r) | Inr q \<Rightarrow> in_arrays q"
  using assms add_multi_short [of "p_uri_path p" mem v True] add_multi_short [of "p_uri_query p" mem v True]
    add_multi_short [of "p_location_path p" mem v True]
  unfolding apply_option_def in_arrays_def
  by (simp add: coap_free_header_def split: prod.split)

lemma parse_options_arrays:
  "in_arrays p \<Longrightarrow> parse_options mem p n data = Some (code, q) \<Longrightarrow> in_arrays q"
proof (induction mem p n data rule: parse_options.induct)
  case (1 mem p n)
  then show ?case by (simp add: parse_options.simps)
next
  case (2 mem p n c cur)
  show ?case
  proof (cases "c AND 0xF0 = 0xF0")
    case True
    then show ?thesis using 2(2,3) by (auto simp: parse_options.simps in_arrays_def)
  next
    case False
    from 2(3) False obtain delta cur1 len cur2 where r: "read_ext (unat (drop_bit 4 c)) cur = Some (delta, cur1)"
        "read_ext (unat (c AND 0x0F)) cur1 = Some (len, cur2)"
      by (simp add: parse_options.simps split: option.splits prod.splits)
    show ?thesis
    proof (cases "length cur2 < len")
      case True
      then show ?thesis using 2(2,3) False r in_arrays_free [OF 2(2)]
        by (auto simp: parse_options.simps Let_def)
    next
      case short: False
      from 2(3) False r short obtain p1 where s: "SET_OPTION (n + delta) p = Some p1"
        by (simp add: parse_options.simps Let_def split: option.splits)
      have a1: "in_arrays p1" using in_arrays_SET [OF s] 2(2) by simp
      show ?thesis
      proof (cases "apply_option mem (n + delta) (take len cur2) p1")
        case (Inl r')
        then show ?thesis using 2(3) False r short s apply_option_arrays [OF a1, of mem "n + delta" "take len cur2"]
          by (auto simp: parse_options.simps Let_def)
      next
        case (Inr p2)
        then have "in_arrays p2" using apply_option_arrays [OF a1, of mem "n + delta" "take len cur2"] by simp
        then show ?thesis using 2(3) False r short s Inr
          by (intro 2(1) [OF False r(1) refl r(2) refl refl short s Inr]) (simp_all add: parse_options.simps Let_def)
      qed
    qed
  qed
qed

lemma parsed_in_arrays:
  assumes "coap_parse_message mem data = Some (code, p)"
  shows "in_arrays p"
proof -
  have z: "in_arrays (zero_packet\<lparr>p_version := v, p_type := t, p_code := cd, p_mid := m, p_token := tok\<rparr>)"
    if "length tok \<le> 8" for v t cd m tok
    using that by (simp add: in_arrays_def zero_packet_def)
  show ?thesis
    using assms z unfolding coap_parse_message_def Let_def
    by (auto split: if_splits intro!: z dest!: parse_options_arrays [rotated])
qed

text \<open>
  C29: Whatever bytes arrive, a parsed packet stays within its fixed arrays: at most 8 bytes of token and
  of each entity tag, two accept values, values of repeated options whose length fits its byte.
\<close>
theorem coap_parse_in_arrays:
  assumes "coap_parse_message mem data = Some (code, p)"
  shows "in_arrays p"
  using assms by (rule parsed_in_arrays)

theorem coap_parse_in_arrays_witness:
  "\<exists>p. coap_parse_message (\<lambda>n. True) [0x4B, 1, 0, 7, 1, 2, 3, 4, 5, 6, 7, 8, 0xFF, 9] = Some (NO_ERROR, p) \<and> in_arrays p"
proof -
  have "\<exists>p. coap_parse_message (\<lambda>n. True) [0x4B, 1, 0, 7, 1, 2, 3, 4, 5, 6, 7, 8, 0xFF, 9] = Some (NO_ERROR, p)"
    by (simp add: coap_parse_message_def Let_def parse_options.simps zero_packet_def)
  then show ?thesis using coap_parse_in_arrays by blast
qed

section \<open>Paths\<close>

text \<open>Segments with a separator in front of each.\<close>

abbreviation (input) joined :: "u8 \<Rightarrow> bytes list \<Rightarrow> bytes" where
  "joined sep segs \<equiv> concat (map ((#) sep) segs)"

abbreviation (input) path_text :: "bytes list \<Rightarrow> bytes" where
  "path_text segs \<equiv> joined ch_slash segs"

lemma takeWhile_segment:
  assumes "sep \<notin> set seg"
  shows "takeWhile (\<lambda>c. c \<noteq> sep) (seg @ joined sep rest) = seg"
proof -
  have "\<forall>c\<in>set seg. c \<noteq> sep" using assms by metis
  then have "takeWhile (\<lambda>c. c \<noteq> sep) (seg @ joined sep rest) = seg @ takeWhile (\<lambda>c. c \<noteq> sep) (joined sep rest)"
    by (simp add: takeWhile_append2)
  then show ?thesis by (cases rest) simp_all
qed

lemma split_loop_path:
  assumes "mem 24" "\<forall>n. mem n"
  shows "list_all (\<lambda>s. sep \<notin> set s \<and> length s < 256) (seg # rest) \<Longrightarrow> last (seg # rest) \<noteq> [] \<Longrightarrow>
    split_loop mem sep dst n (seg @ joined sep rest) = (dst @ seg # rest, n + length (seg @ joined sep rest))"
proof (induction rest arbitrary: seg dst n)
  case Nil
  then have "sep \<notin> set seg" by simp
  from takeWhile_segment [OF this, of "[]"] have t: "takeWhile (\<lambda>c. c \<noteq> sep) seg = seg"
    by (simp only: list.map concat.simps append_Nil2)
  show ?case using Nil assms by (subst split_loop.simps) (simp add: t Let_def coap_add_multi_option_def)
next
  case (Cons r rest)
  have t: "takeWhile (\<lambda>c. c \<noteq> sep) (seg @ joined sep (r # rest)) = seg"
    by (rule takeWhile_segment) (use Cons.prems(1) in simp)
  have add: "coap_add_multi_option mem dst seg False = dst @ [seg]"
    using Cons.prems(1) assms by (simp add: coap_add_multi_option_def)
  have "r @ joined sep rest \<noteq> []" using Cons.prems(2) by (cases rest) auto
  then have len: "\<not> length (seg @ joined sep (r # rest)) \<le> length seg + 1"
    by (cases r) (auto simp: Suc_le_eq)
  have d: "drop (length seg + 1) (seg @ joined sep (r # rest)) = r @ joined sep rest" by simp
  have "split_loop mem sep dst n (seg @ joined sep (r # rest)) =
      split_loop mem sep (dst @ [seg]) (n + (length seg + 1)) (r @ joined sep rest)"
    using len by (subst split_loop.simps) (auto simp: t [simplified] add d [simplified] Let_def)
  also have "\<dots> = ((dst @ [seg]) @ r # rest, n + (length seg + 1) + length (r @ joined sep rest))"
    by (rule Cons.IH) (use Cons.prems in auto)
  finally show ?case by simp
qed

text \<open>
  A path set from its text is stored segment by segment and printed back as the same text: for
  segments without slashes of at most 255 bytes, the last one not empty.
\<close>
theorem coap_uri_path_roundtrip:
  assumes "segs \<noteq> []" "list_all (\<lambda>s. ch_slash \<notin> set s \<and> length s < 256) segs" "last segs \<noteq> []" "\<forall>n. mem n"
  shows "p_uri_path (fst (coap_set_header_uri_path mem p (path_text segs))) = segs \<and>
    coap_get_multi_option_as_path_string mem segs = Some (path_text segs)"
proof -
  from assms(1) obtain seg rest where s: "segs = seg # rest" by (cases segs) auto
  have "split_loop mem ch_slash [] 0 (seg @ path_text rest) = ([] @ seg # rest, 0 + length (seg @ path_text rest))"
    by (rule split_loop_path) (use assms s in auto)
  then show ?thesis using assms(4) s
    by (simp add: coap_set_header_uri_path_def skip_first_def set_known_def Let_def
        coap_get_multi_option_as_path_string_def prv_coap_get_multi_option_as_string_def)
qed

theorem coap_uri_path_roundtrip_witness:
  "p_uri_path (fst (coap_set_header_uri_path (\<lambda>n. True) zero_packet [47, 114, 100, 47, 47, 53])) = [[114, 100], [], [53]]"
  using coap_uri_path_roundtrip [of "[[114, 100], [], [53]]" "\<lambda>n. True" zero_packet] by simp

section \<open>Where the parser leaves its buffer\<close>

text \<open>
  The parser reads past the end of a message that is shorter than its fixed header, its token or
  the extended bytes of an option header, and writes past the bitmap for the option number 40; a value
  of a repeated option longer than 255 bytes is cut to its length modulo 256.
\<close>
theorem coap_parse_overruns:
  "coap_parse_message mem [0x40, 1] = None \<and>
   coap_parse_message mem [0x44, 1, 0, 7, 1, 2] = None \<and>
   coap_parse_message mem [0x40, 1, 0, 7, 0xE0, 1] = None \<and>
   coap_parse_message mem [0x40, 1, 0, 7, 0xD0, 27] = None \<and>
   SET_OPTION 40 p = None \<and>
   coap_add_multi_option (\<lambda>n. True) [] (replicate 300 a) True = [replicate 44 a]"
  by (simp add: coap_parse_message_def Let_def parse_options.simps read_ext_def SET_OPTION_def coap_add_multi_option_def
      zero_packet_def)

text \<open>
  \<open>coap_get_header_block\<close> finds the Block1 option only: of a packet with just a Block2 option it
  reports nothing.
\<close>
theorem coap_block_getter_ignores_block2:
  "coap_get_header_block p = coap_get_header_block1 p \<and>
   (let q = fst (coap_set_header_block2 (coap_init_message 0 69 1) 3 1 64) in
    coap_get_header_block2 q = Some (3, 1, 64, 0) \<and> coap_get_header_block q = None)"
  by (simp add: coap_get_header_block_def coap_get_header_block1_def coap_get_header_block2_def
      coap_set_header_block2_def coap_init_message_def zero_packet_def Let_def set_known_def IS_OPTION_def
      split: option.split)

end
