(* ===== verification/Client_Object.thy ===== *)
theory Client_Object
  imports Id_List Data_Values
begin

text \<open>
  What the objects of the client (\<^verbatim>\<open>lwm2m/src/object_server.c\<close>, \<^verbatim>\<open>object_security.c\<close>) have in common.
  Each keeps a sorted list of its instances and serves the calls of the core over it: read, write,
  create and delete. The calls share their text in the code; they differ in the record of an
  instance and in what one resource does, which are the arguments here.

  An array of \<^verbatim>\<open>lwm2m_data_t\<close> with its count is a list. The result is the CoAP code with what
  the call changed; \<open>None\<close> is a step that reads or writes outside of the memory it may use.
  The locale \<open>client_object\<close> holds what is true of every object whose write keeps the number of
  the instance; the objects interpret it.
\<close>

section \<open>The calls\<close>

text \<open>The array of a read of the whole instance: one entry per resource, with its number.\<close>

definition new_resources :: "allocator \<Rightarrow> u16 list \<Rightarrow> lwm2m_data list option" where
  "new_resources mem resList =
     map_option (map2 set_id resList) (lwm2m_data_new mem (int (length resList)))"

text \<open>The \<^verbatim>\<open>do ... while\<close> loops: the first entry is accessed whatever the count is.\<close>

fun read_loop ::
  "(lwm2m_data \<Rightarrow> (u8 \<times> lwm2m_data) option) \<Rightarrow> lwm2m_data list \<Rightarrow> (u8 \<times> lwm2m_data list) option" where
  "read_loop get [] = None"
| "read_loop get (d # ds) =
     (case get d of
        None \<Rightarrow> None
      | Some (result, d') \<Rightarrow>
          if ds \<noteq> [] \<and> result = COAP_205_CONTENT
          then map_option (\<lambda>(r, ds'). (r, d' # ds')) (read_loop get ds)
          else Some (result, d' # ds))"

fun write_loop ::
  "('i \<Rightarrow> lwm2m_data \<Rightarrow> (u8 \<times> 'i) option) \<Rightarrow> 'i \<Rightarrow> lwm2m_data list \<Rightarrow> (u8 \<times> 'i) option" where
  "write_loop set1 target [] = None"
| "write_loop set1 target (d # ds) =
     (case set1 target d of
        None \<Rightarrow> None
      | Some (result, target') \<Rightarrow>
          if ds \<noteq> [] \<and> result = COAP_204_CHANGED then write_loop set1 target' ds
          else Some (result, target'))"

definition instances_read ::
  "('i \<Rightarrow> u16) \<Rightarrow> u16 list \<Rightarrow> ('i \<Rightarrow> lwm2m_data \<Rightarrow> (u8 \<times> lwm2m_data) option) \<Rightarrow> allocator \<Rightarrow>
   'i list \<Rightarrow> u16 \<Rightarrow> lwm2m_data list \<Rightarrow> (u8 \<times> lwm2m_data list) option" where
  "instances_read key resList get mem insts i data =
     (case lwm2m_list_find key insts i of
        None \<Rightarrow> Some (COAP_404_NOT_FOUND, data)
      | Some target \<Rightarrow>
          (case (if data = [] then new_resources mem resList else Some data) of
             None \<Rightarrow> Some (COAP_500_INTERNAL_SERVER_ERROR, data)
           | Some data \<Rightarrow> read_loop (get target) data))"

definition instances_write ::
  "('i \<Rightarrow> u16) \<Rightarrow> ('i \<Rightarrow> lwm2m_data \<Rightarrow> (u8 \<times> 'i) option) \<Rightarrow>
   'i list \<Rightarrow> u16 \<Rightarrow> lwm2m_data list \<Rightarrow> (u8 \<times> 'i list) option" where
  "instances_write key set1 insts i data =
     (case lwm2m_list_find key insts i of
        None \<Rightarrow> Some (COAP_404_NOT_FOUND, insts)
      | Some target \<Rightarrow>
          map_option (\<lambda>(result, target). (result, list_put key insts target))
            (write_loop set1 target data))"

definition instances_delete :: "('i \<Rightarrow> u16) \<Rightarrow> 'i list \<Rightarrow> u16 \<Rightarrow> u8 \<times> 'i list" where
  "instances_delete key insts i =
     (let (insts, removed) = lwm2m_list_remove key insts i in
      case removed of None \<Rightarrow> (COAP_404_NOT_FOUND, insts) | Some _ \<Rightarrow> (COAP_202_DELETED, insts))"

text \<open>\<open>node_size\<close> is the size of the record; a created instance is filled with zeros before it is written.\<close>

definition instances_create ::
  "('i \<Rightarrow> u16) \<Rightarrow> nat \<Rightarrow> (u16 \<Rightarrow> 'i) \<Rightarrow> ('i \<Rightarrow> lwm2m_data \<Rightarrow> (u8 \<times> 'i) option) \<Rightarrow> allocator \<Rightarrow>
   'i list \<Rightarrow> u16 \<Rightarrow> lwm2m_data list \<Rightarrow> (u8 \<times> 'i list) option" where
  "instances_create key node_size zero_instance set1 mem insts i data =
     (if \<not> mem node_size then Some (COAP_500_INTERNAL_SERVER_ERROR, insts)
      else
        (case instances_write key set1 (lwm2m_list_add key insts (zero_instance i)) i data of
           None \<Rightarrow> None
         | Some (result, insts) \<Rightarrow>
             if result \<noteq> COAP_204_CHANGED then Some (result, snd (instances_delete key insts i))
             else Some (COAP_201_CREATED, insts)))"

text \<open>
  Copying an object: every instance is copied whole, its \<^verbatim>\<open>next\<close> pointer included, and then
  linked from the copy before it. When the allocation of a later instance fails, the last copy still
  points into the source. The result is the list of copies and the source nodes that hang on it;
  \<open>ok k\<close> says whether the allocation of instance \<open>k\<close> succeeds.
\<close>

fun copy_nodes ::
  "(nat \<Rightarrow> bool) \<Rightarrow> ('i \<Rightarrow> 'i option) \<Rightarrow> nat \<Rightarrow> 'i list \<Rightarrow> ('i list \<times> 'i list) option" where
  "copy_nodes ok dup k [] = Some ([], [])"
| "copy_nodes ok dup k (x # xs) =
     (if \<not> ok k then Some ([], if k = 0 then [] else x # xs)
      else
        (case dup x of
           None \<Rightarrow> None
         | Some y \<Rightarrow> map_option (\<lambda>(copies, rest). (y # copies, rest)) (copy_nodes ok dup (Suc k) xs)))"

text \<open>A character array read as a string: up to the first NUL, which must be inside of it.\<close>

definition c_string :: "bytes \<Rightarrow> bytes option" where
  "c_string buf = (if 0 \<in> set buf then Some (takeWhile (\<lambda>c. c \<noteq> 0) buf) else None)"

text \<open>\<^verbatim>\<open>strncpy(dest, src, n)\<close>: the \<open>n\<close> bytes it writes, for a source of \<open>n\<close> bytes.\<close>

definition strncpy_bytes :: "bytes \<Rightarrow> bytes" where
  "strncpy_bytes b = (let s = takeWhile (\<lambda>c. c \<noteq> 0) b in s @ replicate (length b - length s) 0)"

lemma length_strncpy [simp]: "length (strncpy_bytes b) = length b"
  by (simp add: strncpy_bytes_def Let_def length_takeWhile_le)

lemma c_string_terminated:
  assumes "c \<noteq> 0"
  shows "c_string (replicate n c @ [0]) = Some (replicate n c)"
proof -
  have "takeWhile (\<lambda>c. c \<noteq> 0) (replicate n c @ [0]) = replicate n c"
    using assms by (induction n) auto
  then show ?thesis by (simp add: c_string_def)
qed

text \<open>\<^verbatim>\<open>sizeof(lwm2m_object_t)\<close> without raw block requests, on a 64-bit platform.\<close>

definition sizeof_lwm2m_object :: nat where "sizeof_lwm2m_object = 80"

section \<open>The calls on a map of instances\<close>

text \<open>What the calls promise: the instances are a map from numbers to records.\<close>

definition map_write ::
  "('i \<Rightarrow> lwm2m_data \<Rightarrow> (u8 \<times> 'i) option) \<Rightarrow> (u16 \<rightharpoonup> 'i) \<Rightarrow> u16 \<Rightarrow> lwm2m_data list \<Rightarrow>
   (u8 \<times> (u16 \<rightharpoonup> 'i)) option" where
  "map_write set1 m i data =
     (case m i of
        None \<Rightarrow> Some (COAP_404_NOT_FOUND, m)
      | Some target \<Rightarrow> map_option (\<lambda>(r, t). (r, m(i \<mapsto> t))) (write_loop set1 target data))"

definition map_delete :: "(u16 \<rightharpoonup> 'i) \<Rightarrow> u16 \<Rightarrow> u8 \<times> (u16 \<rightharpoonup> 'i)" where
  "map_delete m i =
     (if m i = None then COAP_404_NOT_FOUND else COAP_202_DELETED, m(i := None))"

text \<open>Creating is all or nothing.\<close>

definition map_create ::
  "bool \<Rightarrow> (u16 \<Rightarrow> 'i) \<Rightarrow> ('i \<Rightarrow> lwm2m_data \<Rightarrow> (u8 \<times> 'i) option) \<Rightarrow> (u16 \<rightharpoonup> 'i) \<Rightarrow> u16 \<Rightarrow>
   lwm2m_data list \<Rightarrow> (u8 \<times> (u16 \<rightharpoonup> 'i)) option" where
  "map_create memory zero_instance set1 m i data =
     (if \<not> memory then Some (COAP_500_INTERNAL_SERVER_ERROR, m)
      else map_option
        (\<lambda>(r, t). if r = COAP_204_CHANGED then (COAP_201_CREATED, m(i \<mapsto> t)) else (r, m))
        (write_loop set1 (zero_instance i) data))"

section \<open>The loops\<close>

lemma write_loop_invariant:
  assumes "write_loop set1 t data = Some (r, t')" and "P t"
    and "\<And>t d r t'. d \<in> set data \<Longrightarrow> P t \<Longrightarrow> set1 t d = Some (r, t') \<Longrightarrow> P t'"
  shows "P t'"
  using assms
proof (induction data arbitrary: t)
  case (Cons d ds)
  then obtain r1 t1 where 1: "set1 t d = Some (r1, t1)"
    by (auto split: option.splits)
  show ?case
  proof (cases "ds \<noteq> [] \<and> r1 = COAP_204_CHANGED")
    case True
    with 1 Cons.prems(1) have rest: "write_loop set1 t1 ds = Some (r, t')" by simp
    have "P t1" using Cons.prems(2,3) 1 by auto
    from Cons.IH [OF rest this] Cons.prems(3) show ?thesis by auto
  next
    case False
    with 1 Cons.prems(1) have "t' = t1" by (auto split: if_splits)
    then show ?thesis using Cons.prems(2,3) 1 by auto
  qed
qed simp

lemma write_loop_total:
  assumes "data \<noteq> []" and "\<And>t d. d \<in> set data \<Longrightarrow> set1 t d \<noteq> None"
  shows "write_loop set1 t data \<noteq> None"
  using assms
proof (induction data arbitrary: t)
  case (Cons d ds)
  obtain r1 t1 where "set1 t d = Some (r1, t1)"
    using Cons.prems(2) [of d t] by auto
  with Cons show ?case by auto
qed simp

lemma read_loop_all:
  assumes "data \<noteq> []" and "\<And>d. d \<in> set data \<Longrightarrow> get d = Some (COAP_205_CONTENT, f d)"
  shows "read_loop get data = Some (COAP_205_CONTENT, map f data)"
  using assms
proof (induction data)
  case (Cons d ds)
  then show ?case by (cases "ds = []") auto
qed simp

text \<open>The loops stop at the first resource that fails, and what was written before it stays.\<close>

lemma write_loop_append:
  "ds \<noteq> [] \<Longrightarrow> cs \<noteq> [] \<Longrightarrow>
   write_loop set1 t (cs @ ds) =
     (case write_loop set1 t cs of
        None \<Rightarrow> None
      | Some (r, t') \<Rightarrow> if r = COAP_204_CHANGED then write_loop set1 t' ds else Some (r, t'))"
proof (induction cs arbitrary: t)
  case (Cons c cs)
  then show ?case by (cases "cs = []") (auto split: option.splits)
qed simp

lemma length_new_resources:
  "new_resources mem ids = Some data \<Longrightarrow> length data = length ids"
  by (auto simp: new_resources_def lwm2m_data_new_def split: if_splits)

lemma new_resources_eq:
  "ids \<noteq> [] \<Longrightarrow> mem (length ids * sizeof_lwm2m_data) \<Longrightarrow>
   new_resources mem ids = Some (map (\<lambda>i. Data LWM2M_TYPE_UNDEFINED i AsZero) ids)"
  by (auto simp: new_resources_def lwm2m_data_new_def set_id_def zip_replicate2 o_def)

lemma did_encode [simp]:
  "did (lwm2m_data_encode_string mem s d) = did d" "did (lwm2m_data_encode_int v d) = did d"
  by (simp_all add: lwm2m_data_encode_string_def lwm2m_data_encode_int_def prv_setBuffer_def Let_def)

section \<open>Decoding values whose tag agrees with their content\<close>

lemma decode_int_defined: "tag_ok d \<Longrightarrow> lwm2m_data_decode_int cfg d \<noteq> None"
  by (cases "dtype d"; cases "dvalue d") (simp_all add: tag_ok_def lwm2m_data_decode_int_def)

lemma decode_bool_defined: "tag_ok d \<Longrightarrow> lwm2m_data_decode_bool d \<noteq> None"
  by (cases "dtype d"; cases "dvalue d") (simp_all add: tag_ok_def lwm2m_data_decode_bool_def)

lemma as_buffer_defined:
  "tag_ok d \<Longrightarrow> dtype d = LWM2M_TYPE_STRING \<or> dtype d = LWM2M_TYPE_OPAQUE \<Longrightarrow> as_buffer (dvalue d) \<noteq> None"
  by (cases "dvalue d") (auto simp: tag_ok_def)

lemma read_loop_defined:
  assumes "data \<noteq> []" and "\<And>d. get d \<noteq> None"
  shows "read_loop get data \<noteq> None"
  using assms(1)
proof (induction data)
  case (Cons d ds)
  obtain r d' where "get d = Some (r, d')" using assms(2) [of d] by auto
  with Cons show ?case by auto
qed simp

lemma instances_read_defined:
  assumes "\<And>t d. t \<in> set insts \<Longrightarrow> get t d \<noteq> None" and "ids \<noteq> []"
  shows "instances_read key ids get mem insts i data \<noteq> None"
proof -
  have "read_loop (get t) data' \<noteq> None"
    if "lwm2m_list_find key insts i = Some t" "data' \<noteq> []" for t data'
    using that(2) assms(1) find_Some [OF that(1)] by (intro read_loop_defined) blast+
  moreover have "data' \<noteq> []" if "new_resources mem ids = Some data'" for data'
    using length_new_resources [OF that] assms(2) by auto
  ultimately show ?thesis
    by (auto simp: instances_read_def split: option.split)
qed

section \<open>Every object whose write keeps the number\<close>

locale client_object =
  fixes key :: "'i \<Rightarrow> u16"
    and zero_instance :: "u16 \<Rightarrow> 'i"
    and set1 :: "'i \<Rightarrow> lwm2m_data \<Rightarrow> (u8 \<times> 'i) option"
  assumes key_zero: "key (zero_instance i) = i"
    and key_set1: "set1 t d = Some (r, t') \<Longrightarrow> key t' = key t"
begin

lemma key_write_loop: "write_loop set1 t data = Some (r, t') \<Longrightarrow> key t' = key t"
  by (erule write_loop_invariant [where P = "\<lambda>t'. key t' = key t"]) (simp_all add: key_set1)

lemma sorted_write:
  "ids_sorted key insts \<Longrightarrow> instances_write key set1 insts i data = Some (r, insts') \<Longrightarrow>
   ids_sorted key insts'"
  by (auto simp: instances_write_def split: option.splits)

lemma sorted_delete:
  "ids_sorted key insts \<Longrightarrow> ids_sorted key (snd (instances_delete key insts i))"
  using id_list.inv_remove [of key insts i]
  by (auto simp: instances_delete_def split: option.splits prod.splits)

lemma write_refines:
  assumes "ids_sorted key insts"
  shows "map_option (map_prod id (lwm2m_list_find key)) (instances_write key set1 insts i data) =
    map_write set1 (lwm2m_list_find key insts) i data"
proof (cases "lwm2m_list_find key insts i")
  case (Some t)
  then have t: "key t = i" by (rule id_list.find_key)
  have "lwm2m_list_find key (list_put key insts t') = (lwm2m_list_find key insts)(i \<mapsto> t')"
    if "write_loop set1 t data = Some (r, t')" for r t'
    using id_list.find_put [OF assms, of t' t] key_write_loop [OF that] Some t by (auto simp: fun_eq_iff)
  with Some show ?thesis
    by (cases "write_loop set1 t data") (auto simp: instances_write_def map_write_def)
qed (simp add: instances_write_def map_write_def)

lemma delete_refines:
  assumes "ids_sorted key insts"
  shows "map_prod id (lwm2m_list_find key) (instances_delete key insts i) =
    map_delete (lwm2m_list_find key insts) i"
  using id_list.removed [OF assms, of i] id_list.find_remove [OF assms, of i]
  by (cases "lwm2m_list_remove key insts i"; cases "lwm2m_list_find key insts i")
    (auto simp: instances_delete_def map_delete_def fun_eq_iff)

text \<open>Creating an instance leaves no trace when one of its resources is refused.\<close>

lemma create_eq:
  assumes "ids_sorted key insts" and "lwm2m_list_find key insts i = None"
  shows "instances_create key n zero_instance set1 mem insts i data =
    (if \<not> mem n then Some (COAP_500_INTERNAL_SERVER_ERROR, insts)
     else map_option
       (\<lambda>(r, t). if r = COAP_204_CHANGED then (COAP_201_CREATED, lwm2m_list_add key insts t) else (r, insts))
       (write_loop set1 (zero_instance i) data))"
proof -
  let ?z = "zero_instance i" and ?add = "lwm2m_list_add key insts"
  have absent: "lwm2m_list_find key insts (key ?z) = None"
    using assms by (simp add: key_zero)
  have found: "lwm2m_list_find key (?add ?z) i = Some ?z"
    using id_list.find_add [OF assms(1) absent, of i] by (simp add: key_zero)
  have undo: "lwm2m_list_remove key (list_put key (?add ?z) t) i = (insts, Some t)"
    and put: "list_put key (?add ?z) t = ?add t"
    if "write_loop set1 ?z data = Some (r, t)" for r t
  proof -
    have kt: "key t = key ?z" by (rule key_write_loop [OF that])
    then show "lwm2m_list_remove key (list_put key (?add ?z) t) i = (insts, Some t)"
      using id_list.remove_put_added [OF assms(1) absent kt] by (simp add: key_zero)
    have absent': "lwm2m_list_find key insts (key t) = None"
      using absent kt by simp
    show "list_put key (?add ?z) t = ?add t"
      using id_list.inv_add [OF assms(1) absent] id_list.inv_add [OF assms(1) absent']
        id_list.find_add [OF assms(1) absent] id_list.find_add [OF assms(1) absent'] kt
      by (intro id_list.extensional [of key]) (simp_all add: id_list.inv_put id_list.find_put)
  qed
  show ?thesis
    using found undo put
    by (cases "write_loop set1 ?z data")
      (auto simp: instances_create_def instances_write_def instances_delete_def)
qed

lemma sorted_create:
  assumes "ids_sorted key insts" and "lwm2m_list_find key insts i = None"
    and "instances_create key n zero_instance set1 mem insts i data = Some (r, insts')"
  shows "ids_sorted key insts'"
proof -
  have "ids_sorted key (lwm2m_list_add key insts t)"
    if "write_loop set1 (zero_instance i) data = Some (r, t)" for r t
    using id_list.inv_add [OF assms(1)] assms(2) key_write_loop [OF that] by (simp add: key_zero)
  then show ?thesis
    using assms by (auto simp: create_eq split: if_splits)
qed

lemma create_refines:
  assumes "ids_sorted key insts" and "lwm2m_list_find key insts i = None"
  shows "map_option (map_prod id (lwm2m_list_find key))
      (instances_create key n zero_instance set1 mem insts i data) =
    map_create (mem n) zero_instance set1 (lwm2m_list_find key insts) i data"
proof -
  have "lwm2m_list_find key (lwm2m_list_add key insts t) = (lwm2m_list_find key insts)(i \<mapsto> t)"
    if "write_loop set1 (zero_instance i) data = Some (r, t)" for r t
    using id_list.find_add [OF assms(1), of t] assms(2) key_write_loop [OF that]
    by (auto simp: key_zero fun_eq_iff)
  then show ?thesis
    by (cases "write_loop set1 (zero_instance i) data") (auto simp: create_eq [OF assms] map_create_def)
qed

end

section \<open>Objects that keep an invariant of their instances\<close>

text \<open>
  \<open>ok\<close> is the invariant of an instance, \<open>good\<close> what the object needs of the values it is given so
  that writing them never leaves the memory it may use.
\<close>

locale safe_object = client_object +
  fixes ok :: "'a \<Rightarrow> bool" and good :: "lwm2m_data \<Rightarrow> bool"
  assumes ok_zero: "ok (zero_instance i)"
    and ok_set1: "ok t \<Longrightarrow> set1 t d = Some (r, t') \<Longrightarrow> ok t'"
    and set1_defined: "good d \<Longrightarrow> set1 t d \<noteq> None"
begin

lemma write_safe:
  assumes "ids_sorted key insts" and "\<forall>t \<in> set insts. ok t"
    and "data \<noteq> []" and "\<forall>d \<in> set data. good d"
  shows "\<exists>r insts'. instances_write key set1 insts i data = Some (r, insts') \<and>
    ids_sorted key insts' \<and> (\<forall>t \<in> set insts'. ok t)"
proof (cases "lwm2m_list_find key insts i")
  case None
  with assms show ?thesis by (simp add: instances_write_def)
next
  case (Some t)
  have "ok t" using assms(2) find_Some [OF Some] by blast
  have "write_loop set1 t data \<noteq> None"
    using assms(3,4) set1_defined by (intro write_loop_total) auto
  then obtain r t' where w: "write_loop set1 t data = Some (r, t')" by auto
  have "ok t'"
    by (rule write_loop_invariant [OF w]) (use \<open>ok t\<close> ok_set1 in auto)
  then have "\<forall>x \<in> set (list_put key insts t'). ok x"
    using assms(2) set_list_put [of key insts t'] by auto
  with Some w assms(1) show ?thesis by (simp add: instances_write_def)
qed

lemma delete_safe:
  assumes "ids_sorted key insts" and "\<forall>t \<in> set insts. ok t"
  shows "ids_sorted key (snd (instances_delete key insts i)) \<and> (\<forall>t \<in> set (snd (instances_delete key insts i)). ok t)"
proof -
  have "set (fst (lwm2m_list_remove key insts i)) \<subseteq> set insts"
    using set_remove_after [of key insts i] by (simp add: list_remove_eq_after assms(1))
  then show ?thesis
    using assms(2) sorted_delete [OF assms(1), of i]
    by (auto simp: instances_delete_def split: prod.splits option.splits)
qed

lemma create_safe:
  assumes "ids_sorted key insts" and "\<forall>t \<in> set insts. ok t" and "lwm2m_list_find key insts i = None"
    and "data \<noteq> []" and "\<forall>d \<in> set data. good d"
  shows "\<exists>r insts'. instances_create key n zero_instance set1 mem insts i data = Some (r, insts') \<and>
    ids_sorted key insts' \<and> (\<forall>t \<in> set insts'. ok t)"
proof -
  have "write_loop set1 (zero_instance i) data \<noteq> None"
    using assms(4,5) set1_defined by (intro write_loop_total) auto
  then obtain r t where w: "write_loop set1 (zero_instance i) data = Some (r, t)" by auto
  have "ok t"
    by (rule write_loop_invariant [OF w]) (use ok_zero ok_set1 in auto)
  then have "\<forall>x \<in> set (lwm2m_list_add key insts t). ok x"
    using assms(2) by (auto simp: set_list_add)
  moreover have "ids_sorted key (lwm2m_list_add key insts t)"
    using id_list.inv_add [OF assms(1), of t] assms(3) key_write_loop [OF w] by (simp add: key_zero)
  ultimately show ?thesis
    using assms(1,2) w by (simp add: create_eq [OF assms(1,3)])
qed

end

end
