(* ===== verification/Server_Object.thy ===== *)
theory Server_Object
  imports Client_Object
begin

text \<open>
  The Server object of the client (\<^verbatim>\<open>lwm2m/src/object_server.c\<close>): the record of an instance, what
  each resource reads and writes, the calls of the core, and the construction and the copy of the
  object. The instances are a sorted list; the calls are those of \<^verbatim>\<open>Client_Object\<close>.
\<close>

section \<open>The record\<close>

record server_instance =
  s_instanceId :: u16
  s_shortServerId :: u16
  s_lifetime :: u32
  s_defaultMinPeriod :: u32
  s_defaultMaxPeriod :: u32
  s_disableTimeout :: u32
  s_storing :: bool
  s_binding :: bytes

definition sizeof_server_instance :: nat where "sizeof_server_instance = 40"

text \<open>\<^verbatim>\<open>memset(serverInstance, 0, sizeof(server_instance_t))\<close>, then its number.\<close>

definition zero_server :: "u16 \<Rightarrow> server_instance" where
  "zero_server i = \<lparr>s_instanceId = i, s_shortServerId = 0, s_lifetime = 0, s_defaultMinPeriod = 0,
     s_defaultMaxPeriod = 0, s_disableTimeout = 0, s_storing = False, s_binding = replicate 4 0\<rparr>"

abbreviation (input) LWM2M_SERVER_SHORT_ID_ID :: u16 where "LWM2M_SERVER_SHORT_ID_ID \<equiv> 0"
abbreviation (input) LWM2M_SERVER_LIFETIME_ID :: u16 where "LWM2M_SERVER_LIFETIME_ID \<equiv> 1"
abbreviation (input) LWM2M_SERVER_MIN_PERIOD_ID :: u16 where "LWM2M_SERVER_MIN_PERIOD_ID \<equiv> 2"
abbreviation (input) LWM2M_SERVER_MAX_PERIOD_ID :: u16 where "LWM2M_SERVER_MAX_PERIOD_ID \<equiv> 3"
abbreviation (input) LWM2M_SERVER_DISABLE_ID :: u16 where "LWM2M_SERVER_DISABLE_ID \<equiv> 4"
abbreviation (input) LWM2M_SERVER_TIMEOUT_ID :: u16 where "LWM2M_SERVER_TIMEOUT_ID \<equiv> 5"
abbreviation (input) LWM2M_SERVER_STORING_ID :: u16 where "LWM2M_SERVER_STORING_ID \<equiv> 6"
abbreviation (input) LWM2M_SERVER_BINDING_ID :: u16 where "LWM2M_SERVER_BINDING_ID \<equiv> 7"
abbreviation (input) LWM2M_SERVER_UPDATE_ID :: u16 where "LWM2M_SERVER_UPDATE_ID \<equiv> 8"

section \<open>Reading\<close>

definition server_get_value ::
  "allocator \<Rightarrow> server_instance \<Rightarrow> lwm2m_data \<Rightarrow> (u8 \<times> lwm2m_data) option" where
  "server_get_value mem t d =
     (let n = did d in
      if n = LWM2M_SERVER_SHORT_ID_ID
      then Some (COAP_205_CONTENT, lwm2m_data_encode_int (ucast (s_shortServerId t)) d)
      else if n = LWM2M_SERVER_LIFETIME_ID
      then Some (COAP_205_CONTENT, lwm2m_data_encode_int (ucast (s_lifetime t)) d)
      else if n = LWM2M_SERVER_MIN_PERIOD_ID
      then Some (COAP_205_CONTENT, lwm2m_data_encode_int (ucast (s_defaultMinPeriod t)) d)
      else if n = LWM2M_SERVER_MAX_PERIOD_ID
      then Some (COAP_205_CONTENT, lwm2m_data_encode_int (ucast (s_defaultMaxPeriod t)) d)
      else if n = LWM2M_SERVER_DISABLE_ID then Some (COAP_405_METHOD_NOT_ALLOWED, d)
      else if n = LWM2M_SERVER_TIMEOUT_ID
      then Some (COAP_205_CONTENT, lwm2m_data_encode_int (ucast (s_disableTimeout t)) d)
      else if n = LWM2M_SERVER_STORING_ID
      then Some (COAP_205_CONTENT, lwm2m_data_encode_bool (s_storing t) d)
      else if n = LWM2M_SERVER_BINDING_ID
      then map_option (\<lambda>s. (COAP_205_CONTENT, lwm2m_data_encode_string mem (Some s) d))
             (c_string (s_binding t))
      else if n = LWM2M_SERVER_UPDATE_ID then Some (COAP_405_METHOD_NOT_ALLOWED, d)
      else Some (COAP_404_NOT_FOUND, d))"

definition server_resList :: "u16 list" where
  "server_resList =
     [LWM2M_SERVER_SHORT_ID_ID, LWM2M_SERVER_LIFETIME_ID, LWM2M_SERVER_MIN_PERIOD_ID,
      LWM2M_SERVER_MAX_PERIOD_ID, LWM2M_SERVER_TIMEOUT_ID, LWM2M_SERVER_STORING_ID,
      LWM2M_SERVER_BINDING_ID]"

definition prv_server_read ::
  "allocator \<Rightarrow> server_instance list \<Rightarrow> u16 \<Rightarrow> lwm2m_data list \<Rightarrow> (u8 \<times> lwm2m_data list) option" where
  "prv_server_read mem = instances_read s_instanceId server_resList (server_get_value mem) mem"

definition server_discList :: "u16 list" where
  "server_discList =
     [LWM2M_SERVER_SHORT_ID_ID, LWM2M_SERVER_LIFETIME_ID, LWM2M_SERVER_MIN_PERIOD_ID,
      LWM2M_SERVER_MAX_PERIOD_ID, LWM2M_SERVER_DISABLE_ID, LWM2M_SERVER_TIMEOUT_ID,
      LWM2M_SERVER_STORING_ID, LWM2M_SERVER_BINDING_ID, LWM2M_SERVER_UPDATE_ID]"

definition prv_server_discover ::
  "allocator \<Rightarrow> lwm2m_data list \<Rightarrow> u8 \<times> lwm2m_data list" where
  "prv_server_discover mem data =
     (if data = [] then
        (case new_resources mem server_discList of
           None \<Rightarrow> (COAP_500_INTERNAL_SERVER_ERROR, data)
         | Some data \<Rightarrow> (COAP_205_CONTENT, data))
      else (if \<forall>d \<in> set data. did d \<in> set server_discList then COAP_205_CONTENT else COAP_404_NOT_FOUND, data))"

section \<open>Writing\<close>

text \<open>The new value of \<^verbatim>\<open>*data\<close> comes with the code.\<close>

definition prv_set_int_value :: "build \<Rightarrow> lwm2m_data \<Rightarrow> u32 \<Rightarrow> (u8 \<times> u32) option" where
  "prv_set_int_value cfg d old =
     (case lwm2m_data_decode_int cfg d of
        None \<Rightarrow> None
      | Some None \<Rightarrow> Some (COAP_400_BAD_REQUEST, old)
      | Some (Some v) \<Rightarrow>
          if 0 \<le> sint v \<and> sint v \<le> 0xFFFFFFFF then Some (COAP_204_CHANGED, ucast v)
          else Some (COAP_406_NOT_ACCEPTABLE, old))"

text \<open>\<^verbatim>\<open>strncmp(a, lit, n) == 0\<close> for the \<open>n\<close> bytes \<open>a\<close> and a literal without NUL.\<close>

fun strncmp_eq :: "bytes \<Rightarrow> bytes \<Rightarrow> bool" where
  "strncmp_eq [] lit \<longleftrightarrow> True"
| "strncmp_eq (c # cs) [] \<longleftrightarrow> c = 0"
| "strncmp_eq (c # cs) (l # ls) \<longleftrightarrow> c = l \<and> strncmp_eq cs ls"

text \<open>\<^verbatim>\<open>"U"\<close>, \<^verbatim>\<open>"UQ"\<close>, \<^verbatim>\<open>"S"\<close>, \<^verbatim>\<open>"SQ"\<close>, \<^verbatim>\<open>"US"\<close>, \<^verbatim>\<open>"UQS"\<close>\<close>

definition server_bindings :: "bytes list" where
  "server_bindings = [[0x55], [0x55, 0x51], [0x53], [0x53, 0x51], [0x55, 0x53], [0x55, 0x51, 0x53]]"

text \<open>\<^verbatim>\<open>dataArray[i].value.asBuffer\<close> is read only behind the test of the type.\<close>

definition server_write_binding :: "lwm2m_data \<Rightarrow> server_instance \<Rightarrow> (u8 \<times> server_instance) option" where
  "server_write_binding d t =
     (if dtype d = LWM2M_TYPE_STRING \<or> dtype d = LWM2M_TYPE_OPAQUE then
        (case as_buffer (dvalue d) of
           None \<Rightarrow> None
         | Some b \<Rightarrow>
             if length b > 0 \<and> length b \<le> 3 \<and> (\<exists>lit \<in> set server_bindings. strncmp_eq b lit)
             then Some (COAP_204_CHANGED,
                    t\<lparr>s_binding := strncpy_bytes b @ drop (length b) (s_binding t)\<rparr>)
             else Some (COAP_400_BAD_REQUEST, t))
      else Some (COAP_400_BAD_REQUEST, t))"

definition server_set1 ::
  "build \<Rightarrow> server_instance \<Rightarrow> lwm2m_data \<Rightarrow> (u8 \<times> server_instance) option" where
  "server_set1 cfg t d =
     (let n = did d in
      if n = LWM2M_SERVER_SHORT_ID_ID then
        map_option (\<lambda>(r, v).
            if r = COAP_204_CHANGED then
              (if 0 < v \<and> v \<le> 0xFFFF then (r, t\<lparr>s_shortServerId := ucast v\<rparr>)
               else (COAP_406_NOT_ACCEPTABLE, t))
            else (r, t))
          (prv_set_int_value cfg d (ucast (s_shortServerId t)))
      else if n = LWM2M_SERVER_LIFETIME_ID then
        map_option (\<lambda>(r, v). (r, t\<lparr>s_lifetime := v\<rparr>)) (prv_set_int_value cfg d (s_lifetime t))
      else if n = LWM2M_SERVER_MIN_PERIOD_ID then
        map_option (\<lambda>(r, v). (r, t\<lparr>s_defaultMinPeriod := v\<rparr>)) (prv_set_int_value cfg d (s_defaultMinPeriod t))
      else if n = LWM2M_SERVER_MAX_PERIOD_ID then
        map_option (\<lambda>(r, v). (r, t\<lparr>s_defaultMaxPeriod := v\<rparr>)) (prv_set_int_value cfg d (s_defaultMaxPeriod t))
      else if n = LWM2M_SERVER_DISABLE_ID then Some (COAP_405_METHOD_NOT_ALLOWED, t)
      else if n = LWM2M_SERVER_TIMEOUT_ID then
        map_option (\<lambda>(r, v). (r, t\<lparr>s_disableTimeout := v\<rparr>)) (prv_set_int_value cfg d (s_disableTimeout t))
      else if n = LWM2M_SERVER_STORING_ID then
        map_option (\<lambda>v. case v of
            Some v \<Rightarrow> (COAP_204_CHANGED, t\<lparr>s_storing := v\<rparr>)
          | None \<Rightarrow> (COAP_400_BAD_REQUEST, t)) (lwm2m_data_decode_bool d)
      else if n = LWM2M_SERVER_BINDING_ID then server_write_binding d t
      else if n = LWM2M_SERVER_UPDATE_ID then Some (COAP_405_METHOD_NOT_ALLOWED, t)
      else Some (COAP_404_NOT_FOUND, t))"

definition prv_server_write ::
  "build \<Rightarrow> server_instance list \<Rightarrow> u16 \<Rightarrow> lwm2m_data list \<Rightarrow> (u8 \<times> server_instance list) option" where
  "prv_server_write cfg = instances_write s_instanceId (server_set1 cfg)"

section \<open>Execute, delete, create\<close>

definition prv_server_execute :: "server_instance list \<Rightarrow> u16 \<Rightarrow> u16 \<Rightarrow> u8" where
  "prv_server_execute insts i resourceId =
     (case lwm2m_list_find s_instanceId insts i of
        None \<Rightarrow> COAP_404_NOT_FOUND
      | Some t \<Rightarrow>
          if resourceId = LWM2M_SERVER_DISABLE_ID then
            (if 0 < s_disableTimeout t then COAP_204_CHANGED else COAP_405_METHOD_NOT_ALLOWED)
          else if resourceId = LWM2M_SERVER_UPDATE_ID then COAP_204_CHANGED
          else COAP_405_METHOD_NOT_ALLOWED)"

definition prv_server_delete :: "server_instance list \<Rightarrow> u16 \<Rightarrow> u8 \<times> server_instance list" where
  "prv_server_delete = instances_delete s_instanceId"

definition prv_server_create ::
  "build \<Rightarrow> allocator \<Rightarrow> server_instance list \<Rightarrow> u16 \<Rightarrow> lwm2m_data list \<Rightarrow>
   (u8 \<times> server_instance list) option" where
  "prv_server_create cfg = instances_create s_instanceId sizeof_server_instance zero_server (server_set1 cfg)"

section \<open>Copy, construction, destruction\<close>

text \<open>\<^verbatim>\<open>strcpy(instanceDest->binding, instanceSrc->binding)\<close> after the record was copied.\<close>

definition server_copy_node :: "server_instance \<Rightarrow> server_instance option" where
  "server_copy_node t =
     map_option (\<lambda>s. t\<lparr>s_binding := s @ 0 # drop (Suc (length s)) (s_binding t)\<rparr>) (c_string (s_binding t))"

definition copy_server_object ::
  "(nat \<Rightarrow> bool) \<Rightarrow> server_instance list \<Rightarrow> (server_instance list \<times> server_instance list) option" where
  "copy_server_object ok insts = copy_nodes ok server_copy_node 0 insts"

text \<open>
  \<open>Some None\<close> is the null pointer. The copy of \<^verbatim>\<open>strlen(binding) + 1\<close> bytes into the four bytes of
  \<^verbatim>\<open>binding\<close> has no test of its length.
\<close>

definition get_server_object ::
  "allocator \<Rightarrow> int \<Rightarrow> bytes \<Rightarrow> int \<Rightarrow> bool \<Rightarrow> server_instance list option option" where
  "get_server_object mem serverId binding lifetime storing =
     (if \<not> mem sizeof_lwm2m_object then Some None
      else if \<not> mem sizeof_server_instance then Some None
      else if length binding + 1 > 4 then None
      else Some (Some (lwm2m_list_add s_instanceId []
        ((zero_server 0)\<lparr>s_shortServerId := of_int serverId, s_lifetime := of_int lifetime,
           s_storing := storing, s_binding := binding @ 0 # replicate (3 - length binding) 0\<rparr>))))"

fun clean_server_object :: "server_instance list \<Rightarrow> server_instance list" where
  "clean_server_object [] = []"
| "clean_server_object (x # xs) = clean_server_object xs"

section \<open>Every write keeps the number and the shape of the binding\<close>

text \<open>The binding is a string of at most three characters in its four bytes.\<close>

definition server_ok :: "server_instance \<Rightarrow> bool" where
  "server_ok t \<longleftrightarrow> length (s_binding t) = 4 \<and> s_binding t ! 3 = 0"

lemma server_id_cases:
  fixes n :: u16
  obtains "n = 0" | "n = 1" | "n = 2" | "n = 3" | "n = 4" | "n = 5" | "n = 6" | "n = 7" | "n = 8"
    | "n \<noteq> 0" "n \<noteq> 1" "n \<noteq> 2" "n \<noteq> 3" "n \<noteq> 4" "n \<noteq> 5" "n \<noteq> 6" "n \<noteq> 7" "n \<noteq> 8"
  by blast

text \<open>A write changes one field, or only the binding.\<close>

lemma server_set1_cases:
  assumes w: "server_set1 cfg t d = Some (r, t')"
  obtains "t' = t" | v where "t' = t\<lparr>s_shortServerId := v\<rparr>" | v where "t' = t\<lparr>s_lifetime := v\<rparr>"
    | v where "t' = t\<lparr>s_defaultMinPeriod := v\<rparr>" | v where "t' = t\<lparr>s_defaultMaxPeriod := v\<rparr>"
    | v where "t' = t\<lparr>s_disableTimeout := v\<rparr>" | v where "t' = t\<lparr>s_storing := v\<rparr>"
    | "server_write_binding d t = Some (r, t')"
proof (cases rule: server_id_cases [of "did d"])
  case 1
  with w have "t' = t \<or> (\<exists>v. t' = t\<lparr>s_shortServerId := v\<rparr>)"
    by (auto simp: server_set1_def split: if_splits prod.splits)
  with that(1,2) show thesis by blast
next
  case 2
  with w that(3) show thesis by (auto simp: server_set1_def)
next
  case 3
  with w that(4) show thesis by (auto simp: server_set1_def)
next
  case 4
  with w that(5) show thesis by (auto simp: server_set1_def)
next
  case 5
  with w that(1) show thesis by (simp add: server_set1_def)
next
  case 6
  with w that(6) show thesis by (auto simp: server_set1_def)
next
  case 7
  with w have "t' = t \<or> (\<exists>v. t' = t\<lparr>s_storing := v\<rparr>)"
    by (auto simp: server_set1_def split: option.splits)
  with that(1,7) show thesis by blast
next
  case 8
  with w that(8) show thesis by (simp add: server_set1_def)
next
  case 9
  with w that(1) show thesis by (simp add: server_set1_def)
next
  case 10
  with w that(1) show thesis by (simp add: server_set1_def)
qed

lemma server_set1_key:
  assumes "server_set1 cfg t d = Some (r, t')"
  shows "s_instanceId t' = s_instanceId t"
  using assms by (rule server_set1_cases) (auto simp: server_write_binding_def split: if_splits option.splits)

lemma server_write_binding_ok:
  assumes "server_ok t" and "server_write_binding d t = Some (r, t')"
  shows "server_ok t'"
proof -
  have "server_ok (t\<lparr>s_binding := strncpy_bytes b @ drop (length b) (s_binding t)\<rparr>)" if "length b \<le> 3" for b
    using that assms(1) by (simp add: server_ok_def nth_append)
  then show ?thesis
    using assms by (auto simp: server_write_binding_def split: if_splits option.splits)
qed

lemma server_ok_fields [simp]:
  "server_ok (t\<lparr>s_shortServerId := a\<rparr>) = server_ok t" "server_ok (t\<lparr>s_lifetime := b\<rparr>) = server_ok t"
  "server_ok (t\<lparr>s_defaultMinPeriod := b\<rparr>) = server_ok t" "server_ok (t\<lparr>s_storing := c\<rparr>) = server_ok t"
  "server_ok (t\<lparr>s_defaultMaxPeriod := b\<rparr>) = server_ok t" "server_ok (t\<lparr>s_disableTimeout := b\<rparr>) = server_ok t"
  by (simp_all add: server_ok_def)

lemma server_set1_ok:
  assumes "server_ok t" and "server_set1 cfg t d = Some (r, t')"
  shows "server_ok t'"
  by (rule server_set1_cases [OF assms(2)])
    (simp_all add: assms(1) server_write_binding_ok [OF assms(1)])

lemma server_zero_ok: "server_ok (zero_server i)"
  by (simp add: server_ok_def zero_server_def)

lemma prv_set_int_value_defined: "tag_ok d \<Longrightarrow> prv_set_int_value cfg d old \<noteq> None"
  using decode_int_defined [of d cfg] by (auto simp: prv_set_int_value_def split: option.split)

lemma server_write_binding_defined: "tag_ok d \<Longrightarrow> server_write_binding d t \<noteq> None"
  using as_buffer_defined [of d] by (auto simp: server_write_binding_def split: option.split)

lemma server_set1_defined:
  assumes "tag_ok d"
  shows "server_set1 cfg t d \<noteq> None"
  using prv_set_int_value_defined [OF assms, of cfg] decode_bool_defined [OF assms]
    server_write_binding_defined [OF assms, of t]
  by (cases rule: server_id_cases [of "did d"]) (simp_all add: server_set1_def)

lemma server_get_value_defined:
  assumes "server_ok t"
  shows "server_get_value mem t d \<noteq> None"
proof -
  have "s_binding t ! 3 \<in> set (s_binding t)"
    using assms by (intro nth_mem) (simp add: server_ok_def)
  then have "c_string (s_binding t) \<noteq> None"
    using assms by (simp add: server_ok_def c_string_def)
  then show ?thesis
    by (cases rule: server_id_cases [of "did d"]) (simp_all add: server_get_value_def)
qed

interpretation server_calls: safe_object s_instanceId zero_server "server_set1 cfg" server_ok tag_ok
  for cfg
  by unfold_locales
    (simp_all add: zero_server_def server_zero_ok [unfolded zero_server_def] server_set1_key
      server_set1_ok server_set1_defined del: not_None_eq)

lemma server_read_defined:
  assumes "\<forall>t \<in> set insts. server_ok t"
  shows "prv_server_read mem insts i data \<noteq> None"
  unfolding prv_server_read_def
  by (rule instances_read_defined) (use assms server_get_value_defined in \<open>auto simp: server_resList_def simp del: not_None_eq\<close>)

section \<open>Integer resources\<close>

text \<open>The integer resources with the numbers they accept.\<close>

definition server_int_limits :: "u16 \<Rightarrow> (int \<times> int) option" where
  "server_int_limits n =
     (if n = LWM2M_SERVER_SHORT_ID_ID then Some (1, 0xFFFF)
      else if n \<in> {LWM2M_SERVER_LIFETIME_ID, LWM2M_SERVER_MIN_PERIOD_ID, LWM2M_SERVER_MAX_PERIOD_ID,
        LWM2M_SERVER_TIMEOUT_ID} then Some (0, 0xFFFFFFFF) else None)"

lemma server_set1_int:
  assumes "server_int_limits (did d) = Some (lo, hi)" and "lwm2m_data_decode_int cfg d = Some (Some v)"
    and "did e = did d"
  shows "\<exists>t'. server_set1 cfg t d =
      Some (if lo \<le> sint v \<and> sint v \<le> hi then (COAP_204_CHANGED, t') else (COAP_406_NOT_ACCEPTABLE, t)) \<and>
    s_instanceId t' = s_instanceId t \<and>
    (lo \<le> sint v \<and> sint v \<le> hi \<longrightarrow>
      server_get_value mem t' e = Some (COAP_205_CONTENT, lwm2m_data_encode_int v e))"
proof (cases "did d = LWM2M_SERVER_SHORT_ID_ID")
  case True
  with assms(1) have lim: "lo = 1" "hi = 0xFFFF" by (simp_all add: server_int_limits_def)
  show ?thesis
  proof (cases "0 \<le> sint v \<and> sint v \<le> 0xFFFFFFFF")
    case range: True
    then have n: "sint v = int (unat v)" "unat v < 2 ^ 32" using sint_small [of v] by simp_all
    have "0 < (ucast v :: u32) \<and> (ucast v :: u32) \<le> 0xFFFF \<longleftrightarrow> 1 \<le> sint v \<and> sint v \<le> 0xFFFF"
      by (simp add: word_less_nat_alt word_le_nat_alt unat_narrow32 [OF n(2)] n(1) del: of_nat_unat) linarith
    moreover have "ucast (ucast (ucast v :: u32) :: u16) = v" if "sint v \<le> 0xFFFF"
      using that n by (intro ucast_u16_u32_back) (simp del: of_nat_unat)
    ultimately show ?thesis
      using True assms(2,3) range lim
      by (intro exI [of _ "t\<lparr>s_shortServerId := ucast (ucast v :: u32)\<rparr>"])
        (simp add: server_set1_def prv_set_int_value_def server_get_value_def)
  next
    case False
    with lim have out: "\<not> (lo \<le> sint v \<and> sint v \<le> hi)" by auto
    have "server_set1 cfg t d = Some (COAP_406_NOT_ACCEPTABLE, t)"
      using False True assms(2) by (auto simp: server_set1_def prv_set_int_value_def)
    with out show ?thesis by auto
  qed
next
  case False
  with assms(1) have lim: "lo = 0" "hi = 0xFFFFFFFF"
    and n: "did d = 1 \<or> did d = 2 \<or> did d = 3 \<or> did d = 5"
    by (auto simp: server_int_limits_def split: if_splits)
  have narrow: "ucast (ucast v :: u32) = v" if "0 \<le> sint v" "sint v \<le> 0xFFFFFFFF"
    using that by (intro ucast_u32_back sint_small) simp_all
  from n show ?thesis
  proof (elim disjE)
    assume "did d = 1"
    then show ?thesis using assms(2,3) lim narrow
      by (intro exI [of _ "t\<lparr>s_lifetime := ucast v\<rparr>"])
        (simp add: server_set1_def prv_set_int_value_def server_get_value_def)
  next
    assume "did d = 2"
    then show ?thesis using assms(2,3) lim narrow
      by (intro exI [of _ "t\<lparr>s_defaultMinPeriod := ucast v\<rparr>"])
        (simp add: server_set1_def prv_set_int_value_def server_get_value_def)
  next
    assume "did d = 3"
    then show ?thesis using assms(2,3) lim narrow
      by (intro exI [of _ "t\<lparr>s_defaultMaxPeriod := ucast v\<rparr>"])
        (simp add: server_set1_def prv_set_int_value_def server_get_value_def)
  next
    assume "did d = 5"
    then show ?thesis using assms(2,3) lim narrow
      by (intro exI [of _ "t\<lparr>s_disableTimeout := ucast v\<rparr>"])
        (simp add: server_set1_def prv_set_int_value_def server_get_value_def)
  qed
qed

section \<open>Properties\<close>

text \<open>
  C20: The Server object implements a map from instance numbers to records: a write changes the
  record it is for, a delete removes it, a create either adds the record made of all its values
  or, when one of them is refused, changes nothing.
\<close>

theorem server_object_refines:
  assumes "ids_sorted s_instanceId insts" and "lwm2m_list_find s_instanceId insts j = None"
  shows "map_option (map_prod id (lwm2m_list_find s_instanceId)) (prv_server_write cfg insts i data) =
      map_write (server_set1 cfg) (lwm2m_list_find s_instanceId insts) i data \<and>
    map_prod id (lwm2m_list_find s_instanceId) (prv_server_delete insts i) =
      map_delete (lwm2m_list_find s_instanceId insts) i \<and>
    map_option (map_prod id (lwm2m_list_find s_instanceId)) (prv_server_create cfg mem insts j data) =
      map_create (mem sizeof_server_instance) zero_server (server_set1 cfg)
        (lwm2m_list_find s_instanceId insts) j data"
  unfolding prv_server_write_def prv_server_delete_def prv_server_create_def
  by (simp only: server_calls.write_refines [OF assms(1)] server_calls.delete_refines [OF assms(1)]
      server_calls.create_refines [OF assms])

text \<open>The lifetime 5 is stored, the value for an unknown resource refused: nothing is created.\<close>

theorem server_object_refines_witness:
  "map_option (map_prod id (lwm2m_list_find s_instanceId))
     (prv_server_create client_build (\<lambda>n. True) [zero_server 0] 3
       [Data LWM2M_TYPE_INTEGER 1 (AsInteger 5), Data LWM2M_TYPE_INTEGER 40 (AsInteger 5)]) =
   Some (COAP_404_NOT_FOUND, [0 \<mapsto> zero_server 0])"
proof -
  have "ids_sorted s_instanceId [zero_server 0]" and "lwm2m_list_find s_instanceId [zero_server 0] 3 = None"
    by (simp_all add: zero_server_def)
  note refines = server_object_refines [OF this, THEN conjunct2, THEN conjunct2]
  have "lwm2m_list_find s_instanceId [zero_server 0] = [0 \<mapsto> zero_server 0]"
    by (auto simp: zero_server_def)
  then show ?thesis
    by (simp add: refines map_create_def server_set1_def prv_set_int_value_def lwm2m_data_decode_int_def)
qed

text \<open>
  The Server object is safe: as long as the values have the content their type says, no write,
  create or read leaves the memory it may use, the instances stay sorted, and every binding stays a
  terminated string in its four bytes.
\<close>

theorem server_object_safe:
  assumes "ids_sorted s_instanceId insts" and "\<forall>t \<in> set insts. server_ok t"
    and "data \<noteq> []" and "\<forall>d \<in> set data. tag_ok d" and "lwm2m_list_find s_instanceId insts j = None"
  shows "(\<exists>r insts'. prv_server_write cfg insts i data = Some (r, insts') \<and>
      ids_sorted s_instanceId insts' \<and> (\<forall>t \<in> set insts'. server_ok t)) \<and>
    (\<exists>r insts'. prv_server_create cfg mem insts j data = Some (r, insts') \<and>
      ids_sorted s_instanceId insts' \<and> (\<forall>t \<in> set insts'. server_ok t)) \<and>
    ids_sorted s_instanceId (snd (prv_server_delete insts i)) \<and>
    (\<forall>t \<in> set (snd (prv_server_delete insts i)). server_ok t) \<and>
    prv_server_read mem insts i query \<noteq> None"
  using server_calls.write_safe [where cfg = cfg and i = i, OF assms(1-4)]
    server_calls.create_safe [where cfg = cfg and n = sizeof_server_instance and mem = mem,
      OF assms(1,2,5,3,4)]
    server_calls.delete_safe [where i = i, OF assms(1,2)]
    server_read_defined [OF assms(2), of mem i query]
  unfolding prv_server_write_def prv_server_delete_def prv_server_create_def by blast

theorem server_object_safe_witness:
  "\<exists>r insts'. prv_server_write client_build [zero_server 0] 0 [Data LWM2M_TYPE_STRING 7 (AsBuffer [0x55, 0x51])] =
     Some (r, insts') \<and> ids_sorted s_instanceId insts' \<and> (\<forall>t \<in> set insts'. server_ok t)"
proof -
  have "ids_sorted s_instanceId [zero_server 0]" "\<forall>t \<in> set [zero_server 0]. server_ok t"
    "[Data LWM2M_TYPE_STRING 7 (AsBuffer [0x55, 0x51])] \<noteq> []"
    "\<forall>d \<in> set [Data LWM2M_TYPE_STRING 7 (AsBuffer [0x55, 0x51])]. tag_ok d"
    "lwm2m_list_find s_instanceId [zero_server 0] 1 = None"
    by (simp_all add: server_zero_ok tag_ok_def) (simp add: zero_server_def)
  from server_object_safe [OF this] show ?thesis by blast
qed

text \<open>
  An integer resource of the Server object that is written with a number in its range is
  changed and reads back as that number; with a number outside of it the write is refused with
  4.06 and changes nothing.
\<close>

theorem server_int_roundtrip:
  assumes "lwm2m_list_find s_instanceId insts i = Some t" and "server_int_limits (did d) = Some (lo, hi)"
    and "lwm2m_data_decode_int cfg d = Some (Some v)" and "did e = did d"
  shows "if lo \<le> sint v \<and> sint v \<le> hi
    then \<exists>insts'. prv_server_write cfg insts i [d] = Some (COAP_204_CHANGED, insts') \<and>
      prv_server_read mem insts' i [e] = Some (COAP_205_CONTENT, [lwm2m_data_encode_int v e])
    else prv_server_write cfg insts i [d] = Some (COAP_406_NOT_ACCEPTABLE, insts)"
proof -
  obtain t' where t': "server_set1 cfg t d =
      Some (if lo \<le> sint v \<and> sint v \<le> hi then (COAP_204_CHANGED, t') else (COAP_406_NOT_ACCEPTABLE, t))"
    "s_instanceId t' = s_instanceId t"
    "lo \<le> sint v \<and> sint v \<le> hi \<longrightarrow>
      server_get_value mem t' e = Some (COAP_205_CONTENT, lwm2m_data_encode_int v e)"
    using server_set1_int [OF assms(2-4)] by blast
  have key: "s_instanceId t = i" using find_Some [OF assms(1)] by simp
  have "lwm2m_list_find s_instanceId (list_put s_instanceId insts t') i = Some t'"
    using find_put [of s_instanceId insts t' t i] assms(1) key t'(2) by simp
  moreover have "list_put s_instanceId insts t = insts"
    by (rule list_put_found) (use assms(1) key in simp)
  ultimately show ?thesis
    using assms(1) t' by (simp add: prv_server_write_def instances_write_def prv_server_read_def instances_read_def)
qed

theorem server_int_roundtrip_witness:
  "\<exists>insts'. prv_server_write client_build [zero_server 0] 0 [Data LWM2M_TYPE_STRING 1 (AsBuffer [0x36, 0x30])] =
      Some (COAP_204_CHANGED, insts') \<and>
     prv_server_read (\<lambda>n. True) insts' 0 [Data LWM2M_TYPE_UNDEFINED 1 AsZero] =
      Some (COAP_205_CONTENT, [Data LWM2M_TYPE_INTEGER 1 (AsInteger 60)])"
proof -
  have "lwm2m_list_find s_instanceId [zero_server 0] 0 = Some (zero_server 0)"
    "server_int_limits (did (Data LWM2M_TYPE_STRING 1 (AsBuffer [0x36, 0x30]))) = Some (0, 0xFFFFFFFF)"
    "lwm2m_data_decode_int client_build (Data LWM2M_TYPE_STRING 1 (AsBuffer [0x36, 0x30])) = Some (Some 60)"
    "did (Data LWM2M_TYPE_UNDEFINED 1 AsZero) = did (Data LWM2M_TYPE_STRING 1 (AsBuffer [0x36, 0x30]))"
    by code_simp+
  from server_int_roundtrip [OF this, of "\<lambda>n. True"] show ?thesis
    by (simp add: lwm2m_data_encode_int_def set_value_def)
qed

text \<open>
  The limits of the Server object: binding \<^verbatim>\<open>UQS\<close> followed by binding \<^verbatim>\<open>S\<close> leaves \<^verbatim>\<open>SQS\<close>, which is no
  binding; a write that is refused keeps the values before the refused one; a write without
  values reads past its array; a binding of four characters overflows its array.
\<close>

theorem server_object_limits:
  "map_option (map s_binding \<circ> snd)
     (prv_server_write client_build [zero_server 0] 0
       [Data LWM2M_TYPE_STRING 7 (AsBuffer [0x55, 0x51, 0x53]), Data LWM2M_TYPE_STRING 7 (AsBuffer [0x53])]) =
     Some [[0x53, 0x51, 0x53, 0]] \<and>
   prv_server_write client_build [zero_server 0] 0
       [Data LWM2M_TYPE_INTEGER 1 (AsInteger 9), Data LWM2M_TYPE_INTEGER 4 (AsInteger 9)] =
     Some (COAP_405_METHOD_NOT_ALLOWED, [(zero_server 0)\<lparr>s_lifetime := 9\<rparr>]) \<and>
   prv_server_write client_build [zero_server 0] 0 [] = None \<and>
   get_server_object (\<lambda>n. True) 1 [0x55, 0x51, 0x53, 0x54] 300 False = None"
  by (simp add: prv_server_write_def instances_write_def server_set1_def prv_set_int_value_def
      lwm2m_data_decode_int_def zero_server_def server_write_binding_def server_bindings_def
      strncpy_bytes_def get_server_object_def)

end
