(* ===== verification/Security_Object.thy ===== *)
theory Security_Object
  imports Client_Object
begin

text \<open>
  The Security object of the client (\<^verbatim>\<open>lwm2m/src/object_security.c\<close>): the account of every
  server with its address and its keys. A pointer to a string or a key is \<open>None\<close> when it is null
  and otherwise the bytes of its allocation. Two instances that hold the same pointer are not told
  apart from two that hold equal bytes.
\<close>

section \<open>The record\<close>

record security_instance =
  x_instanceId :: u16
  x_uri :: "bytes option"
  x_isBootstrap :: bool
  x_securityMode :: u8
  x_publicIdentity :: "bytes option"
  x_publicIdLen :: u16
  x_serverPublicKey :: "bytes option"
  x_serverPublicKeyLen :: u16
  x_secretKey :: "bytes option"
  x_secretKeyLen :: u16
  x_smsSecurityMode :: u8
  x_smsParams :: "bytes option"
  x_smsParamsLen :: u16
  x_smsSecret :: "bytes option"
  x_smsSecretLen :: u16
  x_shortID :: u16
  x_clientHoldOffTime :: u32
  x_bootstrapServerAccountTimeout :: u32

definition sizeof_security_instance :: nat where "sizeof_security_instance = 120"

definition zero_security :: "u16 \<Rightarrow> security_instance" where
  "zero_security i = \<lparr>x_instanceId = i, x_uri = None, x_isBootstrap = False, x_securityMode = 0,
     x_publicIdentity = None, x_publicIdLen = 0, x_serverPublicKey = None, x_serverPublicKeyLen = 0,
     x_secretKey = None, x_secretKeyLen = 0, x_smsSecurityMode = 0, x_smsParams = None,
     x_smsParamsLen = 0, x_smsSecret = None, x_smsSecretLen = 0, x_shortID = 0,
     x_clientHoldOffTime = 0, x_bootstrapServerAccountTimeout = 0\<rparr>"

abbreviation (input) LWM2M_SECURITY_URI_ID :: u16 where "LWM2M_SECURITY_URI_ID \<equiv> 0"
abbreviation (input) LWM2M_SECURITY_BOOTSTRAP_ID :: u16 where "LWM2M_SECURITY_BOOTSTRAP_ID \<equiv> 1"
abbreviation (input) LWM2M_SECURITY_SECURITY_ID :: u16 where "LWM2M_SECURITY_SECURITY_ID \<equiv> 2"
abbreviation (input) LWM2M_SECURITY_PUBLIC_KEY_ID :: u16 where "LWM2M_SECURITY_PUBLIC_KEY_ID \<equiv> 3"
abbreviation (input) LWM2M_SECURITY_SERVER_PUBLIC_KEY_ID :: u16 where "LWM2M_SECURITY_SERVER_PUBLIC_KEY_ID \<equiv> 4"
abbreviation (input) LWM2M_SECURITY_SECRET_KEY_ID :: u16 where "LWM2M_SECURITY_SECRET_KEY_ID \<equiv> 5"
abbreviation (input) LWM2M_SECURITY_SMS_SECURITY_ID :: u16 where "LWM2M_SECURITY_SMS_SECURITY_ID \<equiv> 6"
abbreviation (input) LWM2M_SECURITY_SMS_KEY_PARAM_ID :: u16 where "LWM2M_SECURITY_SMS_KEY_PARAM_ID \<equiv> 7"
abbreviation (input) LWM2M_SECURITY_SMS_SECRET_KEY_ID :: u16 where "LWM2M_SECURITY_SMS_SECRET_KEY_ID \<equiv> 8"
abbreviation (input) LWM2M_SECURITY_SMS_SERVER_NUMBER_ID :: u16 where "LWM2M_SECURITY_SMS_SERVER_NUMBER_ID \<equiv> 9"
abbreviation (input) LWM2M_SECURITY_SHORT_SERVER_ID :: u16 where "LWM2M_SECURITY_SHORT_SERVER_ID \<equiv> 10"
abbreviation (input) LWM2M_SECURITY_HOLD_OFF_ID :: u16 where "LWM2M_SECURITY_HOLD_OFF_ID \<equiv> 11"
abbreviation (input) LWM2M_SECURITY_BOOTSTRAP_TIMEOUT_ID :: u16 where "LWM2M_SECURITY_BOOTSTRAP_TIMEOUT_ID \<equiv> 12"

abbreviation (input) LWM2M_SECURITY_MODE_PRE_SHARED_KEY :: u8 where "LWM2M_SECURITY_MODE_PRE_SHARED_KEY \<equiv> 0"
abbreviation (input) LWM2M_SECURITY_MODE_NONE :: u8 where "LWM2M_SECURITY_MODE_NONE \<equiv> 3"

section \<open>Reading\<close>

text \<open>The \<open>n\<close> bytes at a pointer.\<close>

definition read_block :: "bytes option \<Rightarrow> u16 \<Rightarrow> bytes option" where
  "read_block p n =
     (case p of
        None \<Rightarrow> if n = 0 then Some [] else None
      | Some b \<Rightarrow> if unat n \<le> length b then Some (take (unat n) b) else None)"

definition read_string_block :: "bytes option \<Rightarrow> bytes option option" where
  "read_string_block p = (case p of None \<Rightarrow> Some None | Some b \<Rightarrow> map_option Some (c_string b))"

definition get_key ::
  "allocator \<Rightarrow> bytes option \<Rightarrow> u16 \<Rightarrow> lwm2m_data \<Rightarrow> (u8 \<times> lwm2m_data) option" where
  "get_key mem p n d =
     map_option (\<lambda>b. (COAP_205_CONTENT, lwm2m_data_encode_opaque mem b d)) (read_block p n)"

definition security_get_value ::
  "allocator \<Rightarrow> security_instance \<Rightarrow> lwm2m_data \<Rightarrow> (u8 \<times> lwm2m_data) option" where
  "security_get_value mem t d =
     (let n = did d; int_value = (\<lambda>v. Some (COAP_205_CONTENT, lwm2m_data_encode_int v d)) in
      if n = LWM2M_SECURITY_URI_ID
      then map_option (\<lambda>s. (COAP_205_CONTENT, lwm2m_data_encode_string mem s d)) (read_string_block (x_uri t))
      else if n = LWM2M_SECURITY_BOOTSTRAP_ID
      then Some (COAP_205_CONTENT, lwm2m_data_encode_bool (x_isBootstrap t) d)
      else if n = LWM2M_SECURITY_SECURITY_ID then int_value (ucast (x_securityMode t))
      else if n = LWM2M_SECURITY_PUBLIC_KEY_ID then get_key mem (x_publicIdentity t) (x_publicIdLen t) d
      else if n = LWM2M_SECURITY_SERVER_PUBLIC_KEY_ID
      then get_key mem (x_serverPublicKey t) (x_serverPublicKeyLen t) d
      else if n = LWM2M_SECURITY_SECRET_KEY_ID then get_key mem (x_secretKey t) (x_secretKeyLen t) d
      else if n = LWM2M_SECURITY_SMS_SECURITY_ID then int_value (ucast (x_smsSecurityMode t))
      else if n = LWM2M_SECURITY_SMS_KEY_PARAM_ID then get_key mem (x_smsParams t) (x_smsParamsLen t) d
      else if n = LWM2M_SECURITY_SMS_SECRET_KEY_ID then get_key mem (x_smsSecret t) (x_smsSecretLen t) d
      else if n = LWM2M_SECURITY_SMS_SERVER_NUMBER_ID then int_value 0
      else if n = LWM2M_SECURITY_SHORT_SERVER_ID then int_value (ucast (x_shortID t))
      else if n = LWM2M_SECURITY_HOLD_OFF_ID then int_value (ucast (x_clientHoldOffTime t))
      else if n = LWM2M_SECURITY_BOOTSTRAP_TIMEOUT_ID
      then int_value (ucast (x_bootstrapServerAccountTimeout t))
      else Some (COAP_404_NOT_FOUND, d))"

definition security_resList :: "u16 list" where
  "security_resList =
     [LWM2M_SECURITY_URI_ID, LWM2M_SECURITY_BOOTSTRAP_ID, LWM2M_SECURITY_SECURITY_ID,
      LWM2M_SECURITY_PUBLIC_KEY_ID, LWM2M_SECURITY_SERVER_PUBLIC_KEY_ID, LWM2M_SECURITY_SECRET_KEY_ID,
      LWM2M_SECURITY_SMS_SECURITY_ID, LWM2M_SECURITY_SMS_KEY_PARAM_ID, LWM2M_SECURITY_SMS_SECRET_KEY_ID,
      LWM2M_SECURITY_SMS_SERVER_NUMBER_ID, LWM2M_SECURITY_SHORT_SERVER_ID, LWM2M_SECURITY_HOLD_OFF_ID,
      LWM2M_SECURITY_BOOTSTRAP_TIMEOUT_ID]"

definition prv_security_read ::
  "allocator \<Rightarrow> security_instance list \<Rightarrow> u16 \<Rightarrow> lwm2m_data list \<Rightarrow> (u8 \<times> lwm2m_data list) option" where
  "prv_security_read mem = instances_read x_instanceId security_resList (security_get_value mem) mem"

section \<open>Writing\<close>

text \<open>
  \<^verbatim>\<open>value.asBuffer\<close> is used whatever the type of the value is, and the allocation is cleared
  before the test for null: both are \<open>None\<close> when they go wrong. The new pointer, and the length as
  it is stored.
\<close>

definition set_uri :: "allocator \<Rightarrow> lwm2m_data \<Rightarrow> bytes option" where
  "set_uri mem d =
     (case as_buffer (dvalue d) of
        None \<Rightarrow> None
      | Some b \<Rightarrow> if mem (length b + 1) then Some (strncpy_bytes b @ [0]) else None)"

definition set_key :: "allocator \<Rightarrow> lwm2m_data \<Rightarrow> (bytes \<times> u16) option" where
  "set_key mem d =
     (case as_buffer (dvalue d) of
        None \<Rightarrow> None
      | Some b \<Rightarrow> if mem (length b + 1) then Some (b @ [0], of_nat (length b)) else None)"

text \<open>An integer from 0 to \<open>hi\<close>, stored by \<open>upd\<close>.\<close>

definition set_int ::
  "build \<Rightarrow> lwm2m_data \<Rightarrow> int \<Rightarrow> (u64 \<Rightarrow> security_instance) \<Rightarrow> security_instance \<Rightarrow>
   (u8 \<times> security_instance) option" where
  "set_int cfg d hi upd t =
     (case lwm2m_data_decode_int cfg d of
        None \<Rightarrow> None
      | Some None \<Rightarrow> Some (COAP_400_BAD_REQUEST, t)
      | Some (Some v) \<Rightarrow>
          if 0 \<le> sint v \<and> sint v \<le> hi then Some (COAP_204_CHANGED, upd v)
          else Some (COAP_406_NOT_ACCEPTABLE, t))"

definition security_set1 ::
  "build \<Rightarrow> allocator \<Rightarrow> security_instance \<Rightarrow> lwm2m_data \<Rightarrow> (u8 \<times> security_instance) option" where
  "security_set1 cfg mem t d =
     (let n = did d in
      if n = LWM2M_SECURITY_URI_ID
      then map_option (\<lambda>b. (COAP_204_CHANGED, t\<lparr>x_uri := Some b\<rparr>)) (set_uri mem d)
      else if n = LWM2M_SECURITY_BOOTSTRAP_ID then
        map_option (\<lambda>v. case v of
            Some v \<Rightarrow> (COAP_204_CHANGED, t\<lparr>x_isBootstrap := v\<rparr>)
          | None \<Rightarrow> (COAP_400_BAD_REQUEST, t)) (lwm2m_data_decode_bool d)
      else if n = LWM2M_SECURITY_SECURITY_ID
      then set_int cfg d 3 (\<lambda>v. t\<lparr>x_securityMode := ucast v\<rparr>) t
      else if n = LWM2M_SECURITY_PUBLIC_KEY_ID
      then map_option (\<lambda>(b, k). (COAP_204_CHANGED, t\<lparr>x_publicIdentity := Some b, x_publicIdLen := k\<rparr>))
             (set_key mem d)
      else if n = LWM2M_SECURITY_SERVER_PUBLIC_KEY_ID
      then map_option (\<lambda>(b, k). (COAP_204_CHANGED, t\<lparr>x_serverPublicKey := Some b, x_serverPublicKeyLen := k\<rparr>))
             (set_key mem d)
      else if n = LWM2M_SECURITY_SECRET_KEY_ID
      then map_option (\<lambda>(b, k). (COAP_204_CHANGED, t\<lparr>x_secretKey := Some b, x_secretKeyLen := k\<rparr>))
             (set_key mem d)
      else if n = LWM2M_SECURITY_SMS_SECURITY_ID then Some (COAP_204_CHANGED, t)
      else if n = LWM2M_SECURITY_SMS_KEY_PARAM_ID then Some (COAP_204_CHANGED, t)
      else if n = LWM2M_SECURITY_SMS_SECRET_KEY_ID then Some (COAP_204_CHANGED, t)
      else if n = LWM2M_SECURITY_SMS_SERVER_NUMBER_ID then Some (COAP_204_CHANGED, t)
      else if n = LWM2M_SECURITY_SHORT_SERVER_ID
      then set_int cfg d 0xFFFF (\<lambda>v. t\<lparr>x_shortID := ucast v\<rparr>) t
      else if n = LWM2M_SECURITY_HOLD_OFF_ID
      then set_int cfg d 0xFFFFFFFF (\<lambda>v. t\<lparr>x_clientHoldOffTime := ucast v\<rparr>) t
      else if n = LWM2M_SECURITY_BOOTSTRAP_TIMEOUT_ID
      then set_int cfg d 0xFFFFFFFF (\<lambda>v. t\<lparr>x_bootstrapServerAccountTimeout := ucast v\<rparr>) t
      else Some (COAP_400_BAD_REQUEST, t))"

definition prv_security_write ::
  "build \<Rightarrow> allocator \<Rightarrow> security_instance list \<Rightarrow> u16 \<Rightarrow> lwm2m_data list \<Rightarrow>
   (u8 \<times> security_instance list) option" where
  "prv_security_write cfg mem = instances_write x_instanceId (security_set1 cfg mem)"

definition prv_security_delete :: "security_instance list \<Rightarrow> u16 \<Rightarrow> u8 \<times> security_instance list" where
  "prv_security_delete = instances_delete x_instanceId"

definition prv_security_create ::
  "build \<Rightarrow> allocator \<Rightarrow> security_instance list \<Rightarrow> u16 \<Rightarrow> lwm2m_data list \<Rightarrow>
   (u8 \<times> security_instance list) option" where
  "prv_security_create cfg mem =
     instances_create x_instanceId sizeof_security_instance zero_security (security_set1 cfg mem) mem"

section \<open>Copy, construction, destruction\<close>

text \<open>\<^verbatim>\<open>lwm2m_strdup\<close>\<close>

definition lwm2m_strdup :: "allocator \<Rightarrow> bytes option \<Rightarrow> bytes option option" where
  "lwm2m_strdup mem p =
     (case p of
        None \<Rightarrow> Some None
      | Some b \<Rightarrow> map_option (\<lambda>s. if mem (length s + 1) then Some (s @ [0]) else None) (c_string b))"

text \<open>
  The lengths come with the record; the address is measured and copied without a test for null,
  and the keys of a pre-shared key account are copied as strings.
\<close>

definition security_copy_node :: "allocator \<Rightarrow> security_instance \<Rightarrow> security_instance option" where
  "security_copy_node mem t =
     do {
       uri \<leftarrow> x_uri t;
       s \<leftarrow> c_string uri;
       _ \<leftarrow> (if mem (length s + 1) then Some () else None);
       let t' = t\<lparr>x_uri := Some (s @ [0])\<rparr>;
       if x_securityMode t = LWM2M_SECURITY_MODE_PRE_SHARED_KEY
       then do {
         publicIdentity \<leftarrow> lwm2m_strdup mem (x_publicIdentity t);
         secretKey \<leftarrow> lwm2m_strdup mem (x_secretKey t);
         Some (t'\<lparr>x_publicIdentity := publicIdentity, x_secretKey := secretKey\<rparr>)
       }
       else Some t'
     }"

definition copy_security_object ::
  "(nat \<Rightarrow> bool) \<Rightarrow> allocator \<Rightarrow> security_instance list \<Rightarrow>
   (security_instance list \<times> security_instance list) option" where
  "copy_security_object ok mem insts = copy_nodes ok (security_copy_node mem) 0 insts"

fun clean_security_object :: "security_instance list \<Rightarrow> security_instance list" where
  "clean_security_object [] = []"
| "clean_security_object (x # xs) = clean_security_object xs"

text \<open>
  \<open>serverUri\<close> and \<open>bsPskId\<close> are strings, \<open>psk\<close> is the memory at the pointer. The allocation of the
  address is not tested; \<^verbatim>\<open>publicIdLen\<close> is set whether \<^verbatim>\<open>strdup\<close> succeeded or not.
\<close>

definition get_security_object ::
  "allocator \<Rightarrow> int \<Rightarrow> bytes \<Rightarrow> bytes option \<Rightarrow> bytes option \<Rightarrow> u16 \<Rightarrow> bool \<Rightarrow>
   security_instance list option option" where
  "get_security_object mem serverId serverUri bsPskId psk pskLen isBootstrap =
     (if \<not> mem sizeof_lwm2m_object then Some None
      else if \<not> mem sizeof_security_instance then Some None
      else if \<not> mem (length serverUri + 1) then None
      else
        let t = (zero_security 0)\<lparr>x_uri := Some (serverUri @ [0]), x_securityMode := LWM2M_SECURITY_MODE_NONE\<rparr>;
            finish = (\<lambda>t. lwm2m_list_add x_instanceId []
              (t\<lparr>x_isBootstrap := isBootstrap, x_shortID := of_int serverId, x_clientHoldOffTime := 10\<rparr>))
        in
        if bsPskId \<noteq> None \<or> psk \<noteq> None then
          let t = t\<lparr>x_securityMode := LWM2M_SECURITY_MODE_PRE_SHARED_KEY\<rparr>;
              t = (case bsPskId of
                     None \<Rightarrow> t
                   | Some s \<Rightarrow> t\<lparr>x_publicIdentity := if mem (length s + 1) then Some (s @ [0]) else None,
                                 x_publicIdLen := of_nat (length s)\<rparr>)
          in
          if pskLen > 0 then
            (if \<not> mem (unat pskLen) then Some None
             else map_option (\<lambda>b. Some (finish (t\<lparr>x_secretKey := Some b, x_secretKeyLen := pskLen\<rparr>)))
               (read_block psk pskLen))
          else Some (Some (finish t))
        else Some (Some (finish t)))"

definition get_server_uri ::
  "allocator \<Rightarrow> security_instance list \<Rightarrow> u16 \<Rightarrow> bytes option option" where
  "get_server_uri mem insts secObjInstID =
     (case lwm2m_list_find x_instanceId insts secObjInstID of
        None \<Rightarrow> Some None
      | Some t \<Rightarrow> lwm2m_strdup mem (x_uri t))"

section \<open>The invariant\<close>

text \<open>The address is terminated inside of its allocation, every key is at least as long as its length says.\<close>

definition key_ok :: "bytes option \<Rightarrow> u16 \<Rightarrow> bool" where
  "key_ok p n \<longleftrightarrow> read_block p n \<noteq> None"

definition security_ok :: "security_instance \<Rightarrow> bool" where
  "security_ok t \<longleftrightarrow> read_string_block (x_uri t) \<noteq> None \<and> x_securityMode t \<le> 3 \<and>
     key_ok (x_publicIdentity t) (x_publicIdLen t) \<and>
     key_ok (x_serverPublicKey t) (x_serverPublicKeyLen t) \<and> key_ok (x_secretKey t) (x_secretKeyLen t) \<and>
     key_ok (x_smsParams t) (x_smsParamsLen t) \<and> key_ok (x_smsSecret t) (x_smsSecretLen t)"

text \<open>What the values must be like for the write to be safe: the address and the keys are buffers that fit.\<close>

definition security_good :: "allocator \<Rightarrow> lwm2m_data \<Rightarrow> bool" where
  "security_good mem d \<longleftrightarrow> tag_ok d \<and>
     (did d \<in> {LWM2M_SECURITY_URI_ID, LWM2M_SECURITY_PUBLIC_KEY_ID, LWM2M_SECURITY_SERVER_PUBLIC_KEY_ID,
        LWM2M_SECURITY_SECRET_KEY_ID} \<longrightarrow>
      (\<exists>b. as_buffer (dvalue d) = Some b \<and> mem (length b + 1)))"

lemma security_id_cases:
  fixes n :: u16
  obtains "n = 0" | "n = 1" | "n = 2" | "n = 3" | "n = 4" | "n = 5" | "n = 10" | "n = 11" | "n = 12"
    | "n = 6 \<or> n = 7 \<or> n = 8 \<or> n = 9" "n \<noteq> 0" "n \<noteq> 1" "n \<noteq> 2" "n \<noteq> 3" "n \<noteq> 4" "n \<noteq> 5"
      "n \<noteq> 10" "n \<noteq> 11" "n \<noteq> 12"
    | "n \<noteq> 0" "n \<noteq> 1" "n \<noteq> 2" "n \<noteq> 3" "n \<noteq> 4" "n \<noteq> 5" "n \<noteq> 6" "n \<noteq> 7" "n \<noteq> 8" "n \<noteq> 9"
      "n \<noteq> 10" "n \<noteq> 11" "n \<noteq> 12"
  by blast

text \<open>A write stores the address, one key with its length, or a number in its range.\<close>

lemma set_int_Some:
  "set_int cfg d hi upd t = Some (r, t') \<Longrightarrow> t' = t \<or> (\<exists>v. 0 \<le> sint v \<and> sint v \<le> hi \<and> t' = upd v)"
  by (auto simp: set_int_def split: option.splits if_splits)

lemma security_set1_cases:
  assumes w: "security_set1 cfg mem t d = Some (r, t')"
  obtains "t' = t" | b where "set_uri mem d = Some b" "t' = t\<lparr>x_uri := Some b\<rparr>"
    | v where "t' = t\<lparr>x_isBootstrap := v\<rparr>"
    | v :: u64 where "0 \<le> sint v" "sint v \<le> 3" "t' = t\<lparr>x_securityMode := ucast v\<rparr>"
    | b k where "set_key mem d = Some (b, k)" "t' = t\<lparr>x_publicIdentity := Some b, x_publicIdLen := k\<rparr>"
    | b k where "set_key mem d = Some (b, k)" "t' = t\<lparr>x_serverPublicKey := Some b, x_serverPublicKeyLen := k\<rparr>"
    | b k where "set_key mem d = Some (b, k)" "t' = t\<lparr>x_secretKey := Some b, x_secretKeyLen := k\<rparr>"
    | v where "t' = t\<lparr>x_shortID := v\<rparr>" | v where "t' = t\<lparr>x_clientHoldOffTime := v\<rparr>"
    | v where "t' = t\<lparr>x_bootstrapServerAccountTimeout := v\<rparr>"
proof (cases rule: security_id_cases [of "did d"])
  case 1
  with w that(2) show thesis by (auto simp: security_set1_def)
next
  case 2
  with w have "t' = t \<or> (\<exists>v. t' = t\<lparr>x_isBootstrap := v\<rparr>)"
    by (auto simp: security_set1_def split: option.splits)
  with that(1,3) show thesis by blast
next
  case 3
  with w have "set_int cfg d 3 (\<lambda>v. t\<lparr>x_securityMode := ucast v\<rparr>) t = Some (r, t')"
    by (simp add: security_set1_def)
  from set_int_Some [OF this] that(1,4) show thesis by blast
next
  case 4
  with w that(5) show thesis by (auto simp: security_set1_def)
next
  case 5
  with w that(6) show thesis by (auto simp: security_set1_def)
next
  case 6
  with w that(7) show thesis by (auto simp: security_set1_def)
next
  case 7
  with w have "set_int cfg d 0xFFFF (\<lambda>v. t\<lparr>x_shortID := ucast v\<rparr>) t = Some (r, t')"
    by (simp add: security_set1_def)
  from set_int_Some [OF this] that(1,8) show thesis by blast
next
  case 8
  with w have "set_int cfg d 0xFFFFFFFF (\<lambda>v. t\<lparr>x_clientHoldOffTime := ucast v\<rparr>) t = Some (r, t')"
    by (simp add: security_set1_def)
  from set_int_Some [OF this] that(1,9) show thesis by blast
next
  case 9
  with w have "set_int cfg d 0xFFFFFFFF (\<lambda>v. t\<lparr>x_bootstrapServerAccountTimeout := ucast v\<rparr>) t = Some (r, t')"
    by (simp add: security_set1_def)
  from set_int_Some [OF this] that(1,10) show thesis by blast
next
  case 10
  with w that(1) show thesis by (auto simp: security_set1_def)
next
  case 11
  with w that(1) show thesis by (simp add: security_set1_def)
qed

lemma security_set1_key:
  assumes "security_set1 cfg mem t d = Some (r, t')"
  shows "x_instanceId t' = x_instanceId t"
  using assms by (rule security_set1_cases) simp_all

lemma set_uri_ok: "set_uri mem d = Some b \<Longrightarrow> read_string_block (Some b) \<noteq> None"
  by (auto simp: set_uri_def read_string_block_def c_string_def split: option.splits if_splits)

lemma set_key_ok:
  assumes "set_key mem d = Some (b, k)"
  shows "key_ok (Some b) k"
proof -
  from assms obtain c where "b = c @ [0]" "k = of_nat (length c)"
    by (auto simp: set_key_def split: option.splits if_splits)
  moreover have "unat (of_nat (length c) :: u16) \<le> length c"
    by (simp add: unsigned_of_nat take_bit_eq_mod)
  ultimately show ?thesis by (auto simp: key_ok_def read_block_def)
qed

lemma security_ok_fields [simp]:
  "security_ok (t\<lparr>x_isBootstrap := a\<rparr>) = security_ok t" "security_ok (t\<lparr>x_shortID := b\<rparr>) = security_ok t"
  "security_ok (t\<lparr>x_clientHoldOffTime := c\<rparr>) = security_ok t"
  "security_ok (t\<lparr>x_bootstrapServerAccountTimeout := c\<rparr>) = security_ok t"
  by (simp_all add: security_ok_def)

lemma security_mode_ok:
  assumes "0 \<le> sint (v :: u64)" and "sint v \<le> 3"
  shows "(ucast v :: u8) \<le> 3"
proof -
  have "sint v = int (unat v)" using assms by (intro sint_small) simp_all
  then have "unat v \<le> 3" using assms(2) by (simp del: of_nat_unat)
  then show ?thesis by (simp add: word_le_nat_alt unsigned_ucast_eq take_bit_nat_eq_self)
qed

lemma security_set1_ok:
  assumes "security_ok t" and "security_set1 cfg mem t d = Some (r, t')"
  shows "security_ok t'"
  using assms(2)
proof (rule security_set1_cases)
  fix v :: u64
  assume "0 \<le> sint v" "sint v \<le> 3" "t' = t\<lparr>x_securityMode := ucast v\<rparr>"
  then show ?thesis using assms(1) security_mode_ok [of v] by (simp add: security_ok_def)
qed (use assms(1) set_uri_ok set_key_ok in \<open>simp_all add: security_ok_def del: not_None_eq\<close>)

lemma security_zero_ok: "security_ok (zero_security i)"
  by (simp add: security_ok_def zero_security_def key_ok_def read_block_def read_string_block_def)

lemma set_int_defined: "tag_ok d \<Longrightarrow> set_int cfg d hi upd t \<noteq> None"
  using decode_int_defined [of d cfg] by (auto simp: set_int_def split: option.split)

lemma security_set1_defined:
  assumes "security_good mem d"
  shows "security_set1 cfg mem t d \<noteq> None"
proof -
  have t: "tag_ok d" using assms by (simp add: security_good_def)
  have b: "\<exists>b. as_buffer (dvalue d) = Some b \<and> mem (length b + 1)" if "did d \<in> {0, 3, 4, 5}"
    using assms that by (auto simp: security_good_def)
  show ?thesis
  proof (cases rule: security_id_cases [of "did d"])
    case 1
    with b show ?thesis by (auto simp: security_set1_def set_uri_def)
  next
    case 10
    then show ?thesis by (auto simp: security_set1_def)
  qed (use b set_int_defined [OF t] decode_bool_defined [OF t]
      in \<open>auto simp: security_set1_def set_key_def\<close>)
qed

interpretation security_calls: safe_object x_instanceId zero_security "security_set1 cfg mem"
    security_ok "security_good mem"
  for cfg mem
  by unfold_locales
    (simp_all add: zero_security_def security_zero_ok [unfolded zero_security_def] security_set1_key
      security_set1_ok security_set1_defined del: not_None_eq)

lemma security_get_value_defined:
  assumes "security_ok t"
  shows "security_get_value mem t d \<noteq> None"
  using assms
  by (cases rule: security_id_cases [of "did d"])
    (auto simp: security_get_value_def security_ok_def key_ok_def get_key_def)

lemma security_read_defined:
  assumes "\<forall>t \<in> set insts. security_ok t"
  shows "prv_security_read mem insts i data \<noteq> None"
  unfolding prv_security_read_def
  by (rule instances_read_defined) (use assms security_get_value_defined in \<open>auto simp: security_resList_def simp del: not_None_eq\<close>)

section \<open>Properties\<close>

text \<open>
  C26: The Security object is safe: while its values have the content their type says, its keys and
  its address are buffers and there is memory for them, no write, create or read leaves the memory
  it may use, the instances stay sorted, the addresses terminated and the keys as long as their
  lengths say.
\<close>

theorem security_object_safe:
  assumes "ids_sorted x_instanceId insts" and "\<forall>t \<in> set insts. security_ok t"
    and "data \<noteq> []" and "\<forall>d \<in> set data. security_good mem d"
    and "lwm2m_list_find x_instanceId insts j = None"
  shows "(\<exists>r insts'. prv_security_write cfg mem insts i data = Some (r, insts') \<and>
      ids_sorted x_instanceId insts' \<and> (\<forall>t \<in> set insts'. security_ok t)) \<and>
    (\<exists>r insts'. prv_security_create cfg mem insts j data = Some (r, insts') \<and>
      ids_sorted x_instanceId insts' \<and> (\<forall>t \<in> set insts'. security_ok t)) \<and>
    ids_sorted x_instanceId (snd (prv_security_delete insts i)) \<and>
    (\<forall>t \<in> set (snd (prv_security_delete insts i)). security_ok t) \<and>
    prv_security_read mem insts i query \<noteq> None"
  using security_calls.write_safe [where cfg = cfg and i = i, OF assms(1-4)]
    security_calls.create_safe [where cfg = cfg and n = sizeof_security_instance and mem = mem and mema = mem,
      OF assms(1,2,5,3,4)]
    security_calls.delete_safe [where i = i, OF assms(1,2)]
    security_read_defined [OF assms(2), of mem i query]
  unfolding prv_security_write_def prv_security_delete_def prv_security_create_def by blast

theorem security_object_safe_witness:
  "\<exists>r insts'. prv_security_create client_build (\<lambda>n. True) [zero_security 0] 1
      [Data LWM2M_TYPE_STRING 0 (AsBuffer [0x61, 0x62]), Data LWM2M_TYPE_OPAQUE 5 (AsBuffer [1, 0, 2])] =
     Some (r, insts') \<and> ids_sorted x_instanceId insts' \<and> (\<forall>t \<in> set insts'. security_ok t)"
proof -
  let ?data = "[Data LWM2M_TYPE_STRING 0 (AsBuffer [0x61, 0x62]), Data LWM2M_TYPE_OPAQUE 5 (AsBuffer [1, 0, 2])]"
  have "ids_sorted x_instanceId [zero_security 0]" "\<forall>t \<in> set [zero_security 0]. security_ok t"
    "?data \<noteq> []" "\<forall>d \<in> set ?data. security_good (\<lambda>n. True) d"
    "lwm2m_list_find x_instanceId [zero_security 0] 1 = None"
    by (simp_all add: security_zero_ok security_good_def tag_ok_def) (simp add: zero_security_def)
  from security_object_safe [OF this] show ?thesis by blast
qed

text \<open>
  A key of at most 65535 bytes that is written to an instance is stored and read back byte for
  byte.
\<close>

theorem security_key_roundtrip:
  assumes "lwm2m_list_find x_instanceId insts i = Some t"
    and "did d = LWM2M_SECURITY_PUBLIC_KEY_ID \<or> did d = LWM2M_SECURITY_SERVER_PUBLIC_KEY_ID \<or>
      did d = LWM2M_SECURITY_SECRET_KEY_ID"
    and "as_buffer (dvalue d) = Some b" and "length b < 2 ^ 16" and "mem (length b + 1)" and "did e = did d"
  shows "\<exists>insts'. prv_security_write cfg mem insts i [d] = Some (COAP_204_CHANGED, insts') \<and>
    prv_security_read mem insts' i [e] = Some (COAP_205_CONTENT, [lwm2m_data_encode_opaque mem b e])"
proof -
  have k: "set_key mem d = Some (b @ [0], of_nat (length b))"
    using assms(3,5) by (simp add: set_key_def)
  have r: "read_block (Some (b @ [0])) (of_nat (length b)) = Some b"
    using assms(4) by (simp add: read_block_def unsigned_of_nat take_bit_nat_eq_self)
  obtain t' where t': "security_set1 cfg mem t d = Some (COAP_204_CHANGED, t')"
    "x_instanceId t' = x_instanceId t"
    "security_get_value mem t' e = Some (COAP_205_CONTENT, lwm2m_data_encode_opaque mem b e)"
    using assms(2)
  proof (elim disjE)
    assume "did d = LWM2M_SECURITY_PUBLIC_KEY_ID"
    with k r assms(6) that [of "t\<lparr>x_publicIdentity := Some (b @ [0]), x_publicIdLen := of_nat (length b)\<rparr>"]
    show thesis by (simp add: security_set1_def security_get_value_def get_key_def)
  next
    assume "did d = LWM2M_SECURITY_SERVER_PUBLIC_KEY_ID"
    with k r assms(6) that [of "t\<lparr>x_serverPublicKey := Some (b @ [0]), x_serverPublicKeyLen := of_nat (length b)\<rparr>"]
    show thesis by (simp add: security_set1_def security_get_value_def get_key_def)
  next
    assume "did d = LWM2M_SECURITY_SECRET_KEY_ID"
    with k r assms(6) that [of "t\<lparr>x_secretKey := Some (b @ [0]), x_secretKeyLen := of_nat (length b)\<rparr>"]
    show thesis by (simp add: security_set1_def security_get_value_def get_key_def)
  qed
  have "lwm2m_list_find x_instanceId (list_put x_instanceId insts t') i = Some t'"
    using find_put [of x_instanceId insts t' t i] assms(1) find_Some [OF assms(1)] t'(2) by simp
  then show ?thesis
    using assms(1) t' by (simp add: prv_security_write_def instances_write_def prv_security_read_def instances_read_def)
qed

theorem security_key_roundtrip_witness:
  "\<exists>insts'. prv_security_write client_build (\<lambda>n. True) [zero_security 0] 0
      [Data LWM2M_TYPE_OPAQUE 5 (AsBuffer [1, 0, 2])] = Some (COAP_204_CHANGED, insts') \<and>
    prv_security_read (\<lambda>n. True) insts' 0 [Data LWM2M_TYPE_UNDEFINED 5 AsZero] =
      Some (COAP_205_CONTENT, [Data LWM2M_TYPE_OPAQUE 5 (AsBuffer [1, 0, 2])])"
proof -
  let ?d = "Data LWM2M_TYPE_OPAQUE 5 (AsBuffer [1, 0, 2])" and ?e = "Data LWM2M_TYPE_UNDEFINED 5 AsZero"
  have "lwm2m_list_find x_instanceId [zero_security 0] 0 = Some (zero_security 0)"
    "did ?d = LWM2M_SECURITY_PUBLIC_KEY_ID \<or> did ?d = LWM2M_SECURITY_SERVER_PUBLIC_KEY_ID \<or>
      did ?d = LWM2M_SECURITY_SECRET_KEY_ID"
    "as_buffer (dvalue ?d) = Some [1, 0, 2]" "length [1, 0, 2 :: u8] < 2 ^ 16"
    "(\<lambda>n. True) (length [1, 0, 2 :: u8] + 1)" "did ?e = did ?d"
    by (simp_all add: zero_security_def)
  from security_key_roundtrip [OF this, of client_build] show ?thesis
    by (simp add: lwm2m_data_encode_opaque_def prv_setBuffer_def set_type_def set_value_def)
qed

text \<open>
  The limits of the Security object: a key of 65537 bytes is stored with length 1; an address
  given as a number is read as a buffer; an allocation that fails is cleared through the null
  pointer; an instance without an address cannot be copied; the copy of a pre-shared key that
  holds a zero byte is shorter than its length, so that reading it overruns.
\<close>

theorem security_object_limits:
  "map_option snd (set_key (\<lambda>n. True) (Data LWM2M_TYPE_OPAQUE 5 (AsBuffer (replicate 65537 0)))) = Some 1 \<and>
   prv_security_write client_build (\<lambda>n. True) [zero_security 0] 0 [Data LWM2M_TYPE_INTEGER 0 (AsInteger 5)] = None \<and>
   prv_security_write client_build (\<lambda>n. False) [zero_security 0] 0 [Data LWM2M_TYPE_STRING 0 (AsBuffer [97])] = None \<and>
   copy_security_object (\<lambda>k. True) (\<lambda>n. True) [zero_security 0] = None \<and>
   (\<exists>t u. security_ok t \<and> copy_security_object (\<lambda>k. True) (\<lambda>n. True) [t] = Some ([u], []) \<and>
     prv_security_read (\<lambda>n. True) [u] 0 [Data LWM2M_TYPE_UNDEFINED 5 AsZero] = None)"
proof (intro conjI)
  let ?t = "(zero_security 0)\<lparr>x_uri := Some [97, 0], x_secretKey := Some [1, 0, 2, 0], x_secretKeyLen := 3\<rparr>"
  let ?u = "(zero_security 0)\<lparr>x_uri := Some [97, 0], x_secretKey := Some [1, 0], x_secretKeyLen := 3\<rparr>"
  have "security_ok ?t \<and> copy_security_object (\<lambda>k. True) (\<lambda>n. True) [?t] = Some ([?u], []) \<and>
     prv_security_read (\<lambda>n. True) [?u] 0 [Data LWM2M_TYPE_UNDEFINED 5 AsZero] = None"
    by (simp add: security_ok_def zero_security_def key_ok_def read_block_def read_string_block_def c_string_def
        copy_security_object_def security_copy_node_def lwm2m_strdup_def prv_security_read_def
        instances_read_def security_get_value_def get_key_def)
  then show "\<exists>t u. security_ok t \<and> copy_security_object (\<lambda>k. True) (\<lambda>n. True) [t] = Some ([u], []) \<and>
     prv_security_read (\<lambda>n. True) [u] 0 [Data LWM2M_TYPE_UNDEFINED 5 AsZero] = None" by blast
qed (simp_all add: set_key_def prv_security_write_def instances_write_def security_set1_def set_uri_def
    zero_security_def copy_security_object_def security_copy_node_def)

end
