(* ===== verification/Device_Object.thy ===== *)
theory Device_Object
  imports Client_Object Uri
begin

text \<open>
  The Device object of the client (\<^verbatim>\<open>lwm2m/src/object_device.c\<close>) with the Go function it reads from
  (\<^verbatim>\<open>lwm2m/callbacks_device.go\<close>). It has a single instance, number 0. The texts about the device
  come from snapd and are the record \<open>device_info\<close>, an argument of every call.
\<close>

section \<open>The Go side\<close>

record device_info =
  di_brand :: bytes
  di_model :: bytes
  di_serial :: bytes
  di_firmware :: bytes
  di_currentTime :: bytes
  di_utcOffset :: bytes
  di_timezone :: bytes
  di_software :: bytes

text \<open>\<^verbatim>\<open>C.CString\<close> copies the text and adds a terminator, so that C sees it up to its first NUL.\<close>

definition go_cstring :: "bytes \<Rightarrow> bytes" where
  "go_cstring s = takeWhile (\<lambda>c. c \<noteq> 0) s"

definition DeviceObjectRead :: "device_info \<Rightarrow> u16 \<Rightarrow> bytes" where
  "DeviceObjectRead o1 rid = go_cstring
     (if rid = 0 then di_brand o1
      else if rid = 1 then di_model o1
      else if rid = 2 then di_serial o1
      else if rid = 3 then di_firmware o1
      else if rid = 13 then di_currentTime o1
      else if rid = 14 then di_utcOffset o1
      else if rid = 15 then di_timezone o1
      else if rid = 19 then di_software o1
      else [])"

section \<open>\<open>strtol\<close> in base 10\<close>

text \<open>White space, a sign, the digits; the result is cut to the range of \<^verbatim>\<open>long\<close>.\<close>

definition digits_value :: "bytes \<Rightarrow> nat" where
  "digits_value s = foldl (\<lambda>v c. 10 * v + (unat c - 48)) 0 (takeWhile is_digit8 s)"

definition strtol :: "bytes \<Rightarrow> int" where
  "strtol s =
     (let s = dropWhile isspace s;
          v = (case s of
                 [] \<Rightarrow> 0
               | c # cs \<Rightarrow>
                   if c = 45 then - int (digits_value cs)
                   else if c = 43 then int (digits_value cs)
                   else int (digits_value s))
      in max (- (2 ^ 63)) (min (2 ^ 63 - 1) v))"

section \<open>The object\<close>

abbreviation (input) RES_O_MANUFACTURER :: u16 where "RES_O_MANUFACTURER \<equiv> 0"
abbreviation (input) RES_O_MODEL_NUMBER :: u16 where "RES_O_MODEL_NUMBER \<equiv> 1"
abbreviation (input) RES_O_SERIAL_NUMBER :: u16 where "RES_O_SERIAL_NUMBER \<equiv> 2"
abbreviation (input) RES_O_FIRMWARE_VERSION :: u16 where "RES_O_FIRMWARE_VERSION \<equiv> 3"
abbreviation (input) RES_M_REBOOT :: u16 where "RES_M_REBOOT \<equiv> 4"
abbreviation (input) RES_O_CURRENT_TIME :: u16 where "RES_O_CURRENT_TIME \<equiv> 13"
abbreviation (input) RES_O_UTC_OFFSET :: u16 where "RES_O_UTC_OFFSET \<equiv> 14"
abbreviation (input) RES_O_TIMEZONE :: u16 where "RES_O_TIMEZONE \<equiv> 15"
abbreviation (input) RES_M_BINDING_MODES :: u16 where "RES_M_BINDING_MODES \<equiv> 16"
abbreviation (input) RES_O_SOFTWARE_VERSION :: u16 where "RES_O_SOFTWARE_VERSION \<equiv> 19"

definition device_texts :: "u16 list" where
  "device_texts =
     [RES_O_MANUFACTURER, RES_O_MODEL_NUMBER, RES_O_SERIAL_NUMBER, RES_O_UTC_OFFSET, RES_O_TIMEZONE,
      RES_O_FIRMWARE_VERSION, RES_O_SOFTWARE_VERSION]"

definition device_set_value :: "allocator \<Rightarrow> device_info \<Rightarrow> lwm2m_data \<Rightarrow> u8 \<times> lwm2m_data" where
  "device_set_value mem info d =
     (if did d \<in> set device_texts
      then (COAP_205_CONTENT, lwm2m_data_encode_string mem (Some (DeviceObjectRead info (did d))) d)
      else if did d = RES_O_CURRENT_TIME
      then (COAP_205_CONTENT, lwm2m_data_encode_int (of_int (strtol (DeviceObjectRead info (did d)))) d)
      else if did d = RES_M_REBOOT then (COAP_405_METHOD_NOT_ALLOWED, d)
      else if did d = RES_M_BINDING_MODES
      then (COAP_205_CONTENT, lwm2m_data_encode_string mem (Some [0x55]) d)
      else (COAP_404_NOT_FOUND, d))"

definition device_resList :: "u16 list" where
  "device_resList =
     [RES_O_MANUFACTURER, RES_O_MODEL_NUMBER, RES_O_SERIAL_NUMBER, RES_O_FIRMWARE_VERSION,
      RES_O_CURRENT_TIME, RES_O_UTC_OFFSET, RES_O_TIMEZONE, RES_M_BINDING_MODES, RES_O_SOFTWARE_VERSION]"

definition prv_device_read ::
  "allocator \<Rightarrow> device_info \<Rightarrow> u16 \<Rightarrow> lwm2m_data list \<Rightarrow> (u8 \<times> lwm2m_data list) option" where
  "prv_device_read mem info i data =
     (if i \<noteq> 0 then Some (COAP_404_NOT_FOUND, data)
      else
        (case (if data = [] then new_resources mem device_resList else Some data) of
           None \<Rightarrow> Some (COAP_500_INTERNAL_SERVER_ERROR, data)
         | Some data \<Rightarrow> read_loop (\<lambda>d. Some (device_set_value mem info d)) data))"

text \<open>The write call fills the values it is given with what a read returns; it tests no instance.\<close>

definition prv_device_write ::
  "allocator \<Rightarrow> device_info \<Rightarrow> u16 \<Rightarrow> lwm2m_data list \<Rightarrow> (u8 \<times> lwm2m_data list) option" where
  "prv_device_write mem info i data =
     map_option (\<lambda>(result, data). (if result = COAP_205_CONTENT then COAP_204_CHANGED else result, data))
       (read_loop (\<lambda>d. Some (device_set_value mem info d)) data)"

definition device_discList :: "u16 list" where
  "device_discList =
     [RES_O_MANUFACTURER, RES_O_MODEL_NUMBER, RES_O_SERIAL_NUMBER, RES_M_BINDING_MODES, RES_M_REBOOT]"

definition prv_device_discover :: "allocator \<Rightarrow> u16 \<Rightarrow> lwm2m_data list \<Rightarrow> u8 \<times> lwm2m_data list" where
  "prv_device_discover mem i data =
     (if i \<noteq> 0 then (COAP_404_NOT_FOUND, data)
      else if data = [] then
        (case new_resources mem device_discList of
           None \<Rightarrow> (COAP_500_INTERNAL_SERVER_ERROR, data)
         | Some data \<Rightarrow> (COAP_205_CONTENT, data))
      else (if \<forall>d \<in> set data. did d \<in> set device_discList then COAP_205_CONTENT else COAP_404_NOT_FOUND, data))"

definition prv_device_execute :: "u16 \<Rightarrow> u16 \<Rightarrow> int \<Rightarrow> u8" where
  "prv_device_execute i rid len =
     (if i \<noteq> 0 then COAP_404_NOT_FOUND
      else if len \<noteq> 0 then COAP_400_BAD_REQUEST
      else if rid = RES_M_REBOOT then COAP_204_CHANGED
      else COAP_405_METHOD_NOT_ALLOWED)"

text \<open>The instances of the new object; \<open>None\<close> is the null pointer.\<close>

definition get_object_device :: "allocator \<Rightarrow> u16 list option" where
  "get_object_device mem =
     (if \<not> mem sizeof_lwm2m_object then None else if \<not> mem 16 then None else Some [0])"

section \<open>Properties\<close>

text \<open>
  A read of the whole Device instance returns its nine readable resources in order, each with
  the value that a read of this resource alone returns, and no read runs outside of its array.
\<close>

theorem device_full_read:
  assumes "mem (length device_resList * sizeof_lwm2m_data)"
  shows "\<exists>values. prv_device_read mem info 0 [] = Some (COAP_205_CONTENT, values) \<and>
    map did values = device_resList \<and>
    (\<forall>d \<in> set values. prv_device_read mem info 0 [Data LWM2M_TYPE_UNDEFINED (did d) AsZero] =
      Some (COAP_205_CONTENT, [d]))"
proof -
  let ?new = "map (\<lambda>i. Data LWM2M_TYPE_UNDEFINED i AsZero) device_resList"
  let ?val = "\<lambda>d. snd (device_set_value mem info d)"
  have ids: "did (?val d) = did d" for d
    by (simp add: device_set_value_def did_encode)
  have content: "device_set_value mem info d = (COAP_205_CONTENT, ?val d)" if "did d \<in> set device_resList" for d
    using that unfolding device_resList_def
    by (auto simp: device_set_value_def device_texts_def)
  have loop: "read_loop (\<lambda>d. Some (device_set_value mem info d)) ds = Some (COAP_205_CONTENT, map ?val ds)"
    if "ds \<noteq> []" "set (map did ds) \<subseteq> set device_resList" for ds
    using that content by (intro read_loop_all) auto
  have new: "new_resources mem device_resList = Some ?new"
    using assms by (intro new_resources_eq) (simp_all add: device_resList_def)
  have "prv_device_read mem info 0 [] = Some (COAP_205_CONTENT, map ?val ?new)"
    using loop [of ?new] by (simp add: prv_device_read_def new o_def) (simp add: device_resList_def)
  moreover have "map did (map ?val ?new) = device_resList"
    by (simp add: ids o_def)
  moreover have "prv_device_read mem info 0 [Data LWM2M_TYPE_UNDEFINED (did d) AsZero] = Some (COAP_205_CONTENT, [d])"
    if "d \<in> set (map ?val ?new)" for d
  proof -
    from that obtain i where i: "i \<in> set device_resList" "d = ?val (Data LWM2M_TYPE_UNDEFINED i AsZero)"
      by auto
    then have "did d = i" by (simp add: ids)
    then show ?thesis
      using loop [of "[Data LWM2M_TYPE_UNDEFINED i AsZero]"] i by (simp add: prv_device_read_def)
  qed
  ultimately show ?thesis by blast
qed

theorem device_full_read_witness:
  "\<exists>values. prv_device_read (\<lambda>n. True) \<lparr>di_brand = [65], di_model = [66], di_serial = [], di_firmware = [],
      di_currentTime = [49, 50], di_utcOffset = [], di_timezone = [], di_software = []\<rparr> 0 [] =
      Some (COAP_205_CONTENT, values) \<and> map did values = device_resList"
  using device_full_read [of "\<lambda>n. True", OF TrueI] by blast

end
