(* ===== verification/Snap_Objects.thy ===== *)
theory Snap_Objects
  imports Client_Object
begin

text \<open>
  The two objects for the snaps of the device: one with an instance per snap
  (\<^verbatim>\<open>lwm2m/src/object_snap.c\<close>) and one that lists, installs and controls them
  (\<^verbatim>\<open>lwm2m/src/object_snap_control.c\<close>), with the Go functions they call
  (\<^verbatim>\<open>lwm2m/callbacks_snap.go\<close>).

  The snaps that snapd reports are a list of records, an argument of every call; what the Go side
  asks of snapd is returned as an action. \<open>None\<close> is undefined behaviour of C or a panic of Go.
  A call that runs or reads a string takes the memory at the pointer, which may be longer than the
  length the call is given.
\<close>

section \<open>The Go side\<close>

text \<open>Dates and sizes are the texts the Go code formats them to.\<close>

record snap =
  sn_name :: bytes
  sn_description :: bytes
  sn_summary :: bytes
  sn_confinement :: bytes
  sn_developer :: bytes
  sn_installDate :: bytes
  sn_installedSize :: bytes
  sn_status :: bytes
  sn_version :: bytes
  sn_revision :: bytes
  sn_devMode :: bool

datatype snap_action =
    Install bytes
  | Uninstall bytes
  | Refresh bytes
  | Remove bytes
  | Revert bytes
  | Enable bytes
  | Disable bytes

text \<open>\<^verbatim>\<open>C.CString\<close>\<close>

definition go_text :: "bytes \<Rightarrow> bytes" where
  "go_text s = takeWhile (\<lambda>c. c \<noteq> 0) s"

definition GetSnapCount :: "snap list \<Rightarrow> nat" where
  "GetSnapCount snaps = length snaps"

text \<open>The text \<^verbatim>\<open>"true"\<close> of the last case is overwritten by \<^verbatim>\<open>"false"\<close>.\<close>

definition snap_text :: "snap \<Rightarrow> u16 \<Rightarrow> bytes" where
  "snap_text s rid =
     (if rid = 0 then sn_name s
      else if rid = 1 then sn_summary s
      else if rid = 2 then sn_confinement s
      else if rid = 3 then sn_developer s
      else if rid = 4 then sn_installDate s
      else if rid = 5 then sn_installedSize s
      else if rid = 6 then sn_status s
      else if rid = 7 then sn_version s
      else if rid = 8 then sn_revision s
      else if rid = 9 then [0x66, 0x61, 0x6C, 0x73, 0x65]
      else [])"

text \<open>\<open>Some None\<close> is the null pointer. A number equal to the count passes the test and panics.\<close>

definition SnapInstanceRead :: "snap list \<Rightarrow> u16 \<Rightarrow> u16 \<Rightarrow> bytes option option" where
  "SnapInstanceRead snaps i rid =
     (if unat i > length snaps then Some None
      else map_option (\<lambda>s. Some (go_text (snap_text s rid))) (rd snaps (unat i)))"

definition SnapInstanceExecute :: "snap list \<Rightarrow> u16 \<Rightarrow> u16 \<Rightarrow> snap_action option option" where
  "SnapInstanceExecute snaps i rid =
     (if unat i > length snaps then Some None
      else map_option (\<lambda>s.
          let n = sn_name s in
          if rid = 11 then Some (Refresh n)
          else if rid = 12 then Some (Remove n)
          else if rid = 13 then Some (Revert n)
          else if rid = 14 then Some (Enable n)
          else if rid = 15 then Some (Disable n)
          else None) (rd snaps (unat i)))"

definition encodeSnap :: "snap \<Rightarrow> bytes" where
  "encodeSnap s = sn_name s @ [0x7C] @ sn_description s @ [0x7C] @ sn_summary s @ [0x7C] @ sn_version s @ [0x7C] @ sn_status s"

definition SnapDelimited :: "snap list \<Rightarrow> nat \<Rightarrow> bytes option option" where
  "SnapDelimited snaps i =
     (if i > length snaps then Some None else map_option (\<lambda>s. Some (go_text (encodeSnap s))) (rd snaps i))"

definition SnapExecute :: "u16 \<Rightarrow> bytes \<Rightarrow> snap_action option" where
  "SnapExecute action snapName =
     (if action = 10 then Some (Install snapName)
      else if action = 11 then Some (Uninstall snapName)
      else if action = 12 then Some (Refresh snapName)
      else if action = 13 then Some (Revert snapName)
      else if action = 14 then Some (Enable snapName)
      else if action = 15 then Some (Disable snapName)
      else None)"

section \<open>One instance per snap\<close>

text \<open>A node is its number. With several resources asked for, only the first is filled.\<close>

definition encode_snap_value ::
  "allocator \<Rightarrow> snap list \<Rightarrow> u16 \<Rightarrow> lwm2m_data \<Rightarrow> lwm2m_data option" where
  "encode_snap_value mem snaps i d =
     map_option (\<lambda>s. lwm2m_data_encode_string mem s d) (SnapInstanceRead snaps i (did d))"

fun encode_snap_values ::
  "allocator \<Rightarrow> snap list \<Rightarrow> u16 \<Rightarrow> lwm2m_data list \<Rightarrow> lwm2m_data list option" where
  "encode_snap_values mem snaps i [] = Some []"
| "encode_snap_values mem snaps i (d # ds) =
     (case encode_snap_value mem snaps i d of
        None \<Rightarrow> None
      | Some d \<Rightarrow> map_option (\<lambda>ds. d # ds) (encode_snap_values mem snaps i ds))"

definition snap_resList :: "u16 list" where
  "snap_resList = [0, 1, 2, 3, 4, 5, 6, 7, 8, 9]"

definition prv_snap_read ::
  "allocator \<Rightarrow> snap list \<Rightarrow> u16 list \<Rightarrow> u16 \<Rightarrow> lwm2m_data list \<Rightarrow> (u8 \<times> lwm2m_data list) option" where
  "prv_snap_read mem snaps insts i data =
     (case lwm2m_list_find id insts i of
        None \<Rightarrow> Some (COAP_404_NOT_FOUND, data)
      | Some _ \<Rightarrow>
          (case data of
             [] \<Rightarrow>
               (case new_resources mem snap_resList of
                  None \<Rightarrow> Some (COAP_500_INTERNAL_SERVER_ERROR, data)
                | Some data \<Rightarrow>
                    map_option (\<lambda>ds. (COAP_205_CONTENT, ds)) (encode_snap_values mem snaps i data))
           | d # ds \<Rightarrow>
               map_option (\<lambda>d. (COAP_205_CONTENT, d # ds)) (encode_snap_value mem snaps i d)))"

definition prv_snap_write ::
  "allocator \<Rightarrow> snap list \<Rightarrow> u16 list \<Rightarrow> u16 \<Rightarrow> lwm2m_data list \<Rightarrow> (u8 \<times> lwm2m_data list) option" where
  "prv_snap_write mem snaps insts i data =
     (case lwm2m_list_find id insts i of
        None \<Rightarrow> Some (COAP_404_NOT_FOUND, data)
      | Some _ \<Rightarrow> map_option (\<lambda>ds. (COAP_204_CHANGED, ds)) (encode_snap_values mem snaps i data))"

text \<open>The entries of a new array keep the number 0.\<close>

definition prv_snap_discover :: "allocator \<Rightarrow> lwm2m_data list \<Rightarrow> u8 \<times> lwm2m_data list" where
  "prv_snap_discover mem data =
     (if data = [] then
        (case lwm2m_data_new mem 10 of
           None \<Rightarrow> (COAP_500_INTERNAL_SERVER_ERROR, data)
         | Some data \<Rightarrow> (COAP_205_CONTENT, data))
      else (COAP_205_CONTENT, data))"

definition prv_snap_delete :: "u16 list \<Rightarrow> u16 \<Rightarrow> u8 \<times> u16 list" where
  "prv_snap_delete = instances_delete id"

text \<open>The parameter is printed as a string: its memory must hold a NUL, and it must not be null.\<close>

definition prv_snap_exec ::
  "snap list \<Rightarrow> u16 list \<Rightarrow> u16 \<Rightarrow> u16 \<Rightarrow> bytes option \<Rightarrow> (u8 \<times> snap_action option) option" where
  "prv_snap_exec snaps insts i rid buffer =
     (if lwm2m_list_find id insts i = None then Some (COAP_404_NOT_FOUND, None)
      else if rid \<in> {11, 12, 13, 14, 15} then
        (case SnapInstanceExecute snaps i rid of
           None \<Rightarrow> None
         | Some action \<Rightarrow>
             (case buffer of
                None \<Rightarrow> None
              | Some b \<Rightarrow> map_option (\<lambda>s. (COAP_204_CHANGED, action)) (c_string b)))
      else Some (COAP_405_METHOD_NOT_ALLOWED, None))"

text \<open>One node for each snap, numbered in order; a failed allocation gives up the object.\<close>

fun add_snaps :: "nat \<Rightarrow> nat \<Rightarrow> u16 list \<Rightarrow> u16 list" where
  "add_snaps k 0 insts = insts"
| "add_snaps k (Suc n) insts = add_snaps (Suc k) n (lwm2m_list_add id insts (of_nat k))"

definition get_snap_object :: "allocator \<Rightarrow> snap list \<Rightarrow> u16 list option" where
  "get_snap_object mem snaps =
     (if \<not> mem sizeof_lwm2m_object then None
      else if GetSnapCount snaps > 0 \<and> \<not> mem 16 then None
      else Some (add_snaps 0 (GetSnapCount snaps) []))"

section \<open>The control object\<close>

text \<open>\<^verbatim>\<open>lwm2m_data_new(count)\<close> is not tested: without memory the loop writes through the null pointer.\<close>

fun delimited_values :: "allocator \<Rightarrow> snap list \<Rightarrow> nat \<Rightarrow> lwm2m_data list \<Rightarrow> lwm2m_data list option" where
  "delimited_values mem snaps k [] = Some []"
| "delimited_values mem snaps k (d # ds) =
     (case SnapDelimited snaps k of
        None \<Rightarrow> None
      | Some s \<Rightarrow>
          map_option (\<lambda>ds. lwm2m_data_encode_string mem s (set_id (of_nat k) d) # ds)
            (delimited_values mem snaps (Suc k) ds))"

definition control_set_value :: "allocator \<Rightarrow> snap list \<Rightarrow> lwm2m_data \<Rightarrow> (u8 \<times> lwm2m_data) option" where
  "control_set_value mem snaps d =
     (if did d = 0 then Some (COAP_205_CONTENT, lwm2m_data_encode_int (of_nat (GetSnapCount snaps)) d)
      else if did d = 1 then
        (case lwm2m_data_new mem (int (GetSnapCount snaps)) of
           None \<Rightarrow>
             if GetSnapCount snaps = 0 then Some (COAP_205_CONTENT, lwm2m_data_encode_instances [] d) else None
         | Some sub \<Rightarrow>
             map_option (\<lambda>sub. (COAP_205_CONTENT, lwm2m_data_encode_instances sub d))
               (delimited_values mem snaps 0 sub))
      else if did d = 2 then Some (COAP_205_CONTENT, d)
      else Some (COAP_404_NOT_FOUND, d))"

definition prv_control_read ::
  "allocator \<Rightarrow> snap list \<Rightarrow> u16 \<Rightarrow> lwm2m_data list \<Rightarrow> (u8 \<times> lwm2m_data list) option" where
  "prv_control_read mem snaps i data =
     (if i \<noteq> 0 then Some (COAP_404_NOT_FOUND, data)
      else
        (case (if data = [] then new_resources mem [0, 1] else Some data) of
           None \<Rightarrow> Some (COAP_500_INTERNAL_SERVER_ERROR, data)
         | Some data \<Rightarrow> read_loop (control_set_value mem snaps) data))"

definition prv_control_discover :: "allocator \<Rightarrow> lwm2m_data list \<Rightarrow> u8 \<times> lwm2m_data list" where
  "prv_control_discover mem data =
     (if data = [] then
        (case new_resources mem [0, 1] of
           None \<Rightarrow> (COAP_500_INTERNAL_SERVER_ERROR, data)
         | Some data \<Rightarrow> (COAP_205_CONTENT, data))
      else (COAP_205_CONTENT, data))"

definition prv_control_write ::
  "allocator \<Rightarrow> snap list \<Rightarrow> lwm2m_data list \<Rightarrow> (u8 \<times> lwm2m_data list) option" where
  "prv_control_write mem snaps data =
     map_option (\<lambda>(result, data). (if result = COAP_205_CONTENT then COAP_204_CHANGED else result, data))
       (read_loop (control_set_value mem snaps) data)"

text \<open>
  \<^verbatim>\<open>snprintf(name, length + 1, "%s", buffer)\<close> into \<^verbatim>\<open>char name[200]\<close>: it writes at most \<^verbatim>\<open>length\<close> characters
  and a NUL. The limit of the code lets the length 200 through.
\<close>

definition snap_name :: "bytes option \<Rightarrow> nat \<Rightarrow> bytes option" where
  "snap_name buffer len =
     (let len = (if len > 200 then 199 else len) in
      case buffer of
        None \<Rightarrow> None
      | Some b \<Rightarrow>
          (case c_string b of
             None \<Rightarrow> None
           | Some s \<Rightarrow> if min (length s) len + 1 > 200 then None else Some (take len s)))"

definition prv_control_exec ::
  "u16 list \<Rightarrow> u16 \<Rightarrow> u16 \<Rightarrow> bytes option \<Rightarrow> nat \<Rightarrow> (u8 \<times> snap_action option) option" where
  "prv_control_exec insts i rid buffer len =
     (if lwm2m_list_find id insts i = None then Some (COAP_404_NOT_FOUND, None)
      else if rid \<in> {10, 11, 12, 13, 14, 15} then
        map_option (\<lambda>name. (COAP_204_CHANGED, SnapExecute rid name)) (snap_name buffer len)
      else Some (COAP_405_METHOD_NOT_ALLOWED, None))"

definition get_snap_control_object :: "allocator \<Rightarrow> u16 list option" where
  "get_snap_control_object mem =
     (if \<not> mem sizeof_lwm2m_object then None else if \<not> mem 16 then None else Some [0])"

section \<open>The instances of the snap object\<close>

lemma add_snaps_eq:
  assumes "k + n \<le> 2 ^ 16"
  shows "add_snaps k n (map of_nat [0..<k]) = map of_nat [0..<k + n]"
  using assms
proof (induction n arbitrary: k)
  case (Suc n)
  have new: "of_nat j < (of_nat k :: u16)" if "j < k" for j
    using that Suc.prems by (simp add: word_less_nat_alt unsigned_of_nat take_bit_nat_eq_self)
  have "list_add_after id xs (of_nat k) = xs @ [of_nat k :: u16]" if "\<forall>x \<in> set xs. x < of_nat k" for xs
    using that by (induction xs) auto
  then have "lwm2m_list_add id (map of_nat [0..<k]) (of_nat k) = map of_nat [0..<k] @ [of_nat k :: u16]"
    using new by (cases k) (auto simp: upt_conv_Cons simp del: upt_Suc dest: less_asym)
  with Suc.IH [of "Suc k"] Suc.prems show ?case by simp
qed simp

lemma add_snaps_sorted:
  assumes "n \<le> 2 ^ 16"
  shows "ids_sorted id (map of_nat [0..<n])"
  unfolding ids_sorted_def map_map id_comp sorted_wrt_map
  by (rule sorted_wrt_mono_rel [OF _ sorted_wrt_upt])
    (use assms in \<open>auto simp: word_less_nat_alt unsigned_of_nat take_bit_nat_eq_self\<close>)

lemma encode_snap_values_all:
  assumes "\<And>d. d \<in> set ds \<Longrightarrow> encode_snap_value mem snaps i d = Some (f d)"
  shows "encode_snap_values mem snaps i ds = Some (map f ds)"
  using assms by (induction ds) auto

lemma delimited_values_defined:
  "k + length ds \<le> length snaps \<Longrightarrow> delimited_values mem snaps k ds \<noteq> None"
proof (induction ds arbitrary: k)
  case (Cons d ds)
  then have "SnapDelimited snaps k \<noteq> None" by (simp add: SnapDelimited_def rd_def)
  moreover have "delimited_values mem snaps (Suc k) ds \<noteq> None" using Cons by simp
  ultimately show ?case by auto
qed simp

section \<open>Properties\<close>

text \<open>The texts of a snap, by the number of their resource.\<close>

definition snap_texts :: "snap \<Rightarrow> bytes list" where
  "snap_texts s = [sn_name s, sn_summary s, sn_confinement s, sn_developer s, sn_installDate s, sn_installedSize s,
     sn_status s, sn_version s, sn_revision s]"

definition text_resource :: "allocator \<Rightarrow> u16 \<Rightarrow> bytes \<Rightarrow> lwm2m_data" where
  "text_resource mem rid s = lwm2m_data_encode_string mem (Some (go_text s)) (Data LWM2M_TYPE_UNDEFINED rid AsZero)"

text \<open>
  C36: As long as snapd reports the snaps it reported when the object was made, the object has one
  instance for each of at most 65536 snaps, numbered in order. Reading an instance returns ten resources: the
  first nine are the texts of its snap, in the order name, summary, confinement, developer, date, size, status,
  version and revision, and the last reads false for a snap that is not in developer mode. (It reads false for
  the others too, which is a defect of the code, and not part of the claim.)
\<close>

theorem snap_object_reads:
  assumes "length snaps \<le> 2 ^ 16" and "get_snap_object mem snaps = Some insts"
    and "mem (length snap_resList * sizeof_lwm2m_data)"
  shows "insts = map of_nat [0..<length snaps] \<and> ids_sorted id insts \<and>
    (\<forall>k < length snaps. \<exists>mode. prv_snap_read mem snaps insts (of_nat k) [] =
        Some (COAP_205_CONTENT, map2 (text_resource mem) [0, 1, 2, 3, 4, 5, 6, 7, 8] (snap_texts (snaps ! k)) @ [mode]) \<and>
      (\<not> sn_devMode (snaps ! k) \<longrightarrow> mode = text_resource mem 9 (ascii ''false'')))"
proof -
  have insts: "insts = map of_nat [0..<length snaps]"
    using assms(1,2) add_snaps_eq [of 0 "length snaps"]
    by (auto simp: get_snap_object_def GetSnapCount_def split: if_splits)
  then have sorted: "ids_sorted id insts"
    using add_snaps_sorted [OF assms(1)] by simp
  have "prv_snap_read mem snaps insts (of_nat k) [] = Some (COAP_205_CONTENT,
      map2 (text_resource mem) [0, 1, 2, 3, 4, 5, 6, 7, 8] (snap_texts (snaps ! k)) @ [text_resource mem 9 (ascii ''false'')])"
    if "k < length snaps" for k
  proof -
    have k: "unat (of_nat k :: u16) = k"
      using that assms(1) by (simp add: unsigned_of_nat take_bit_nat_eq_self)
    have "(of_nat k :: u16) \<in> id ` set insts" using that insts by simp
    then have "lwm2m_list_find id insts (of_nat k) \<noteq> None"
      using find_None_iff [OF sorted] by blast
    moreover have "new_resources mem snap_resList = Some (map (\<lambda>i. Data LWM2M_TYPE_UNDEFINED i AsZero) snap_resList)"
      using assms(3) by (intro new_resources_eq) (simp_all add: snap_resList_def)
    moreover have "encode_snap_value mem snaps (of_nat k) d =
        Some (lwm2m_data_encode_string mem (Some (go_text (snap_text (snaps ! k) (did d)))) d)" for d
      using that by (simp add: encode_snap_value_def SnapInstanceRead_def k rd_def)
    ultimately show ?thesis
      by (auto simp: prv_snap_read_def encode_snap_values_all o_def snap_resList_def snap_text_def snap_texts_def
        text_resource_def ascii_def)
  qed
  with insts sorted show ?thesis by blast
qed

definition demo_snap :: snap where
  "demo_snap = \<lparr>sn_name = [97], sn_description = [], sn_summary = [98], sn_confinement = [], sn_developer = [],
     sn_installDate = [], sn_installedSize = [], sn_status = [], sn_version = [], sn_revision = [],
     sn_devMode = True\<rparr>"

theorem snap_object_reads_witness:
  "ids_sorted id [0, 1 :: u16] \<and> (\<exists>mode. prv_snap_read (\<lambda>n. True) [demo_snap, demo_snap] [0, 1] 1 [] =
     Some (COAP_205_CONTENT, map2 (text_resource (\<lambda>n. True)) [0, 1, 2, 3, 4, 5, 6, 7, 8]
       [[97], [98], [], [], [], [], [], [], []] @ [mode]))"
proof -
  have "length [demo_snap, demo_snap] \<le> 2 ^ 16"
    "get_snap_object (\<lambda>n. True) [demo_snap, demo_snap] = Some [0, 1]"
    "(\<lambda>n. True) (length snap_resList * sizeof_lwm2m_data)"
    by (simp_all add: get_snap_object_def GetSnapCount_def)
  note reads = snap_object_reads [OF this]
  have "1 < length [demo_snap, demo_snap]" by simp
  with reads obtain mode where "prv_snap_read (\<lambda>n. True) [demo_snap, demo_snap] [0, 1] (of_nat 1) [] =
      Some (COAP_205_CONTENT, map2 (text_resource (\<lambda>n. True)) [0, 1, 2, 3, 4, 5, 6, 7, 8]
        (snap_texts ([demo_snap, demo_snap] ! 1)) @ [mode])" by blast
  then have "prv_snap_read (\<lambda>n. True) [demo_snap, demo_snap] [0, 1] 1 [] =
      Some (COAP_205_CONTENT, map2 (text_resource (\<lambda>n. True)) [0, 1, 2, 3, 4, 5, 6, 7, 8]
        [[97], [98], [], [], [], [], [], [], []] @ [mode])" by (simp add: snap_texts_def demo_snap_def)
  with reads show ?thesis by blast
qed

text \<open>
  The limits of the snap objects: when the last snap was removed, reading its instance panics;
  a write answers 2.04 and stores nothing, its values are replaced by those that a read returns;
  the developer mode reads false for a snap in developer mode; running an action without a
  parameter prints the null pointer; a name of 200 characters overflows its buffer.
\<close>

theorem snap_object_limits:
  "prv_snap_read (\<lambda>n. True) [demo_snap] [0, 1] 1 [Data LWM2M_TYPE_UNDEFINED 0 AsZero] = None \<and>
   prv_snap_write (\<lambda>n. True) [demo_snap] [0] 0 [Data LWM2M_TYPE_STRING 0 (AsBuffer [120])] =
     Some (COAP_204_CHANGED, [Data LWM2M_TYPE_STRING 0 (AsBuffer [97])]) \<and>
   sn_devMode demo_snap \<and> SnapInstanceRead [demo_snap] 0 9 = Some (Some [0x66, 0x61, 0x6C, 0x73, 0x65]) \<and>
   prv_snap_exec [demo_snap] [0] 0 11 None = None \<and>
   prv_control_exec [0] 0 10 (Some (replicate 200 97 @ [0])) 200 = None \<and>
   prv_control_exec [0] 0 10 (Some (replicate 199 97 @ [0])) 199 =
     Some (COAP_204_CHANGED, Some (Install (replicate 199 97)))"
  by (simp add: prv_snap_read_def encode_snap_value_def SnapInstanceRead_def rd_def prv_snap_write_def
      demo_snap_def snap_text_def go_text_def lwm2m_data_encode_string_def prv_setBuffer_def set_type_def
      set_value_def prv_snap_exec_def SnapInstanceExecute_def prv_control_exec_def snap_name_def
      c_string_terminated SnapExecute_def)

end
