(* ===== verification/Json_Scan.thy ===== *)
theory Json_Scan
  imports Json_Read
begin

text \<open>
  What the scanners of the JSON parser read from a text that is laid out without white space: the
  extent of an object, the members of an item, the numbers of a name. The strings of the text are
  escaped ones, with every character that the printer can produce.
\<close>

lemma skipSpace_simps [simp]:
  "json_skipSpace [] = 0"
  "json_skipSpace (c # s) = (if prv_isWhiteSpace c then Suc (json_skipSpace s) else 0)"
  by (simp_all add: json_skipSpace_def)

lemma skipSpace_le: "json_skipSpace s \<le> length s"
  by (simp add: json_skipSpace_def length_takeWhile_le)

lemma skipSpace_less: "list_ex (\<lambda>c. \<not> prv_isWhiteSpace c) s \<Longrightarrow> json_skipSpace s < length s"
  by (induction s) auto

lemma next_char_plain:
  "rest \<noteq> [] \<Longrightarrow> \<not> prv_isWhiteSpace (hd rest) \<Longrightarrow> next_char (pre @ c # rest) (length pre) = Some (Suc (length pre))"
  by (cases rest) (simp_all add: next_char_def)

section \<open>The extent of an object\<close>

text \<open>The states of \<open>item_loop\<close> along a piece of text.\<close>

fun item_run :: "nat \<Rightarrow> bytes \<Rightarrow> nat option" where
  "item_run st [] = Some st"
| "item_run st (c # s) =
     (if st = 0 then (if c = ch_open_brace then item_run 1 s else None)
      else if st = 1 then
        (if c = ch_open_brace \<or> c = ch_close_brace then None else item_run (if c = ch_quote then 2 else 1) s)
      else if c = ch_quote then item_run 1 s
      else if c = ch_backslash then (case s of [] \<Rightarrow> None | e # s \<Rightarrow> item_run 2 s)
      else item_run 2 s)"

lemma item_run_append [simp]: "item_run st (s @ t) = Option.bind (item_run st s) (\<lambda>st. item_run st t)"
  if "item_run st s \<noteq> None"
  using that by (induction st s rule: item_run.induct) (auto split: if_splits list.splits)

text \<open>White space where the loop does not wait for a brace is passed over by the macro.\<close>

lemma item_loop_space:
  assumes "st = 1 \<or> st = 2" and "list_ex (\<lambda>c. \<not> prv_isWhiteSpace c) (drop i buffer)"
  shows "item_loop buffer (i + json_skipSpace (drop i buffer)) st = item_loop buffer i st"
proof -
  have i: "i < length buffer" using assms(2) by (cases "i < length buffer") simp_all
  then have d: "drop i buffer = buffer ! i # drop (i + 1) buffer" by (simp add: Cons_nth_drop_Suc)
  show ?thesis
  proof (cases "prv_isWhiteSpace (buffer ! i)")
    case True
    then have "list_ex (\<lambda>c. \<not> prv_isWhiteSpace c) (drop (i + 1) buffer)" using assms(2) d by simp
    then have n: "next_char buffer i = Some (i + json_skipSpace (drop i buffer))"
      using skipSpace_less [of "drop (i + 1) buffer"] d True by (simp add: next_char_def)
    have "buffer ! i \<notin> {ch_open_brace, ch_close_brace, ch_quote, ch_backslash}"
      using True by (auto simp: prv_isWhiteSpace_def)
    then show ?thesis using assms(1) i n by (subst (2) item_loop.simps) auto
  next
    case False
    then show ?thesis using d by simp
  qed
qed

lemma item_loop_next:
  assumes "st' = 1 \<or> st' = 2" and "list_ex (\<lambda>c. \<not> prv_isWhiteSpace c) rest"
  shows "(case next_char (pre @ c # rest) (length pre) of None \<Rightarrow> None | Some i \<Rightarrow> item_loop (pre @ c # rest) i st') =
    item_loop (pre @ c # rest) (length pre + 1) st'"
  using item_loop_space [of st' "length pre + 1" "pre @ c # rest"] assms skipSpace_less [OF assms(2)]
  by (simp add: next_char_def)

lemma item_loop_run:
  "item_run st s = Some st' \<Longrightarrow> list_ex (\<lambda>c. \<not> prv_isWhiteSpace c) rest \<Longrightarrow>
   item_loop (pre @ s @ rest) (length pre) st = item_loop (pre @ s @ rest) (length (pre @ s)) st'"
proof (induction st s arbitrary: pre rule: item_run.induct)
  case (2 st c s)
  define B where "B = pre @ c # s @ rest"
  have B: "length pre < length B" "B ! length pre = c" by (simp_all add: B_def)
  have more: "list_ex (\<lambda>c. \<not> prv_isWhiteSpace c) (s @ rest)" using "2.prems"(2) by simp
  have step: "st' = 1 \<or> st' = 2 \<Longrightarrow>
      (case next_char B (length pre) of None \<Rightarrow> None | Some i \<Rightarrow> item_loop B i st') =
        item_loop B (length pre + 1) st'" for st'
    unfolding B_def by (rule item_loop_next [OF _ more])
  have tail: "item_loop B (length pre + 1) st2 = item_loop B (length (pre @ c # s)) st'"
    if "\<And>p. item_loop (p @ s @ rest) (length p) st2 = item_loop (p @ s @ rest) (length (p @ s)) st'" for st2
    using that [of "pre @ [c]"] by (simp add: B_def)
  have "item_loop B (length pre) st = item_loop B (length (pre @ c # s)) st'"
  proof (cases "st \<noteq> 0 \<and> st \<noteq> 1 \<and> c = ch_backslash")
    case True
    then obtain e s2 where s: "s = e # s2" "item_run 2 s2 = Some st'"
      using "2.prems"(1) by (auto split: list.splits)
    have more2: "list_ex (\<lambda>c. \<not> prv_isWhiteSpace c) (s2 @ rest)" using "2.prems"(2) by simp
    have Bs: "B = (pre @ [c]) @ e # s2 @ rest" using s(1) by (simp add: B_def)
    have "length pre + 1 \<noteq> length B" by (simp add: Bs)
    then have "item_loop B (length pre) st =
        (case next_char B (length pre + 1) of None \<Rightarrow> None | Some i \<Rightarrow> item_loop B i 2)"
      using True B by (subst item_loop.simps) simp
    also have "\<dots> = item_loop B (length (pre @ [c, e])) 2"
      using item_loop_next [OF _ more2, of 2 "pre @ [c]" e] unfolding Bs [symmetric] by simp
    also have "\<dots> = item_loop B (length ((pre @ [c, e]) @ s2)) st'"
      using "2.IH"(4) [of e s2 "pre @ [c, e]"] True s "2.prems"(2) by (simp add: B_def)
    finally show ?thesis using s(1) by simp
  next
    case False
    have "item_loop B (length pre) st = item_loop B (length pre + 1)
          (if st = 0 then 1 else if st = 1 then (if c = ch_quote then 2 else 1) else if c = ch_quote then 1 else 2)"
      using False "2.prems"(1) B step [of 1] step [of 2] by (subst item_loop.simps) (simp split: if_splits)
    also have "\<dots> = item_loop B (length (pre @ c # s)) st'"
      by (rule tail) (use False "2.prems" "2.IH"(1-3,5) in \<open>auto split: if_splits\<close>)
    finally show ?thesis .
  qed
  then show ?case by (simp add: B_def)
qed simp

lemma itemLength_run:
  assumes "item_run 0 s = Some 1"
  shows "json_itemLength (s @ ch_close_brace # rest) = Some (length s + 1)"
proof -
  have "item_loop (s @ ch_close_brace # rest) 0 0 = item_loop (s @ ch_close_brace # rest) (length s) 1"
    using item_loop_run [of 0 s 1 "ch_close_brace # rest" "[]"] assms by (simp add: prv_isWhiteSpace_def)
  also have "\<dots> = Some (length s + 1)" by (subst item_loop.simps) simp
  finally show ?thesis by (simp add: json_itemLength_def)
qed

section \<open>The members of an item\<close>

lemma split_stay:
  assumes "\<And>k. k < n \<Longrightarrow> i + k < length B \<and> split_step B (i + k) step t = Split_Go step t"
    and "\<not> skips_space step"
  shows "split_walk B i step t = split_walk B (i + n) step t"
  using assms(1)
proof (induction n)
  case (Suc n)
  then have "split_walk B i step t = split_walk B (i + n) step t" by simp
  also have "\<dots> = split_walk B (i + n + 1) step t"
    using Suc.prems [of n] assms(2) by (subst split_walk.simps) simp
  finally show ?case by simp
qed simp

lemma split_go:
  assumes "B = pre @ c # post" and "i = length pre"
    and "split_step B i step t = Split_Go step' t'" and "skips_space step' \<longrightarrow> json_skipSpace post = 0"
  shows "split_walk B i step t = split_walk B (i + 1) step' t'"
  using assms by (subst split_walk.simps) auto

lemma split_end:
  assumes "rest = [] \<or> hd rest = ch_comma" and "step \<noteq> STEP_QUOTED_VALUE"
  shows "split_walk (pre @ rest) (length pre) step t = Some (length pre, step, t)"
  using assms by (cases rest; cases step) (simp_all add: split_walk.simps)

text \<open>A quote in the string stands after a backslash; \<open>prev\<close> is the character before the string.\<close>

fun quotes_escaped :: "u8 \<Rightarrow> bytes \<Rightarrow> bool" where
  "quotes_escaped prev [] \<longleftrightarrow> True"
| "quotes_escaped prev (c # s) \<longleftrightarrow> (c = ch_quote \<longrightarrow> prev = ch_backslash) \<and> quotes_escaped c s"

lemma quotes_escaped_nth:
  "quotes_escaped prev s \<Longrightarrow> k < length s \<Longrightarrow> s ! k = ch_quote \<Longrightarrow> (prev # s) ! k = ch_backslash"
proof (induction prev s arbitrary: k rule: quotes_escaped.induct)
  case (2 prev c s)
  then show ?case by (cases k) auto
qed simp

lemma quotes_escaped_snoc:
  "quotes_escaped prev (s @ [c]) \<longleftrightarrow> quotes_escaped prev s \<and> (c = ch_quote \<longrightarrow> last (prev # s) = ch_backslash)"
  by (induction prev s rule: quotes_escaped.induct) auto

text \<open>A value: a string in quotes, or characters without white space, comma and reserved first character.\<close>

definition value_text :: "bytes \<Rightarrow> bool" where
  "value_text v \<longleftrightarrow>
     (\<exists>s. v = ch_quote # s @ [ch_quote] \<and> quotes_escaped ch_quote s \<and> last (ch_quote # s) \<noteq> ch_backslash) \<or>
     (v \<noteq> [] \<and> \<not> prv_isReserved (hd v) \<and> (\<forall>c \<in> set v. c \<noteq> ch_comma \<and> \<not> prv_isWhiteSpace c))"

lemma split_value:
  assumes B: "B = pre @ v @ rest" and v: "value_text v" and rest: "rest = [] \<or> hd rest = ch_comma"
  shows "\<exists>step. split_walk B (length pre) STEP_SEPARATOR t =
      Some (length pre + length v, step, t\<lparr>valueStart := length pre,
        valueLen := (if step = STEP_VALUE then valueLen t else length v)\<rparr>) \<and> (step = STEP_VALUE \<or> step = STEP_DONE)"
  using v unfolding value_text_def
proof (elim disjE exE conjE)
  fix s
  assume s: "v = ch_quote # s @ [ch_quote]" "quotes_escaped ch_quote s" "last (ch_quote # s) \<noteq> ch_backslash"
  let ?t = "t\<lparr>valueStart := length pre\<rparr>"
  have "split_walk B (length pre) STEP_SEPARATOR t = split_walk B (length pre + 1) STEP_QUOTED_VALUE ?t"
    by (rule split_go [of _ pre ch_quote "s @ ch_quote # rest"]) (simp_all add: B s(1) skips_space_def)
  also have "\<dots> = split_walk B (length pre + 1 + length s) STEP_QUOTED_VALUE ?t"
  proof (rule split_stay)
    fix k
    assume k: "k < length s"
    have "B ! (length pre + 1 + k) = s ! k" "B ! (length pre + 1 + k - 1) = (ch_quote # s) ! k"
      using k by (auto simp: B s(1) nth_append nth_Cons split: nat.splits)
    then show "length pre + 1 + k < length B \<and>
        split_step B (length pre + 1 + k) STEP_QUOTED_VALUE ?t = Split_Go STEP_QUOTED_VALUE ?t"
      using k quotes_escaped_nth [OF s(2) k] by (auto simp: B s(1))
  qed (simp add: skips_space_def)
  also have "\<dots> = split_walk B (length pre + 1 + length s + 1) STEP_DONE (?t\<lparr>valueLen := length v\<rparr>)"
  proof (rule split_go [of _ "pre @ ch_quote # s" ch_quote rest])
    have "B ! (length pre + 1 + length s - 1) = last (ch_quote # s)"
      by (cases s rule: rev_cases) (simp_all add: B s(1) nth_append)
    moreover have "B ! (length pre + 1 + length s) = ch_quote" by (simp add: B s(1) nth_append)
    ultimately show "split_step B (length pre + 1 + length s) STEP_QUOTED_VALUE ?t =
        Split_Go STEP_DONE (?t\<lparr>valueLen := length v\<rparr>)"
      using s(3) by (simp add: s(1))
    show "skips_space STEP_DONE \<longrightarrow> json_skipSpace rest = 0"
      using rest by (cases rest) (simp_all add: prv_isWhiteSpace_def)
  qed (simp_all add: B s(1))
  also have "\<dots> = Some (length pre + length v, STEP_DONE, ?t\<lparr>valueLen := length v\<rparr>)"
    using split_end [OF rest, of STEP_DONE "pre @ v"] by (simp add: B s(1))
  finally show ?thesis by (intro exI [of _ STEP_DONE]) simp
next
  assume v: "v \<noteq> []" "\<not> prv_isReserved (hd v)" "\<forall>c \<in> set v. c \<noteq> ch_comma \<and> \<not> prv_isWhiteSpace c"
  then obtain c cs where c: "v = c # cs" by (cases v) auto
  let ?t = "t\<lparr>valueStart := length pre\<rparr>"
  have "split_walk B (length pre) STEP_SEPARATOR t = split_walk B (length pre + 1) STEP_VALUE ?t"
    by (rule split_go [of _ pre c "cs @ rest"])
      (use v in \<open>auto simp: B c skips_space_def prv_isReserved_def\<close>)
  also have "\<dots> = split_walk B (length pre + 1 + length cs) STEP_VALUE ?t"
  proof (rule split_stay)
    fix k
    assume k: "k < length cs"
    have "B ! (length pre + 1 + k) = cs ! k" using k by (simp add: B c nth_append)
    then show "length pre + 1 + k < length B \<and>
        split_step B (length pre + 1 + k) STEP_VALUE ?t = Split_Go STEP_VALUE ?t"
      using k v(3) by (auto simp: B c)
  qed (simp add: skips_space_def)
  also have "\<dots> = Some (length pre + length v, STEP_VALUE, ?t)"
    using split_end [OF rest, of STEP_VALUE "pre @ v"] by (simp add: B c)
  finally show ?thesis by (intro exI [of _ STEP_VALUE]) simp
qed

definition member_text :: "bytes \<Rightarrow> bytes \<Rightarrow> bytes" where
  "member_text tok v = ch_quote # tok @ [ch_quote, ch_colon] @ v"

lemma split_to_value:
  assumes tok: "ch_quote \<notin> set tok" "ch_comma \<notin> set tok" and v: "v \<noteq> []" "\<not> prv_isWhiteSpace (hd v)"
    and B: "B = member_text tok v @ rest"
  shows "split_walk B 0 STEP_START \<lparr>tokenStart = 0, tokenLen = 0, valueStart = 0, valueLen = 0\<rparr> =
    split_walk B (length tok + 3) STEP_SEPARATOR
      \<lparr>tokenStart = 1, tokenLen = length tok, valueStart = 0, valueLen = 0\<rparr>"
proof -
  let ?t0 = "\<lparr>tokenStart = 0, tokenLen = 0, valueStart = 0, valueLen = 0\<rparr>"
  let ?t1 = "?t0\<lparr>tokenStart := 1\<rparr>" and ?t2 = "?t0\<lparr>tokenStart := 1, tokenLen := length tok\<rparr>"
  have sp: "json_skipSpace (v @ rest) = 0" using v by (cases v) simp_all
  have "split_walk B 0 STEP_START ?t0 = split_walk B (0 + 1) STEP_TOKEN ?t1"
    by (rule split_go [of _ "[]" ch_quote "tok @ [ch_quote, ch_colon] @ v @ rest"])
      (simp_all add: B member_text_def skips_space_def)
  also have "\<dots> = split_walk B (1 + length tok) STEP_TOKEN ?t1"
  proof -
    have "split_walk B 1 STEP_TOKEN ?t1 = split_walk B (1 + length tok) STEP_TOKEN ?t1"
    proof (rule split_stay)
      fix k
      assume k: "k < length tok"
      have "B ! (1 + k) = tok ! k" using k by (simp add: B member_text_def nth_append)
      moreover have "tok ! k \<noteq> ch_quote" "tok ! k \<noteq> ch_comma" using k tok nth_mem by metis+
      ultimately show "1 + k < length B \<and> split_step B (1 + k) STEP_TOKEN ?t1 = Split_Go STEP_TOKEN ?t1"
        using k by (simp add: B member_text_def)
    qed (simp add: skips_space_def)
    then show ?thesis by simp
  qed
  also have "\<dots> = split_walk B (1 + length tok + 1) STEP_ANY_SEPARATOR ?t2"
    by (rule split_go [of _ "ch_quote # tok" ch_quote "ch_colon # v @ rest"])
      (simp_all add: B member_text_def prv_isWhiteSpace_def nth_append)
  also have "\<dots> = split_walk B (1 + length tok + 1 + 1) STEP_SEPARATOR ?t2"
    by (rule split_go [of _ "ch_quote # tok @ [ch_quote]" ch_colon "v @ rest"])
      (use sp in \<open>simp_all add: B member_text_def nth_append\<close>)
  finally show ?thesis by (simp add: numeral_3_eq_3)
qed

lemma member_text_start: "json_skipSpace (member_text tok v @ rest) = 0" "member_text tok v @ rest \<noteq> []"
  by (simp_all add: member_text_def prv_isWhiteSpace_def)

lemma json_split_member:
  assumes tok: "ch_quote \<notin> set tok" "ch_comma \<notin> set tok" and v: "value_text v"
    and rest: "rest = [] \<or> hd rest = ch_comma"
  shows "json_split (member_text tok v @ rest) = Some (length (member_text tok v),
    \<lparr>tokenStart = 1, tokenLen = length tok, valueStart = length tok + 3, valueLen = length v\<rparr>)"
proof -
  define B where "B = member_text tok v @ rest"
  let ?pre = "ch_quote # tok @ [ch_quote, ch_colon]"
  have "v \<noteq> [] \<and> \<not> prv_isWhiteSpace (hd v)"
    using v unfolding value_text_def by (elim disjE exE conjE) (auto simp: prv_isWhiteSpace_def)
  then have v': "v \<noteq> []" "\<not> prv_isWhiteSpace (hd v)" by simp_all
  have len: "length ?pre = length tok + 3" by simp
  note l = split_to_value [OF tok v' B_def]
  obtain step where "split_walk B (length tok + 3) STEP_SEPARATOR
        \<lparr>tokenStart = 1, tokenLen = length tok, valueStart = 0, valueLen = 0\<rparr> =
      Some (length tok + 3 + length v, step, \<lparr>tokenStart = 1, tokenLen = length tok, valueStart = length tok + 3,
          valueLen = (if step = STEP_VALUE then 0 else length v)\<rparr>)" "step = STEP_VALUE \<or> step = STEP_DONE"
    using split_value [of B ?pre v rest "\<lparr>tokenStart = 1, tokenLen = length tok, valueStart = 0, valueLen = 0\<rparr>"]
      v rest unfolding len by (auto simp: B_def member_text_def)
  then show ?thesis
    using l member_text_start [of tok v rest] unfolding B_def [symmetric] json_split_def Let_def
    by (elim disjE) (simp_all add: member_text_def)
qed

text \<open>A string whose last character is a backslash has no end: its closing quote is taken for an escaped one.\<close>

lemma json_split_backslash:
  assumes tok: "ch_quote \<notin> set tok" "ch_comma \<notin> set tok" and s: "quotes_escaped ch_quote s" "last (ch_quote # s) = ch_backslash"
  shows "json_split (member_text tok (ch_quote # s @ [ch_quote])) = None"
proof -
  define B where "B = member_text tok (ch_quote # s @ [ch_quote]) @ []"
  let ?pre = "ch_quote # tok @ [ch_quote, ch_colon]"
  let ?t = "\<lparr>tokenStart = 1, tokenLen = length tok, valueStart = length tok + 3, valueLen = 0\<rparr>"
  have Bs: "B = ?pre @ ch_quote # s @ [ch_quote]" by (simp add: B_def member_text_def)
  have l: "split_walk B 0 STEP_START \<lparr>tokenStart = 0, tokenLen = 0, valueStart = 0, valueLen = 0\<rparr> =
      split_walk B (length tok + 3) STEP_SEPARATOR
        \<lparr>tokenStart = 1, tokenLen = length tok, valueStart = 0, valueLen = 0\<rparr>"
    by (rule split_to_value [OF tok _ _ B_def]) (simp_all add: prv_isWhiteSpace_def)
  also have "\<dots> = split_walk B (length tok + 3 + 1) STEP_QUOTED_VALUE ?t"
    by (rule split_go [of _ ?pre ch_quote "s @ [ch_quote]"]) (simp_all add: Bs skips_space_def nth_append)
  also have "\<dots> = split_walk B (length tok + 3 + 1 + length (s @ [ch_quote])) STEP_QUOTED_VALUE ?t"
  proof (rule split_stay)
    fix k
    assume k: "k < length (s @ [ch_quote])"
    have q: "quotes_escaped ch_quote (s @ [ch_quote])" using s by (auto simp: quotes_escaped_snoc)
    have "B ! (length ?pre + (k + 1)) = (ch_quote # s @ [ch_quote]) ! (k + 1)"
      "B ! (length ?pre + k) = (ch_quote # s @ [ch_quote]) ! k"
      unfolding Bs by (simp_all only: nth_append_length_plus)
    then have "B ! (length tok + 3 + 1 + k) = (s @ [ch_quote]) ! k"
      "B ! (length tok + 3 + 1 + k - 1) = (ch_quote # s @ [ch_quote]) ! k"
      by (simp_all add: numeral_3_eq_3)
    then show "length tok + 3 + 1 + k < length B \<and>
        split_step B (length tok + 3 + 1 + k) STEP_QUOTED_VALUE ?t = Split_Go STEP_QUOTED_VALUE ?t"
      using k quotes_escaped_nth [OF q k] by (auto simp: Bs)
  qed (simp add: skips_space_def)
  also have "\<dots> = Some (length B, STEP_QUOTED_VALUE, ?t)"
    by (subst split_walk.simps) (simp add: Bs)
  finally show ?thesis
    using member_text_start [of tok "ch_quote # s @ [ch_quote]" "[]"] unfolding B_def [symmetric]
    by (simp add: json_split_def Let_def B_def)
qed

section \<open>The numbers of a name\<close>

lemma name_digits_run:
  assumes "list_all is_digit8 ds" and "r * 10 ^ length ds + dec_val ds \<le> 65535"
    and "post \<noteq> []" and "hd post = ch_slash \<or> length post = 1"
  shows "name_digits (pre @ ds @ post) (length pre) r = Some (length pre + length ds, r * 10 ^ length ds + dec_val ds)"
  using assms(1,2)
proof (induction ds arbitrary: r pre)
  case Nil
  then show ?case using assms(3,4) by (cases post) (auto simp: name_digits.simps)
next
  case (Cons c ds)
  let ?r = "r * 10 + (unat c - 48)"
  have c: "\<not> c < ch_0" "\<not> c > ch_9" "c \<noteq> ch_slash"
    using Cons.prems(1) by (auto simp: is_digit8_def)
  have v: "?r * 10 ^ length ds + dec_val ds = r * 10 ^ length (c # ds) + dec_val (c # ds)"
    by (simp add: dec_val_Cons digit_val_def algebra_simps)
  have "?r \<le> ?r * 10 ^ length ds" by simp
  then have small: "\<not> 65535 < ?r" using Cons.prems(2) v by linarith
  have "name_digits (pre @ (c # ds) @ post) (length pre) r = name_digits ((pre @ [c]) @ ds @ post) (length (pre @ [c])) ?r"
    using c small assms(3) by (subst name_digits.simps) (simp add: Let_def)
  also have "\<dots> = Some (length (pre @ [c]) + length ds, ?r * 10 ^ length ds + dec_val ds)"
    using Cons.prems v by (intro Cons.IH) auto
  finally show ?case using v by simp
qed

fun path_text :: "u16 list \<Rightarrow> bytes" where
  "path_text [] = []"
| "path_text [i] = dec_digits (unat i)"
| "path_text (i # is) = dec_digits (unat i) @ ch_slash # path_text is"

lemma path_text_chars: "c \<in> set (path_text is) \<Longrightarrow> is_digit8 c \<or> c = ch_slash"
  by (induction "is" rule: path_text.induct) (auto dest: dec_digits_all)

lemma path_text_Cons: "path_text (i # is) = dec_digits (unat i) @ (if is = [] then [] else ch_slash # path_text is)"
  by (cases "is") simp_all

lemma name_loop_path:
  "is \<noteq> [] \<Longrightarrow> j + length is \<le> 4 \<Longrightarrow> length ids = 4 \<Longrightarrow> length pre = i + 1 \<Longrightarrow>
   name_loop (pre @ path_text is @ [ch_quote]) i j ids = Some (take j ids @ is @ drop (j + length is) ids)"
proof (induction "is" arbitrary: i j ids pre)
  case (Cons a "is")
  let ?d = "dec_digits (unat a)" and ?post = "(if is = [] then [] else ch_slash # path_text is) @ [ch_quote]"
  have "unat a \<le> 65535" using unsigned_less [of a, where 'a = nat] by simp
  then have n: "name_digits (pre @ path_text (a # is) @ [ch_quote]) (i + 1) 0 = Some (length pre + length ?d, unat a)"
    using name_digits_run [of ?d 0 ?post pre] Cons.prems(4) by (simp add: path_text_Cons)
  show ?case
  proof (cases "is = []")
    case True
    then show ?thesis
      using n Cons.prems by (subst name_loop.simps) (simp add: Let_def upd_conv_take_nth_drop)
  next
    case False
    let ?v = "pre @ path_text (a # is) @ [ch_quote]"
    have v: "?v = (pre @ ?d @ [ch_slash]) @ path_text is @ [ch_quote]" using False by (simp add: path_text_Cons)
    have "name_loop ?v i j ids = name_loop ?v (length pre + length ?d) (j + 1) (ids[j := a])"
      using n Cons.prems(2) False
      by (subst name_loop.simps) (cases "is"; simp add: Let_def path_text_Cons nth_append)
    also have "\<dots> = Some (take (j + 1) (ids[j := a]) @ is @ drop (j + 1 + length is) (ids[j := a]))"
      unfolding v using Cons.prems False by (intro Cons.IH) simp_all
    finally show ?thesis using Cons.prems by (simp add: take_Suc_conv_app_nth)
  qed
qed simp

definition quoted :: "bytes \<Rightarrow> bytes" where
  "quoted s = ch_quote # s @ [ch_quote]"

lemma is_quoted [simp]: "is_quoted (quoted s)" "length (quoted s) = length s + 2"
  by (simp_all add: is_quoted_def quoted_def)

lemma parse_name_path:
  assumes "is \<noteq> []" and "length is \<le> 4"
  shows "parse_name (quoted (path_text is)) (replicate 4 LWM2M_MAX_ID) =
    Some (is @ replicate (4 - length is) LWM2M_MAX_ID)"
proof -
  obtain c cs where c: "path_text is = c # cs" "c \<noteq> ch_slash"
  proof (cases "is")
    case (Cons a list)
    obtain c cs where "dec_digits (unat a) = c # cs" "is_digit8 c" using dec_digits_hd by blast
    moreover from this have "c \<noteq> ch_slash" by (auto simp: is_digit8_def)
    ultimately show ?thesis using that Cons by (simp add: path_text_Cons)
  qed (use assms(1) in simp)
  have "name_loop (quoted (path_text is)) 0 0 (replicate 4 LWM2M_MAX_ID) =
      Some (is @ replicate (4 - length is) LWM2M_MAX_ID)"
    using name_loop_path [of "is" 0 "replicate 4 LWM2M_MAX_ID" "[ch_quote]" 0] assms by (simp add: quoted_def)
  then show ?thesis using c is_quoted(1) [of "path_text is"] by (simp add: parse_name_def quoted_def)
qed

lemma value_text_quoted:
  "quotes_escaped ch_quote s \<Longrightarrow> last (ch_quote # s) \<noteq> ch_backslash \<Longrightarrow> value_text (quoted s)"
  unfolding value_text_def quoted_def by blast

lemma quotes_escaped_plain: "ch_quote \<notin> set s \<Longrightarrow> quotes_escaped prev s"
  by (induction s arbitrary: prev) auto

lemma value_text_path: "value_text (quoted (path_text is))"
proof (rule value_text_quoted)
  show "quotes_escaped ch_quote (path_text is)"
    by (rule quotes_escaped_plain) (auto dest!: path_text_chars simp: is_digit8_def)
  show "last (ch_quote # path_text is) \<noteq> ch_backslash"
    using path_text_chars [of "last (path_text is)" "is"] by (cases "path_text is = []") (auto simp: is_digit8_def)
qed

text \<open>An item as the serializer lays it out: the name, then one value.\<close>

lemma parseItem_members:
  assumes "is \<noteq> []" and "length is \<le> 4" and tok: "ch_quote \<notin> set tok" "ch_comma \<notin> set tok" and v: "value_text v"
  shows "json_parseItem (member_text [110] (quoted (path_text is)) @ ch_comma # member_text tok v) =
    parse_member tok v (length v) (empty_record\<lparr>r_ids := is @ replicate (4 - length is) LWM2M_MAX_ID\<rparr>)"
proof -
  let ?n = "quoted (path_text is)"
  have 1: "json_split (member_text [110] ?n @ ch_comma # member_text tok v) = Some (length (member_text [110] ?n),
      \<lparr>tokenStart = 1, tokenLen = 1, valueStart = 4, valueLen = length ?n\<rparr>)"
    using json_split_member [of "[110]" ?n "ch_comma # member_text tok v"] value_text_path by simp
  have 2: "json_split (member_text tok v) = Some (length (member_text tok v),
      \<lparr>tokenStart = 1, tokenLen = length tok, valueStart = length tok + 3, valueLen = length v\<rparr>)"
    using json_split_member [OF tok v, of "[]"] by simp
  have d: "drop (length tok + 3) (member_text tok v) = v" "take (length tok) (drop 1 (member_text tok v)) = tok"
    by (simp_all add: member_text_def numeral_3_eq_3)
  have p: "parse_member [110] (?n @ ch_comma # member_text tok v) (length ?n) empty_record =
      Some (empty_record\<lparr>r_ids := is @ replicate (4 - length is) LWM2M_MAX_ID\<rparr>)"
    using parse_name_path [OF assms(1,2)] by (simp add: parse_member_def empty_record_def)
  have "json_parseItem (member_text [110] ?n @ ch_comma # member_text tok v) =
      item_members (member_text tok v) (empty_record\<lparr>r_ids := is @ replicate (4 - length is) LWM2M_MAX_ID\<rparr>)"
    unfolding json_parseItem_def using 1 p
    by (subst item_members.simps) (simp add: member_text_def)
  also have "\<dots> = parse_member tok v (length v) (empty_record\<lparr>r_ids := is @ replicate (4 - length is) LWM2M_MAX_ID\<rparr>)"
    using 2 d by (subst item_members.simps) (simp split: option.splits)
  finally show ?thesis .
qed

end
