(* ===== verification/Json_Items.thy ===== *)
theory Json_Items
  imports Json_Scan Json_Write
begin

text \<open>
  The items of a JSON message: what the serializer writes for a value, and the record and the value
  that the parser makes of it.
\<close>

section \<open>Values that can be printed and read\<close>

text \<open>
  The last character of a string must neither be a control character with a code, which the reader
  of escape sequences refuses, nor a backslash, whose escape sequence hides the closing quote.
\<close>

definition string_ok :: "bytes \<Rightarrow> bool" where
  "string_ok s \<longleftrightarrow> s = [] \<or> (\<not> takes_code (last s) \<and> last s \<noteq> ch_backslash)"

fun leaf_ok :: "lwm2m_data \<Rightarrow> bool" where
  "leaf_ok (Data LWM2M_TYPE_STRING i (AsBuffer s)) \<longleftrightarrow> string_ok s"
| "leaf_ok (Data LWM2M_TYPE_CORE_LINK i (AsBuffer s)) \<longleftrightarrow> string_ok s"
| "leaf_ok (Data LWM2M_TYPE_OPAQUE i (AsBuffer b)) \<longleftrightarrow> True"
| "leaf_ok (Data LWM2M_TYPE_INTEGER i (AsInteger n)) \<longleftrightarrow> True"
| "leaf_ok (Data LWM2M_TYPE_UNSIGNED_INTEGER i (AsUnsigned n)) \<longleftrightarrow> True"
| "leaf_ok (Data LWM2M_TYPE_BOOLEAN i (AsBoolean v)) \<longleftrightarrow> True"
| "leaf_ok (Data LWM2M_TYPE_OBJECT_LINK i (AsObjLink ob inst)) \<longleftrightarrow> True"
| "leaf_ok _ \<longleftrightarrow> False"

definition int_text :: "u64 \<Rightarrow> bytes" where
  "int_text n = (if sint n < 0 then ch_minus # dec_digits (unat (- n)) else dec_digits (unat n))"

text \<open>The name of the value, its text, and the value that is read back.\<close>

fun leaf_token :: "lwm2m_data \<Rightarrow> bytes" where
  "leaf_token (Data t i (AsBuffer s)) = [115, 118]"
| "leaf_token (Data t i (AsBoolean v)) = [98, 118]"
| "leaf_token (Data t i (AsObjLink ob inst)) = [111, 118]"
| "leaf_token _ = [118]"

fun leaf_value :: "lwm2m_data \<Rightarrow> bytes" where
  "leaf_value (Data t i (AsBuffer s)) =
     quoted (if t = LWM2M_TYPE_OPAQUE then b64_encode s else escape_text s)"
| "leaf_value (Data t i (AsBoolean v)) = (if v then ascii ''true'' else ascii ''false'')"
| "leaf_value (Data t i (AsObjLink ob inst)) =
     quoted (dec_digits (unat ob) @ ch_colon # dec_digits (unat inst))"
| "leaf_value (Data t i (AsInteger n)) = int_text n"
| "leaf_value (Data t i (AsUnsigned n)) = dec_digits (unat n)"
| "leaf_value _ = []"

text \<open>
  What is read back: numbers that are not negative are unsigned, opaque values are the string of
  their base64 text, links are strings.
\<close>

fun json_back :: "lwm2m_data \<Rightarrow> lwm2m_data" where
  "json_back (Data t i v) =
     (case v of
        AsBuffer b \<Rightarrow> Data LWM2M_TYPE_STRING i (AsBuffer (if t = LWM2M_TYPE_OPAQUE then b64_encode b else b))
      | AsInteger n \<Rightarrow>
          if sint n < 0 then Data t i v else Data LWM2M_TYPE_UNSIGNED_INTEGER i (AsUnsigned n)
      | AsChildren cs \<Rightarrow> Data t i (AsChildren (map json_back cs))
      | _ \<Rightarrow> Data t i v)"

lemma did_json_back [simp]: "did (json_back d) = did d"
  by (cases d; cases "dvalue d") auto

section \<open>Printing a value\<close>

lemma emit_int_text:
  "emit_int cap v out = Some out' \<Longrightarrow> out' = out @ int_text v"
  by (auto simp: emit_int_def int_text_def split: prod.splits if_splits dest!: intToText_result)

lemma emit_unsigned_text: "emit_unsigned cap v out = Some out' \<Longrightarrow> out' = out @ dec_digits (unat v)"
  by (auto simp: emit_unsigned_def split: prod.splits if_splits dest!: uintToText_result)

lemma emit_objlink_text:
  "emit_objlink cap ob inst out = Some out' \<Longrightarrow> out' = out @ dec_digits (unat ob) @ ch_colon # dec_digits (unat inst)"
  by (auto simp: emit_objlink_def split: prod.splits if_splits dest!: objLink_result)

text \<open>What follows the path: the end of the name, the value, and the end of the item.\<close>

definition value_part :: "lwm2m_data \<Rightarrow> bytes" where
  "value_part d = [ch_quote, ch_comma] @ member_text (leaf_token d) (leaf_value d) @ [ch_close_brace, ch_comma]"

lemmas json_literals = JSON_RES_ITEM_URI_def JSON_ITEM_BOOL_TRUE_def JSON_ITEM_BOOL_FALSE_def JSON_ITEM_NUM_def
  JSON_ITEM_NUM_END_def JSON_ITEM_STRING_BEGIN_def JSON_ITEM_STRING_END_def JSON_ITEM_OBJECT_LINK_BEGIN_def
  JSON_ITEM_OBJECT_LINK_END_def JSON_BN_HEADER_1_def JSON_BN_HEADER_2_def JSON_HEADER_def JSON_FOOTER_def
  ascii_def of_char_def

lemma serialize_text_result:
  assumes "serialize_text cap s text out = Some out'" and "\<And>room. text room = t \<or> (s \<noteq> [] \<and> text room = [])"
  shows "out' = out @ JSON_ITEM_STRING_BEGIN @ t @ JSON_ITEM_STRING_END"
proof -
  let ?out1 = "out @ JSON_ITEM_STRING_BEGIN"
  have "text (cap - length ?out1) = t"
    using assms by (auto simp: serialize_text_def bind_eq_Some_conv emit_Some emit_text_def split: if_splits)
  then show ?thesis
    using assms(1) by (auto simp: serialize_text_def bind_eq_Some_conv emit_Some emit_text_def split: if_splits)
qed

lemma serialize_number_result:
  assumes "serialize_number cap number out = Some out'" and "\<And>o1 o2. number o1 = Some o2 \<Longrightarrow> o2 = o1 @ t"
  shows "out' = out @ JSON_ITEM_NUM @ t @ JSON_ITEM_NUM_END"
  using assms by (fastforce simp: serialize_number_def bind_eq_Some_conv emit_Some)

lemma escapeString_cases: "json_escapeString room s = escape_text s \<or> (s \<noteq> [] \<and> json_escapeString room s = [])"
  by (cases s) (simp_all add: escapeString_eq)

lemma base64Encode_cases:
  "snd (utils_base64Encode b room) = b64_encode b \<or> (b \<noteq> [] \<and> snd (utils_base64Encode b room) = [])"
  by (cases b) (simp_all add: utils_base64Encode_def utils_base64GetSize_def Let_def)

lemma serializeValue_string:
  assumes "json_serializeValue cfg ft cap out (Data LWM2M_TYPE_STRING i (AsBuffer s)) = Some (Some out')"
  shows "out' = out @ value_part (Data LWM2M_TYPE_STRING i (AsBuffer s))"
  using assms serialize_text_result [OF _ escapeString_cases, where cap = cap and out = out and out' = out']
  by (auto simp: json_serializeValue_def value_part_def member_text_def quoted_def json_literals)

lemma serializeValue_text:
  assumes "json_serializeValue cfg ft cap out d = Some (Some out')" and "leaf_ok d"
  shows "out' = out @ value_part d"
  using assms(2)
proof (cases d rule: leaf_ok.cases)
  case (1 i s)
  then show ?thesis using assms(1) serializeValue_string by simp
next
  case (2 i s)
  then show ?thesis
    using assms(1) serialize_text_result [OF _ escapeString_cases, where cap = cap and out = out and out' = out']
    by (auto simp: json_serializeValue_def value_part_def member_text_def quoted_def json_literals)
next
  case (3 i b)
  then show ?thesis
    using assms(1) serialize_text_result [OF _ base64Encode_cases, where cap = cap and out = out and out' = out']
    by (auto simp: json_serializeValue_def value_part_def member_text_def quoted_def json_literals)
next
  case (4 i n)
  then show ?thesis
    using assms(1) serialize_number_result [of cap "emit_int cap n" out out' "int_text n", OF _ emit_int_text]
    by (auto simp: json_serializeValue_def value_part_def member_text_def json_literals lwm2m_data_decode_int_def)
next
  case (5 i n)
  then show ?thesis
    using assms(1) serialize_number_result [of cap "emit_unsigned cap n" out out' "dec_digits (unat n)", OF _ emit_unsigned_text]
    by (auto simp: json_serializeValue_def value_part_def member_text_def json_literals lwm2m_data_decode_uint_def)
next
  case (6 i v)
  then show ?thesis
    using assms(1)
    by (auto simp: json_serializeValue_def value_part_def member_text_def json_literals lwm2m_data_decode_bool_def
        emit_Some)
next
  case (7 i ob inst)
  then show ?thesis
    using assms(1)
    by (auto simp: json_serializeValue_def value_part_def member_text_def quoted_def json_literals
        bind_eq_Some_conv emit_Some dest!: emit_objlink_text)
qed simp_all

section \<open>The characters of a value\<close>

lemma digits_no_quote [simp]: "ch_quote \<notin> set (dec_digits n)" "ch_backslash \<notin> set (dec_digits n)"
  using dec_digits_all [of ch_quote n] dec_digits_all [of ch_backslash n] by (auto simp: is_digit8_def)

lemma b64_char: "i < 64 \<Longrightarrow> b64Alphabet ! unat (i :: u8) \<in> set b64Alphabet"
  by (rule nth_mem) (simp add: b64Alphabet_def word_less_nat_alt)

lemma b64_encode_chars: "set (b64_encode b) \<subseteq> insert ch_equals (set b64Alphabet)"
  by (induction b rule: b64_encode.induct) (auto simp: prv_encodeBlock_def sextets_less sextets_less [simplified] intro!: b64_char)

lemma b64_plain:
  assumes "c \<in> set (b64_encode b)"
  shows "escape_char c = [c]" and "\<not> takes_code c" and "c \<noteq> ch_backslash"
proof -
  have "list_all (\<lambda>c. escape_char c = [c] \<and> \<not> takes_code c \<and> c \<noteq> ch_backslash) (ch_equals # b64Alphabet)"
    by code_simp
  moreover have "c \<in> set (ch_equals # b64Alphabet)" using assms b64_encode_chars by auto
  ultimately have "escape_char c = [c] \<and> \<not> takes_code c \<and> c \<noteq> ch_backslash"
    unfolding list_all_iff by blast
  then show "escape_char c = [c]" "\<not> takes_code c" "c \<noteq> ch_backslash" by simp_all
qed

lemma escape_text_plain: "(\<And>c. c \<in> set s \<Longrightarrow> escape_char c = [c]) \<Longrightarrow> escape_text s = s"
  by (induction s) auto

lemma escape_b64 [simp]: "escape_text (b64_encode b) = b64_encode b"
  by (rule escape_text_plain) (rule b64_plain)

lemma b64_string_ok: "string_ok (b64_encode b)"
  using b64_plain(2,3) last_in_set [of "b64_encode b"] by (metis string_ok_def)

lemma hexDigit_plain: "prv_hexDigit c \<noteq> ch_quote" "prv_hexDigit c \<noteq> ch_backslash"
proof -
  have "unat (c AND 0xF) < 16" using unat_and_mask [of c 4] by (simp add: mask_eq_exp_minus_1)
  then have k: "unat (c AND 0xF) \<in> set [0..<16]" by simp
  have "\<forall>k \<in> set [0..<16]. let v = of_nat k :: u8; d = (if v < 10 then 48 + v else 65 + v - 10) in
      d \<noteq> ch_quote \<and> d \<noteq> ch_backslash" by code_simp
  from bspec [OF this k]
  have "let v = c AND 0xF; d = (if v < 10 then 48 + v else 65 + v - 10) in d \<noteq> ch_quote \<and> d \<noteq> ch_backslash"
    by simp
  then show "prv_hexDigit c \<noteq> ch_quote" "prv_hexDigit c \<noteq> ch_backslash"
    unfolding prv_hexDigit_def Let_def by simp_all
qed

lemma quotes_escaped_append:
  "quotes_escaped prev (s @ t) \<longleftrightarrow> quotes_escaped prev s \<and> quotes_escaped (last (prev # s)) t"
  by (induction prev s rule: quotes_escaped.induct) auto

lemma escape_char_quotes: "quotes_escaped prev (escape_char c)"
  by (cases c rule: escape_char_cases) (simp_all add: hexDigit_plain)

lemma escape_text_quotes: "quotes_escaped prev (escape_text s)"
  by (induction s arbitrary: prev) (simp_all add: quotes_escaped_append escape_char_quotes)

lemma last_escape_text:
  assumes "string_ok s"
  shows "last (ch_quote # escape_text s) \<noteq> ch_backslash"
proof (cases s rule: rev_cases)
  case (snoc s' c)
  then have c: "\<not> takes_code c" "c \<noteq> ch_backslash" using assms by (simp_all add: string_ok_def)
  then have "last (escape_char c) \<noteq> ch_backslash"
    by (auto simp: escape_char_def takes_code_def)
  then show ?thesis using snoc by simp
qed simp

lemma int_text_chars:
  "c \<in> set (int_text n) \<Longrightarrow> c = ch_minus \<or> is_digit8 c" "int_text n \<noteq> []"
  by (auto simp: int_text_def split: if_splits dest: dec_digits_all)

lemma number_value_text:
  assumes "s \<noteq> []" and "\<And>c. c \<in> set s \<Longrightarrow> c = ch_minus \<or> is_digit8 c"
  shows "value_text s"
  using assms(1) assms(2) [of "hd s"] assms(2)
  unfolding value_text_def by (fastforce simp: is_digit8_def prv_isReserved_def prv_isWhiteSpace_def)

lemma value_text_leaf:
  assumes "leaf_ok d"
  shows "value_text (leaf_value d)"
  using assms
proof (cases d rule: leaf_ok.cases)
  case (4 i n)
  then show ?thesis using number_value_text [of "int_text n"] int_text_chars by auto
next
  case (5 i n)
  then show ?thesis using number_value_text [of "dec_digits (unat n)"] by (auto dest: dec_digits_all)
next
  case (6 i v)
  have "value_text (ascii ''true'')" "value_text (ascii ''false'')"
    by (simp_all add: value_text_def prv_isReserved_def prv_isWhiteSpace_def ascii_def of_char_def)
  then show ?thesis using 6 by simp
next
  case (7 i ob inst)
  let ?s = "dec_digits (unat ob) @ ch_colon # dec_digits (unat inst)"
  have "ch_quote \<notin> set ?s" "ch_backslash \<notin> set ?s" by simp_all
  moreover from this have "last (ch_quote # ?s) \<noteq> ch_backslash"
    using last_in_set [of "dec_digits (unat inst)"] digits_no_quote(2) [of "unat inst"] by (cases "dec_digits (unat inst)") auto
  ultimately show ?thesis using 7 value_text_quoted [of ?s] quotes_escaped_plain [of ?s] by simp
qed (use value_text_quoted escape_text_quotes last_escape_text b64_string_ok in \<open>force+\<close>)

section \<open>The extent of an item\<close>

lemma item_run_string: "ch_quote \<notin> set s \<Longrightarrow> ch_backslash \<notin> set s \<Longrightarrow> item_run 2 s = Some 2"
  by (induction s) auto

lemma item_run_escape_char: "item_run 2 (escape_char c) = Some 2"
  by (cases c rule: escape_char_cases) (simp_all add: hexDigit_plain)

lemma item_run_escape: "item_run 2 (escape_text s) = Some 2"
  by (induction s) (simp_all add: item_run_escape_char)

lemma item_run_bare: "(\<And>c. c \<in> set s \<Longrightarrow> c \<notin> {ch_quote, ch_open_brace, ch_close_brace}) \<Longrightarrow> item_run 1 s = Some 1"
  by (induction s) auto

lemma item_run_quoted: "item_run 2 s = Some 2 \<Longrightarrow> item_run 1 (quoted s) = Some 1"
  by (simp add: quoted_def)

lemma item_run_leaf:
  assumes "leaf_ok d"
  shows "item_run 1 (leaf_value d) = Some 1"
  using assms
proof (cases d rule: leaf_ok.cases)
  case (3 i b)
  then show ?thesis using item_run_quoted item_run_escape [of "b64_encode b"] by simp
next
  case (4 i n)
  then show ?thesis using item_run_bare [of "int_text n"] int_text_chars(1) [of _ n] by (fastforce simp: is_digit8_def)
next
  case (5 i n)
  then show ?thesis using item_run_bare [of "dec_digits (unat n)"] dec_digits_all by (fastforce simp: is_digit8_def)
next
  case (6 i v)
  then show ?thesis by (simp add: ascii_def of_char_def)
next
  case (7 i ob inst)
  let ?s = "dec_digits (unat ob) @ ch_colon # dec_digits (unat inst)"
  have "ch_quote \<notin> set ?s" "ch_backslash \<notin> set ?s" by simp_all
  then show ?thesis using 7 item_run_quoted item_run_string [of ?s] by simp
qed (simp_all add: item_run_quoted [simplified] item_run_escape)

section \<open>Reading the item\<close>

text \<open>The record that the parser makes of an item, and the value that it converts it to.\<close>

definition leaf_record :: "u16 list \<Rightarrow> lwm2m_data \<Rightarrow> json_record option" where
  "leaf_record is d = parse_member (leaf_token d) (leaf_value d) (length (leaf_value d))
     (empty_record\<lparr>r_ids := is @ replicate (4 - length is) LWM2M_MAX_ID\<rparr>)"

lemma leaf_token_plain: "ch_quote \<notin> set (leaf_token d)" "ch_comma \<notin> set (leaf_token d)"
  "ch_backslash \<notin> set (leaf_token d)"
  by (cases d rule: leaf_token.cases; simp)+

lemma ascii_literals: "ascii ''true'' = [116, 114, 117, 101]" "ascii ''false'' = [102, 97, 108, 115, 101]"
  by (simp_all add: ascii_def of_char_def)

lemma drop_quoted [simp]: "drop (Suc 0) (quoted s) = s @ [ch_quote]"
  by (simp add: quoted_def)

lemma unescape_quoted:
  assumes "string_ok s"
  shows "json_unescapeString (escape_text s @ [ch_quote]) (length (escape_text s)) = Some s"
  using unescape_text [of "length (escape_text s)" "[]" s "[ch_quote]" "[]"] assms
  by (auto simp: json_unescapeString_def string_ok_def)

lemma convert_string:
  assumes "string_ok s" and "r_type r = TYPE_STRING" and "r_value r = escape_text s @ [ch_quote]"
    and "r_valueLen r = length (escape_text s)"
  shows "json_convertValue all_mem tf r target =
    Some (Some (Data LWM2M_TYPE_STRING (did target) (AsBuffer s)))"
  using assms unescape_quoted [OF assms(1)]
  by (auto simp: json_convertValue_def lwm2m_data_encode_nstring_def lwm2m_data_encode_opaque_def
      prv_setBuffer_def set_value_def set_type_def)

lemma convertNumeric_text:
  assumes "s \<noteq> []" and "\<And>c. c \<in> set s \<Longrightarrow> c = ch_minus \<or> is_digit8 c"
  shows "json_convertNumeric tf s target =
    (if hd s = ch_minus then Some (map_option (\<lambda>v. lwm2m_data_encode_int v target) (utils_textToInt s))
     else Some (map_option (\<lambda>v. lwm2m_data_encode_uint v target) (utils_textToUInt s)))"
proof -
  have "\<forall>c \<in> set s. c \<noteq> ch_dot \<and> c \<noteq> 101 \<and> c \<noteq> 69" using assms(2) by (fastforce simp: is_digit8_def)
  then show ?thesis using assms(1) by (cases s) (auto simp: json_convertNumeric_def)
qed

lemma convert_int:
  "json_convertNumeric tf (int_text n) target = Some (Some
    (if sint n < 0 then lwm2m_data_encode_int n target else lwm2m_data_encode_uint n target))"
  using int_text_chars(1) [of _ n] int_text_chars(2) [of n] convertNumeric_text [of "int_text n" tf target] hd_dec_digits [of "unat n"]
    textToInt_minus_digits [of n]
  by (simp add: int_text_def split: if_splits)

lemma convert_uint:
  "json_convertNumeric tf (dec_digits (unat n)) target = Some (Some (lwm2m_data_encode_uint n target))"
  using convertNumeric_text [of "dec_digits (unat n)" tf target] hd_dec_digits [of "unat n"]
  by (simp add: dec_digits_all)

lemma leaf_record_convert:
  assumes "leaf_ok d" and "length is \<le> 4"
  obtains r where "leaf_record is d = Some r" "r_ids r = is @ replicate (4 - length is) LWM2M_MAX_ID"
    "\<And>tf target. json_convertValue all_mem tf r target =
      Some (Some (Data (dtype (json_back d)) (did target) (dvalue (json_back d))))"
proof -
  note defs = leaf_record_def parse_member_def quoted_value_def empty_record_def json_convertValue_def
    lwm2m_data_encode_bool_def lwm2m_data_encode_int_def lwm2m_data_encode_uint_def set_value_def
  have "\<exists>r. leaf_record is d = Some r \<and> r_ids r = is @ replicate (4 - length is) LWM2M_MAX_ID \<and>
    (\<forall>tf target. json_convertValue all_mem tf r target =
      Some (Some (Data (dtype (json_back d)) (did target) (dvalue (json_back d)))))"
    using assms(1)
  proof (cases d rule: leaf_ok.cases)
    case (1 i s)
    then show ?thesis using assms(1) by (simp add: leaf_record_def parse_member_def quoted_value_def empty_record_def convert_string)
  next
    case (2 i s)
    then show ?thesis using assms(1) by (simp add: leaf_record_def parse_member_def quoted_value_def empty_record_def convert_string)
  next
    case (3 i b)
    then show ?thesis
      using convert_string [OF b64_string_ok]
      by (simp add: leaf_record_def parse_member_def quoted_value_def empty_record_def)
  next
    case (4 i n)
    then show ?thesis by (simp add: defs convert_int)
  next
    case (5 i n)
    then show ?thesis by (simp add: defs convert_uint)
  next
    case (6 i v)
    then show ?thesis by (simp add: defs ascii_literals literal_matches_def)
  next
    case (7 i ob inst)
    then show ?thesis
      using textToObjLink_digits [of ob inst]
      by (simp add: leaf_record_def parse_member_def quoted_value_def empty_record_def json_convertValue_def set_value_def
          del: append_assoc)
  qed simp_all
  then show thesis using that by blast
qed

end
