(* ===== verification/Json_Roundtrip.thy ===== *)
theory Json_Roundtrip
  imports Json_Items
begin

text \<open>
  The JSON message of an object instance, written by \<^verbatim>\<open>json_serialize\<close> and read by \<^verbatim>\<open>json_parse\<close>: the
  text of the items and of the array, the records, the tree that they make, and the round trip.
\<close>

section \<open>The text of the items\<close>

definition item_body :: "u16 list \<times> lwm2m_data \<Rightarrow> bytes" where
  "item_body x = member_text [110] (quoted (path_text (fst x))) @
     ch_comma # member_text (leaf_token (snd x)) (leaf_value (snd x))"

definition item_text :: "u16 list \<times> lwm2m_data \<Rightarrow> bytes" where
  "item_text x = ch_open_brace # item_body x @ [ch_close_brace]"

text \<open>The items of a resource, each with the numbers of its name.\<close>

fun json_items :: "lwm2m_data \<Rightarrow> (u16 list \<times> lwm2m_data) list" where
  "json_items (Data t i (AsChildren cs)) = map (\<lambda>c. ([i, did c], c)) cs"
| "json_items d = [([did d], d)]"

definition resource_ok :: "lwm2m_data \<Rightarrow> bool" where
  "resource_ok d \<longleftrightarrow>
     did d \<noteq> LWM2M_MAX_ID \<and>
     (leaf_ok d \<or>
      (\<exists>cs. d = Data LWM2M_TYPE_MULTIPLE_RESOURCE (did d) (AsChildren cs) \<and> cs \<noteq> [] \<and>
         list_all (\<lambda>c. leaf_ok c \<and> did c \<noteq> LWM2M_MAX_ID) cs))"

lemma leaf_ok_simple:
  assumes "leaf_ok d"
  shows "\<not> holds_children (dtype d)" and "json_items d = [([did d], d)]"
    and "\<not> holds_children (dtype (json_back d))"
    and "dtype (json_back d) \<noteq> LWM2M_TYPE_UNDEFINED"
  using assms by (cases d rule: leaf_ok.cases; simp)+

lemma serializeData_value:
  assumes "json_serializeData cfg ft parent cap out d = Some (Some out')" and "\<not> holds_children (dtype d)"
    and "\<And>out1. json_serializeValue cfg ft cap out1 d = Some (Some out') \<Longrightarrow> out' = out1 @ value_part d"
    and "parent = (if is = [] then [] else path_text is @ [ch_slash])"
  shows "out' = out @ item_text (is @ [did d], d) @ [ch_comma]"
proof -
  obtain t i v where d: "d = Data t i v" by (cases d)
  have path: "parent @ dec_digits (unat i) = path_text (is @ [i])"
    unfolding assms(4) by (induction "is") (auto simp: path_text_Cons)
  obtain out1 where "do { out \<leftarrow> emit cap JSON_RES_ITEM_URI out; out \<leftarrow> emit cap parent out; emit_int cap (ucast i) out }
      = Some out1" and v: "json_serializeValue cfg ft cap out1 d = Some (Some out')"
    using assms(1,2) by (auto simp: d simp del: emit_int_u16 split: option.splits)
  then have "out1 = out @ JSON_RES_ITEM_URI @ parent @ dec_digits (unat i)"
    by (auto simp: bind_eq_Some_conv emit_Some split: if_splits)
  then show ?thesis
    using assms(3) [OF v]
    by (simp add: item_text_def item_body_def value_part_def member_text_def quoted_def JSON_RES_ITEM_URI_def
        ascii_def of_char_def d flip: path)
qed

lemma serializeData_leaf:
  assumes "json_serializeData cfg ft parent cap out d = Some (Some out')" and "leaf_ok d"
    and "parent = (if is = [] then [] else path_text is @ [ch_slash])"
  shows "out' = out @ item_text (is @ [did d], d) @ [ch_comma]"
  by (rule serializeData_value [OF assms(1) leaf_ok_simple(1) [OF assms(2)] _ assms(3)])
    (rule serializeValue_text [OF _ assms(2)])

lemma serializeChildren_leaves:
  "json_serializeChildren cfg ft (path_text [i] @ [ch_slash]) cap out cs = Some (Some out') \<Longrightarrow>
   list_all leaf_ok cs \<Longrightarrow>
   out' = out @ concat (map (\<lambda>c. item_text ([i, did c], c) @ [ch_comma]) cs)"
proof (induction cs arbitrary: out)
  case (Cons c cs)
  then obtain out1 where c: "json_serializeData cfg ft (path_text [i] @ [ch_slash]) cap out c = Some (Some out1)"
    and "json_serializeChildren cfg ft (path_text [i] @ [ch_slash]) cap out1 cs = Some (Some out')"
    by (auto split: option.splits)
  then show ?case
    using Cons.IH [of out1] Cons.prems(2) serializeData_leaf [OF c, of "[i]"] by simp
qed simp

lemma serializeData_resource:
  assumes "json_serializeData cfg ft [] cap out d = Some (Some out')" and "resource_ok d"
  shows "out' = out @ concat (map (\<lambda>x. item_text x @ [ch_comma]) (json_items d))"
proof (cases "leaf_ok d")
  case True
  then show ?thesis using serializeData_leaf [OF assms(1), of "[]"] leaf_ok_simple(2) by simp
next
  case False
  then obtain cs where d: "d = Data LWM2M_TYPE_MULTIPLE_RESOURCE (did d) (AsChildren cs)" "list_all leaf_ok cs"
    using assms(2) by (auto simp: resource_ok_def list_all_iff)
  have "json_serializeChildren cfg ft (path_text [did d] @ [ch_slash]) cap out cs = Some (Some out')"
    using assms(1) by (subst (asm) d(1)) (auto simp: child_path_def Let_def split: option.splits if_splits)
  from serializeChildren_leaves [OF this d(2)] show ?thesis
    by (subst d(1)) (simp add: comp_def)
qed

lemma serialize_items_text:
  "serialize_items cfg ft [] ds out = Some (Some out') \<Longrightarrow> list_all resource_ok ds \<Longrightarrow>
   out' = out @ concat (map (\<lambda>x. item_text x @ [ch_comma]) (concat (map json_items ds))) \<or>
   PRV_JSON_BUFFER_SIZE \<le> length out'"
proof (induction ds arbitrary: out)
  case (Cons d ds)
  show ?case
  proof (cases "length out < PRV_JSON_BUFFER_SIZE")
    case True
    then obtain out1 where c: "json_serializeData cfg ft [] PRV_JSON_BUFFER_SIZE out d = Some (Some out1)"
      and "serialize_items cfg ft [] ds out1 = Some (Some out')"
      using Cons.prems(1) by (auto split: option.splits)
    then show ?thesis
      using Cons.IH [of out1] Cons.prems(2) serializeData_resource [OF c] by auto
  next
    case False
    then show ?thesis using Cons.prems(1) by auto
  qed
qed simp

section \<open>The array\<close>

fun array_text :: "(u16 list \<times> lwm2m_data) list \<Rightarrow> bytes" where
  "array_text [] = []"
| "array_text [x] = item_text x @ [ch_close_bracket]"
| "array_text (x # xs) = item_text x @ ch_comma # array_text xs"

lemma array_text_Cons:
  "array_text (x # xs) = item_text x @ (if xs = [] then [ch_close_bracket] else ch_comma # array_text xs)"
  by (cases xs) simp_all

lemma array_text_items:
  "xs \<noteq> [] \<Longrightarrow> array_text xs = butlast (concat (map (\<lambda>x. item_text x @ [ch_comma]) xs)) @ [ch_close_bracket]"
proof (induction xs rule: array_text.induct)
  case (3 x y xs)
  have "concat (map (\<lambda>x. item_text x @ [ch_comma]) (y # xs)) \<noteq> []" by simp
  with 3 show ?case by (simp add: butlast_append)
qed (simp_all add: butlast_append)

definition item_ok :: "u16 list \<times> lwm2m_data \<Rightarrow> bool" where
  "item_ok x \<longleftrightarrow> leaf_ok (snd x) \<and> fst x \<noteq> [] \<and> length (fst x) \<le> 4"

lemma item_run_path: "item_run 2 (path_text is) = Some 2"
  by (rule item_run_string) (auto dest!: path_text_chars simp: is_digit8_def)

lemma item_run_token: "item_run 2 (leaf_token d) = Some 2"
  using leaf_token_plain [of d] by (intro item_run_string)

lemma item_run_item:
  assumes "item_ok x"
  shows "item_run 0 (ch_open_brace # item_body x) = Some 1"
  using assms item_run_quoted [OF item_run_path, of "fst x"] item_run_leaf [of "snd x"] item_run_token [of "snd x"]
  by (simp add: item_ok_def item_body_def member_text_def)

lemma itemLength_item:
  assumes "item_ok x"
  shows "json_itemLength (item_text x @ rest) = Some (length (item_text x))"
  using itemLength_run [OF item_run_item [OF assms], of rest] by (simp add: item_text_def)

lemma parseItem_item:
  assumes "item_ok x"
  shows "json_parseItem (take (length (item_text x) - 2) (drop 1 (item_text x @ rest))) = leaf_record (fst x) (snd x)"
  using parseItem_members [of "fst x" "leaf_token (snd x)" "leaf_value (snd x)"] assms leaf_token_plain value_text_leaf
  by (simp add: item_text_def item_ok_def item_body_def leaf_record_def)

text \<open>From the last character of an item to the separator, and from there to the next item.\<close>

lemma next_char_item:
  assumes "c = ch_comma \<or> c = ch_close_bracket"
  shows "next_char (pre @ item_text x @ c # rest) (length pre + length (item_text x) - 1) =
    Some (length pre + length (item_text x))"
  using next_char_plain [of "c # rest" "pre @ ch_open_brace # item_body x" ch_close_brace] assms
  by (auto simp: item_text_def prv_isWhiteSpace_def)

lemma next_char_separator:
  assumes "xs \<noteq> []"
  shows "next_char (pre @ ch_comma # array_text xs @ rest) (length pre) = Some (length pre + 1)"
  using next_char_plain [of "array_text xs @ rest" pre ch_comma] assms
  by (cases xs) (simp_all add: array_text_Cons item_text_def prv_isWhiteSpace_def)

text \<open>An item in the buffer, with what follows it.\<close>

lemma item_at:
  assumes "item_ok x" and "c = ch_comma \<or> c = ch_close_bracket" and "B = pre @ item_text x @ c # rest"
  shows "json_itemLength (drop (length pre) B) = Some (length (item_text x))"
    and "json_parseItem (take (length (item_text x) - 2) (drop (length pre + 1) B)) = leaf_record (fst x) (snd x)"
    and "next_char B (length pre + length (item_text x) - 1) = Some (length pre + length (item_text x))"
    and "B ! (length pre + length (item_text x)) = c" and "length pre < length B"
  using itemLength_item [OF assms(1), of "c # rest"] parseItem_item [OF assms(1), of "c # rest"]
    next_char_item [OF assms(2), of pre x rest] assms(3)
  by (simp_all add: nth_append)

lemma separator_at:
  assumes "xs \<noteq> []" and "B = pre @ item_text x @ ch_comma # array_text xs @ rest"
  shows "next_char B (length pre + length (item_text x)) = Some (length pre + length (item_text x) + 1)"
  using next_char_separator [OF assms(1), of "pre @ item_text x" rest] assms(2) by simp

lemma count_step:
  assumes "json_itemLength (drop i B) = Some len" and "next_char B (i + len - 1) = Some j" and "i < length B"
  shows "count_loop B i n =
    (if B ! j = ch_close_bracket then Some (n + 1)
     else if B ! j = ch_comma
     then (case next_char B j of None \<Rightarrow> None | Some k \<Rightarrow> count_loop B k (n + 1)) else None)"
  using assms by (subst count_loop.simps) simp

lemma count_items:
  "xs \<noteq> [] \<Longrightarrow> list_all item_ok xs \<Longrightarrow> B = pre @ array_text xs @ rest \<Longrightarrow>
   count_loop B (length pre) n = Some (n + length xs)"
proof (induction xs arbitrary: pre n)
  case (Cons x xs)
  have x: "item_ok x" using Cons.prems by simp
  show ?case
  proof (cases "xs = []")
    case True
    then have B: "B = pre @ item_text x @ ch_close_bracket # rest" using Cons.prems(3) by simp
    note at = item_at [OF x _ B, simplified]
    show ?thesis using count_step [OF at(1) _ at(5), of "length pre + length (item_text x)" n] at(3,4) True by simp
  next
    case False
    then have B: "B = pre @ item_text x @ ch_comma # array_text xs @ rest"
      using Cons.prems(3) by (simp add: array_text_Cons)
    note at = item_at [OF x _ B, simplified]
    have "count_loop B (length pre) n = count_loop B (length (pre @ item_text x @ [ch_comma])) (n + 1)"
      using count_step [OF at(1) _ at(5), of "length pre + length (item_text x)" n] at(3,4) separator_at [OF False B]
      by simp
    also have "\<dots> = Some (n + 1 + length xs)"
      by (rule Cons.IH) (use False Cons.prems(2) B in simp_all)
    finally show ?thesis by simp
  qed
qed simp

definition item_record :: "u16 list \<times> lwm2m_data \<Rightarrow> json_record" where
  "item_record x = the (leaf_record (fst x) (snd x))"

lemma leaf_record_item: "item_ok x \<Longrightarrow> leaf_record (fst x) (snd x) = Some (item_record x)"
  by (rule leaf_record_convert [of "snd x" "fst x"]) (simp_all add: item_ok_def item_record_def)

lemma read_step:
  assumes "json_itemLength (drop i B) = Some len" and "json_parseItem (take (len - 2) (drop (i + 1) B)) = Some r"
    and "next_char B (i + len - 1) = Some j"
  shows "read_items B i (Suc n) rs =
    (if B ! j = ch_comma then do { k \<leftarrow> next_char B j; read_items B k n (rs @ [r]) }
     else if B ! j = ch_close_bracket \<and> n = 0 then Some (j, rs @ [r]) else None)"
  using assms by simp

lemma read_items_array:
  "xs \<noteq> [] \<Longrightarrow> list_all item_ok xs \<Longrightarrow> B = pre @ array_text xs @ rest \<Longrightarrow>
   read_items B (length pre) (length xs) rs =
     Some (length pre + length (array_text xs) - 1, rs @ map item_record xs)"
proof (induction xs arbitrary: pre rs)
  case (Cons x xs)
  have x: "item_ok x" using Cons.prems by simp
  show ?case
  proof (cases "xs = []")
    case True
    then have B: "B = pre @ item_text x @ ch_close_bracket # rest" using Cons.prems(3) by simp
    note at = item_at [OF x _ B, simplified]
    show ?thesis
      using read_step [of "length pre" B "length (item_text x)" "item_record x" "length pre + length (item_text x)" 0 rs]
        at leaf_record_item [OF x] True by simp
  next
    case False
    then have B: "B = pre @ item_text x @ ch_comma # array_text xs @ rest"
      using Cons.prems(3) by (simp add: array_text_Cons)
    note at = item_at [OF x _ B, simplified]
    have "read_items B (length pre) (Suc (length xs)) rs =
        read_items B (length (pre @ item_text x @ [ch_comma])) (length xs) (rs @ [item_record x])"
      using read_step [of "length pre" B "length (item_text x)" "item_record x" "length pre + length (item_text x)"
          "length xs" rs]
        at leaf_record_item [OF x] separator_at [OF False B] by simp
    also have "\<dots> = Some (length (pre @ item_text x @ [ch_comma]) + length (array_text xs) - 1,
        (rs @ [item_record x]) @ map item_record xs)"
      by (rule Cons.IH) (use False Cons.prems(2) B in simp_all)
    finally show ?thesis using False by (simp add: array_text_Cons)
  qed
qed simp

section \<open>The tree\<close>

lemma findDataItem_None: "ident \<notin> did ` set ds \<Longrightarrow> json_findDataItem ds ident = None"
  by (induction ds) auto

lemma findDataItem_last:
  "ident \<notin> did ` set ds \<Longrightarrow> dtype d \<noteq> LWM2M_TYPE_UNDEFINED \<Longrightarrow> did d = ident \<Longrightarrow>
   json_findDataItem (ds @ [d]) ident = Some (length ds)"
  by (induction ds) auto

lemma item_record_facts:
  assumes "item_ok x"
  shows "r_ids (item_record x) = fst x @ replicate (4 - length (fst x)) LWM2M_MAX_ID"
    and "json_convertValue all_mem tf (item_record x) target =
      Some (Some (Data (dtype (json_back (snd x))) (did target) (dvalue (json_back (snd x)))))"
  by (rule leaf_record_convert [of "snd x" "fst x"]; use assms in \<open>simp add: item_ok_def item_record_def\<close>)+

lemma json_back_parts [simp]: "Data (dtype (json_back d)) (did d) (dvalue (json_back d)) = json_back d"
  by (cases "json_back d") (metis did_json_back lwm2m_data.sel)

lemma extendData_all_mem:
  "as_children (dvalue d) = Some cs \<Longrightarrow>
   json_extendData all_mem d = Some (Some (set_value (dtype d) (AsChildren (cs @ [zero_data])) d))"
  by (simp add: json_extendData_def lwm2m_data_new_def zero_data_def nat_add_distrib
      del: replicate_Suc) simp

text \<open>A single value, and the values of a multiple resource one after the other.\<close>

lemma convert_leaf:
  assumes "leaf_ok d" and "did d \<noteq> LWM2M_MAX_ID" and "did d \<notin> did ` set root"
  shows "convert_records all_mem tf URI_DEPTH_RESOURCE 1 (item_record ([did d], d) # rs) root =
    convert_records all_mem tf URI_DEPTH_RESOURCE 1 rs (root @ [json_back d])"
proof -
  have x: "item_ok ([did d], d)" using assms(1) by (simp add: item_ok_def)
  show ?thesis
    using item_record_facts [OF x] assms(2,3) findDataItem_None [OF assms(3)]
    by (simp add: record_fits_def convert_record_def eval_nat_numeral)
qed

lemma convert_child:
  assumes "leaf_ok c" and "did c \<noteq> LWM2M_MAX_ID" and "i \<noteq> LWM2M_MAX_ID" and "i \<notin> did ` set root"
    and "found = [] \<or> found = [Data LWM2M_TYPE_MULTIPLE_RESOURCE i (AsChildren cs)]" and "found = [] \<longrightarrow> cs = []"
  shows "convert_records all_mem tf URI_DEPTH_RESOURCE 1 (item_record ([i, did c], c) # rs) (root @ found) =
    convert_records all_mem tf URI_DEPTH_RESOURCE 1 rs
      (root @ [Data LWM2M_TYPE_MULTIPLE_RESOURCE i (AsChildren (cs @ [json_back c]))])"
proof -
  let ?convert = "json_convertValue all_mem tf (item_record ([i, did c], c))"
  have x: "item_ok ([i, did c], c)" using assms(1) by (simp add: item_ok_def)
  have w: "write_instance all_mem (did c) ?convert d =
      Some (Some (Data LWM2M_TYPE_MULTIPLE_RESOURCE (did d) (AsChildren (cs @ [json_back c]))))"
    if "as_children (dvalue d) = Some cs" for d
    using that item_record_facts(2) [OF x]
    by (simp add: write_instance_def extendData_all_mem zero_data_def set_value_def)
  show ?thesis
    using item_record_facts(1) [OF x] assms findDataItem_None [OF assms(4)]
      findDataItem_last [OF assms(4), of "Data LWM2M_TYPE_MULTIPLE_RESOURCE i (AsChildren cs)"] w
    by (elim disjE) (simp_all add: record_fits_def convert_record_def eval_nat_numeral)
qed

lemma convert_children:
  assumes "list_all (\<lambda>c. leaf_ok c \<and> did c \<noteq> LWM2M_MAX_ID) cs" and "i \<noteq> LWM2M_MAX_ID" and "i \<notin> did ` set root"
  shows "convert_records all_mem tf URI_DEPTH_RESOURCE 1 (map item_record (map (\<lambda>c. ([i, did c], c)) cs) @ rs)
      (root @ [Data LWM2M_TYPE_MULTIPLE_RESOURCE i (AsChildren before)]) =
    convert_records all_mem tf URI_DEPTH_RESOURCE 1 rs
      (root @ [Data LWM2M_TYPE_MULTIPLE_RESOURCE i (AsChildren (before @ map json_back cs))])"
  using assms(1)
proof (induction cs arbitrary: before)
  case (Cons c cs)
  show ?case
    using Cons convert_child [of c i root "[Data LWM2M_TYPE_MULTIPLE_RESOURCE i (AsChildren before)]" before] assms(2,3)
    by simp
qed simp

lemma convert_resource:
  assumes "resource_ok d" and "did d \<notin> did ` set root"
  shows "convert_records all_mem tf URI_DEPTH_RESOURCE 1 (map item_record (json_items d) @ rs) root =
    convert_records all_mem tf URI_DEPTH_RESOURCE 1 rs (root @ [json_back d])"
proof (cases "leaf_ok d")
  case True
  then show ?thesis using convert_leaf [OF True] assms leaf_ok_simple(2) by (simp add: resource_ok_def)
next
  case False
  then obtain cs where d: "d = Data LWM2M_TYPE_MULTIPLE_RESOURCE (did d) (AsChildren cs)" "cs \<noteq> []"
    and cs: "list_all (\<lambda>c. leaf_ok c \<and> did c \<noteq> LWM2M_MAX_ID) cs" and i: "did d \<noteq> LWM2M_MAX_ID"
    using assms(1) by (auto simp: resource_ok_def)
  obtain c cs' where c: "cs = c # cs'" using d(2) by (cases cs) auto
  have items: "json_items d = map (\<lambda>c. ([did d, did c], c)) cs" by (subst d(1)) simp
  have bd: "json_back d = Data LWM2M_TYPE_MULTIPLE_RESOURCE (did d) (AsChildren (map json_back cs))"
    by (subst d(1)) simp
  have "convert_records all_mem tf URI_DEPTH_RESOURCE 1 (map item_record (json_items d) @ rs) (root @ []) =
      convert_records all_mem tf URI_DEPTH_RESOURCE 1 (map item_record (map (\<lambda>c. ([did d, did c], c)) cs') @ rs)
        (root @ [Data LWM2M_TYPE_MULTIPLE_RESOURCE (did d) (AsChildren ([] @ [json_back c]))])"
    using convert_child [of c "did d" root "[]" "[]"] cs i assms(2) by (simp add: items c)
  also have "\<dots> = convert_records all_mem tf URI_DEPTH_RESOURCE 1 rs
      (root @ [Data LWM2M_TYPE_MULTIPLE_RESOURCE (did d) (AsChildren ([json_back c] @ map json_back cs'))])"
    using convert_children [of cs' "did d" root tf rs "[json_back c]"] cs i assms(2) c by simp
  finally show ?thesis by (simp add: bd c)
qed

lemma convert_resources:
  "list_all resource_ok ds \<Longrightarrow> distinct (map did (root @ ds)) \<Longrightarrow>
   convert_records all_mem tf URI_DEPTH_RESOURCE 1 (map item_record (concat (map json_items ds))) root =
     Some (Some (root @ map json_back ds))"
proof (induction ds arbitrary: root)
  case (Cons d ds)
  have "convert_records all_mem tf URI_DEPTH_RESOURCE 1 (map item_record (concat (map json_items (d # ds)))) root =
      convert_records all_mem tf URI_DEPTH_RESOURCE 1 (map item_record (concat (map json_items ds))) (root @ [json_back d])"
    using convert_resource [of d root tf "map item_record (concat (map json_items ds))"] Cons.prems by simp
  also have "\<dots> = Some (Some ((root @ [json_back d]) @ map json_back ds))"
    by (rule Cons.IH) (use Cons.prems in auto)
  finally show ?case by simp
qed simp

lemma strip_leaves:
  "list_all (\<lambda>d. \<not> holds_children (dtype d)) ds \<Longrightarrow> strip_loop all_mem ds out s =
    Some (out @ ds, if ds = [] then s else None)"
proof (induction ds arbitrary: out s)
  case (Cons d ds)
  then show ?case by (cases d) simp
qed simp

lemma strip_resource:
  assumes "resource_ok d"
  shows "strip_loop all_mem (json_back d # ds) out s = strip_loop all_mem ds (out @ [json_back d]) None"
proof (cases "leaf_ok d")
  case True
  then show ?thesis using leaf_ok_simple(3) [OF True] by (cases "json_back d") simp
next
  case False
  then obtain cs where d: "d = Data LWM2M_TYPE_MULTIPLE_RESOURCE (did d) (AsChildren cs)" "cs \<noteq> []"
    and cs: "list_all (\<lambda>c. leaf_ok c \<and> did c \<noteq> LWM2M_MAX_ID) cs"
    using assms by (auto simp: resource_ok_def)
  have bd: "json_back d = Data LWM2M_TYPE_MULTIPLE_RESOURCE (did d) (AsChildren (map json_back cs))"
    by (subst d(1)) simp
  have "list_all (\<lambda>d. \<not> holds_children (dtype d)) (map json_back cs)"
    using cs leaf_ok_simple(3) by (simp add: list_all_iff)
  from strip_leaves [OF this, of "[]" None] show ?thesis
    using d(2) by (simp add: bd strip_result_def)
qed

lemma strip_resources: "list_all resource_ok ds \<Longrightarrow> strip_loop all_mem (map json_back ds) out s =
    Some (out @ map json_back ds, if ds = [] then s else None)"
  by (induction ds arbitrary: out s) (simp_all add: strip_resource)

lemma dataStrip_resources:
  assumes "list_all resource_ok ds" and "ds \<noteq> []"
  shows "json_dataStrip all_mem (map json_back ds) = Some (Some (map json_back ds))"
  using assms strip_resources [OF assms(1), of "[]" None] by (simp add: json_dataStrip_def strip_result_def)

section \<open>The message\<close>

definition json_text :: "bytes \<Rightarrow> (u16 list \<times> lwm2m_data) list \<Rightarrow> bytes" where
  "json_text base xs =
     JSON_BN_HEADER_1 @ base @ [ch_slash] @ JSON_BN_HEADER_2 @ array_text xs @ [ch_close_brace]"

lemma toString_instance_depth:
  assumes "uri_toString cfg (Some u) buffer = Some (m, s, Some d)" and "objectId u \<noteq> LWM2M_MAX_ID"
    and "instanceId u \<noteq> LWM2M_MAX_ID" and "resourceId u = LWM2M_MAX_ID"
  shows "d = URI_DEPTH_OBJECT_INSTANCE"
  using assms by (auto simp: uri_toString_def print_segment_def split: option.splits sum.splits)

lemma resource_kind:
  assumes "resource_ok d"
  shows "\<not> is_object_or_instance (dtype d)"
  using assms leaf_ok_simple(1) [of d] by (cases d) (auto simp: resource_ok_def)

lemma extend_base_resources:
  assumes "\<And>d. ds = [d] \<Longrightarrow> \<not> holds_children (dtype d)"
  shows "extend_base cfg base ds = Some (Some (base, ds))"
  using assms by (auto simp: extend_base.simps [of cfg base ds] split: list.splits)

lemma json_items_not_Nil: "resource_ok d \<Longrightarrow> json_items d \<noteq> []"
  by (cases d rule: json_items.cases) (auto simp: resource_ok_def)

lemma json_target_instance:
  assumes "json_target cfg (Some u) ds = Some (Some (base, target))"
    and "uri_ok cfg u" "objectId u \<noteq> LWM2M_MAX_ID" "instanceId u \<noteq> LWM2M_MAX_ID" "resourceId u = LWM2M_MAX_ID"
    and "\<And>d. d \<in> set ds \<Longrightarrow> \<not> is_object_or_instance (dtype d)" "ds \<noteq> []"
  shows "base = uri_text (uri_segments u) \<and> target = ds"
proof -
  obtain m s d where t: "uri_toString cfg (Some u) (replicate (uri_max_string_len cfg) 0) = Some (m, s, Some d)"
    using assms(1) by (auto simp: json_target_def split: option.splits)
  have d: "d = URI_DEPTH_OBJECT_INSTANCE" using toString_instance_depth [OF t] assms(3-5) by simp
  have "hd ds \<in> set ds" using assms(7) by simp
  then have "prv_findAndCheckData (Some u) URI_DEPTH_RESOURCE ds l = Some (Some (ds, l))" for l
    using assms(6,7) by (subst prv_findAndCheckData.simps) (auto simp: kinds_agree_def list_all_iff)
  then show ?thesis
    using assms(1) t d toString_text [OF t assms(2,3)]
    by (simp add: json_target_def json_findAndCheckData_def less_eq_uri_depth_def Let_def)
qed

lemma json_serialize_message:
  assumes "json_serialize cfg mem ft (Some u) ds = Some (n, Some b)"
    and u: "uri_ok cfg u" "objectId u \<noteq> LWM2M_MAX_ID" "instanceId u \<noteq> LWM2M_MAX_ID" "resourceId u = LWM2M_MAX_ID"
    and ds: "\<And>d. d \<in> set ds \<Longrightarrow> \<not> is_object_or_instance (dtype d)" "ds \<noteq> []"
      "\<And>d. ds = [d] \<Longrightarrow> \<not> holds_children (dtype d)"
  obtains out where "serialize_items cfg ft [] ds
      (JSON_BN_HEADER_1 @ uri_text (uri_segments u) @ [ch_slash] @ JSON_BN_HEADER_2) = Some (Some out)"
    "length out < PRV_JSON_BUFFER_SIZE" "b = butlast out @ JSON_FOOTER"
proof -
  let ?base = "uri_text (uri_segments u)"
  let ?head = "JSON_BN_HEADER_1 @ ?base @ [ch_slash] @ JSON_BN_HEADER_2"
  have s: "strip_resource_instance cfg u = u"
    using u(1,4) by (auto simp: strip_resource_instance_def uri_ok_def)
  obtain base target where t: "json_target cfg (Some u) ds = Some (Some (base, target))"
    using assms(1) s by (auto simp: json_serialize_def split: option.splits)
  have bt: "base = ?base" "target = ds" using json_target_instance [OF t u ds(1,2)] by simp_all
  have m: "json_message cfg mem ft ?base ds = Some (n, Some b)"
    using assms(1) s t extend_base_resources [OF ds(3)] bt by (simp add: json_serialize_def)
  have "?base \<noteq> []" using u(2) by (simp add: uri_segments_def)
  then obtain out where out: "serialize_items cfg ft [] ds ?head = Some (Some out)"
    "\<not> length out + length JSON_FOOTER - 1 > PRV_JSON_BUFFER_SIZE" "b = butlast out @ JSON_FOOTER"
    using m ds(2) by (auto simp: json_message_def Let_def split: option.splits if_splits)
  have "length out < PRV_JSON_BUFFER_SIZE" using out(2) by (simp add: JSON_FOOTER_def)
  from out(1) this out(3) show thesis by (rule that)
qed

lemma json_serialize_text:
  assumes "json_serialize cfg mem ft (Some u) ds = Some (n, Some b)"
    and u: "uri_ok cfg u" "objectId u \<noteq> LWM2M_MAX_ID" "instanceId u \<noteq> LWM2M_MAX_ID" "resourceId u = LWM2M_MAX_ID"
    and ds: "list_all resource_ok ds" "ds \<noteq> []" "\<And>d. ds = [d] \<Longrightarrow> leaf_ok d"
  shows "b = json_text (uri_text (uri_segments u)) (concat (map json_items ds))"
proof -
  let ?base = "uri_text (uri_segments u)" and ?xs = "concat (map json_items ds)"
  let ?head = "JSON_BN_HEADER_1 @ ?base @ [ch_slash] @ JSON_BN_HEADER_2"
  obtain out where out: "serialize_items cfg ft [] ds ?head = Some (Some out)" "length out < PRV_JSON_BUFFER_SIZE"
    "b = butlast out @ JSON_FOOTER"
    by (rule json_serialize_message [OF assms(1) u _ ds(2)])
      (use resource_kind leaf_ok_simple(1) ds in \<open>auto simp: list_all_iff\<close>)
  have o: "out = ?head @ concat (map (\<lambda>x. item_text x @ [ch_comma]) ?xs)"
    using serialize_items_text [OF out(1) ds(1)] out(2) by auto
  have xs: "?xs \<noteq> []" using ds(1,2) json_items_not_Nil by (cases ds) auto
  then have "concat (map (\<lambda>x. item_text x @ [ch_comma]) ?xs) \<noteq> []" by (cases ?xs) simp_all
  then have "butlast out = ?head @ butlast (concat (map (\<lambda>x. item_text x @ [ch_comma]) ?xs))"
    unfolding o by (simp add: butlast_append)
  then show ?thesis
    using out(3) array_text_items [OF xs]
    by (simp add: json_text_def JSON_FOOTER_def ascii_def of_char_def)
qed

text \<open>The two members of the message.\<close>

lemma next_char_at:
  "B = pre @ c # rest \<Longrightarrow> rest \<noteq> [] \<Longrightarrow> \<not> prv_isWhiteSpace (hd rest) \<Longrightarrow> i = length pre \<Longrightarrow>
   next_char B i = Some (i + 1)"
  using next_char_plain by simp

lemma read_bn:
  assumes "B = ch_open_brace # member_text [98, 110] (quoted name) @ ch_comma # rest"
    and "\<And>c. c \<in> set name \<Longrightarrow> is_digit8 c \<or> c = ch_slash"
    and "ps_bn st = None"
  shows "read_member mem B 1 st =
    Some (Some (length name + 7, st\<lparr>ps_bn := Some (quoted name)\<rparr>))"
proof -
  let ?m = "member_text [98, 110] (quoted name)"
  have plain: "c \<notin> set name" if "c \<in> {ch_comma, ch_close_brace, ch_quote, ch_backslash}" for c
    using that assms(2) [of c] by (auto simp: is_digit8_def)
  have v: "value_text (quoted name)"
  proof (rule value_text_quoted)
    show "quotes_escaped ch_quote name" by (rule quotes_escaped_plain) (simp add: plain)
    show "last (ch_quote # name) \<noteq> ch_backslash"
      using plain [of ch_backslash] last_in_set [of name] by (cases "name = []") (auto simp del: last_in_set)
  qed
  have item: "takeWhile (\<lambda>c. \<not> member_end c) (drop 1 B) = ?m"
  proof -
    have "\<forall>c \<in> set ?m. \<not> member_end c"
      using plain by (auto simp: member_text_def quoted_def)
    then show ?thesis by (simp add: assms(1) takeWhile_append)
  qed
  have split: "json_split ?m = Some (length ?m,
      \<lparr>tokenStart = 1, tokenLen = 2, valueStart = 5, valueLen = length (quoted name)\<rparr>)"
    using json_split_member [of "[98, 110]" "quoted name" "[]"] v by simp
  have t: "take (length (quoted name)) (drop 5 ?m) = quoted name" by (simp add: member_text_def eval_nat_numeral)
  have len: "length ?m = length name + 7" by (simp add: member_text_def)
  have at: "B ! 1 = ch_quote" "B ! 3 = 110" "B ! 4 = ch_quote" "rd B 2 = Some 98" "length B = length ?m + 2 + length rest"
    by (simp_all add: assms(1) member_text_def eval_nat_numeral)
  have "read_b B 2 st = Some (Some (length name + 7, st\<lparr>ps_bn := Some (quoted name)\<rparr>))"
    using item split assms(3) t len at by (simp add: read_b_def Let_def)
  then show ?thesis
    using at by (simp add: read_member_def del: One_nat_def)
qed

lemma item_text_length:
  assumes "item_ok x"
  shows "15 \<le> length (item_text x)"
proof -
  have "path_text (fst x) \<noteq> []" using assms by (cases "fst x") (auto simp: item_ok_def path_text_Cons)
  then have p: "1 \<le> length (path_text (fst x))" by (cases "path_text (fst x)") simp_all
  have "leaf_value (snd x) \<noteq> [] \<and> (leaf_token (snd x) = [118] \<or> 4 \<le> length (leaf_token (snd x)) + length (leaf_value (snd x)))"
    using assms unfolding item_ok_def
    by (cases "snd x" rule: leaf_ok.cases) (auto simp: int_text_chars ascii_literals quoted_def)
  then have "2 \<le> length (leaf_token (snd x)) + length (leaf_value (snd x))"
    by (cases "leaf_value (snd x)") auto
  then show ?thesis using p by (simp add: item_text_def item_body_def member_text_def)
qed

lemma read_e_array:
  assumes "B = pre @ [ch_quote, 101, ch_quote, ch_colon, ch_open_bracket] @ array_text xs @ [ch_close_brace]"
    and "xs \<noteq> []" and "list_all item_ok xs" and "ps_e st = None"
  shows "read_member all_mem B (length pre) st =
    Some (Some (length pre + 5 + length (array_text xs) - 1, st\<lparr>ps_e := Some (map item_record xs)\<rparr>))"
proof -
  have at: "B ! length pre = ch_quote" "rd B (length pre + 1) = Some 101" "B ! (length pre + 2) = ch_quote"
    "B ! (length pre + 3) = ch_colon" "B ! (length pre + 4) = ch_open_bracket"
    by (simp_all add: assms(1) nth_append)
  obtain x xs' where x: "xs = x # xs'" using assms(2) by (cases xs) auto
  have ws: "\<not> prv_isWhiteSpace ch_colon" "\<not> prv_isWhiteSpace ch_open_bracket" "\<not> prv_isWhiteSpace ch_open_brace"
    by (simp_all add: prv_isWhiteSpace_def)
  have n1: "next_char B (length pre + 2) = Some (length pre + 2 + 1)"
    by (rule next_char_at [of _ "pre @ [ch_quote, 101]" ch_quote "[ch_colon, ch_open_bracket] @ array_text xs @ [ch_close_brace]"])
      (simp_all add: assms(1) ws)
  have n2: "next_char B (length pre + 3) = Some (length pre + 3 + 1)"
    by (rule next_char_at [of _ "pre @ [ch_quote, 101, ch_quote]" ch_colon "ch_open_bracket # array_text xs @ [ch_close_brace]"])
      (simp_all add: assms(1) ws)
  have n3: "next_char B (length pre + 4) = Some (length pre + 4 + 1)"
    by (rule next_char_at [of _ "pre @ [ch_quote, 101, ch_quote, ch_colon]" ch_open_bracket "array_text xs @ [ch_close_brace]"])
      (simp_all add: assms(1) ws x array_text_Cons item_text_def)
  have nexts: "next_char B (length pre + 2) = Some (length pre + 3)" "next_char B (length pre + 3) = Some (length pre + 4)"
    "next_char B (length pre + 4) = Some (length pre + 5)"
    using n1 n2 n3 by (simp_all del: add_2_eq_Suc')
  have B: "B = (pre @ [ch_quote, 101, ch_quote, ch_colon, ch_open_bracket]) @ array_text xs @ [ch_close_brace]"
    by (simp add: assms(1))
  have len: "length (pre @ [ch_quote, 101, ch_quote, ch_colon, ch_open_bracket]) = length pre + 5" by simp
  have count: "json_countItems (drop (length pre + 5) B) = Some (length xs)"
    using count_items [OF assms(2,3), of _ "[]" "[ch_close_brace]" 0] by (simp add: json_countItems_def B)
  have read: "read_items B (length pre + 5) (length xs) [] =
      Some (length pre + 5 + length (array_text xs) - 1, map item_record xs)"
    using read_items_array [OF assms(2,3) B, of "[]"] by (simp only: len append_Nil)
  obtain a where a: "array_text xs = a @ [ch_close_bracket]" using array_text_items [OF assms(2)] by blast
  have "B ! (length pre + 5 + length (array_text xs) - 1) = ch_close_bracket"
    by (simp add: assms(1) a nth_append)
  moreover have "\<not> length B - (length pre + 1) < 21"
    using item_text_length [of x] assms(3) by (simp add: B x array_text_Cons)
  ultimately show ?thesis
    using at nexts count read assms(2,4)
    by (simp add: read_member_def read_e_def sizeof_record_def add.assoc)
qed

lemma read_message:
  assumes "xs \<noteq> []" and "list_all item_ok xs" and "\<And>c. c \<in> set base \<Longrightarrow> is_digit8 c \<or> c = ch_slash"
  shows "read_members all_mem (json_text base xs) 0 \<lparr>ps_e = None, ps_bn = None, ps_bt = False\<rparr> =
    Some (Some \<lparr>ps_e = Some (map item_record xs), ps_bn = Some (quoted (base @ [ch_slash])), ps_bt = False\<rparr>)"
proof -
  let ?B = "json_text base xs" and ?name = "base @ [ch_slash]"
  let ?st0 = "\<lparr>ps_e = None, ps_bn = None, ps_bt = False\<rparr>"
  let ?st1 = "?st0\<lparr>ps_bn := Some (quoted ?name)\<rparr>"
  define pre where "pre = ch_open_brace # member_text [98, 110] (quoted ?name) @ [ch_comma]"
  let ?e = "[ch_quote, 101, ch_quote, ch_colon, ch_open_bracket] @ array_text xs @ [ch_close_brace]"
  have B: "?B = pre @ ?e"
    by (simp add: pre_def json_text_def member_text_def quoted_def json_literals)
  have len: "length pre = length ?name + 9" by (simp add: pre_def member_text_def)
  have B1: "?B = ch_open_brace # member_text [98, 110] (quoted ?name) @ ch_comma # ?e"
    by (simp add: B pre_def)
  have name: "is_digit8 c \<or> c = ch_slash" if "c \<in> set ?name" for c using that assms(3) by auto
  have ws: "\<not> prv_isWhiteSpace ch_quote" "\<not> prv_isWhiteSpace ch_comma" "\<not> prv_isWhiteSpace ch_close_brace"
    by (simp_all add: prv_isWhiteSpace_def)
  have n0: "next_char ?B 0 = Some (0 + 1)"
    by (rule next_char_at [of _ "[]" ch_open_brace "member_text [98, 110] (quoted ?name) @ ch_comma # ?e"])
      (simp_all add: B1 ws member_text_def)
  have n1: "next_char ?B (length ?name + 7) = Some (length ?name + 7 + 1)"
    by (rule next_char_at [of _ "ch_open_brace # [ch_quote, 98, 110, ch_quote, ch_colon, ch_quote] @ ?name" ch_quote "ch_comma # ?e"])
      (simp_all add: B1 ws member_text_def quoted_def)
  have n2: "next_char ?B (length ?name + 8) = Some (length ?name + 8 + 1)"
    by (rule next_char_at [of _ "ch_open_brace # member_text [98, 110] (quoted ?name)" ch_comma ?e])
      (simp_all add: B1 ws member_text_def)
  obtain a where a: "array_text xs = a @ [ch_close_bracket]" using array_text_items [OF assms(1)] by blast
  have n3: "next_char ?B (length pre + 5 + length (array_text xs) - 1) =
      Some (length pre + 5 + length (array_text xs) - 1 + 1)"
    by (rule next_char_at [of _ "pre @ [ch_quote, 101, ch_quote, ch_colon, ch_open_bracket] @ a" ch_close_bracket "[ch_close_brace]"])
      (simp_all add: B a ws)
  have len8: "length (ch_open_brace # member_text [98, 110] (quoted ?name)) = length ?name + 8"
    by (simp add: member_text_def)
  have at: "?B ! (length ?name + 8) = ch_comma" "?B ! (length pre + 5 + length (array_text xs)) = ch_close_brace"
  proof -
    show "?B ! (length ?name + 8) = ch_comma"
      using nth_append_length [of "ch_open_brace # member_text [98, 110] (quoted ?name)" ch_comma ?e]
      unfolding len8 B1 by simp
    show "?B ! (length pre + 5 + length (array_text xs)) = ch_close_brace" by (simp add: B nth_append)
  qed
  have "read_members all_mem ?B 0 ?st0 = read_members all_mem ?B (length ?name + 8) ?st1"
    using n0 n1 at(1) read_bn [OF B1 name, of ?st0 all_mem]
    by (subst read_members.simps) (simp add: add.assoc)
  also have "\<dots> = Some (Some (?st1\<lparr>ps_e := Some (map item_record xs)\<rparr>))"
    using n2 n3 at(2) len read_e_array [OF B assms(1,2), of ?st1]
    by (subst read_members.simps) (simp add: add.assoc)
  finally show ?thesis by simp
qed

lemma base_uri_text:
  assumes "uri_ok cfg u" and "objectId u \<noteq> LWM2M_MAX_ID"
  shows "base_uri cfg (quoted (uri_text (uri_segments u) @ [ch_slash])) = Some (Some (Some u))"
proof -
  let ?t = "uri_text (uri_segments u)"
  have "uri_segments u \<noteq> []" using assms(2) by (simp add: uri_segments_def)
  then have "?t \<noteq> []" by (cases "uri_segments u") simp_all
  moreover have "butlast (tl (quoted (?t @ [ch_slash]))) = ?t @ [ch_slash]"
    by (simp add: quoted_def butlast_append)
  ultimately show ?thesis
    using stringToUri_text [OF assms] is_quoted(1) [of "?t @ [ch_slash]"]
    by (simp add: base_uri_def Let_def del: append_assoc)
qed

lemma uri_text_chars: "c \<in> set (uri_text (uri_segments u)) \<Longrightarrow> is_digit8 c \<or> c = ch_slash"
  by (auto simp: uri_segments_def uri_text_def split: if_splits dest: dec_digits_all)

lemma items_ok_one:
  assumes "resource_ok d"
  shows "list_all item_ok (json_items d)"
proof (cases "leaf_ok d")
  case True
  then show ?thesis by (simp add: leaf_ok_simple(2) item_ok_def)
next
  case False
  then obtain cs where d: "d = Data LWM2M_TYPE_MULTIPLE_RESOURCE (did d) (AsChildren cs)"
    and "list_all (\<lambda>c. leaf_ok c \<and> did c \<noteq> LWM2M_MAX_ID) cs" using assms by (auto simp: resource_ok_def)
  moreover have "json_items d = map (\<lambda>c. ([did d, did c], c)) cs" by (subst d) simp
  ultimately show ?thesis by (simp add: list_all_iff item_ok_def)
qed

lemma items_ok: "list_all resource_ok ds \<Longrightarrow> list_all item_ok (concat (map json_items ds))"
  by (induction ds) (simp_all add: items_ok_one)

lemma json_parse_text:
  assumes u: "uri_ok cfg u" "objectId u \<noteq> LWM2M_MAX_ID" "instanceId u \<noteq> LWM2M_MAX_ID" "resourceId u = LWM2M_MAX_ID"
    and ds: "list_all resource_ok ds" "ds \<noteq> []" "distinct (map did ds)"
  shows "json_parse cfg all_mem tf (Some u) (json_text (uri_text (uri_segments u)) (concat (map json_items ds))) =
    Some (int (length ds), map json_back ds)"
proof -
  let ?xs = "concat (map json_items ds)" and ?base = "uri_text (uri_segments u)"
  have xs: "?xs \<noteq> []" using ds(1,2) json_items_not_Nil by (cases ds) auto
  note read = read_message [OF xs items_ok [OF ds(1)] uri_text_chars]
  have conv: "json_convertRecord all_mem tf (Some u) (map item_record ?xs) = Some (Some [wrap_root u (map json_back ds)])"
    using convert_resources [OF ds(1), of "[]" tf] ds(2,3) u(3,4) xs
    by (simp add: json_convertRecord_def root_level_def lwm2m_data_new_def)
  have "find_instance (instanceId u) [Data LWM2M_TYPE_OBJECT_INSTANCE (instanceId u) (AsChildren (map json_back ds))] =
      Some (Some (map json_back ds))"
    using ds(2) by (cases ds) simp_all
  then have sel: "json_select all_mem u [wrap_root u (map json_back ds)] = Some (Some (map json_back ds))"
    using u(3,4) dataStrip_resources [OF ds(1,2)] by (simp add: json_select_def wrap_root_def)
  have "json_skipSpace (json_text ?base ?xs) = 0" "json_text ?base ?xs ! 0 = ch_open_brace" "json_text ?base ?xs \<noteq> []"
    by (simp_all add: json_text_def json_literals prv_isWhiteSpace_def)
  then show ?thesis
    using read conv sel base_uri_text [OF u(1,2)] by (simp add: json_parse_def)
qed

text \<open>
  C18: the JSON message that \<^verbatim>\<open>json_serialize\<close> writes for the resources of an object instance is read
  by \<^verbatim>\<open>json_parse\<close> as these resources, in their order and with their instances: strings as they were,
  numbers that are not negative as unsigned ones, opaque values as their base64 text, core links as strings.
  The resources have distinct numbers below 65535 and hold something. Left out are floating-point numbers, strings
  that end in a backslash or in a control character that is printed as a code (both are written and then refused),
  and a single multiple resource, whose number the writer moves to the base name.
\<close>
theorem json_instance_roundtrip:
  assumes "json_serialize cfg mem floatToText (Some u) ds = Some (n, Some b)"
    and "uri_ok cfg u" "objectId u \<noteq> LWM2M_MAX_ID" "instanceId u \<noteq> LWM2M_MAX_ID" "resourceId u = LWM2M_MAX_ID"
    and "list_all resource_ok ds" "ds \<noteq> []" "distinct (map did ds)" "\<And>d. ds = [d] \<Longrightarrow> leaf_ok d"
  shows "json_parse cfg all_mem textToFloat (Some u) b = Some (int (length ds), map json_back ds)"
  using json_serialize_text [OF assms(1-7,9)] json_parse_text [OF assms(2-8)] by simp

theorem json_instance_roundtrip_witness:
  "\<exists>n b. json_serialize client_build all_mem (\<lambda>_ _ _. [])
       (Some \<lparr>objectId = 3, instanceId = 0, resourceId = 0xFFFF, resourceInstanceId = 0xFFFF\<rparr>)
       [Data LWM2M_TYPE_STRING 0 (AsBuffer [79, 34]), Data LWM2M_TYPE_INTEGER 9 (AsInteger (- 5)),
        Data LWM2M_TYPE_MULTIPLE_RESOURCE 6 (AsChildren [Data LWM2M_TYPE_BOOLEAN 1 (AsBoolean True)])] = Some (n, Some b) \<and>
     json_parse client_build all_mem (\<lambda>_ _. None)
       (Some \<lparr>objectId = 3, instanceId = 0, resourceId = 0xFFFF, resourceInstanceId = 0xFFFF\<rparr>) b =
     Some (3, [Data LWM2M_TYPE_STRING 0 (AsBuffer [79, 34]), Data LWM2M_TYPE_INTEGER 9 (AsInteger (- 5)),
        Data LWM2M_TYPE_MULTIPLE_RESOURCE 6 (AsChildren [Data LWM2M_TYPE_BOOLEAN 1 (AsBoolean True)])])"
proof -
  let ?u = "\<lparr>objectId = 3, instanceId = 0, resourceId = 0xFFFF, resourceInstanceId = 0xFFFF\<rparr>"
  let ?ds = "[Data LWM2M_TYPE_STRING 0 (AsBuffer [79, 34]), Data LWM2M_TYPE_INTEGER 9 (AsInteger (- 5)),
        Data LWM2M_TYPE_MULTIPLE_RESOURCE 6 (AsChildren [Data LWM2M_TYPE_BOOLEAN 1 (AsBoolean True)])]"
  obtain n b where s: "json_serialize client_build all_mem (\<lambda>_ _ _. []) (Some ?u) ?ds = Some (n, Some b)"
  proof -
    have "case json_serialize client_build all_mem (\<lambda>_ _ _. []) (Some ?u) ?ds of Some (n, Some b) \<Rightarrow> True | _ \<Rightarrow> False"
      by code_simp
    then show ?thesis using that by (auto split: option.splits prod.splits)
  qed
  have ds: "list_all resource_ok ?ds"
    by (simp add: resource_ok_def string_ok_def takes_code_def)
  have "map json_back ?ds = ?ds" by simp
  then show ?thesis
    using s json_instance_roundtrip [OF s _ _ _ _ ds, of "\<lambda>_ _. None"] by (simp add: uri_ok_def)
qed

text \<open>Two resources without instances: the last character of the header is cut off as if it were a comma.\<close>

lemma empty_instances_text:
  assumes "json_serialize cfg mem ft (Some u) [Data LWM2M_TYPE_MULTIPLE_RESOURCE j (AsChildren []),
      Data LWM2M_TYPE_MULTIPLE_RESOURCE k (AsChildren [])] = Some (n, Some b)"
    and "uri_ok cfg u" "objectId u \<noteq> LWM2M_MAX_ID" "instanceId u \<noteq> LWM2M_MAX_ID" "resourceId u = LWM2M_MAX_ID"
  shows "b = ascii ''{\"bn\":\"'' @ uri_text (uri_segments u) @ ascii ''/\",\"e\":]}''"
proof -
  let ?head = "JSON_BN_HEADER_1 @ uri_text (uri_segments u) @ [ch_slash] @ JSON_BN_HEADER_2"
  obtain out where "serialize_items cfg ft [] [Data LWM2M_TYPE_MULTIPLE_RESOURCE j (AsChildren []),
      Data LWM2M_TYPE_MULTIPLE_RESOURCE k (AsChildren [])] ?head = Some (Some out)" "b = butlast out @ JSON_FOOTER"
    by (rule json_serialize_message [OF assms]) auto
  then have "b = butlast ?head @ JSON_FOOTER" by (auto split: option.splits if_splits)
  then show ?thesis by (simp add: json_literals butlast_append)
qed

text \<open>A string that ends in a backslash, and an instance of a resource that has a value already.\<close>

lemma parseItem_backslash:
  assumes "s \<noteq> []" and "last s = ch_backslash"
  shows "json_parseItem (item_body ([i], Data LWM2M_TYPE_STRING i (AsBuffer s))) = None"
proof -
  let ?n = "quoted (path_text [i])" and ?v = "ch_quote # escape_text s @ [ch_quote]"
  have s: "json_split (member_text [115, 118] ?v) = None"
  proof (rule json_split_backslash)
    have "last (escape_text s) = last (escape_char (last s))"
      by (cases s rule: rev_cases) (use assms in simp_all)
    then show "last (ch_quote # escape_text s) = ch_backslash"
      using assms by (simp add: escape_char_def)
  qed (simp_all add: escape_text_quotes)
  have 1: "json_split (member_text [110] ?n @ ch_comma # member_text [115, 118] ?v) = Some (length (member_text [110] ?n),
      \<lparr>tokenStart = 1, tokenLen = 1, valueStart = 4, valueLen = length ?n\<rparr>)"
    using json_split_member [of "[110]" ?n "ch_comma # member_text [115, 118] ?v"] value_text_path [of "[i]"] by simp
  have "parse_member [110] (?n @ ch_comma # member_text [115, 118] ?v) (length ?n) empty_record =
      Some (empty_record\<lparr>r_ids := [i] @ replicate (4 - length [i]) LWM2M_MAX_ID\<rparr>)"
    using parse_name_path [of "[i]"] by (simp add: parse_member_def empty_record_def)
  then have "json_parseItem (member_text [110] ?n @ ch_comma # member_text [115, 118] ?v) =
      item_members (member_text [115, 118] ?v) (empty_record\<lparr>r_ids := [i] @ replicate (4 - length [i]) LWM2M_MAX_ID\<rparr>)"
    unfolding json_parseItem_def using 1 by (subst item_members.simps) (simp add: member_text_def)
  also have "\<dots> = None" using s by (subst item_members.simps) simp
  finally show ?thesis by (simp add: item_body_def quoted_def)
qed

lemma parse_value_then_instance:
  assumes u: "uri_ok cfg u" "objectId u \<noteq> LWM2M_MAX_ID" "instanceId u \<noteq> LWM2M_MAX_ID" "resourceId u = LWM2M_MAX_ID"
    and "leaf_ok d" "leaf_ok c" "did d \<noteq> LWM2M_MAX_ID" "did c \<noteq> LWM2M_MAX_ID"
  shows "json_parse cfg all_mem tf (Some u)
    (json_text (uri_text (uri_segments u)) [([did d], d), ([did d, did c], c)]) = None"
proof -
  let ?xs = "[([did d], d), ([did d, did c], c)]" and ?base = "uri_text (uri_segments u)"
  have ok: "list_all item_ok ?xs" using assms(5,6) by (simp add: item_ok_def)
  have read: "read_members all_mem (json_text ?base ?xs) 0 \<lparr>ps_e = None, ps_bn = None, ps_bt = False\<rparr> =
      Some (Some \<lparr>ps_e = Some (map item_record ?xs), ps_bn = Some (quoted (?base @ [ch_slash])), ps_bt = False\<rparr>)"
    by (rule read_message [OF _ ok]) (auto dest: uri_text_chars)
  have stored: "as_children (dvalue (json_back d)) = None"
    using assms(5) by (cases d rule: leaf_ok.cases) auto
  have w: "write_instance all_mem (did c) f (json_back d) = None" for f
    using stored by (simp add: write_instance_def json_extendData_def)
  have "json_findDataItem [json_back d] (did d) = Some 0" using leaf_ok_simple(4) [OF assms(5)] by simp
  then have "convert_records all_mem tf URI_DEPTH_RESOURCE 1 [item_record ([did d, did c], c)] [json_back d] = None"
    using item_record_facts(1) [of "([did d, did c], c)"] ok assms(7,8) w
    by (simp add: record_fits_def convert_record_def eval_nat_numeral)
  then have "json_convertRecord all_mem tf (Some u) (map item_record ?xs) = None"
    using convert_leaf [OF assms(5,7), of "[]" tf "[item_record ([did d, did c], c)]"] u(3,4)
    by (simp add: json_convertRecord_def root_level_def lwm2m_data_new_def)
  moreover have "json_skipSpace (json_text ?base ?xs) = 0" "json_text ?base ?xs ! 0 = ch_open_brace" "json_text ?base ?xs \<noteq> []"
    by (simp_all add: json_text_def json_literals prv_isWhiteSpace_def)
  ultimately show ?thesis
    using read base_uri_text [OF u(1,2)] by (simp add: json_parse_def)
qed

text \<open>
  Where the format ends. A message that stops after the first quote, or inside of its base name, is
  read beyond its end. An instance of a resource for which a value was read before makes the parser
  take the value for a list of children. A string that ends in a backslash is written but not read
  back. Two resources without instances make a message that has lost its bracket, and is refused.
\<close>
theorem json_limits:
  assumes "uri_ok cfg u" "objectId u \<noteq> LWM2M_MAX_ID" "instanceId u \<noteq> LWM2M_MAX_ID" "resourceId u = LWM2M_MAX_ID"
    and "leaf_ok d" "leaf_ok c" "did d \<noteq> LWM2M_MAX_ID" "did c \<noteq> LWM2M_MAX_ID"
    and "json_serializeData cfg' floatToText [] cap [] (Data LWM2M_TYPE_STRING i (AsBuffer s)) = Some (Some out)"
    and "s \<noteq> []" "last s = ch_backslash"
    and "json_serialize cfg mem floatToText (Some u) [Data LWM2M_TYPE_MULTIPLE_RESOURCE j (AsChildren []),
      Data LWM2M_TYPE_MULTIPLE_RESOURCE k (AsChildren [])] = Some (n, Some b)"
  shows "json_parse client_build all_mem (\<lambda>_ _. None) None (ascii ''{\"'') = None \<and>
    json_parse client_build all_mem (\<lambda>_ _. None) None (ascii ''{\"bn\":\"/3'') = None \<and>
    json_parse cfg all_mem tf (Some u)
      (json_text (uri_text (uri_segments u)) [([did d], d), ([did d, did c], c)]) = None \<and>
    json_parseItem (take (length out - 3) (drop 1 out)) = None \<and>
    b = ascii ''{\"bn\":\"'' @ uri_text (uri_segments u) @ ascii ''/\",\"e\":]}''"
proof -
  have "out = [] @ item_text ([] @ [did (Data LWM2M_TYPE_STRING i (AsBuffer s))], Data LWM2M_TYPE_STRING i (AsBuffer s)) @
      [ch_comma]"
    by (rule serializeData_value [OF assms(9)]) (auto dest: serializeValue_string)
  then have "take (length out - 3) (drop 1 out) = item_body ([i], Data LWM2M_TYPE_STRING i (AsBuffer s))"
    by (simp add: item_text_def)
  moreover have "json_parse client_build all_mem (\<lambda>_ _. None) None (ascii ''{\"'') = None"
    "json_parse client_build all_mem (\<lambda>_ _. None) None (ascii ''{\"bn\":\"/3'') = None" by code_simp+
  ultimately show ?thesis
    using parseItem_backslash [OF assms(10,11)] parse_value_then_instance [OF assms(1-8)]
      empty_instances_text [OF assms(12) assms(1-4)] by simp
qed

theorem json_limits_witness:
  "json_parse client_build all_mem (\<lambda>_ _. None)
     (Some \<lparr>objectId = 3, instanceId = 0, resourceId = 0xFFFF, resourceInstanceId = 0xFFFF\<rparr>)
     (json_text [47, 51, 47, 48] [([0], Data LWM2M_TYPE_STRING 0 (AsBuffer [120])),
       ([0, 1], Data LWM2M_TYPE_UNSIGNED_INTEGER 1 (AsUnsigned 4))]) = None"
proof -
  let ?u = "\<lparr>objectId = 3, instanceId = 0, resourceId = 0xFFFF, resourceInstanceId = 0xFFFF\<rparr>"
  let ?ds = "[Data LWM2M_TYPE_MULTIPLE_RESOURCE 6 (AsChildren []), Data LWM2M_TYPE_MULTIPLE_RESOURCE 7 (AsChildren [])]"
  have "case json_serialize client_build all_mem (\<lambda>_ _ _. []) (Some ?u) ?ds of Some (n, Some b) \<Rightarrow> True | _ \<Rightarrow> False"
    by code_simp
  then obtain n b where s: "json_serialize client_build all_mem (\<lambda>_ _ _. []) (Some ?u) ?ds = Some (n, Some b)"
    by (auto split: option.splits prod.splits)
  have "case json_serializeData client_build (\<lambda>_ _ _. []) [] 100 [] (Data LWM2M_TYPE_STRING 0 (AsBuffer [97, 92])) of
      Some (Some out) \<Rightarrow> True | _ \<Rightarrow> False"
    by code_simp
  then obtain out where o: "json_serializeData client_build (\<lambda>_ _ _. []) [] 100 []
      (Data LWM2M_TYPE_STRING 0 (AsBuffer [97, 92])) = Some (Some out)"
    by (auto split: option.splits)
  have u: "uri_text (uri_segments ?u) = [47, 51, 47, 48]" by code_simp
  have d: "leaf_ok (Data LWM2M_TYPE_STRING 0 (AsBuffer [120]))" "leaf_ok (Data LWM2M_TYPE_UNSIGNED_INTEGER 1 (AsUnsigned 4))"
    by (simp_all add: string_ok_def takes_code_def)
  show ?thesis
    using json_limits [OF _ _ _ _ d _ _ o _ _ s, of "\<lambda>_ _. None"] u by (simp add: uri_ok_def)
qed

end
