(* ===== verification/Transaction.thy ===== *)
theory Transaction
  imports Id_List Uri Coap_Parse
begin

text \<open>
  Transactions (\<^verbatim>\<open>coap/transaction.c\<close>): requests that were sent and wait for their answer. Each is
  sent again, with growing intervals, until it is acknowledged, answered or given up; then its
  callback is called and it is removed.

  A transaction is the node of a sorted list, its number is the message identifier. The context is
  the record \<open>net\<close>: the list, everything handed to the transport so far, and the rest of the
  application, which only callbacks change. A peer handle is a number; two handles are the same
  session when they are equal (\<^verbatim>\<open>lwm2m_session_is_equal\<close>). The parameter \<open>run\<close> is what the callback
  functions do. \<open>None\<close> is undefined behaviour: a write past a buffer, or the second release of a
  transaction that its own callback removed.
\<close>

section \<open>The state\<close>

record transaction =
  t_mID :: u16
  t_peerH :: nat
  t_ack_received :: bool
  t_response_timeout :: int
  t_retrans_counter :: u8
  t_retrans_time :: int
  t_message :: coap_packet
  t_buffer :: "bytes option"
  t_payload :: "bytes option"
  t_callback :: "nat option"
  t_userData :: "nat option"

record 'w net =
  n_transactions :: "transaction list"
  n_sent :: "(nat \<times> bytes) list"
  n_app :: 'w

text \<open>What the callback function of a number does, given the transaction and the answer.\<close>

type_synonym 'w callbacks = "nat \<Rightarrow> transaction \<Rightarrow> coap_packet option \<Rightarrow> 'w net \<Rightarrow> 'w net"

definition sizeof_transaction :: nat where "sizeof_transaction = 112"
definition sizeof_coap_packet :: nat where "sizeof_coap_packet = 216"

abbreviation (input) COAP_TYPE_CON :: u8 where "COAP_TYPE_CON \<equiv> 0"
abbreviation (input) COAP_TYPE_NON :: u8 where "COAP_TYPE_NON \<equiv> 1"
abbreviation (input) COAP_TYPE_ACK :: u8 where "COAP_TYPE_ACK \<equiv> 2"
abbreviation (input) COAP_TYPE_RST :: u8 where "COAP_TYPE_RST \<equiv> 3"
abbreviation (input) COAP_DELETE :: u8 where "COAP_DELETE \<equiv> 4"
abbreviation (input) COAP_401_UNAUTHORIZED :: u8 where "COAP_401_UNAUTHORIZED \<equiv> 0x81"
abbreviation (input) COAP_RESPONSE_TIMEOUT :: int where "COAP_RESPONSE_TIMEOUT \<equiv> 2"
abbreviation (input) COAP_MAX_RETRANSMIT :: u8 where "COAP_MAX_RETRANSMIT \<equiv> 4"

definition put_transaction :: "transaction \<Rightarrow> 'w net \<Rightarrow> 'w net" where
  "put_transaction t c = c\<lparr>n_transactions := list_put t_mID (n_transactions c) t\<rparr>"

definition buffer_send :: "nat \<Rightarrow> bytes \<Rightarrow> 'w net \<Rightarrow> 'w net" where
  "buffer_send peer b c = c\<lparr>n_sent := n_sent c @ [(peer, b)]\<rparr>"

section \<open>Making a transaction\<close>

text \<open>\<^verbatim>\<open>utils_intToText\<close> into \<^verbatim>\<open>stringID\<close>; no text is the answer 0.\<close>

definition id_text :: "u16 \<Rightarrow> bytes option" where
  "id_text i =
     (let (n, buf) = utils_intToText (ucast i) (replicate 6 0) in
      if n = 0 then None else Some (take n buf))"

definition add_id_segment :: "allocator \<Rightarrow> u16 \<Rightarrow> coap_packet \<Rightarrow> coap_packet option" where
  "add_id_segment mem i p =
     map_option (\<lambda>s. fst (coap_set_header_uri_path_segment mem p (Some s))) (id_text i)"

definition add_uri_segments :: "build \<Rightarrow> allocator \<Rightarrow> lwm2m_uri \<Rightarrow> coap_packet \<Rightarrow> coap_packet option" where
  "add_uri_segments cfg mem u p =
     (if objectId u = LWM2M_MAX_ID then Some p
      else do {
        p \<leftarrow> add_id_segment mem (objectId u) p;
        if instanceId u = LWM2M_MAX_ID then Some p
        else do {
          p \<leftarrow> add_id_segment mem (instanceId u) p;
          if resourceId u = LWM2M_MAX_ID then Some p
          else do {
            p \<leftarrow> add_id_segment mem (resourceId u) p;
            if version_1_0 cfg \<or> resourceInstanceId u = LWM2M_MAX_ID then Some p
            else add_id_segment mem (resourceInstanceId u) p
          }
        }
      })"

text \<open>A generated token: the identifier, the time, and two bytes of the stack.\<close>

definition temp_token :: "u16 \<Rightarrow> int \<Rightarrow> bytes \<Rightarrow> bytes" where
  "temp_token mID now stack =
     (let s = of_int now :: u64 in
      [ucast mID, ucast (drop_bit 8 mID), ucast s, ucast (drop_bit 8 s), ucast (drop_bit 16 s),
       ucast (drop_bit 24 s)] @ stack)"

text \<open>
  The outer \<open>option\<close> is undefined behaviour (an empty alternative path is read past its end), the
  inner one the null pointer.
\<close>

definition transaction_new ::
  "build \<Rightarrow> allocator \<Rightarrow> int \<Rightarrow> bytes \<Rightarrow> nat option \<Rightarrow> u8 \<Rightarrow> bytes option \<Rightarrow> lwm2m_uri option \<Rightarrow> u16 \<Rightarrow>
   nat \<Rightarrow> bytes option \<Rightarrow> transaction option option" where
  "transaction_new cfg mem now stack sessionH method altPath uriP mID token_len token =
     (case sessionH of
        None \<Rightarrow> Some None
      | Some peer \<Rightarrow>
          if \<not> mem sizeof_transaction then Some None
          else if \<not> mem sizeof_coap_packet then Some None
          else
            let p = coap_init_message COAP_TYPE_CON method mID in
            (case altPath of
               Some [] \<Rightarrow> None
             | _ \<Rightarrow>
                 let p = (case altPath of
                            None \<Rightarrow> p
                          | Some s \<Rightarrow> fst (coap_set_header_uri_path_segment mem p (Some (tl s))))
                 in
                 (case (case uriP of None \<Rightarrow> Some p | Some u \<Rightarrow> add_uri_segments cfg mem u p) of
                    None \<Rightarrow> Some None
                  | Some p \<Rightarrow>
                      let p = (if 0 < token_len
                               then fst (coap_set_header_token p (take token_len
                                      (case token of Some t \<Rightarrow> t | None \<Rightarrow> temp_token mID now stack)))
                               else p)
                      in Some (Some \<lparr>t_mID = mID, t_peerH = peer, t_ack_received = False,
                           t_response_timeout = 0, t_retrans_counter = 0, t_retrans_time = 0,
                           t_message = p, t_buffer = None, t_payload = None, t_callback = None,
                           t_userData = None\<rparr>))))"

definition transaction_set_payload :: "allocator \<Rightarrow> u16 \<Rightarrow> transaction \<Rightarrow> bytes \<Rightarrow> bool \<times> transaction" where
  "transaction_set_payload mem block_size t buffer =
     (if \<not> mem (length buffer) then (False, t)
      else
        let p = (if length buffer > unat block_size
                 then fst (coap_set_header_block1 (t_message t) 0 1 block_size) else t_message t)
        in (True, t\<lparr>t_payload := Some buffer,
              t_message := fst (coap_set_payload p (take (min (length buffer) (unat block_size)) buffer))\<rparr>))"

text \<open>The data is released unless another transaction of the list shares it.\<close>

definition transaction_free_userData :: "'w net \<Rightarrow> transaction \<Rightarrow> bool \<times> transaction" where
  "transaction_free_userData c t =
     (if \<exists>s \<in> set (n_transactions c). t_userData s = t_userData t \<and> t_mID s \<noteq> t_mID t then (False, t)
      else (True, t\<lparr>t_userData := None\<rparr>))"

section \<open>The end of a transaction\<close>

definition transaction_remove :: "'w net \<Rightarrow> u16 \<Rightarrow> 'w net" where
  "transaction_remove c mID =
     c\<lparr>n_transactions := fst (lwm2m_list_remove t_mID (n_transactions c) mID)\<rparr>"

text \<open>The callback, then \<^verbatim>\<open>transaction_remove\<close>.\<close>

definition transaction_end ::
  "'w callbacks \<Rightarrow> transaction \<Rightarrow> coap_packet option \<Rightarrow> 'w net \<Rightarrow> 'w net option" where
  "transaction_end run t answer c =
     (let c = (case t_callback t of None \<Rightarrow> c | Some f \<Rightarrow> run f t answer c) in
      if lwm2m_list_find t_mID (n_transactions c) (t_mID t) = None then None
      else Some (transaction_remove c (t_mID t)))"

section \<open>Sending\<close>

text \<open>\<^verbatim>\<open>buffer_len\<close> is a \<^verbatim>\<open>uint16_t\<close>: the size asked of the allocator is cut to 16 bits.\<close>

definition transaction_buffer :: "allocator \<Rightarrow> transaction \<Rightarrow> transaction option option" where
  "transaction_buffer mem t =
     (case t_buffer t of
        Some _ \<Rightarrow> Some (Some t)
      | None \<Rightarrow>
          let n = coap_serialize_get_size (t_message t) mod 2 ^ 16 in
          if n = 0 then Some None
          else if \<not> mem n then Some None
          else
            let (p, out) = coap_serialize_message (t_message t) in
            if length out > n then None
            else if length out = 0 then Some None
            else Some (Some (t\<lparr>t_message := p, t_buffer := Some out\<rparr>)))"

text \<open>
  The counter is 0 before the first transmission and the number of transmissions plus one after
  it; \<^verbatim>\<open>COAP_RESPONSE_TIMEOUT << (retrans_counter - 1)\<close> is written as a power.
\<close>

definition next_time :: "int \<Rightarrow> transaction \<Rightarrow> transaction \<times> bool \<times> int" where
  "next_time now t =
     (if t_retrans_counter t = 0 then
        (if 0 \<le> now
         then (t\<lparr>t_retrans_time := now + COAP_RESPONSE_TIMEOUT, t_retrans_counter := 1\<rparr>, False, 0)
         else (t, True, 0))
      else (t, False, COAP_RESPONSE_TIMEOUT * 2 ^ (unat (t_retrans_counter t) - 1)))"

definition transaction_send ::
  "allocator \<Rightarrow> int \<Rightarrow> 'w callbacks \<Rightarrow> 'w net \<Rightarrow> transaction \<Rightarrow> ('w net \<times> int) option" where
  "transaction_send mem now run c t =
     (case transaction_buffer mem t of
        None \<Rightarrow> None
      | Some None \<Rightarrow> Some (transaction_remove c (t_mID t), 0xA0)
      | Some (Some t) \<Rightarrow>
          let c = put_transaction t c in
          if t_ack_received t then map_option (\<lambda>c. (c, -1)) (transaction_end run t None c)
          else
            let (t, maxRetriesReached, timeout) = next_time now t;
                again = (t_retrans_counter t \<le> COAP_MAX_RETRANSMIT + 1);
                t = (if again
                     then t\<lparr>t_retrans_time := t_retrans_time t + timeout, t_retrans_counter := t_retrans_counter t + 1\<rparr>
                     else t);
                c = put_transaction t c;
                c = (if again then buffer_send (t_peerH t) (the (t_buffer t)) c else c)
            in
            if maxRetriesReached \<or> \<not> again
            then map_option (\<lambda>c. (c, -1)) (transaction_end run t None c)
            else Some (c, 0))"

section \<open>Responses\<close>

text \<open>
  \<^verbatim>\<open>token\<close> stays unset when the answer has none; with length 0 nothing of it is compared.
\<close>

definition prv_checkFinished :: "transaction \<Rightarrow> coap_packet \<Rightarrow> bool" where
  "prv_checkFinished t received \<longleftrightarrow>
     (let m = t_message t in
      if p_mid m \<noteq> p_mid received then False
      else if COAP_DELETE < p_code m then t_ack_received t
      else if \<not> IS_OPTION COAP_OPTION_TOKEN m then t_ack_received t
      else p_token m = (case coap_get_header_token received of None \<Rightarrow> [] | Some token \<Rightarrow> token))"

text \<open>\<^verbatim>\<open>message_send\<close>: the result of the transport is what it returns.\<close>

definition message_send ::
  "allocator \<Rightarrow> (nat \<Rightarrow> bytes \<Rightarrow> u8) \<Rightarrow> 'w net \<Rightarrow> nat \<Rightarrow> coap_packet \<Rightarrow> ('w net \<times> u8) option" where
  "message_send mem transport c peer m =
     (let n = coap_serialize_get_size m in
      if n = 0 then Some (c, COAP_500_INTERNAL_SERVER_ERROR)
      else if \<not> mem n then Some (c, COAP_500_INTERNAL_SERVER_ERROR)
      else
        let out = snd (coap_serialize_message m) in
        if length out > n then None
        else if length out = 0 then Some (c, COAP_500_INTERNAL_SERVER_ERROR)
        else Some (buffer_send peer out c, transport peer out))"

text \<open>
  The walk over the list: the first transaction that the answer finishes or acknowledges ends it.
  \<open>wants_ack\<close> is whether the caller passed a packet for the acknowledgement.
\<close>

fun handle_response_from ::
  "allocator \<Rightarrow> int \<Rightarrow> (nat \<Rightarrow> bytes \<Rightarrow> u8) \<Rightarrow> 'w callbacks \<Rightarrow> nat \<Rightarrow> coap_packet \<Rightarrow> bool \<Rightarrow> 'w net \<Rightarrow>
   transaction list \<Rightarrow> ('w net \<times> bool) option" where
  "handle_response_from mem now transport run from m wants_ack c [] = Some (c, False)"
| "handle_response_from mem now transport run from m wants_ack c (t # ts) =
     (if from \<noteq> t_peerH t then handle_response_from mem now transport run from m wants_ack c ts
      else
        let found = (\<not> t_ack_received t \<and> (p_type m = COAP_TYPE_ACK \<or> p_type m = COAP_TYPE_RST) \<and> t_mID t = p_mid m);
            reset = (found \<and> p_type m = COAP_TYPE_RST);
            t' = (if found then t\<lparr>t_ack_received := True\<rparr> else t)
        in
        if reset \<or> prv_checkFinished t' m then
          (case (if \<not> reset \<and> p_type m = COAP_TYPE_CON \<and> wants_ack
                 then map_option fst (message_send mem transport c from (coap_init_message COAP_TYPE_ACK 0 (p_mid m)))
                 else Some c) of
             None \<Rightarrow> None
           | Some c \<Rightarrow>
               if \<not> reset \<and> p_code m = COAP_401_UNAUTHORIZED \<and> COAP_MAX_RETRANSMIT > t_retrans_counter t' then
                 Some (put_transaction (t'\<lparr>t_ack_received := False,
                         t_retrans_time := t_retrans_time t' + COAP_RESPONSE_TIMEOUT\<rparr>) c, True)
               else map_option (\<lambda>c. (c, True)) (transaction_end run t' (Some m) (put_transaction t' c)))
        else if found then
          let base = (if 0 \<le> now then now else t_retrans_time t');
              wait = (if t_response_timeout t' \<noteq> 0 then t_response_timeout t'
                      else COAP_RESPONSE_TIMEOUT * int (unat (t_retrans_counter t')))
          in Some (put_transaction (t'\<lparr>t_retrans_time := base + wait\<rparr>) c, True)
        else handle_response_from mem now transport run from m wants_ack c ts)"

definition transaction_handleResponse ::
  "allocator \<Rightarrow> int \<Rightarrow> (nat \<Rightarrow> bytes \<Rightarrow> u8) \<Rightarrow> 'w callbacks \<Rightarrow> 'w net \<Rightarrow> nat \<Rightarrow> coap_packet \<Rightarrow> bool \<Rightarrow>
   ('w net \<times> bool) option" where
  "transaction_handleResponse mem now transport run c from m wants_ack =
     handle_response_from mem now transport run from m wants_ack c (n_transactions c)"

section \<open>The periodic step\<close>

text \<open>The number of the node after the one with number \<open>i\<close>.\<close>

fun next_node :: "u16 \<Rightarrow> transaction list \<Rightarrow> u16 option" where
  "next_node i [] = None"
| "next_node i (t # ts) =
     (if t_mID t = i then (case ts of [] \<Rightarrow> None | n # _ \<Rightarrow> Some (t_mID n)) else next_node i ts)"

text \<open>The wait until a transaction that stays, kept when it is shorter than the one so far.\<close>

definition step_wait :: "int \<Rightarrow> int \<Rightarrow> transaction \<Rightarrow> int" where
  "step_wait currentTime timeoutP t =
     (let interval = (if t_retrans_time t > currentTime then t_retrans_time t - currentTime else 1)
      in if timeoutP > interval then interval else timeoutP)"

text \<open>
  One round of the loop. A transaction that is gone when the walk arrives at it was released while
  the walk held a pointer to it.
\<close>

definition step_one ::
  "allocator \<Rightarrow> int \<Rightarrow> int \<Rightarrow> 'w callbacks \<Rightarrow> 'w net \<Rightarrow> int \<Rightarrow> u16 \<Rightarrow> ('w net \<times> int) option" where
  "step_one mem now currentTime run c timeoutP i =
     (case lwm2m_list_find t_mID (n_transactions c) i of
        None \<Rightarrow> None
      | Some t \<Rightarrow>
          (case (if t_retrans_time t \<le> currentTime then transaction_send mem now run c t else Some (c, 0)) of
             None \<Rightarrow> None
           | Some (c, removed) \<Rightarrow>
               if removed = 0 then
                 (case lwm2m_list_find t_mID (n_transactions c) i of
                    None \<Rightarrow> None
                  | Some t \<Rightarrow> Some (c, step_wait currentTime timeoutP t))
               else Some (c, 1)))"

partial_function (option) step_from ::
  "allocator \<Rightarrow> int \<Rightarrow> int \<Rightarrow> 'w callbacks \<Rightarrow> 'w net \<Rightarrow> int \<Rightarrow> u16 option \<Rightarrow> ('w net \<times> int) option" where
  "step_from mem now currentTime run c timeoutP cursor =
     (case cursor of
        None \<Rightarrow> Some (c, timeoutP)
      | Some i \<Rightarrow>
          (let nextP = next_node i (n_transactions c) in
           case step_one mem now currentTime run c timeoutP i of
             None \<Rightarrow> None
           | Some (c, timeoutP) \<Rightarrow> step_from mem now currentTime run c timeoutP nextP))"

definition transaction_step ::
  "allocator \<Rightarrow> int \<Rightarrow> 'w callbacks \<Rightarrow> 'w net \<Rightarrow> int \<Rightarrow> int \<Rightarrow> ('w net \<times> int) option" where
  "transaction_step mem now run c currentTime timeoutP =
     step_from mem now currentTime run c timeoutP
       (case n_transactions c of [] \<Rightarrow> None | t # _ \<Rightarrow> Some (t_mID t))"

section \<open>The invariant\<close>

text \<open>
  Every message carries the number of its transaction, and a transaction is sent at most five
  times: the counter never passes 6.
\<close>

definition transaction_ok :: "transaction \<Rightarrow> bool" where
  "transaction_ok t \<longleftrightarrow> p_mid (t_message t) = t_mID t \<and> t_retrans_counter t \<le> COAP_MAX_RETRANSMIT + 2"

definition net_ok :: "'w net \<Rightarrow> bool" where
  "net_ok c \<longleftrightarrow> ids_sorted t_mID (n_transactions c) \<and> (\<forall>t \<in> set (n_transactions c). transaction_ok t)"

text \<open>Callbacks that leave the list of transactions alone.\<close>

definition keeps_transactions :: "'w callbacks \<Rightarrow> bool" where
  "keeps_transactions run \<longleftrightarrow> (\<forall>f t a c. n_transactions (run f t a c) = n_transactions c)"

lemma put_middle:
  "key x \<notin> key ` set ps \<Longrightarrow> key y = key x \<Longrightarrow> list_put key (ps @ x # qs) y = ps @ y # qs"
  by (induction ps) auto

lemma find_middle:
  "ids_sorted key (ps @ x # qs) \<Longrightarrow> lwm2m_list_find key (ps @ x # qs) (key x) = Some x"
  by (induction ps) auto

lemma remove_middle:
  assumes "ids_sorted key (ps @ x # qs)"
  shows "fst (lwm2m_list_remove key (ps @ x # qs) (key x)) = ps @ qs"
proof -
  have "ids_sorted key (ps @ x # qs) \<Longrightarrow> fst (list_remove_after key (ps @ x # qs) (key x)) = ps @ qs"
    by (induction ps) (auto split: prod.splits)
  then show ?thesis using assms by (simp add: list_remove_eq_after)
qed

lemma sorted_middle:
  "ids_sorted key (ps @ x # qs) \<Longrightarrow> key x \<notin> key ` set ps \<and> ids_sorted key (ps @ qs)"
  by (induction ps) (auto simp: image_iff)

lemma sorted_middle_replace:
  "ids_sorted key (ps @ x # qs) \<Longrightarrow> key y = key x \<Longrightarrow> ids_sorted key (ps @ y # qs)"
  by (induction ps) auto

lemma next_middle:
  "ids_sorted t_mID (ps @ x # qs) \<Longrightarrow>
   next_node (t_mID x) (ps @ x # qs) = (case qs of [] \<Rightarrow> None | n # _ \<Rightarrow> Some (t_mID n))"
  by (induction ps) auto

lemma transaction_end_middle:
  assumes "keeps_transactions run" and "n_transactions c = ps @ x # qs"
    and "ids_sorted t_mID (ps @ x # qs)" and "t_mID t = t_mID x"
  shows "\<exists>c'. transaction_end run t a c = Some c' \<and> n_transactions c' = ps @ qs"
proof -
  let ?c = "case t_callback t of None \<Rightarrow> c | Some f \<Rightarrow> run f t a c"
  have "n_transactions ?c = ps @ x # qs"
    using assms(1,2) by (simp add: keeps_transactions_def split: option.split)
  then show ?thesis
    using find_middle [OF assms(3)] remove_middle [OF assms(3)] assms(4)
    by (simp add: transaction_end_def transaction_remove_def Let_def)
qed

section \<open>A transmission\<close>

lemma counter_cases:
  assumes "(k :: u8) \<le> 6"
  obtains "k = 0" | "k = 1" | "k = 2" | "k = 3" | "k = 4" | "k = 5" | "k = 6"
proof -
  have "unat k \<le> 6" using assms by (simp add: word_le_nat_alt)
  then have "unat k \<in> {0, 1, 2, 3, 4, 5, 6}" by auto
  with that show thesis by (auto simp: word_unat_eq_iff)
qed

text \<open>One call either keeps the transaction, with its counter increased, or ends it.\<close>

lemma transaction_send_middle:
  assumes "keeps_transactions run" and "n_transactions c = ps @ x # qs"
    and "ids_sorted t_mID (ps @ x # qs)" and "transaction_ok x" and "t_buffer x \<noteq> None"
  shows "\<exists>c' r. transaction_send mem now run c x = Some (c', r) \<and>
    (r = -1 \<and> n_transactions c' = ps @ qs \<or>
     r = 0 \<and> (\<exists>x'. n_transactions c' = ps @ x' # qs \<and> t_mID x' = t_mID x \<and> transaction_ok x' \<and>
       t_buffer x' = t_buffer x \<and> t_retrans_counter x < t_retrans_counter x'))"
proof -
  obtain b where b: "t_buffer x = Some b" using assms(5) by auto
  have buf: "transaction_buffer mem x = Some (Some x)" by (simp add: transaction_buffer_def b)
  have new: "t_mID x \<notin> t_mID ` set ps" using sorted_middle [OF assms(3)] by simp
  have put1: "n_transactions (put_transaction x c) = ps @ x # qs"
    using put_middle [OF new refl] assms(2) by (simp add: put_transaction_def)
  have end1: "\<exists>c'. transaction_end run t None d = Some c' \<and> n_transactions c' = ps @ qs"
    if "n_transactions d = ps @ y # qs" "t_mID y = t_mID x" "t_mID t = t_mID x" for d y t
    using transaction_end_middle [OF assms(1) that(1)] sorted_middle_replace [OF assms(3) that(2)] that(2,3)
    by simp
  have put2: "n_transactions (put_transaction y (put_transaction x c)) = ps @ y # qs"
    if "t_mID y = t_mID x" for y
    using put_middle [OF new that] put1 by (simp add: put_transaction_def)
  obtain y failed timeout where nt: "next_time now x = (y, failed, timeout)" by (cases "next_time now x")
  have y: "t_mID y = t_mID x" "t_buffer y = Some b" "t_message y = t_message x" "t_ack_received y = t_ack_received x"
    using nt b by (auto simp: next_time_def split: if_splits)
  show ?thesis
  proof (cases "t_ack_received x")
    case True
    with end1 [OF put1 refl refl] show ?thesis
      by (auto simp: transaction_send_def buf)
  next
    case False
    let ?again = "t_retrans_counter y \<le> COAP_MAX_RETRANSMIT + 1"
    let ?z = "if ?again then y\<lparr>t_retrans_time := t_retrans_time y + timeout,
      t_retrans_counter := t_retrans_counter y + 1\<rparr> else y"
    let ?d = "if ?again then buffer_send (t_peerH ?z) (the (t_buffer ?z)) (put_transaction ?z (put_transaction x c))
      else put_transaction ?z (put_transaction x c)"
    have z: "t_mID ?z = t_mID x" "t_buffer ?z = Some b" "t_message ?z = t_message x"
      using y by simp_all
    have send: "transaction_send mem now run c x =
      (if failed \<or> \<not> ?again then map_option (\<lambda>c. (c, -1)) (transaction_end run ?z None ?d) else Some (?d, 0))"
      using False by (simp add: transaction_send_def buf nt Let_def)
    have d: "n_transactions ?d = ps @ ?z # qs"
      using put2 [OF z(1)] by (cases ?again) (simp_all add: buffer_send_def)
    show ?thesis
    proof (cases "failed \<or> \<not> ?again")
      case True
      from end1 [OF d z(1) z(1)] obtain c' where
        c': "transaction_end run ?z None ?d = Some c'" "n_transactions c' = ps @ qs" by blast
      have "transaction_send mem now run c x = Some (c', -1)"
        unfolding send c'(1) if_P [OF True] by simp
      with c'(2) show ?thesis by blast
    next
      case go: False
      have k: "t_retrans_counter x < t_retrans_counter ?z" "t_retrans_counter ?z \<le> COAP_MAX_RETRANSMIT + 2"
      proof -
        have "t_retrans_counter x \<le> 6" using assms(4) by (simp add: transaction_ok_def)
        then have "t_retrans_counter x < t_retrans_counter ?z \<and> t_retrans_counter ?z \<le> 6"
          using nt go by (cases rule: counter_cases) (auto simp: next_time_def split: if_splits)
        then show "t_retrans_counter x < t_retrans_counter ?z" "t_retrans_counter ?z \<le> COAP_MAX_RETRANSMIT + 2"
          by simp_all
      qed
      have "transaction_ok ?z"
        using assms(4) k(2) z by (simp add: transaction_ok_def)
      moreover have "transaction_send mem now run c x = Some (?d, 0)"
        unfolding send if_not_P [OF go] ..
      ultimately show ?thesis
        using d z k(1) b by metis
    qed
  qed
qed

section \<open>The step\<close>

lemma step_wait_bounds:
  "1 \<le> timeoutP \<Longrightarrow> 1 \<le> step_wait currentTime timeoutP t \<and> step_wait currentTime timeoutP t \<le> timeoutP"
  by (auto simp: step_wait_def Let_def)

lemma step_one_middle:
  assumes "keeps_transactions run" and "n_transactions c = ps @ x # qs"
    and "ids_sorted t_mID (ps @ x # qs)" and "transaction_ok x" and "t_buffer x \<noteq> None"
    and "1 \<le> timeoutP"
  shows "\<exists>c' timeout' xs. step_one mem now currentTime run c timeoutP (t_mID x) = Some (c', timeout') \<and>
    1 \<le> timeout' \<and> timeout' \<le> timeoutP \<and> n_transactions c' = ps @ xs @ qs \<and>
    (xs = [] \<or> (\<exists>x'. xs = [x'] \<and> t_mID x' = t_mID x \<and> transaction_ok x' \<and> t_buffer x' = t_buffer x \<and>
      (t_retrans_time x \<le> currentTime \<longrightarrow> t_retrans_counter x < t_retrans_counter x')))"
proof -
  have found: "lwm2m_list_find t_mID (n_transactions c) (t_mID x) = Some x"
    using find_middle [OF assms(3)] assms(2) by simp
  show ?thesis
  proof (cases "t_retrans_time x \<le> currentTime")
    case False
    then show ?thesis
      using assms(2,4) found step_wait_bounds [OF assms(6)]
      by (intro exI [of _ c] exI [of _ "step_wait currentTime timeoutP x"] exI [of _ "[x]"])
        (simp add: step_one_def)
  next
    case True
    obtain c' r where send: "transaction_send mem now run c x = Some (c', r)"
      and r: "r = -1 \<and> n_transactions c' = ps @ qs \<or>
        r = 0 \<and> (\<exists>x'. n_transactions c' = ps @ x' # qs \<and> t_mID x' = t_mID x \<and> transaction_ok x' \<and>
          t_buffer x' = t_buffer x \<and> t_retrans_counter x < t_retrans_counter x')"
      using transaction_send_middle [where mem = mem and now = now, OF assms(1-5)] by (elim exE conjE) (rule that)
    from r show ?thesis
    proof (elim disjE conjE exE)
      assume "r = -1" "n_transactions c' = ps @ qs"
      then show ?thesis
        using found True send assms(6)
        by (intro exI [of _ c'] exI [of _ 1] exI [of _ "[]"]) (simp add: step_one_def)
    next
      fix x' assume x': "r = 0" "n_transactions c' = ps @ x' # qs" "t_mID x' = t_mID x" "transaction_ok x'"
        "t_buffer x' = t_buffer x" "t_retrans_counter x < t_retrans_counter x'"
      have "lwm2m_list_find t_mID (n_transactions c') (t_mID x) = Some x'"
        using find_middle [OF sorted_middle_replace [OF assms(3) x'(3)]] x'(2,3) by simp
      then have "step_one mem now currentTime run c timeoutP (t_mID x) = Some (c', step_wait currentTime timeoutP x')"
        unfolding step_one_def found using True by (simp add: send x'(1))
      moreover have "n_transactions c' = ps @ [x'] @ qs" using x'(2) by simp
      ultimately show ?thesis
        using x'(3-6) step_wait_bounds [OF assms(6), of currentTime x'] by blast
    qed
  qed
qed

text \<open>The walk visits every transaction once, in order.\<close>

lemma step_from_list:
  assumes "keeps_transactions run" and "n_transactions c = ps @ qs" and "ids_sorted t_mID (ps @ qs)"
    and "\<forall>t \<in> set qs. transaction_ok t \<and> t_buffer t \<noteq> None" and "1 \<le> timeoutP"
  shows "\<exists>c' timeout' qs'. step_from mem now currentTime run c timeoutP
        (case qs of [] \<Rightarrow> None | t # _ \<Rightarrow> Some (t_mID t)) = Some (c', timeout') \<and>
    1 \<le> timeout' \<and> timeout' \<le> timeoutP \<and> n_transactions c' = ps @ qs' \<and> ids_sorted t_mID (ps @ qs') \<and>
    (\<forall>t' \<in> set qs'. transaction_ok t' \<and> (\<exists>t \<in> set qs. t_mID t' = t_mID t \<and> t_buffer t' = t_buffer t \<and>
      (t_retrans_time t \<le> currentTime \<longrightarrow> t_retrans_counter t < t_retrans_counter t')))"
  using assms
proof (induction qs arbitrary: c ps timeoutP)
  case Nil
  then show ?case by (simp add: step_from.simps)
next
  case (Cons x qs)
  note step = step_one_middle [OF Cons.prems(1,2,3), where mem = mem and now = now and currentTime = currentTime
      and timeoutP = timeoutP]
  obtain c1 time1 xs where one: "step_one mem now currentTime run c timeoutP (t_mID x) = Some (c1, time1)"
    "1 \<le> time1" "time1 \<le> timeoutP" "n_transactions c1 = ps @ xs @ qs"
    and xs: "xs = [] \<or> (\<exists>x'. xs = [x'] \<and> t_mID x' = t_mID x \<and> transaction_ok x' \<and> t_buffer x' = t_buffer x \<and>
      (t_retrans_time x \<le> currentTime \<longrightarrow> t_retrans_counter x < t_retrans_counter x'))"
    using step Cons.prems(4,5) by auto
  have sorted: "ids_sorted t_mID ((ps @ xs) @ qs)"
    using xs sorted_middle [OF Cons.prems(3)] sorted_middle_replace [OF Cons.prems(3)] by auto
  have next': "next_node (t_mID x) (n_transactions c) = (case qs of [] \<Rightarrow> None | n # _ \<Rightarrow> Some (t_mID n))"
    using next_middle [OF Cons.prems(3)] Cons.prems(2) by simp
  have "n_transactions c1 = (ps @ xs) @ qs" using one(4) by simp
  from Cons.IH [OF Cons.prems(1) this sorted _ one(2)] Cons.prems(4)
  obtain c' timeout' qs' where rest:
    "step_from mem now currentTime run c1 time1 (case qs of [] \<Rightarrow> None | t # _ \<Rightarrow> Some (t_mID t)) = Some (c', timeout')"
    "1 \<le> timeout'" "timeout' \<le> time1" "n_transactions c' = (ps @ xs) @ qs'" "ids_sorted t_mID ((ps @ xs) @ qs')"
    "\<forall>t' \<in> set qs'. transaction_ok t' \<and> (\<exists>t \<in> set qs. t_mID t' = t_mID t \<and> t_buffer t' = t_buffer t \<and>
      (t_retrans_time t \<le> currentTime \<longrightarrow> t_retrans_counter t < t_retrans_counter t'))"
    by auto
  have "step_from mem now currentTime run c timeoutP (Some (t_mID x)) = Some (c', timeout')"
    using next' one(1) rest(1) by (simp add: step_from.simps [of _ _ _ _ c] Let_def)
  then show ?case
    using rest xs one(3) by (intro exI [of _ c'] exI [of _ timeout'] exI [of _ "xs @ qs'"]) auto
qed

section \<open>Properties\<close>

text \<open>
  C24: The periodic step always returns when every transaction has been serialized and callbacks do not
  touch the list: the list stays sorted and within its limits, a transaction that was due has been
  sent once more or is gone, nothing is added, and the wait it asks for is at least a second and
  no longer than the one it was given.
\<close>

theorem transaction_step_safe:
  assumes "keeps_transactions run" and "net_ok c" and "\<forall>t \<in> set (n_transactions c). t_buffer t \<noteq> None"
    and "1 \<le> timeoutP"
  shows "\<exists>c' timeout'. transaction_step mem now run c currentTime timeoutP = Some (c', timeout') \<and>
    net_ok c' \<and> 1 \<le> timeout' \<and> timeout' \<le> timeoutP \<and>
    (\<forall>t' \<in> set (n_transactions c'). \<exists>t \<in> set (n_transactions c). t_mID t' = t_mID t \<and>
      (t_retrans_time t \<le> currentTime \<longrightarrow> t_retrans_counter t < t_retrans_counter t'))"
proof -
  obtain c' timeout' where
    "step_from mem now currentTime run c timeoutP
      (case n_transactions c of [] \<Rightarrow> None | t # _ \<Rightarrow> Some (t_mID t)) = Some (c', timeout')"
    "1 \<le> timeout'" "timeout' \<le> timeoutP" "ids_sorted t_mID (n_transactions c')"
    "\<forall>t' \<in> set (n_transactions c'). transaction_ok t' \<and> (\<exists>t \<in> set (n_transactions c). t_mID t' = t_mID t \<and>
      t_buffer t' = t_buffer t \<and> (t_retrans_time t \<le> currentTime \<longrightarrow> t_retrans_counter t < t_retrans_counter t'))"
    using step_from_list [OF assms(1), of c "[]" "n_transactions c" timeoutP mem now currentTime] assms(2-4)
    by (auto simp: net_ok_def)
  then show ?thesis
    unfolding transaction_step_def net_ok_def by blast
qed

text \<open>A transaction that waits, for the witnesses.\<close>

definition demo_transaction :: "u16 \<Rightarrow> nat \<Rightarrow> transaction" where
  "demo_transaction mid peer =
     \<lparr>t_mID = mid, t_peerH = peer, t_ack_received = False, t_response_timeout = 0, t_retrans_counter = 0,
      t_retrans_time = 0, t_message = coap_init_message COAP_TYPE_CON 1 mid, t_buffer = Some [0x40],
      t_payload = None, t_callback = Some 7, t_userData = None\<rparr>"

lemma demo_simps [simp]:
  "t_mID (demo_transaction mid peer) = mid" "t_peerH (demo_transaction mid peer) = peer"
  "\<not> t_ack_received (demo_transaction mid peer)" "t_callback (demo_transaction mid peer) = Some 7"
  by (simp_all add: demo_transaction_def)

lemma demo_mid: "p_mid (t_message (demo_transaction mid peer)) = mid"
  by (simp add: demo_transaction_def coap_init_message_def)

theorem transaction_step_safe_witness:
  "\<exists>c' timeout'. transaction_step (\<lambda>n. True) 5 (\<lambda>f t a c. c)
      \<lparr>n_transactions = [demo_transaction 1 4, demo_transaction 2 4], n_sent = [], n_app = ()\<rparr> 9 60 =
      Some (c', timeout') \<and> net_ok c' \<and> 1 \<le> timeout' \<and> timeout' \<le> 60"
proof -
  let ?c = "\<lparr>n_transactions = [demo_transaction 1 4, demo_transaction 2 4], n_sent = [], n_app = ()\<rparr>"
  have "keeps_transactions (\<lambda>f t a c. c)" "net_ok ?c" "\<forall>t \<in> set (n_transactions ?c). t_buffer t \<noteq> None"
    "1 \<le> (60 :: int)"
    by (simp_all add: keeps_transactions_def net_ok_def transaction_ok_def demo_mid)
      (simp_all add: demo_transaction_def)
  from transaction_step_safe [OF this, of "\<lambda>n. True" 5 9] show ?thesis by blast
qed

text \<open>The calls of \<open>transaction_send\<close> for one transaction, at the times of \<open>clock\<close>, while they return 0.\<close>

fun send_repeatedly ::
  "allocator \<Rightarrow> (nat \<Rightarrow> int) \<Rightarrow> 'w callbacks \<Rightarrow> u16 \<Rightarrow> nat \<Rightarrow> 'w net \<Rightarrow> ('w net \<times> int) option" where
  "send_repeatedly mem clock run mID 0 c = Some (c, 0)"
| "send_repeatedly mem clock run mID (Suc k) c =
     (case send_repeatedly mem clock run mID k c of
        None \<Rightarrow> None
      | Some (c, r) \<Rightarrow>
          if r \<noteq> 0 then Some (c, r)
          else
            (case lwm2m_list_find t_mID (n_transactions c) mID of
               None \<Rightarrow> None
             | Some t \<Rightarrow> transaction_send mem (clock k) run c t))"

text \<open>The transaction and the context after \<open>k\<close> transmissions.\<close>

definition sent_transaction :: "transaction \<Rightarrow> int \<Rightarrow> nat \<Rightarrow> transaction" where
  "sent_transaction t start k =
     t\<lparr>t_retrans_time := start + 2 ^ (k + 1) - 2, t_retrans_counter := of_nat (k + 1)\<rparr>"

definition sent_net :: "'w net \<Rightarrow> transaction \<Rightarrow> int \<Rightarrow> nat \<Rightarrow> 'w net" where
  "sent_net c t start k =
     c\<lparr>n_transactions := list_put t_mID (n_transactions c) (sent_transaction t start k),
       n_sent := n_sent c @ replicate k (t_peerH t, the (t_buffer t))\<rparr>"

lemma sent_net_find:
  assumes "lwm2m_list_find t_mID (n_transactions c) (t_mID t) = Some t"
  shows "lwm2m_list_find t_mID (n_transactions (sent_net c t start k)) (t_mID t) = Some (sent_transaction t start k)"
  using find_put [of t_mID "n_transactions c" "sent_transaction t start k" t] assms
  by (simp add: sent_net_def sent_transaction_def)

lemma put_sent_net:
  assumes "ids_sorted t_mID (n_transactions c)" "lwm2m_list_find t_mID (n_transactions c) (t_mID t) = Some t"
    "t_mID u = t_mID t"
  shows "put_transaction u (sent_net c t start k) =
    (sent_net c t start k)\<lparr>n_transactions := list_put t_mID (n_transactions c) u\<rparr>"
  using id_list.put_put [OF assms(1), of "sent_transaction t start k" t u] assms(2,3)
  by (simp add: put_transaction_def sent_net_def sent_transaction_def)

lemma send_first:
  assumes "t_retrans_counter t = 0" "\<not> t_ack_received t" "t_buffer t = Some b" "0 \<le> now"
    "ids_sorted t_mID (n_transactions c)" "lwm2m_list_find t_mID (n_transactions c) (t_mID t) = Some t"
  shows "transaction_send mem now run c t = Some (sent_net c t now 1, 0)"
  using assms id_list.put_put [of t_mID, OF assms(5)]
  by (simp add: transaction_send_def transaction_buffer_def next_time_def sent_net_def sent_transaction_def
      put_transaction_def buffer_send_def add.commute [of 2 now])

lemma send_again:
  assumes "1 \<le> k" "k \<le> 4" "\<not> t_ack_received t" "t_buffer t = Some b"
    "ids_sorted t_mID (n_transactions c)" "lwm2m_list_find t_mID (n_transactions c) (t_mID t) = Some t"
  shows "transaction_send mem now run (sent_net c t start k) (sent_transaction t start k) =
    Some (sent_net c t start (Suc k), 0)"
proof -
  let ?t = "sent_transaction t start k"
  have same: "put_transaction ?t (sent_net c t start k) = sent_net c t start k"
    using put_sent_net [OF assms(5,6), of ?t start k] by (simp add: sent_transaction_def sent_net_def)
  have "k = 1 \<or> k = 2 \<or> k = 3 \<or> k = 4" using assms(1,2) by auto
  then have "next_time now ?t = (?t, False, 2 ^ (k + 1))" and "t_retrans_counter ?t \<le> COAP_MAX_RETRANSMIT + 1"
    and "?t\<lparr>t_retrans_time := t_retrans_time ?t + 2 ^ (k + 1), t_retrans_counter := t_retrans_counter ?t + 1\<rparr> =
      sent_transaction t start (Suc k)"
    by (auto simp: next_time_def sent_transaction_def)
  moreover have "buffer_send (t_peerH ?t) (the (t_buffer ?t))
      (put_transaction (sent_transaction t start (Suc k)) (sent_net c t start k)) = sent_net c t start (Suc k)"
    using put_sent_net [OF assms(5,6), of "sent_transaction t start (Suc k)" start k]
    by (simp add: buffer_send_def sent_net_def sent_transaction_def replicate_append_same)
  moreover have "transaction_buffer mem ?t = Some (Some ?t)" and "\<not> t_ack_received ?t"
    using assms(3,4) by (simp_all add: transaction_buffer_def sent_transaction_def)
  ultimately show ?thesis
    by (simp add: transaction_send_def Let_def same)
qed

lemma send_last:
  assumes "\<not> t_ack_received t" "t_buffer t = Some b"
    "ids_sorted t_mID (n_transactions c)" "lwm2m_list_find t_mID (n_transactions c) (t_mID t) = Some t"
  shows "transaction_send mem now run (sent_net c t start 5) (sent_transaction t start 5) =
    map_option (\<lambda>c. (c, -1)) (transaction_end run (sent_transaction t start 5) None (sent_net c t start 5))"
proof -
  let ?t = "sent_transaction t start 5"
  have same: "put_transaction ?t (sent_net c t start 5) = sent_net c t start 5"
    using put_sent_net [OF assms(3,4), of ?t start 5] by (simp add: sent_transaction_def sent_net_def)
  have "next_time now ?t = (?t, False, 64)" "\<not> t_retrans_counter ?t \<le> COAP_MAX_RETRANSMIT + 1"
    "transaction_buffer mem ?t = Some (Some ?t)" "\<not> t_ack_received ?t"
    using assms(1,2) by (simp_all add: next_time_def sent_transaction_def transaction_buffer_def)
  then show ?thesis
    by (simp add: transaction_send_def Let_def same)
qed

lemma send_repeatedly_net:
  assumes "t_retrans_counter t = 0" "\<not> t_ack_received t" "t_buffer t = Some b" "0 \<le> clock 0"
    "ids_sorted t_mID (n_transactions c)" "lwm2m_list_find t_mID (n_transactions c) (t_mID t) = Some t"
  shows "k < 5 \<Longrightarrow> send_repeatedly mem clock run (t_mID t) (Suc k) c = Some (sent_net c t (clock 0) (Suc k), 0)"
proof (induction k)
  case 0
  then show ?case using send_first [OF assms(1-6)] assms(6) by simp
next
  case (Suc k)
  from Suc have IH: "send_repeatedly mem clock run (t_mID t) (Suc k) c = Some (sent_net c t (clock 0) (Suc k), 0)"
    by simp
  show ?case
    unfolding send_repeatedly.simps(2) [of mem clock run _ "Suc k"] IH
    using Suc.prems send_again [OF _ _ assms(2,3,5,6), of "Suc k" mem "clock (Suc k)" run "clock 0"]
    by (simp add: sent_net_find [OF assms(6)])
qed

text \<open>
  C5: A request that is never answered is transmitted five times, each wait twice as long as
  the one before, so that the time of the next transmission after the k-th is the start plus
  \<open>2 ^ (k + 1) - 2\<close> seconds; the sixth call transmits nothing, calls the callback without an answer and
  removes the transaction.
\<close>

theorem transaction_lifetime:
  assumes "t_retrans_counter t = 0" and "\<not> t_ack_received t" and "t_buffer t = Some b" and "0 \<le> clock 0"
    and "ids_sorted t_mID (n_transactions c)" and "lwm2m_list_find t_mID (n_transactions c) (t_mID t) = Some t"
  shows "(\<forall>k. 1 \<le> k \<and> k \<le> 5 \<longrightarrow>
      send_repeatedly mem clock run (t_mID t) k c = Some (sent_net c t (clock 0) k, 0)) \<and>
    send_repeatedly mem clock run (t_mID t) 6 c =
      map_option (\<lambda>c. (c, -1))
        (transaction_end run (sent_transaction t (clock 0) 5) None (sent_net c t (clock 0) 5))"
proof -
  have upto: "send_repeatedly mem clock run (t_mID t) k c = Some (sent_net c t (clock 0) k, 0)"
    if "1 \<le> k" "k \<le> 5" for k
    using that send_repeatedly_net [where clock = clock and mem = mem and run = run and k = "k - 1", OF assms] by (cases k) auto
  have "send_repeatedly mem clock run (t_mID t) (Suc 5) c =
      transaction_send mem (clock 5) run (sent_net c t (clock 0) 5) (sent_transaction t (clock 0) 5)"
    unfolding send_repeatedly.simps(2) using upto [of 5] by (simp add: sent_net_find [OF assms(6)])
  with upto send_last [OF assms(2,3,5,6)] show ?thesis by simp
qed

theorem transaction_lifetime_witness:
  "send_repeatedly (\<lambda>n. True) (\<lambda>k. 100) (\<lambda>f t a c. c) 1 5
      \<lparr>n_transactions = [demo_transaction 1 4], n_sent = [], n_app = ()\<rparr> =
   Some (\<lparr>n_transactions = [(demo_transaction 1 4)\<lparr>t_retrans_time := 162, t_retrans_counter := 6\<rparr>],
      n_sent = replicate 5 (4, [0x40]), n_app = ()\<rparr>, 0)"
proof -
  let ?t = "demo_transaction 1 4" and ?c = "\<lparr>n_transactions = [demo_transaction 1 4], n_sent = [], n_app = ()\<rparr>"
  have "t_retrans_counter ?t = 0" "\<not> t_ack_received ?t" "t_buffer ?t = Some [0x40]" "0 \<le> (\<lambda>k. 100 :: int) (0 :: nat)"
    "ids_sorted t_mID (n_transactions ?c)" "lwm2m_list_find t_mID (n_transactions ?c) (t_mID ?t) = Some ?t"
    by (simp_all add: demo_transaction_def)
  note life = transaction_lifetime [where clock = "\<lambda>k. 100" and mem = "\<lambda>n. True" and run = "\<lambda>f t a c. c", OF this]
  from life [THEN conjunct1, rule_format, of 5] show ?thesis
    by (simp add: sent_net_def sent_transaction_def demo_transaction_def)
qed

section \<open>Which transaction a response is for\<close>

lemma handle_response_skip:
  assumes "transaction_ok t" and "t_mID t \<noteq> p_mid m"
  shows "handle_response_from mem now transport run from m wants_ack c (t # ts) =
    handle_response_from mem now transport run from m wants_ack c ts"
proof -
  have "\<not> prv_checkFinished t m"
    using assms by (simp add: prv_checkFinished_def transaction_ok_def Let_def)
  then show ?thesis using assms(2) by (simp add: Let_def)
qed

lemma handle_response_none:
  "\<forall>t \<in> set ts. transaction_ok t \<and> t_mID t \<noteq> p_mid m \<Longrightarrow>
   handle_response_from mem now transport run from m wants_ack c ts = Some (c, False)"
proof (induction ts)
  case (Cons t ts)
  then show ?case by (subst handle_response_skip) auto
qed simp

lemma handle_response_last:
  assumes "\<forall>t \<in> set ts. transaction_ok t \<and> t_mID t \<noteq> p_mid m"
  shows "handle_response_from mem now transport run from m wants_ack c (t # ts) =
    handle_response_from mem now transport run from m wants_ack c [t]"
  by (simp only: handle_response_from.simps handle_response_none [OF assms])

lemma response_by_id:
  assumes "net_ok c"
  shows "transaction_handleResponse mem now transport run c from m wants_ack =
    (case lwm2m_list_find t_mID (n_transactions c) (p_mid m) of
       None \<Rightarrow> Some (c, False)
     | Some t \<Rightarrow>
         if t_peerH t \<noteq> from then Some (c, False)
         else handle_response_from mem now transport run from m wants_ack c [t])"
proof -
  have "handle_response_from mem now transport run from m wants_ack c ts =
    (case lwm2m_list_find t_mID ts (p_mid m) of
       None \<Rightarrow> Some (c, False)
     | Some t \<Rightarrow>
         if t_peerH t \<noteq> from then Some (c, False)
         else handle_response_from mem now transport run from m wants_ack c [t])"
    if "ids_sorted t_mID ts" "\<forall>t \<in> set ts. transaction_ok t" for ts
    using that
  proof (induction ts)
    case (Cons x ts)
    consider (before) "t_mID x < p_mid m" | (same) "t_mID x = p_mid m" | (after) "p_mid m < t_mID x"
      by (meson linorder_neqE)
    then show ?case
    proof cases
      case before
      then have "handle_response_from mem now transport run from m wants_ack c (x # ts) =
        handle_response_from mem now transport run from m wants_ack c ts"
        using Cons.prems(2) by (intro handle_response_skip) auto
      with Cons before show ?thesis by simp
    next
      case same
      have rest: "\<forall>t \<in> set ts. transaction_ok t \<and> t_mID t \<noteq> p_mid m"
        using Cons.prems same by auto
      show ?thesis
      proof (cases "t_peerH x = from")
        case True
        with same handle_response_last [OF rest, of mem now transport run "from" wants_ack c x] show ?thesis
          by (simp del: handle_response_from.simps(2))
      next
        case False
        with same handle_response_none [OF rest, of mem now transport run "from" wants_ack c] show ?thesis
          by simp
      qed
    next
      case after
      have "\<forall>t \<in> set (x # ts). transaction_ok t \<and> t_mID t \<noteq> p_mid m"
        using Cons.prems after by auto
      note none = handle_response_none [OF this, of mem now transport run "from" wants_ack c]
      have found: "lwm2m_list_find t_mID (x # ts) (p_mid m) = None"
        using leD [OF less_imp_le [OF after]] order.strict_implies_not_eq [OF after, symmetric] by simp
      show ?thesis unfolding none found by (rule option.case(1) [symmetric])
    qed
  qed simp
  then show ?thesis
    using assms by (simp add: transaction_handleResponse_def net_ok_def)
qed

lemma ack_finishes:
  assumes "net_ok c" and "\<forall>f. t_callback t = Some f \<longrightarrow>
      n_transactions (run f (t\<lparr>t_ack_received := True\<rparr>) (Some m) (put_transaction (t\<lparr>t_ack_received := True\<rparr>) c)) =
      n_transactions (put_transaction (t\<lparr>t_ack_received := True\<rparr>) c)"
    and "lwm2m_list_find t_mID (n_transactions c) (p_mid m) = Some t" and "t_peerH t = from"
    and "\<not> t_ack_received t" and "p_type m = COAP_TYPE_ACK"
    and "p_code m \<noteq> COAP_401_UNAUTHORIZED \<or> COAP_MAX_RETRANSMIT \<le> t_retrans_counter t"
    and "IS_OPTION COAP_OPTION_TOKEN (t_message t) \<longrightarrow> coap_get_header_token m = Some (p_token (t_message t))"
  shows "\<exists>c'. transaction_handleResponse mem now transport run c from m wants_ack = Some (c', True) \<and>
    n_transactions c' = fst (lwm2m_list_remove t_mID (n_transactions c) (p_mid m)) \<and>
    n_app c' = (case t_callback t of
        None \<Rightarrow> n_app c
      | Some f \<Rightarrow> n_app (run f (t\<lparr>t_ack_received := True\<rparr>) (Some m) (put_transaction (t\<lparr>t_ack_received := True\<rparr>) c)))"
proof -
  let ?t = "t\<lparr>t_ack_received := True\<rparr>" and ?xs = "n_transactions c"
  let ?c = "put_transaction ?t c"
  have sorted: "ids_sorted t_mID ?xs" and t: "t_mID t = p_mid m" "transaction_ok t"
    using assms(1) find_Some [OF assms(3)] by (auto simp: net_ok_def)
  have "prv_checkFinished ?t m"
    using t assms(8) by (auto simp: prv_checkFinished_def transaction_ok_def Let_def)
  then have "handle_response_from mem now transport run from m wants_ack c [t] =
      map_option (\<lambda>c. (c, True)) (transaction_end run ?t (Some m) ?c)"
    using assms(4-7) t(1) by (auto simp: Let_def)
  then have hr: "transaction_handleResponse mem now transport run c from m wants_ack =
      map_option (\<lambda>c. (c, True)) (transaction_end run ?t (Some m) ?c)"
    using response_by_id [OF assms(1)] assms(3,4) by simp
  let ?d = "case t_callback t of None \<Rightarrow> ?c | Some f \<Rightarrow> run f ?t (Some m) ?c"
  have d: "n_transactions ?d = list_put t_mID ?xs ?t"
    using assms(2) by (simp add: put_transaction_def split: option.split)
  have found: "lwm2m_list_find t_mID (list_put t_mID ?xs ?t) (p_mid m) = Some ?t"
    using find_put [of t_mID ?xs ?t t] assms(3) t(1) by simp
  have "fst (lwm2m_list_remove t_mID (list_put t_mID ?xs ?t) (p_mid m)) = fst (lwm2m_list_remove t_mID ?xs (p_mid m))"
    by (rule id_list.remove_put [OF sorted assms(3)]) (simp add: t(1))
  then have "transaction_end run ?t (Some m) ?c =
      Some (?d\<lparr>n_transactions := fst (lwm2m_list_remove t_mID ?xs (p_mid m))\<rparr>)"
    using d found t(1) by (simp add: transaction_end_def transaction_remove_def Let_def)
  then show ?thesis
    unfolding hr by (simp add: put_transaction_def split: option.split)
qed

text \<open>
  C23: An acknowledgement with a matching token, or for a request without one, finishes its
  transaction: the callback gets the message once, the transaction is removed and no other
  transaction changes. (Status 4.01 within the first transmissions is the exception the code makes.)
\<close>

theorem response_finishes:
  assumes "net_ok c" and "keeps_transactions run"
    and "lwm2m_list_find t_mID (n_transactions c) (p_mid m) = Some t" and "t_peerH t = from"
    and "\<not> t_ack_received t" and "p_type m = COAP_TYPE_ACK"
    and "p_code m \<noteq> COAP_401_UNAUTHORIZED \<or> COAP_MAX_RETRANSMIT \<le> t_retrans_counter t"
    and "IS_OPTION COAP_OPTION_TOKEN (t_message t) \<longrightarrow> coap_get_header_token m = Some (p_token (t_message t))"
  shows "\<exists>c'. transaction_handleResponse mem now transport run c from m wants_ack = Some (c', True) \<and>
    n_transactions c' = fst (lwm2m_list_remove t_mID (n_transactions c) (p_mid m)) \<and>
    n_app c' = (case t_callback t of
        None \<Rightarrow> n_app c
      | Some f \<Rightarrow> n_app (run f (t\<lparr>t_ack_received := True\<rparr>) (Some m) (put_transaction (t\<lparr>t_ack_received := True\<rparr>) c)))"
  by (rule ack_finishes [OF assms(1) _ assms(3-8)]) (use assms(2) in \<open>simp add: keeps_transactions_def\<close>)

theorem response_finishes_witness:
  "\<exists>c'. transaction_handleResponse (\<lambda>n. True) 5 (\<lambda>s b. 0) (\<lambda>f t a c. c\<lparr>n_app := f # n_app c\<rparr>)
      \<lparr>n_transactions = [demo_transaction 1 4, demo_transaction 2 4], n_sent = [], n_app = []\<rparr> 4
      (coap_init_message COAP_TYPE_ACK 69 2) False = Some (c', True) \<and>
    n_transactions c' = [demo_transaction 1 4] \<and> n_app c' = [7]"
proof -
  let ?c = "\<lparr>n_transactions = [demo_transaction 1 4, demo_transaction 2 4], n_sent = [], n_app = []\<rparr>"
    and ?m = "coap_init_message COAP_TYPE_ACK 69 2"
  have "net_ok ?c"
    by (simp_all add: net_ok_def transaction_ok_def demo_mid) (simp_all add: demo_transaction_def)
  moreover have "keeps_transactions (\<lambda>f t a c. c\<lparr>n_app := f # n_app c\<rparr>)"
    by (simp add: keeps_transactions_def)
  moreover have "lwm2m_list_find t_mID (n_transactions ?c) (p_mid ?m) = Some (demo_transaction 2 4)"
    by (simp add: demo_transaction_def coap_init_message_def)
  moreover have "t_peerH (demo_transaction 2 4) = 4" "\<not> t_ack_received (demo_transaction 2 4)" "p_type ?m = COAP_TYPE_ACK"
    "p_code ?m \<noteq> COAP_401_UNAUTHORIZED \<or> COAP_MAX_RETRANSMIT \<le> t_retrans_counter (demo_transaction 2 4)"
    "IS_OPTION COAP_OPTION_TOKEN (t_message (demo_transaction 2 4)) \<longrightarrow>
      coap_get_header_token ?m = Some (p_token (t_message (demo_transaction 2 4)))"
    by (simp_all add: demo_transaction_def coap_init_message_def zero_packet_def IS_OPTION_def)
  ultimately obtain c' where
    "transaction_handleResponse (\<lambda>n. True) 5 (\<lambda>s b. 0) (\<lambda>f t a c. c\<lparr>n_app := f # n_app c\<rparr>) ?c 4 ?m False = Some (c', True)"
    and "n_transactions c' = fst (lwm2m_list_remove t_mID (n_transactions ?c) (p_mid ?m))"
    and "n_app c' = (case t_callback (demo_transaction 2 4) of
        None \<Rightarrow> n_app ?c
      | Some f \<Rightarrow> f # n_app (put_transaction ((demo_transaction 2 4)\<lparr>t_ack_received := True\<rparr>) ?c))"
    using response_finishes [of ?c "\<lambda>f t a c. c\<lparr>n_app := f # n_app c\<rparr>" ?m "demo_transaction 2 4" 4
        "\<lambda>n. True" 5 "\<lambda>s b. 0" False] by auto
  then show ?thesis
    by (simp add: put_transaction_def coap_init_message_def)
qed

text \<open>
  A separate response never finishes a request: it carries the token of the request and an
  identifier of its own, and the identifiers are compared first.
\<close>

theorem separate_response_lost:
  "\<exists>t m. transaction_ok t \<and> t_ack_received t \<and> p_token (t_message t) = [9] \<and>
     IS_OPTION COAP_OPTION_TOKEN (t_message t) \<and>
     coap_get_header_token m = Some [9] \<and> p_type m = COAP_TYPE_CON \<and>
     transaction_handleResponse (\<lambda>n. True) 5 (\<lambda>s b. 0) (\<lambda>f t a c. c)
       \<lparr>n_transactions = [t], n_sent = [], n_app = ()\<rparr> (t_peerH t) m True =
     Some (\<lparr>n_transactions = [t], n_sent = [], n_app = ()\<rparr>, False)"
proof -
  let ?p = "fst (coap_set_header_token (coap_init_message COAP_TYPE_CON 1 1) [9])"
  let ?t = "(demo_transaction 1 4)\<lparr>t_ack_received := True, t_message := ?p\<rparr>"
  let ?m = "fst (coap_set_header_token (coap_init_message COAP_TYPE_CON 69 2) [9])"
  have p: "p_mid ?p = 1" "p_token ?p = [9]" "IS_OPTION 19 ?p" "p_mid ?m = 2" "p_type ?m = 0" "p_token ?m = [9]"
    "IS_OPTION 19 ?m"
    by (simp_all add: coap_set_header_token_def) (simp_all add: coap_init_message_def set_known_def)
  have t: "transaction_ok ?t" "t_mID ?t = 1" "t_ack_received ?t" "t_message ?t = ?p"
    using p by (simp_all add: transaction_ok_def) (simp_all add: demo_transaction_def)
  then have "net_ok \<lparr>n_transactions = [?t], n_sent = [], n_app = ()\<rparr>"
    by (simp add: net_ok_def)
  from response_by_id [OF this] have "transaction_handleResponse (\<lambda>n. True) 5 (\<lambda>s b. 0) (\<lambda>f t a c. c)
       \<lparr>n_transactions = [?t], n_sent = [], n_app = ()\<rparr> (t_peerH ?t) ?m True =
     Some (\<lparr>n_transactions = [?t], n_sent = [], n_app = ()\<rparr>, False)"
    using t(2) p(4) by simp
  moreover have "coap_get_header_token ?m = Some [9]"
    using p by (simp add: coap_get_header_token_def)
  ultimately show ?thesis using t p by metis
qed

end
