(* ===== verification/Request_Wire.thy ===== *)
theory Request_Wire
  imports Transaction Coap_Bounds
begin

text \<open>
  A request from end to end: made by \<^verbatim>\<open>transaction_new\<close>, put on the wire by
  \<^verbatim>\<open>transaction_send\<close>, read by \<^verbatim>\<open>coap_parse_message\<close> and addressed by \<^verbatim>\<open>uri_decode\<close>. The theorem
  joins the components of the transaction, the packet formats and the URIs.
\<close>

section \<open>The message of a new request\<close>

lemma id_text_digits: "id_text i = Some (dec_digits (unat i))"
proof -
  let ?d = "ucast i :: u64"
  have i: "unat i < 2 ^ 16"
    using unsigned_less [of i, where 'a = nat] by simp
  have d: "unat ?d = unat i" by simp
  have "\<not> sint ?d < 0"
    using sint_neg_iff [of ?d] d i by simp
  moreover have "length (dec_digits (unat ?d)) \<le> length (replicate 6 (0 :: u8))"
    using dec_digits_bound [of "unat ?d" 5] d i by simp
  from uintToText_fits [OF this] have
    "utils_uintToText ?d (replicate 6 0) = (length (dec_digits (unat i)), dec_digits (unat i) @
      (if length (dec_digits (unat i)) < 6
       then 0 # drop (Suc (length (dec_digits (unat i)))) (snd (snd (u2t_loop ?d 6 (replicate 6 0)))) else []))"
    unfolding d by simp
  ultimately show ?thesis
    by (simp add: id_text_def utils_intToText_def)
qed

text \<open>A packet with a path, as the setters leave it when there is memory.\<close>

definition with_path :: "bytes list \<Rightarrow> coap_packet \<Rightarrow> coap_packet" where
  "with_path segs p = (if segs = [] then p else set_known 11 (p\<lparr>p_uri_path := p_uri_path p @ segs\<rparr>))"

lemma set_known_twice [simp]: "set_known n (set_known n p) = set_known n p"
  by (simp add: set_known_def)

lemma set_known_path [simp]:
  "p_uri_path (set_known n p) = p_uri_path p"
  "(set_known n p)\<lparr>p_uri_path := x\<rparr> = set_known n (p\<lparr>p_uri_path := x\<rparr>)"
  by (simp_all add: set_known_def)

lemma with_path_append: "with_path ts (with_path ss p) = with_path (ss @ ts) p"
  by (simp add: with_path_def)

lemma add_id_segment_path:
  "add_id_segment (\<lambda>n. True) i p = Some (with_path [dec_digits (unat i)] p)"
proof -
  have i: "unat i < 10 ^ 5"
    using unsigned_less [of i, where 'a = nat] by simp
  have len: "length (dec_digits (unat i)) mod 256 = length (dec_digits (unat i))"
    using dec_digits_bound [OF i] by simp
  show ?thesis
    by (cases "dec_digits (unat i)")
      (use len in \<open>auto simp: add_id_segment_def id_text_digits coap_set_header_uri_path_segment_def
        coap_add_multi_option_def with_path_def\<close>)
qed

lemma add_uri_segments_path:
  assumes "uri_ok cfg u"
  shows "add_uri_segments cfg (\<lambda>n. True) u p = Some (with_path (uri_segments u) p)"
  using assms
  by (auto simp: add_uri_segments_def uri_segments_def add_id_segment_path with_path_append uri_ok_def)
    (simp_all add: with_path_def)

text \<open>The packet of a request to \<open>u\<close>.\<close>

definition request_packet :: "u8 \<Rightarrow> u16 \<Rightarrow> bytes \<Rightarrow> lwm2m_uri \<Rightarrow> coap_packet" where
  "request_packet method mID token u =
     (let p = with_path (uri_segments u) (coap_init_message COAP_TYPE_CON method mID)
      in if token = [] then p else fst (coap_set_header_token p token))"

lemma transaction_new_eq:
  assumes "uri_ok cfg u"
  shows "transaction_new cfg (\<lambda>n. True) now stack (Some peer) method None (Some u) mID (length token) (Some token) =
    Some (Some \<lparr>t_mID = mID, t_peerH = peer, t_ack_received = False, t_response_timeout = 0,
      t_retrans_counter = 0, t_retrans_time = 0, t_message = request_packet method mID token u,
      t_buffer = None, t_payload = None, t_callback = None, t_userData = None\<rparr>)"
  using assms
  by (cases token) (simp_all add: transaction_new_def add_uri_segments_path request_packet_def Let_def)

lemma is_option_token: "IS_OPTION n (p\<lparr>p_token := x\<rparr>) = IS_OPTION n p"
  by (simp add: IS_OPTION_def)

lemma is_option_init: "\<not> IS_OPTION n ((coap_init_message t c mid)\<lparr>p_uri_path := x\<rparr>)"
  by (simp add: IS_OPTION_def coap_init_message_def zero_packet_def)

lemma id_segments_short: "seg \<in> set (id_segments ids) \<Longrightarrow> length seg \<le> 5"
proof (induction ids)
  case (Cons i ids)
  have "unat i < 10 ^ 5"
    using unsigned_less [of i, where 'a = nat] by simp
  from dec_digits_bound [OF this] Cons show ?case by (auto split: if_splits)
qed simp

lemma id_segments_bytes: "list_all (\<lambda>v. length v < 256) (id_segments ids)"
  unfolding list_all_iff
proof
  fix v assume "v \<in> set (id_segments ids)"
  then have "length v \<le> 5" by (rule id_segments_short)
  then show "length v < 256" by simp
qed

lemma length_id_segments: "length (id_segments ids) \<le> length ids"
  by (induction ids) auto

lemma request_packet_fields:
  assumes "objectId u \<noteq> LWM2M_MAX_ID" and "length token \<le> 8"
  shows "p_code (request_packet method mID token u) = method" "p_mid (request_packet method mID token u) = mID"
    "p_token (request_packet method mID token u) = token"
    "p_uri_path (request_packet method mID token u) = uri_segments u"
    "packet_ok (request_packet method mID token u)" "small_values (request_packet method mID token u)"
    "payload_of (request_packet method mID token u) = []"
    "\<And>n. IS_OPTION n (request_packet method mID token u) \<longleftrightarrow> n = 11 \<or> n = 19 \<and> token \<noteq> []"
proof -
  let ?p = "request_packet method mID token u"
  have segs: "uri_segments u \<noteq> []" using assms(1) by (simp add: uri_segments_def)
  have p: "?p = (if token = [] then set_known 11 ((coap_init_message 0 method mID)\<lparr>p_uri_path := uri_segments u\<rparr>)
      else set_known 19 (set_known 11 ((coap_init_message 0 method mID)\<lparr>p_uri_path := uri_segments u\<rparr>)\<lparr>p_token := token\<rparr>))"
    using segs assms(2)
    by (simp add: request_packet_def with_path_def coap_set_header_token_def coap_init_message_def zero_packet_def)
  have short: "list_all (\<lambda>v. length v < 256) (uri_segments u)"
    unfolding uri_segments_def by (rule id_segments_bytes)
  show opt: "IS_OPTION n ?p \<longleftrightarrow> n = 11 \<or> n = 19 \<and> token \<noteq> []" for n
    unfolding p by (auto simp: is_option_token is_option_init)
  show "p_code ?p = method" "p_mid ?p = mID" "p_token ?p = token" "p_uri_path ?p = uri_segments u"
    "small_values ?p" "payload_of ?p = []"
    unfolding p by (simp_all add: set_known_def coap_init_message_def zero_packet_def small_values_def payload_of_def)
  have f: "p_type ?p < 4" "p_if_match ?p = []" "p_uri_host ?p = []" "p_etag ?p = []" "p_observe ?p = 0" "p_uri_port ?p = 0"
    "p_location_path ?p = []" "p_uri_query ?p = []" "p_content_type ?p = 0" "p_max_age ?p = 0" "p_accept ?p = []"
    "p_location_query ?p = []" "p_block2_num ?p = 0" "p_block2_more ?p = 0" "p_block2_size ?p = 0" "p_block2_offset ?p = 0"
    "p_block1_num ?p = 0" "p_block1_more ?p = 0" "p_block1_size ?p = 0" "p_block1_offset ?p = 0" "p_size ?p = 0"
    "p_proxy_uri ?p = []" "p_payload ?p = None"
    unfolding p by (simp_all add: set_known_def coap_init_message_def zero_packet_def)
  show "packet_ok ?p"
    unfolding packet_ok_def multi_ok_def unset_or_def block_ok_def opt foreign_options_def
    using f segs short assms(2) \<open>p_uri_path ?p = uri_segments u\<close> \<open>p_token ?p = token\<close> by simp
qed

text \<open>Its size: the header, the token, and at most four segments of five digits with five bytes each.\<close>

lemma request_packet_size:
  assumes "objectId u \<noteq> LWM2M_MAX_ID" and "length token \<le> 8"
  shows "0 < coap_serialize_get_size (request_packet method mID token u)"
    and "coap_serialize_get_size (request_packet method mID token u) < 2 ^ 16"
proof -
  let ?p = "request_packet method mID token u"
  note f = request_packet_fields [OF assms]
  have sum: "sum_list (map (\<lambda>v. 5 + length v) segs) \<le> 10 * length segs" if "\<forall>s \<in> set segs. length s \<le> 5" for segs :: "bytes list"
    using that by (induction segs) auto
  have "\<forall>s \<in> set (uri_segments u). length s \<le> 5"
    unfolding uri_segments_def using id_segments_short by blast
  note sum [OF this]
  moreover have "length (uri_segments u) \<le> length [objectId u, instanceId u, resourceId u, resourceInstanceId u]"
    unfolding uri_segments_def by (rule length_id_segments)
  ultimately have "sum_list (map (\<lambda>v. 5 + length v) (uri_segments u)) \<le> 40"
    by simp
  moreover have "coap_serialize_get_size ?p = 4 + length token + sum_list (map (\<lambda>v. 5 + length v) (uri_segments u))"
    by (simp add: coap_serialize_get_size_def f(3,4,7,8) Let_def)
  ultimately show "0 < coap_serialize_get_size ?p" and "coap_serialize_get_size ?p < 2 ^ 16"
    using assms(2) by simp_all
qed

lemma packet_mid_parsed: "p_mid (parsed_view p) = p_mid p" "p_code (parsed_view p) = p_code p"
    "p_token (parsed_view p) = p_token p" "p_uri_path (parsed_view p) = p_uri_path p"
  by (simp_all add: parsed_view_def)

text \<open>
  C16: A request arrives where it was sent to: the transaction made for a URI is serialized without
  overrunning its buffer and transmitted, and the peer that parses those bytes finds the method, the
  message identifier and the token of the request, and decodes its path to the very same URI.
\<close>

theorem request_end_to_end:
  assumes "uri_ok cfg u" and "objectId u \<noteq> LWM2M_MAX_ID" and "length token \<le> 8"
    and "0 \<le> time"
  shows "\<exists>t c' out m.
    transaction_new cfg (\<lambda>n. True) time stack (Some peer) mcode None (Some u) mID (length token) (Some token) =
      Some (Some t) \<and>
    transaction_send (\<lambda>n. True) time run (c\<lparr>n_transactions := lwm2m_list_add t_mID (n_transactions c) t\<rparr>) t = Some (c', 0) \<and>
    n_sent c' = n_sent c @ [(peer, out)] \<and>
    coap_parse_message (\<lambda>n. True) out = Some (NO_ERROR, m) \<and>
    p_code m = mcode \<and> p_mid m = mID \<and> p_token m = token \<and>
    uri_decode cfg None (p_uri_path m) (p_code m) = Some (LWM2M_REQUEST_TYPE_DM, u)"
proof -
  let ?p = "request_packet mcode mID token u"
  note f = request_packet_fields [OF assms(2,3)]
  obtain t where t: "transaction_new cfg (\<lambda>n. True) time stack (Some peer) mcode None (Some u) mID (length token) (Some token) =
      Some (Some t)" "t_message t = ?p" "t_buffer t = None" "t_mID t = mID" "t_peerH t = peer"
      "t_retrans_counter t = 0" "\<not> t_ack_received t"
    using assms(1) by (auto simp: transaction_new_eq)
  obtain q out where ser: "coap_serialize_message ?p = (q, out)"
    by (cases "coap_serialize_message ?p")
  define t' where "t' = t\<lparr>t_message := q, t_buffer := Some out\<rparr>"
  have out: "out = snd (coap_serialize_message ?p)" by (simp add: ser)
  have "length out \<le> coap_serialize_get_size ?p"
    unfolding out by (rule serialize_fits [OF f(6)])
  moreover have "out \<noteq> []"
    using serialize_message_length [of ?p] unfolding out by auto
  ultimately have buf: "transaction_buffer (\<lambda>n. True) t = Some (Some t')"
    using request_packet_size [OF assms(2,3), of mcode mID]
    by (simp add: transaction_buffer_def t(2,3) t'_def ser)
  have parse: "coap_parse_message (\<lambda>n. True) out = Some (NO_ERROR, parsed_view ?p)"
    unfolding out by (rule parse_serialized [of ?p "\<lambda>n. True", OF f(5) TrueI])
  have decode: "uri_decode cfg None (p_uri_path (parsed_view ?p)) mcode = Some (LWM2M_REQUEST_TYPE_DM, u)"
    unfolding packet_mid_parsed f(4) by (rule decode_uri_segments [OF assms(1,2)])
  let ?c = "c\<lparr>n_transactions := lwm2m_list_add t_mID (n_transactions c) t\<rparr>"
  have "t_retrans_counter t' = 0" "\<not> t_ack_received t'" "t_buffer t' = Some out" "t_peerH t' = peer"
    using t by (simp_all add: t'_def)
  then have "\<exists>c'. transaction_send (\<lambda>n. True) time run ?c t = Some (c', 0) \<and> n_sent c' = n_sent c @ [(peer, out)]"
    using assms(4) by (simp add: transaction_send_def buf next_time_def put_transaction_def buffer_send_def)
  with t(1) parse decode show ?thesis
    using packet_mid_parsed [of ?p] f(1-3) by metis
qed

theorem request_end_to_end_witness:
  "\<exists>t out m.
    transaction_new client_build (\<lambda>n. True) 7 [0, 0] (Some 4) 1 None
      (Some \<lparr>objectId = 3, instanceId = 0, resourceId = 9, resourceInstanceId = 0xFFFF\<rparr>) 0x1234 2 (Some [5, 6]) =
      Some (Some t) \<and>
    coap_parse_message (\<lambda>n. True) out = Some (NO_ERROR, m) \<and> p_mid m = 0x1234 \<and>
    uri_decode client_build None (p_uri_path m) (p_code m) = Some (LWM2M_REQUEST_TYPE_DM,
      \<lparr>objectId = 3, instanceId = 0, resourceId = 9, resourceInstanceId = 0xFFFF\<rparr>)"
proof -
  let ?u = "\<lparr>objectId = 3, instanceId = 0, resourceId = 9, resourceInstanceId = 0xFFFF\<rparr>"
  have "uri_ok client_build ?u" "objectId ?u \<noteq> LWM2M_MAX_ID" "length [5, 6 :: u8] \<le> 8" "0 \<le> (7 :: int)"
    by (simp_all add: uri_ok_def)
  note e = request_end_to_end [where stack = "[0, 0]" and peer = 4 and mcode = 1 and mID = "0x1234"
      and run = "\<lambda>f t a c. c" and c = "\<lparr>n_transactions = [], n_sent = [], n_app = ()\<rparr>", OF this]
  have "length [5, 6 :: u8] = 2" by simp
  with e show ?thesis by metis
qed

end
