(* ===== verification/Object_Dispatch.thy ===== *)
theory Object_Dispatch
  imports Data_Model
begin

text \<open>
  The operations on the objects of a client (\<^verbatim>\<open>core/objects.c\<close>): every request is checked against the
  list of objects and the instances of the object it names, the payload is parsed, and the callback
  of the object does the rest.

  The result is the CoAP code with what the call changed. \<open>None\<close> is undefined behaviour: a callback
  that leaves its memory, a null pointer, a member of the union that was not stored.
\<close>

text \<open>
  What the functions take from outside of the context: the build flags, the answers of the allocator,
  the formats that are not modelled, the time (\<^verbatim>\<open>lwm2m_gettime\<close>), and two contents of memory that
  nobody wrote: \<open>e_stack\<close> on the stack, \<open>e_freed i\<close> the number that the node \<open>i\<close> of an instance list
  reads as after its owner has released it.
\<close>

record env =
  e_cfg :: build
  e_mem :: allocator
  e_ext :: formats
  e_now :: int
  e_stack :: bytes
  e_freed :: "u16 \<Rightarrow> u16"

definition has_instance :: "'s lwm2m_object \<Rightarrow> u16 \<Rightarrow> bool" where
  "has_instance ob i \<longleftrightarrow> lwm2m_list_find id (instances_of ob) i \<noteq> None"

definition put_state :: "'s lwm2m_object \<Rightarrow> 's \<Rightarrow> 's client \<Rightarrow> 's client" where
  "put_state ob s c = put_object (ob\<lparr>o_state := s\<rparr>) c"

section \<open>Reading\<close>

text \<open>The array for one resource, with one instance of it in it where the URI names one.\<close>

definition resource_request :: "env \<Rightarrow> lwm2m_uri \<Rightarrow> lwm2m_data list option" where
  "resource_request E u =
     (case lwm2m_data_new (e_mem E) 1 of
        None \<Rightarrow> None
      | Some ds \<Rightarrow>
          let d = set_id (resourceId u) (hd ds) in
          if \<not> version_1_0 (e_cfg E) \<and> IS_SET_RESOURCE_INSTANCE u
          then map_option (\<lambda>sub. [lwm2m_data_encode_instances [set_id (resourceInstanceId u) (hd sub)] d])
                 (lwm2m_data_new (e_mem E) 1)
          else Some [d])"

text \<open>\<open>valueP\<close>: the entry that was allocated for the value, in the array after the read.\<close>

definition requested_value :: "env \<Rightarrow> lwm2m_uri \<Rightarrow> lwm2m_data list \<Rightarrow> lwm2m_data option" where
  "requested_value E u ds =
     (case ds of
        [] \<Rightarrow> None
      | d # _ \<Rightarrow>
          if \<not> version_1_0 (e_cfg E) \<and> IS_SET_RESOURCE_INSTANCE u
          then (case as_children (dvalue d) of Some (d' # _) \<Rightarrow> Some d' | _ \<Rightarrow> None)
          else Some d)"

definition is_numeric :: "lwm2m_data_type \<Rightarrow> bool" where
  "is_numeric type \<longleftrightarrow>
     type = LWM2M_TYPE_INTEGER \<or> type = LWM2M_TYPE_UNSIGNED_INTEGER \<or> type = LWM2M_TYPE_FLOAT"

definition object_checkReadable :: "env \<Rightarrow> lwm2m_uri \<Rightarrow> lwm2m_attributes \<Rightarrow> 's client \<Rightarrow> u8 option" where
  "object_checkReadable E u attr c =
     (case find_object c (objectId u) of
        None \<Rightarrow> Some COAP_404_NOT_FOUND
      | Some ob \<Rightarrow>
          (case o_readFunc ob of
             None \<Rightarrow> Some COAP_405_METHOD_NOT_ALLOWED
           | Some read \<Rightarrow>
               if \<not> IS_SET_INSTANCE u then Some COAP_205_CONTENT
               else if \<not> has_instance ob (instanceId u) then Some COAP_404_NOT_FOUND
               else if \<not> IS_SET_RESOURCE u then Some COAP_205_CONTENT
               else
                 (case resource_request E u of
                    None \<Rightarrow> Some COAP_500_INTERNAL_SERVER_ERROR
                  | Some ds \<Rightarrow>
                      (case read (o_state ob) (instanceId u) ds of
                         None \<Rightarrow> None
                       | Some (result, ds) \<Rightarrow>
                           if result = COAP_205_CONTENT \<and> at_toSet attr AND ATTR_FLAG_NUMERIC \<noteq> 0
                           then map_option (\<lambda>d. if is_numeric (dtype d) then result else COAP_405_METHOD_NOT_ALLOWED)
                                  (requested_value E u ds)
                           else Some result))))"

text \<open>Reading instance after instance: the result and the entries of those that were read.\<close>

fun read_instances ::
  "(u16 \<Rightarrow> lwm2m_data list \<Rightarrow> (u8 \<times> lwm2m_data list) option) \<Rightarrow> u16 list \<Rightarrow> (u8 \<times> lwm2m_data list) option" where
  "read_instances read [] = Some (COAP_205_CONTENT, [])"
| "read_instances read (i # is) =
     (case read i [] of
        None \<Rightarrow> None
      | Some (result, ds) \<Rightarrow>
          let d = Data LWM2M_TYPE_OBJECT_INSTANCE i (AsChildren ds) in
          if result = COAP_205_CONTENT
          then map_option (\<lambda>(r, rest). (r, d # rest)) (read_instances read is)
          else Some (result, [d]))"

definition all_instances ::
  "env \<Rightarrow> (u16 \<Rightarrow> lwm2m_data list \<Rightarrow> (u8 \<times> lwm2m_data list) option) \<Rightarrow> u16 list \<Rightarrow> (u8 \<times> lwm2m_data list) option" where
  "all_instances E read is =
     (if is = [] then Some (COAP_205_CONTENT, [])
      else if lwm2m_data_new (e_mem E) (int (length is)) = None then Some (COAP_500_INTERNAL_SERVER_ERROR, [])
      else read_instances read is)"

text \<open>When the read fails everything is released and the array is empty.\<close>

definition object_readData :: "env \<Rightarrow> lwm2m_uri \<Rightarrow> 's client \<Rightarrow> (u8 \<times> lwm2m_data list) option" where
  "object_readData E u c =
     (case find_object c (objectId u) of
        None \<Rightarrow> Some (COAP_404_NOT_FOUND, [])
      | Some ob \<Rightarrow>
          (case o_readFunc ob of
             None \<Rightarrow> Some (COAP_405_METHOD_NOT_ALLOWED, [])
           | Some read \<Rightarrow>
               map_option (\<lambda>(result, ds). (result, if result = COAP_205_CONTENT then ds else []))
                 (if IS_SET_INSTANCE u then
                    (if \<not> has_instance ob (instanceId u) then Some (COAP_404_NOT_FOUND, [])
                     else if IS_SET_RESOURCE u then
                       (case resource_request E u of
                          None \<Rightarrow> Some (COAP_500_INTERNAL_SERVER_ERROR, [])
                        | Some ds \<Rightarrow> read (o_state ob) (instanceId u) ds)
                     else read (o_state ob) (instanceId u) [])
                  else all_instances E (read (o_state ob)) (instances_of ob))))"

text \<open>\<open>format\<close> is \<^verbatim>\<open>*formatP\<close> before the call; the result: the code, \<^verbatim>\<open>*formatP\<close>, \<^verbatim>\<open>*bufferP\<close>.\<close>

definition object_read ::
  "env \<Rightarrow> lwm2m_uri \<Rightarrow> u16 list \<Rightarrow> lwm2m_media_type \<Rightarrow> 's client \<Rightarrow> (u8 \<times> lwm2m_media_type \<times> bytes option) option" where
  "object_read E u accept format c =
     (case object_readData E u c of
        None \<Rightarrow> None
      | Some (result, ds) \<Rightarrow>
          if result \<noteq> COAP_205_CONTENT then Some (result, format, None)
          else
            let (result, format) =
                  (if accept \<noteq> [] then utils_getResponseFormat (e_cfg E) accept ds (IS_SET_RESOURCE u)
                   else (result, format))
            in
            if result \<noteq> COAP_205_CONTENT then Some (result, format, None)
            else
              map_option (\<lambda>(res, format, buffer).
                  if res < 0 then (COAP_500_INTERNAL_SERVER_ERROR, format, buffer)
                  else (COAP_205_CONTENT, format, buffer))
                (lwm2m_data_serialize (e_cfg E) (e_mem E) (e_ext E) (e_stack E) (Some u) ds format))"

section \<open>The server objects of the core\<close>

abbreviation (input) LWM2M_SERVER_SHORT_ID_ID :: u16 where "LWM2M_SERVER_SHORT_ID_ID \<equiv> 0"
abbreviation (input) LWM2M_SERVER_LIFETIME_ID :: u16 where "LWM2M_SERVER_LIFETIME_ID \<equiv> 1"
abbreviation (input) LWM2M_SERVER_BINDING_ID :: u16 where "LWM2M_SERVER_BINDING_ID \<equiv> 7"
abbreviation (input) LWM2M_SECURITY_BOOTSTRAP_ID :: u16 where "LWM2M_SECURITY_BOOTSTRAP_ID \<equiv> 1"
abbreviation (input) LWM2M_SECURITY_SHORT_SERVER_ID :: u16 where "LWM2M_SECURITY_SHORT_SERVER_ID \<equiv> 10"
abbreviation (input) LWM2M_SECURITY_HOLD_OFF_ID :: u16 where "LWM2M_SECURITY_HOLD_OFF_ID \<equiv> 11"

text \<open>
  Reading resources of an instance by their numbers: \<open>Some None\<close> when the array cannot be allocated or
  the read does not succeed. A read function that is null is called all the same: \<open>None\<close>.
\<close>

definition read_resources :: "env \<Rightarrow> 's lwm2m_object \<Rightarrow> u16 \<Rightarrow> u16 list \<Rightarrow> lwm2m_data list option option" where
  "read_resources E ob i ids =
     (case lwm2m_data_new (e_mem E) (int (length ids)) of
        None \<Rightarrow> Some None
      | Some ds \<Rightarrow>
          (case o_readFunc ob of
             None \<Rightarrow> None
           | Some read \<Rightarrow>
               map_option (\<lambda>(result, ds). if result = COAP_205_CONTENT then Some ds else None)
                 (read (o_state ob) i (map2 set_id ids ds))))"

text \<open>The result is \<^verbatim>\<open>0\<close> (true) or \<^verbatim>\<open>-1\<close>, and the server, which may have got a lifetime already.\<close>

definition prv_getMandatoryInfo ::
  "env \<Rightarrow> 's lwm2m_object \<Rightarrow> u16 \<Rightarrow> lwm2m_server \<Rightarrow> (bool \<times> lwm2m_server) option" where
  "prv_getMandatoryInfo E ob i sv =
     (case read_resources E ob i [LWM2M_SERVER_LIFETIME_ID, LWM2M_SERVER_BINDING_ID] of
        None \<Rightarrow> None
      | Some None \<Rightarrow> Some (False, sv)
      | Some (Some (d # ds)) \<Rightarrow>
          (case lwm2m_data_decode_int (e_cfg E) d of
             None \<Rightarrow> None
           | Some None \<Rightarrow> Some (False, sv)
           | Some (Some value) \<Rightarrow>
               if sint value < 0 \<or> sint value > 0xFFFFFFFF then Some (False, sv)
               else
                 let sv = sv\<lparr>sv_lifetime := sint value\<rparr> in
                 (case ds of
                    [] \<Rightarrow> None
                  | d' # _ \<Rightarrow>
                      map_option (\<lambda>binding.
                          (binding \<noteq> BINDING_UNKNOWN, sv\<lparr>sv_binding := binding\<rparr>))
                        (if dtype d' = LWM2M_TYPE_STRING
                         then map_option (utils_stringToBinding (e_cfg E)) (as_buffer (dvalue d'))
                         else Some BINDING_UNKNOWN)))
      | Some (Some []) \<Rightarrow> None)"

text \<open>The short identifier, 0 for an error.\<close>

definition prv_getServerShortId :: "env \<Rightarrow> 's lwm2m_object \<Rightarrow> u16 \<Rightarrow> u16 option" where
  "prv_getServerShortId E ob i =
     (case read_resources E ob i [LWM2M_SERVER_SHORT_ID_ID] of
        None \<Rightarrow> None
      | Some None \<Rightarrow> Some 0
      | Some (Some []) \<Rightarrow> None
      | Some (Some (d # _)) \<Rightarrow>
          map_option (\<lambda>r.
              let value = (case r of None \<Rightarrow> 0 | Some v \<Rightarrow> sint v) in
              if value < 0 \<or> value > 65535 then 0 else of_int value)
            (lwm2m_data_decode_int (e_cfg E) d))"

definition prv_updateServerInfo :: "env \<Rightarrow> 's lwm2m_object \<Rightarrow> u16 \<Rightarrow> 's client \<Rightarrow> 's client option" where
  "prv_updateServerInfo E ob i c =
     (case prv_getServerShortId E ob i of
        None \<Rightarrow> None
      | Some serverId \<Rightarrow>
          if serverId = 0 then Some c
          else
            (case find (\<lambda>sv. sv_shortID sv = serverId) (cl_serverList c) of
               None \<Rightarrow> Some c
             | Some sv \<Rightarrow> map_option (\<lambda>(_, sv). put_server sv c) (prv_getMandatoryInfo E ob i sv)))"

section \<open>Writing\<close>

definition object_write ::
  "env \<Rightarrow> lwm2m_uri \<Rightarrow> lwm2m_media_type \<Rightarrow> bytes \<Rightarrow> bool \<Rightarrow> 's client \<Rightarrow> (u8 \<times> 's client) option" where
  "object_write E u format buffer partial c =
     (if \<not> IS_SET_OBJECT u then Some (COAP_400_BAD_REQUEST, c)
      else if \<not> IS_SET_INSTANCE u then Some (COAP_400_BAD_REQUEST, c)
      else
        (case find_object c (objectId u) of
           None \<Rightarrow> Some (COAP_404_NOT_FOUND, c)
         | Some ob \<Rightarrow>
             (case o_writeFunc ob of
                None \<Rightarrow> Some (COAP_405_METHOD_NOT_ALLOWED, c)
              | Some write \<Rightarrow>
                  (case lwm2m_data_parse (e_cfg E) (e_mem E) (e_ext E) u buffer format of
                     None \<Rightarrow> None
                   | Some (n, ds) \<Rightarrow>
                       if n \<le> 0 then Some (COAP_406_NOT_ACCEPTABLE, c)
                       else
                         let wrap = (\<not> version_1_0 (e_cfg E) \<and> IS_SET_RESOURCE_INSTANCE u);
                             request =
                               (if wrap
                                then map_option (\<lambda>new. [lwm2m_data_encode_instances ds (set_id (resourceId u) (hd new))])
                                       (lwm2m_data_new (e_mem E) 1)
                                else Some ds);
                             writeType =
                               (if partial \<or> wrap then LWM2M_WRITE_PARTIAL_UPDATE
                                else if IS_SET_RESOURCE u then LWM2M_WRITE_REPLACE_RESOURCES
                                else LWM2M_WRITE_REPLACE_INSTANCE)
                         in
                         (case request of
                            None \<Rightarrow> Some (COAP_500_INTERNAL_SERVER_ERROR, c)
                          | Some ds \<Rightarrow>
                              (case write (o_state ob) (instanceId u) ds writeType of
                                 None \<Rightarrow> None
                               | Some (result, s) \<Rightarrow>
                                   let c = put_state ob s c in
                                   if result = COAP_204_CHANGED \<and> o_objID ob = LWM2M_SERVER_OBJECT_ID
                                   then map_option (Pair result)
                                          (prv_updateServerInfo E (ob\<lparr>o_state := s\<rparr>) (instanceId u) c)
                                   else Some (result, c)))))))"

definition object_execute :: "lwm2m_uri \<Rightarrow> bytes option \<Rightarrow> 's client \<Rightarrow> (u8 \<times> 's client) option" where
  "object_execute u buffer c =
     (case find_object c (objectId u) of
        None \<Rightarrow> Some (COAP_404_NOT_FOUND, c)
      | Some ob \<Rightarrow>
          (case o_executeFunc ob of
             None \<Rightarrow> Some (COAP_405_METHOD_NOT_ALLOWED, c)
           | Some execute \<Rightarrow>
               if \<not> has_instance ob (instanceId u) then Some (COAP_404_NOT_FOUND, c)
               else map_option (\<lambda>(result, s). (result, put_state ob s c))
                      (execute (o_state ob) (instanceId u) (resourceId u) buffer)))"

section \<open>Creating\<close>

text \<open>The URI gets the number of the instance.\<close>

definition object_create ::
  "env \<Rightarrow> lwm2m_uri \<Rightarrow> lwm2m_media_type \<Rightarrow> bytes option \<Rightarrow> 's client \<Rightarrow> (u8 \<times> lwm2m_uri \<times> 's client) option" where
  "object_create E u format buffer c =
     (case buffer of
        None \<Rightarrow> Some (COAP_400_BAD_REQUEST, u, c)
      | Some [] \<Rightarrow> Some (COAP_400_BAD_REQUEST, u, c)
      | Some b \<Rightarrow>
          (case find_object c (objectId u) of
             None \<Rightarrow> Some (COAP_404_NOT_FOUND, u, c)
           | Some ob \<Rightarrow>
               (case o_createFunc ob of
                  None \<Rightarrow> Some (COAP_405_METHOD_NOT_ALLOWED, u, c)
                | Some create \<Rightarrow>
                    let run = (\<lambda>i ds. map_option (\<lambda>(result, s). (result, u\<lparr>instanceId := i\<rparr>, put_state ob s c))
                                (create (o_state ob) i ds))
                    in
                    (case lwm2m_data_parse (e_cfg E) (e_mem E) (e_ext E) u b format of
                       None \<Rightarrow> None
                     | Some (n, ds) \<Rightarrow>
                         if n \<le> 0 then Some (COAP_400_BAD_REQUEST, u, c)
                         else
                           (case ds of
                              [] \<Rightarrow> None
                            | d # _ \<Rightarrow>
                                (case dtype d of
                                   LWM2M_TYPE_OBJECT \<Rightarrow> Some (COAP_400_BAD_REQUEST, u, c)
                                 | LWM2M_TYPE_OBJECT_INSTANCE \<Rightarrow>
                                     if n \<noteq> 1 then Some (COAP_400_BAD_REQUEST, u, c)
                                     else if has_instance ob (did d) then Some (COAP_406_NOT_ACCEPTABLE, u, c)
                                     else (case as_children (dvalue d) of None \<Rightarrow> None | Some sub \<Rightarrow> run (did d) sub)
                                 | _ \<Rightarrow>
                                     run (if IS_SET_INSTANCE u then instanceId u else lwm2m_list_newId id (instances_of ob))
                                       ds))))))"

definition object_createInstance :: "lwm2m_uri \<Rightarrow> lwm2m_data \<Rightarrow> 's client \<Rightarrow> (u8 \<times> 's client) option" where
  "object_createInstance u d c =
     (case find_object c (objectId u) of
        None \<Rightarrow> Some (COAP_404_NOT_FOUND, c)
      | Some ob \<Rightarrow>
          (case o_createFunc ob of
             None \<Rightarrow> Some (COAP_405_METHOD_NOT_ALLOWED, c)
           | Some create \<Rightarrow>
               (case as_children (dvalue d) of
                  None \<Rightarrow> None
                | Some sub \<Rightarrow>
                    map_option (\<lambda>(result, s). (result, put_state ob s c))
                      (create (o_state ob) (lwm2m_list_newId id (instances_of ob)) sub))))"

definition object_writeInstance :: "lwm2m_uri \<Rightarrow> lwm2m_data \<Rightarrow> 's client \<Rightarrow> (u8 \<times> 's client) option" where
  "object_writeInstance u d c =
     (case find_object c (objectId u) of
        None \<Rightarrow> Some (COAP_404_NOT_FOUND, c)
      | Some ob \<Rightarrow>
          (case o_writeFunc ob of
             None \<Rightarrow> Some (COAP_405_METHOD_NOT_ALLOWED, c)
           | Some write \<Rightarrow>
               (case as_children (dvalue d) of
                  None \<Rightarrow> None
                | Some sub \<Rightarrow>
                    map_option (\<lambda>(result, s). (result, put_state ob s c))
                      (write (o_state ob) (did d) sub LWM2M_WRITE_REPLACE_INSTANCE))))"

section \<open>Raw blocks\<close>

text \<open>\<open>taken\<close> is the code that a callback returns for a block that it has taken. The execute callback has no
  format among its arguments.\<close>

definition raw_result :: "u8 \<Rightarrow> u8 \<Rightarrow> u8 \<Rightarrow> u8" where
  "raw_result taken blockMore result =
     (if blockMore > 0 \<and> (result = taken \<or> result = COAP_NO_ERROR) then COAP_231_CONTINUE else result)"

definition run_raw ::
  "'s raw_call \<Rightarrow> 's lwm2m_object \<Rightarrow> u8 \<Rightarrow> lwm2m_uri \<Rightarrow> lwm2m_media_type \<Rightarrow> bytes option \<Rightarrow> u32 \<Rightarrow> u8 \<Rightarrow>
   's client \<Rightarrow> (u8 \<times> 's client) option" where
  "run_raw call ob taken u format buffer num blockMore c =
     map_option (\<lambda>(result, s). (raw_result taken blockMore result, put_state ob s c))
       (call (o_state ob) u format buffer num blockMore)"

definition object_raw_block1_write ::
  "env \<Rightarrow> lwm2m_uri \<Rightarrow> lwm2m_media_type \<Rightarrow> bytes option \<Rightarrow> u32 \<Rightarrow> u8 \<Rightarrow> 's client \<Rightarrow> (u8 \<times> 's client) option" where
  "object_raw_block1_write E u format buffer num blockMore c =
     (case find_object c (objectId u) of
        None \<Rightarrow> Some (COAP_404_NOT_FOUND, c)
      | Some ob \<Rightarrow>
          (case o_rawBlock1WriteFunc ob of
             None \<Rightarrow> Some (COAP_405_METHOD_NOT_ALLOWED, c)
           | Some call \<Rightarrow>
               if \<not> version_1_0 (e_cfg E) \<and> IS_SET_RESOURCE_INSTANCE u then Some (COAP_400_BAD_REQUEST, c)
               else run_raw call ob COAP_204_CHANGED u format buffer num blockMore c))"

definition object_raw_block1_execute ::
  "lwm2m_uri \<Rightarrow> bytes option \<Rightarrow> u32 \<Rightarrow> u8 \<Rightarrow> 's client \<Rightarrow> (u8 \<times> 's client) option" where
  "object_raw_block1_execute u buffer num blockMore c =
     (case find_object c (objectId u) of
        None \<Rightarrow> Some (COAP_404_NOT_FOUND, c)
      | Some ob \<Rightarrow>
          (case o_rawBlock1ExecuteFunc ob of
             None \<Rightarrow> Some (COAP_405_METHOD_NOT_ALLOWED, c)
           | Some call \<Rightarrow>
               if \<not> has_instance ob (instanceId u) then Some (COAP_404_NOT_FOUND, c)
               else run_raw call ob COAP_204_CHANGED u LWM2M_CONTENT_TEXT buffer num blockMore c))"

definition object_raw_block1_create ::
  "lwm2m_uri \<Rightarrow> lwm2m_media_type \<Rightarrow> bytes option \<Rightarrow> u32 \<Rightarrow> u8 \<Rightarrow> 's client \<Rightarrow> (u8 \<times> 's client) option" where
  "object_raw_block1_create u format buffer num blockMore c =
     (if buffer = None \<or> buffer = Some [] then Some (COAP_400_BAD_REQUEST, c)
      else
        (case find_object c (objectId u) of
           None \<Rightarrow> Some (COAP_404_NOT_FOUND, c)
         | Some ob \<Rightarrow>
             (case o_rawBlock1CreateFunc ob of
                None \<Rightarrow> Some (COAP_405_METHOD_NOT_ALLOWED, c)
              | Some call \<Rightarrow> run_raw call ob COAP_201_CREATED u format buffer num blockMore c)))"

section \<open>Deleting\<close>

text \<open>
  Deleting every instance of an object: the head of its list is deleted until the list is empty or a
  deletion fails. The number of the instance is read once more after its owner has released it. A
  callback that reports success and keeps the instance makes the loop run forever: \<open>None\<close>.
\<close>

partial_function (option) delete_loop ::
  "env \<Rightarrow> lwm2m_uri \<Rightarrow> ('s \<Rightarrow> u16 \<Rightarrow> (u8 \<times> 's) option) \<Rightarrow> 's lwm2m_object \<Rightarrow> 's client \<Rightarrow> (u8 \<times> 's client) option" where
  "delete_loop E u delete ob c =
     (case instances_of ob of
        [] \<Rightarrow> Some (COAP_202_DELETED, c)
      | i # _ \<Rightarrow>
          (case delete (o_state ob) i of
             None \<Rightarrow> None
           | Some (result, s) \<Rightarrow>
               let ob = ob\<lparr>o_state := s\<rparr>; c = put_object ob c in
               if result \<noteq> COAP_202_DELETED then Some (result, c)
               else
                 let i = (if i \<in> set (instances_of ob) then i else e_freed E i)
                 in delete_loop E u delete ob (observe_clear (u\<lparr>instanceId := i\<rparr>) c)))"

definition object_delete :: "env \<Rightarrow> lwm2m_uri \<Rightarrow> 's client \<Rightarrow> (u8 \<times> 's client) option" where
  "object_delete E u c =
     (case find_object c (objectId u) of
        None \<Rightarrow> Some (COAP_404_NOT_FOUND, c)
      | Some ob \<Rightarrow>
          (case o_deleteFunc ob of
             None \<Rightarrow> Some (COAP_405_METHOD_NOT_ALLOWED, c)
           | Some delete \<Rightarrow>
               if IS_SET_INSTANCE u then
                 map_option (\<lambda>(result, s).
                     let c = put_state ob s c in
                     (result, if result = COAP_202_DELETED then observe_clear u c else c))
                   (delete (o_state ob) (instanceId u))
               else delete_loop E u delete ob c))"

section \<open>Discovering\<close>

definition object_discover ::
  "env \<Rightarrow> lwm2m_uri \<Rightarrow> u16 option \<Rightarrow> 's client \<Rightarrow> (u8 \<times> bytes option) option" where
  "object_discover E u server c =
     (case find_object c (objectId u) of
        None \<Rightarrow> Some (COAP_404_NOT_FOUND, None)
      | Some ob \<Rightarrow>
          (case o_discoverFunc ob of
             None \<Rightarrow> Some (COAP_501_NOT_IMPLEMENTED, None)
           | Some discover \<Rightarrow>
               (case
                  (if IS_SET_INSTANCE u then
                     (if \<not> has_instance ob (instanceId u) then Some (COAP_404_NOT_FOUND, [])
                      else if IS_SET_RESOURCE u then
                        (case lwm2m_data_new (e_mem E) 1 of
                           None \<Rightarrow> Some (COAP_500_INTERNAL_SERVER_ERROR, [])
                         | Some ds \<Rightarrow> discover (o_state ob) (instanceId u) [set_id (resourceId u) (hd ds)])
                      else discover (o_state ob) (instanceId u) [])
                   else all_instances E (discover (o_state ob)) (instances_of ob))
                of
                  None \<Rightarrow> None
                | Some (result, ds) \<Rightarrow>
                    if result \<noteq> COAP_205_CONTENT then Some (result, None)
                    else
                      map_option (\<lambda>(len, buffer).
                          if len \<le> 0 then (COAP_500_INTERNAL_SERVER_ERROR, buffer) else (COAP_205_CONTENT, buffer))
                        (discover_serialize (e_cfg E) (e_mem E) (float_to_text (e_ext E))
                           (Some (cl_observedList c)) server u ds))))"

definition object_isInstanceNew :: "u16 \<Rightarrow> u16 \<Rightarrow> 's client \<Rightarrow> bool" where
  "object_isInstanceNew oid i c =
     (case find_object c oid of None \<Rightarrow> True | Some ob \<Rightarrow> \<not> has_instance ob i)"

section \<open>The servers of a client\<close>

definition sizeof_server :: "build \<Rightarrow> nat" where
  "sizeof_server cfg = (if version_1_0 cfg then 80 else 88)"

definition zero_server_entry :: "u16 \<Rightarrow> lwm2m_server" where
  "zero_server_entry i = \<lparr>sv_secObjInstID = i, sv_shortID = 0, sv_lifetime = 0, sv_registration = 0, sv_binding = 0,
     sv_sessionH = None, sv_status = STATE_DEREGISTERED, sv_location = None, sv_dirty = False, sv_blockData = [],
     sv_servObjInstID = 0, sv_attempt = 0, sv_sequence = 0\<rparr>"

text \<open>The first instance with the short identifier; a failed read ends the search with the null pointer.\<close>

fun prv_findServerInstance :: "env \<Rightarrow> 's lwm2m_object \<Rightarrow> u16 \<Rightarrow> u16 list \<Rightarrow> u16 option option" where
  "prv_findServerInstance E ob shortID [] = Some None"
| "prv_findServerInstance E ob shortID (i # is) =
     (case read_resources E ob i [LWM2M_SERVER_SHORT_ID_ID] of
        None \<Rightarrow> None
      | Some None \<Rightarrow> Some None
      | Some (Some []) \<Rightarrow> None
      | Some (Some (d # _)) \<Rightarrow>
          (case lwm2m_data_decode_int (e_cfg E) d of
             None \<Rightarrow> None
           | Some v \<Rightarrow>
               if map_option sint v = Some (int (unat shortID)) then Some (Some i)
               else prv_findServerInstance E ob shortID is))"

text \<open>A resource of an instance as an integer within bounds: \<open>Some None\<close> is the return of \<^verbatim>\<open>-1\<close>.\<close>

definition read_int_between :: "env \<Rightarrow> 's lwm2m_object \<Rightarrow> u16 \<Rightarrow> u16 \<Rightarrow> int \<Rightarrow> int \<Rightarrow> int option option" where
  "read_int_between E ob i rid low high =
     (case read_resources E ob i [rid] of
        None \<Rightarrow> None
      | Some None \<Rightarrow> Some None
      | Some (Some []) \<Rightarrow> None
      | Some (Some (d # _)) \<Rightarrow>
          map_option (\<lambda>r. case r of
              None \<Rightarrow> None
            | Some v \<Rightarrow> if sint v < low \<or> sint v > high then None else Some (sint v))
            (lwm2m_data_decode_int (e_cfg E) d))"

text \<open>
  One new instance of the Security object. The result: \<open>Some None\<close> for \<^verbatim>\<open>-1\<close>, else the server with
  whether it is a bootstrap server, if there is one to add.
\<close>

definition server_of_instance ::
  "env \<Rightarrow> 's lwm2m_object \<Rightarrow> 's lwm2m_object option \<Rightarrow> u16 \<Rightarrow> (bool \<times> lwm2m_server) option option option" where
  "server_of_instance E sec serverObj i =
     (case read_resources E sec i [LWM2M_SECURITY_BOOTSTRAP_ID] of
        None \<Rightarrow> None
      | Some None \<Rightarrow> Some None
      | Some (Some []) \<Rightarrow> None
      | Some (Some (d # _)) \<Rightarrow>
          if \<not> e_mem E (sizeof_server (e_cfg E)) then Some None
          else
            (case lwm2m_data_decode_bool d of
               None \<Rightarrow> None
             | Some None \<Rightarrow> Some None
             | Some (Some True) \<Rightarrow>
                 map_option (map_option (\<lambda>value.
                     Some (True, (zero_server_entry i)\<lparr>sv_lifetime := value,
                       sv_servObjInstID := (if version_1_0 (e_cfg E) then 0 else LWM2M_MAX_ID)\<rparr>)))
                   (read_int_between E sec i LWM2M_SECURITY_HOLD_OFF_ID 0 0xFFFFFFFF)
             | Some (Some False) \<Rightarrow>
                 (case read_int_between E sec i LWM2M_SECURITY_SHORT_SERVER_ID 1 0xFFFF of
                    None \<Rightarrow> None
                  | Some None \<Rightarrow> Some None
                  | Some (Some value) \<Rightarrow>
                      let sv = (zero_server_entry i)\<lparr>sv_shortID := of_int value\<rparr> in
                      (case serverObj of
                         None \<Rightarrow> None
                       | Some ob \<Rightarrow>
                           (case prv_findServerInstance E ob (sv_shortID sv) (instances_of ob) of
                              None \<Rightarrow> None
                            | Some None \<Rightarrow> Some (Some None)
                            | Some (Some j) \<Rightarrow>
                                map_option (\<lambda>(ok, sv).
                                    if ok then Some (Some (False, sv\<lparr>sv_status := STATE_DEREGISTERED\<rparr>)) else None)
                                  (prv_getMandatoryInfo E ob j
                                    (sv\<lparr>sv_servObjInstID := (if version_1_0 (e_cfg E) then 0 else j)\<rparr>)))))))"

text \<open>The result: whether \<^verbatim>\<open>0\<close> is returned, and the context with the servers that were added.\<close>

fun getServers_loop ::
  "env \<Rightarrow> bool \<Rightarrow> 's lwm2m_object \<Rightarrow> 's lwm2m_object option \<Rightarrow> u16 list \<Rightarrow> 's client \<Rightarrow> (bool \<times> 's client) option" where
  "getServers_loop E checkOnly sec serverObj [] c = Some (True, c)"
| "getServers_loop E checkOnly sec serverObj (i # is) c =
     (if lwm2m_list_find sv_secObjInstID (cl_bootstrapServerList c) i = None \<and>
         lwm2m_list_find sv_secObjInstID (cl_serverList c) i = None
      then
        (case server_of_instance E sec serverObj i of
           None \<Rightarrow> None
         | Some None \<Rightarrow> Some (False, c)
         | Some (Some new) \<Rightarrow>
             getServers_loop E checkOnly sec serverObj is
               (if checkOnly then c
                else
                  (case new of
                     None \<Rightarrow> c
                   | Some (True, sv) \<Rightarrow>
                       c\<lparr>cl_bootstrapServerList := lwm2m_list_add sv_secObjInstID (cl_bootstrapServerList c) sv\<rparr>
                   | Some (False, sv) \<Rightarrow>
                       c\<lparr>cl_serverList := lwm2m_list_add sv_secObjInstID (cl_serverList c) sv\<rparr>)))
      else getServers_loop E checkOnly sec serverObj is c)"

definition last_object :: "'s client \<Rightarrow> u16 \<Rightarrow> 's lwm2m_object option" where
  "last_object c i =
     (case filter (\<lambda>ob. o_objID ob = i) (cl_objectList c) of [] \<Rightarrow> None | obs \<Rightarrow> Some (last obs))"

definition object_getServers :: "env \<Rightarrow> bool \<Rightarrow> 's client \<Rightarrow> (bool \<times> 's client) option" where
  "object_getServers E checkOnly c =
     (case last_object c LWM2M_SECURITY_OBJECT_ID of
        None \<Rightarrow> Some (False, c)
      | Some sec \<Rightarrow>
          getServers_loop E checkOnly sec (last_object c LWM2M_SERVER_OBJECT_ID) (instances_of sec) c)"

end
