(* ===== verification/Float_Bits.thy ===== *)
theory Float_Bits
  imports Data_Values
begin

text \<open>
  Comparing and adding C doubles and floats, on their bits (IEEE 754, round to nearest even): what
  \<^verbatim>\<open>core/observe.c\<close> does with thresholds and steps. A number has \<open>f\<close> bits of fraction and \<open>e\<close> of
  exponent: 52 and 11 for a double, 23 and 8 for a float.

  A finite number is a whole number of units, the unit being the smallest positive one; sums are
  formed there and rounded back.
\<close>

section \<open>Reading the bits\<close>

definition fp_magnitude :: "nat \<Rightarrow> nat \<Rightarrow> nat \<Rightarrow> nat" where
  "fp_magnitude f e b = b mod 2 ^ (f + e)"

definition fp_negative :: "nat \<Rightarrow> nat \<Rightarrow> nat \<Rightarrow> bool" where
  "fp_negative f e b \<longleftrightarrow> odd (b div 2 ^ (f + e))"

definition fp_infinity :: "nat \<Rightarrow> nat \<Rightarrow> nat" where
  "fp_infinity f e = (2 ^ e - 1) * 2 ^ f"

definition fp_nan :: "nat \<Rightarrow> nat \<Rightarrow> nat \<Rightarrow> bool" where
  "fp_nan f e b \<longleftrightarrow> fp_infinity f e < fp_magnitude f e b"

definition with_sign :: "bool \<Rightarrow> nat \<Rightarrow> int" where
  "with_sign negative m = (if negative then - int m else int m)"

section \<open>Comparing\<close>

text \<open>Magnitudes compare as their bits; comparisons with NaN are false.\<close>

definition fp_order :: "nat \<Rightarrow> nat \<Rightarrow> nat \<Rightarrow> int" where
  "fp_order f e b = with_sign (fp_negative f e b) (fp_magnitude f e b)"

definition fp_less :: "nat \<Rightarrow> nat \<Rightarrow> nat \<Rightarrow> nat \<Rightarrow> bool" where
  "fp_less f e a b \<longleftrightarrow> \<not> fp_nan f e a \<and> \<not> fp_nan f e b \<and> fp_order f e a < fp_order f e b"

definition fp_le :: "nat \<Rightarrow> nat \<Rightarrow> nat \<Rightarrow> nat \<Rightarrow> bool" where
  "fp_le f e a b \<longleftrightarrow> \<not> fp_nan f e a \<and> \<not> fp_nan f e b \<and> fp_order f e a \<le> fp_order f e b"

section \<open>Adding\<close>

definition magnitude_units :: "nat \<Rightarrow> nat \<Rightarrow> nat" where
  "magnitude_units f m = (if m < 2 ^ f then m else (2 ^ f + m mod 2 ^ f) * 2 ^ (m div 2 ^ f - 1))"

definition fp_units :: "nat \<Rightarrow> nat \<Rightarrow> nat \<Rightarrow> int" where
  "fp_units f e b = with_sign (fp_negative f e b) (magnitude_units f (fp_magnitude f e b))"

definition round_units :: "nat \<Rightarrow> nat \<Rightarrow> nat \<Rightarrow> nat" where
  "round_units f e a =
     (if a < 2 ^ (f + 1) then a
      else let k = top_bit a in min (fp_infinity f e) ((k - f) * 2 ^ f + round_shift a (k - f)))"

definition fp_add :: "nat \<Rightarrow> nat \<Rightarrow> nat \<Rightarrow> nat \<Rightarrow> nat" where
  "fp_add f e a b =
     (let infinite = (\<lambda>x. fp_magnitude f e x = fp_infinity f e); sign = 2 ^ (f + e) in
      if fp_nan f e a \<or> fp_nan f e b \<or> (infinite a \<and> infinite b \<and> fp_negative f e a \<noteq> fp_negative f e b)
      then fp_infinity f e + 2 ^ (f - 1)
      else if infinite a then a
      else if infinite b then b
      else
        let s = fp_units f e a + fp_units f e b in
        if s = 0 then (if fp_negative f e a \<and> fp_negative f e b then sign else 0)
        else (if s < 0 then sign else 0) + round_units f e (nat \<bar>s\<bar>))"

section \<open>Doubles and floats\<close>

definition f64_less :: "u64 \<Rightarrow> u64 \<Rightarrow> bool" where
  "f64_less a b = fp_less 52 11 (unat a) (unat b)"

definition f64_le :: "u64 \<Rightarrow> u64 \<Rightarrow> bool" where
  "f64_le a b = fp_le 52 11 (unat a) (unat b)"

definition f64_minus :: "u64 \<Rightarrow> u64" where
  "f64_minus a = a XOR push_bit 63 1"

definition f64_diff :: "u64 \<Rightarrow> u64 \<Rightarrow> u64" where
  "f64_diff a b = of_nat (fp_add 52 11 (unat a) (unat (f64_minus b)))"

definition f32_add :: "u32 \<Rightarrow> u32 \<Rightarrow> u32" where
  "f32_add a b = of_nat (fp_add 23 8 (unat a) (unat b))"

definition f32_le :: "u32 \<Rightarrow> u32 \<Rightarrow> bool" where
  "f32_le a b = fp_le 23 8 (unat a) (unat b)"

section \<open>Rounding back what needs no rounding\<close>

lemma top_bit_eq: "2 ^ k \<le> n \<Longrightarrow> n < 2 ^ Suc k \<Longrightarrow> top_bit n = k"
proof (induction k arbitrary: n)
  case 0
  then show ?case by (subst top_bit.simps) simp
next
  case (Suc k)
  have "2 ^ k \<le> n div 2" "n div 2 < 2 ^ Suc k" using Suc.prems by simp_all
  from Suc.IH [OF this] have "top_bit (n div 2) = k" .
  moreover have "\<not> n < 2" using Suc.prems(1) by (simp add: not_less) (metis le_trans one_le_numeral one_le_power mult_le_mono2 nat_mult_1_right)
  ultimately show ?case by (subst top_bit.simps) simp
qed

lemma round_shift_exact: "round_shift (q * 2 ^ k) k = q"
  by (simp add: round_shift_def)

lemma round_units_exact:
  assumes "m \<le> fp_infinity f e"
  shows "round_units f e (magnitude_units f m) = m"
proof (cases "m < 2 ^ (f + 1)")
  case True
  show ?thesis
  proof (cases "m < 2 ^ f")
    case True
    then show ?thesis by (simp add: magnitude_units_def round_units_def)
  next
    case False
    have "m div 2 ^ f = 1"
      using True False by (intro div_nat_eqI) simp_all
    then have "2 ^ f + m mod 2 ^ f = m"
      using div_mult_mod_eq [of m "2 ^ f"] by simp
    with False True \<open>m div 2 ^ f = 1\<close> show ?thesis by (simp add: magnitude_units_def round_units_def)
  qed
next
  case False
  define q where "q = m div 2 ^ f"
  define r where "r = m mod 2 ^ f"
  have m: "m = q * 2 ^ f + r" unfolding q_def r_def by (rule div_mult_mod_eq [symmetric])
  have r: "r < 2 ^ f" unfolding r_def by simp
  have q: "2 \<le> q"
    using False unfolding q_def by (simp add: div_le_mono less_eq_div_iff_mult_less_eq not_less)
  define a where "a = (2 ^ f + r) * 2 ^ (q - 1)"
  have u: "magnitude_units f m = a"
  proof -
    have "\<not> m < 2 ^ f" using False by simp
    then show ?thesis unfolding magnitude_units_def a_def q_def r_def by simp
  qed
  have low: "2 ^ (f + (q - 1)) \<le> a" unfolding a_def power_add by simp
  have high: "a < 2 ^ Suc (f + (q - 1))"
  proof -
    have "a < (2 ^ f + 2 ^ f) * 2 ^ (q - 1)" unfolding a_def using r by (intro mult_strict_right_mono) simp_all
    then show ?thesis unfolding power_Suc power_add by (simp only: mult_2 [symmetric] mult.assoc)
  qed
  have top: "top_bit a = f + (q - 1)" by (rule top_bit_eq [OF low high])
  have big: "\<not> a < 2 ^ (f + 1)"
    using low power_increasing [of "f + 1" "f + (q - 1)" "2 :: nat"] q by linarith
  have "(q - 1) * 2 ^ f + round_shift a (q - 1) = m"
  proof -
    have "round_shift a (q - 1) = 2 ^ f + r" unfolding a_def by (rule round_shift_exact)
    moreover have "(q - 1) * 2 ^ f + 2 ^ f = q * 2 ^ f" using q by (cases q) simp_all
    ultimately show ?thesis using m by linarith
  qed
  with big top assms show ?thesis unfolding u by (simp add: round_units_def)
qed

text \<open>Adding zero changes no finite number but the negative zero.\<close>

lemma fp_add_zero:
  assumes "b < 2 ^ Suc (f + e)" and "fp_magnitude f e b < fp_infinity f e" and "fp_magnitude f e b \<noteq> 0"
  shows "fp_add f e b 0 = b"
proof -
  let ?m = "fp_magnitude f e b"
  have zero: "fp_magnitude f e 0 = 0" "\<not> fp_negative f e 0" "fp_units f e 0 = 0" "\<not> fp_nan f e 0"
    by (simp_all add: fp_magnitude_def fp_negative_def fp_units_def with_sign_def magnitude_units_def fp_nan_def)
  have rounds: "round_units f e (magnitude_units f ?m) = ?m"
    using assms(2) by (intro round_units_exact) simp
  have pos: "0 < magnitude_units f ?m"
    using assms(3) by (simp add: magnitude_units_def)
  have b: "b = (if fp_negative f e b then 2 ^ (f + e) else 0) + ?m"
  proof -
    have "b div 2 ^ (f + e) < 2" using assms(1) by (simp add: less_mult_imp_div_less)
    then have "b div 2 ^ (f + e) = (if fp_negative f e b then 1 else 0)"
      unfolding fp_negative_def by (cases "b div 2 ^ (f + e)") auto
    then show ?thesis using div_mult_mod_eq [of b "2 ^ (f + e)"] unfolding fp_magnitude_def by (simp split: if_splits)
  qed
  have "fp_add f e b 0 = (if fp_negative f e b then 2 ^ (f + e) else 0) + ?m"
    using assms(2,3) zero pos rounds
    by (simp add: fp_add_def Let_def fp_nan_def fp_units_def with_sign_def)
  with b show ?thesis by simp
qed

lemma f64_order_examples:
  "f64_less 0x3FF0000000000000 0x4000000000000000"
  "\<not> f64_less 0x4000000000000000 0x3FF0000000000000"
  "f64_less 0xC000000000000000 0xBFF0000000000000"
  "\<not> f64_less 0x7FF8000000000000 0x7FF8000000000000"
  "f32_add 0x3F800000 0x3F800000 = 0x40000000"
  by (simp_all add: f64_less_def f32_add_def fp_less_def fp_order_def fp_nan_def fp_negative_def fp_magnitude_def
      fp_infinity_def with_sign_def fp_add_def fp_units_def magnitude_units_def round_units_def round_shift_def
      Let_def top_bit.simps)

end
