(* ===== verification/Observe_Notify.thy ===== *)
theory Observe_Notify
  imports Object_Dispatch Float_Bits Transaction
begin

text \<open>
  The attributes of an observation and the notifications (\<^verbatim>\<open>core/observe.c\<close>, lines 334 to 432 and 515 to
  820): \<^verbatim>\<open>observe_setParameters\<close> stores what a server asks for, \<^verbatim>\<open>observe_step\<close> sends the
  notifications that are due.

  The context is the record \<open>net\<close> of the transactions with the client as its application part.
  \<open>None\<close> is undefined behaviour.
\<close>

type_synonym 's lwm2m_context = "'s client net"

definition sizeof_attributes :: nat where "sizeof_attributes = 40"

section \<open>Setting attributes\<close>

text \<open>An attribute of the request, else the stored one, which is read through a pointer.\<close>

definition attribute_or_stored ::
  "u8 \<Rightarrow> (lwm2m_attributes \<Rightarrow> u64) \<Rightarrow> lwm2m_attributes \<Rightarrow> lwm2m_attributes option \<Rightarrow> u64 option" where
  "attribute_or_stored flag field attr stored =
     (if flag_set flag attr then Some (field attr) else map_option field stored)"

text \<open>
  The rule "lt + 2 * st < gt", tested in floats when all three are set. The product by 2 is the sum of
  the step with itself.
\<close>

definition breaks_rule :: "lwm2m_attributes \<Rightarrow> lwm2m_attributes option \<Rightarrow> bool option" where
  "breaks_rule attr stored =
     (let set = (case stored of None \<Rightarrow> 0 | Some p \<Rightarrow> at_toSet p) in
      if (at_toSet attr OR set) AND NOT (at_toClear attr) AND ATTR_FLAG_NUMERIC \<noteq> ATTR_FLAG_NUMERIC
      then Some False
      else do {
        gt \<leftarrow> attribute_or_stored LWM2M_ATTR_FLAG_GREATER_THAN at_greaterThan attr stored;
        lt \<leftarrow> attribute_or_stored LWM2M_ATTR_FLAG_LESS_THAN at_lessThan attr stored;
        stp \<leftarrow> attribute_or_stored LWM2M_ATTR_FLAG_STEP at_step attr stored;
        let gt = f64_to_f32 gt; lt = f64_to_f32 lt; stp = f64_to_f32 stp in
        Some (f32_le gt (f32_add lt (f32_add stp stp)))
      })"

text \<open>The fields are copied; the bits that say which are set are only cleared.\<close>

definition merge_parameters :: "lwm2m_attributes \<Rightarrow> lwm2m_attributes \<Rightarrow> lwm2m_attributes" where
  "merge_parameters attr p =
     p\<lparr>at_toSet := at_toSet p AND NOT (at_toClear attr),
       at_minPeriod := if flag_set LWM2M_ATTR_FLAG_MIN_PERIOD attr then at_minPeriod attr else at_minPeriod p,
       at_maxPeriod := if flag_set LWM2M_ATTR_FLAG_MAX_PERIOD attr then at_maxPeriod attr else at_maxPeriod p,
       at_greaterThan := if flag_set LWM2M_ATTR_FLAG_GREATER_THAN attr then at_greaterThan attr else at_greaterThan p,
       at_lessThan := if flag_set LWM2M_ATTR_FLAG_LESS_THAN attr then at_lessThan attr else at_lessThan p,
       at_step := if flag_set LWM2M_ATTR_FLAG_STEP attr then at_step attr else at_step p\<rparr>"

definition observe_setParameters ::
  "env \<Rightarrow> lwm2m_uri \<Rightarrow> lwm2m_server \<Rightarrow> lwm2m_attributes \<Rightarrow> 's client \<Rightarrow> (u8 \<times> 's client) option" where
  "observe_setParameters E u sv attr c =
     (if \<not> IS_SET_INSTANCE u \<and> IS_SET_RESOURCE u then Some (COAP_400_BAD_REQUEST, c)
      else
        (case object_checkReadable E u attr c of
           None \<Rightarrow> None
         | Some result \<Rightarrow>
             if result \<noteq> COAP_205_CONTENT then Some (result, c)
             else
               (case prv_getWatcher (e_cfg E) (e_mem E) (cl_observedList c) u (sv_secObjInstID sv) of
                  None \<Rightarrow> None
                | Some (obs, None) \<Rightarrow> Some (COAP_500_INTERNAL_SERVER_ERROR, c\<lparr>cl_observedList := obs\<rparr>)
                | Some (obs, Some pos) \<Rightarrow>
                    let w = get_watcher obs pos;
                        store = (\<lambda>p. c\<lparr>cl_observedList := put_watcher obs pos (w\<lparr>w_parameters := Some p\<rparr>)\<rparr>);
                        c = c\<lparr>cl_observedList := obs\<rparr>
                    in
                    (case breaks_rule attr (w_parameters w) of
                       None \<Rightarrow> None
                     | Some True \<Rightarrow> Some (COAP_400_BAD_REQUEST, c)
                     | Some False \<Rightarrow>
                         (case w_parameters w of
                            None \<Rightarrow>
                              if at_toSet attr = 0 then Some (COAP_204_CHANGED, c)
                              else if \<not> e_mem E sizeof_attributes then Some (COAP_500_INTERNAL_SERVER_ERROR, c)
                              else Some (COAP_204_CHANGED, store attr)
                          | Some p \<Rightarrow> Some (COAP_204_CHANGED, store (merge_parameters attr p)))))))"

section \<open>The value of an observed resource\<close>

text \<open>
  The data, the type, and the number if it is one. \<open>Some None\<close> skips the target; a target that is not a
  resource has no data yet.
\<close>

definition target_value ::
  "env \<Rightarrow> lwm2m_uri \<Rightarrow> 's client \<Rightarrow> (lwm2m_data list \<times> lwm2m_data_type \<times> u64 option) option option" where
  "target_value E u c =
     (if \<not> IS_SET_RESOURCE u then Some (Some ([], LWM2M_TYPE_UNDEFINED, None))
      else
        (case object_readData E u c of
           None \<Rightarrow> None
         | Some (result, ds) \<Rightarrow>
             if result \<noteq> COAP_205_CONTENT then Some None
             else
               (case ds of
                  [] \<Rightarrow> None
                | d # _ \<Rightarrow>
                    (case single_value (e_cfg E) u d of
                       None \<Rightarrow> None
                     | Some d \<Rightarrow>
                         map_option (map_option (\<lambda>number. (ds, dtype d, number))) (numeric_value (e_cfg E) d)))))"

section \<open>Conditions\<close>

text \<open>A number of its type as a double.\<close>

definition number_f64 :: "lwm2m_data_type \<Rightarrow> u64 \<Rightarrow> u64" where
  "number_f64 type n =
     (case type of
        LWM2M_TYPE_INTEGER \<Rightarrow> i64_to_f64 n
      | LWM2M_TYPE_UNSIGNED_INTEGER \<Rightarrow> u64_to_f64 n
      | _ \<Rightarrow> n)"

definition crossed :: "lwm2m_data_type \<Rightarrow> u64 \<Rightarrow> u64 \<Rightarrow> u64 \<Rightarrow> bool" where
  "crossed type now_v last_v limit \<longleftrightarrow>
     is_numeric type \<and>
     (f64_less (number_f64 type now_v) limit \<and> f64_less limit (number_f64 type last_v)
      \<or> f64_less limit (number_f64 type now_v) \<and> f64_less (number_f64 type last_v) limit)"

text \<open>The difference of two signed integers that does not fit is undefined.\<close>

definition step_reached :: "lwm2m_data_type \<Rightarrow> u64 \<Rightarrow> u64 \<Rightarrow> u64 \<Rightarrow> bool option" where
  "step_reached type now_v last_v step =
     (case type of
        LWM2M_TYPE_INTEGER \<Rightarrow>
          let diff = sint now_v - sint last_v in
          if \<bar>diff\<bar> \<ge> 2 ^ 63 then None else Some (f64_le step (i64_to_f64 (of_int \<bar>diff\<bar>)))
      | LWM2M_TYPE_UNSIGNED_INTEGER \<Rightarrow>
          Some (f64_le step (u64_to_f64 (if now_v \<ge> last_v then now_v - last_v else last_v - now_v)))
      | LWM2M_TYPE_FLOAT \<Rightarrow>
          let diff = f64_diff now_v last_v in
          Some (f64_less diff 0 \<and> f64_le step (f64_diff 0 diff) \<or> f64_le 0 diff \<and> f64_le step diff)
      | _ \<Rightarrow> Some False)"

definition numeric_condition ::
  "lwm2m_data_type \<Rightarrow> u64 \<Rightarrow> u64 \<Rightarrow> lwm2m_attributes \<Rightarrow> bool option" where
  "numeric_condition type now_v last_v p =
     map_option (\<lambda>s.
         flag_set LWM2M_ATTR_FLAG_LESS_THAN p \<and> crossed type now_v last_v (at_lessThan p)
         \<or> flag_set LWM2M_ATTR_FLAG_GREATER_THAN p \<and> crossed type now_v last_v (at_greaterThan p) \<or> s)
       (if flag_set LWM2M_ATTR_FLAG_STEP p then step_reached type now_v last_v (at_step p) else Some False)"

text \<open>
  Whether a changed value is notified, and the time-out: the conditions, then the minimal period, which
  decides alone when it is set.
\<close>

definition update_check ::
  "int \<Rightarrow> lwm2m_data_type \<Rightarrow> u64 \<Rightarrow> lwm2m_watcher \<Rightarrow> int \<Rightarrow> (bool \<times> int) option" where
  "update_check currentTime type v w timeout =
     (if \<not> w_update w then Some (False, timeout)
      else
        (case w_parameters w of
           None \<Rightarrow> Some (True, timeout)
         | Some p \<Rightarrow>
             (case (if at_toSet p = 0 then Some True else numeric_condition type v (w_lastValue w) p) of
                None \<Rightarrow> None
              | Some notify \<Rightarrow>
                  if flag_set LWM2M_ATTR_FLAG_MIN_PERIOD p then
                    let due = w_lastTime w + int (unat (at_minPeriod p)) in
                    if due > currentTime then Some (False, min timeout (due - currentTime)) else Some (True, timeout)
                  else Some (notify, timeout))))"

definition maximal_end :: "lwm2m_watcher \<Rightarrow> int option" where
  "maximal_end w =
     (case w_parameters w of
        None \<Rightarrow> None
      | Some p \<Rightarrow>
          if flag_set LWM2M_ATTR_FLAG_MAX_PERIOD p then Some (w_lastTime w + int (unat (at_maxPeriod p))) else None)"

section \<open>Sending\<close>

definition set_payload_ptr :: "coap_packet \<Rightarrow> bytes option \<Rightarrow> coap_packet" where
  "set_payload_ptr m buffer =
     (case buffer of None \<Rightarrow> m\<lparr>p_payload := None\<rparr> | Some b \<Rightarrow> fst (coap_set_payload m b))"

text \<open>
  The message for a target, and whether its buffer stays for the watchers after this one. \<open>Some (w, None)\<close>
  is the \<^verbatim>\<open>break\<close>: the data could not be serialized.
\<close>

definition prepare_message ::
  "env \<Rightarrow> 's client \<Rightarrow> lwm2m_uri \<Rightarrow> lwm2m_data list \<Rightarrow> lwm2m_watcher \<Rightarrow>
   (lwm2m_watcher \<times> (coap_packet \<times> bool) option) option" where
  "prepare_message E c u ds w =
     (let finish = (\<lambda>ok format buffer.
            let m = coap_init_message COAP_TYPE_NON COAP_205_CONTENT 0;
                m = fst (coap_set_header_content_type m (ucast (media_type_num format)))
            in (w\<lparr>w_format := format\<rparr>, if ok then Some (set_payload_ptr m buffer, buffer \<noteq> None) else None))
      in
      if ds \<noteq> [] then
        map_option (\<lambda>(res, format, buffer). finish (\<not> res < 0) format buffer)
          (lwm2m_data_serialize (e_cfg E) (e_mem E) (e_ext E) (e_stack E) (Some u) ds (w_format w))
      else
        map_option (\<lambda>(result, format, buffer). finish (result = COAP_205_CONTENT) format buffer)
          (object_read E u [] (w_format w) c))"

text \<open>The transport refuses the null handle. The list holds the servers that a watcher may refer to.\<close>

definition notify_watcher ::
  "env \<Rightarrow> (nat \<Rightarrow> bytes \<Rightarrow> u8) \<Rightarrow> int \<Rightarrow> coap_packet \<Rightarrow> lwm2m_watcher \<Rightarrow> 's lwm2m_context \<Rightarrow>
   (lwm2m_watcher \<times> coap_packet \<times> 's lwm2m_context) option" where
  "notify_watcher E transport currentTime m w c =
     (let mid = cl_nextMID (n_app c);
          c = c\<lparr>n_app := (n_app c)\<lparr>cl_nextMID := mid + 1\<rparr>\<rparr>;
          m = fst (coap_set_header_token (m\<lparr>p_mid := mid\<rparr>) (w_token w));
          m = fst (coap_set_header_observe m (w_counter w));
          w = w\<lparr>w_lastTime := currentTime, w_lastMid := mid, w_counter := w_counter w + 1, w_update := False\<rparr>
      in
      case lwm2m_list_find sv_secObjInstID (cl_serverList (n_app c)) (w_server w) of
        None \<Rightarrow> None
      | Some sv \<Rightarrow>
          (case sv_sessionH sv of
             None \<Rightarrow> Some (w, m, c)
           | Some peer \<Rightarrow> map_option (\<lambda>(c, _). (w, m, c)) (message_send (e_mem E) transport c peer m)))"

section \<open>The periodic step\<close>

definition watch_timer :: "int \<Rightarrow> lwm2m_watcher \<Rightarrow> int \<Rightarrow> int" where
  "watch_timer currentTime w timeout =
     (case maximal_end w of None \<Rightarrow> timeout | Some due \<Rightarrow> min timeout (due - currentTime))"

text \<open>The watchers of one target; \<open>kept\<close> is the message of the target while its buffer is not null.\<close>

fun step_watchers ::
  "env \<Rightarrow> (nat \<Rightarrow> bytes \<Rightarrow> u8) \<Rightarrow> int \<Rightarrow> lwm2m_uri \<Rightarrow> lwm2m_data list \<times> lwm2m_data_type \<times> u64 option \<Rightarrow>
   coap_packet option \<Rightarrow> lwm2m_watcher list \<Rightarrow> 's lwm2m_context \<Rightarrow> int \<Rightarrow> (lwm2m_watcher list \<times> 's lwm2m_context \<times> int) option" where
  "step_watchers E transport currentTime u val kept [] c timeout = Some ([], c, timeout)"
| "step_watchers E transport currentTime u val kept (w # ws) c timeout =
     (if \<not> w_active w
      then map_option (\<lambda>(ws, r). (w # ws, r)) (step_watchers E transport currentTime u val kept ws c timeout)
      else
        let (ds, type, number) = val in
        (case update_check currentTime type (case number of None \<Rightarrow> 0 | Some n \<Rightarrow> n) w timeout of
           None \<Rightarrow> None
         | Some (notify, timeout) \<Rightarrow>
             let overdue = (case maximal_end w of None \<Rightarrow> False | Some due \<Rightarrow> due \<le> currentTime) in
             if \<not> notify \<and> \<not> overdue
             then map_option (\<lambda>(ws, r). (w # ws, r))
                    (step_watchers E transport currentTime u val kept ws c (watch_timer currentTime w timeout))
             else
               (case (case kept of Some m \<Rightarrow> Some (w, Some (m, True)) | None \<Rightarrow> prepare_message E (n_app c) u ds w) of
                  None \<Rightarrow> None
                | Some (w, None) \<Rightarrow> Some (w # ws, c, timeout)
                | Some (w, Some (m, keep)) \<Rightarrow>
                    (case notify_watcher E transport currentTime m w c of
                       None \<Rightarrow> None
                     | Some (w, m, c) \<Rightarrow>
                         let w = (case number of None \<Rightarrow> w | Some n \<Rightarrow> w\<lparr>w_lastValue := n\<rparr>) in
                         map_option (\<lambda>(ws, r). (w # ws, r))
                           (step_watchers E transport currentTime u val (if keep then Some m else None) ws c
                              (watch_timer currentTime w timeout))))))"

fun step_targets ::
  "env \<Rightarrow> (nat \<Rightarrow> bytes \<Rightarrow> u8) \<Rightarrow> int \<Rightarrow> lwm2m_observed list \<Rightarrow> 's lwm2m_context \<Rightarrow> int \<Rightarrow>
   (lwm2m_observed list \<times> 's lwm2m_context \<times> int) option" where
  "step_targets E transport currentTime [] c timeout = Some ([], c, timeout)"
| "step_targets E transport currentTime (ob # obs) c timeout =
     (case target_value E (ob_uri ob) (n_app c) of
        None \<Rightarrow> None
      | Some None \<Rightarrow>
          map_option (\<lambda>(obs, r). (ob # obs, r)) (step_targets E transport currentTime obs c timeout)
      | Some (Some val) \<Rightarrow>
          (case step_watchers E transport currentTime (ob_uri ob) val None (ob_watcherList ob) c timeout of
             None \<Rightarrow> None
           | Some (ws, c, timeout) \<Rightarrow>
               map_option (\<lambda>(obs, r). (ob\<lparr>ob_watcherList := ws\<rparr> # obs, r))
                 (step_targets E transport currentTime obs c timeout)))"

definition observe_step ::
  "env \<Rightarrow> (nat \<Rightarrow> bytes \<Rightarrow> u8) \<Rightarrow> int \<Rightarrow> 's lwm2m_context \<Rightarrow> int \<Rightarrow> ('s lwm2m_context \<times> int) option" where
  "observe_step E transport currentTime c timeout =
     map_option (\<lambda>(obs, c, timeout). (c\<lparr>n_app := (n_app c)\<lparr>cl_observedList := obs\<rparr>\<rparr>, timeout))
       (step_targets E transport currentTime (cl_observedList (n_app c)) c timeout)"

end
