(* ===== verification/Observe_Proofs.thy ===== *)
theory Observe_Proofs
  imports Observe_Notify Coap_Bounds
begin

text \<open>
  What holds of the observations of a client: every observed URI has a watcher, at most one per server,
  and every watcher belongs to a server of the list. All operations keep that, and with it none of them
  follows a null or a dangling pointer. The periodic step notifies only watchers that are active and due.
\<close>

section \<open>Well-formed observations\<close>

definition watchers_ok :: "u16 set \<Rightarrow> lwm2m_watcher list \<Rightarrow> bool" where
  "watchers_ok known ws \<longleftrightarrow> ws \<noteq> [] \<and> distinct (map w_server ws) \<and> w_server ` set ws \<subseteq> known"

definition observed_ok :: "u16 set \<Rightarrow> lwm2m_observed list \<Rightarrow> bool" where
  "observed_ok known obs \<longleftrightarrow> (\<forall>ob \<in> set obs. watchers_ok known (ob_watcherList ob))"

definition client_ok :: "'s client \<Rightarrow> bool" where
  "client_ok c \<longleftrightarrow>
     ids_sorted sv_secObjInstID (cl_serverList c) \<and>
     observed_ok (sv_secObjInstID ` set (cl_serverList c)) (cl_observedList c)"

named_theorems observed_simps
declare observed_ok_def [observed_simps] watchers_ok_def [observed_simps]

lemma observed_ok_Cons [simp]:
  "observed_ok known (ob # obs) \<longleftrightarrow> watchers_ok known (ob_watcherList ob) \<and> observed_ok known obs"
  "observed_ok known []"
  by (auto simp: observed_ok_def)

lemma observed_ok_update:
  "observed_ok known obs \<Longrightarrow> watchers_ok known (ob_watcherList ob) \<Longrightarrow> observed_ok known (obs[i := ob])"
  by (induction obs arbitrary: i) (auto split: nat.splits)

lemma observed_ok_nth: "observed_ok known obs \<Longrightarrow> i < length obs \<Longrightarrow> watchers_ok known (ob_watcherList (obs ! i))"
  by (simp add: observed_ok_def)

section \<open>Finding\<close>

lemma findObserved_less: "prv_findObserved cfg obs u = Some i \<Longrightarrow> i < length obs"
  by (induction obs arbitrary: i) (auto split: if_splits)

lemma findObserved_same:
  "prv_findObserved cfg obs u = Some i \<Longrightarrow> same_where_set cfg u (ob_uri (obs ! i))"
  by (induction obs arbitrary: i) (auto split: if_splits)

lemma findWatcher_less: "prv_findWatcher ws server = Some j \<Longrightarrow> j < length ws"
  by (induction ws arbitrary: j) (auto split: if_splits)

lemma findWatcher_server: "prv_findWatcher ws server = Some j \<Longrightarrow> w_server (ws ! j) = server"
  by (induction ws arbitrary: j) (auto split: if_splits)

lemma findWatcher_None: "prv_findWatcher ws server = None \<longleftrightarrow> server \<notin> w_server ` set ws"
  by (induction ws) (auto split: if_splits)

text \<open>Where the position that \<^verbatim>\<open>prv_getWatcher\<close> returns points to.\<close>

definition watcher_at :: "lwm2m_observed list \<Rightarrow> nat \<times> nat \<Rightarrow> u16 \<Rightarrow> bool" where
  "watcher_at obs pos server \<longleftrightarrow>
     fst pos < length obs \<and> snd pos < length (ob_watcherList (obs ! fst pos)) \<and>
     w_server (get_watcher obs pos) = server"

lemma getWatcher_ok:
  assumes "prv_getWatcher cfg mem obs u server = Some (obs', r)" and "observed_ok known obs" and "server \<in> known"
  shows "observed_ok known obs'" and "r = Some pos \<Longrightarrow> watcher_at obs' pos server"
proof -
  have "observed_ok known obs' \<and> (\<forall>pos. r = Some pos \<longrightarrow> watcher_at obs' pos server)"
  proof (cases "prv_findObserved cfg obs u")
    case None
    with assms show ?thesis
      by (auto simp: prv_getWatcher_def new_watcher_def watchers_ok_def watcher_at_def get_watcher_def split: if_splits)
  next
    case (Some i)
    note i = findObserved_less [OF Some]
    note ok = observed_ok_nth [OF assms(2) i]
    show ?thesis
    proof (cases "prv_findWatcher (ob_watcherList (obs ! i)) server")
      case None
      with Some i ok assms show ?thesis
        by (auto simp: prv_getWatcher_def new_watcher_def watchers_ok_def watcher_at_def get_watcher_def Let_def
            findWatcher_None intro!: observed_ok_update split: if_splits)
    next
      case (Some j)
      with \<open>prv_findObserved cfg obs u = Some i\<close> i assms findWatcher_less [OF Some] findWatcher_server [OF Some]
      show ?thesis by (auto simp: prv_getWatcher_def watcher_at_def get_watcher_def)
    qed
  qed
  then show "observed_ok known obs'" and "r = Some pos \<Longrightarrow> watcher_at obs' pos server" by auto
qed

lemma put_watcher_ok:
  assumes "observed_ok known obs" and "watcher_at obs pos server" and "w_server w = server"
  shows "observed_ok known (put_watcher obs pos w)"
proof (cases pos)
  case (Pair i j)
  let ?ws = "ob_watcherList (obs ! i)"
  have i: "i < length obs" "j < length ?ws" "w_server (?ws ! j) = server"
    using assms(2) Pair by (simp_all add: watcher_at_def get_watcher_def)
  have ok: "watchers_ok known ?ws" by (rule observed_ok_nth [OF assms(1) i(1)])
  have "map w_server (?ws[j := w]) = map w_server ?ws"
    using i assms(3) by (simp add: map_update list_update_same_conv)
  then have "watchers_ok known (?ws[j := w])"
    using ok unfolding watchers_ok_def by (metis image_set list_update_nonempty)
  with Pair assms(1) show ?thesis
    by (simp add: put_watcher_def observed_ok_update)
qed

section \<open>Cancelling, clearing, tagging\<close>

lemma cancel_watcher_ok:
  assumes "cancel_watcher m ws = Some (Some ws')" and "distinct (map w_server ws)"
  shows "distinct (map w_server ws') \<and> set ws' \<subseteq> set ws"
  using assms
proof (induction ws arbitrary: ws')
  case Nil
  then show ?case by simp
next
  case (Cons w ws)
  then show ?case by (auto split: option.splits bool.splits) (metis image_eqI subsetD)
qed

lemma cancel_watcher_defined:
  "(\<forall>w \<in> set ws. m w \<noteq> None) \<Longrightarrow> cancel_watcher m ws \<noteq> None"
  by (induction ws) (auto split: option.splits bool.splits)

lemma cancel_loop_ok:
  assumes "cancel_loop m obs = Some obs'" and "observed_ok known obs"
  shows "observed_ok known obs'"
  using assms
proof (induction obs arbitrary: obs')
  case Nil
  then show ?case by simp
next
  case (Cons ob obs)
  then show ?case
    by (auto simp: watchers_ok_def split: if_splits option.splits dest!: cancel_watcher_ok) blast
qed

lemma cancel_loop_defined:
  assumes "observed_ok known obs" and "\<And>w. w_server w \<in> known \<Longrightarrow> m w \<noteq> None"
  shows "cancel_loop m obs \<noteq> None"
  using assms(1)
proof (induction obs)
  case Nil
  then show ?case by simp
next
  case (Cons ob obs)
  then have "\<forall>w \<in> set (ob_watcherList ob). m w \<noteq> None"
    using assms(2) by (auto simp: watchers_ok_def)
  from cancel_watcher_defined [OF this] Cons show ?case
    by (auto simp: watchers_ok_def split: option.splits)
qed

lemma watcher_matches_defined:
  assumes "ids_sorted sv_secObjInstID servers" and "w_server w \<in> sv_secObjInstID ` set servers"
  shows "watcher_matches servers mid peer w \<noteq> None"
  using assms find_None_iff [OF assms(1)] by (auto simp: watcher_matches_def)

lemma clear_loop_ok: "observed_ok known obs \<Longrightarrow> observed_ok known (clear_loop u obs)"
  by (induction obs) auto

lemma mark_ok:
  assumes "\<And>w. w_server (g w) = w_server w"
  shows "observed_ok known obs \<Longrightarrow>
    observed_ok known (map (\<lambda>ob. if P ob then ob\<lparr>ob_watcherList := map g (ob_watcherList ob)\<rparr> else ob) obs)"
  using assms by (induction obs) (auto simp: watchers_ok_def image_iff comp_def)

section \<open>The periodic step\<close>

text \<open>
  The conditions on a changed value, apart from the way the code tests them: a limit of the server lies
  strictly between the value that was notified last and the value now, or the two are at least a step apart.
\<close>

definition limits :: "lwm2m_attributes \<Rightarrow> u64 set" where
  "limits p = {x. flag_set LWM2M_ATTR_FLAG_LESS_THAN p \<and> x = at_lessThan p} \<union>
     {x. flag_set LWM2M_ATTR_FLAG_GREATER_THAN p \<and> x = at_greaterThan p}"

definition strictly_between :: "u64 \<Rightarrow> u64 \<Rightarrow> u64 \<Rightarrow> bool" where
  "strictly_between a x b \<longleftrightarrow> f64_less a x \<and> f64_less x b \<or> f64_less b x \<and> f64_less x a"

definition moved_by :: "lwm2m_data_type \<Rightarrow> u64 \<Rightarrow> u64 \<Rightarrow> u64 \<Rightarrow> bool" where
  "moved_by type old new step =
     (case type of
        LWM2M_TYPE_INTEGER \<Rightarrow> f64_le step (i64_to_f64 (of_int \<bar>sint new - sint old\<bar>))
      | LWM2M_TYPE_UNSIGNED_INTEGER \<Rightarrow> f64_le step (u64_to_f64 (of_int \<bar>uint new - uint old\<bar>))
      | LWM2M_TYPE_FLOAT \<Rightarrow>
          (let diff = f64_diff new old in
           if f64_less diff 0 then f64_le step (f64_diff 0 diff) \<or> f64_le 0 diff \<and> f64_le step diff
           else f64_le 0 diff \<and> f64_le step diff)
      | _ \<Rightarrow> False)"

definition condition_met :: "lwm2m_data_type \<Rightarrow> u64 \<Rightarrow> u64 \<Rightarrow> lwm2m_attributes \<Rightarrow> bool" where
  "condition_met type old new p \<longleftrightarrow>
     is_numeric type \<and> (\<exists>x \<in> limits p. strictly_between (number_f64 type old) x (number_f64 type new)) \<or>
     flag_set LWM2M_ATTR_FLAG_STEP p \<and> moved_by type old new (at_step p)"

text \<open>
  When a watcher is to be notified at \<open>now\<close>, its resource being \<open>v\<close>: the value changed and the minimal period is over,
  or no minimal period is set and a condition is met or nothing at all is set; or the maximal period is over.
\<close>

definition due :: "int \<Rightarrow> lwm2m_data_type \<Rightarrow> u64 \<Rightarrow> lwm2m_watcher \<Rightarrow> bool" where
  "due now type v w \<longleftrightarrow> w_active w \<and>
     (case w_parameters w of
        None \<Rightarrow> w_update w
      | Some p \<Rightarrow>
          w_update w \<and>
            (if flag_set LWM2M_ATTR_FLAG_MIN_PERIOD p then w_lastTime w + int (unat (at_minPeriod p)) \<le> now
             else at_toSet p = 0 \<or> condition_met type (w_lastValue w) v p)
          \<or> flag_set LWM2M_ATTR_FLAG_MAX_PERIOD p \<and> w_lastTime w + int (unat (at_maxPeriod p)) \<le> now)"

text \<open>A watcher before and after a notification.\<close>

definition notified :: "int \<Rightarrow> u64 option \<Rightarrow> lwm2m_watcher \<Rightarrow> lwm2m_watcher \<Rightarrow> bool" where
  "notified now number w w' \<longleftrightarrow>
     (\<exists>format mid. w' = w\<lparr>w_format := format, w_lastTime := now, w_lastMid := mid,
        w_counter := w_counter w + 1, w_update := False,
        w_lastValue := (case number of None \<Rightarrow> w_lastValue w | Some v \<Rightarrow> v)\<rparr>)"

text \<open>
  The walk over the watchers of a target: those that are due are notified, the others stay as they are. It ends at a
  watcher for which no message can be made (\<open>failed\<close>).
\<close>

fun walked ::
  "(lwm2m_watcher \<Rightarrow> lwm2m_watcher \<Rightarrow> bool) \<Rightarrow> int \<Rightarrow> lwm2m_data_type \<Rightarrow> u64 option \<Rightarrow>
   lwm2m_watcher list \<Rightarrow> lwm2m_watcher list \<Rightarrow> bool" where
  "walked failed now type number [] ws' \<longleftrightarrow> ws' = []"
| "walked failed now type number (w # ws) ws' \<longleftrightarrow>
     (\<exists>w' ws''. ws' = w' # ws'' \<and>
       (if due now type (case number of None \<Rightarrow> 0 | Some v \<Rightarrow> v) w
        then notified now number w w' \<and> walked failed now type number ws ws'' \<or> failed w w' \<and> ws'' = ws
        else w' = w \<and> walked failed now type number ws ws''))"

definition unmade :: "env \<Rightarrow> 's client \<Rightarrow> lwm2m_uri \<Rightarrow> lwm2m_data list \<Rightarrow> lwm2m_watcher \<Rightarrow> lwm2m_watcher \<Rightarrow> bool" where
  "unmade E c u ds w w' \<longleftrightarrow> (\<exists>mid. prepare_message E (c\<lparr>cl_nextMID := mid\<rparr>) u ds w = Some (w', None))"

lemma prepare_format: "prepare_message E c u ds w = Some (w', r) \<Longrightarrow> \<exists>format. w' = w\<lparr>w_format := format\<rparr>"
  by (auto simp: prepare_message_def Let_def split: if_splits)

lemma same_servers:
  "unmade E c u ds w w' \<Longrightarrow> w_server w' = w_server w"
  "notified now number w w' \<Longrightarrow> w_server w' = w_server w"
  using prepare_format by (fastforce simp: unmade_def notified_def)+

lemma walked_servers: "walked (unmade E c u ds) now type number ws ws' \<Longrightarrow> map w_server ws' = map w_server ws"
proof (induction ws arbitrary: ws')
  case (Cons w ws)
  then obtain w' ws'' where "ws' = w' # ws''" "w_server w' = w_server w"
    "ws'' = ws \<or> walked (unmade E c u ds) now type number ws ws''"
    by (auto dest: same_servers split: if_splits)
  with Cons.IH show ?case by auto
qed simp

lemma crossed_between:
  "crossed type new old x \<longleftrightarrow> is_numeric type \<and> strictly_between (number_f64 type old) x (number_f64 type new)"
  by (auto simp: crossed_def strictly_between_def)

lemma step_reached_moved: "step_reached type new old st = Some b \<Longrightarrow> b = moved_by type old new st"
proof (cases "type = LWM2M_TYPE_UNSIGNED_INTEGER")
  case True
  have "(if old \<le> new then new - old else old - new) = of_int \<bar>uint new - uint old\<bar>"
    by (cases "old \<le> new") (auto simp: word_le_def)
  then show "step_reached type new old st = Some b \<Longrightarrow> b = moved_by type old new st"
    using True by (auto simp: step_reached_def moved_by_def)
qed (cases type; auto simp: step_reached_def moved_by_def Let_def split: if_splits)

lemma numeric_condition_met: "numeric_condition type new old p = Some b \<Longrightarrow> b = condition_met type old new p"
  by (auto simp: numeric_condition_def condition_met_def limits_def crossed_between split: if_splits
    dest!: step_reached_moved)

lemma due_iff:
  assumes "w_active w" and "update_check now type v w timeout = Some (notify, timeout')"
  shows "notify \<or> (case maximal_end w of None \<Rightarrow> False | Some end \<Rightarrow> end \<le> now) \<longleftrightarrow> due now type v w"
  using assms
  by (auto simp: due_def update_check_def maximal_end_def Let_def split: option.splits if_splits
    dest!: numeric_condition_met)

lemma update_check_timeout: "update_check now type v w timeout = Some (notify, timeout') \<Longrightarrow> timeout' \<le> timeout"
  by (auto simp: update_check_def Let_def split: option.splits if_splits)

lemma watch_timer_le: "watch_timer now w timeout \<le> timeout"
  by (auto simp: watch_timer_def split: option.splits)

text \<open>The client outside of its observations: only the message identifier moves.\<close>

definition same_client :: "'s client \<Rightarrow> 's client \<Rightarrow> bool" where
  "same_client c c' \<longleftrightarrow> (\<exists>mid. c' = c\<lparr>cl_nextMID := mid\<rparr>)"

lemma same_client_refl [simp]: "same_client c c"
  unfolding same_client_def by (rule exI [of _ "cl_nextMID c"]) simp

lemma same_client_trans: "same_client a b \<Longrightarrow> same_client b c \<Longrightarrow> same_client a c"
  by (auto simp: same_client_def)

lemma message_send_app: "message_send mem transport c peer m = Some (c', r) \<Longrightarrow> n_app c' = n_app c"
  by (auto simp: message_send_def buffer_send_def Let_def split: if_splits)

lemma target_value_mid [simp]: "target_value E u (c\<lparr>cl_nextMID := mid\<rparr>) = target_value E u c"
  by (simp add: target_value_def object_readData_def find_object_def)

lemma same_target: "same_client c c' \<Longrightarrow> target_value E u c' = target_value E u c"
  by (auto simp: same_client_def)

text \<open>The peer of a watcher.\<close>

definition watcher_peer :: "'s client \<Rightarrow> lwm2m_watcher \<Rightarrow> nat option" where
  "watcher_peer c w =
     Option.bind (lwm2m_list_find sv_secObjInstID (cl_serverList c) (w_server w)) sv_sessionH"

lemma notify_watcher_result:
  assumes "notify_watcher E transport now m w c = Some (w', m', c')"
  shows "w' = w\<lparr>w_lastTime := now, w_lastMid := cl_nextMID (n_app c), w_counter := w_counter w + 1, w_update := False\<rparr>"
    and "same_client (n_app c) (n_app c')"
    and "\<exists>sent. n_sent c' = n_sent c @ sent \<and> (\<forall>(peer, b) \<in> set sent. watcher_peer (n_app c) w = Some peer)"
  using assms
  by (auto simp: notify_watcher_def Let_def same_client_def watcher_peer_def message_send_def buffer_send_def
    split: option.splits if_splits)

text \<open>One watcher of the walk.\<close>

lemma step_watchers_Cons:
  assumes "step_watchers E transport now u (ds, type, number) kept (w # ws) c timeout = Some (ws', c', timeout')"
  obtains
    (same) ws1 t where "\<not> due now type (case number of None \<Rightarrow> 0 | Some v \<Rightarrow> v) w" "ws' = w # ws1" "t \<le> timeout"
      "step_watchers E transport now u (ds, type, number) kept ws c t = Some (ws1, c', timeout')"
  | (failed) w1 where "due now type (case number of None \<Rightarrow> 0 | Some v \<Rightarrow> v) w" "ws' = w1 # ws" "c' = c" "timeout' \<le> timeout"
      "prepare_message E (n_app c) u ds w = Some (w1, None)"
  | (sent) w1 m w2 m2 c2 w3 kept' t ws1 where "due now type (case number of None \<Rightarrow> 0 | Some v \<Rightarrow> v) w"
      "notified now number w w3" "ws' = w3 # ws1" "t \<le> timeout" "w_server w1 = w_server w"
      "notify_watcher E transport now m w1 c = Some (w2, m2, c2)"
      "step_watchers E transport now u (ds, type, number) kept' ws c2 t = Some (ws1, c', timeout')"
proof (cases "w_active w")
  case False
  with assms that(1) [where t = timeout] show thesis by (auto simp: due_def)
next
  case True
  obtain notify t where chk: "update_check now type (case number of None \<Rightarrow> 0 | Some n \<Rightarrow> n) w timeout = Some (notify, t)"
    using assms True by (auto split: option.splits)
  note iff = due_iff [OF True chk]
  have le: "watch_timer now x t \<le> timeout" for x
    using watch_timer_le [of now x t] update_check_timeout [OF chk] by linarith
  show thesis
  proof (cases "notify \<or> (case maximal_end w of None \<Rightarrow> False | Some end \<Rightarrow> end \<le> now)")
    case False
    then show thesis using assms True chk that(1) [OF _ _ le [of w]] iff by auto
  next
    case run: True
    obtain w1 out where p: "(case kept of Some m \<Rightarrow> Some (w, Some (m, True)) | None \<Rightarrow> prepare_message E (n_app c) u ds w)
        = Some (w1, out)"
      using assms True chk run by (auto split: option.splits)
    show thesis
    proof (cases out)
      case None
      with assms True chk run p show thesis
        using that(2) [of w1] iff update_check_timeout [OF chk] by (cases kept) auto
    next
      case (Some mk)
      obtain m keep where mk: "mk = (m, keep)" by (cases mk)
      have "\<exists>f. w1 = w\<lparr>w_format := f\<rparr>"
        using p prepare_format [of E "n_app c" u ds w w1 out] by (cases kept) (auto intro!: exI [of _ "w_format w"])
      then obtain f where f: "w1 = w\<lparr>w_format := f\<rparr>" by blast
      obtain w2 m2 c2 where n: "notify_watcher E transport now m w1 c = Some (w2, m2, c2)"
        using assms True chk run p Some mk by (auto split: option.splits)
      define w3 where "w3 = (case number of None \<Rightarrow> w2 | Some n \<Rightarrow> w2\<lparr>w_lastValue := n\<rparr>)"
      obtain ws1 where r: "step_watchers E transport now u (ds, type, number) (if keep then Some m2 else None) ws c2
          (watch_timer now w3 t) = Some (ws1, c', timeout')" and ws': "ws' = w3 # ws1"
        using assms True chk run p Some mk n unfolding w3_def by (auto simp: Let_def)
      have "w3 = w\<lparr>w_format := f, w_lastTime := now, w_lastMid := cl_nextMID (n_app c), w_counter := w_counter w + 1,
          w_update := False, w_lastValue := (case number of None \<Rightarrow> w_lastValue w | Some v \<Rightarrow> v)\<rparr>"
        unfolding w3_def notify_watcher_result(1) [OF n] f by (cases number) simp_all
      then have "notified now number w w3" unfolding notified_def by blast
      with that(3) [OF _ _ ws' le [of w3] _ n r] iff run f show thesis by simp
    qed
  qed
qed

text \<open>What is sent goes to servers with a watcher that is due.\<close>

definition sent_for :: "'s client \<Rightarrow> (lwm2m_watcher \<Rightarrow> bool) \<Rightarrow> (nat \<times> bytes) list \<Rightarrow> bool" where
  "sent_for c wanted sent \<longleftrightarrow> (\<forall>(peer, b) \<in> set sent. \<exists>w. wanted w \<and> watcher_peer c w = Some peer)"

lemma sent_for_simps [simp]:
  "sent_for c wanted []" "sent_for c wanted (xs @ ys) \<longleftrightarrow> sent_for c wanted xs \<and> sent_for c wanted ys"
  by (auto simp: sent_for_def)

lemma sent_for_mono: "sent_for c wanted xs \<Longrightarrow> (\<And>w. wanted w \<Longrightarrow> wanted' w) \<Longrightarrow> sent_for c wanted' xs"
  unfolding sent_for_def by fast

lemma same_peer: "same_client c c' \<Longrightarrow> watcher_peer c' w = watcher_peer c w"
  by (auto simp: same_client_def watcher_peer_def)

lemma same_unmade: "same_client c c' \<Longrightarrow> unmade E c' u ds = unmade E c u ds"
  by (auto simp: same_client_def unmade_def fun_eq_iff)

lemma unmadeI: "prepare_message E c u ds w = Some (w', None) \<Longrightarrow> unmade E c u ds w w'"
  unfolding unmade_def by (rule exI [of _ "cl_nextMID c"]) simp

lemma step_watchers_result:
  assumes "step_watchers E transport now u (ds, type, number) kept ws c timeout = Some (ws', c', timeout')"
  shows "walked (unmade E (n_app c) u ds) now type number ws ws' \<and> same_client (n_app c) (n_app c') \<and> timeout' \<le> timeout \<and>
    (\<exists>sent. n_sent c' = n_sent c @ sent \<and>
      sent_for (n_app c) (\<lambda>w. w \<in> set ws \<and> due now type (case number of None \<Rightarrow> 0 | Some v \<Rightarrow> v) w) sent)"
  using assms
proof (induction ws arbitrary: kept c timeout ws')
  case Nil
  then show ?case by simp
next
  case (Cons w ws)
  let ?due = "due now type (case number of None \<Rightarrow> 0 | Some v \<Rightarrow> v)"
  from Cons.prems show ?case
  proof (cases rule: step_watchers_Cons)
    case (same ws1 t)
    from Cons.IH [OF same(4)] same(1-3) show ?thesis by (fastforce elim: sent_for_mono)
  next
    case (failed w1)
    then show ?thesis by (auto intro: unmadeI)
  next
    case (sent w1 m w2 m2 c2 w3 kept' t ws1)
    note n = notify_watcher_result(2,3) [OF sent(6)]
    note IH = Cons.IH [OF sent(7)]
    obtain xs where xs: "n_sent c2 = n_sent c @ xs" "\<forall>(peer, b) \<in> set xs. watcher_peer (n_app c) w1 = Some peer"
      using n(2) by blast
    obtain ys where ys: "n_sent c' = n_sent c2 @ ys" "sent_for (n_app c2) (\<lambda>w. w \<in> set ws \<and> ?due w) ys" using IH by blast
    have "watcher_peer (n_app c) w1 = watcher_peer (n_app c) w" by (simp add: watcher_peer_def sent(5))
    with xs sent(1) have "sent_for (n_app c) (\<lambda>v. v \<in> set (w # ws) \<and> ?due v) xs" by (fastforce simp: sent_for_def)
    moreover have "sent_for (n_app c) (\<lambda>v. v \<in> set (w # ws) \<and> ?due v) ys"
      using ys(2) by (fastforce simp: sent_for_def same_peer [OF n(1)])
    ultimately have "\<exists>sent. n_sent c' = n_sent c @ sent \<and> sent_for (n_app c) (\<lambda>v. v \<in> set (w # ws) \<and> ?due v) sent"
      using xs(1) ys(1) by (intro exI [of _ "xs @ ys"]) simp
    moreover have "walked (unmade E (n_app c) u ds) now type number (w # ws) ws'"
      using IH sent(1-3) by (simp add: same_unmade [OF n(1)])
    moreover have "same_client (n_app c) (n_app c')" using IH same_client_trans [OF n(1)] by blast
    moreover have "timeout' \<le> timeout" using IH sent(4) by linarith
    ultimately show ?thesis by blast
  qed
qed

text \<open>What the step does to an observed target, and which of its watchers are due.\<close>

definition target_stepped :: "env \<Rightarrow> 's client \<Rightarrow> int \<Rightarrow> lwm2m_observed \<Rightarrow> lwm2m_observed \<Rightarrow> bool" where
  "target_stepped E c now ob ob' =
     (case target_value E (ob_uri ob) c of
        None \<Rightarrow> False
      | Some None \<Rightarrow> ob' = ob
      | Some (Some (ds, type, number)) \<Rightarrow>
          \<exists>ws. ob' = ob\<lparr>ob_watcherList := ws\<rparr> \<and>
            walked (unmade E c (ob_uri ob) ds) now type number (ob_watcherList ob) ws)"

definition due_in :: "env \<Rightarrow> 's client \<Rightarrow> int \<Rightarrow> lwm2m_observed list \<Rightarrow> lwm2m_watcher \<Rightarrow> bool" where
  "due_in E c now obs w \<longleftrightarrow>
     (\<exists>ob ds type number. ob \<in> set obs \<and> w \<in> set (ob_watcherList ob) \<and>
       target_value E (ob_uri ob) c = Some (Some (ds, type, number)) \<and>
       due now type (case number of None \<Rightarrow> 0 | Some v \<Rightarrow> v) w)"

lemma same_stepped: "same_client c c' \<Longrightarrow> target_stepped E c' now = target_stepped E c now"
  by (intro ext) (simp add: target_stepped_def same_target [of c c'] same_unmade [of c c'] cong: option.case_cong prod.case_cong)

lemma step_targets_result:
  assumes "step_targets E transport now obs c timeout = Some (obs', c', timeout')"
  shows "list_all2 (target_stepped E (n_app c) now) obs obs' \<and> same_client (n_app c) (n_app c') \<and> timeout' \<le> timeout \<and>
    (\<exists>sent. n_sent c' = n_sent c @ sent \<and> sent_for (n_app c) (due_in E (n_app c) now obs) sent)"
  using assms
proof (induction obs arbitrary: c timeout obs')
  case Nil
  then show ?case by simp
next
  case (Cons ob obs)
  obtain r where r: "target_value E (ob_uri ob) (n_app c) = Some r"
    using Cons.prems by (auto split: option.splits)
  have later: "sent_for cl (due_in E cl now (ob # obs)) xs" if "sent_for cl (due_in E cl now obs) xs" for cl xs
    using that by (rule sent_for_mono) (auto simp: due_in_def)
  show ?case
  proof (cases r)
    case None
    with Cons.prems r obtain obs1 where t: "step_targets E transport now obs c timeout = Some (obs1, c', timeout')"
      "obs' = ob # obs1" by auto
    from Cons.IH [OF t(1)] t(2) r None later show ?thesis by (auto simp: target_stepped_def)
  next
    case (Some val)
    obtain ds type number where val: "val = (ds, type, number)" by (cases val)
    with Some Cons.prems r obtain ws c1 t1 obs1 where
      w: "step_watchers E transport now (ob_uri ob) (ds, type, number) None (ob_watcherList ob) c timeout = Some (ws, c1, t1)"
      and t: "step_targets E transport now obs c1 t1 = Some (obs1, c', timeout')"
      and obs': "obs' = ob\<lparr>ob_watcherList := ws\<rparr> # obs1"
      by (auto split: option.splits)
    note W = step_watchers_result [OF w]
    then have same: "same_client (n_app c) (n_app c1)" by blast
    note IH = Cons.IH [OF t, unfolded same_stepped [OF same]]
    obtain xs ys where xs: "n_sent c1 = n_sent c @ xs" "n_sent c' = n_sent c1 @ ys"
      "sent_for (n_app c) (\<lambda>w. w \<in> set (ob_watcherList ob) \<and> due now type (case number of None \<Rightarrow> 0 | Some v \<Rightarrow> v) w) xs"
      "sent_for (n_app c1) (due_in E (n_app c1) now obs) ys"
      using W IH by blast
    have "sent_for (n_app c) (due_in E (n_app c) now (ob # obs)) xs"
      using xs(3) by (rule sent_for_mono) (use r Some val in \<open>auto simp: due_in_def\<close>)
    moreover have "sent_for (n_app c) (due_in E (n_app c) now obs) ys"
      using xs(4) by (simp add: sent_for_def due_in_def same_peer [OF same] same_target [OF same])
    then have "sent_for (n_app c) (due_in E (n_app c) now (ob # obs)) ys" by (rule later)
    ultimately have "\<exists>sent. n_sent c' = n_sent c @ sent \<and> sent_for (n_app c) (due_in E (n_app c) now (ob # obs)) sent"
      using xs(1,2) by (intro exI [of _ "xs @ ys"]) simp
    moreover have "list_all2 (target_stepped E (n_app c) now) (ob # obs) obs'"
      using W IH obs' r Some val by (auto simp: target_stepped_def [of E _ _ ob])
    moreover have "same_client (n_app c) (n_app c')" using IH same_client_trans [OF same] by blast
    moreover have "timeout' \<le> timeout" using W IH by linarith
    ultimately show ?thesis by blast
  qed
qed

lemma target_stepped_ok:
  assumes "target_stepped E c now ob ob'" and "watchers_ok known (ob_watcherList ob)"
  shows "watchers_ok known (ob_watcherList ob')"
proof -
  have servers: "map w_server (ob_watcherList ob') = map w_server (ob_watcherList ob)"
    using assms(1) by (auto simp: target_stepped_def dest: walked_servers split: option.splits)
  then have "w_server ` set (ob_watcherList ob') = w_server ` set (ob_watcherList ob)" by (metis image_set)
  moreover have "ob_watcherList ob' \<noteq> []" using servers assms(2) by (auto simp: watchers_ok_def)
  ultimately show ?thesis using servers assms(2) by (simp add: watchers_ok_def)
qed

lemma step_targets_ok:
  assumes "step_targets E transport now obs c timeout = Some (obs', c', timeout')" and "observed_ok known obs"
  shows "observed_ok known obs'"
proof -
  have "list_all2 (target_stepped E (n_app c) now) obs obs'" using step_targets_result [OF assms(1)] by simp
  then show ?thesis using assms(2)
    by (induction rule: list_all2_induct) (auto dest: target_stepped_ok)
qed

section \<open>Properties\<close>

lemma cancel_ok:
  assumes "client_ok c"
  shows "\<exists>c'. observe_cancel mid peer c = Some c' \<and> client_ok c'"
proof -
  let ?m = "watcher_matches (cl_serverList c) mid peer"
  have "cancel_loop ?m (cl_observedList c) \<noteq> None"
    using assms watcher_matches_defined
    by (intro cancel_loop_defined [where known = "sv_secObjInstID ` set (cl_serverList c)"]) (auto simp: client_ok_def)
  then obtain obs where obs: "cancel_loop ?m (cl_observedList c) = Some obs" by blast
  from cancel_loop_ok [OF obs] assms have "client_ok (c\<lparr>cl_observedList := obs\<rparr>)"
    by (simp add: client_ok_def)
  with obs show ?thesis by (simp add: observe_cancel_def)
qed

lemma cancel_okD: "client_ok c \<Longrightarrow> observe_cancel mid peer c = Some c' \<Longrightarrow> client_ok c'"
  using cancel_ok [of c mid peer] by auto

lemma start_ok:
  assumes "client_ok c" and "sv_secObjInstID sv \<in> sv_secObjInstID ` set (cl_serverList c)"
    and "observe_start cfg mem now u sv ds m resp c = Some (r, resp', c')"
  shows "client_ok c'"
proof (cases "prv_getWatcher cfg mem (cl_observedList c) u (sv_secObjInstID sv)")
  case None
  with assms(1,3) show ?thesis by (simp add: observe_start_def split: if_splits)
next
  case (Some g)
  obtain obs out where g: "g = (obs, out)" by (cases g)
  let ?known = "sv_secObjInstID ` set (cl_serverList c)"
  have sorted: "ids_sorted sv_secObjInstID (cl_serverList c)" and obs0: "observed_ok ?known (cl_observedList c)"
    using assms(1) by (simp_all add: client_ok_def)
  have obs: "observed_ok ?known obs" and at: "\<And>pos. out = Some pos \<Longrightarrow> watcher_at obs pos (sv_secObjInstID sv)"
    using getWatcher_ok [OF Some [unfolded g] obs0 assms(2)] by auto
  show ?thesis
  proof (cases out)
    case None
    with assms(1,3) Some g obs sorted show ?thesis
      by (auto simp: observe_start_def client_ok_def split: if_splits)
  next
    case pos: (Some pos)
    have put: "observed_ok ?known (put_watcher obs pos w)" if "w_server w = sv_secObjInstID sv" for w
      by (rule put_watcher_ok [OF obs at [OF pos] that])
    have sv: "w_server (get_watcher obs pos) = sv_secObjInstID sv"
      using at [OF pos] by (simp add: watcher_at_def)
    show ?thesis using assms(1,3) Some g pos sorted sv
      by (auto simp: observe_start_def client_ok_def Let_def coap_set_header_observe_def put
          split: if_splits option.splits)
  qed
qed

lemma stop_ok:
  assumes "client_ok c" and "observe_stop cfg u sv c = Some c'"
  shows "client_ok c'"
  using assms by (auto simp: observe_stop_def Let_def split: option.splits intro: cancel_okD)

lemma handleRequest_ok:
  assumes "client_ok c" and "sv_secObjInstID sv \<in> sv_secObjInstID ` set (cl_serverList c)"
    and "observe_handleRequest cfg mem now u sv ds m resp c = Some (r, resp', c')"
  shows "client_ok c'"
  using assms start_ok [OF assms(1,2)] stop_ok [OF assms(1)]
  by (auto simp: observe_handleRequest_def split: option.splits if_splits)

lemma setParameters_ok:
  assumes "client_ok c" and "sv_secObjInstID sv \<in> sv_secObjInstID ` set (cl_serverList c)"
    and "observe_setParameters E u sv attr c = Some (r, c')"
  shows "client_ok c'"
proof (cases "prv_getWatcher (e_cfg E) (e_mem E) (cl_observedList c) u (sv_secObjInstID sv)")
  case None
  with assms(1,3) show ?thesis by (auto simp: observe_setParameters_def split: if_splits option.splits)
next
  case (Some g)
  obtain obs out where g: "g = (obs, out)" by (cases g)
  let ?known = "sv_secObjInstID ` set (cl_serverList c)"
  have sorted: "ids_sorted sv_secObjInstID (cl_serverList c)" and obs0: "observed_ok ?known (cl_observedList c)"
    using assms(1) by (simp_all add: client_ok_def)
  have obs: "observed_ok ?known obs" and at: "\<And>pos. out = Some pos \<Longrightarrow> watcher_at obs pos (sv_secObjInstID sv)"
    using getWatcher_ok [OF Some [unfolded g] obs0 assms(2)] by auto
  show ?thesis
  proof (cases out)
    case None
    with assms(1,3) Some g obs sorted show ?thesis
      by (auto simp: observe_setParameters_def client_ok_def split: if_splits option.splits)
  next
    case pos: (Some pos)
    have put: "observed_ok ?known (put_watcher obs pos w)" if "w_server w = sv_secObjInstID sv" for w
      by (rule put_watcher_ok [OF obs at [OF pos] that])
    have sv: "w_server (get_watcher obs pos) = sv_secObjInstID sv"
      using at [OF pos] by (simp add: watcher_at_def)
    show ?thesis using assms(1,3) Some g pos sorted sv obs
      by (auto simp: observe_setParameters_def client_ok_def Let_def put split: if_splits option.splits bool.splits)
  qed
qed

lemma step_ok:
  assumes "client_ok (n_app c)" and "observe_step E transport now c timeout = Some (c', timeout')"
  shows "client_ok (n_app c')"
  using assms step_targets_ok step_targets_result
  by (fastforce simp: observe_step_def client_ok_def same_client_def)

text \<open>
  C14: the observations stay well-formed. With every observed URI having a watcher, at most one per
  server, and every watcher belonging to a server of the list, a reset or a cancellation is always
  defined, and no operation on the observations breaks this: an observe request, new attributes, a
  cancellation, the removal of an instance, a changed value, the periodic step.
\<close>
theorem observations_stay_ok:
  assumes "client_ok c" and "sv \<in> set (cl_serverList c)" and "n_app net = c"
  shows "(\<forall>cfg mem now u ds m resp r resp' c'.
            observe_handleRequest cfg mem now u sv ds m resp c = Some (r, resp', c') \<longrightarrow> client_ok c') \<and>
    (\<forall>E u attr r c'. observe_setParameters E u sv attr c = Some (r, c') \<longrightarrow> client_ok c') \<and>
    (\<forall>mid peer. \<exists>c'. observe_cancel mid peer c = Some c' \<and> client_ok c') \<and>
    (\<forall>u. client_ok (observe_clear u c)) \<and>
    (\<forall>cfg u. client_ok (lwm2m_resource_value_changed cfg u c)) \<and>
    (\<forall>E transport now timeout net' timeout'.
       observe_step E transport now net timeout = Some (net', timeout') \<longrightarrow> client_ok (n_app net'))"
proof -
  have sv: "sv_secObjInstID sv \<in> sv_secObjInstID ` set (cl_serverList c)" using assms(2) by simp
  have "client_ok (observe_clear u c)" for u
    using assms(1) clear_loop_ok by (simp add: observe_clear_def client_ok_def)
  moreover have "client_ok (lwm2m_resource_value_changed cfg u c)" for cfg u
    using assms(1) mark_ok by (simp add: lwm2m_resource_value_changed_def client_ok_def)
  ultimately show ?thesis
    using assms(1,3)
    by (intro conjI allI impI)
      (auto intro: handleRequest_ok [OF assms(1) sv] setParameters_ok [OF assms(1) sv] cancel_ok step_ok)
qed


section \<open>An example\<close>

text \<open>A client with one server that observes a resource of one object, which always reads 5.\<close>

definition demo_server :: lwm2m_server where
  "demo_server = (zero_server_entry 0)\<lparr>sv_shortID := 1, sv_sessionH := Some 9, sv_status := STATE_REGISTERED\<rparr>"

definition demo_object :: "unit lwm2m_object" where
  "demo_object = \<lparr>o_objID = 3, o_versionMajor = 0, o_versionMinor = 0, o_state = (), o_instanceList = (\<lambda>_. [0]),
     o_readFunc = Some (\<lambda>_ _ ds. Some (COAP_205_CONTENT, map (set_value LWM2M_TYPE_INTEGER (AsInteger 5)) ds)),
     o_writeFunc = None, o_executeFunc = None, o_createFunc = None, o_deleteFunc = None, o_discoverFunc = None,
     o_rawBlock1CreateFunc = None, o_rawBlock1WriteFunc = None, o_rawBlock1ExecuteFunc = None\<rparr>"

definition demo_uri :: lwm2m_uri where
  "demo_uri = uri_reset\<lparr>objectId := 3, instanceId := 0, resourceId := 9\<rparr>"

definition demo_watcher :: lwm2m_watcher where
  "demo_watcher = (new_watcher 0)\<lparr>w_active := True, w_update := True, w_token := [1, 2], w_counter := 4\<rparr>"

definition demo_client :: "unit client" where
  "demo_client = \<lparr>cl_state = STATE_READY, cl_endpointName = None, cl_msisdn = None, cl_altPath = None,
     cl_bootstrapServerList = [], cl_serverList = [demo_server], cl_objectList = [demo_object],
     cl_observedList = [\<lparr>ob_uri = demo_uri, ob_watcherList = [demo_watcher]\<rparr>], cl_nextMID = 77\<rparr>"

definition demo_context :: "unit lwm2m_context" where
  "demo_context = \<lparr>n_transactions = [], n_sent = [], n_app = demo_client\<rparr>"

definition demo_env :: env where
  "demo_env = \<lparr>e_cfg = client_build, e_mem = all_mem, e_ext = no_formats, e_now = 100, e_stack = replicate 64 0,
     e_freed = (\<lambda>i. i)\<rparr>"

section \<open>Notifications fit their buffers\<close>

lemma message_send_defined: "small_values m \<Longrightarrow> message_send mem transport c peer m \<noteq> None"
  using serialize_fits [of m] by (auto simp: message_send_def Let_def)

lemma observe_masked: "unat (0xFFFFFF AND (n :: u32)) < 2 ^ 24"
proof -
  have "(0xFFFFFF :: u32) = mask 24" by (simp add: mask_eq_exp_minus_1)
  then have "unat (0xFFFFFF AND n) = unat n mod 2 ^ 24"
    using unat_and_mask [of n 24] by (simp only: and.commute)
  then show ?thesis by simp
qed

lemma small_prepared:
  assumes "prepare_message E c u ds w = Some (w', Some (m, keep))"
  shows "small_values m"
proof -
  have num: "unat (ucast (media_type_num f) :: u32) < 2 ^ 24" for f
    by (cases f) simp_all
  from assms num show ?thesis
    by (auto simp: prepare_message_def Let_def small_values_def set_payload_ptr_def coap_set_payload_def
        coap_set_header_content_type_def coap_init_message_def zero_packet_def set_known_def
        split: if_splits option.splits)
qed

lemma small_noted:
  "small_values m \<Longrightarrow> small_values (fst (coap_set_header_observe (fst (coap_set_header_token (m\<lparr>p_mid := i\<rparr>) token)) n))"
  using observe_masked [of n]
  by (simp add: small_values_def coap_set_header_observe_def coap_set_header_token_def set_known_def)

lemma notify_watcher_defined:
  assumes "small_values m" and "w_server w \<in> sv_secObjInstID ` set (cl_serverList (n_app c))"
    and "ids_sorted sv_secObjInstID (cl_serverList (n_app c))"
  shows "\<exists>w' m' c'. notify_watcher E transport now m w c = Some (w', m', c') \<and> small_values m'"
proof -
  obtain sv where sv: "lwm2m_list_find sv_secObjInstID (cl_serverList (n_app c)) (w_server w) = Some sv"
    using find_None_iff [OF assms(3)] assms(2) by auto
  note s = small_noted [OF assms(1)]
  show ?thesis
  proof (cases "sv_sessionH sv")
    case None
    with sv s show ?thesis by (simp add: notify_watcher_def Let_def)
  next
    case (Some peer)
    let ?m = "fst (coap_set_header_observe (fst (coap_set_header_token (m\<lparr>p_mid := cl_nextMID (n_app c)\<rparr>) (w_token w))) (w_counter w))"
    obtain r where "message_send (e_mem E) transport (c\<lparr>n_app := (n_app c)\<lparr>cl_nextMID := cl_nextMID (n_app c) + 1\<rparr>\<rparr>) peer ?m = Some r"
      using message_send_defined [OF s] by blast
    with sv s Some show ?thesis by (cases r) (simp add: notify_watcher_def Let_def)
  qed
qed

lemmas demo_defs = demo_client_def demo_context_def demo_env_def demo_object_def demo_server_def
  demo_uri_def demo_watcher_def new_watcher_def zero_server_entry_def uri_reset_def

lemma demo_target: "target_value demo_env demo_uri demo_client =
  Some (Some ([Data LWM2M_TYPE_INTEGER 9 (AsInteger 5)], LWM2M_TYPE_INTEGER, Some 5))"
  by (simp add: target_value_def demo_defs object_readData_def find_object_def has_instance_def instances_of_def
      resource_request_def client_build_def lwm2m_data_new_def set_id_def set_value_def single_value_def
      numeric_value_def lwm2m_data_decode_int_def)

lemma demo_message:
  "\<exists>m. \<forall>c :: unit client. prepare_message demo_env c demo_uri [Data LWM2M_TYPE_INTEGER 9 (AsInteger 5)] demo_watcher =
    Some (demo_watcher, Some (m, True))"
proof -
  obtain b where "text_number all_mem (utils_intToText 5 (take 32 (replicate 64 0))) = (int (length b), Some b)"
    using text_number_int [of "replicate 64 0" 5] by auto
  then have "lwm2m_data_serialize client_build all_mem no_formats (replicate 64 0) (Some demo_uri)
      [Data LWM2M_TYPE_INTEGER 9 (AsInteger 5)] LWM2M_CONTENT_TEXT = Some (int (length b), LWM2M_CONTENT_TEXT, Some b)"
    by (simp add: serialize_text demo_defs prv_textSerialize_def)
  then show ?thesis
    by (simp add: prepare_message_def Let_def demo_env_def demo_watcher_def new_watcher_def)
qed

lemma demo_step: "\<exists>c t. observe_step demo_env (\<lambda>_ _. 0) 100 demo_context 60 = Some (c, t)"
proof -
  obtain m where m: "\<And>c :: unit client. prepare_message demo_env c demo_uri [Data LWM2M_TYPE_INTEGER 9 (AsInteger 5)] demo_watcher =
    Some (demo_watcher, Some (m, True))" using demo_message by blast
  have "w_server demo_watcher \<in> sv_secObjInstID ` set (cl_serverList (n_app demo_context))"
    and "ids_sorted sv_secObjInstID (cl_serverList (n_app demo_context))"
    by (simp_all add: demo_defs)
  then obtain w' m' c' where n: "notify_watcher demo_env (\<lambda>_ _. 0) 100 m demo_watcher demo_context = Some (w', m', c')"
    using notify_watcher_defined [OF small_prepared [OF m]] by blast
  have up: "update_check 100 LWM2M_TYPE_INTEGER 5 demo_watcher 60 = Some (True, 60)"
    by (simp add: update_check_def demo_watcher_def new_watcher_def)
  have act: "w_active demo_watcher" by (simp add: demo_watcher_def)
  have app: "n_app demo_context = demo_client" "cl_observedList demo_client = [\<lparr>ob_uri = demo_uri, ob_watcherList = [demo_watcher]\<rparr>]"
    by (simp_all add: demo_context_def demo_client_def)
  show ?thesis
    by (simp add: observe_step_def app demo_target act up m n Let_def)
qed

text \<open>Both properties at the example.\<close>

theorem observations_stay_ok_witness:
  "client_ok demo_client \<and> (\<exists>c. observe_cancel 7 (Some 9) demo_client = Some c \<and> client_ok c) \<and>
   (\<exists>c t. observe_step demo_env (\<lambda>_ _. 0) 100 demo_context 60 = Some (c, t) \<and> client_ok (n_app c))"
proof -
  have ok: "client_ok demo_client" "demo_server \<in> set (cl_serverList demo_client)" "n_app demo_context = demo_client"
    by (simp_all add: client_ok_def watchers_ok_def demo_client_def demo_context_def demo_watcher_def
        new_watcher_def demo_server_def zero_server_entry_def)
  from ok(1) demo_step observations_stay_ok [OF ok] show ?thesis by metis
qed


end
