(* ===== verification/Register_Payload.thy ===== *)
theory Register_Payload
  imports Object_Dispatch
begin

text \<open>
  The list of objects that a client registers (\<^verbatim>\<open>core/objects.c\<close>, lines 757 to 992): the pass that
  computes the size of the buffer, the pass that writes it, and what the text is.

  What was written is the list of its bytes, the buffer has room for \<open>cap\<close>; a return of 0 on the way
  is \<open>None\<close>.
\<close>

section \<open>The size\<close>

definition REG_START :: bytes where "REG_START = ascii ''<''"
definition REG_DEFAULT_PATH :: bytes where "REG_DEFAULT_PATH = ascii ''/''"
definition REG_PATH_END :: bytes where "REG_PATH_END = ascii ''>,''"
definition REG_VERSION_START :: bytes where "REG_VERSION_START = ascii ''>;ver=''"

definition REG_LWM2M_RESOURCE_TYPE :: "build \<Rightarrow> bytes" where
  "REG_LWM2M_RESOURCE_TYPE cfg =
     ascii (if support_senml cfg then ''>;rt=\"oma.lwm2m\";ct=110,''
            else if support_json cfg then ''>;rt=\"oma.lwm2m\";ct=11543,''
            else ''>;rt=\"oma.lwm2m\",'')"

text \<open>Appending the start of a link after what is there.\<close>

definition prv_getObjectTemplate :: "nat \<Rightarrow> u16 \<Rightarrow> bytes \<Rightarrow> bytes option" where
  "prv_getObjectTemplate cap i out =
     (if cap - length out < 5 then None
      else do {
        out \<leftarrow> emit_int cap (ucast i) (out @ ascii ''</'');
        if cap - length out < 2 then None else Some (out @ ascii ''/'')
      })"

definition root_path :: "'s client \<Rightarrow> bytes" where
  "root_path c = (case cl_altPath c of None \<Rightarrow> REG_DEFAULT_PATH | Some [] \<Rightarrow> REG_DEFAULT_PATH | Some p \<Rightarrow> p)"

definition scratch :: bytes where "scratch = replicate 10 0"

fun instance_lengths :: "nat \<Rightarrow> nat \<Rightarrow> u16 list \<Rightarrow> nat \<Rightarrow> nat option" where
  "instance_lengths start len [] index = Some index"
| "instance_lengths start len (i # is) index =
     (let index = (if index \<noteq> start + len then index + len else index);
          result = fst (utils_intToText (ucast i) scratch)
      in if result = 0 then None else instance_lengths start len is (index + result + length REG_PATH_END))"

definition has_version :: "'s lwm2m_object \<Rightarrow> bool" where
  "has_version ob \<longleftrightarrow> o_versionMajor ob \<noteq> 0 \<or> o_versionMinor ob \<noteq> 0"

definition object_length :: "'s lwm2m_object \<Rightarrow> nat \<Rightarrow> nat option" where
  "object_length ob index =
     (case prv_getObjectTemplate (length scratch) (o_objID ob) [] of
        None \<Rightarrow> None
      | Some t \<Rightarrow>
          let start = index; len = length t; index = index + len;
              digits = (\<lambda>v :: u8. fst (utils_uintToText (ucast v) scratch));
              (start, index) =
                (if has_version ob then
                   (let index = index - 1 + length REG_VERSION_START + digits (o_versionMajor ob) + 1 +
                          digits (o_versionMinor ob) + 1
                    in if instances_of ob \<noteq> [] then (index, index + len) else (start, index))
                 else if instances_of ob = [] then (start, index - 1 + length REG_PATH_END)
                 else (start, index))
          in instance_lengths start len (instances_of ob) index)"

fun objects_length :: "build \<Rightarrow> 's lwm2m_object list \<Rightarrow> nat \<Rightarrow> nat option" where
  "objects_length cfg [] index = Some index"
| "objects_length cfg (ob # obs) index =
     (if o_objID ob = LWM2M_SECURITY_OBJECT_ID \<or> \<not> version_1_0 cfg \<and> o_objID ob = LWM2M_OSCORE_OBJECT_ID
      then objects_length cfg obs index
      else (case object_length ob index of None \<Rightarrow> None | Some index \<Rightarrow> objects_length cfg obs index))"

definition object_getRegisterPayloadBufferLength :: "build \<Rightarrow> 's client \<Rightarrow> nat" where
  "object_getRegisterPayloadBufferLength cfg c =
     (case objects_length cfg (cl_objectList c)
             (length REG_START + length (root_path c) + length (REG_LWM2M_RESOURCE_TYPE cfg)) of
        None \<Rightarrow> 0
      | Some index \<Rightarrow> index + 1)"

section \<open>The text\<close>

definition copy_string :: "nat \<Rightarrow> bytes \<Rightarrow> bytes \<Rightarrow> bytes option" where
  "copy_string cap s out =
     (let (n, b) = utils_stringCopy (replicate (cap - length out) 0) s in
      if n < 0 then None else Some (out @ take (nat n) b))"

text \<open>A number that does not fit adds nothing and is not noticed.\<close>

definition append_uint :: "nat \<Rightarrow> u8 \<Rightarrow> bytes \<Rightarrow> bytes" where
  "append_uint cap v out =
     (let (n, b) = utils_uintToText (ucast v) (replicate (cap - length out) 0) in out @ take n b)"

fun instance_links :: "nat \<Rightarrow> nat \<Rightarrow> nat \<Rightarrow> u16 list \<Rightarrow> bytes \<Rightarrow> bytes option" where
  "instance_links cap start len [] out = Some out"
| "instance_links cap start len (i # is) out =
     do {
       out \<leftarrow> (if length out \<noteq> start + len
              then (if cap - length out \<le> len then None else Some (out @ take len (drop start out)))
              else Some out);
       out \<leftarrow> emit_int cap (ucast i) out;
       out \<leftarrow> copy_string cap REG_PATH_END out;
       instance_links cap start len is out
     }"

definition version_text :: "nat \<Rightarrow> 's lwm2m_object \<Rightarrow> bytes \<Rightarrow> bytes option" where
  "version_text cap ob out =
     do {
       out \<leftarrow> copy_string cap REG_VERSION_START (butlast out);
       out \<leftarrow> emit cap (ascii ''.'') (append_uint cap (o_versionMajor ob) out);
       emit cap (ascii '','') (append_uint cap (o_versionMinor ob) out)
     }"

definition object_links :: "nat \<Rightarrow> 's lwm2m_object \<Rightarrow> bytes \<Rightarrow> bytes option" where
  "object_links cap ob out =
     do {
       let start = length out;
       out \<leftarrow> prv_getObjectTemplate cap (o_objID ob) out;
       let len = length out - start;
       if has_version ob then do {
         out \<leftarrow> version_text cap ob out;
         if instances_of ob \<noteq> [] then do {
           let start = length out;
           out \<leftarrow> prv_getObjectTemplate cap (o_objID ob) out;
           instance_links cap start (length out - start) (instances_of ob) out
         }
         else Some out
       }
       else if instances_of ob = [] then copy_string cap REG_PATH_END (butlast out)
       else instance_links cap start len (instances_of ob) out
     }"

fun objects_links :: "nat \<Rightarrow> 's lwm2m_object list \<Rightarrow> bytes \<Rightarrow> bytes option" where
  "objects_links cap [] out = Some out"
| "objects_links cap (ob # obs) out =
     (if o_objID ob = LWM2M_SECURITY_OBJECT_ID then objects_links cap obs out
      else (case object_links cap ob out of None \<Rightarrow> None | Some out \<Rightarrow> objects_links cap obs out))"

text \<open>The returned length and the text; the last comma becomes the terminator.\<close>

definition object_getRegisterPayload :: "build \<Rightarrow> nat \<Rightarrow> 's client \<Rightarrow> nat \<times> bytes" where
  "object_getRegisterPayload cfg cap c =
     (case do {
         out \<leftarrow> copy_string cap REG_START [];
         out \<leftarrow> copy_string cap (root_path c) out;
         out \<leftarrow> copy_string cap (REG_LWM2M_RESOURCE_TYPE cfg) out;
         objects_links cap (cl_objectList c) out
       } of
        None \<Rightarrow> (0, [])
      | Some out \<Rightarrow> (length out - 1, butlast out))"

section \<open>What it says\<close>

lemma copy_string_eq [simp]:
  "copy_string cap s out = (if length out + length s < cap then Some (out @ s) else None)"
  by (auto simp: copy_string_def utils_stringCopy_def Let_def min_def)

lemma append_uint_fits:
  assumes "length out + length (dec_digits (unat v)) \<le> cap"
  shows "append_uint cap v out = out @ dec_digits (unat v)"
proof -
  have "length (dec_digits (unat (ucast v :: u64))) \<le> length (replicate (cap - length out) (0 :: u8))"
    using assms by simp
  from uintToText_fits [OF this] show ?thesis by (simp add: append_uint_def)
qed

definition link_start :: "u16 \<Rightarrow> bytes" where
  "link_start i = ascii ''</'' @ dec_digits (unat i)"

definition instance_text :: "u16 \<Rightarrow> u16 \<Rightarrow> bytes" where
  "instance_text oid i = link_start oid @ ascii ''/'' @ dec_digits (unat i) @ ascii ''>,''"

definition object_text :: "'s lwm2m_object \<Rightarrow> bytes" where
  "object_text ob =
     (if has_version ob
      then link_start (o_objID ob) @ ascii ''>;ver='' @ dec_digits (unat (o_versionMajor ob)) @ ascii ''.'' @
           dec_digits (unat (o_versionMinor ob)) @ ascii '',''
      else if instances_of ob = [] then link_start (o_objID ob) @ ascii ''>,''
      else []) @
     concat (map (instance_text (o_objID ob)) (instances_of ob))"

definition objects_text :: "build \<Rightarrow> 's client \<Rightarrow> bytes" where
  "objects_text cfg c =
     ascii ''<'' @ root_path c @ REG_LWM2M_RESOURCE_TYPE cfg @
     concat (map object_text (filter (\<lambda>ob. o_objID ob \<noteq> LWM2M_SECURITY_OBJECT_ID) (cl_objectList c)))"

lemma digits_pos: "0 < length (dec_digits n)" using dec_digits_not_Nil by simp

lemma butlast_template [simp]: "butlast (out @ link_start i @ ascii ''/'') = out @ link_start i"
proof -
  have "out @ link_start i @ ascii ''/'' = (out @ link_start i) @ [47]" by (simp add: ascii_def)
  then show ?thesis by (simp only: butlast_snoc)
qed

lemma template_fits:
  assumes "length out + length (link_start i) + 2 \<le> cap"
  shows "prv_getObjectTemplate cap i out = Some (out @ link_start i @ ascii ''/'')"
proof -
  have "Suc 0 \<le> length (dec_digits (unat i))" using digits_pos [of "unat i"] by (rule Suc_leI)
  with assms have "\<not> cap - length out < 5" "\<not> cap - length (out @ ascii ''</'' @ dec_digits (unat i)) < 2"
    "length (out @ ascii ''</'') + length (dec_digits (unat i)) \<le> cap"
    by (simp_all add: link_start_def del: length_greater_0_conv)
  then show ?thesis by (simp add: prv_getObjectTemplate_def link_start_def)
qed

lemma instance_links_later:
  assumes "take len (drop start out) = t" and "length t = len" and "start + len < length out"
    and "length out + length (concat (map (\<lambda>i. t @ dec_digits (unat i) @ ascii ''>,'') is)) < cap"
  shows "instance_links cap start len is out =
    Some (out @ concat (map (\<lambda>i. t @ dec_digits (unat i) @ ascii ''>,'') is))"
  using assms
proof (induction "is" arbitrary: out)
  case (Cons i "is")
  let ?out = "out @ t @ dec_digits (unat i) @ ascii ''>,''"
  have "instance_links cap start len is ?out =
      Some (?out @ concat (map (\<lambda>i. t @ dec_digits (unat i) @ ascii ''>,'') is))"
    using Cons.prems by (intro Cons.IH) auto
  then show ?case using Cons.prems by (simp add: REG_PATH_END_def)
qed simp

lemma instance_links_fits:
  assumes "length t = len" and "is \<noteq> []"
    and "length (pre @ concat (map (\<lambda>i. t @ dec_digits (unat i) @ ascii ''>,'') is)) < cap"
  shows "instance_links cap (length pre) len is (pre @ t) =
    Some (pre @ concat (map (\<lambda>i. t @ dec_digits (unat i) @ ascii ''>,'') is))"
proof (cases "is")
  case (Cons i is')
  let ?out = "pre @ t @ dec_digits (unat i) @ ascii ''>,''"
  have "instance_links cap (length pre) len is' ?out =
      Some (?out @ concat (map (\<lambda>i. t @ dec_digits (unat i) @ ascii ''>,'') is'))"
    using assms Cons by (intro instance_links_later) auto
  then show ?thesis using assms Cons by (simp add: REG_PATH_END_def)
qed (use assms in simp)

lemma object_links_fits:
  assumes "length out + length (object_text ob) < cap"
  shows "object_links cap ob out = Some (out @ object_text ob)"
proof -
  let ?i = "o_objID ob" and ?is = "instances_of ob"
  let ?t = "link_start ?i @ ascii ''/''"
  have texts: "concat (map (instance_text ?i) ?is) = concat (map (\<lambda>i. ?t @ dec_digits (unat i) @ ascii ''>,'') ?is)"
    by (simp add: instance_text_def [abs_def])
  have links: "instance_links cap (length pre) (length ?t) ?is (pre @ ?t) = Some (pre @ concat (map (instance_text ?i) ?is))"
    if "?is \<noteq> []" "length (pre @ concat (map (instance_text ?i) ?is)) < cap" for pre
    unfolding texts by (rule instance_links_fits) (use that texts in simp_all)
  have one: "length (link_start ?i) + 3 < length (concat (map (instance_text ?i) ?is))" if "?is \<noteq> []"
    using that digits_pos [of "unat (hd ?is)"] by (cases ?is) (auto simp: instance_text_def simp del: length_greater_0_conv)
  show ?thesis
  proof (cases "has_version ob")
    case True
    let ?v = "link_start ?i @ ascii ''>;ver='' @ dec_digits (unat (o_versionMajor ob)) @ ascii ''.'' @
           dec_digits (unat (o_versionMinor ob)) @ ascii '',''"
    have v: "version_text cap ob (out @ ?t) = Some (out @ ?v)"
      using assms True by (simp add: version_text_def object_text_def REG_VERSION_START_def append_uint_fits emit_def)
    show ?thesis
    proof (cases "?is = []")
      case True
      with v \<open>has_version ob\<close> assms show ?thesis
        by (simp add: object_links_def object_text_def template_fits)
    next
      case False
      with v links [OF False, of "out @ ?v"] \<open>has_version ob\<close> assms one [OF False] show ?thesis
        by (simp add: object_links_def object_text_def template_fits)
    qed
  next
    case False
    show ?thesis
    proof (cases "?is = []")
      case True
      with False assms show ?thesis
        by (simp add: object_links_def object_text_def template_fits REG_PATH_END_def)
    next
      case no: False
      with links [OF no, of out] False assms one [OF no] show ?thesis
        by (simp add: object_links_def object_text_def template_fits)
    qed
  qed
qed

lemma objects_links_fits:
  assumes "length out + length (concat (map object_text (filter (\<lambda>ob. o_objID ob \<noteq> LWM2M_SECURITY_OBJECT_ID) obs))) < cap"
  shows "objects_links cap obs out =
    Some (out @ concat (map object_text (filter (\<lambda>ob. o_objID ob \<noteq> LWM2M_SECURITY_OBJECT_ID) obs)))"
  using assms
proof (induction obs arbitrary: out)
  case (Cons ob obs)
  then show ?case by (cases "o_objID ob = 0") (simp_all add: object_links_fits)
qed simp

lemma payload_fits:
  assumes "length (objects_text cfg c) < cap"
  shows "object_getRegisterPayload cfg cap c = (length (objects_text cfg c) - 1, butlast (objects_text cfg c))"
  using assms by (simp add: object_getRegisterPayload_def objects_text_def REG_START_def objects_links_fits)

lemma small_digits:
  "length (dec_digits (unat (i :: u16))) \<le> 5" "length (dec_digits (unat (v :: u8))) \<le> 3"
proof -
  have "unat i < 10 ^ 5" "unat v < 10 ^ 3"
    using unsigned_less [of i, where 'a = nat] unsigned_less [of v, where 'a = nat]
    by (simp_all del: unat_u8_less)
  then show "length (dec_digits (unat i)) \<le> 5" "length (dec_digits (unat v)) \<le> 3"
    by (simp_all add: dec_digits_bound)
qed

lemma scratch_int: "fst (utils_intToText (ucast (i :: u16)) scratch) = length (dec_digits (unat i))"
proof -
  have "unat i < 2 ^ 16" using unsigned_less [of i, where 'a = nat] by simp
  then have "\<not> sint (ucast i :: u64) < 0" by (simp add: sint_neg_iff)
  moreover have "length (dec_digits (unat (ucast i :: u64))) \<le> length scratch"
    using small_digits(1) [of i] by (simp add: scratch_def)
  ultimately show ?thesis
    using uintToText_fits [of "ucast i" scratch] by (simp add: utils_intToText_def)
qed

lemma scratch_uint: "fst (utils_uintToText (ucast (v :: u8)) scratch) = length (dec_digits (unat v))"
  using uintToText_fits [of "ucast v" scratch] small_digits(2) [of v] by (simp add: scratch_def)

lemma instance_lengths_later:
  "start + len < index \<Longrightarrow> instance_lengths start len is index =
   Some (index + length (concat (map (\<lambda>i. replicate len x @ dec_digits (unat i) @ ascii ''>,'') is)))"
  by (induction "is" arbitrary: index) (simp_all add: scratch_int REG_PATH_END_def Let_def)

lemma object_length_text: "object_length ob index = Some (index + length (object_text ob))"
proof -
  let ?i = "o_objID ob" and ?is = "instances_of ob"
  let ?t = "link_start ?i @ ascii ''/''"
  have t: "prv_getObjectTemplate (length scratch) ?i [] = Some ?t"
    using template_fits [of "[]" ?i "length scratch"] small_digits(1) [of ?i]
    by (simp add: scratch_def link_start_def)
  have links: "instance_lengths start (length ?t) ?is (start + length ?t) =
      Some (start + length (concat (map (instance_text ?i) ?is)))" if "?is \<noteq> []" for start
  proof (cases ?is)
    case (Cons i is')
    have "length (concat (map (\<lambda>i. replicate (length ?t) x @ dec_digits (unat i) @ ascii ''>,'') is')) =
        length (concat (map (instance_text ?i) is'))" for x :: u8
      by (induction is') (simp_all add: instance_text_def)
    with Cons show ?thesis
      using instance_lengths_later [of start "length ?t"
          "start + length ?t + length (dec_digits (unat i)) + 2" is' 0]
      by (simp add: scratch_int REG_PATH_END_def instance_text_def Let_def)
  qed (use that in simp)
  show ?thesis
  proof (cases "?is = []")
    case True
    with t show ?thesis
      by (simp add: object_length_def object_text_def Let_def scratch_uint REG_VERSION_START_def REG_PATH_END_def)
  next
    case False
    note links = links [OF False]
    show ?thesis
    proof (cases "has_version ob")
      case True
      with t False links [of "index + length ?t - 1 + 6 + length (dec_digits (unat (o_versionMajor ob))) + 1 +
          length (dec_digits (unat (o_versionMinor ob))) + 1"]
      show ?thesis
        by (simp add: object_length_def object_text_def Let_def scratch_uint REG_VERSION_START_def eval_nat_numeral ac_simps)
    next
      case no: False
      with t False links [of index] show ?thesis
        by (simp add: object_length_def object_text_def Let_def)
    qed
  qed
qed

lemma objects_length_text:
  assumes "\<forall>ob \<in> set obs. version_1_0 cfg \<or> o_objID ob \<noteq> LWM2M_OSCORE_OBJECT_ID"
  shows "objects_length cfg obs index =
    Some (index + length (concat (map object_text (filter (\<lambda>ob. o_objID ob \<noteq> LWM2M_SECURITY_OBJECT_ID) obs))))"
  using assms
proof (induction obs arbitrary: index)
  case (Cons ob obs)
  then show ?case by (cases "o_objID ob = 0") (auto simp: object_length_text)
qed simp

lemma payload_text:
  assumes "\<forall>ob \<in> set (cl_objectList c). version_1_0 cfg \<or> o_objID ob \<noteq> LWM2M_OSCORE_OBJECT_ID"
  shows "object_getRegisterPayloadBufferLength cfg c = length (objects_text cfg c) + 1"
    and "object_getRegisterPayload cfg (object_getRegisterPayloadBufferLength cfg c) c =
      (length (objects_text cfg c) - 1, butlast (objects_text cfg c))"
proof -
  show "object_getRegisterPayloadBufferLength cfg c = length (objects_text cfg c) + 1"
    by (simp add: object_getRegisterPayloadBufferLength_def objects_length_text [OF assms] objects_text_def
        REG_START_def)
  then show "object_getRegisterPayload cfg (object_getRegisterPayloadBufferLength cfg c) c =
      (length (objects_text cfg c) - 1, butlast (objects_text cfg c))" by (simp add: payload_fits)
qed

text \<open>
  C33: For a client without an OSCORE object (or a build for version 1.0), the first pass and the second agree: with
  \<open>n\<close> the length of the full text, commas included, the first pass asks for a buffer of \<open>n + 1\<close> bytes, and the second
  writes \<open>n - 1\<close> bytes, the text without its last comma, two less than the buffer, as the comment in
  \<^verbatim>\<open>objects.c\<close> says. The text is the link of the root with its attributes, then for each object but the Security
  object its version, where it has one, and one link per instance.
\<close>

theorem register_payload_exact:
  assumes "\<forall>ob \<in> set (cl_objectList c). version_1_0 cfg \<or> o_objID ob \<noteq> LWM2M_OSCORE_OBJECT_ID"
  shows "object_getRegisterPayloadBufferLength cfg c = length (objects_text cfg c) + 1 \<and>
    object_getRegisterPayload cfg (object_getRegisterPayloadBufferLength cfg c) c =
      (length (objects_text cfg c) - 1, butlast (objects_text cfg c))"
  using payload_text [OF assms] by blast

text \<open>An object whose state is the list of its instances and that has no callbacks; a client of such objects.\<close>

definition bare_object :: "u16 \<Rightarrow> u8 \<Rightarrow> u8 \<Rightarrow> u16 list \<Rightarrow> u16 list lwm2m_object" where
  "bare_object i major minor is = \<lparr>o_objID = i, o_versionMajor = major, o_versionMinor = minor, o_state = is,
     o_instanceList = id, o_readFunc = None, o_writeFunc = None, o_executeFunc = None, o_createFunc = None,
     o_deleteFunc = None, o_discoverFunc = None, o_rawBlock1CreateFunc = None, o_rawBlock1WriteFunc = None,
     o_rawBlock1ExecuteFunc = None\<rparr>"

definition bare_client :: "'s lwm2m_object list \<Rightarrow> 's client" where
  "bare_client obs = \<lparr>cl_state = STATE_INITIAL, cl_endpointName = None, cl_msisdn = None, cl_altPath = None,
     cl_bootstrapServerList = [], cl_serverList = [], cl_objectList = obs, cl_observedList = [], cl_nextMID = 0\<rparr>"

theorem register_payload_exact_witness:
  "(let c = bare_client [bare_object 0 0 0 [0], bare_object 1 0 0 [0, 12], bare_object 3 1 1 [0], bare_object 5 0 0 []]
    in object_getRegisterPayload client_build (object_getRegisterPayloadBufferLength client_build c) c) =
   (65, ascii ''</>;rt=\"oma.lwm2m\";ct=110,</1/0>,</1/12>,</3>;ver=1.1,</3/0>,</5>'')"
proof -
  let ?c = "bare_client [bare_object 0 0 0 [0], bare_object 1 0 0 [0, 12], bare_object 3 1 1 [0], bare_object 5 0 0 []]"
  have full: "objects_text client_build ?c =
      ascii ''</>;rt=\"oma.lwm2m\";ct=110,</1/0>,</1/12>,</3>;ver=1.1,</3/0>,</5>,''"
    by (simp add: objects_text_def root_path_def REG_LWM2M_RESOURCE_TYPE_def REG_DEFAULT_PATH_def client_build_def
        bare_client_def bare_object_def object_text_def link_start_def instance_text_def has_version_def
        instances_of_def ascii_def dec_digits.simps)
  have "\<forall>ob \<in> set (cl_objectList ?c). version_1_0 client_build \<or> o_objID ob \<noteq> 21"
    by (simp add: bare_client_def bare_object_def)
  from register_payload_exact [OF this] show ?thesis
    unfolding full Let_def by (elim conjE ssubst) (simp add: ascii_def)
qed

text \<open>
  The first pass leaves the OSCORE object out and the second does not: the payload of a client with
  that object does not fit, and nothing is registered.
\<close>

lemma register_payload_oscore:
  "object_getRegisterPayload client_build
     (object_getRegisterPayloadBufferLength client_build (bare_client [bare_object 21 0 0 []]))
     (bare_client [bare_object 21 0 0 []]) = (0, [])"
  by (simp add: object_getRegisterPayload_def object_getRegisterPayloadBufferLength_def bare_client_def
      bare_object_def root_path_def client_build_def REG_START_def REG_DEFAULT_PATH_def
      REG_LWM2M_RESOURCE_TYPE_def object_links_def prv_getObjectTemplate_def)

end
