(* ===== verification/Registration_Query.thy ===== *)
theory Registration_Query
  imports Register_Payload Coap_Bounds
begin

text \<open>
  The query of a registration (\<^verbatim>\<open>core/registration.c\<close>): the client measures it
  (\<^verbatim>\<open>prv_getRegistrationQueryLength\<close>) and writes it (\<^verbatim>\<open>prv_getRegistrationQuery\<close>), the server reads its
  parameters (\<^verbatim>\<open>prv_getParameters\<close>).

  Both passes of the client return 0 for a failure; \<open>None\<close> is a null endpoint name. The server takes the
  query as the list of its options; comparing an option with a name stops at the first difference, and
  reads past an option that is a proper prefix of the name (\<open>None\<close>).
\<close>

section \<open>The length\<close>

definition query_start :: "build \<Rightarrow> bytes" where
  "query_start cfg = ascii ''?lwm2m='' @ ascii (if version_1_0 cfg then ''1.0'' else ''1.1'') @ ascii ''&ep=''"

text \<open>The bindings of version 1.0; any other fails.\<close>

definition binding_1_0_text :: "u8 \<Rightarrow> string option" where
  "binding_1_0_text b =
     (if b = BINDING_U then Some ''&b=U''
      else if b = BINDING_U OR BINDING_Q then Some ''&b=UQ''
      else if b = BINDING_S then Some ''&b=S''
      else if b = BINDING_S OR BINDING_Q then Some ''&b=SQ''
      else if b = BINDING_U OR BINDING_S then Some ''&b=US''
      else if b = BINDING_U OR BINDING_Q OR BINDING_S then Some ''&b=UQS''
      else None)"

definition binding_length :: "build \<Rightarrow> u8 \<Rightarrow> nat option" where
  "binding_length cfg b =
     (let one = (\<lambda>flag. if b AND flag \<noteq> 0 then 1 else 0 :: nat) in
      if version_1_0 cfg then map_option length (binding_1_0_text b)
      else Some
        ((if b AND NOT (BINDING_UNKNOWN OR BINDING_Q) \<noteq> 0
          then 1 + 2 + one BINDING_U + one BINDING_T + one BINDING_S + one BINDING_N else 0) +
         (if b AND BINDING_Q \<noteq> 0 then 1 + 1 else 0)))"

definition prv_getRegistrationQueryLength :: "build \<Rightarrow> 's client \<Rightarrow> lwm2m_server \<Rightarrow> nat option" where
  "prv_getRegistrationQueryLength cfg c sv =
     (case cl_endpointName c of
        None \<Rightarrow> None
      | Some name \<Rightarrow>
          let index = length (query_start cfg) + length name +
                (case cl_msisdn c of None \<Rightarrow> 0 | Some s \<Rightarrow> length (ascii ''&sms='') + length s)
          in
          (case binding_length cfg (sv_binding sv) of
             None \<Rightarrow> Some 0
           | Some n \<Rightarrow>
               let index = index + n in
               if sv_lifetime sv = 0 then Some (index + 1)
               else
                 let (res, _) = utils_intToText (of_int (sv_lifetime sv)) (replicate 21 0) in
                 if res = 0 then Some 0 else Some (index + length (ascii ''&lt='') + res + 1)))"

section \<open>The text\<close>

definition append_letter :: "nat \<Rightarrow> u8 \<Rightarrow> u8 \<Rightarrow> char \<Rightarrow> bytes \<Rightarrow> bytes option" where
  "append_letter cap b flag letter out = (if b AND flag \<noteq> 0 then emit cap (ascii [letter]) out else Some out)"

definition append_binding :: "build \<Rightarrow> nat \<Rightarrow> u8 \<Rightarrow> bytes \<Rightarrow> bytes option" where
  "append_binding cfg cap b out =
     (if version_1_0 cfg then
        (case binding_1_0_text b of None \<Rightarrow> None | Some s \<Rightarrow> copy_string cap (ascii s) out)
      else do {
        out \<leftarrow> (if b AND NOT (BINDING_UNKNOWN OR BINDING_Q) \<noteq> 0
               then do {
                 out \<leftarrow> copy_string cap (ascii ''&b='') out;
                 out \<leftarrow> append_letter cap b BINDING_U (CHR ''U'') out;
                 out \<leftarrow> append_letter cap b BINDING_T (CHR ''T'') out;
                 out \<leftarrow> append_letter cap b BINDING_S (CHR ''S'') out;
                 append_letter cap b BINDING_N (CHR ''N'') out
               }
               else Some out);
        if b AND BINDING_Q \<noteq> 0 then copy_string cap (ascii ''&Q'') out else Some out
      })"

text \<open>The number of bytes written, terminator included, and the text before the terminator.\<close>

definition prv_getRegistrationQuery :: "build \<Rightarrow> 's client \<Rightarrow> lwm2m_server \<Rightarrow> nat \<Rightarrow> (nat \<times> bytes) option" where
  "prv_getRegistrationQuery cfg c sv cap =
     (case cl_endpointName c of
        None \<Rightarrow> None
      | Some name \<Rightarrow>
          Some (case do {
              out \<leftarrow> copy_string cap (query_start cfg) [];
              out \<leftarrow> copy_string cap name out;
              out \<leftarrow> (case cl_msisdn c of
                       None \<Rightarrow> Some out
                     | Some s \<Rightarrow> do { out \<leftarrow> copy_string cap (ascii ''&sms='') out; copy_string cap s out });
              out \<leftarrow> append_binding cfg cap (sv_binding sv) out;
              out \<leftarrow> (if sv_lifetime sv \<noteq> 0
                     then do { out \<leftarrow> copy_string cap (ascii ''&lt='') out; emit_int cap (of_int (sv_lifetime sv)) out }
                     else Some out);
              if length out < cap then Some out else None
            } of
              None \<Rightarrow> (0, [])
            | Some out \<Rightarrow> (length out + 1, out)))"

section \<open>Reading the parameters\<close>

record reg_parameters =
  rp_name :: "bytes option"
  rp_lifetime :: u32
  rp_msisdn :: "bytes option"
  rp_binding :: u8
  rp_version :: lwm2m_version

text \<open>\<^verbatim>\<open>strncmp\<close> with a name of its full length.\<close>

fun starts_with :: "bytes \<Rightarrow> bytes \<Rightarrow> bool option" where
  "starts_with data [] = Some True"
| "starts_with [] (c # cs) = None"
| "starts_with (d # ds) (c # cs) = (if d = c then starts_with ds cs else Some False)"

fun lifetime_loop :: "u32 \<Rightarrow> bytes \<Rightarrow> u32 option" where
  "lifetime_loop v [] = Some v"
| "lifetime_loop v (c # cs) = (if c < ch_0 \<or> c > ch_9 then None else lifetime_loop (v * 10 + (ucast c - 48)) cs)"

text \<open>A string that cannot be allocated is left out.\<close>

definition read_parameter :: "build \<Rightarrow> allocator \<Rightarrow> bytes \<Rightarrow> reg_parameters \<Rightarrow> reg_parameters option option" where
  "read_parameter cfg mem part p =
     do {
       ep \<leftarrow> starts_with part (ascii ''ep='');
       if ep then Some
         (if rp_name p \<noteq> None \<or> length part = 3 then None
          else Some (if mem (length part - 3 + 1) then p\<lparr>rp_name := Some (drop 3 part)\<rparr> else p))
       else do {
         sms \<leftarrow> starts_with part (ascii ''sms='');
         if sms then Some
           (if rp_msisdn p \<noteq> None \<or> length part = 4 then None
            else Some (if mem (length part - 4 + 1) then p\<lparr>rp_msisdn := Some (drop 4 part)\<rparr> else p))
         else do {
           lt \<leftarrow> starts_with part (ascii ''lt='');
           if lt then Some
             (if rp_lifetime p \<noteq> 0 \<or> length part = 3 then None
              else map_option (\<lambda>v. p\<lparr>rp_lifetime := v\<rparr>) (lifetime_loop (rp_lifetime p) (drop 3 part)))
           else do {
             ver \<leftarrow> starts_with part (ascii ''lwm2m='');
             if ver then Some
               (if rp_version p \<noteq> VERSION_MISSING \<or> length part = 6 then None
                else Some (p\<lparr>rp_version := utils_stringToVersion (drop 6 part)\<rparr>))
             else do {
               b \<leftarrow> starts_with part (ascii ''b='');
               if b then Some
                 (if (if version_1_0 cfg then rp_binding p else rp_binding p AND NOT BINDING_Q) \<noteq> 0 \<or> length part = 2
                  then None
                  else Some (p\<lparr>rp_binding := rp_binding p OR utils_stringToBinding cfg (drop 2 part)\<rparr>))
               else if version_1_0 cfg then Some (Some p)
               else do {
                 q \<leftarrow> starts_with part (ascii ''Q'');
                 if q then Some
                   (if rp_binding p AND BINDING_Q \<noteq> 0 \<or> length part \<noteq> 2 then None
                    else Some (p\<lparr>rp_binding := rp_binding p OR BINDING_Q\<rparr>))
                 else Some (Some p)
               }
             }
           }
         }
       }
     }"

fun read_parameters :: "build \<Rightarrow> allocator \<Rightarrow> bytes list \<Rightarrow> reg_parameters \<Rightarrow> reg_parameters option option" where
  "read_parameters cfg mem [] p = Some (Some p)"
| "read_parameters cfg mem (part # parts) p =
     (case read_parameter cfg mem part p of
        None \<Rightarrow> None
      | Some None \<Rightarrow> Some None
      | Some (Some p) \<Rightarrow> read_parameters cfg mem parts p)"

text \<open>\<open>Some None\<close> is \<^verbatim>\<open>-1\<close>.\<close>

definition prv_getParameters :: "build \<Rightarrow> allocator \<Rightarrow> bytes list \<Rightarrow> reg_parameters option option" where
  "prv_getParameters cfg mem query =
     map_option (\<lambda>r.
         case r of
           None \<Rightarrow> None
         | Some p \<Rightarrow>
             let p = (if rp_binding p = 0 then p\<lparr>rp_binding := BINDING_UNKNOWN\<rparr> else p) in
             if rp_version p = VERSION_1_0 \<and> rp_binding p AND (BINDING_T OR BINDING_N) \<noteq> 0 then None else Some p)
       (read_parameters cfg mem query
          \<lparr>rp_name = None, rp_lifetime = 0, rp_msisdn = None, rp_binding = 0, rp_version = VERSION_MISSING\<rparr>)"

section \<open>What the query says\<close>

definition letters_of :: "u8 \<Rightarrow> bytes" where
  "letters_of b =
     (if b AND BINDING_U \<noteq> 0 then ascii ''U'' else []) @ (if b AND BINDING_T \<noteq> 0 then ascii ''T'' else []) @
     (if b AND BINDING_S \<noteq> 0 then ascii ''S'' else []) @ (if b AND BINDING_N \<noteq> 0 then ascii ''N'' else [])"

definition other_binding :: "u8 \<Rightarrow> bool" where
  "other_binding b \<longleftrightarrow> b AND NOT (BINDING_UNKNOWN OR BINDING_Q) \<noteq> 0"

text \<open>The parts of the query, in their order.\<close>

definition query_parts :: "bytes \<Rightarrow> bytes option \<Rightarrow> lwm2m_server \<Rightarrow> bytes list" where
  "query_parts name msisdn sv =
     [ascii ''lwm2m=1.1'', ascii ''ep='' @ name] @
     (case msisdn of None \<Rightarrow> [] | Some s \<Rightarrow> [ascii ''sms='' @ s]) @
     (if other_binding (sv_binding sv) then [ascii ''b='' @ letters_of (sv_binding sv)] else []) @
     (if sv_binding sv AND BINDING_Q \<noteq> 0 then [ascii ''Q''] else []) @
     (if sv_lifetime sv \<noteq> 0 then [ascii ''lt='' @ dec_digits (nat (sv_lifetime sv))] else [])"

definition query_text :: "bytes \<Rightarrow> bytes option \<Rightarrow> lwm2m_server \<Rightarrow> bytes" where
  "query_text name msisdn sv = ascii ''?'' @ tl (joined ch_ampersand (query_parts name msisdn sv))"

lemma letter_fits:
  assumes "length out + (if b AND flag \<noteq> 0 then 1 else 0) \<le> cap"
  shows "append_letter cap b flag l out = Some (out @ (if b AND flag \<noteq> 0 then ascii [l] else []))"
  using assms by (cases "b AND flag = 0") (simp_all add: append_letter_def emit_def)

definition binding_part :: "u8 \<Rightarrow> bytes" where
  "binding_part b =
     (if other_binding b then ascii ''&b='' @ letters_of b else []) @ (if b AND BINDING_Q \<noteq> 0 then ascii ''&Q'' else [])"

lemma binding_fits:
  assumes "\<not> version_1_0 cfg" and "length out + length (binding_part b) < cap"
  shows "append_binding cfg cap b out = Some (out @ binding_part b)"
proof (cases "other_binding b")
  case True
  have len: "length out + 3 + length (letters_of b) + (if b AND BINDING_Q \<noteq> 0 then 2 else 0) < cap"
    using assms(2) True by (simp add: binding_part_def split: if_splits)
  let ?u = "if b AND BINDING_U \<noteq> 0 then ascii ''U'' else []"
  let ?t = "if b AND BINDING_T \<noteq> 0 then ascii ''T'' else []"
  let ?s = "if b AND BINDING_S \<noteq> 0 then ascii ''S'' else []"
  let ?n = "if b AND BINDING_N \<noteq> 0 then ascii ''N'' else []"
  have l: "letters_of b = ?u @ ?t @ ?s @ ?n" by (simp add: letters_of_def)
  let ?o = "out @ ascii ''&b=''"
  have "append_letter cap b BINDING_U (CHR ''U'') ?o = Some (?o @ ?u)"
    by (rule letter_fits) (use len l in \<open>simp split: if_splits\<close>)
  moreover have "append_letter cap b BINDING_T (CHR ''T'') (?o @ ?u) = Some ((?o @ ?u) @ ?t)"
    by (rule letter_fits) (use len l in \<open>simp split: if_splits\<close>)
  moreover have "append_letter cap b BINDING_S (CHR ''S'') ((?o @ ?u) @ ?t) = Some (((?o @ ?u) @ ?t) @ ?s)"
    by (rule letter_fits) (use len l in \<open>simp split: if_splits\<close>)
  moreover have "append_letter cap b BINDING_N (CHR ''N'') (((?o @ ?u) @ ?t) @ ?s) = Some ((((?o @ ?u) @ ?t) @ ?s) @ ?n)"
    by (rule letter_fits) (use len l in \<open>simp split: if_splits\<close>)
  moreover have "(((?o @ ?u) @ ?t) @ ?s) @ ?n = ?o @ letters_of b" using l by simp
  moreover have "copy_string cap (ascii ''&b='') out = Some ?o" using len by simp
  ultimately show ?thesis
    using True assms(1) len
    by (cases "b AND BINDING_Q = 0") (simp_all only: append_binding_def, simp_all add: binding_part_def other_binding_def)
next
  case False
  then show ?thesis using assms
    by (cases "b AND BINDING_Q = 0") (auto simp: append_binding_def binding_part_def other_binding_def)
qed

lemma binding_length_eq: "\<not> version_1_0 cfg \<Longrightarrow> binding_length cfg b = Some (length (binding_part b))"
  by (simp add: binding_length_def binding_part_def other_binding_def letters_of_def Let_def)

lemma lifetime_int:
  assumes "0 \<le> n" and "n < 2 ^ 32"
  shows "unat (of_int n :: u64) = nat n" and "\<not> sint (of_int n :: u64) < 0"
proof -
  have "unat (of_int n :: u64) = nat (n mod 2 ^ 64)" by (simp add: unsigned_of_int take_bit_eq_mod)
  then show u: "unat (of_int n :: u64) = nat n" using assms by simp
  show "\<not> sint (of_int n :: u64) < 0" unfolding sint_neg_iff u using assms by simp
qed

definition lifetime_part :: "lwm2m_server \<Rightarrow> bytes" where
  "lifetime_part sv = (if sv_lifetime sv \<noteq> 0 then ascii ''&lt='' @ dec_digits (nat (sv_lifetime sv)) else [])"

definition sms_part :: "bytes option \<Rightarrow> bytes" where
  "sms_part msisdn = (case msisdn of None \<Rightarrow> [] | Some s \<Rightarrow> ascii ''&sms='' @ s)"

lemma query_text_eq:
  assumes "\<not> version_1_0 cfg"
  shows "query_text name msisdn sv =
    query_start cfg @ name @ sms_part msisdn @ binding_part (sv_binding sv) @ lifetime_part sv"
  using assms
  by (simp add: query_text_def query_parts_def query_start_def sms_part_def binding_part_def lifetime_part_def
      ascii_def split: option.splits)

lemma query_writes:
  assumes "\<not> version_1_0 cfg" and "cl_endpointName c = Some name" and "0 \<le> sv_lifetime sv" and "sv_lifetime sv < 2 ^ 32"
    and "length (query_text name (cl_msisdn c) sv) < cap"
  shows "prv_getRegistrationQuery cfg c sv cap =
    Some (length (query_text name (cl_msisdn c) sv) + 1, query_text name (cl_msisdn c) sv)"
proof -
  note qtext = query_text_eq [OF assms(1), of name "cl_msisdn c" sv]
  let ?o = "query_start cfg @ name @ sms_part (cl_msisdn c)"
  note len = assms(5) [unfolded qtext]
  have sms: "(case cl_msisdn c of None \<Rightarrow> Some (query_start cfg @ name)
      | Some s \<Rightarrow> do { out \<leftarrow> copy_string cap (ascii ''&sms='') (query_start cfg @ name); copy_string cap s out }) = Some ?o"
    using len by (cases "cl_msisdn c") (simp_all add: sms_part_def)
  have bind: "append_binding cfg cap (sv_binding sv) ?o = Some (?o @ binding_part (sv_binding sv))"
    using len by (intro binding_fits assms(1)) simp
  have life: "(if sv_lifetime sv \<noteq> 0
      then do { out \<leftarrow> copy_string cap (ascii ''&lt='') (?o @ binding_part (sv_binding sv)); emit_int cap (of_int (sv_lifetime sv)) out }
      else Some (?o @ binding_part (sv_binding sv))) = Some (query_text name (cl_msisdn c) sv)"
    using len lifetime_int [OF assms(3,4)]
    by (cases "sv_lifetime sv = 0") (simp_all add: qtext lifetime_part_def emit_int_nonneg)
  have first: "copy_string cap (query_start cfg) [] = Some (query_start cfg)"
    "copy_string cap name (query_start cfg) = Some (query_start cfg @ name)"
    using len by simp_all
  show ?thesis
    using assms(5) unfolding prv_getRegistrationQuery_def assms(2)
    by (simp add: first sms bind life del: copy_string_eq append_assoc)
qed

lemma query_length:
  assumes "\<not> version_1_0 cfg" and "cl_endpointName c = Some name" and "0 \<le> sv_lifetime sv" and "sv_lifetime sv < 2 ^ 32"
  shows "prv_getRegistrationQueryLength cfg c sv = Some (length (query_text name (cl_msisdn c) sv) + 1)"
proof -
  let ?v = "of_int (sv_lifetime sv) :: u64"
  have "length (dec_digits (unat ?v)) \<le> 10"
    using lifetime_int(1) [OF assms(3,4)] assms(3,4) dec_digits_bound [of "nat (sv_lifetime sv)" 10]
    by (simp add: nat_less_iff)
  then have "fst (utils_uintToText ?v (replicate 21 0)) = length (dec_digits (unat ?v))"
    using uintToText_fits [of ?v "replicate 21 0"] by simp
  then have "fst (utils_intToText ?v (replicate 21 0)) = length (dec_digits (nat (sv_lifetime sv)))"
    using lifetime_int [OF assms(3,4)] by (simp add: utils_intToText_def)
  moreover have "0 < length (dec_digits (nat (sv_lifetime sv)))" using digits_pos .
  ultimately show ?thesis
    using assms(1,2) query_text_eq [OF assms(1), of name "cl_msisdn c" sv]
    by (auto simp: prv_getRegistrationQueryLength_def binding_length_eq lifetime_part_def sms_part_def
        split: prod.splits option.splits)
qed

section \<open>What the server reads\<close>

lemma starts_with_own [simp]: "starts_with (xs @ ys) xs = Some True"
  by (induction xs) simp_all

lemma starts_with_other: "x \<noteq> y \<Longrightarrow> starts_with (x # xs) (y # ys) = Some False"
  by simp

lemma lifetime_digits:
  assumes "list_all is_digit8 ds"
  shows "lifetime_loop v ds = Some (v * 10 ^ length ds + of_nat (dec_val ds))"
  using assms
proof (induction ds arbitrary: v)
  case Nil
  then show ?case by simp
next
  case (Cons c ds)
  have d: "ucast c - 48 = (of_nat (digit_val c) :: u32)"
    using Cons.prems by (simp add: digit_val_def is_digit8_def word_le_nat_alt word_unat_eq_iff unat_sub)
  have "\<not> c < ch_0 \<and> \<not> c > ch_9" using Cons.prems by (auto simp: is_digit8_def)
  then have "lifetime_loop v (c # ds) = lifetime_loop (v * 10 + of_nat (digit_val c)) ds" using d by simp
  also have "\<dots> = Some ((v * 10 + of_nat (digit_val c)) * 10 ^ length ds + of_nat (dec_val ds))"
    using Cons by simp
  finally show ?case by (simp add: dec_val_Cons algebra_simps)
qed

lemma dec_digits_digits: "list_all is_digit8 (dec_digits n)"
  unfolding list_all_iff using dec_digits_all by blast

lemma ascii_parts: "ascii (c # cs) = of_char c # ascii cs" "ascii [] = []"
  by (simp_all add: ascii_def)

lemma read_version:
  "rp_version p = VERSION_MISSING \<Longrightarrow>
   read_parameter cfg mem (ascii ''lwm2m=1.1'') p = Some (Some (p\<lparr>rp_version := VERSION_1_1\<rparr>))"
  by (simp add: read_parameter_def ascii_def utils_stringToVersion_def)

lemma read_name:
  "rp_name p = None \<Longrightarrow> name \<noteq> [] \<Longrightarrow> \<forall>n. mem n \<Longrightarrow>
   read_parameter cfg mem (ascii ''ep='' @ name) p = Some (Some (p\<lparr>rp_name := Some name\<rparr>))"
  by (simp add: read_parameter_def)

lemma read_msisdn:
  "rp_msisdn p = None \<Longrightarrow> m \<noteq> [] \<Longrightarrow> \<forall>n. mem n \<Longrightarrow>
   read_parameter cfg mem (ascii ''sms='' @ m) p = Some (Some (p\<lparr>rp_msisdn := Some m\<rparr>))"
  by (simp add: read_parameter_def ascii_def)

lemma read_binding:
  "\<not> version_1_0 cfg \<Longrightarrow> rp_binding p = 0 \<Longrightarrow> ls \<noteq> [] \<Longrightarrow>
   read_parameter cfg mem (ascii ''b='' @ ls) p = Some (Some (p\<lparr>rp_binding := utils_stringToBinding cfg ls\<rparr>))"
  by (simp add: read_parameter_def ascii_def)

lemma read_queue: "\<not> version_1_0 cfg \<Longrightarrow> read_parameter cfg mem (ascii ''Q'') p = Some None"
  by (simp add: read_parameter_def ascii_def)

lemma read_lifetime:
  assumes "rp_lifetime p = 0" and "0 < n"
  shows "read_parameter cfg mem (ascii ''lt='' @ dec_digits n) p = Some (Some (p\<lparr>rp_lifetime := of_nat n\<rparr>))"
  using assms by (simp add: read_parameter_def ascii_def lifetime_digits [OF dec_digits_digits])

lemma flag_bits:
  "b AND BINDING_U = 0 \<longleftrightarrow> \<not> bit (b :: u8) 1" "b AND BINDING_T = 0 \<longleftrightarrow> \<not> bit b 2"
  "b AND BINDING_S = 0 \<longleftrightarrow> \<not> bit b 3" "b AND BINDING_N = 0 \<longleftrightarrow> \<not> bit b 4"
  using and_exp_eq_0_iff_not_bit [of b 1] and_exp_eq_0_iff_not_bit [of b 2]
    and_exp_eq_0_iff_not_bit [of b 3] and_exp_eq_0_iff_not_bit [of b 4] by simp_all

lemma binding_of_letters:
  assumes "\<not> version_1_0 cfg"
  shows "utils_stringToBinding cfg (letters_of b) = (b AND 0x1E) OR BINDING_UNKNOWN"
proof -
  have "binding_loop BINDING_UNKNOWN (letters_of b) = (b AND 0x1E) OR BINDING_UNKNOWN"
    unfolding letters_of_def flag_bits
    by (cases "bit b 1"; cases "bit b 2"; cases "bit b 3"; cases "bit b 4")
      (intro byte_eqI; simp add: ascii_def binding_bit_def bit_simps)+
  with assms show ?thesis by (simp add: utils_stringToBinding_def)
qed

lemma below_64: "(b :: u8) < 64 \<Longrightarrow> \<not> bit b 6 \<and> \<not> bit b 7"
proof -
  assume "b < 64"
  then have "unat b < 64" by (simp add: word_less_nat_alt)
  then have "unat b div 2 ^ 6 = 0" "unat b div 2 ^ 7 = 0" by simp_all
  then have "\<not> bit (unat b) 6" "\<not> bit (unat b) 7" by (simp_all only: bit_iff_odd) simp_all
  then show ?thesis by (simp add: bit_unsigned_iff)
qed

lemma letters_present: "b < 64 \<Longrightarrow> other_binding b \<Longrightarrow> letters_of b \<noteq> []"
proof
  assume "b < 64" "other_binding b" "letters_of b = []"
  then have "\<not> bit b 1" "\<not> bit b 2" "\<not> bit b 3" "\<not> bit b 4"
    by (auto simp: letters_of_def flag_bits ascii_def split: if_splits)
  with below_64 [OF \<open>b < 64\<close>] have "b AND NOT 0x21 = 0" by (intro byte_eqI) (simp_all add: bit_simps)
  with \<open>other_binding b\<close> show False by (simp add: other_binding_def)
qed

lemma no_letters: "\<not> other_binding b \<Longrightarrow> (b AND 0x1E) OR BINDING_UNKNOWN = BINDING_UNKNOWN"
proof -
  assume "\<not> other_binding b"
  then have z: "b AND NOT 0x21 = 0" by (simp add: other_binding_def)
  have "bit (b AND NOT 0x21) k = bit (0 :: u8) k" for k using z by simp
  from this [of 1] this [of 2] this [of 3] this [of 4]
  have "\<not> bit b 1" "\<not> bit b 2" "\<not> bit b 3" "\<not> bit b 4" by (simp_all add: bit_simps)
  then show ?thesis by (intro byte_eqI) (simp_all add: bit_simps)
qed

lemma read_parts:
  assumes "\<not> version_1_0 cfg" and "name \<noteq> []" and "msisdn \<noteq> Some []" and "0 \<le> sv_lifetime sv"
    and "sv_binding sv < 64" and "\<forall>n. mem n"
  shows "prv_getParameters cfg mem (query_parts name msisdn sv) =
    Some (if sv_binding sv AND BINDING_Q \<noteq> 0 then None
          else Some \<lparr>rp_name = Some name, rp_lifetime = of_int (sv_lifetime sv), rp_msisdn = msisdn,
            rp_binding = (sv_binding sv AND 0x1E) OR BINDING_UNKNOWN, rp_version = VERSION_1_1\<rparr>)"
proof -
  let ?b = "sv_binding sv"
  let ?final = "(?b AND 0x1E) OR BINDING_UNKNOWN"
  have nz: "?final \<noteq> 0"
  proof
    assume "?final = 0"
    then have "bit ?final 0 = bit (0 :: u8) 0" by simp
    then show False by (simp add: bit_simps)
  qed
  have lt: "(of_nat (nat (sv_lifetime sv)) :: u32) = of_int (sv_lifetime sv)"
    using assms(4) by (metis of_int_of_nat_eq int_nat_eq)
  have life: "read_parameters cfg mem (if sv_lifetime sv \<noteq> 0 then [ascii ''lt='' @ dec_digits (nat (sv_lifetime sv))] else []) p =
      Some (Some (p\<lparr>rp_lifetime := of_int (sv_lifetime sv)\<rparr>))" if "rp_lifetime p = 0" for p
    using that assms(4) read_lifetime [OF that, of "nat (sv_lifetime sv)"] lt
    by (cases "sv_lifetime sv = 0") auto
  show ?thesis
    using assms(1,2,3,6) nz read_queue [OF assms(1)] letters_present [OF assms(5)] no_letters [of ?b] life
    by (cases msisdn; cases "other_binding ?b"; cases "?b AND BINDING_Q = 0")
      (auto simp: prv_getParameters_def query_parts_def read_version read_name read_msisdn read_binding
        binding_of_letters)
qed

lemma query_split:
  assumes "segs \<noteq> []" and "list_all (\<lambda>s. ch_ampersand \<notin> set s \<and> length s < 256) segs" and "last segs \<noteq> []"
    and "\<forall>n. mem n"
  shows "p_uri_query (fst (coap_set_header_uri_query mem p (ascii ''?'' @ tl (joined ch_ampersand segs)))) = segs"
proof -
  obtain seg rest where s: "segs = seg # rest" using assms(1) by (cases segs) auto
  have "split_loop mem ch_ampersand [] 0 (seg @ joined ch_ampersand rest) =
      ([] @ seg # rest, 0 + length (seg @ joined ch_ampersand rest))"
    by (rule split_loop_path) (use assms s in auto)
  then show ?thesis using s
    by (simp add: coap_set_header_uri_query_def skip_first_def set_known_def Let_def ascii_def)
qed

definition plain :: "nat \<Rightarrow> bytes \<Rightarrow> bool" where
  "plain k s \<longleftrightarrow> s \<noteq> [] \<and> ch_ampersand \<notin> set s \<and> length s < k"

lemma parts_plain:
  assumes "plain 253 name" and "\<forall>m. msisdn = Some m \<longrightarrow> plain 252 m" and "0 \<le> sv_lifetime sv" and "sv_lifetime sv < 2 ^ 32"
  shows "list_all (\<lambda>s. ch_ampersand \<notin> set s \<and> length s < 256) (query_parts name msisdn sv)"
    and "last (query_parts name msisdn sv) \<noteq> []"
proof -
  have "length (letters_of b) \<le> 4" for b by (simp add: letters_of_def)
  then have l: "ch_ampersand \<notin> set (letters_of b)" "length (letters_of b) < 254" for b
    by (auto simp: letters_of_def ascii_def)
  have "length (dec_digits (nat (sv_lifetime sv))) \<le> 10"
    using assms(3,4) dec_digits_bound [of "nat (sv_lifetime sv)" 10] by (simp add: nat_less_iff)
  moreover have "ch_ampersand \<notin> set (dec_digits n)" for n
    using dec_digits_all [of ch_ampersand n] by (auto simp: is_digit8_def)
  ultimately show "list_all (\<lambda>s. ch_ampersand \<notin> set s \<and> length s < 256) (query_parts name msisdn sv)"
    using assms(1,2) l by (auto simp: query_parts_def plain_def ascii_def split: option.splits)
  show "last (query_parts name msisdn sv) \<noteq> []"
    by (auto simp: query_parts_def ascii_def split: option.splits)
qed

text \<open>
  C17: the registration query round trip, version 1.1. For an endpoint name and a phone number without
  ampersands that fit an option, and a lifetime of 32 bits, the query is exactly as long as its length
  pass says, and when the client has split it into options, the server reads from them the name, the
  number, the lifetime, the version 1.1 and the binding (with the bit for an unknown one set beside the
  others). Except for one case: a client in queue mode is refused, because the server expects two
  bytes where the option is the one letter Q.
\<close>
theorem registration_query_roundtrip:
  assumes "\<not> version_1_0 cfg" and "cl_endpointName c = Some name" and "plain 253 name"
    and "\<forall>m. cl_msisdn c = Some m \<longrightarrow> plain 252 m"
    and "0 \<le> sv_lifetime sv" and "sv_lifetime sv < 2 ^ 32" and "sv_binding sv < 64" and "\<forall>n. mem n"
  shows "\<exists>n q. prv_getRegistrationQueryLength cfg c sv = Some n \<and>
    prv_getRegistrationQuery cfg c sv n = Some (n, q) \<and> n = length q + 1 \<and>
    prv_getParameters cfg mem (p_uri_query (fst (coap_set_header_uri_query mem p q))) =
      Some (if sv_binding sv AND BINDING_Q \<noteq> 0 then None
        else Some \<lparr>rp_name = Some name, rp_lifetime = of_int (sv_lifetime sv), rp_msisdn = cl_msisdn c,
          rp_binding = (sv_binding sv AND 0x1E) OR BINDING_UNKNOWN, rp_version = VERSION_1_1\<rparr>)"
proof -
  let ?q = "query_text name (cl_msisdn c) sv" and ?parts = "query_parts name (cl_msisdn c) sv"
  have name: "name \<noteq> []" "cl_msisdn c \<noteq> Some []" using assms(3,4) by (auto simp: plain_def)
  have "?parts \<noteq> []" by (simp add: query_parts_def)
  from query_split [OF this parts_plain [OF assms(3,4,5,6)] assms(8)]
  have "p_uri_query (fst (coap_set_header_uri_query mem p ?q)) = ?parts" by (simp add: query_text_def)
  with read_parts [OF assms(1) name assms(5,7,8)] query_length [OF assms(1,2,5,6)]
    query_writes [OF assms(1,2,5,6), of "length ?q + 1"]
  show ?thesis by auto
qed

theorem registration_query_roundtrip_witness:
  "\<exists>n q. prv_getRegistrationQuery client_build ((bare_client [] :: unit client)\<lparr>cl_endpointName := Some [97]\<rparr>)
        ((zero_server_entry 0)\<lparr>sv_lifetime := 300, sv_binding := BINDING_U\<rparr>) n = Some (n, q) \<and>
     prv_getParameters client_build (\<lambda>_. True)
        (p_uri_query (fst (coap_set_header_uri_query (\<lambda>_. True) zero_packet q))) =
       Some (Some \<lparr>rp_name = Some [97], rp_lifetime = 300, rp_msisdn = None, rp_binding = 3, rp_version = VERSION_1_1\<rparr>)"
proof -
  let ?c = "(bare_client [] :: unit client)\<lparr>cl_endpointName := Some [97]\<rparr>"
  let ?sv = "(zero_server_entry 0)\<lparr>sv_lifetime := 300, sv_binding := BINDING_U\<rparr>"
  have "\<not> version_1_0 client_build" "cl_endpointName ?c = Some [97]" "plain 253 [97]"
    "\<forall>m. cl_msisdn ?c = Some m \<longrightarrow> plain 252 m" "0 \<le> sv_lifetime ?sv" "sv_lifetime ?sv < 2 ^ 32"
    "sv_binding ?sv < 64"
    by (simp_all add: client_build_def bare_client_def plain_def zero_server_entry_def)
  from registration_query_roundtrip [OF this, of "\<lambda>_. True" zero_packet] show ?thesis
    by (auto simp: zero_server_entry_def bare_client_def)
qed

end
