(* ===== verification/Registration_State.thy ===== *)
theory Registration_State
  imports Observe_Notify Registration_Query
begin

text \<open>
  The registrations of a client as a state machine (\<^verbatim>\<open>core/registration.c\<close>, lines 255 to 628, 934 to
  1131): the status of every server, the order in which registrations start, what follows a failure.

  A pointer to a server is its number in the list; \<open>None\<close> is a dangling pointer, the use of an unset
  value, or a shift beyond the width of an integer.
\<close>

section \<open>Reading the Server object\<close>

text \<open>
  One resource: the code, and what was read. A read function that answers \<^verbatim>\<open>COAP_NO_ERROR\<close> leaves the
  value unset, which is \<open>None\<close> in the result.
\<close>

definition read_one :: "env \<Rightarrow> 's lwm2m_object \<Rightarrow> u16 \<Rightarrow> u16 \<Rightarrow> (lwm2m_data \<Rightarrow> 'v option option) \<Rightarrow> (u8 \<times> 'v option) option" where
  "read_one E ob i rid decode =
     (case lwm2m_data_new (e_mem E) 1 of
        None \<Rightarrow> Some (COAP_500_INTERNAL_SERVER_ERROR, None)
      | Some ds \<Rightarrow>
          (case o_readFunc ob of
             None \<Rightarrow> None
           | Some read \<Rightarrow>
               (case read (o_state ob) i [set_id rid (hd ds)] of
                  None \<Rightarrow> None
                | Some (result, ds) \<Rightarrow>
                    if result \<noteq> COAP_205_CONTENT then Some (result, None)
                    else
                      (case ds of
                         [] \<Rightarrow> None
                       | d # _ \<Rightarrow>
                           map_option (\<lambda>v. (if v = None then COAP_400_BAD_REQUEST else COAP_NO_ERROR, v)) (decode d)))))"

definition prv_readUint :: "env \<Rightarrow> 's lwm2m_object \<Rightarrow> u16 \<Rightarrow> u16 \<Rightarrow> (u8 \<times> u64 option) option" where
  "prv_readUint E ob i rid = read_one E ob i rid (lwm2m_data_decode_uint (e_cfg E))"

definition prv_readBoolean :: "env \<Rightarrow> 's lwm2m_object \<Rightarrow> u16 \<Rightarrow> u16 \<Rightarrow> (u8 \<times> bool option) option" where
  "prv_readBoolean E ob i rid = read_one E ob i rid lwm2m_data_decode_bool"

text \<open>A resource that is absent has a default.\<close>

definition or_default :: "'v \<Rightarrow> u8 \<times> 'v option \<Rightarrow> u8 \<times> 'v option" where
  "or_default v r = (if fst r = COAP_404_NOT_FOUND then (COAP_NO_ERROR, Some v) else r)"

abbreviation (input) LWM2M_SERVER_REG_ORDER_ID :: u16 where "LWM2M_SERVER_REG_ORDER_ID \<equiv> 13"
abbreviation (input) LWM2M_SERVER_INITIAL_REG_DELAY_ID :: u16 where "LWM2M_SERVER_INITIAL_REG_DELAY_ID \<equiv> 14"
abbreviation (input) LWM2M_SERVER_REG_FAIL_BLOCK_ID :: u16 where "LWM2M_SERVER_REG_FAIL_BLOCK_ID \<equiv> 15"
abbreviation (input) LWM2M_SERVER_REG_FAIL_BOOTSTRAP_ID :: u16 where "LWM2M_SERVER_REG_FAIL_BOOTSTRAP_ID \<equiv> 16"
abbreviation (input) LWM2M_SERVER_COMM_RETRY_COUNT_ID :: u16 where "LWM2M_SERVER_COMM_RETRY_COUNT_ID \<equiv> 17"
abbreviation (input) LWM2M_SERVER_COMM_RETRY_TIMER_ID :: u16 where "LWM2M_SERVER_COMM_RETRY_TIMER_ID \<equiv> 18"
abbreviation (input) LWM2M_SERVER_SEQ_DELAY_TIMER_ID :: u16 where "LWM2M_SERVER_SEQ_DELAY_TIMER_ID \<equiv> 19"
abbreviation (input) LWM2M_SERVER_SEQ_RETRY_COUNT_ID :: u16 where "LWM2M_SERVER_SEQ_RETRY_COUNT_ID \<equiv> 20"

text \<open>The code, whether the server is ordered, and its order.\<close>

definition prv_getRegistrationOrder :: "env \<Rightarrow> 's lwm2m_object \<Rightarrow> lwm2m_server \<Rightarrow> (u8 \<times> bool \<times> u64 option) option" where
  "prv_getRegistrationOrder E ob sv =
     map_option (\<lambda>(result, order).
         if result = COAP_NO_ERROR then (result, True, order)
         else if result = COAP_404_NOT_FOUND then (COAP_NO_ERROR, False, None)
         else (result, False, None))
       (prv_readUint E ob (sv_servObjInstID sv) LWM2M_SERVER_REG_ORDER_ID)"

definition prv_getRegistrationFailureBlocking :: "env \<Rightarrow> 's lwm2m_object \<Rightarrow> lwm2m_server \<Rightarrow> (u8 \<times> bool option) option" where
  "prv_getRegistrationFailureBlocking E ob sv =
     map_option (or_default False) (prv_readBoolean E ob (sv_servObjInstID sv) LWM2M_SERVER_REG_FAIL_BLOCK_ID)"

definition prv_getBootstrapOnRegistrationFailure :: "env \<Rightarrow> 's lwm2m_object \<Rightarrow> lwm2m_server \<Rightarrow> (u8 \<times> bool option) option" where
  "prv_getBootstrapOnRegistrationFailure E ob sv =
     map_option (or_default True) (prv_readBoolean E ob (sv_servObjInstID sv) LWM2M_SERVER_REG_FAIL_BOOTSTRAP_ID)"

text \<open>A limit of at most 254 and a delay, each with its default.\<close>

definition limit_and_delay ::
  "env \<Rightarrow> 's lwm2m_object \<Rightarrow> lwm2m_server \<Rightarrow> u16 \<Rightarrow> u64 \<Rightarrow> u16 \<Rightarrow> u64 \<Rightarrow> (u8 \<times> (u8 \<times> u64) option) option" where
  "limit_and_delay E ob sv limit_id limit_default delay_id delay_default =
     do {
       (result, limit) \<leftarrow> map_option (or_default limit_default) (prv_readUint E ob (sv_servObjInstID sv) limit_id);
       if result \<noteq> COAP_NO_ERROR then Some (result, None)
       else do {
         (result, delay) \<leftarrow> map_option (or_default delay_default) (prv_readUint E ob (sv_servObjInstID sv) delay_id);
         if result \<noteq> COAP_NO_ERROR then Some (result, None)
         else do {
           limit \<leftarrow> limit;
           delay \<leftarrow> delay;
           Some (result, Some (if limit > 254 then 254 else ucast limit, delay))
         }
       }
     }"

definition prv_getRegistrationAttemptLimit :: "env \<Rightarrow> 's lwm2m_object \<Rightarrow> lwm2m_server \<Rightarrow> (u8 \<times> (u8 \<times> u64) option) option" where
  "prv_getRegistrationAttemptLimit E ob sv =
     limit_and_delay E ob sv LWM2M_SERVER_COMM_RETRY_COUNT_ID 5 LWM2M_SERVER_COMM_RETRY_TIMER_ID 60"

definition prv_getRegistrationSequenceLimit :: "env \<Rightarrow> 's lwm2m_object \<Rightarrow> lwm2m_server \<Rightarrow> (u8 \<times> (u8 \<times> u64) option) option" where
  "prv_getRegistrationSequenceLimit E ob sv =
     limit_and_delay E ob sv LWM2M_SERVER_SEQ_RETRY_COUNT_ID 1 LWM2M_SERVER_SEQ_DELAY_TIMER_ID 86400"

section \<open>Starting\<close>

text \<open>The sum of the time and an unsigned delay, stored as a signed time.\<close>

definition time_after :: "env \<Rightarrow> u64 \<Rightarrow> int" where
  "time_after E delay = sint (of_int (e_now E) + delay)"

definition prv_startRegistration :: "env \<Rightarrow> 's lwm2m_object \<Rightarrow> lwm2m_server \<Rightarrow> (u8 \<times> lwm2m_server) option" where
  "prv_startRegistration E ob sv =
     do {
       (result, delay) \<leftarrow> map_option (or_default 0) (prv_readUint E ob (sv_servObjInstID sv) LWM2M_SERVER_INITIAL_REG_DELAY_ID);
       if result \<noteq> COAP_NO_ERROR then Some (result, sv)
       else map_option (\<lambda>delay. (result, sv\<lparr>sv_registration := time_after E delay, sv_status := STATE_REG_HOLD_OFF\<rparr>)) delay
     }"

definition startable :: "bool \<Rightarrow> lwm2m_server \<Rightarrow> bool" where
  "startable restartFailed sv \<longleftrightarrow>
     sv_status sv = STATE_DEREGISTERED \<or> restartFailed \<and> sv_status sv = STATE_REG_FAILED"

text \<open>The walk over the servers; \<open>first\<close> is the first of the lowest order so far.\<close>

fun start_servers ::
  "env \<Rightarrow> 's lwm2m_object \<Rightarrow> bool \<Rightarrow> lwm2m_server list \<Rightarrow> (u16 \<times> u64) option \<Rightarrow>
   (u8 \<times> lwm2m_server list \<times> (u16 \<times> u64) option) option" where
  "start_servers E ob restartFailed [] first = Some (COAP_NO_ERROR, [], first)"
| "start_servers E ob restartFailed (sv # svs) first =
     (if \<not> startable restartFailed sv
      then map_option (\<lambda>(result, svs, first). (result, sv # svs, first)) (start_servers E ob restartFailed svs first)
      else do {
        let sv = sv\<lparr>sv_attempt := 0, sv_sequence := 0\<rparr>;
        (result, ordered, order) \<leftarrow> prv_getRegistrationOrder E ob sv;
        if result \<noteq> COAP_NO_ERROR then Some (result, sv # svs, first)
        else if ordered then do {
          order \<leftarrow> order;
          let first = (case first of
                         None \<Rightarrow> Some (sv_secObjInstID sv, order)
                       | Some (_, low) \<Rightarrow> if order < low then Some (sv_secObjInstID sv, order) else first);
          map_option (\<lambda>(result, svs, first). (result, sv # svs, first)) (start_servers E ob restartFailed svs first)
        }
        else do {
          (result, sv) \<leftarrow> prv_startRegistration E ob sv;
          if result \<noteq> COAP_NO_ERROR then Some (result, sv # svs, first)
          else map_option (\<lambda>(result, svs, first). (result, sv # svs, first)) (start_servers E ob restartFailed svs first)
        }
      })"

definition find_server :: "'s client \<Rightarrow> u16 \<Rightarrow> lwm2m_server option" where
  "find_server c i = lwm2m_list_find sv_secObjInstID (cl_serverList c) i"

text \<open>\<^verbatim>\<open>registration_start\<close> of version 1.1 and later. That of version 1.0 registers at once.\<close>

definition registration_start :: "env \<Rightarrow> bool \<Rightarrow> 's client \<Rightarrow> (u8 \<times> 's client) option" where
  "registration_start E restartFailed c =
     (case find_object c LWM2M_SERVER_OBJECT_ID of
        None \<Rightarrow> Some (COAP_500_INTERNAL_SERVER_ERROR, c)
      | Some ob \<Rightarrow> do {
          (result, svs, first) \<leftarrow> start_servers E ob restartFailed (cl_serverList c) None;
          let c = c\<lparr>cl_serverList := svs\<rparr>;
          case first of
            None \<Rightarrow> Some (result, c)
          | Some (i, _) \<Rightarrow> do {
              sv \<leftarrow> find_server c i;
              (result, sv) \<leftarrow> prv_startRegistration E ob sv;
              Some (result, put_server sv c)
            }
        })"

section \<open>Failures\<close>

text \<open>The ordered servers that were not started yet.\<close>

fun fail_ordered :: "env \<Rightarrow> 's lwm2m_object \<Rightarrow> lwm2m_server list \<Rightarrow> lwm2m_server list option" where
  "fail_ordered E ob [] = Some []"
| "fail_ordered E ob (sv # svs) =
     do {
       sv \<leftarrow> (if sv_status sv = STATE_DEREGISTERED
             then map_option (\<lambda>(result, ordered, _).
                 if result = COAP_NO_ERROR \<and> ordered then sv\<lparr>sv_status := STATE_REG_FAILED\<rparr> else sv)
               (prv_getRegistrationOrder E ob sv)
             else Some sv);
       map_option (Cons sv) (fail_ordered E ob svs)
     }"

text \<open>Whether the registrations after this one are started, and whether it blocks them.\<close>

definition next_ordered :: "env \<Rightarrow> 's lwm2m_object \<Rightarrow> lwm2m_server \<Rightarrow> 's client \<Rightarrow> (bool \<times> bool \<times> 's client) option" where
  "next_ordered E ob sv c =
     do {
       (result, ordered, _) \<leftarrow> prv_getRegistrationOrder E ob sv;
       if result = COAP_NO_ERROR \<and> ordered then do {
         (result, blocking) \<leftarrow> prv_getRegistrationFailureBlocking E ob sv;
         if result \<noteq> COAP_NO_ERROR then Some (True, False, c)
         else do {
           blocking \<leftarrow> blocking;
           c \<leftarrow> (if \<not> blocking \<and> sv_sequence sv = 1 then map_option snd (registration_start E False c) else Some c);
           Some (True, blocking, c)
         }
       }
       else Some (False, False, c)
     }"

definition prv_handleRegistrationSequenceFailure :: "env \<Rightarrow> 's lwm2m_object \<Rightarrow> u16 \<Rightarrow> 's client \<Rightarrow> 's client option" where
  "prv_handleRegistrationSequenceFailure E ob i c =
     do {
       sv \<leftarrow> find_server c i;
       (ordered, blocking, c) \<leftarrow> next_ordered E ob sv c;
       sv \<leftarrow> find_server c i;
       (result, limit) \<leftarrow> prv_getRegistrationSequenceLimit E ob sv;
       (case limit of
          None \<Rightarrow> Some (put_server (sv\<lparr>sv_status := STATE_REG_FAILED\<rparr>) c)
        | Some (sequenceLimit, sequenceDelay) \<Rightarrow>
            if sv_sequence sv \<ge> sequenceLimit then do {
              let c = put_server (sv\<lparr>sv_status := STATE_REG_FAILED\<rparr>) c;
              (result, bootstrap) \<leftarrow> prv_getBootstrapOnRegistrationFailure E ob sv;
              bootstrap \<leftarrow> (if result \<noteq> COAP_NO_ERROR then Some True else bootstrap);
              if bootstrap then Some (c\<lparr>cl_state := STATE_BOOTSTRAP_REQUIRED\<rparr>)
              else if ordered \<and> blocking
              then map_option (\<lambda>svs. c\<lparr>cl_serverList := svs\<rparr>) (fail_ordered E ob (cl_serverList c))
              else Some c
            }
            else Some (put_server (sv\<lparr>sv_registration := time_after E sequenceDelay, sv_status := STATE_REG_HOLD_OFF,
                                    sv_attempt := 0\<rparr>) c))
     }"

text \<open>
  The delay doubles with every attempt: \<^verbatim>\<open>1 << (attempt - 1)\<close> is an \<^verbatim>\<open>int\<close>, undefined from the 32nd
  attempt on and for none.
\<close>

definition backoff :: "u8 \<Rightarrow> u64 option" where
  "backoff attempt = (if attempt = 0 \<or> attempt > 31 then None else Some (2 ^ (unat attempt - 1)))"

definition prv_handleRegistrationAttemptFailure :: "env \<Rightarrow> u16 \<Rightarrow> 's client \<Rightarrow> 's client option" where
  "prv_handleRegistrationAttemptFailure E i c =
     do {
       sv \<leftarrow> find_server c i;
       case find_object c LWM2M_SERVER_OBJECT_ID of
         None \<Rightarrow> Some (put_server (sv\<lparr>sv_status := STATE_REG_FAILED\<rparr>) c)
       | Some ob \<Rightarrow> do {
           (result, limit) \<leftarrow> prv_getRegistrationAttemptLimit E ob sv;
           case limit of
             None \<Rightarrow> Some (put_server (sv\<lparr>sv_status := STATE_REG_FAILED\<rparr>) c)
           | Some (attemptLimit, attemptDelay) \<Rightarrow>
               if sv_attempt sv \<ge> attemptLimit then prv_handleRegistrationSequenceFailure E ob i c
               else map_option (\<lambda>factor. put_server (sv\<lparr>sv_registration := time_after E (attemptDelay * factor),
                        sv_status := STATE_REG_HOLD_OFF\<rparr>) c) (backoff (sv_attempt sv))
         }
     }"

section \<open>Requesting an update\<close>

definition updated_status :: "bool \<Rightarrow> lwm2m_status" where
  "updated_status withObjects = (if withObjects then STATE_REG_FULL_UPDATE_NEEDED else STATE_REG_UPDATE_NEEDED)"

definition can_update :: "lwm2m_server \<Rightarrow> bool" where
  "can_update sv \<longleftrightarrow> sv_status sv = STATE_REGISTERED \<or> sv_status sv = STATE_REG_UPDATE_PENDING"

text \<open>The walk for one server (the code and the list), and for all of them.\<close>

fun update_one :: "u16 \<Rightarrow> bool \<Rightarrow> lwm2m_server list \<Rightarrow> u8 \<times> lwm2m_server list" where
  "update_one shortID withObjects [] = (COAP_404_NOT_FOUND, [])"
| "update_one shortID withObjects (sv # svs) =
     (if sv_shortID sv = shortID then
        (if can_update sv then (COAP_NO_ERROR, sv\<lparr>sv_status := updated_status withObjects\<rparr> # svs)
         else if sv_status sv = STATE_REG_FULL_UPDATE_NEEDED \<or> sv_status sv = STATE_REG_UPDATE_NEEDED
         then (COAP_NO_ERROR, (if withObjects then sv\<lparr>sv_status := STATE_REG_FULL_UPDATE_NEEDED\<rparr> else sv) # svs)
         else (COAP_400_BAD_REQUEST, sv # svs))
      else apsnd (Cons sv) (update_one shortID withObjects svs))"

definition update_all :: "bool \<Rightarrow> lwm2m_server list \<Rightarrow> lwm2m_server list" where
  "update_all withObjects svs =
     map (\<lambda>sv. if can_update sv then sv\<lparr>sv_status := updated_status withObjects\<rparr> else sv) svs"

text \<open>With no server in the list, those of the Security object are added, and nothing is updated.\<close>

definition lwm2m_update_registration :: "env \<Rightarrow> u16 \<Rightarrow> bool \<Rightarrow> 's client \<Rightarrow> (u8 \<times> 's client) option" where
  "lwm2m_update_registration E shortServerID withObjects c =
     (if cl_serverList c = [] then
        map_option (\<lambda>(found, c). (if found \<and> shortServerID = 0 then COAP_NO_ERROR else COAP_404_NOT_FOUND, c))
          (object_getServers E False c)
      else if shortServerID \<noteq> 0 then
        (let (result, svs) = update_one shortServerID withObjects (cl_serverList c) in
         Some (result, c\<lparr>cl_serverList := svs\<rparr>))
      else Some (COAP_NO_ERROR, c\<lparr>cl_serverList := update_all withObjects (cl_serverList c)\<rparr>))"

section \<open>The status of the client\<close>

fun registration_status :: "lwm2m_status \<Rightarrow> lwm2m_server list \<Rightarrow> lwm2m_status" where
  "registration_status reg_status [] = reg_status"
| "registration_status reg_status (sv # svs) =
     registration_status
       (if sv_status sv \<in> {STATE_REGISTERED, STATE_REG_UPDATE_NEEDED, STATE_REG_FULL_UPDATE_NEEDED,
             STATE_REG_UPDATE_PENDING, STATE_DEREG_PENDING}
        then (if reg_status = STATE_REG_FAILED then STATE_REGISTERED else reg_status)
        else if sv_status sv \<in> {STATE_REG_HOLD_OFF, STATE_REG_PENDING} then STATE_REG_PENDING
        else reg_status) svs"

definition registration_getStatus :: "'s client \<Rightarrow> lwm2m_status" where
  "registration_getStatus c = registration_status STATE_REG_FAILED (cl_serverList c)"

end
