(* ===== verification/Registration_Decode.thy ===== *)
theory Registration_Decode
  imports Register_Payload
begin

text \<open>
  Reading the list of objects of a registration (\<^verbatim>\<open>core/registration.c\<close>, lines 1301 to 1727), the
  counterpart of \<^verbatim>\<open>object_getRegisterPayload\<close>: the payload is split at the commas, every link is an
  object, an instance of one, or once the link of the client itself with its attributes.

  A pointer with its length is the list of the bytes. \<open>after\<close> is the byte that follows the link in the
  payload, if there is one: the parser of the attributes looks at it. \<open>None\<close> is a read outside of the
  payload, or the store through the null pointer that a failed allocation returns.
\<close>

abbreviation (input) ch_space :: u8 where "ch_space \<equiv> 32"
abbreviation (input) ch_quote :: u8 where "ch_quote \<equiv> 34"
abbreviation (input) ch_comma :: u8 where "ch_comma \<equiv> 44"
abbreviation (input) ch_semicolon :: u8 where "ch_semicolon \<equiv> 59"
abbreviation (input) ch_less :: u8 where "ch_less \<equiv> 60"
abbreviation (input) ch_greater :: u8 where "ch_greater \<equiv> 62"

definition skip_spaces :: "bytes \<Rightarrow> bytes" where
  "skip_spaces s = dropWhile (\<lambda>c. c = ch_space) s"

lemma skip_spaces_le: "length (skip_spaces s) \<le> length s"
  by (simp add: skip_spaces_def length_dropWhile_le)

definition trim_spaces :: "bytes \<Rightarrow> bytes" where
  "trim_spaces s = rev (dropWhile (\<lambda>c. c = ch_space) (rev s))"

section \<open>Attributes of the client's own link\<close>

text \<open>
  The next attribute: its key, its value, and where it ends. A value of one byte is refused.
\<close>

definition prv_splitLinkAttribute :: "bytes \<Rightarrow> (bytes \<times> bytes \<times> nat) option" where
  "prv_splitLinkAttribute data =
     (let i = length (takeWhile (\<lambda>c. c = ch_space) data) in
      if i = length data then None
      else
        let keyStart = (if data ! i = ch_semicolon then i + 1 else i) in
        if keyStart = length data then None
        else
          let key = takeWhile (\<lambda>c. c \<noteq> ch_equals) (drop keyStart data); i = keyStart + length key in
          if key = [] \<or> i = length data then None
          else
            let valueStart = i + 1 + length (takeWhile (\<lambda>c. c = ch_space) (drop (i + 1) data)) in
            if valueStart = length data then None
            else
              let raw = takeWhile (\<lambda>c. c \<noteq> ch_semicolon) (drop valueStart data);
                  val = (if raw = [] then [] else hd raw # trim_spaces (tl raw))
              in if length val = 1 then None else Some (key, val, valueStart + length raw))"

lemma splitLinkAttribute_pos: "prv_splitLinkAttribute data = Some (key, val, n) \<Longrightarrow> 0 < n"
  by (auto simp: prv_splitLinkAttribute_def Let_def split: if_splits)

definition content_format :: "build \<Rightarrow> bytes \<Rightarrow> lwm2m_media_type option" where
  "content_format cfg val =
     (if val = ascii ''11543'' then Some LWM2M_CONTENT_JSON
      else if old_formats cfg \<and> val = ascii ''1543'' then Some LWM2M_CONTENT_JSON_OLD
      else if val = ascii ''110'' then Some LWM2M_CONTENT_SENML_JSON
      else None)"

text \<open>The state: whether the type was seen, and the format. \<open>None\<close> is the return of 0.\<close>

function link_attributes :: "build \<Rightarrow> bytes \<Rightarrow> bool \<Rightarrow> lwm2m_media_type \<Rightarrow> (bool \<times> lwm2m_media_type) option" where
  "link_attributes cfg data isValid format =
     (if data = [] then Some (isValid, format)
      else
        (case prv_splitLinkAttribute data of
           None \<Rightarrow> None
         | Some (key, val, n) \<Rightarrow>
             if key = ascii ''rt'' then
               (if isValid \<or> val \<noteq> ascii ''\"oma.lwm2m\"'' then None
                else link_attributes cfg (drop n data) True format)
             else if key = ascii ''ct'' then
               (if format \<noteq> LWM2M_CONTENT_TLV then None
                else
                  (case content_format cfg val of
                     None \<Rightarrow> None | Some format \<Rightarrow> link_attributes cfg (drop n data) isValid format))
             else link_attributes cfg (drop n data) isValid format))"
  by pat_completeness auto
termination
  by (relation "measure (\<lambda>(cfg, data, v, f). length data)") (auto dest!: splitLinkAttribute_pos)

declare link_attributes.simps [simp del]

text \<open>The format and the path without its leading slash, if there is one. \<open>None\<close> is the return of 0.\<close>

definition prv_parseLinkAttributes ::
  "build \<Rightarrow> allocator \<Rightarrow> bytes \<Rightarrow> lwm2m_media_type \<Rightarrow> (lwm2m_media_type \<times> bytes option) option" where
  "prv_parseLinkAttributes cfg mem link format =
     (let link = trim_spaces link in
      if length link < 2 \<or> hd link \<noteq> ch_less then None
      else
        let data = tl link;
            index = length data - 1 - length (takeWhile (\<lambda>c. c \<noteq> ch_greater) (rev data))
        in
        if \<not> length (takeWhile (\<lambda>c. c \<noteq> ch_greater) (rev data)) < length data then None
        else if index = 0 \<or> index = length data - 1 then None
        else
          let pathStart = (if hd data = ch_slash then 1 else 0); pathLength = index - pathStart in
          if data ! (index + 1) \<noteq> ch_semicolon then None
          else
            (case link_attributes cfg (drop (index + 2) data) False format of
               None \<Rightarrow> None
             | Some (isValid, format) \<Rightarrow>
                 if \<not> isValid then None
                 else if pathLength = 0 then Some (format, None)
                 else if \<not> mem (pathLength + 1) then None
                 else Some (format, Some (take pathLength (drop pathStart data)))))"

section \<open>Links of objects and instances\<close>

text \<open>The version in an attribute that starts with \<^verbatim>\<open>ver=\<close>; quotes around it are ignored.\<close>

definition version_of :: "bytes \<Rightarrow> (u8 \<times> u8) option" where
  "version_of attr =
     (if length attr < 6 then None
      else
        let body = drop 4 attr;
            body = (if hd body = ch_quote then tl body else body);
            body = (if last attr = ch_quote then butlast body else body);
            dot = 1 + length (takeWhile (\<lambda>c. c \<noteq> ch_dot) (drop 1 body))
        in
        if int dot > int (length body) - 2 then None
        else
          (case (utils_textToUInt (take dot body), utils_textToUInt (drop (dot + 1) body)) of
             (Some major, Some minor) \<Rightarrow>
               if major > 255 \<or> minor > 255 then None else Some (ucast major, ucast minor)
           | _ \<Rightarrow> None))"

text \<open>
  The attributes of a link: \<open>Some None\<close> is the return of 0. At the end of the link the byte after it is
  read; it is never a semicolon where the link ends at a comma or a space.
\<close>

function version_attributes :: "u8 option \<Rightarrow> bytes \<Rightarrow> u8 \<times> u8 \<Rightarrow> (u8 \<times> u8) option option" where
  "version_attributes after data version =
     (let data = skip_spaces data in
      if data = [] then Some (Some version)
      else
        let attr = takeWhile (\<lambda>c. c \<noteq> ch_semicolon) data; rest = drop (length attr) data in
        (case (if 4 < length attr \<and> take 4 attr = ascii ''ver=''
               then (if version \<noteq> (0, 0) then None else version_of attr)
               else Some version) of
           None \<Rightarrow> Some None
         | Some version \<Rightarrow>
             if rest = [] then
               (case after of
                  None \<Rightarrow> None
                | Some b \<Rightarrow> if b = ch_semicolon then None else Some (Some version))
             else version_attributes after (tl rest) version))"
  by pat_completeness auto
termination
proof (relation "measure (\<lambda>(after, data, version). length data)")
  fix data :: bytes and a b c
  assume "a = skip_spaces data" "a \<noteq> []" "c = drop (length b) a" "c \<noteq> []"
  then show "((x, tl c, y), z, data, w) \<in> measure (\<lambda>(after, data, version). length data)" for x y z w
    using length_dropWhile_le [of "\<lambda>c. c = ch_space" data]
    by (cases c) (auto simp: skip_spaces_def dest: arg_cong [where f = length])
qed simp

declare version_attributes.simps [simp del]

record link_id =
  li_object :: u16
  li_instance :: "u16 option"
  li_version :: "u8 \<times> u8"

definition number_ok :: "int \<Rightarrow> bool" where
  "number_ok n \<longleftrightarrow> 0 \<le> n \<and> n < 65535"

text \<open>What follows the identifiers: the closing bracket and the attributes.\<close>

definition finish_id :: "u8 option \<Rightarrow> u16 \<Rightarrow> u16 option \<Rightarrow> bytes \<Rightarrow> link_id option option" where
  "finish_id after oid inst data =
     map_option (map_option (\<lambda>v. \<lparr>li_object = oid, li_instance = inst, li_version = v\<rparr>))
       (if 1 < length (tl data) \<and> hd (tl data) = ch_semicolon
        then version_attributes after (tl (tl data)) (0, 0) else Some (Some (0, 0)))"

definition prv_getId :: "bytes \<Rightarrow> u8 option \<Rightarrow> link_id option option" where
  "prv_getId link after =
     (let trimmed = trim_spaces link;
          after = (if length trimmed < length link then Some ch_space else after)
      in
      case trimmed of
        a # b # data \<Rightarrow>
          if a \<noteq> ch_less \<or> b \<noteq> ch_slash then Some None
          else
            let digits = takeWhile (\<lambda>c. c \<noteq> ch_slash \<and> c \<noteq> ch_greater) data in
            if digits = [] \<or> length digits = length data then Some None
            else
              (case uri_getNumber digits of
                 None \<Rightarrow> None
               | Some oid \<Rightarrow>
                   if \<not> number_ok oid then Some None
                   else
                     let data = drop (length digits) data in
                     if hd data = ch_slash then
                       (let data = tl data; digits = takeWhile (\<lambda>c. c \<noteq> ch_greater) data in
                        if length digits = length data then Some None
                        else if digits = [] then finish_id after (of_int oid) None data
                        else
                          (case uri_getNumber digits of
                             None \<Rightarrow> None
                           | Some i \<Rightarrow>
                               if \<not> number_ok i then Some None
                               else finish_id after (of_int oid) (Some (of_int i)) (drop (length digits) data)))
                     else finish_id after (of_int oid) None data)
      | _ \<Rightarrow> Some None)"

section \<open>The payload\<close>

record lwm2m_client_object =
  co_id :: u16
  co_versionMajor :: u8
  co_versionMinor :: u8
  co_instanceList :: "u16 list"

definition sizeof_client_object :: nat where "sizeof_client_object = 24"
definition sizeof_list_node :: nat where "sizeof_list_node = 16"

text \<open>The object of a link is found or added, then it gets the version or the instance.\<close>

definition add_link :: "allocator \<Rightarrow> link_id \<Rightarrow> lwm2m_client_object list \<Rightarrow> lwm2m_client_object list option" where
  "add_link mem l objs =
     (let new = \<lparr>co_id = li_object l, co_versionMajor = 0, co_versionMinor = 0, co_instanceList = []\<rparr>;
          found = lwm2m_list_find co_id objs (li_object l);
          ob = (case found of None \<Rightarrow> new | Some ob \<Rightarrow> ob);
          objs = (case found of None \<Rightarrow> lwm2m_list_add co_id objs new | Some _ \<Rightarrow> objs)
      in
      if found = None \<and> \<not> mem sizeof_client_object then None
      else
        (case li_instance l of
           None \<Rightarrow>
             Some (list_put co_id objs (ob\<lparr>co_versionMajor := fst (li_version l), co_versionMinor := snd (li_version l)\<rparr>))
         | Some i \<Rightarrow>
             if lwm2m_list_find id (co_instanceList ob) i \<noteq> None then Some objs
             else if \<not> mem sizeof_list_node then None
             else Some (list_put co_id objs (ob\<lparr>co_instanceList := lwm2m_list_add id (co_instanceList ob) i\<rparr>))))"

record decoded_payload =
  dp_objects :: "lwm2m_client_object list"
  dp_format :: lwm2m_media_type
  dp_altPath :: "bytes option"
  dp_linkFound :: bool

text \<open>One link; \<open>Some None\<close> is the jump to \<^verbatim>\<open>error\<close>.\<close>

definition decode_link ::
  "build \<Rightarrow> allocator \<Rightarrow> bytes \<Rightarrow> u8 option \<Rightarrow> decoded_payload \<Rightarrow> decoded_payload option option" where
  "decode_link cfg mem link after d =
     (case prv_getId link after of
        None \<Rightarrow> None
      | Some (Some l) \<Rightarrow> map_option (\<lambda>objs. Some (d\<lparr>dp_objects := objs\<rparr>)) (add_link mem l (dp_objects d))
      | Some None \<Rightarrow>
          Some
            (if dp_linkFound d then None
             else
               map_option (\<lambda>(format, path). d\<lparr>dp_format := format, dp_altPath := path, dp_linkFound := True\<rparr>)
                 (prv_parseLinkAttributes cfg mem link (dp_format d))))"

function decode_links :: "build \<Rightarrow> allocator \<Rightarrow> bytes \<Rightarrow> decoded_payload \<Rightarrow> decoded_payload option option" where
  "decode_links cfg mem payload d =
     (let payload = skip_spaces payload in
      if payload = [] then Some (Some d)
      else
        let link = takeWhile (\<lambda>c. c \<noteq> ch_comma) payload; rest = drop (length link) payload in
        (case decode_link cfg mem link (if rest = [] then None else Some ch_comma) d of
           None \<Rightarrow> None
         | Some None \<Rightarrow> Some None
         | Some (Some d) \<Rightarrow> decode_links cfg mem (tl rest) d))"
  by pat_completeness auto
termination
proof (relation "measure (\<lambda>(cfg, mem, payload, d). length payload)")
  fix cfg mem d payload p rest and link :: bytes
  assume p: "p = skip_spaces payload" "p \<noteq> []" "rest = drop (length link) p"
  have "length (tl rest) < length p" using p by (cases rest) auto
  also have "length p \<le> length payload" unfolding p(1) by (rule skip_spaces_le)
  finally show "((cfg, mem, tl rest, y), cfg, mem, payload, d) \<in> measure (\<lambda>(cfg, mem, payload, d). length payload)" for y
    by simp
qed simp

declare decode_links.simps [simp del]

text \<open>The objects, the format and the alternative path; an error yields no objects.\<close>

definition prv_decodeRegisterPayload ::
  "build \<Rightarrow> allocator \<Rightarrow> bytes \<Rightarrow> (lwm2m_client_object list \<times> lwm2m_media_type \<times> bytes option) option" where
  "prv_decodeRegisterPayload cfg mem payload =
     map_option (\<lambda>r. case r of
         None \<Rightarrow> ([], LWM2M_CONTENT_TLV, None)
       | Some d \<Rightarrow> (dp_objects d, dp_format d, dp_altPath d))
       (decode_links cfg mem payload
          \<lparr>dp_objects = [], dp_format = LWM2M_CONTENT_TLV, dp_altPath = None, dp_linkFound = False\<rparr>)"

end
