(* ===== verification/Registration_Roundtrip.thy ===== *)
theory Registration_Roundtrip
  imports Registration_Decode
begin

text \<open>
  What a client registers is what the server lists: reading the payload that
  \<^verbatim>\<open>object_getRegisterPayload\<close> wrote yields the objects with their versions and instances.
\<close>

section \<open>The payload as a list of links\<close>

definition comma :: bytes where "comma = [ch_comma]"

definition object_link :: "u16 \<Rightarrow> bytes" where
  "object_link oid = link_start oid @ [ch_greater]"

definition instance_link_text :: "u16 \<Rightarrow> u16 \<Rightarrow> bytes" where
  "instance_link_text oid i = link_start oid @ [ch_slash] @ dec_digits (unat i) @ [ch_greater]"

definition version_link :: "u16 \<Rightarrow> u8 \<Rightarrow> u8 \<Rightarrow> bytes" where
  "version_link oid major minor =
     link_start oid @ [ch_greater, ch_semicolon] @ ascii ''ver='' @ dec_digits (unat major) @ [ch_dot] @
     dec_digits (unat minor)"

definition links_of :: "'s lwm2m_object \<Rightarrow> bytes list" where
  "links_of ob =
     (if has_version ob then [version_link (o_objID ob) (o_versionMajor ob) (o_versionMinor ob)]
      else if instances_of ob = [] then [object_link (o_objID ob)] else []) @
     map (instance_link_text (o_objID ob)) (instances_of ob)"

definition with_commas :: "bytes list \<Rightarrow> bytes" where
  "with_commas ls = concat (map (\<lambda>l. l @ [ch_comma]) ls)"

lemma with_commas_simps [simp]:
  "with_commas [] = []" "with_commas (l # ls) = l @ ch_comma # with_commas ls"
  "with_commas (ls @ ms) = with_commas ls @ with_commas ms"
  by (simp_all add: with_commas_def)

lemma object_text_links: "object_text ob = with_commas (links_of ob)"
proof -
  have "concat (map (instance_text oid) is) = with_commas (map (instance_link_text oid) is)" for oid "is"
    by (induction "is") (simp_all add: instance_text_def instance_link_text_def ascii_def)
  then show ?thesis
    by (simp add: object_text_def links_of_def version_link_def object_link_def ascii_def)
qed

definition root_link :: "build \<Rightarrow> bytes" where
  "root_link cfg =
     ascii (if support_senml cfg then ''</>;rt=\"oma.lwm2m\";ct=110''
            else if support_json cfg then ''</>;rt=\"oma.lwm2m\";ct=11543''
            else ''</>;rt=\"oma.lwm2m\"'')"

definition listed :: "'s client \<Rightarrow> 's lwm2m_object list" where
  "listed c = filter (\<lambda>ob. o_objID ob \<noteq> LWM2M_SECURITY_OBJECT_ID) (cl_objectList c)"

lemma objects_text_links:
  assumes "cl_altPath c = None"
  shows "objects_text cfg c = with_commas (root_link cfg # concat (map links_of (listed c)))"
proof -
  have "concat (map object_text obs) = with_commas (concat (map links_of obs))" for obs :: "'a lwm2m_object list"
    by (induction obs) (simp_all add: object_text_links)
  with assms show ?thesis
    by (simp add: objects_text_def root_path_def root_link_def listed_def REG_DEFAULT_PATH_def
        REG_LWM2M_RESOURCE_TYPE_def ascii_def)
qed

text \<open>Decoding link after link.\<close>

fun decode_list :: "build \<Rightarrow> allocator \<Rightarrow> bytes list \<Rightarrow> decoded_payload \<Rightarrow> decoded_payload option option" where
  "decode_list cfg mem [] d = Some (Some d)"
| "decode_list cfg mem (l # ls) d =
     (case decode_link cfg mem l (if ls = [] then None else Some ch_comma) d of
        None \<Rightarrow> None
      | Some None \<Rightarrow> Some None
      | Some (Some d) \<Rightarrow> decode_list cfg mem ls d)"

definition link_text :: "bytes \<Rightarrow> bool" where
  "link_text l \<longleftrightarrow> l \<noteq> [] \<and> hd l \<noteq> ch_space \<and> ch_comma \<notin> set l"

lemma skip_no_space [simp]: "link_text l \<Longrightarrow> skip_spaces (l @ r) = l @ r"
  by (cases l) (simp_all add: link_text_def skip_spaces_def)

lemma take_link [simp]: "link_text l \<Longrightarrow> takeWhile (\<lambda>c. c \<noteq> ch_comma) (l @ ch_comma # r) = l"
  by (subst takeWhile_append2) (auto simp: link_text_def)

lemma take_last_link [simp]: "link_text l \<Longrightarrow> takeWhile (\<lambda>c. c \<noteq> ch_comma) l = l"
  by (auto simp: link_text_def takeWhile_eq_all_conv)

lemma decode_links_list:
  assumes "list_all link_text ls"
  shows "decode_links cfg mem (butlast (with_commas ls)) d = decode_list cfg mem ls d"
  using assms
proof (induction ls arbitrary: d)
  case Nil
  then show ?case by (simp add: decode_links.simps skip_spaces_def)
next
  case (Cons l ls)
  have l: "link_text l" "l \<noteq> []" using Cons.prems by (simp_all add: link_text_def)
  show ?case
  proof (cases ls)
    case Nil
    then have "butlast (with_commas (l # ls)) = l" by (simp add: butlast_append)
    moreover have "skip_spaces l = l" using skip_no_space [OF l(1), of "[]"] by simp
    moreover have "decode_links cfg mem [] e = Some (Some e)" for e
      by (simp add: decode_links.simps skip_spaces_def)
    ultimately show ?thesis using l Nil
      by (subst decode_links.simps) (simp split: option.splits)
  next
    case longer: (Cons l' ls')
    let ?rest = "butlast (with_commas ls)"
    have whole: "butlast (with_commas (l # ls)) = l @ ch_comma # ?rest"
      using longer by (simp add: butlast_append)
    have "decode_links cfg mem ?rest d = decode_list cfg mem ls d" for d
      using Cons by simp
    with l longer show ?thesis unfolding whole
      by (subst decode_links.simps) (simp del: with_commas_simps split: option.splits)
  qed
qed

section \<open>Reading one link\<close>

abbreviation (input) id_digits :: "u16 \<Rightarrow> bytes" where "id_digits i \<equiv> dec_digits (unat i)"

lemma digits_plain: "c \<in> set (dec_digits n) \<Longrightarrow> 48 \<le> c \<and> c \<le> 57"
  using dec_digits_all [of c n] by (simp add: is_digit8_def)

lemma digits_not [simp]: "c < 48 \<or> 57 < c \<Longrightarrow> c \<notin> set (dec_digits n)"
  using digits_plain by (metis linorder_not_less)

lemma take_digits:
  assumes "c < 48 \<or> 57 < c"
  shows "takeWhile (\<lambda>x. x \<noteq> c) (dec_digits n) = dec_digits n"
    and "takeWhile (\<lambda>x. x \<noteq> c) (dec_digits n @ c # rest) = dec_digits n"
  using digits_not [OF assms, of n] by (auto simp: takeWhile_eq_all_conv takeWhile_tail)

lemma trim_link: "l \<noteq> [] \<Longrightarrow> last l \<noteq> ch_space \<Longrightarrow> trim_spaces l = l"
  by (cases l rule: rev_cases) (simp_all add: trim_spaces_def)

lemma last_digits: "last (dec_digits n) \<noteq> ch_space" "last (dec_digits n) \<noteq> ch_quote"
  using digits_plain [OF last_in_set, OF dec_digits_not_Nil, of n] by auto

lemma hd_digits: "hd (dec_digits n) \<noteq> ch_quote"
  using digits_plain [OF hd_in_set, OF dec_digits_not_Nil, of n] by auto

lemma id_number:
  assumes "(i :: u16) \<noteq> 65535"
  shows "uri_getNumber (id_digits i) = Some (uint i)" and "number_ok (uint i)"
proof -
  have "unat i < 65536" using unsigned_less [of i, where 'a = nat] by simp
  moreover have "unat i \<noteq> 65535" using assms by (simp add: word_unat_eq_iff)
  ultimately have "unat i < 65535" by simp
  moreover from this have "uint i < 65535" unfolding uint_nat by linarith
  ultimately show "uri_getNumber (id_digits i) = Some (uint i)" "number_ok (uint i)"
    using getNumber_digits [of "unat i"] by (simp_all add: number_ok_def)
qed

lemma link_start_eq: "link_start oid = ch_less # ch_slash # id_digits oid"
  by (simp add: link_start_def ascii_def)

lemma take_id:
  assumes "hd rest = ch_slash \<or> hd rest = ch_greater" "rest \<noteq> []"
  shows "takeWhile (\<lambda>c. c \<noteq> ch_slash \<and> c \<noteq> ch_greater) (dec_digits n @ rest) = dec_digits n"
proof -
  have "takeWhile (\<lambda>c. c \<noteq> ch_slash \<and> c \<noteq> ch_greater) (dec_digits n @ rest) =
      dec_digits n @ takeWhile (\<lambda>c. c \<noteq> ch_slash \<and> c \<noteq> ch_greater) rest"
    by (rule takeWhile_append2) (use digits_plain in fastforce)
  with assms show ?thesis by (cases rest) auto
qed

lemma getId_object:
  assumes "oid \<noteq> 65535" "hd rest = ch_slash \<or> hd rest = ch_greater" "rest \<noteq> []" "last rest \<noteq> ch_space"
  shows "prv_getId (link_start oid @ rest) after =
    (if hd rest = ch_slash then
       (let data = tl rest; digits = takeWhile (\<lambda>c. c \<noteq> ch_greater) data in
        if length digits = length data then Some None
        else if digits = [] then finish_id after oid None data
        else
          (case uri_getNumber digits of
             None \<Rightarrow> None
           | Some i \<Rightarrow>
               if \<not> number_ok i then Some None
               else finish_id after oid (Some (of_int i)) (drop (length digits) data)))
     else finish_id after oid None rest)"
proof -
  have trim: "trim_spaces (ch_less # ch_slash # id_digits oid @ rest) = ch_less # ch_slash # id_digits oid @ rest"
    using assms by (intro trim_link) auto
  show ?thesis
    unfolding link_start_eq
    by (simp add: prv_getId_def trim take_id assms id_number Let_def split: option.splits)
qed

lemma getId_object_link: "oid \<noteq> 65535 \<Longrightarrow> prv_getId (object_link oid) after =
    Some (Some \<lparr>li_object = oid, li_instance = None, li_version = (0, 0)\<rparr>)"
  by (simp add: object_link_def getId_object finish_id_def)

lemma getId_instance_link:
  assumes "oid \<noteq> 65535" "i \<noteq> 65535"
  shows "prv_getId (instance_link_text oid i) after =
    Some (Some \<lparr>li_object = oid, li_instance = Some i, li_version = (0, 0)\<rparr>)"
  using assms by (simp add: instance_link_text_def getId_object take_digits id_number finish_id_def)

lemma digits_u8: "utils_textToUInt (dec_digits (unat (v :: u8))) = Some (ucast v)"
  using textToUInt_digits [of "ucast v"] by simp

lemma version_of_digits:
  "version_of (ascii ''ver='' @ dec_digits (unat (major :: u8)) @ [ch_dot] @ dec_digits (unat (minor :: u8))) =
    Some (major, minor)"
proof -
  let ?major = "dec_digits (unat major)" and ?minor = "dec_digits (unat minor)"
  let ?body = "?major @ [ch_dot] @ ?minor"
  have small: "\<not> 255 < (ucast v :: u64)" for v :: u8
    using unat_u8_less [of v] by (simp add: word_less_nat_alt del: unat_u8_less)
  have pos: "0 < length ?major" "0 < length ?minor" by simp_all
  have dot: "1 + length (takeWhile (\<lambda>c. c \<noteq> ch_dot) (drop 1 ?body)) = length ?major"
    using take_digits(2) [of ch_dot "unat major" ?minor] dec_digits_not_Nil [of "unat major"]
    by (cases ?major) (auto split: if_splits)
  have size: "\<not> length (ascii ''ver='' @ ?body) < 6" "drop 4 (ascii ''ver='' @ ?body) = ?body"
    using pos by (simp_all add: ascii_def del: length_greater_0_conv)
  have quotes: "hd ?body \<noteq> ch_quote" "last (ascii ''ver='' @ ?body) \<noteq> ch_quote"
    using hd_digits last_digits by simp_all
  have parts: "take (length ?major) ?body = ?major" "drop (length ?major + 1) ?body = ?minor"
    "\<not> int (length ?major) > int (length ?body) - 2"
    using pos by simp_all
  show ?thesis
    unfolding version_of_def
    by (simp only: size quotes if_False Let_def dot parts digits_u8 option.case simp_thms)
      (simp add: small)
qed

lemma getId_version_link:
  assumes "oid \<noteq> 65535"
  shows "prv_getId (version_link oid major minor) (Some ch_comma) =
    Some (Some \<lparr>li_object = oid, li_instance = None, li_version = (major, minor)\<rparr>)"
proof -
  let ?attr = "ascii ''ver='' @ dec_digits (unat major) @ [ch_dot] @ dec_digits (unat minor)"
  let ?rest = "ch_greater # ch_semicolon # ?attr"
  have "c \<noteq> ch_semicolon" if "c \<in> set ?attr" for c
    using that digits_plain by (fastforce simp: ascii_def)
  then have attr: "takeWhile (\<lambda>c. c \<noteq> ch_semicolon) ?attr = ?attr"
    by (simp only: takeWhile_eq_all_conv) blast
  have more: "skip_spaces ?attr = ?attr" "?attr \<noteq> []" "4 < length ?attr" "take 4 ?attr = ascii ''ver=''"
    by (simp_all add: skip_spaces_def ascii_def)
  have "version_attributes (Some ch_comma) ?attr (0, 0) = Some (Some (major, minor))"
    by (subst version_attributes.simps)
      (simp only: more attr version_of_digits Let_def if_False if_True simp_thms option.case drop_all order_refl, simp)
  then have "finish_id (Some ch_comma) oid None ?rest =
      Some (Some \<lparr>li_object = oid, li_instance = None, li_version = (major, minor)\<rparr>)"
    by (simp add: finish_id_def)
  moreover have "version_link oid major minor = link_start oid @ ?rest" by (simp add: version_link_def)
  ultimately show ?thesis using getId_object [OF assms, of ?rest] last_digits by simp
qed

lemma getId_root: "prv_getId (root_link cfg) after = Some None"
  by (simp add: prv_getId_def root_link_def trim_spaces_def ascii_def)

definition listed_format :: "build \<Rightarrow> lwm2m_media_type" where
  "listed_format cfg =
     (if support_senml cfg then LWM2M_CONTENT_SENML_JSON
      else if support_json cfg then LWM2M_CONTENT_JSON else LWM2M_CONTENT_TLV)"

lemma parse_root: "prv_parseLinkAttributes cfg mem (root_link cfg) LWM2M_CONTENT_TLV = Some (listed_format cfg, None)"
  by (simp add: prv_parseLinkAttributes_def root_link_def listed_format_def trim_spaces_def ascii_def
      link_attributes.simps prv_splitLinkAttribute_def content_format_def Let_def)

section \<open>Building the list of objects\<close>

lemma list_at_end:
  assumes "\<forall>x \<in> set xs. key x < key n"
  shows "lwm2m_list_add key xs n = xs @ [n]" and "lwm2m_list_find key xs (key n) = None"
    and "key m = key n \<Longrightarrow> lwm2m_list_find key (xs @ [m]) (key n) = Some m"
    and "key m = key n \<Longrightarrow> list_put key (xs @ [m]) n = xs @ [n]"
proof -
  have after: "list_add_after key xs n = xs @ [n]" if "\<forall>x \<in> set xs. key x < key n" for xs
    using that by (induction xs) auto
  show "lwm2m_list_add key xs n = xs @ [n]"
    using assms by (cases xs) (auto simp: after)
  show "lwm2m_list_find key xs (key n) = None"
    "key m = key n \<Longrightarrow> lwm2m_list_find key (xs @ [m]) (key n) = Some m"
    "key m = key n \<Longrightarrow> list_put key (xs @ [m]) n = xs @ [n]"
    using assms by (induction xs) auto
qed

definition client_object :: "u16 \<Rightarrow> u8 \<Rightarrow> u8 \<Rightarrow> u16 list \<Rightarrow> lwm2m_client_object" where
  "client_object i major minor is =
     \<lparr>co_id = i, co_versionMajor = major, co_versionMinor = minor, co_instanceList = is\<rparr>"

lemma client_object_id [simp]: "co_id (client_object i major minor is) = i"
  by (simp add: client_object_def)

lemma add_link_new:
  assumes "\<forall>x \<in> set acc. co_id x < oid" "\<forall>n. mem n"
  shows "add_link mem \<lparr>li_object = oid, li_instance = None, li_version = (major, minor)\<rparr> acc =
      Some (acc @ [client_object oid major minor []])"
    and "add_link mem \<lparr>li_object = oid, li_instance = Some i, li_version = v\<rparr> acc =
      Some (acc @ [client_object oid 0 0 [i]])"
proof -
  let ?new = "client_object oid 0 0 []"
  have new: "\<lparr>co_id = oid, co_versionMajor = 0, co_versionMinor = 0, co_instanceList = []\<rparr> = ?new"
    by (simp add: client_object_def)
  have ends: "lwm2m_list_add co_id acc ?new = acc @ [?new]" "lwm2m_list_find co_id acc oid = None"
    "co_id ob = oid \<Longrightarrow> list_put co_id (acc @ [?new]) ob = acc @ [ob]" for ob
    using list_at_end [of acc co_id ?new] list_at_end(4) [of acc co_id ob ?new] assms(1) by simp_all
  show "add_link mem \<lparr>li_object = oid, li_instance = None, li_version = (major, minor)\<rparr> acc =
      Some (acc @ [client_object oid major minor []])"
    "add_link mem \<lparr>li_object = oid, li_instance = Some i, li_version = v\<rparr> acc =
      Some (acc @ [client_object oid 0 0 [i]])"
    using assms(2) by (simp_all add: add_link_def new ends Let_def) (simp_all add: ends client_object_def)
qed

lemma add_link_instance:
  assumes "\<forall>x \<in> set acc. co_id x < oid" "\<forall>n. mem n" "\<forall>j \<in> set is. j < i"
  shows "add_link mem \<lparr>li_object = oid, li_instance = Some i, li_version = v\<rparr> (acc @ [client_object oid major minor is]) =
      Some (acc @ [client_object oid major minor (is @ [i])])"
proof -
  let ?ob = "client_object oid major minor is" and ?ob' = "client_object oid major minor (is @ [i])"
  have ends: "lwm2m_list_find co_id (acc @ [?ob]) oid = Some ?ob" "list_put co_id (acc @ [?ob]) ?ob' = acc @ [?ob']"
    using list_at_end(3) [of acc co_id ?ob ?ob] list_at_end(4) [of acc co_id ?ob' ?ob] assms(1) by simp_all
  have "lwm2m_list_add id is i = is @ [i]" "lwm2m_list_find id is i = None"
    using list_at_end(1,2) [of "is" id i] assms(3) by simp_all
  then show ?thesis
    using assms(2) ends by (simp add: add_link_def Let_def) (simp add: client_object_def)
qed

section \<open>Reading the whole payload\<close>

lemma decode_instances:
  assumes "\<forall>x \<in> set acc. co_id x < oid" "\<forall>n. mem n" "oid \<noteq> 65535" "65535 \<notin> set is" "ids_sorted id is"
    and "\<forall>j \<in> set before. \<forall>i \<in> set is. j < i" "dp_objects d = acc @ [client_object oid major minor before]"
  shows "decode_list cfg mem (map (instance_link_text oid) is @ ls) d =
    decode_list cfg mem ls (d\<lparr>dp_objects := acc @ [client_object oid major minor (before @ is)]\<rparr>)"
  using assms(4-)
proof (induction "is" arbitrary: before d)
  case Nil
  then have "d\<lparr>dp_objects := acc @ [client_object oid major minor before]\<rparr> = d" by (cases d) simp
  then show ?case by simp
next
  case (Cons i "is")
  have "add_link mem \<lparr>li_object = oid, li_instance = Some i, li_version = (0, 0)\<rparr> (dp_objects d) =
      Some (acc @ [client_object oid major minor (before @ [i])])"
    using add_link_instance [OF assms(1,2), of before i] Cons.prems by simp
  moreover have "prv_getId (instance_link_text oid i) after =
      Some (Some \<lparr>li_object = oid, li_instance = Some i, li_version = (0, 0)\<rparr>)" for after
    using getId_instance_link assms(3) Cons.prems by simp
  ultimately show ?case
    using Cons.prems Cons.IH [of "before @ [i]" "d\<lparr>dp_objects := acc @ [client_object oid major minor (before @ [i])]\<rparr>"]
    by (auto simp: decode_link_def)
qed

definition listed_object :: "'s lwm2m_object \<Rightarrow> lwm2m_client_object" where
  "listed_object ob = client_object (o_objID ob) (o_versionMajor ob) (o_versionMinor ob) (instances_of ob)"

definition readable :: "'s lwm2m_object \<Rightarrow> bool" where
  "readable ob \<longleftrightarrow> o_objID ob \<noteq> 65535 \<and> 65535 \<notin> set (instances_of ob) \<and> ids_sorted id (instances_of ob)"

lemma decode_object:
  assumes "\<forall>x \<in> set acc. co_id x < o_objID ob" "\<forall>n. mem n" "readable ob" "dp_objects d = acc"
    and "has_version ob \<Longrightarrow> instances_of ob \<noteq> [] \<or> ls \<noteq> []"
  shows "decode_list cfg mem (links_of ob @ ls) d =
    decode_list cfg mem ls (d\<lparr>dp_objects := acc @ [listed_object ob]\<rparr>)"
proof -
  let ?oid = "o_objID ob" and ?is = "instances_of ob"
  note ids = assms(3) [unfolded readable_def]
  have insts: "decode_list cfg mem (map (instance_link_text ?oid) is @ ls) (d\<lparr>dp_objects := acc @ [client_object ?oid major minor before]\<rparr>) =
      decode_list cfg mem ls (d\<lparr>dp_objects := acc @ [client_object ?oid major minor (before @ is)]\<rparr>)"
    if "?is = before @ is" for "is" before major minor
    using that ids
    by (subst decode_instances [OF assms(1,2), of _ before _ major minor])
      (auto simp: ids_sorted_def sorted_wrt_append)
  have add: "add_link mem \<lparr>li_object = ?oid, li_instance = None, li_version = (major, minor)\<rparr> (dp_objects d) =
      Some (acc @ [client_object ?oid major minor []])"
    "add_link mem \<lparr>li_object = ?oid, li_instance = Some i, li_version = (0, 0)\<rparr> (dp_objects d) =
      Some (acc @ [client_object ?oid 0 0 [i]])" for major minor i
    using add_link_new [OF assms(1,2)] assms(4) by simp_all
  show ?thesis
  proof (cases "has_version ob")
    case True
    define ms where "ms = map (instance_link_text ?oid) ?is @ ls"
    have "ms \<noteq> []" using True assms(5) by (simp add: ms_def)
    then have "decode_list cfg mem (version_link ?oid (o_versionMajor ob) (o_versionMinor ob) # ms) d =
        decode_list cfg mem ms
          (d\<lparr>dp_objects := acc @ [client_object ?oid (o_versionMajor ob) (o_versionMinor ob) []]\<rparr>)"
      using ids add by (simp add: decode_link_def getId_version_link)
    with True show ?thesis
      using insts [of "[]" ?is] by (simp add: links_of_def listed_object_def ms_def)
  next
    case False
    then have version: "o_versionMajor ob = 0" "o_versionMinor ob = 0" by (simp_all add: has_version_def)
    show ?thesis
    proof (cases ?is)
      case Nil
      with False ids add show ?thesis
        by (simp add: links_of_def decode_link_def getId_object_link listed_object_def version)
    next
      case (Cons i "is")
      have "prv_getId (instance_link_text ?oid i) after =
          Some (Some \<lparr>li_object = ?oid, li_instance = Some i, li_version = (0, 0)\<rparr>)" for after
        using getId_instance_link ids Cons by simp
      with False Cons add insts [of "[i]" "is"] show ?thesis
        by (simp add: links_of_def decode_link_def listed_object_def version)
    qed
  qed
qed

lemma decode_objects:
  assumes "ids_sorted o_objID obs" "\<forall>n. mem n" "\<forall>ob \<in> set obs. readable ob"
    and "\<forall>x \<in> set acc. \<forall>ob \<in> set obs. co_id x < o_objID ob" "dp_objects d = acc"
    and "obs \<noteq> [] \<Longrightarrow> has_version (last obs) \<Longrightarrow> instances_of (last obs) \<noteq> []"
  shows "decode_list cfg mem (concat (map links_of obs)) d =
    Some (Some (d\<lparr>dp_objects := acc @ map listed_object obs\<rparr>))"
  using assms
proof (induction obs arbitrary: acc d)
  case Nil
  then show ?case by (cases d) simp
next
  case (Cons ob obs)
  have "concat (map links_of obs) \<noteq> []" if "obs \<noteq> []"
    using that by (cases obs) (auto simp: links_of_def)
  then have later: "instances_of ob \<noteq> [] \<or> concat (map links_of obs) \<noteq> []" if "has_version ob"
    using that Cons.prems(6) by (cases "obs = []") auto
  have last: "obs \<noteq> [] \<Longrightarrow> has_version (last obs) \<Longrightarrow> instances_of (last obs) \<noteq> []"
    using Cons.prems(6) by simp
  have "co_id (listed_object ob) = o_objID ob" by (simp add: listed_object_def)
  then show ?case
    using Cons.prems decode_object [OF _ Cons.prems(2) _ Cons.prems(5), of ob "concat (map links_of obs)" cfg] later
      Cons.IH [OF _ _ _ _ _ last, of "acc @ [listed_object ob]" "d\<lparr>dp_objects := acc @ [listed_object ob]\<rparr>"]
    by (simp add: ball_Un)
qed

section \<open>The round trip\<close>

lemma link_texts:
  "link_text (root_link cfg)" "list_all link_text (links_of ob)"
proof -
  show "link_text (root_link cfg)" by (simp add: link_text_def root_link_def ascii_def)
  have "link_text (instance_link_text oid i)" "link_text (object_link oid)" "link_text (version_link oid major minor)"
    for oid i major minor
    by (simp_all add: link_text_def instance_link_text_def object_link_def version_link_def link_start_eq ascii_def)
  then show "list_all link_text (links_of ob)" by (auto simp: links_of_def list_all_iff)
qed

lemma objects_text_read:
  assumes "cl_altPath c = None" "ids_sorted o_objID (listed c)" "\<forall>ob \<in> set (listed c). readable ob"
    and "listed c \<noteq> [] \<Longrightarrow> has_version (last (listed c)) \<Longrightarrow> instances_of (last (listed c)) \<noteq> []"
    and "\<forall>n. mem n"
  shows "prv_decodeRegisterPayload cfg mem (butlast (objects_text cfg c)) =
    Some (map listed_object (listed c), listed_format cfg, None)"
proof -
  let ?start = "\<lparr>dp_objects = [], dp_format = LWM2M_CONTENT_TLV, dp_altPath = None, dp_linkFound = False\<rparr>"
  let ?links = "concat (map links_of (listed c))"
  have "list_all link_text (root_link cfg # ?links)"
    using link_texts by (auto simp: list_all_iff)
  then have "decode_links cfg mem (butlast (objects_text cfg c)) ?start = decode_list cfg mem (root_link cfg # ?links) ?start"
    unfolding objects_text_links [OF assms(1)] by (rule decode_links_list)
  also have "\<dots> = decode_list cfg mem ?links (?start\<lparr>dp_format := listed_format cfg, dp_linkFound := True\<rparr>)"
    by (simp add: decode_link_def getId_root parse_root)
  also have "\<dots> = Some (Some (?start\<lparr>dp_format := listed_format cfg, dp_linkFound := True, dp_objects := [] @ map listed_object (listed c)\<rparr>))"
    using assms by (subst decode_objects [of _ _ "[]"]) simp_all
  finally show ?thesis by (simp add: prv_decodeRegisterPayload_def)
qed

text \<open>
  C8: The server lists what the client registered. Reading the payload that \<^verbatim>\<open>object_getRegisterPayload\<close>
  wrote yields the objects of the client but the Security object, in their order, each with its version and
  its instances, the preferred format of the client, and no alternative path. The last object must not end
  the payload with its version, as the server then reads beyond the payload.
\<close>

theorem register_payload_decodes:
  assumes "\<forall>ob \<in> set (cl_objectList c). version_1_0 cfg \<or> o_objID ob \<noteq> LWM2M_OSCORE_OBJECT_ID"
    and "cl_altPath c = None" "ids_sorted o_objID (listed c)" "\<forall>ob \<in> set (listed c). readable ob"
    and "listed c \<noteq> [] \<Longrightarrow> has_version (last (listed c)) \<Longrightarrow> instances_of (last (listed c)) \<noteq> []"
    and "\<forall>n. mem n"
  shows "prv_decodeRegisterPayload cfg mem
      (snd (object_getRegisterPayload cfg (object_getRegisterPayloadBufferLength cfg c) c)) =
    Some (map listed_object (listed c), listed_format cfg, None)"
  using payload_text(2) [OF assms(1)] objects_text_read [OF assms(2-6)] by simp

theorem register_payload_decodes_witness:
  "(let c = bare_client [bare_object 0 0 0 [0], bare_object 1 0 0 [0, 12], bare_object 3 1 1 [0], bare_object 5 0 0 []]
    in prv_decodeRegisterPayload client_build (\<lambda>n. True)
        (snd (object_getRegisterPayload client_build (object_getRegisterPayloadBufferLength client_build c) c))) =
   Some ([client_object 1 0 0 [0, 12], client_object 3 1 1 [0], client_object 5 0 0 []], LWM2M_CONTENT_SENML_JSON, None)"
proof -
  let ?c = "bare_client [bare_object 0 0 0 [0], bare_object 1 0 0 [0, 12], bare_object 3 1 1 [0], bare_object 5 0 0 []]"
  have listed: "listed ?c = [bare_object 1 0 0 [0, 12], bare_object 3 1 1 [0], bare_object 5 0 0 []]"
    by (simp add: listed_def bare_client_def bare_object_def)
  show ?thesis
    unfolding Let_def
    by (subst register_payload_decodes)
      (simp_all add: listed, simp_all add: bare_client_def bare_object_def readable_def instances_of_def has_version_def
        listed_object_def listed_format_def client_build_def)
qed

end
