(* ===== verification/Registration_Client.thy ===== *)
theory Registration_Client
  imports Registration_State Registration_Roundtrip
begin

text \<open>
  The messages of a registration (\<^verbatim>\<open>core/registration.c\<close>, lines 631 to 931 and 1133 to 1181) and the
  client part of its periodic step (lines 2051 to 2125): registering, updating and leaving, and what the
  answers do.

  A callback gets its server through the \<open>userData\<close> of its transaction. The address of a
  \<^verbatim>\<open>registration_data_t\<close> is a number that tells the message it was made for and the server it
  names, which never changes; that of a server is its number in the list. Releasing the data has no effect
  on anything else.
\<close>

text \<open>What the platform provides: new sessions, the transport, and the size of blocks that was set.\<close>

record platform =
  pf_connect :: "u16 \<Rightarrow> nat option"
  pf_transport :: "nat \<Rightarrow> bytes \<Rightarrow> u8"
  pf_block_size :: u16

definition registration_data :: "u16 \<Rightarrow> u16 \<Rightarrow> nat" where
  "registration_data mID server = (65536 + unat mID) * 65536 + unat server"

definition data_server :: "nat \<Rightarrow> u16" where
  "data_server p = of_nat (p mod 65536)"

lemma data_server_data [simp]: "data_server (registration_data mID server) = server"
proof -
  have "unat server < 65536" using unsigned_less [of server, where 'a = nat] by simp
  then have "registration_data mID server mod 65536 = unat server"
    unfolding registration_data_def by (metis mod_less mod_mult_self3)
  then show ?thesis by (simp add: data_server_def)
qed

lemma data_server_pointer [simp]: "data_server (unat server) = server"
proof -
  have "unat server < 65536" using unsigned_less [of server, where 'a = nat] by simp
  then show ?thesis by (simp add: data_server_def)
qed

definition sizeof_registration_data :: nat where "sizeof_registration_data = 24"

abbreviation (input) COAP_POST :: u8 where "COAP_POST \<equiv> 2"
abbreviation (input) REGISTRATION_REPLY :: nat where "REGISTRATION_REPLY \<equiv> 0"
abbreviation (input) REGISTRATION_UPDATE_REPLY :: nat where "REGISTRATION_UPDATE_REPLY \<equiv> 1"
abbreviation (input) DEREGISTRATION_REPLY :: nat where "DEREGISTRATION_REPLY \<equiv> 2"

section \<open>Answers\<close>

text \<open>The transfer of the payload goes on: the next block was asked for, or a smaller one.\<close>

definition transfer_goes_on :: "coap_packet \<Rightarrow> bool" where
  "transfer_goes_on m \<longleftrightarrow>
     p_code m = COAP_231_CONTINUE \<or>
     p_code m = COAP_413_ENTITY_TOO_LARGE \<and> (\<not> IS_OPTION COAP_OPTION_BLOCK1 m \<or> p_block1_num m = 0)"

text \<open>After a registration the next ordered one starts, at once the first time.\<close>

definition registered_next :: "env \<Rightarrow> lwm2m_server \<Rightarrow> 's client \<Rightarrow> 's client option" where
  "registered_next E sv c =
     (case find_object c LWM2M_SERVER_OBJECT_ID of
        None \<Rightarrow> Some c
      | Some ob \<Rightarrow> do {
          (result, ordered, _) \<leftarrow> prv_getRegistrationOrder E ob sv;
          if \<not> (result = COAP_NO_ERROR \<and> ordered) then Some c
          else if sv_sequence sv = 1 then map_option snd (registration_start E False c)
          else do {
            (result, blocking) \<leftarrow> prv_getRegistrationFailureBlocking E ob sv;
            if result \<noteq> COAP_NO_ERROR then Some c
            else do {
              blocking \<leftarrow> blocking;
              if \<not> blocking then map_option snd (registration_start E False c) else Some c
            }
          }
        })"

definition touch :: "env \<Rightarrow> lwm2m_server \<Rightarrow> lwm2m_server" where
  "touch E sv = (if 0 \<le> e_now E then sv\<lparr>sv_registration := e_now E\<rparr> else sv)"

definition prv_handleRegistrationReply :: "env \<Rightarrow> transaction \<Rightarrow> coap_packet option \<Rightarrow> 's client \<Rightarrow> 's client option" where
  "prv_handleRegistrationReply E t answer c =
     do {
       dataP \<leftarrow> t_userData t;
       sv \<leftarrow> find_server c (data_server dataP);
       if sv_status sv \<noteq> STATE_REG_PENDING then Some c
       else
         let sv = touch E sv; c = put_server sv c;
             failed = (if version_1_0 (e_cfg E) then Some (put_server (sv\<lparr>sv_status := STATE_REG_FAILED\<rparr>) c)
                       else prv_handleRegistrationAttemptFailure E (sv_secObjInstID sv) c)
         in
         (case answer of
            None \<Rightarrow> failed
          | Some m \<Rightarrow>
              if transfer_goes_on m then Some c
              else if p_code m = COAP_201_CREATED then
                let sv = sv\<lparr>sv_status := STATE_REGISTERED,
                           sv_location := coap_get_multi_option_as_path_string (e_mem E) (p_location_path m)\<rparr>;
                    c = put_server sv c
                in if version_1_0 (e_cfg E) then Some c else registered_next E sv c
              else failed)
     }"

definition prv_handleRegistrationUpdateReply ::
  "env \<Rightarrow> transaction \<Rightarrow> coap_packet option \<Rightarrow> 's client \<Rightarrow> 's client option" where
  "prv_handleRegistrationUpdateReply E t answer c =
     do {
       dataP \<leftarrow> t_userData t;
       sv \<leftarrow> find_server c (data_server dataP);
       if sv_status sv \<noteq> STATE_REG_UPDATE_PENDING then Some c
       else
         let sv = touch E sv in
         Some (put_server
           (case answer of
              None \<Rightarrow> sv\<lparr>sv_status := STATE_REG_FAILED\<rparr>
            | Some m \<Rightarrow>
                if transfer_goes_on m then sv
                else if p_code m = COAP_204_CHANGED then sv\<lparr>sv_status := STATE_REGISTERED\<rparr>
                else sv\<lparr>sv_status := STATE_REG_FAILED\<rparr>) c)
     }"

definition prv_handleDeregistrationReply :: "transaction \<Rightarrow> 's client \<Rightarrow> 's client option" where
  "prv_handleDeregistrationReply t c =
     (case t_userData t of
        None \<Rightarrow> Some c
      | Some p \<Rightarrow>
          map_option (\<lambda>sv.
              if sv_status sv = STATE_DEREG_PENDING then put_server (sv\<lparr>sv_status := STATE_DEREGISTERED\<rparr>) c else c)
            (find_server c (data_server p)))"

section \<open>Requests\<close>

definition with_client :: "('s client \<Rightarrow> 's client) \<Rightarrow> 's lwm2m_context \<Rightarrow> 's lwm2m_context" where
  "with_client f net = net\<lparr>n_app := f (n_app net)\<rparr>"

text \<open>The message identifier is taken whether or not the transaction can be made.\<close>

definition take_mid :: "'s lwm2m_context \<Rightarrow> u16 \<times> 's lwm2m_context" where
  "take_mid net = (cl_nextMID (n_app net), with_client (\<lambda>c. c\<lparr>cl_nextMID := cl_nextMID c + 1\<rparr>) net)"

definition add_transaction :: "transaction \<Rightarrow> 's lwm2m_context \<Rightarrow> 's lwm2m_context" where
  "add_transaction t net = net\<lparr>n_transactions := lwm2m_list_add t_mID (n_transactions net) t\<rparr>"

text \<open>The payload in a buffer of the measured length; \<open>Some None\<close> is \<^verbatim>\<open>5.00\<close>.\<close>

definition registration_payload :: "env \<Rightarrow> 's client \<Rightarrow> bytes option" where
  "registration_payload E c =
     (let n = object_getRegisterPayloadBufferLength (e_cfg E) c in
      if n = 0 \<or> \<not> e_mem E n then None
      else
        let (len, payload) = object_getRegisterPayload (e_cfg E) n c in
        if len = 0 then None else Some payload)"

definition registration_query :: "env \<Rightarrow> 's client \<Rightarrow> lwm2m_server \<Rightarrow> bytes option option" where
  "registration_query E c sv =
     (case prv_getRegistrationQueryLength (e_cfg E) c sv of
        None \<Rightarrow> None
      | Some n \<Rightarrow>
          if n = 0 \<or> \<not> e_mem E n then Some None
          else map_option (\<lambda>(r, query). if r = n then Some query else None) (prv_getRegistrationQuery (e_cfg E) c sv n))"

definition prv_register ::
  "env \<Rightarrow> platform \<Rightarrow> 's client callbacks \<Rightarrow> u16 \<Rightarrow> 's lwm2m_context \<Rightarrow> (u8 \<times> 's lwm2m_context) option" where
  "prv_register E P run i net =
     (case registration_payload E (n_app net) of
        None \<Rightarrow> Some (COAP_500_INTERNAL_SERVER_ERROR, net)
      | Some payload \<Rightarrow> do {
          sv \<leftarrow> find_server (n_app net) i;
          query \<leftarrow> registration_query E (n_app net) sv;
          case query of
            None \<Rightarrow> Some (COAP_500_INTERNAL_SERVER_ERROR, net)
          | Some query \<Rightarrow>
              let sv = (if sv_sessionH sv = None then sv\<lparr>sv_sessionH := pf_connect P i\<rparr> else sv);
                  net = with_client (put_server sv) net
              in
              if sv_sessionH sv = None then Some (COAP_503_SERVICE_UNAVAILABLE, net)
              else do {
                let (mID, net) = take_mid net;
                t \<leftarrow> transaction_new (e_cfg E) (e_mem E) (e_now E) (e_stack E) (sv_sessionH sv) COAP_POST None None mID 4 None;
                case t of
                  None \<Rightarrow> Some (COAP_503_SERVICE_UNAVAILABLE, net)
                | Some t \<Rightarrow>
                    let m = fst (coap_set_header_uri_path (e_mem E) (t_message t) (ascii ''/rd''));
                        m = fst (coap_set_header_uri_query (e_mem E) m query);
                        m = fst (coap_set_header_content_type m (ucast (media_type_num LWM2M_CONTENT_LINK)));
                        (ok, t) = transaction_set_payload (e_mem E) (pf_block_size P) (t\<lparr>t_message := m\<rparr>) payload
                    in
                    if \<not> ok \<or> \<not> e_mem E sizeof_registration_data then Some (COAP_503_SERVICE_UNAVAILABLE, net)
                    else do {
                      let t = t\<lparr>t_callback := Some REGISTRATION_REPLY, t_userData := Some (registration_data mID i)\<rparr>;
                      (net, failed) \<leftarrow> transaction_send (e_mem E) (e_now E) run (add_transaction t net) t;
                      if failed \<noteq> 0 then Some (COAP_503_SERVICE_UNAVAILABLE, net)
                      else do {
                        sv \<leftarrow> find_server (n_app net) i;
                        let sv = (if version_1_0 (e_cfg E) then sv
                                  else sv\<lparr>sv_sequence := (if sv_attempt sv = 0 then sv_sequence sv + 1 else sv_sequence sv),
                                          sv_attempt := sv_attempt sv + 1\<rparr>);
                        Some (COAP_NO_ERROR, with_client (put_server (sv\<lparr>sv_status := STATE_REG_PENDING\<rparr>)) net)
                      }
                    }
              }
        })"

text \<open>A location that could not be stored is a null pointer, whose first character is read.\<close>

definition prv_updateRegistration ::
  "env \<Rightarrow> platform \<Rightarrow> 's client callbacks \<Rightarrow> u16 \<Rightarrow> bool \<Rightarrow> 's lwm2m_context \<Rightarrow> (u8 \<times> 's lwm2m_context) option" where
  "prv_updateRegistration E P run i withObjects net =
     do {
       sv \<leftarrow> find_server (n_app net) i;
       let (mID, net) = take_mid net;
       t \<leftarrow> transaction_new (e_cfg E) (e_mem E) (e_now E) (e_stack E) (sv_sessionH sv) COAP_POST None None mID 4 None;
       case t of
         None \<Rightarrow> Some (COAP_500_INTERNAL_SERVER_ERROR, net)
       | Some t \<Rightarrow> do {
           location \<leftarrow> sv_location sv;
           let t = t\<lparr>t_message := fst (coap_set_header_uri_path (e_mem E) (t_message t) location)\<rparr>;
           let (ok, t) =
             (if \<not> withObjects then (True, t)
              else
                (case registration_payload E (n_app net) of
                   None \<Rightarrow> (False, t)
                 | Some payload \<Rightarrow> transaction_set_payload (e_mem E) (pf_block_size P) t payload));
           if \<not> ok \<or> \<not> e_mem E sizeof_registration_data then Some (COAP_500_INTERNAL_SERVER_ERROR, net)
           else do {
             let t = t\<lparr>t_callback := Some REGISTRATION_UPDATE_REPLY, t_userData := Some (registration_data mID i)\<rparr>;
             (net, failed) \<leftarrow> transaction_send (e_mem E) (e_now E) run (add_transaction t net) t;
             if failed \<noteq> 0 then Some (COAP_NO_ERROR, net)
             else do {
               sv \<leftarrow> find_server (n_app net) i;
               Some (COAP_NO_ERROR, with_client (put_server (sv\<lparr>sv_status := STATE_REG_UPDATE_PENDING\<rparr>)) net)
             }
           }
         }
     }"

definition registration_deregister ::
  "env \<Rightarrow> 's client callbacks \<Rightarrow> u16 \<Rightarrow> 's lwm2m_context \<Rightarrow> 's lwm2m_context option" where
  "registration_deregister E run i net =
     do {
       sv \<leftarrow> find_server (n_app net) i;
       if sv_status sv \<in> {STATE_DEREGISTERED, STATE_REG_PENDING, STATE_DEREG_PENDING, STATE_REG_FAILED}
          \<or> sv_location sv = None
       then Some net
       else do {
         let (mID, net) = take_mid net;
         t \<leftarrow> transaction_new (e_cfg E) (e_mem E) (e_now E) (e_stack E) (sv_sessionH sv) COAP_DELETE None None mID 4 None;
         case t of
           None \<Rightarrow> Some net
         | Some t \<Rightarrow> do {
             location \<leftarrow> sv_location sv;
             let t = t\<lparr>t_message := fst (coap_set_header_uri_path (e_mem E) (t_message t) location),
                       t_callback := Some DEREGISTRATION_REPLY, t_userData := Some (unat i)\<rparr>;
             (net, failed) \<leftarrow> transaction_send (e_mem E) (e_now E) run (add_transaction t net) t;
             if failed \<noteq> 0 then Some net
             else do {
               sv \<leftarrow> find_server (n_app net) i;
               Some (with_client (put_server (sv\<lparr>sv_status := STATE_DEREG_PENDING\<rparr>)) net)
             }
           }
       }
     }"

text \<open>\<^verbatim>\<open>registration_start\<close> of version 1.0: the servers register one after the other, until one cannot.\<close>

fun register_all ::
  "env \<Rightarrow> platform \<Rightarrow> 's client callbacks \<Rightarrow> bool \<Rightarrow> u16 list \<Rightarrow> 's lwm2m_context \<Rightarrow> (u8 \<times> 's lwm2m_context) option" where
  "register_all E P run restartFailed [] net = Some (COAP_NO_ERROR, net)"
| "register_all E P run restartFailed (i # is) net =
     do {
       sv \<leftarrow> find_server (n_app net) i;
       (result, net) \<leftarrow> (if startable restartFailed sv then prv_register E P run i net else Some (COAP_NO_ERROR, net));
       if result = COAP_NO_ERROR then register_all E P run restartFailed is net else Some (result, net)
     }"

definition start_registrations ::
  "env \<Rightarrow> platform \<Rightarrow> 's client callbacks \<Rightarrow> bool \<Rightarrow> 's lwm2m_context \<Rightarrow> (u8 \<times> 's lwm2m_context) option" where
  "start_registrations E P run restartFailed net =
     (if version_1_0 (e_cfg E)
      then register_all E P run restartFailed (map sv_secObjInstID (cl_serverList (n_app net))) net
      else map_option (\<lambda>(result, c). (result, net\<lparr>n_app := c\<rparr>)) (registration_start E restartFailed (n_app net)))"

section \<open>The periodic step\<close>

abbreviation (input) COAP_MAX_TRANSMIT_WAIT :: int where "COAP_MAX_TRANSMIT_WAIT \<equiv> 93"

definition next_update :: "int \<Rightarrow> int" where
  "next_update lifetime = (if COAP_MAX_TRANSMIT_WAIT < lifetime then lifetime - COAP_MAX_TRANSMIT_WAIT else lifetime div 2)"

text \<open>The difference of two times that does not fit is undefined.\<close>

definition time_diff :: "int \<Rightarrow> int \<Rightarrow> int option" where
  "time_diff a b = (if - (2 ^ 63) \<le> a - b \<and> a - b < 2 ^ 63 then Some (a - b) else None)"

definition step_server ::
  "env \<Rightarrow> platform \<Rightarrow> 's client callbacks \<Rightarrow> int \<Rightarrow> u16 \<Rightarrow> 's lwm2m_context \<Rightarrow> int \<Rightarrow> ('s lwm2m_context \<times> int) option" where
  "step_server E P run currentTime i net timeout =
     do {
       sv \<leftarrow> find_server (n_app net) i;
       let send = map_option (\<lambda>(_, net). (net, timeout));
       if sv_status sv = STATE_REG_HOLD_OFF \<and> \<not> version_1_0 (e_cfg E) then do {
         interval \<leftarrow> time_diff (sv_registration sv) currentTime;
         if 0 \<ge> interval then send (prv_register E P run i net)
         else Some (net, if interval \<le> timeout then interval else timeout)
       }
       else if sv_status sv = STATE_REGISTERED then do {
         interval \<leftarrow> time_diff (sv_registration sv + next_update (sv_lifetime sv)) currentTime;
         if 0 \<ge> interval then send (prv_updateRegistration E P run i False net)
         else Some (net, if interval < timeout then interval else timeout)
       }
       else if sv_status sv = STATE_REG_UPDATE_NEEDED then send (prv_updateRegistration E P run i False net)
       else if sv_status sv = STATE_REG_FULL_UPDATE_NEEDED then send (prv_updateRegistration E P run i True net)
       else if sv_status sv = STATE_REG_FAILED then
         Some (with_client (put_server (sv\<lparr>sv_sessionH := None\<rparr>)) net, timeout)
       else Some (net, timeout)
     }"

fun step_servers ::
  "env \<Rightarrow> platform \<Rightarrow> 's client callbacks \<Rightarrow> int \<Rightarrow> u16 list \<Rightarrow> 's lwm2m_context \<Rightarrow> int \<Rightarrow> ('s lwm2m_context \<times> int) option" where
  "step_servers E P run currentTime [] net timeout = Some (net, timeout)"
| "step_servers E P run currentTime (i # is) net timeout =
     do {
       (net, timeout) \<leftarrow> step_server E P run currentTime i net timeout;
       step_servers E P run currentTime is net timeout
     }"

definition registration_step ::
  "env \<Rightarrow> platform \<Rightarrow> 's client callbacks \<Rightarrow> int \<Rightarrow> 's lwm2m_context \<Rightarrow> int \<Rightarrow> ('s lwm2m_context \<times> int) option" where
  "registration_step E P run currentTime net timeout =
     step_servers E P run currentTime (map sv_secObjInstID (cl_serverList (n_app net))) net timeout"

end
