(* ===== verification/Bootstrap_State.thy ===== *)
theory Bootstrap_State
  imports Registration_Client
begin

text \<open>
  Bootstrapping, seen from the client (\<^verbatim>\<open>core/bootstrap.c\<close>, lines 34 to 159 and 511 to 751): asking a
  bootstrap server for it, what the answer does, the periodic step, its end, and the marks on the
  servers whose accounts were changed.

  A bootstrap server is the node of \<open>cl_bootstrapServerList\<close> with the number of its Security instance.
\<close>

abbreviation (input) BOOTSTRAP_REPLY :: nat where "BOOTSTRAP_REPLY \<equiv> 3"

text \<open>45 seconds of transmissions, twice the latency of 100, and 2 of processing.\<close>

abbreviation (input) COAP_EXCHANGE_LIFETIME :: int where "COAP_EXCHANGE_LIFETIME \<equiv> 247"
abbreviation (input) PRV_QUERY_BUFFER_LENGTH :: nat where "PRV_QUERY_BUFFER_LENGTH \<equiv> 200"

definition find_bootstrap :: "'s client \<Rightarrow> u16 \<Rightarrow> lwm2m_server option" where
  "find_bootstrap c i = lwm2m_list_find sv_secObjInstID (cl_bootstrapServerList c) i"

definition put_bootstrap :: "lwm2m_server \<Rightarrow> 's client \<Rightarrow> 's client" where
  "put_bootstrap sv c = c\<lparr>cl_bootstrapServerList := list_put sv_secObjInstID (cl_bootstrapServerList c) sv\<rparr>"

section \<open>The request\<close>

definition prv_handleResponse :: "env \<Rightarrow> coap_packet \<Rightarrow> lwm2m_server \<Rightarrow> lwm2m_server" where
  "prv_handleResponse E m sv =
     (if p_code m = COAP_204_CHANGED
      then sv\<lparr>sv_status := STATE_BS_PENDING, sv_registration := e_now E + COAP_EXCHANGE_LIFETIME\<rparr>
      else sv\<lparr>sv_status := STATE_BS_FAILING\<rparr>)"

definition prv_handleBootstrapReply :: "env \<Rightarrow> transaction \<Rightarrow> coap_packet option \<Rightarrow> 's client \<Rightarrow> 's client option" where
  "prv_handleBootstrapReply E t answer c =
     do {
       p \<leftarrow> t_userData t;
       sv \<leftarrow> find_bootstrap c (data_server p);
       if sv_status sv \<noteq> STATE_BS_INITIATED then Some c
       else Some (put_bootstrap
         (case answer of
            None \<Rightarrow> sv\<lparr>sv_status := STATE_BS_FAILING\<rparr>
          | Some m \<Rightarrow>
              if p_type m \<noteq> COAP_TYPE_RST then prv_handleResponse E m sv else sv\<lparr>sv_status := STATE_BS_FAILING\<rparr>) c)
     }"

text \<open>The query, in a buffer of 200 bytes; the preferred content format from version 1.1 on.\<close>

definition bootstrap_query :: "build \<Rightarrow> bytes \<Rightarrow> bytes option" where
  "bootstrap_query cfg name =
     do {
       out \<leftarrow> copy_string PRV_QUERY_BUFFER_LENGTH (ascii ''?ep='') [];
       out \<leftarrow> copy_string PRV_QUERY_BUFFER_LENGTH name out;
       if version_1_0 cfg \<or> \<not> support_senml cfg \<and> \<not> support_tlv cfg then Some out
       else do {
         out \<leftarrow> copy_string PRV_QUERY_BUFFER_LENGTH (ascii ''&pct='') out;
         copy_string PRV_QUERY_BUFFER_LENGTH (if support_senml cfg then ascii ''110'' else ascii ''11542'') out
       }
     }"

text \<open>A client without a name is a null pointer that is read.\<close>

definition prv_requestBootstrap ::
  "env \<Rightarrow> platform \<Rightarrow> 's client callbacks \<Rightarrow> u16 \<Rightarrow> 's lwm2m_context \<Rightarrow> 's lwm2m_context option" where
  "prv_requestBootstrap E P run i net =
     do {
       sv \<leftarrow> find_bootstrap (n_app net) i;
       name \<leftarrow> cl_endpointName (n_app net);
       case bootstrap_query (e_cfg E) name of
         None \<Rightarrow> Some (with_client (put_bootstrap (sv\<lparr>sv_status := STATE_BS_FAILING\<rparr>)) net)
       | Some query \<Rightarrow>
           let sv = (if sv_sessionH sv = None then sv\<lparr>sv_sessionH := pf_connect P i\<rparr> else sv);
               net = with_client (put_bootstrap sv) net
           in
           if sv_sessionH sv = None then Some (with_client (put_bootstrap (sv\<lparr>sv_status := STATE_BS_FAILED\<rparr>)) net)
           else do {
             let (mID, net) = take_mid net;
             t \<leftarrow> transaction_new (e_cfg E) (e_mem E) (e_now E) (e_stack E) (sv_sessionH sv) COAP_POST None None mID 4 None;
             case t of
               None \<Rightarrow> Some (with_client (put_bootstrap (sv\<lparr>sv_status := STATE_BS_FAILING\<rparr>)) net)
             | Some t \<Rightarrow> do {
                 let m = fst (coap_set_header_uri_path (e_mem E) (t_message t) (ascii ''/bs''));
                 let t = t\<lparr>t_message := fst (coap_set_header_uri_query (e_mem E) m query),
                           t_callback := Some BOOTSTRAP_REPLY, t_userData := Some (unat i)\<rparr>;
                 (net, failed) \<leftarrow> transaction_send (e_mem E) (e_now E) run (add_transaction t net) t;
                 if failed \<noteq> 0 then Some net
                 else do {
                   sv \<leftarrow> find_bootstrap (n_app net) i;
                   Some (with_client (put_bootstrap (sv\<lparr>sv_status := STATE_BS_INITIATED\<rparr>)) net)
                 }
               }
           }
     }"

section \<open>The periodic step\<close>

text \<open>One server; closing a connection is outside of the context.\<close>

definition bootstrap_server ::
  "env \<Rightarrow> platform \<Rightarrow> 's client callbacks \<Rightarrow> int \<Rightarrow> u16 \<Rightarrow> 's lwm2m_context \<Rightarrow> int \<Rightarrow> ('s lwm2m_context \<times> int) option" where
  "bootstrap_server E P run currentTime i net timeout =
     do {
       sv \<leftarrow> find_bootstrap (n_app net) i;
       let put = (\<lambda>sv. with_client (put_bootstrap sv) net);
       let wait = min timeout (sv_registration sv - currentTime);
       if sv_status sv = STATE_DEREGISTERED then
         Some (put (sv\<lparr>sv_registration := currentTime + sv_lifetime sv, sv_status := STATE_BS_HOLD_OFF\<rparr>),
               min timeout (sv_lifetime sv))
       else if sv_status sv = STATE_BS_HOLD_OFF then
         (if sv_registration sv \<le> currentTime
          then map_option (\<lambda>net. (net, timeout)) (prv_requestBootstrap E P run i net)
          else Some (net, wait))
       else if sv_status sv = STATE_BS_PENDING then
         (if sv_registration sv \<le> currentTime then Some (put (sv\<lparr>sv_status := STATE_BS_FAILING\<rparr>), 0)
          else Some (net, wait))
       else if sv_status sv = STATE_BS_FINISHING then
         Some (put (sv\<lparr>sv_sessionH := None, sv_status := STATE_BS_FINISHED\<rparr>), 0)
       else if sv_status sv = STATE_BS_FAILING then
         Some (put (sv\<lparr>sv_sessionH := None, sv_status := STATE_BS_FAILED\<rparr>), 0)
       else Some (net, timeout)
     }"

fun bootstrap_servers ::
  "env \<Rightarrow> platform \<Rightarrow> 's client callbacks \<Rightarrow> int \<Rightarrow> u16 list \<Rightarrow> 's lwm2m_context \<Rightarrow> int \<Rightarrow> ('s lwm2m_context \<times> int) option" where
  "bootstrap_servers E P run currentTime [] net timeout = Some (net, timeout)"
| "bootstrap_servers E P run currentTime (i # is) net timeout =
     do {
       (net, timeout) \<leftarrow> bootstrap_server E P run currentTime i net timeout;
       bootstrap_servers E P run currentTime is net timeout
     }"

definition bootstrap_step ::
  "env \<Rightarrow> platform \<Rightarrow> 's client callbacks \<Rightarrow> int \<Rightarrow> 's lwm2m_context \<Rightarrow> int \<Rightarrow> ('s lwm2m_context \<times> int) option" where
  "bootstrap_step E P run currentTime net timeout =
     bootstrap_servers E P run currentTime (map sv_secObjInstID (cl_bootstrapServerList (n_app net))) net timeout"

section \<open>Start and end\<close>

definition bootstrap_start :: "platform \<Rightarrow> 's client \<Rightarrow> 's client" where
  "bootstrap_start P c = c\<lparr>cl_bootstrapServerList := map (\<lambda>sv. sv\<lparr>sv_status := STATE_DEREGISTERED,
     sv_sessionH := (if sv_sessionH sv = None then pf_connect P (sv_secObjInstID sv) else sv_sessionH sv)\<rparr>)
     (cl_bootstrapServerList c)\<rparr>"

fun bootstrap_status :: "lwm2m_status \<Rightarrow> lwm2m_server list \<Rightarrow> lwm2m_status" where
  "bootstrap_status bs_status [] = bs_status"
| "bootstrap_status bs_status (sv # svs) =
     bootstrap_status
       (if sv_status sv = STATE_BS_FINISHED
        then (if bs_status = STATE_BS_FAILED then STATE_BS_FINISHED else bs_status)
        else if sv_status sv \<in> {STATE_BS_HOLD_OFF, STATE_BS_INITIATED, STATE_BS_PENDING, STATE_BS_FINISHING, STATE_BS_FAILING}
        then STATE_BS_PENDING
        else bs_status) svs"

definition bootstrap_getStatus :: "'s client \<Rightarrow> lwm2m_status" where
  "bootstrap_getStatus c = bootstrap_status STATE_BS_FAILED (cl_bootstrapServerList c)"

definition bootstrap_handleFinish :: "env \<Rightarrow> nat \<Rightarrow> 's client \<Rightarrow> (u8 \<times> 's client) option" where
  "bootstrap_handleFinish E peer c =
     (case utils_findBootstrapServer c peer of
        None \<Rightarrow> Some (COAP_IGNORE, c)
      | Some sv \<Rightarrow>
          if sv_status sv \<noteq> STATE_BS_PENDING then Some (COAP_IGNORE, c)
          else map_option (\<lambda>(found, c).
              if found then (COAP_204_CHANGED, put_bootstrap (sv\<lparr>sv_status := STATE_BS_FINISHING\<rparr>) c)
              else (COAP_406_NOT_ACCEPTABLE, c)) (object_getServers E True c))"

text \<open>The result is \<^verbatim>\<open>COAP_IGNORE\<close> or 0, with the server.\<close>

definition prv_checkServerStatus :: "env \<Rightarrow> lwm2m_server \<Rightarrow> u8 \<times> lwm2m_server" where
  "prv_checkServerStatus E sv =
     (if sv_status sv = STATE_BS_HOLD_OFF \<or> sv_status sv = STATE_BS_INITIATED
      then (COAP_NO_ERROR, sv\<lparr>sv_status := STATE_BS_PENDING\<rparr>)
      else if sv_status sv = STATE_DEREGISTERED \<or> sv_status sv = STATE_BS_PENDING
      then (COAP_NO_ERROR, sv\<lparr>sv_registration := e_now E + COAP_EXCHANGE_LIFETIME\<rparr>)
      else (COAP_IGNORE, sv))"

section \<open>Marks\<close>

definition prv_tagServer :: "u16 \<Rightarrow> 's client \<Rightarrow> 's client" where
  "prv_tagServer i c =
     (case find_bootstrap c i of
        Some sv \<Rightarrow> put_bootstrap (sv\<lparr>sv_dirty := True\<rparr>) c
      | None \<Rightarrow>
          (case find_server c i of
             Some sv \<Rightarrow> put_server (sv\<lparr>sv_dirty := True\<rparr>) c
           | None \<Rightarrow> c))"

text \<open>All but the one given, which is a bootstrap server.\<close>

definition prv_tagAllServer :: "u16 option \<Rightarrow> 's client \<Rightarrow> 's client" where
  "prv_tagAllServer own c =
     c\<lparr>cl_bootstrapServerList := map (\<lambda>sv. if own \<noteq> Some (sv_secObjInstID sv) then sv\<lparr>sv_dirty := True\<rparr> else sv)
         (cl_bootstrapServerList c),
       cl_serverList := map (\<lambda>sv. sv\<lparr>sv_dirty := True\<rparr>) (cl_serverList c)\<rparr>"

end
