(* ===== verification/Bootstrap_Discover.thy ===== *)
theory Bootstrap_Discover
  imports Register_Payload
begin

text \<open>
  Bootstrap-Discover (\<^verbatim>\<open>core/bootstrap.c\<close>, lines 161 to 481): the objects and instances of the client,
  the Security and Server instances with the short identifiers of their servers. The text is measured
  first and then written into a buffer of that size.

  Reading does not change the client, so that both passes read the same. \<open>None\<close> is undefined
  behaviour, \<open>Some None\<close> the error \<^verbatim>\<open>5.00\<close>.
\<close>

abbreviation (input) LWM2M_SECURITY_URI_ID :: u16 where "LWM2M_SECURITY_URI_ID \<equiv> 0"

section \<open>What is read of an instance\<close>

definition resource_of :: "u16 \<Rightarrow> u16 \<Rightarrow> u16 \<Rightarrow> lwm2m_uri" where
  "resource_of oid i rid = uri_reset\<lparr>objectId := oid, instanceId := i, resourceId := rid\<rparr>"

definition read_single :: "env \<Rightarrow> u16 \<Rightarrow> u16 \<Rightarrow> u16 \<Rightarrow> 's client \<Rightarrow> lwm2m_data option option" where
  "read_single E oid i rid c =
     map_option (\<lambda>(result, ds). if result = COAP_205_CONTENT then (case ds of [d] \<Rightarrow> Some d | _ \<Rightarrow> None) else None)
       (object_readData E (resource_of oid i rid) c)"

definition read_flag :: "env \<Rightarrow> u16 \<Rightarrow> u16 \<Rightarrow> u16 \<Rightarrow> 's client \<Rightarrow> bool option option" where
  "read_flag E oid i rid c =
     (case read_single E oid i rid c of
        None \<Rightarrow> None
      | Some None \<Rightarrow> Some None
      | Some (Some d) \<Rightarrow> lwm2m_data_decode_bool d)"

definition read_number :: "env \<Rightarrow> u16 \<Rightarrow> u16 \<Rightarrow> u16 \<Rightarrow> 's client \<Rightarrow> u64 option option" where
  "read_number E oid i rid c =
     (case read_single E oid i rid c of
        None \<Rightarrow> None
      | Some None \<Rightarrow> Some None
      | Some (Some d) \<Rightarrow> lwm2m_data_decode_uint (e_cfg E) d)"

definition read_text :: "env \<Rightarrow> u16 \<Rightarrow> u16 \<Rightarrow> u16 \<Rightarrow> 's client \<Rightarrow> bytes option option" where
  "read_text E oid i rid c =
     (case read_single E oid i rid c of
        None \<Rightarrow> None
      | Some None \<Rightarrow> Some None
      | Some (Some d) \<Rightarrow> if dtype d = LWM2M_TYPE_STRING then map_option Some (as_buffer (dvalue d)) else Some None)"

text \<open>
  The reads of an instance in their order: the short identifier of a Server instance, and that of a
  Security instance that is not for bootstrapping, with its address from version 1.1 on.
\<close>

definition instance_account :: "env \<Rightarrow> u16 \<Rightarrow> u16 \<Rightarrow> 's client \<Rightarrow> (u64 option \<times> bytes option) option option" where
  "instance_account E oid i c =
     (if oid = LWM2M_SECURITY_OBJECT_ID then
        (case read_flag E oid i LWM2M_SECURITY_BOOTSTRAP_ID c of
           None \<Rightarrow> None
         | Some None \<Rightarrow> Some None
         | Some (Some True) \<Rightarrow> Some (Some (None, None))
         | Some (Some False) \<Rightarrow>
             (case read_number E oid i LWM2M_SECURITY_SHORT_SERVER_ID c of
                None \<Rightarrow> None
              | Some None \<Rightarrow> Some None
              | Some (Some ssid) \<Rightarrow>
                  if version_1_0 (e_cfg E) then Some (Some (Some ssid, None))
                  else map_option (map_option (\<lambda>uri. (Some ssid, Some uri))) (read_text E oid i LWM2M_SECURITY_URI_ID c)))
      else if oid = LWM2M_SERVER_OBJECT_ID then
        map_option (map_option (\<lambda>ssid. (Some ssid, None))) (read_number E oid i LWM2M_SERVER_SHORT_ID_ID c)
      else Some (Some (None, None)))"

section \<open>The length\<close>

text \<open>The digits of a number, none when they do not fit the scratch buffer of ten bytes.\<close>

definition scratch_digits :: "u64 \<Rightarrow> nat option" where
  "scratch_digits v = (let (n, _) = utils_uintToText v (replicate 10 0) in if n = 0 then None else Some n)"

definition measure_object :: "'s lwm2m_object \<Rightarrow> nat option" where
  "measure_object ob =
     (if instances_of ob = [] \<or> o_versionMajor ob \<noteq> 0 \<or> o_versionMinor ob \<noteq> 0 then do {
        n \<leftarrow> scratch_digits (ucast (o_objID ob));
        if o_versionMajor ob \<noteq> 0 \<or> o_versionMinor ob \<noteq> 0 then do {
          major \<leftarrow> scratch_digits (ucast (o_versionMajor ob));
          minor \<leftarrow> scratch_digits (ucast (o_versionMinor ob));
          Some (4 + n + (2 + 4) + major + minor)
        }
        else Some (4 + n)
      }
      else Some 0)"

definition measure_account :: "u64 option \<times> bytes option \<Rightarrow> nat option" where
  "measure_account a =
     (case a of
        (None, _) \<Rightarrow> Some 0
      | (Some ssid, uri) \<Rightarrow>
          map_option (\<lambda>n. 1 + 5 + n + (case uri of None \<Rightarrow> 0 | Some s \<Rightarrow> 3 + 5 + length s)) (scratch_digits ssid))"

fun measure_instances :: "env \<Rightarrow> 's client \<Rightarrow> u16 \<Rightarrow> u16 list \<Rightarrow> nat \<Rightarrow> nat option option" where
  "measure_instances E c oid [] len = Some (Some len)"
| "measure_instances E c oid (i # is) len =
     (case (scratch_digits (ucast oid), scratch_digits (ucast i)) of
        (Some n, Some m) \<Rightarrow>
          (case instance_account E oid i c of
             None \<Rightarrow> None
           | Some None \<Rightarrow> Some None
           | Some (Some a) \<Rightarrow>
               (case measure_account a of
                  None \<Rightarrow> Some None
                | Some k \<Rightarrow> measure_instances E c oid is (len + 5 + n + m + k)))
      | _ \<Rightarrow> Some None)"

definition asked_for :: "u16 option \<Rightarrow> 's lwm2m_object \<Rightarrow> bool" where
  "asked_for oid ob \<longleftrightarrow> (case oid of None \<Rightarrow> True | Some n \<Rightarrow> n = o_objID ob)"

fun measure_objects :: "env \<Rightarrow> 's client \<Rightarrow> u16 option \<Rightarrow> 's lwm2m_object list \<Rightarrow> nat \<Rightarrow> nat option option" where
  "measure_objects E c oid [] len = Some (Some len)"
| "measure_objects E c oid (ob # obs) len =
     (if \<not> asked_for oid ob then measure_objects E c oid obs len
      else
        (case measure_object ob of
           None \<Rightarrow> Some None
         | Some n \<Rightarrow>
             (case measure_instances E c (o_objID ob) (instances_of ob) (len + n) of
                None \<Rightarrow> None
              | Some None \<Rightarrow> Some None
              | Some (Some len) \<Rightarrow> measure_objects E c oid obs len)))"

section \<open>The text\<close>

definition emit_uint :: "nat \<Rightarrow> u64 \<Rightarrow> bytes \<Rightarrow> bytes option" where
  "emit_uint cap v out =
     (let (n, b) = utils_uintToText v (replicate (cap - length out) 0) in
      if n = 0 then None else Some (out @ take n b))"

definition write_object :: "nat \<Rightarrow> 's lwm2m_object \<Rightarrow> bytes \<Rightarrow> bytes option" where
  "write_object cap ob out =
     (if instances_of ob = [] \<or> o_versionMajor ob \<noteq> 0 \<or> o_versionMinor ob \<noteq> 0 then do {
        out \<leftarrow> emit cap (ascii '',</'') out;
        out \<leftarrow> emit_uint cap (ucast (o_objID ob)) out;
        out \<leftarrow> emit cap (ascii ''>'') out;
        if o_versionMajor ob \<noteq> 0 \<or> o_versionMinor ob \<noteq> 0 then do {
          out \<leftarrow> emit cap (ascii '';'') out;
          out \<leftarrow> copy_string cap (ascii ''ver='') out;
          out \<leftarrow> emit_uint cap (ucast (o_versionMajor ob)) out;
          out \<leftarrow> emit cap (ascii ''.'') out;
          emit_uint cap (ucast (o_versionMinor ob)) out
        }
        else Some out
      }
      else Some out)"

text \<open>The quotation mark that opens the address is part of the name of the attribute.\<close>

definition uri_start :: bytes where "uri_start = ascii ''uri='' @ [34]"

definition write_account :: "nat \<Rightarrow> u64 option \<times> bytes option \<Rightarrow> bytes \<Rightarrow> bytes option" where
  "write_account cap a out =
     (case a of
        (None, _) \<Rightarrow> Some out
      | (Some ssid, uri) \<Rightarrow> do {
          out \<leftarrow> emit cap (ascii '';'') out;
          out \<leftarrow> copy_string cap (ascii ''ssid='') out;
          out \<leftarrow> emit_uint cap ssid out;
          case uri of
            None \<Rightarrow> Some out
          | Some s \<Rightarrow> do {
              out \<leftarrow> emit cap (ascii '';'') out;
              out \<leftarrow> copy_string cap uri_start out;
              out \<leftarrow> emit cap s out;
              emit cap [34] out
            }
        })"

fun write_instances :: "env \<Rightarrow> 's client \<Rightarrow> nat \<Rightarrow> u16 \<Rightarrow> u16 list \<Rightarrow> bytes \<Rightarrow> bytes option option" where
  "write_instances E c cap oid [] out = Some (Some out)"
| "write_instances E c cap oid (i # is) out =
     (case do {
        out \<leftarrow> emit cap (ascii '',</'') out;
        out \<leftarrow> emit_uint cap (ucast oid) out;
        out \<leftarrow> emit cap (ascii ''/'') out;
        out \<leftarrow> emit_uint cap (ucast i) out;
        emit cap (ascii ''>'') out
      } of
        None \<Rightarrow> Some None
      | Some out \<Rightarrow>
          (case instance_account E oid i c of
             None \<Rightarrow> None
           | Some None \<Rightarrow> Some None
           | Some (Some a) \<Rightarrow>
               (case write_account cap a out of
                  None \<Rightarrow> Some None
                | Some out \<Rightarrow> write_instances E c cap oid is out)))"

fun write_objects :: "env \<Rightarrow> 's client \<Rightarrow> nat \<Rightarrow> u16 option \<Rightarrow> 's lwm2m_object list \<Rightarrow> bytes \<Rightarrow> bytes option option" where
  "write_objects E c cap oid [] out = Some (Some out)"
| "write_objects E c cap oid (ob # obs) out =
     (if \<not> asked_for oid ob then write_objects E c cap oid obs out
      else
        (case write_object cap ob out of
           None \<Rightarrow> Some None
         | Some out \<Rightarrow>
             (case write_instances E c cap (o_objID ob) (instances_of ob) out of
                None \<Rightarrow> None
              | Some None \<Rightarrow> Some None
              | Some (Some out) \<Rightarrow> write_objects E c cap oid obs out)))"

definition discover_head :: "build \<Rightarrow> bytes" where
  "discover_head cfg = (if version_1_0 cfg then [] else ascii ''</>;'')"

definition lwm2m_version_text :: "build \<Rightarrow> bytes" where
  "lwm2m_version_text cfg = (if version_1_0 cfg then ascii ''1.0'' else ascii ''1.1'')"

definition write_discover :: "env \<Rightarrow> 's client \<Rightarrow> nat \<Rightarrow> u16 option \<Rightarrow> bytes option option" where
  "write_discover E c cap oid =
     (case do {
        out \<leftarrow> emit cap (discover_head (e_cfg E)) [];
        out \<leftarrow> copy_string cap (ascii ''lwm2m='') out;
        copy_string cap (lwm2m_version_text (e_cfg E)) out
      } of
        None \<Rightarrow> Some None
      | Some out \<Rightarrow> write_objects E c cap oid (cl_objectList c) out)"

text \<open>\<^verbatim>\<open>uriP\<close> is never null here.\<close>

definition prv_handleBootstrapDiscover :: "env \<Rightarrow> lwm2m_uri \<Rightarrow> 's client \<Rightarrow> (u8 \<times> bytes option) option" where
  "prv_handleBootstrapDiscover E u c =
     (let oid = (if IS_SET_OBJECT u then Some (objectId u) else None);
          failed = (COAP_500_INTERNAL_SERVER_ERROR, None)
      in
      if IS_SET_OBJECT u \<and>
         (IS_SET_INSTANCE u \<or> IS_SET_RESOURCE u \<or> \<not> version_1_0 (e_cfg E) \<and> IS_SET_RESOURCE_INSTANCE u)
      then Some (COAP_400_BAD_REQUEST, None)
      else if IS_SET_OBJECT u \<and> find_object c (objectId u) = None then Some (COAP_404_NOT_FOUND, None)
      else
        (case measure_objects E c oid (cl_objectList c) (length (discover_head (e_cfg E)) + 6 + 3) of
           None \<Rightarrow> None
         | Some None \<Rightarrow> Some failed
         | Some (Some len) \<Rightarrow>
             if \<not> e_mem E len then Some failed
             else map_option (\<lambda>r. case r of None \<Rightarrow> failed | Some out \<Rightarrow> (COAP_205_CONTENT, Some out))
                    (write_discover E c len oid)))"

section \<open>What it says\<close>

lemma emit_eq: "emit cap s out = (if length out + length s \<le> cap then Some (out @ s) else None)"
  by (auto simp: emit_def)

lemma emit_uint_eq:
  "emit_uint cap v out =
    (if length out + length (dec_digits (unat v)) \<le> cap then Some (out @ dec_digits (unat v)) else None)"
proof (cases "length out + length (dec_digits (unat v)) \<le> cap")
  case True
  then have "length (dec_digits (unat v)) \<le> length (replicate (cap - length out) (0 :: u8))" by simp
  from uintToText_fits [OF this] True show ?thesis by (simp add: emit_uint_def)
next
  case False
  then have "length (replicate (cap - length out) (0 :: u8)) < length (dec_digits (unat v))"
    using digits_pos [of "unat v"] by (simp, linarith)
  from uintToText_too_small [OF this] False show ?thesis by (simp add: emit_uint_def case_prod_unfold)
qed

lemma scratch_digits_eq:
  "length (dec_digits (unat v)) \<le> 10 \<Longrightarrow> scratch_digits v = Some (length (dec_digits (unat v)))"
  using uintToText_fits [of v "replicate 10 0"] by (simp add: scratch_digits_def)

lemma scratch_digits_16 [simp]: "scratch_digits (ucast (i :: u16)) = Some (length (dec_digits (unat i)))"
  using scratch_digits_eq [of "ucast i"] small_digits(1) [of i] by simp

lemma scratch_digits_8 [simp]: "scratch_digits (ucast (v :: u8)) = Some (length (dec_digits (unat v)))"
  using scratch_digits_eq [of "ucast v"] small_digits(2) [of v] by simp

definition version_attribute :: "'s lwm2m_object \<Rightarrow> bytes" where
  "version_attribute ob =
     (if o_versionMajor ob \<noteq> 0 \<or> o_versionMinor ob \<noteq> 0
      then ascii '';ver='' @ dec_digits (unat (o_versionMajor ob)) @ ascii ''.'' @ dec_digits (unat (o_versionMinor ob))
      else [])"

definition object_entry :: "'s lwm2m_object \<Rightarrow> bytes" where
  "object_entry ob =
     (if instances_of ob = [] \<or> o_versionMajor ob \<noteq> 0 \<or> o_versionMinor ob \<noteq> 0
      then ascii '',</'' @ dec_digits (unat (o_objID ob)) @ ascii ''>'' @ version_attribute ob
      else [])"

definition account_text :: "u64 option \<times> bytes option \<Rightarrow> bytes" where
  "account_text a =
     (case a of
        (None, _) \<Rightarrow> []
      | (Some ssid, uri) \<Rightarrow> ascii '';ssid='' @ dec_digits (unat ssid) @
          (case uri of None \<Rightarrow> [] | Some s \<Rightarrow> ascii '';'' @ uri_start @ s @ [34]))"

definition account_of :: "env \<Rightarrow> 's client \<Rightarrow> u16 \<Rightarrow> u16 \<Rightarrow> u64 option \<times> bytes option" where
  "account_of E c oid i = the (the (instance_account E oid i c))"

definition instance_entry :: "env \<Rightarrow> 's client \<Rightarrow> u16 \<Rightarrow> u16 \<Rightarrow> bytes" where
  "instance_entry E c oid i =
     ascii '',</'' @ dec_digits (unat oid) @ ascii ''/'' @ dec_digits (unat i) @ ascii ''>'' @
     account_text (account_of E c oid i)"

definition object_entries :: "env \<Rightarrow> 's client \<Rightarrow> 's lwm2m_object \<Rightarrow> bytes" where
  "object_entries E c ob = object_entry ob @ concat (map (instance_entry E c (o_objID ob)) (instances_of ob))"

lemma object_entries_length:
  "length (object_entries E c ob) =
    length (object_entry ob) + length (concat (map (instance_entry E c (o_objID ob)) (instances_of ob)))"
  by (simp add: object_entries_def)

text \<open>Everything that is read is there, with short identifiers of at most ten digits.\<close>

definition account_ok :: "env \<Rightarrow> 's client \<Rightarrow> u16 \<Rightarrow> u16 \<Rightarrow> bool" where
  "account_ok E c oid i \<longleftrightarrow>
     (\<exists>ssid uri. instance_account E oid i c = Some (Some (ssid, uri)) \<and>
        (\<forall>n. ssid = Some n \<longrightarrow> length (dec_digits (unat n)) \<le> 10))"

definition accounts_ok :: "env \<Rightarrow> 's client \<Rightarrow> u16 option \<Rightarrow> bool" where
  "accounts_ok E c oid \<longleftrightarrow>
     (\<forall>ob \<in> set (cl_objectList c). asked_for oid ob \<longrightarrow> (\<forall>i \<in> set (instances_of ob). account_ok E c (o_objID ob) i))"

lemma account_okD: "account_ok E c oid i \<Longrightarrow> instance_account E oid i c = Some (Some (account_of E c oid i))"
  by (auto simp: account_ok_def account_of_def)

lemma measure_account_ok:
  "account_ok E c oid i \<Longrightarrow> \<exists>k. measure_account (account_of E c oid i) = Some k \<and> length (account_text (account_of E c oid i)) \<le> k"
  by (auto simp: account_ok_def account_of_def measure_account_def account_text_def scratch_digits_eq uri_start_def
      split: option.splits)

lemma measure_object_eq: "measure_object ob = Some (length (object_entry ob))"
  by (simp add: measure_object_def object_entry_def version_attribute_def)

lemma measure_instances_ok:
  assumes "\<forall>i \<in> set is. account_ok E c oid i"
  shows "\<exists>k. measure_instances E c oid is len = Some (Some k) \<and>
    len + length (concat (map (instance_entry E c oid) is)) \<le> k"
  using assms
proof (induction "is" arbitrary: len)
  case (Cons i rest)
  then obtain k where k: "measure_account (account_of E c oid i) = Some k"
    "length (account_text (account_of E c oid i)) \<le> k" using measure_account_ok [of E c oid i] by auto
  obtain k' where k': "measure_instances E c oid rest
      (len + 5 + length (dec_digits (unat oid)) + length (dec_digits (unat i)) + k) = Some (Some k')"
    "len + 5 + length (dec_digits (unat oid)) + length (dec_digits (unat i)) + k +
      length (concat (map (instance_entry E c oid) rest)) \<le> k'"
    using Cons by fastforce
  have "instance_account E oid i c = Some (Some (account_of E c oid i))" using Cons.prems account_okD by auto
  moreover have "length (instance_entry E c oid i) = 5 + length (dec_digits (unat oid)) + length (dec_digits (unat i)) +
      length (account_text (account_of E c oid i))"
    by (simp add: instance_entry_def)
  ultimately show ?case using k k' by auto
qed simp

lemma measure_objects_ok:
  assumes "\<forall>ob \<in> set obs. asked_for oid ob \<longrightarrow> (\<forall>i \<in> set (instances_of ob). account_ok E c (o_objID ob) i)"
  shows "\<exists>k. measure_objects E c oid obs len = Some (Some k) \<and>
    len + length (concat (map (object_entries E c) (filter (asked_for oid) obs))) \<le> k"
  using assms
proof (induction obs arbitrary: len)
  case (Cons ob obs)
  show ?case
  proof (cases "asked_for oid ob")
    case True
    then obtain k where k: "measure_instances E c (o_objID ob) (instances_of ob) (len + length (object_entry ob)) = Some (Some k)"
      "len + length (object_entry ob) + length (concat (map (instance_entry E c (o_objID ob)) (instances_of ob))) \<le> k"
      using Cons.prems measure_instances_ok [of "instances_of ob" E c "o_objID ob" "len + length (object_entry ob)"] by auto
    obtain k' where k': "measure_objects E c oid obs k = Some (Some k')"
      "k + length (concat (map (object_entries E c) (filter (asked_for oid) obs))) \<le> k'"
      using Cons by fastforce
    with k True object_entries_length [of E c ob] show ?thesis by (simp add: measure_object_eq)
  qed (use Cons in simp)
qed simp

lemma write_object_eq:
  assumes "length out + length (object_entry ob) \<le> cap"
  shows "write_object cap ob out = Some (out @ object_entry ob)"
proof (cases "o_versionMajor ob \<noteq> 0 \<or> o_versionMinor ob \<noteq> 0")
  case True
  then have "instances_of ob = [] \<or> o_versionMajor ob \<noteq> 0 \<or> o_versionMinor ob \<noteq> 0" by blast
  moreover obtain d ds where "dec_digits (unat (o_versionMajor ob)) = d # ds"
    using dec_digits_not_Nil by (metis neq_Nil_conv)
  ultimately show ?thesis
    using assms True
    unfolding write_object_def object_entry_def version_attribute_def by (simp add: emit_eq emit_uint_eq) (simp add: ascii_def)
qed (use assms in \<open>simp add: write_object_def object_entry_def version_attribute_def emit_eq emit_uint_eq split: if_splits\<close>)

lemma write_account_eq:
  assumes "length out + length (account_text a) \<le> cap"
  shows "write_account cap a out = Some (out @ account_text a)"
proof (cases a)
  case (Pair ssid uri)
  show ?thesis
  proof (cases ssid)
    case (Some n)
    have start: "ascii '';ssid='' = ascii '';'' @ ascii ''ssid=''" by (simp add: ascii_def)
    have "length uri_start = 5" by (simp add: uri_start_def)
    moreover obtain d ds where "dec_digits (unat n) = d # ds" using dec_digits_not_Nil by (metis neq_Nil_conv)
    ultimately show ?thesis using assms Pair Some
      unfolding write_account_def account_text_def start
      by (cases uri) (simp_all add: emit_eq emit_uint_eq)
  qed (simp add: Pair write_account_def account_text_def)
qed

lemma write_instances_eq:
  assumes "\<forall>i \<in> set is. account_ok E c oid i"
    and "length out + length (concat (map (instance_entry E c oid) is)) \<le> cap"
  shows "write_instances E c cap oid is out = Some (Some (out @ concat (map (instance_entry E c oid) is)))"
  using assms
proof (induction "is" arbitrary: out)
  case (Cons i rest)
  let ?a = "account_of E c oid i"
  let ?out = "out @ ascii '',</'' @ dec_digits (unat oid) @ ascii ''/'' @ dec_digits (unat i) @ ascii ''>''"
  have fits: "length ?out + length (account_text ?a) \<le> cap" using Cons.prems(2) by (simp add: instance_entry_def)
  have "instance_account E oid i c = Some (Some ?a)" using Cons.prems(1) account_okD by auto
  moreover have "out @ instance_entry E c oid i = ?out @ account_text ?a" by (simp add: instance_entry_def)
  moreover have "write_instances E c cap oid rest (out @ instance_entry E c oid i) =
      Some (Some (out @ concat (map (instance_entry E c oid) (i # rest))))"
    using Cons.IH [of "out @ instance_entry E c oid i"] Cons.prems by simp
  ultimately show ?case using write_account_eq [OF fits] fits by (simp add: emit_eq emit_uint_eq)
qed simp

lemma write_objects_eq:
  assumes "\<forall>ob \<in> set obs. asked_for oid ob \<longrightarrow> (\<forall>i \<in> set (instances_of ob). account_ok E c (o_objID ob) i)"
    and "length out + length (concat (map (object_entries E c) (filter (asked_for oid) obs))) \<le> cap"
  shows "write_objects E c cap oid obs out = Some (Some (out @ concat (map (object_entries E c) (filter (asked_for oid) obs))))"
  using assms
proof (induction obs arbitrary: out)
  case (Cons ob obs)
  show ?case
  proof (cases "asked_for oid ob")
    case True
    let ?is = "concat (map (instance_entry E c (o_objID ob)) (instances_of ob))"
    have fits: "length out + length (object_entry ob) \<le> cap" "length (out @ object_entry ob) + length ?is \<le> cap"
      using Cons.prems(2) True object_entries_length [of E c ob] by simp_all
    have "write_instances E c cap (o_objID ob) (instances_of ob) (out @ object_entry ob) = Some (Some ((out @ object_entry ob) @ ?is))"
      by (rule write_instances_eq [OF _ fits(2)]) (use Cons.prems(1) True in simp)
    moreover have "(out @ object_entry ob) @ ?is = out @ object_entries E c ob" by (simp add: object_entries_def)
    ultimately show ?thesis using True Cons write_object_eq [OF fits(1)] by simp
  qed (use Cons in simp)
qed simp

lemma object_entries_pos: "0 < length (object_entries E c ob)"
proof (cases "instances_of ob")
  case Nil
  then show ?thesis by (simp add: object_entries_def object_entry_def)
next
  case (Cons i rest)
  have "0 < length (instance_entry E c (o_objID ob) i)" by (simp add: instance_entry_def)
  with Cons show ?thesis by (simp add: object_entries_def)
qed

text \<open>
  C39: the answer to a Bootstrap-Discover. With the accounts readable it is exactly the head, the
  version, and the entries of the objects asked for: every object without instances or with a version,
  every instance, the short identifiers of the accounts, and the addresses of the Security instances.
  The buffer of the measured length is always large enough.
\<close>
theorem bootstrap_discover_text:
  assumes "ids_sorted o_objID (cl_objectList c)" and "\<And>n. e_mem E n" and "accounts_ok E c oid"
    and "instanceId u = LWM2M_MAX_ID" "resourceId u = LWM2M_MAX_ID" "resourceInstanceId u = LWM2M_MAX_ID"
    and "oid = (if IS_SET_OBJECT u then Some (objectId u) else None)" and "\<exists>ob \<in> set (cl_objectList c). asked_for oid ob"
  shows "prv_handleBootstrapDiscover E u c = Some (COAP_205_CONTENT, Some
    (discover_head (e_cfg E) @ ascii ''lwm2m='' @ lwm2m_version_text (e_cfg E) @
     concat (map (object_entries E c) (filter (asked_for oid) (cl_objectList c)))))"
proof -
  let ?obs = "cl_objectList c" and ?head = "discover_head (e_cfg E)" and ?version = "lwm2m_version_text (e_cfg E)"
  let ?text = "concat (map (object_entries E c) (filter (asked_for oid) ?obs))"
  have v: "length ?version = 3" by (simp add: lwm2m_version_text_def)
  obtain k where k: "measure_objects E c oid ?obs (length ?head + 6 + 3) = Some (Some k)" "length ?head + 9 + length ?text \<le> k"
    using measure_objects_ok [of ?obs oid E c "length ?head + 6 + 3"] assms(3) by (auto simp: accounts_ok_def)
  obtain ob where "ob \<in> set ?obs" "asked_for oid ob" using assms(8) by blast
  then have "0 < length ?text"
    using object_entries_pos [of E c ob] by (auto simp: length_concat comp_def member_le_sum_list intro!: gr0I)
  with k(2) have lt: "length ?head + 9 < k" by linarith
  have "write_discover E c k oid = Some (Some ((?head @ ascii ''lwm2m='' @ ?version) @ ?text))"
    using write_objects_eq [of ?obs oid E c "?head @ ascii ''lwm2m='' @ ?version" k] assms(3) k(2) v lt
    by (simp add: write_discover_def accounts_ok_def emit_eq)
  moreover have "find_object c (objectId u) \<noteq> None" if "IS_SET_OBJECT u"
    using that assms(1,7,8) find_None_iff [of o_objID ?obs "objectId u"]
    by (auto simp: find_object_def asked_for_def image_iff)
  ultimately show ?thesis
    using assms(2,4-7) k(1) by (auto simp: prv_handleBootstrapDiscover_def Let_def)
qed

text \<open>A client with a bootstrap account, an account and its Server instance.\<close>

definition account_object :: "u16 \<Rightarrow> u16 list \<Rightarrow> (u16 \<Rightarrow> u16 \<Rightarrow> lwm2m_data_type \<times> lwm2m_value) \<Rightarrow> unit lwm2m_object" where
  "account_object oid is f = \<lparr>o_objID = oid, o_versionMajor = 0, o_versionMinor = 0, o_state = (), o_instanceList = (\<lambda>_. is),
     o_readFunc = Some (\<lambda>_ i ds. Some (COAP_205_CONTENT, map (\<lambda>d. set_value (fst (f i (did d))) (snd (f i (did d))) d) ds)),
     o_writeFunc = None, o_executeFunc = None, o_createFunc = None, o_deleteFunc = None, o_discoverFunc = None,
     o_rawBlock1CreateFunc = None, o_rawBlock1WriteFunc = None, o_rawBlock1ExecuteFunc = None\<rparr>"

definition account_values :: "u16 \<Rightarrow> u16 \<Rightarrow> lwm2m_data_type \<times> lwm2m_value" where
  "account_values i rid =
     (if rid = LWM2M_SECURITY_BOOTSTRAP_ID then (LWM2M_TYPE_BOOLEAN, AsBoolean (i = 0))
      else if rid = LWM2M_SECURITY_SHORT_SERVER_ID then (LWM2M_TYPE_UNSIGNED_INTEGER, AsUnsigned 42)
      else (LWM2M_TYPE_STRING, AsBuffer (ascii ''coap://h'')))"

definition accounts_client :: "unit client" where
  "accounts_client = \<lparr>cl_state = STATE_BOOTSTRAPPING, cl_endpointName = None, cl_msisdn = None, cl_altPath = None,
     cl_bootstrapServerList = [], cl_serverList = [],
     cl_objectList = [account_object 0 [0, 1] account_values, account_object 3 [] account_values],
     cl_observedList = [], cl_nextMID = 77\<rparr>"

definition plain_env :: env where
  "plain_env = \<lparr>e_cfg = client_build, e_mem = (\<lambda>_. True), e_ext = no_formats, e_now = 100, e_stack = [], e_freed = id\<rparr>"

lemma plain_env_simps [simp]:
  "e_cfg plain_env = client_build" "e_mem plain_env n" "e_now plain_env = 100" "e_ext plain_env = no_formats"
  by (simp_all add: plain_env_def)

lemma accounts_read:
  "instance_account plain_env 0 0 accounts_client = Some (Some (None, None))"
  "instance_account plain_env 0 1 accounts_client = Some (Some (Some 42, Some (ascii ''coap://h'')))"
proof -
  have r: "read_single plain_env 0 i rid accounts_client =
      Some (Some (Data (fst (account_values i rid)) rid (snd (account_values i rid))))"
    if "i \<in> {0, 1}" "rid \<noteq> LWM2M_MAX_ID" for i rid
    using that by (auto simp: read_single_def resource_of_def object_readData_def accounts_client_def account_object_def
        find_object_def uri_reset_def has_instance_def instances_of_def resource_request_def client_build_def
        lwm2m_data_new_def set_id_def set_value_def)
  show "instance_account plain_env 0 0 accounts_client = Some (Some (None, None))"
    by (simp add: instance_account_def read_flag_def r account_values_def lwm2m_data_decode_bool_def)
  show "instance_account plain_env 0 1 accounts_client = Some (Some (Some 42, Some (ascii ''coap://h'')))"
    by (simp add: instance_account_def read_flag_def read_number_def read_text_def r account_values_def
        lwm2m_data_decode_bool_def lwm2m_data_decode_uint_def client_build_def)
qed

theorem bootstrap_discover_text_witness:
  "prv_handleBootstrapDiscover plain_env uri_reset accounts_client = Some (COAP_205_CONTENT, Some
     (ascii ''</>;lwm2m=1.1,</0/0>,</0/1>;ssid=42;uri='' @ [34] @ ascii ''coap://h'' @ [34] @ ascii '',</3>''))"
proof -
  have obs: "cl_objectList accounts_client = [account_object 0 [0, 1] account_values, account_object 3 [] account_values]"
    by (simp add: accounts_client_def)
  have ob: "o_objID (account_object i is f) = i" "instances_of (account_object i is f) = is"
    "o_versionMajor (account_object i is f) = 0" "o_versionMinor (account_object i is f) = 0" for i "is" f
    by (simp_all add: account_object_def instances_of_def)
  have "accounts_ok plain_env accounts_client None"
    by (simp add: accounts_ok_def account_ok_def obs ob accounts_read dec_digits.simps)
  moreover have "instanceId uri_reset = LWM2M_MAX_ID" "resourceId uri_reset = LWM2M_MAX_ID"
    "resourceInstanceId uri_reset = LWM2M_MAX_ID" "objectId uri_reset = LWM2M_MAX_ID"
    by (simp_all add: uri_reset_def)
  ultimately have "prv_handleBootstrapDiscover plain_env uri_reset accounts_client = Some (COAP_205_CONTENT, Some
      (discover_head client_build @ ascii ''lwm2m='' @ lwm2m_version_text client_build @
       concat (map (object_entries plain_env accounts_client) (filter (asked_for None) (cl_objectList accounts_client)))))"
    using bootstrap_discover_text [of accounts_client plain_env None uri_reset] by (auto simp: obs ob asked_for_def)
  also have "\<dots> = Some (COAP_205_CONTENT, Some
      (ascii ''</>;lwm2m=1.1,</0/0>,</0/1>;ssid=42;uri='' @ [34] @ ascii ''coap://h'' @ [34] @ ascii '',</3>''))"
    by (simp add: obs ob asked_for_def object_entries_def object_entry_def version_attribute_def instance_entry_def
        account_of_def accounts_read account_text_def discover_head_def lwm2m_version_text_def client_build_def
        uri_start_def ascii_def dec_digits.simps)
  finally show ?thesis .
qed

end
