(* ===== verification/Object_Proofs.thy ===== *)
theory Object_Proofs
  imports Registration_State Observe_Proofs
begin

text \<open>
  What an operation on an object may change: the state of that object, the observations, and what the
  client keeps of its servers. The other objects, the lists of servers and the state of the client stay.
\<close>

definition touches :: "u16 \<Rightarrow> 's client \<Rightarrow> 's client \<Rightarrow> bool" where
  "touches oid c c' \<longleftrightarrow>
     map o_objID (cl_objectList c') = map o_objID (cl_objectList c) \<and>
     (\<forall>i. i \<noteq> oid \<longrightarrow> find_object c' i = find_object c i) \<and>
     map sv_secObjInstID (cl_serverList c') = map sv_secObjInstID (cl_serverList c) \<and>
     cl_bootstrapServerList c' = cl_bootstrapServerList c \<and> cl_state c' = cl_state c \<and>
     cl_nextMID c' = cl_nextMID c \<and> cl_endpointName c' = cl_endpointName c \<and> cl_altPath c' = cl_altPath c \<and>
     (client_ok c \<longrightarrow> client_ok c')"

lemma touches_refl [simp]: "touches oid c c"
  by (simp add: touches_def)

lemma touches_trans [trans]: "touches oid a b \<Longrightarrow> touches oid b c \<Longrightarrow> touches oid a c"
  by (simp add: touches_def)

lemma touches_client_ok: "touches oid c c' \<Longrightarrow> client_ok c \<Longrightarrow> client_ok c'"
  by (simp add: touches_def)

lemma client_ok_same:
  assumes "map sv_secObjInstID (cl_serverList c') = map sv_secObjInstID (cl_serverList c)"
    and "cl_observedList c' = cl_observedList c"
  shows "client_ok c' = client_ok c"
proof -
  have "sv_secObjInstID ` set (cl_serverList c') = sv_secObjInstID ` set (cl_serverList c)"
    using arg_cong [OF assms(1), of set] by simp
  with assms show ?thesis by (simp add: client_ok_def ids_sorted_def)
qed

section \<open>The pieces of an operation\<close>

lemma find_put_other: "i \<noteq> key n \<Longrightarrow> lwm2m_list_find key (list_put key xs n) i = lwm2m_list_find key xs i"
  by (induction xs) auto

lemma put_object_touches [simp]: "o_objID ob = oid \<Longrightarrow> touches oid c (put_object ob c)"
  by (simp add: touches_def put_object_def find_object_def key_list_put find_put_other client_ok_def)

lemma put_state_touches [simp]: "find_object c oid = Some ob \<Longrightarrow> touches oid c (put_state ob s c)"
  using find_Some [of o_objID "cl_objectList c" oid ob]
  by (simp add: put_state_def find_object_def put_object_touches)

lemma put_server_touches [simp]: "touches oid c (put_server sv c)"
  using client_ok_same [of "put_server sv c" c]
  by (simp add: touches_def put_server_def find_object_def key_list_put)

lemma observe_clear_touches [simp]: "touches oid c (observe_clear u c)"
  by (simp add: touches_def observe_clear_def find_object_def clear_loop_ok client_ok_def)

lemma updateServerInfo_touches: "prv_updateServerInfo E ob i c = Some c' \<Longrightarrow> touches oid c c'"
  by (auto simp: prv_updateServerInfo_def split: option.splits if_splits)

lemma put_and_update:
  "prv_updateServerInfo E ob i (put_state ob' s c) = Some c' \<Longrightarrow> find_object c oid = Some ob' \<Longrightarrow> touches oid c c'"
  by (rule touches_trans [OF put_state_touches updateServerInfo_touches])

section \<open>The operations\<close>

lemma write_touches: "object_write E u format buffer part c = Some (r, c') \<Longrightarrow> touches (objectId u) c c'"
  by (auto simp: object_write_def Let_def split: option.splits if_split_asm) (erule (1) put_and_update)+

lemma execute_touches: "object_execute u buffer c = Some (r, c') \<Longrightarrow> touches (objectId u) c c'"
  by (auto simp: object_execute_def split: option.splits if_splits)

lemma create_touches:
  "object_create E u format buffer c = Some (r, u', c') \<Longrightarrow> touches (objectId u) c c' \<and> objectId u' = objectId u"
  by (auto simp: object_create_def Let_def split: option.splits list.splits if_splits lwm2m_data_type.splits)

lemma instance_touches:
  "object_createInstance u d c = Some (r, c') \<Longrightarrow> touches (objectId u) c c'"
  "object_writeInstance u d c = Some (r, c') \<Longrightarrow> touches (objectId u) c c'"
  by (auto simp: object_createInstance_def object_writeInstance_def split: option.splits)

lemma raw_touches:
  "object_raw_block1_write E u format buffer num blk c = Some (r, c') \<Longrightarrow> touches (objectId u) c c'"
  "object_raw_block1_execute u buffer num blk c = Some (r, c') \<Longrightarrow> touches (objectId u) c c'"
  "object_raw_block1_create u format buffer num blk c = Some (r, c') \<Longrightarrow> touches (objectId u) c c'"
  by (auto simp: object_raw_block1_write_def object_raw_block1_execute_def object_raw_block1_create_def run_raw_def
      split: option.splits if_splits)

lemma delete_loop_touches:
  assumes "delete_loop E u delete ob c = Some p"
  shows "touches (o_objID ob) c (snd p)"
proof (rule delete_loop.raw_induct [where P = "\<lambda>E u delete ob c p. touches (o_objID ob) c (snd p)", OF _ assms])
  fix loop :: "env \<Rightarrow> lwm2m_uri \<Rightarrow> ('s \<Rightarrow> u16 \<Rightarrow> (u8 \<times> 's) option) \<Rightarrow> 's lwm2m_object \<Rightarrow> 's client \<Rightarrow> (u8 \<times> 's client) option"
  fix E u delete ob c p
  assume IH: "\<And>E u delete ob c p. loop E u delete ob c = Some p \<Longrightarrow> touches (o_objID ob) c (snd p)"
    and ret: "(case instances_of ob of
        [] \<Rightarrow> Some (COAP_202_DELETED, c)
      | i # _ \<Rightarrow>
          (case delete (o_state ob) i of
             None \<Rightarrow> None
           | Some (result, s) \<Rightarrow>
               let ob = ob\<lparr>o_state := s\<rparr>; c = put_object ob c in
               if result \<noteq> COAP_202_DELETED then Some (result, c)
               else
                 let i = (if i \<in> set (instances_of ob) then i else e_freed E i)
                 in loop E u delete ob (observe_clear (u\<lparr>instanceId := i\<rparr>) c))) = Some p"
  have step: "touches (o_objID ob) c (observe_clear v (put_object (ob\<lparr>o_state := s\<rparr>) c))" for v s
    by (rule touches_trans [OF put_object_touches observe_clear_touches]) simp
  have "touches (o_objID ob) c (snd p)"
    if "loop E u delete (ob\<lparr>o_state := s\<rparr>) (observe_clear v (put_object (ob\<lparr>o_state := s\<rparr>) c)) = Some p" for v s
    using touches_trans [OF step IH [OF that, simplified]] .
  with ret show "touches (o_objID ob) c (snd p)"
    by (auto simp: Let_def split: list.splits option.splits if_split_asm)
qed

lemma delete_touches:
  assumes "object_delete E u c = Some (r, c')"
  shows "touches (objectId u) c c'"
proof (cases "find_object c (objectId u)")
  case None
  with assms show ?thesis by (simp add: object_delete_def)
next
  case (Some ob)
  then have ob: "o_objID ob = objectId u" by (auto simp: find_object_def dest: find_Some)
  have "touches (objectId u) c (observe_clear u (put_state ob s c))" for s
    using touches_trans [OF put_state_touches [OF Some] observe_clear_touches] .
  with assms Some ob show ?thesis
    using delete_loop_touches [of E u _ ob c "(r, c')"]
    by (auto simp: object_delete_def Let_def split: option.splits if_splits)
qed

end
