(* ===== verification/Device_Management.thy ===== *)
theory Device_Management
  imports Registration_Client Object_Proofs
begin

text \<open>
  Device management (\<^verbatim>\<open>core/management.c\<close>, lines 57 to 406): the requests of a server the client is
  registered with. Each is turned into the operations on objects, on observations and on the
  registration.

  The result is the CoAP code with the response under construction and the client; \<open>None\<close> is undefined
  behaviour.
\<close>

abbreviation (input) COAP_GET :: u8 where "COAP_GET \<equiv> 1"
abbreviation (input) COAP_PUT :: u8 where "COAP_PUT \<equiv> 3"
abbreviation (input) APPLICATION_LINK_FORMAT :: u16 where "APPLICATION_LINK_FORMAT \<equiv> 40"

section \<open>Attributes in a query\<close>

text \<open>The names of the attributes with their flags, in the order of the tests.\<close>

definition attribute_names :: "(bytes \<times> u8) list" where
  "attribute_names =
     [(ascii ''pmin='', LWM2M_ATTR_FLAG_MIN_PERIOD), (ascii ''pmax='', LWM2M_ATTR_FLAG_MAX_PERIOD),
      (ascii ''gt='', LWM2M_ATTR_FLAG_GREATER_THAN), (ascii ''lt='', LWM2M_ATTR_FLAG_LESS_THAN),
      (ascii ''st='', LWM2M_ATTR_FLAG_STEP)]"

definition zero_attributes :: lwm2m_attributes where
  "zero_attributes = \<lparr>at_toSet = 0, at_toClear = 0, at_minPeriod = 0, at_maxPeriod = 0, at_greaterThan = 0,
     at_lessThan = 0, at_step = 0\<rparr>"

definition attribute_taken :: "u8 \<Rightarrow> lwm2m_attributes \<Rightarrow> bool" where
  "attribute_taken flag a \<longleftrightarrow> (at_toSet a OR at_toClear a) AND flag \<noteq> 0"

text \<open>
  The value of an attribute, from its text. A period is stored in 32 bits, whatever the 64 bits that
  were read.
\<close>

definition attribute_value :: "env \<Rightarrow> u8 \<Rightarrow> bytes \<Rightarrow> lwm2m_attributes \<Rightarrow> lwm2m_attributes option" where
  "attribute_value E flag text a =
     (if flag = LWM2M_ATTR_FLAG_MIN_PERIOD \<or> flag = LWM2M_ATTR_FLAG_MAX_PERIOD then
        (case utils_textToInt text of
           None \<Rightarrow> None
         | Some v \<Rightarrow>
             if sint v < 0 then None
             else if flag = LWM2M_ATTR_FLAG_MIN_PERIOD
             then Some (a\<lparr>at_toSet := at_toSet a OR flag, at_minPeriod := ucast v\<rparr>)
             else Some (a\<lparr>at_toSet := at_toSet a OR flag, at_maxPeriod := ucast v\<rparr>))
      else
        (case text_to_float (e_ext E) text False of
           None \<Rightarrow> None
         | Some v \<Rightarrow>
             if flag = LWM2M_ATTR_FLAG_GREATER_THAN
             then Some (a\<lparr>at_toSet := at_toSet a OR flag, at_greaterThan := v\<rparr>)
             else if flag = LWM2M_ATTR_FLAG_LESS_THAN
             then Some (a\<lparr>at_toSet := at_toSet a OR flag, at_lessThan := v\<rparr>)
             else if f64_less v 0 then None
             else Some (a\<lparr>at_toSet := at_toSet a OR flag, at_step := v\<rparr>)))"

text \<open>
  One option of the query: \<open>data\<close> is the option, \<open>behind\<close> the bytes after it in the buffer, which a
  comparison with a longer name reads. \<open>Some None\<close> is the return of \<^verbatim>\<open>-1\<close>. A name that matches only
  with the bytes behind the option leaves the length of its value below zero: \<open>None\<close>.
\<close>

fun read_attribute ::
  "env \<Rightarrow> (bytes \<times> u8) list \<Rightarrow> bytes \<Rightarrow> bytes \<Rightarrow> lwm2m_attributes \<Rightarrow> lwm2m_attributes option option" where
  "read_attribute E [] data behind a = Some None"
| "read_attribute E ((name, flag) # names) data behind a =
     do {
       sets \<leftarrow> starts_with (data @ behind) name;
       if sets then
         (if attribute_taken flag a then Some None
          else if length data = length name then Some None
          else if length data < length name then None
          else Some (attribute_value E flag (drop (length name) data) a))
       else do {
         clears \<leftarrow> starts_with (data @ behind) (butlast name);
         if clears then
           (if attribute_taken flag a then Some None
            else if length data \<noteq> length name - 1 then Some None
            else Some (Some (a\<lparr>at_toClear := at_toClear a OR flag\<rparr>)))
         else read_attribute E names data behind a
       }
     }"

fun read_attributes ::
  "env \<Rightarrow> bytes list \<Rightarrow> bytes list \<Rightarrow> lwm2m_attributes \<Rightarrow> lwm2m_attributes option option" where
  "read_attributes E [] behind a = Some (Some a)"
| "read_attributes E (q # qs) behind a =
     (case read_attribute E attribute_names q (case behind of [] \<Rightarrow> [] | b # _ \<Rightarrow> b) a of
        None \<Rightarrow> None
      | Some None \<Rightarrow> Some None
      | Some (Some a) \<Rightarrow> read_attributes E qs (tl behind) a)"

definition prv_readAttributes :: "env \<Rightarrow> bytes list \<Rightarrow> bytes list \<Rightarrow> lwm2m_attributes option option" where
  "prv_readAttributes E query behind = read_attributes E query behind zero_attributes"

section \<open>Requests\<close>

text \<open>The buffer of an answer becomes the payload of the response.\<close>

definition set_result :: "lwm2m_media_type \<Rightarrow> bytes option \<Rightarrow> coap_packet \<Rightarrow> coap_packet" where
  "set_result format buffer response =
     (let p = fst (coap_set_header_content_type response (ucast (media_type_num format))) in
      case buffer of None \<Rightarrow> p\<lparr>p_payload := None\<rparr> | Some b \<Rightarrow> fst (coap_set_payload p b))"

text \<open>Reading with the Observe option: the result, the format, the buffer, the response and the client.\<close>

definition dm_observe ::
  "env \<Rightarrow> lwm2m_uri \<Rightarrow> lwm2m_server \<Rightarrow> coap_packet \<Rightarrow> coap_packet \<Rightarrow> lwm2m_media_type \<Rightarrow> 's client \<Rightarrow>
   (u8 \<times> lwm2m_media_type \<times> bytes option \<times> coap_packet \<times> 's client) option" where
  "dm_observe E u sv m response format c =
     do {
       (result, ds) \<leftarrow> object_readData E u c;
       if result \<noteq> COAP_205_CONTENT then Some (result, format, None, response, c)
       else
         let (result, format) = utils_getResponseFormat (e_cfg E) (p_accept m) ds (IS_SET_RESOURCE u) in
         if result \<noteq> COAP_205_CONTENT then Some (result, format, None, response, c)
         else do {
           let response = fst (coap_set_header_content_type response (ucast (media_type_num format)));
           (result, response, c) \<leftarrow> observe_handleRequest (e_cfg E) (e_mem E) (e_now E) u sv ds m response c;
           if result \<noteq> COAP_205_CONTENT then Some (result, format, None, response, c)
           else do {
             (res, format, buffer) \<leftarrow>
               lwm2m_data_serialize (e_cfg E) (e_mem E) (e_ext E) (e_stack E) (Some u) ds format;
             if res < 0 then Some (COAP_500_INTERNAL_SERVER_ERROR, format, buffer, response, c)
             else Some (COAP_205_CONTENT, format, buffer, response, c)
           }
         }
     }"

definition dm_get ::
  "env \<Rightarrow> lwm2m_uri \<Rightarrow> lwm2m_server \<Rightarrow> coap_packet \<Rightarrow> coap_packet \<Rightarrow> lwm2m_media_type \<Rightarrow> 's client \<Rightarrow>
   (u8 \<times> coap_packet \<times> 's client) option" where
  "dm_get E u sv m response format c =
     do {
       (result, format, buffer, response, c) \<leftarrow>
         (if IS_OPTION COAP_OPTION_OBSERVE m then dm_observe E u sv m response format c
          else if IS_OPTION COAP_OPTION_ACCEPT m \<and> p_accept m = [APPLICATION_LINK_FORMAT]
          then map_option (\<lambda>(result, buffer). (result, LWM2M_CONTENT_LINK, buffer, response, c))
                 (object_discover E u (Some (sv_shortID sv)) c)
          else map_option (\<lambda>(result, format, buffer). (result, format, buffer, response, c))
                 (object_read E u (p_accept m) format c));
       Some (result, if result = COAP_205_CONTENT then set_result format buffer response else response, c)
     }"

text \<open>\<^verbatim>\<open>sprintf(location_path, "/%d/%d", ...)\<close>.\<close>

definition location_text :: "lwm2m_uri \<Rightarrow> bytes" where
  "location_text u =
     ch_slash # dec_digits (unat (objectId u)) @ ch_slash # dec_digits (unat (instanceId u))"

definition dm_create ::
  "env \<Rightarrow> lwm2m_uri \<Rightarrow> coap_packet \<Rightarrow> coap_packet \<Rightarrow> lwm2m_media_type \<Rightarrow> 's client \<Rightarrow>
   (u8 \<times> coap_packet \<times> 's client) option" where
  "dm_create E u m response format c =
     do {
       (result, u, c) \<leftarrow> object_create E u format (p_payload m) c;
       if result \<noteq> COAP_201_CREATED then Some (result, response, c)
       else if \<not> IS_SET_INSTANCE u then Some (COAP_500_INTERNAL_SERVER_ERROR, response, c)
       else do {
         let response = fst (coap_set_header_location_path (e_mem E) response (location_text u));
         (_, c) \<leftarrow> lwm2m_update_registration E 0 True c;
         Some (result, response, c)
       }
     }"

definition raw_request :: "env \<Rightarrow> coap_packet \<Rightarrow> bool" where
  "raw_request E m \<longleftrightarrow> raw_block1 (e_cfg E) \<and> IS_OPTION COAP_OPTION_BLOCK1 m"

definition dm_post ::
  "env \<Rightarrow> lwm2m_uri \<Rightarrow> coap_packet \<Rightarrow> coap_packet \<Rightarrow> lwm2m_media_type \<Rightarrow> 's client \<Rightarrow>
   (u8 \<times> coap_packet \<times> 's client) option" where
  "dm_post E u m response format c =
     (if raw_request E m then
        map_option (\<lambda>(result, c). (result, response, c))
          (if \<not> IS_SET_INSTANCE u
           then object_raw_block1_create u format (p_payload m) (p_block1_num m) (p_block1_more m) c
           else if \<not> IS_SET_RESOURCE u
           then object_raw_block1_write E u format (p_payload m) (p_block1_num m) (p_block1_more m) c
           else object_raw_block1_execute u (p_payload m) (p_block1_num m) (p_block1_more m) c)
      else if \<not> IS_SET_INSTANCE u then dm_create E u m response format c
      else if \<not> IS_OPTION COAP_OPTION_CONTENT_TYPE m \<or> format = LWM2M_CONTENT_TEXT then
        (if \<not> IS_SET_RESOURCE u \<or> \<not> version_1_0 (e_cfg E) \<and> IS_SET_RESOURCE_INSTANCE u
         then Some (COAP_400_BAD_REQUEST, response, c)
         else map_option (\<lambda>(result, c). (result, response, c)) (object_execute u (p_payload m) c))
      else map_option (\<lambda>(result, c). (result, response, c)) (object_write E u format (payload_of m) True c))"

definition dm_put ::
  "env \<Rightarrow> bytes list \<Rightarrow> lwm2m_uri \<Rightarrow> lwm2m_server \<Rightarrow> coap_packet \<Rightarrow> lwm2m_media_type \<Rightarrow> 's client \<Rightarrow>
   (u8 \<times> 's client) option" where
  "dm_put E behind u sv m format c =
     (if raw_request E m
      then object_raw_block1_write E u format (p_payload m) (p_block1_num m) (p_block1_more m) c
      else if IS_OPTION COAP_OPTION_URI_QUERY m then
        (case prv_readAttributes E (p_uri_query m) behind of
           None \<Rightarrow> None
         | Some None \<Rightarrow> Some (COAP_400_BAD_REQUEST, c)
         | Some (Some a) \<Rightarrow> observe_setParameters E u sv a c)
      else if IS_SET_INSTANCE u then object_write E u format (payload_of m) False c
      else Some (COAP_400_BAD_REQUEST, c))"

definition dm_delete :: "env \<Rightarrow> lwm2m_uri \<Rightarrow> 's client \<Rightarrow> (u8 \<times> 's client) option" where
  "dm_delete E u c =
     (if \<not> IS_SET_INSTANCE u \<or> IS_SET_RESOURCE u then Some (COAP_400_BAD_REQUEST, c)
      else do {
        (result, c) \<leftarrow> object_delete E u c;
        if result = COAP_202_DELETED then do {
          (_, c) \<leftarrow> lwm2m_update_registration E 0 True c;
          Some (result, c)
        }
        else Some (result, c)
      })"

definition request_format :: "env \<Rightarrow> coap_packet \<Rightarrow> lwm2m_media_type" where
  "request_format E m =
     (if IS_OPTION COAP_OPTION_CONTENT_TYPE m then utils_convertMediaType (e_cfg E) (p_content_type m)
      else LWM2M_CONTENT_TLV)"

definition manageable :: "lwm2m_server \<Rightarrow> bool" where
  "manageable sv \<longleftrightarrow>
     \<not> (sv_status sv \<noteq> STATE_REGISTERED \<and> sv_status sv \<noteq> STATE_REG_UPDATE_NEEDED \<and>
        sv_status sv \<noteq> STATE_REG_FULL_UPDATE_NEEDED \<and> sv_status sv \<noteq> STATE_REG_UPDATE_PENDING)"

text \<open>\<open>behind\<close> holds what lies behind each option of the query in the datagram.\<close>

definition dm_handleRequest ::
  "env \<Rightarrow> bytes list \<Rightarrow> lwm2m_uri \<Rightarrow> lwm2m_server \<Rightarrow> coap_packet \<Rightarrow> coap_packet \<Rightarrow> 's client \<Rightarrow>
   (u8 \<times> coap_packet \<times> 's client) option" where
  "dm_handleRequest E behind u sv m response c =
     (let format = request_format E m in
      if objectId u = LWM2M_SECURITY_OBJECT_ID then Some (COAP_401_UNAUTHORIZED, response, c)
      else if \<not> manageable sv then Some (COAP_IGNORE, response, c)
      else if p_code m = COAP_GET then dm_get E u sv m response format c
      else if p_code m = COAP_POST then dm_post E u m response format c
      else if p_code m = COAP_PUT
      then map_option (\<lambda>(result, c). (result, response, c)) (dm_put E behind u sv m format c)
      else if p_code m = COAP_DELETE
      then map_option (\<lambda>(result, c). (result, response, c)) (dm_delete E u c)
      else Some (COAP_400_BAD_REQUEST, response, c))"


section \<open>What a request may change\<close>

lemma update_touches:
  "lwm2m_update_registration E 0 withObjects c = Some (r, c') \<Longrightarrow> cl_serverList c \<noteq> [] \<Longrightarrow> touches oid c c'"
proof -
  assume u: "lwm2m_update_registration E 0 withObjects c = Some (r, c')" and ne: "cl_serverList c \<noteq> []"
  have ids: "map sv_secObjInstID (update_all withObjects svs) = map sv_secObjInstID svs" for svs
    by (induction svs) (auto simp: update_all_def)
  with u ne client_ok_same [of c' c] show ?thesis
    by (auto simp: lwm2m_update_registration_def touches_def find_object_def)
qed

lemma setParameters_touches:
  assumes "observe_setParameters E u sv a c = Some (r, c')" "sv \<in> set (cl_serverList c)"
  shows "touches oid c c'"
proof -
  have "client_ok c \<Longrightarrow> client_ok c'" using setParameters_ok [OF _ _ assms(1)] assms(2) by simp
  moreover have "\<exists>obs. c' = c\<lparr>cl_observedList := obs\<rparr>"
    using assms(1) by (auto simp: observe_setParameters_def Let_def intro: exI [of _ "cl_observedList c"]
        split: if_splits option.splits bool.splits)
  ultimately show ?thesis by (auto simp: touches_def find_object_def)
qed

lemma observe_touches:
  assumes "observe_handleRequest cfg mem now u sv ds m response c = Some (r, response', c')" "sv \<in> set (cl_serverList c)"
  shows "touches oid c c' \<and> cl_objectList c' = cl_objectList c"
proof -
  have "client_ok c \<Longrightarrow> client_ok c'" using handleRequest_ok [OF _ _ assms(1)] assms(2) by simp
  moreover have "\<exists>obs. c' = c\<lparr>cl_observedList := obs\<rparr>" if "observe_stop cfg u sv c = Some c'"
    using that by (auto simp: observe_stop_def observe_cancel_def Let_def intro: exI [of _ "cl_observedList c"]
        split: option.splits)
  moreover have "\<exists>obs. c' = c\<lparr>cl_observedList := obs\<rparr>" if "observe_start cfg mem now u sv ds m response c = Some (r, response', c')"
    using that by (auto simp: observe_start_def Let_def coap_set_header_observe_def intro: exI [of _ "cl_observedList c"]
        split: if_splits option.splits)
  ultimately show ?thesis using assms(1)
    by (auto simp: observe_handleRequest_def touches_def find_object_def split: option.splits if_splits)
qed

lemma get_touches:
  assumes "dm_get E u sv m response format c = Some (r, response', c')" "sv \<in> set (cl_serverList c)"
  shows "touches oid c c' \<and> cl_objectList c' = cl_objectList c"
proof -
  have "touches oid c c' \<and> cl_objectList c' = cl_objectList c"
    if "dm_observe E u sv m response format c = Some (r, f, b, resp, c')" for f b resp
    using that observe_touches [OF _ assms(2)]
    by (auto simp: dm_observe_def Let_def bind_eq_Some_conv case_prod_unfold split: if_splits prod.splits)
  with assms show ?thesis
    by (auto simp: dm_get_def bind_eq_Some_conv split: if_splits)
qed

lemma create_request_touches:
  assumes "dm_create E u m response format c = Some (r, response', c')" "cl_serverList c \<noteq> []"
  shows "touches (objectId u) c c'"
proof -
  from assms(1) obtain r1 u1 c1 where create: "object_create E u format (p_payload m) c = Some (r1, u1, c1)"
    by (auto simp: dm_create_def bind_eq_Some_conv)
  then have t: "touches (objectId u) c c1" using create_touches by fast
  with assms(2) have ne: "cl_serverList c1 \<noteq> []" by (auto simp: touches_def)
  have "touches (objectId u) c c2" if "lwm2m_update_registration E 0 True c1 = Some (r2, c2)" for r2 c2
    using touches_trans [OF t update_touches [OF that ne]] .
  with assms(1) create t show ?thesis
    by (auto simp: dm_create_def Let_def bind_eq_Some_conv split: if_splits)
qed

lemma delete_request_touches:
  assumes "dm_delete E u c = Some (r, c')" "cl_serverList c \<noteq> []"
  shows "touches (objectId u) c c'"
proof (cases "\<not> IS_SET_INSTANCE u \<or> IS_SET_RESOURCE u")
  case True
  with assms(1) show ?thesis by (auto simp: dm_delete_def)
next
  case False
  with assms(1) obtain r1 c1 where del: "object_delete E u c = Some (r1, c1)"
    by (auto simp: dm_delete_def bind_eq_Some_conv)
  then have t: "touches (objectId u) c c1" by (rule delete_touches)
  with assms(2) have ne: "cl_serverList c1 \<noteq> []" by (auto simp: touches_def)
  have "touches (objectId u) c c2" if "lwm2m_update_registration E 0 True c1 = Some (r2, c2)" for r2 c2
    using touches_trans [OF t update_touches [OF that ne]] .
  with assms(1) del t False show ?thesis
    by (auto simp: dm_delete_def Let_def bind_eq_Some_conv split: if_splits)
qed

lemma request_touches:
  assumes "dm_handleRequest E behind u sv m response c = Some (r, response', c')" "sv \<in> set (cl_serverList c)"
  shows "touches (objectId u) c c'"
proof -
  have ne: "cl_serverList c \<noteq> []" using assms(2) by auto
  have "touches (objectId u) c c'" if "dm_post E u m response format c = Some (r, response', c')" for format
    using that create_request_touches [OF _ ne] raw_touches execute_touches write_touches
    by (auto simp: dm_post_def split: if_splits)
  moreover have "touches (objectId u) c c'" if "dm_put E behind u sv m format c = Some (r, c')" for format
    using that setParameters_touches [OF _ assms(2)] raw_touches write_touches
    by (auto simp: dm_put_def split: if_splits option.splits)
  ultimately show ?thesis
    using assms(1) get_touches [OF _ assms(2), THEN conjunct1] delete_request_touches [OF _ ne]
    by (auto simp: dm_handleRequest_def Let_def split: if_splits)
qed

section \<open>The attributes that are read\<close>

text \<open>
  What a query of attributes means. A number is given with its text; \<open>Clear\<close> names an attribute by its
  position in \<open>attribute_names\<close>.
\<close>

datatype attribute_setting =
    Min_period u32
  | Max_period u32
  | Greater_than bytes u64
  | Less_than bytes u64
  | Step bytes u64
  | Clear nat

fun setting_text :: "attribute_setting \<Rightarrow> bytes" where
  "setting_text (Min_period n) = ascii ''pmin='' @ dec_digits (unat n)"
| "setting_text (Max_period n) = ascii ''pmax='' @ dec_digits (unat n)"
| "setting_text (Greater_than t v) = ascii ''gt='' @ t"
| "setting_text (Less_than t v) = ascii ''lt='' @ t"
| "setting_text (Step t v) = ascii ''st='' @ t"
| "setting_text (Clear i) = butlast (fst (attribute_names ! i))"

fun setting_flag :: "attribute_setting \<Rightarrow> u8" where
  "setting_flag (Min_period n) = LWM2M_ATTR_FLAG_MIN_PERIOD"
| "setting_flag (Max_period n) = LWM2M_ATTR_FLAG_MAX_PERIOD"
| "setting_flag (Greater_than t v) = LWM2M_ATTR_FLAG_GREATER_THAN"
| "setting_flag (Less_than t v) = LWM2M_ATTR_FLAG_LESS_THAN"
| "setting_flag (Step t v) = LWM2M_ATTR_FLAG_STEP"
| "setting_flag (Clear i) = snd (attribute_names ! i)"

definition number_text :: "env \<Rightarrow> bytes \<Rightarrow> u64 \<Rightarrow> bool" where
  "number_text E t v \<longleftrightarrow> t \<noteq> [] \<and> text_to_float (e_ext E) t False = Some v"

fun setting_ok :: "env \<Rightarrow> attribute_setting \<Rightarrow> bool" where
  "setting_ok E (Greater_than t v) = number_text E t v"
| "setting_ok E (Less_than t v) = number_text E t v"
| "setting_ok E (Step t v) = (number_text E t v \<and> \<not> f64_less v 0)"
| "setting_ok E (Clear i) = (i < 5)"
| "setting_ok E s = True"

fun apply_setting :: "attribute_setting \<Rightarrow> lwm2m_attributes \<Rightarrow> lwm2m_attributes" where
  "apply_setting (Min_period n) a = a\<lparr>at_toSet := at_toSet a OR 0x01, at_minPeriod := n\<rparr>"
| "apply_setting (Max_period n) a = a\<lparr>at_toSet := at_toSet a OR 0x02, at_maxPeriod := n\<rparr>"
| "apply_setting (Greater_than t v) a = a\<lparr>at_toSet := at_toSet a OR 0x04, at_greaterThan := v\<rparr>"
| "apply_setting (Less_than t v) a = a\<lparr>at_toSet := at_toSet a OR 0x08, at_lessThan := v\<rparr>"
| "apply_setting (Step t v) a = a\<lparr>at_toSet := at_toSet a OR 0x10, at_step := v\<rparr>"
| "apply_setting (Clear i) a = a\<lparr>at_toClear := at_toClear a OR snd (attribute_names ! i)\<rparr>"

text \<open>An option is followed by a byte of the datagram other than \<^verbatim>\<open>=\<close>.\<close>

definition followed :: "bytes \<Rightarrow> bool" where
  "followed b \<longleftrightarrow> b \<noteq> [] \<and> hd b \<noteq> ch_equals"

lemma period_value: "\<not> sint (ucast (n :: u32) :: u64) < 0" "ucast (ucast n :: u64) = n"
  using unsigned_less [of n, where 'a = nat]
  by (simp_all add: sint_neg_iff ucast_up_ucast_id is_up_def source_size_def target_size_def word_size)

lemma period_text: "utils_textToInt (dec_digits (unat (n :: u32))) = Some (ucast n)"
  using textToInt_digits [OF period_value(1) [of n]] by simp

lemma read_one:
  assumes "setting_ok E s" "followed behind"
  shows "read_attribute E attribute_names (setting_text s) behind a =
    Some (if attribute_taken (setting_flag s) a then None else Some (apply_setting s a))"
proof (cases s)
  case (Clear i)
  with assms(1) have "i \<in> {0, 1, 2, 3, 4}" by auto
  moreover obtain b bs where "behind = b # bs" "b \<noteq> ch_equals" using assms(2) by (cases behind) (auto simp: followed_def)
  ultimately show ?thesis using Clear by (auto simp: attribute_names_def ascii_def)
qed (use assms(1) in \<open>auto simp: attribute_names_def ascii_def attribute_value_def number_text_def period_text period_value\<close>)

lemma flag_cases: "setting_ok E s \<Longrightarrow> setting_flag s \<in> {1, 2, 4, 8, 16}"
  by (cases s) (auto simp: attribute_names_def less_Suc_eq numeral_eq_Suc)

lemma one_flag:
  assumes "f \<in> {1, 2, 4, 8, 16}" "g \<in> {1, 2, 4, 8, 16 :: u8}"
  shows "(x OR g) AND f \<noteq> 0 \<longleftrightarrow> x AND f \<noteq> 0 \<or> f = g"
proof -
  have "g AND f = (if f = g then f else 0)" and "f \<noteq> 0" using assms by auto
  then show ?thesis by (auto simp: bit.conj_disj_distrib2 or_eq_0_iff)
qed

lemma taken_apply:
  assumes "setting_ok E s" "f \<in> {1, 2, 4, 8, 16}"
  shows "attribute_taken f (apply_setting s a) \<longleftrightarrow> attribute_taken f a \<or> f = setting_flag s"
proof -
  have "at_toSet (apply_setting s a) OR at_toClear (apply_setting s a) = (at_toSet a OR at_toClear a) OR setting_flag s"
    by (cases s) (simp_all add: ac_simps)
  with one_flag [OF assms(2) flag_cases [OF assms(1)]] show ?thesis by (simp add: attribute_taken_def)
qed

lemma read_settings:
  assumes "\<forall>s \<in> set ss. setting_ok E s" "length behind = length ss" "\<forall>b \<in> set behind. followed b"
  shows "read_attributes E (map setting_text ss) behind a =
    Some (if distinct (map setting_flag ss) \<and> (\<forall>s \<in> set ss. \<not> attribute_taken (setting_flag s) a)
          then Some (fold apply_setting ss a) else None)"
  using assms
proof (induction ss arbitrary: behind a)
  case (Cons s ss)
  then obtain b bs where b: "behind = b # bs" "followed b" by (cases behind) auto
  have "attribute_taken (setting_flag t) (apply_setting s a) \<longleftrightarrow> attribute_taken (setting_flag t) a \<or> setting_flag t = setting_flag s"
    if "t \<in> set ss" for t
    using taken_apply [of E s "setting_flag t" a] flag_cases [of E t] Cons.prems(1) that by auto
  then show ?case using Cons b read_one [of E s b a] by (auto simp del: setting_text.simps) (metis imageI)+
qed simp

text \<open>
  C35: a query of attributes is read as what it says. Every attribute that is set has its value and its
  bit, every attribute that is named without a value has its bit among those to clear, and a query that
  names an attribute twice is refused as a whole.
\<close>
theorem attributes_query_read:
  assumes "\<forall>s \<in> set ss. setting_ok E s" and "length behind = length ss" and "\<forall>b \<in> set behind. followed b"
  shows "prv_readAttributes E (map setting_text ss) behind =
    Some (if distinct (map setting_flag ss) then Some (fold apply_setting ss zero_attributes) else None)"
proof -
  have "\<not> attribute_taken f zero_attributes" for f by (simp add: attribute_taken_def zero_attributes_def)
  with read_settings [OF assms] show ?thesis by (simp add: prv_readAttributes_def)
qed

text \<open>\<^verbatim>\<open>pmin=10&pmax=60&lt\<close>, and \<^verbatim>\<open>pmin=10&pmin\<close>.\<close>

theorem attributes_query_read_witness:
  "prv_readAttributes demo_env (map setting_text [Min_period 10, Max_period 60, Clear 3]) [[38], [38], [255]] =
     Some (Some \<lparr>at_toSet = 3, at_toClear = 8, at_minPeriod = 10, at_maxPeriod = 60, at_greaterThan = 0,
       at_lessThan = 0, at_step = 0\<rparr>) \<and>
   prv_readAttributes demo_env (map setting_text [Min_period 10, Clear 0]) [[38], [255]] = Some None"
  using attributes_query_read [of "[Min_period 10, Max_period 60, Clear 3]" demo_env "[[38], [38], [255]]"]
    attributes_query_read [of "[Min_period 10, Clear 0]" demo_env "[[38], [255]]"]
  by (simp add: followed_def attribute_names_def zero_attributes_def)

section \<open>A request stays within its object\<close>

text \<open>
  C11: a request changes only the object it names. The other objects, and the Security object in every
  case, stay as they are; no server is added or removed and the observations stay well-formed. The
  Security object is refused, a server that is not registered gets no answer, both with nothing changed;
  a read changes no object.
\<close>
theorem requests_stay_in_their_object:
  assumes "dm_handleRequest E behind u sv m response c = Some (r, response', c')"
    and "sv \<in> set (cl_serverList c)" and "client_ok c"
  shows "(\<forall>i. i \<noteq> objectId u \<or> i = LWM2M_SECURITY_OBJECT_ID \<longrightarrow> find_object c' i = find_object c i) \<and>
    map sv_secObjInstID (cl_serverList c') = map sv_secObjInstID (cl_serverList c) \<and>
    cl_bootstrapServerList c' = cl_bootstrapServerList c \<and> cl_state c' = cl_state c \<and> client_ok c' \<and>
    (objectId u = LWM2M_SECURITY_OBJECT_ID \<longrightarrow> r = COAP_401_UNAUTHORIZED \<and> response' = response \<and> c' = c) \<and>
    (objectId u \<noteq> LWM2M_SECURITY_OBJECT_ID \<and> \<not> manageable sv \<longrightarrow> r = COAP_IGNORE \<and> response' = response \<and> c' = c) \<and>
    (p_code m = COAP_GET \<longrightarrow> cl_objectList c' = cl_objectList c)"
proof -
  note t = request_touches [OF assms(1,2)]
  have refused: "objectId u = LWM2M_SECURITY_OBJECT_ID \<Longrightarrow> r = COAP_401_UNAUTHORIZED \<and> response' = response \<and> c' = c"
    and ignored: "objectId u \<noteq> LWM2M_SECURITY_OBJECT_ID \<Longrightarrow> \<not> manageable sv \<Longrightarrow>
      r = COAP_IGNORE \<and> response' = response \<and> c' = c"
    using assms(1) by (auto simp: dm_handleRequest_def)
  have "p_code m = COAP_GET \<Longrightarrow> cl_objectList c' = cl_objectList c"
    using assms(1) get_touches [OF _ assms(2), THEN conjunct2] by (auto simp: dm_handleRequest_def Let_def split: if_splits)
  with t refused ignored assms(3) show ?thesis by (auto simp: touches_def)
qed

text \<open>\<^verbatim>\<open>PUT /3/0/9?pmin=10\<close> at the client of the example.\<close>

definition demo_put :: coap_packet where
  "demo_put = set_known COAP_OPTION_URI_QUERY
     ((coap_init_message COAP_TYPE_CON COAP_PUT 5)\<lparr>p_uri_query := map setting_text [Min_period 10]\<rparr>)"

lemma demo_put_handled:
  "\<exists>c'. dm_handleRequest demo_env [[255]] demo_uri demo_server demo_put r0 demo_client = Some (COAP_204_CHANGED, r0, c') \<and>
    c' \<noteq> demo_client"
proof -
  have read: "prv_readAttributes demo_env (map setting_text [Min_period 10]) [[255]] =
      Some (Some (apply_setting (Min_period 10) zero_attributes))"
    using read_settings [of "[Min_period 10]" demo_env "[[255]]" zero_attributes]
    by (simp add: followed_def prv_readAttributes_def attribute_taken_def zero_attributes_def)
  have m: "p_code demo_put = COAP_PUT" "IS_OPTION COAP_OPTION_URI_QUERY demo_put" "\<not> raw_request demo_env demo_put"
    "p_uri_query demo_put = map setting_text [Min_period 10]"
    by (simp_all add: demo_put_def set_known_def coap_init_message_def zero_packet_def raw_request_def demo_env_def
        client_build_def IS_OPTION_def)
  have ok: "manageable demo_server" "objectId demo_uri \<noteq> 0"
    by (simp_all add: manageable_def demo_server_def demo_uri_def)
  let ?a = "apply_setting (Min_period 10) zero_attributes" and ?obs = "cl_observedList demo_client"
  have a: "at_toSet ?a = 1" "at_toClear ?a = 0" by (simp_all add: zero_attributes_def)
  have c: "e_mem demo_env n" "e_cfg demo_env = client_build" "sv_secObjInstID demo_server = 0" "IS_SET_INSTANCE demo_uri" for n
    by (simp_all add: demo_defs)
  have check: "object_checkReadable demo_env demo_uri ?a demo_client = Some COAP_205_CONTENT"
    by (simp add: object_checkReadable_def a demo_defs find_object_def has_instance_def instances_of_def
        resource_request_def client_build_def lwm2m_data_new_def set_id_def set_value_def zero_attributes_def)
  have watcher: "prv_getWatcher client_build (e_mem demo_env) ?obs demo_uri 0 = Some (?obs, Some (0, 0))"
    by (simp add: prv_getWatcher_def demo_client_def same_where_set_def client_build_def demo_watcher_def new_watcher_def)
  have w: "get_watcher ?obs (0, 0) = demo_watcher" "w_parameters demo_watcher = None"
    by (simp_all add: get_watcher_def demo_client_def demo_watcher_def new_watcher_def)
  let ?c = "demo_client\<lparr>cl_observedList := put_watcher ?obs (0, 0) (demo_watcher\<lparr>w_parameters := Some ?a\<rparr>)\<rparr>"
  have "observe_setParameters demo_env demo_uri demo_server ?a demo_client = Some (COAP_204_CHANGED, ?c)"
    by (simp add: observe_setParameters_def check watcher w c a breaks_rule_def Let_def del: apply_setting.simps)
  then have "dm_handleRequest demo_env [[255]] demo_uri demo_server demo_put r0 demo_client = Some (COAP_204_CHANGED, r0, ?c)"
    using ok m read by (simp add: dm_handleRequest_def dm_put_def del: list.map apply_setting.simps)
  moreover have "?c \<noteq> demo_client"
  proof
    assume "?c = demo_client"
    from arg_cong [OF this, of "\<lambda>c. w_parameters (get_watcher (cl_observedList c) (0, 0))"] w show False
      by (simp add: get_watcher_def put_watcher_def demo_client_def del: apply_setting.simps)
  qed
  ultimately show ?thesis by blast
qed

theorem requests_stay_in_their_object_witness:
  "\<exists>c'. dm_handleRequest demo_env [[255]] demo_uri demo_server demo_put zero_packet demo_client = Some (COAP_204_CHANGED, zero_packet, c') \<and>
    c' \<noteq> demo_client \<and> client_ok c' \<and> cl_state c' = STATE_READY"
proof -
  obtain c' where r: "dm_handleRequest demo_env [[255]] demo_uri demo_server demo_put zero_packet demo_client =
      Some (COAP_204_CHANGED, zero_packet, c')" and c': "c' \<noteq> demo_client"
    using demo_put_handled [of zero_packet] by blast
  have ok: "demo_server \<in> set (cl_serverList demo_client)" "client_ok demo_client" "cl_state demo_client = STATE_READY"
    by (simp_all add: client_ok_def watchers_ok_def demo_client_def demo_watcher_def new_watcher_def demo_server_def
        zero_server_entry_def)
  from requests_stay_in_their_object [OF r ok(1,2)] r c' ok(3) show ?thesis by auto
qed

end
