(* ===== verification/Bootstrap_Command.thy ===== *)
theory Bootstrap_Command
  imports Bootstrap_State Bootstrap_Discover Device_Management
begin

text \<open>
  The commands of a bootstrap server (\<^verbatim>\<open>core/bootstrap.c\<close>, lines 484 to 509 and 753 to 1030): writing
  and deleting accounts, reading them back, and deleting everything but the account of the bootstrap
  server itself.

  The result is the CoAP code with the response under construction and the client; \<open>None\<close> is undefined
  behaviour.
\<close>

abbreviation (input) LWM2M_ACL_OBJECT_ID :: u16 where "LWM2M_ACL_OBJECT_ID \<equiv> 2"

definition prv_handleBootstrapRead ::
  "env \<Rightarrow> lwm2m_uri \<Rightarrow> u16 list \<Rightarrow> lwm2m_media_type \<Rightarrow> 's client \<Rightarrow> (u8 \<times> lwm2m_media_type \<times> bytes option) option" where
  "prv_handleBootstrapRead E u accept format c =
     (if IS_SET_OBJECT u \<and> (objectId u = LWM2M_SERVER_OBJECT_ID \<or> objectId u = LWM2M_ACL_OBJECT_ID)
      then object_read E u accept format c
      else Some (COAP_400_BAD_REQUEST, format, None))"

section \<open>Writing\<close>

definition created_is_changed :: "u8 \<Rightarrow> u8" where
  "created_is_changed result = (if result = COAP_201_CREATED then COAP_204_CHANGED else result)"

text \<open>A changed account of the Security object marks its server.\<close>

definition tag_changed :: "lwm2m_uri \<Rightarrow> u16 \<Rightarrow> u8 \<Rightarrow> 's client \<Rightarrow> 's client" where
  "tag_changed u i result c =
     (if objectId u = LWM2M_SECURITY_OBJECT_ID \<and> result = COAP_204_CHANGED then prv_tagServer i c else c)"

definition write_one :: "env \<Rightarrow> lwm2m_uri \<Rightarrow> lwm2m_media_type \<Rightarrow> coap_packet \<Rightarrow> 's client \<Rightarrow> (u8 \<times> 's client) option" where
  "write_one E u format m c =
     (if object_isInstanceNew (objectId u) (instanceId u) c
      then map_option (\<lambda>(result, _, c). (created_is_changed result, c)) (object_create E u format (p_payload m) c)
      else map_option (\<lambda>(result, c). (result, tag_changed u (instanceId u) result c))
             (object_write E u format (payload_of m) False c))"

text \<open>
  The instances of a whole object, until one is refused. An entry that is not an instance only sets
  the result.
\<close>

fun write_each :: "lwm2m_uri \<Rightarrow> u8 \<Rightarrow> lwm2m_data list \<Rightarrow> 's client \<Rightarrow> (u8 \<times> 's client) option" where
  "write_each u result [] c = Some (result, c)"
| "write_each u result (d # ds) c =
     (if dtype d = LWM2M_TYPE_OBJECT_INSTANCE then do {
        (result, c) \<leftarrow>
          (if object_isInstanceNew (objectId u) (did d) c
           then map_option (\<lambda>(result, c). (created_is_changed result, c)) (object_createInstance u d c)
           else map_option (\<lambda>(result, c). (result, tag_changed u (did d) result c)) (object_writeInstance u d c));
        if result \<noteq> COAP_204_CHANGED then Some (result, c) else write_each u result ds c
      }
      else write_each u COAP_400_BAD_REQUEST ds c)"

definition bootstrap_put ::
  "env \<Rightarrow> lwm2m_uri \<Rightarrow> lwm2m_media_type \<Rightarrow> coap_packet \<Rightarrow> 's client \<Rightarrow> (u8 \<times> 's client) option" where
  "bootstrap_put E u format m c =
     (if IS_SET_INSTANCE u then write_one E u format m c
      else
        (case payload_of m of
           [] \<Rightarrow> Some (COAP_400_BAD_REQUEST, c)
         | _ \<Rightarrow>
             (case lwm2m_data_parse (e_cfg E) (e_mem E) (e_ext E) u (payload_of m) format of
                None \<Rightarrow> None
              | Some (n, ds) \<Rightarrow>
                  if n = 0 then Some (COAP_500_INTERNAL_SERVER_ERROR, c)
                  else if n < 0 then Some (COAP_NO_ERROR, c)
                  else write_each u COAP_NO_ERROR ds c)))"

section \<open>Deleting\<close>

text \<open>
  The instances of an object but the one of the bootstrap server: after a deletion the walk starts again
  at the head of the list, and passes over that instance. A deletion that keeps its instance makes it run
  forever: \<open>None\<close>.
\<close>

partial_function (option) delete_others :: "env \<Rightarrow> u16 \<Rightarrow> u16 \<Rightarrow> 's client \<Rightarrow> (u8 \<times> 's client) option" where
  "delete_others E own oid c =
     (case find_object c oid of
        None \<Rightarrow> None
      | Some ob \<Rightarrow>
          (case dropWhile (\<lambda>i. i = own) (instances_of ob) of
             [] \<Rightarrow> Some (COAP_202_DELETED, c)
           | i # _ \<Rightarrow>
               (case object_delete E (uri_reset\<lparr>objectId := oid, instanceId := i\<rparr>) c of
                  None \<Rightarrow> None
                | Some (result, c) \<Rightarrow>
                    if result = COAP_202_DELETED then delete_others E own oid c else Some (result, c))))"

definition delete_accounts :: "env \<Rightarrow> u16 \<Rightarrow> 's client \<Rightarrow> (u8 \<times> 's client) option" where
  "delete_accounts E own c =
     map_option (\<lambda>(result, c). (result, if result = COAP_202_DELETED then prv_tagAllServer (Some own) c else c))
       (delete_others E own LWM2M_SECURITY_OBJECT_ID c)"

definition bootstrap_delete :: "env \<Rightarrow> u16 \<Rightarrow> lwm2m_uri \<Rightarrow> 's client \<Rightarrow> (u8 \<times> 's client) option" where
  "bootstrap_delete E own u c =
     (if IS_SET_RESOURCE u then Some (COAP_400_BAD_REQUEST, c)
      else if objectId u = LWM2M_SECURITY_OBJECT_ID \<and> \<not> IS_SET_INSTANCE u then
        (if find_object c LWM2M_SECURITY_OBJECT_ID = None then Some (COAP_202_DELETED, c) else delete_accounts E own c)
      else map_option (\<lambda>(result, c).
          (result, if objectId u = LWM2M_SECURITY_OBJECT_ID \<and> result = COAP_202_DELETED
                   then prv_tagServer (instanceId u) c else c)) (object_delete E u c))"

section \<open>The commands\<close>

definition bootstrap_get ::
  "env \<Rightarrow> lwm2m_uri \<Rightarrow> coap_packet \<Rightarrow> coap_packet \<Rightarrow> lwm2m_media_type \<Rightarrow> 's client \<Rightarrow> (u8 \<times> coap_packet) option" where
  "bootstrap_get E u m response format c =
     map_option (\<lambda>(result, format, buffer).
         (result, if result = COAP_205_CONTENT then set_result format buffer response else response))
       (if IS_OPTION COAP_OPTION_ACCEPT m \<and> p_accept m = [APPLICATION_LINK_FORMAT]
        then map_option (\<lambda>(result, buffer). (result, LWM2M_CONTENT_LINK, buffer)) (prv_handleBootstrapDiscover E u c)
        else if version_1_0 (e_cfg E) then Some (COAP_400_BAD_REQUEST, format, None)
        else prv_handleBootstrapRead E u (p_accept m) format c)"

text \<open>After a change the server is bootstrapping the client, and so the client is bootstrapping.\<close>

definition bootstrap_changed :: "u8 \<Rightarrow> u16 \<Rightarrow> 's client \<Rightarrow> 's client option" where
  "bootstrap_changed result own c =
     (if result = COAP_202_DELETED \<or> result = COAP_204_CHANGED then
        map_option (\<lambda>sv.
            if sv_status sv \<noteq> STATE_BS_PENDING
            then (put_bootstrap (sv\<lparr>sv_status := STATE_BS_PENDING\<rparr>) c)\<lparr>cl_state := STATE_BOOTSTRAPPING\<rparr>
            else c) (find_bootstrap c own)
      else Some c)"

definition bootstrap_handleCommand ::
  "env \<Rightarrow> lwm2m_uri \<Rightarrow> u16 \<Rightarrow> coap_packet \<Rightarrow> coap_packet \<Rightarrow> 's client \<Rightarrow> (u8 \<times> coap_packet \<times> 's client) option" where
  "bootstrap_handleCommand E u own m response c =
     do {
       sv \<leftarrow> find_bootstrap c own;
       let format = utils_convertMediaType (e_cfg E) (p_content_type m);
       let (result, sv) = prv_checkServerStatus E sv;
       let c = put_bootstrap sv c;
       if result \<noteq> COAP_NO_ERROR then Some (result, response, c)
       else do {
         (result, response, c) \<leftarrow>
           (if p_code m = COAP_PUT
            then map_option (\<lambda>(result, c). (result, response, c)) (bootstrap_put E u format m c)
            else if p_code m = COAP_DELETE
            then map_option (\<lambda>(result, c). (result, response, c)) (bootstrap_delete E own u c)
            else if p_code m = COAP_GET
            then map_option (\<lambda>(result, response). (result, response, c)) (bootstrap_get E u m response format c)
            else Some (COAP_400_BAD_REQUEST, response, c));
         c \<leftarrow> bootstrap_changed result own c;
         Some (result, response, c)
       }
     }"

text \<open>
  Deleting everything. An object whose instances cannot be deleted counts as deleted; the result of
  each object replaces that of the one before.
\<close>

fun delete_all :: "env \<Rightarrow> u16 \<Rightarrow> u16 list \<Rightarrow> u8 \<Rightarrow> 's client \<Rightarrow> (u8 \<times> 's client) option" where
  "delete_all E own [] result c = Some (result, c)"
| "delete_all E own (oid # oids) result c =
     do {
       (result, c) \<leftarrow>
         (if oid = LWM2M_SECURITY_OBJECT_ID
          then (if result = COAP_202_DELETED then delete_accounts E own c else Some (result, c))
          else map_option (\<lambda>(result, c).
              (if result = COAP_405_METHOD_NOT_ALLOWED then COAP_202_DELETED else result, c))
            (object_delete E (uri_reset\<lparr>objectId := oid\<rparr>) c));
       delete_all E own oids result c
     }"

definition bootstrap_handleDeleteAll :: "env \<Rightarrow> nat \<Rightarrow> 's client \<Rightarrow> (u8 \<times> 's client) option" where
  "bootstrap_handleDeleteAll E peer c =
     (case utils_findBootstrapServer c peer of
        None \<Rightarrow> Some (COAP_IGNORE, c)
      | Some sv \<Rightarrow>
          let (result, sv) = prv_checkServerStatus E sv; c = put_bootstrap sv c in
          if result \<noteq> COAP_NO_ERROR then Some (result, c)
          else delete_all E (sv_secObjInstID sv) (map o_objID (cl_objectList c)) COAP_202_DELETED c)"

end
