(* ===== verification/Message_Blocks.thy ===== *)
theory Message_Blocks
  imports Bootstrap_Command
begin

text \<open>
  The transfers of large messages (\<^verbatim>\<open>core/packet.c\<close>, lines 103 to 126 and 218 to 478): the size of
  blocks, the next message of a Block1 transfer, and asking for blocks of an answer.

  Every next message is a new transaction made from the bytes of the last one. \<open>None\<close> is undefined
  behaviour.
\<close>

abbreviation (input) COAP_402_BAD_OPTION :: u8 where "COAP_402_BAD_OPTION \<equiv> 0x82"

section \<open>The size of blocks\<close>

definition validate_block_size :: "u16 \<Rightarrow> bool" where
  "validate_block_size sz \<longleftrightarrow> sz \<in> {16, 32, 64, 128, 256, 512, 1024}"

definition lwm2m_set_coap_block_size :: "u16 \<Rightarrow> platform \<Rightarrow> bool \<times> platform" where
  "lwm2m_set_coap_block_size sz P =
     (if validate_block_size sz then (True, P\<lparr>pf_block_size := sz\<rparr>) else (False, P))"

definition lwm2m_get_coap_block_size :: "platform \<Rightarrow> u16" where
  "lwm2m_get_coap_block_size P = pf_block_size P"

section \<open>The peer of a message\<close>

text \<open>A server, or else a bootstrap server (\<open>True\<close>).\<close>

definition find_peer :: "'s client \<Rightarrow> nat \<Rightarrow> (bool \<times> lwm2m_server) option" where
  "find_peer c peer =
     (case utils_findServer c peer of
        Some sv \<Rightarrow> Some (False, sv)
      | None \<Rightarrow> map_option (Pair True) (utils_findBootstrapServer c peer))"

definition peer_again :: "bool \<times> lwm2m_server \<Rightarrow> 's client \<Rightarrow> lwm2m_server option" where
  "peer_again pr c =
     (if fst pr then find_bootstrap c (sv_secObjInstID (snd pr)) else find_server c (sv_secObjInstID (snd pr)))"

definition put_blocks :: "bool \<times> lwm2m_server \<Rightarrow> block_data list \<Rightarrow> 's client \<Rightarrow> 's client option" where
  "put_blocks pr bds c =
     map_option (\<lambda>sv. (if fst pr then put_bootstrap else put_server) (sv\<lparr>sv_blockData := bds\<rparr>) c) (peer_again pr c)"

section \<open>The next message\<close>

definition prv_get_transaction :: "'s lwm2m_context \<Rightarrow> nat \<Rightarrow> u16 \<Rightarrow> transaction option" where
  "prv_get_transaction net peer mid = find (\<lambda>t. t_peerH t = peer \<and> t_mID t = mid) (n_transactions net)"

text \<open>
  The options of the message that was sent, without the blocks. The host and the location query are
  copied to the stack of a block that is left before they are used.
\<close>

definition copy_options :: "coap_packet \<Rightarrow> coap_packet \<Rightarrow> coap_packet option" where
  "copy_options m p =
     (if IS_OPTION COAP_OPTION_PROXY_URI m \<or> IS_OPTION COAP_OPTION_URI_HOST m \<or> IS_OPTION COAP_OPTION_LOCATION_QUERY m
      then None
      else
        let given = (\<lambda>opt set p. if IS_OPTION opt m then set p else p);
            p = fst (coap_set_header_content_type p (ucast (p_type m)));
            p = given COAP_OPTION_ETAG (\<lambda>p. fst (coap_set_header_etag p (p_etag m))) p;
            p = given COAP_OPTION_URI_PORT (\<lambda>p. coap_set_header_uri_port p (p_uri_port m)) p;
            p = given COAP_OPTION_LOCATION_PATH (\<lambda>p. set_known COAP_OPTION_LOCATION_PATH (p\<lparr>p_location_path := p_location_path m\<rparr>)) p;
            p = given COAP_OPTION_CONTENT_TYPE (\<lambda>p. set_known COAP_OPTION_CONTENT_TYPE (p\<lparr>p_content_type := p_content_type m\<rparr>)) p;
            p = given COAP_OPTION_URI_PATH (\<lambda>p. set_known COAP_OPTION_URI_PATH (p\<lparr>p_uri_path := p_uri_path m\<rparr>)) p;
            p = given COAP_OPTION_OBSERVE (\<lambda>p. fst (coap_set_header_observe p (p_observe m))) p;
            p = fold (\<lambda>a p. fst (coap_set_header_accept p a)) (p_accept m) p;
            p = given COAP_OPTION_IF_MATCH (\<lambda>p. fst (coap_set_header_if_match p (p_if_match m))) p;
            p = given COAP_OPTION_URI_QUERY (\<lambda>p. set_known COAP_OPTION_URI_QUERY (p\<lparr>p_uri_query := p_uri_query m\<rparr>)) p;
            p = given COAP_OPTION_IF_NONE_MATCH (\<lambda>p. fst (coap_set_header_if_none_match p)) p
        in Some p)"

text \<open>\<open>Some None\<close> is the null pointer.\<close>

definition prv_create_next_block_transaction :: "env \<Rightarrow> transaction \<Rightarrow> u16 \<Rightarrow> transaction option option" where
  "prv_create_next_block_transaction E t nextMID =
     do {
       buffer \<leftarrow> t_buffer t;
       (code, m) \<leftarrow> coap_parse_message (e_mem E) buffer;
       if code \<noteq> NO_ERROR then Some None
       else do {
         clone \<leftarrow> transaction_new (e_cfg E) (e_mem E) (e_now E) (e_stack E) (Some (t_peerH t)) (p_code m) None None nextMID
           (length (p_token m)) (Some (p_token m));
         case clone of
           None \<Rightarrow> Some None
         | Some clone \<Rightarrow> do {
             p \<leftarrow> copy_options m (t_message clone);
             let payload = (case t_payload t of None \<Rightarrow> [] | Some b \<Rightarrow> b);
             if \<not> e_mem E (length payload) then Some None
             else Some (Some (clone\<lparr>t_message := p, t_payload := Some payload, t_callback := t_callback t,
                    t_userData := t_userData t\<rparr>))
           }
       }
     }"

section \<open>Sending the blocks of a payload\<close>

text \<open>The result is that of the C function: 0, a CoAP code, or \<^verbatim>\<open>-1\<close>.\<close>

definition prv_send_new_block1 ::
  "env \<Rightarrow> 's client callbacks \<Rightarrow> transaction \<Rightarrow> u32 \<Rightarrow> u16 \<Rightarrow> 's lwm2m_context \<Rightarrow> ('s lwm2m_context \<times> int) option" where
  "prv_send_new_block1 E run previous block_num block_size net =
     (let payload = (case t_payload previous of None \<Rightarrow> [] | Some b \<Rightarrow> b);
          start = unat block_num * unat block_size
      in
      if start \<ge> length payload then Some (net, 0)
      else
        let (mid, net) = take_mid net in
        do {
          t \<leftarrow> prv_create_next_block_transaction E previous mid;
          case t of
            None \<Rightarrow> Some (net, int (unat COAP_500_INTERNAL_SERVER_ERROR))
          | Some t \<Rightarrow>
              let remaining = length payload - start;
                  m = fst (coap_set_header_block1 (t_message t) block_num (if remaining > unat block_size then 1 else 0) block_size);
                  m = fst (coap_set_payload m (take (min (unat block_size) remaining) (drop start payload)));
                  t = t\<lparr>t_message := m\<rparr>
              in transaction_send (e_mem E) (e_now E) run (add_transaction t net) t
        })"

definition prv_send_next_block1 ::
  "env \<Rightarrow> 's client callbacks \<Rightarrow> nat \<Rightarrow> u16 \<Rightarrow> u16 \<Rightarrow> 's lwm2m_context \<Rightarrow> ('s lwm2m_context \<times> int) option" where
  "prv_send_next_block1 E run peer mid block_size net =
     (case prv_get_transaction net peer mid of
        None \<Rightarrow> Some (net, int (unat COAP_500_INTERNAL_SERVER_ERROR))
      | Some t \<Rightarrow>
          let m = t_message t;
              block_size = (if block_size > p_block1_size m \<or> block_size = 0 then p_block1_size m else block_size)
          in
          if p_block1_num m = 0 then
            (if block_size = 0 then None
             else prv_send_new_block1 E run t (ucast (p_block1_size m div block_size)) block_size net)
          else prv_send_new_block1 E run t (p_block1_num m + 1) block_size net)"

text \<open>
  The largest power of two from 16 on that is not above the low 16 bits of the size; \<^verbatim>\<open>16 << n\<close> passes
  them at the latest for 12. The transaction is not tested for null.
\<close>

definition fitting_block_size :: "u32 \<Rightarrow> nat" where
  "fitting_block_size sz =
     fold (\<lambda>n b. if 16 * 2 ^ n \<le> unat sz mod 65536 then 16 * 2 ^ n else b) [1..<12] 16"

definition prv_change_to_block1 ::
  "env \<Rightarrow> platform \<Rightarrow> 's client callbacks \<Rightarrow> nat \<Rightarrow> u16 \<Rightarrow> u32 \<Rightarrow> 's lwm2m_context \<Rightarrow> ('s lwm2m_context \<times> int) option" where
  "prv_change_to_block1 E P run peer mid sz net =
     (case prv_get_transaction net peer mid of
        None \<Rightarrow> None
      | Some t \<Rightarrow> prv_send_new_block1 E run t 0 (min (of_nat (fitting_block_size sz)) (lwm2m_get_coap_block_size P)) net)"

definition prv_retry_block1 ::
  "env \<Rightarrow> 's client callbacks \<Rightarrow> nat \<Rightarrow> u16 \<Rightarrow> u16 \<Rightarrow> 's lwm2m_context \<Rightarrow> ('s lwm2m_context \<times> int) option" where
  "prv_retry_block1 E run peer mid block_size net =
     (case prv_get_transaction net peer mid of
        None \<Rightarrow> Some (net, int (unat COAP_500_INTERNAL_SERVER_ERROR))
      | Some t \<Rightarrow>
          let m = t_message t in
          if \<not> IS_OPTION COAP_OPTION_BLOCK1 m then prv_send_new_block1 E run t 0 block_size net
          else
            let block_size = (if block_size = p_block1_size m \<and> block_size > 16 then block_size div 2 else block_size) in
            if block_size \<ge> p_block1_size m \<or> block_size = 0 then Some (net, int (unat COAP_400_BAD_REQUEST))
            else prv_send_new_block1 E run t (p_block1_num m) block_size net)"

section \<open>Asking for the blocks of an answer\<close>

definition prv_send_get_block2 ::
  "env \<Rightarrow> platform \<Rightarrow> 's client callbacks \<Rightarrow> nat \<Rightarrow> bool \<times> lwm2m_server \<Rightarrow> u16 \<Rightarrow> u32 \<Rightarrow> u16 \<Rightarrow> 's lwm2m_context \<Rightarrow>
   ('s lwm2m_context \<times> int) option" where
  "prv_send_get_block2 E P run peer pr currentMID block2_num block2_size net =
     (case prv_get_transaction net peer currentMID of
        None \<Rightarrow> Some (net, int (unat COAP_500_INTERNAL_SERVER_ERROR))
      | Some t \<Rightarrow>
          if block2_num = 0 \<and> IS_OPTION COAP_OPTION_BLOCK2 (t_message t) then Some (net, int (unat COAP_IGNORE))
          else
            let (nextMID, net) = take_mid net in
            do {
              clone \<leftarrow> prv_create_next_block_transaction E t nextMID;
              case clone of
                None \<Rightarrow> Some (net, int (unat COAP_500_INTERNAL_SERVER_ERROR))
              | Some t \<Rightarrow> do {
                  let m = fst (coap_set_header_block2 (t_message t) block2_num 0 (min block2_size (lwm2m_get_coap_block_size P)));
                  let t = t\<lparr>t_message := m\<rparr>;
                  sv \<leftarrow> peer_again pr (n_app net);
                  bds \<leftarrow> coap_block2_set_expected_mid (sv_blockData sv) currentMID nextMID;
                  c \<leftarrow> put_blocks pr bds (n_app net);
                  transaction_send (e_mem E) (e_now E) run (add_transaction t (net\<lparr>n_app := c\<rparr>)) t
                }
            })"

definition prv_send_get_next_block2 ::
  "env \<Rightarrow> platform \<Rightarrow> 's client callbacks \<Rightarrow> nat \<Rightarrow> bool \<times> lwm2m_server \<Rightarrow> u16 \<Rightarrow> u32 \<Rightarrow> u16 \<Rightarrow> 's lwm2m_context \<Rightarrow>
   ('s lwm2m_context \<times> int) option" where
  "prv_send_get_next_block2 E P run peer pr currentMID block2_num block2_size net =
     prv_send_get_block2 E P run peer pr currentMID (block2_num + 1) block2_size net"

end
