(* ===== verification/Message_Dispatch.thy ===== *)
theory Message_Dispatch
  imports Message_Blocks
begin

text \<open>
  The entry of every datagram (\<^verbatim>\<open>core/packet.c\<close>, lines 128 to 216 and 481 to 859): a request goes to the
  part of the client that its URI names and is answered, an answer goes to the transaction it belongs
  to, and large payloads go block by block in both directions.

  The result is the context; \<open>None\<close> is undefined behaviour. What lies behind the options of a query in
  the datagram, and the text of the last error of the parser, are arguments.
\<close>

record datagram =
  d_bytes :: bytes
  d_behind :: "bytes list"
  d_error_text :: bytes

section \<open>Requests\<close>

definition handle_reset :: "nat \<Rightarrow> coap_packet \<Rightarrow> 's client \<Rightarrow> 's client option" where
  "handle_reset peer m c = observe_cancel (p_mid m) (Some peer) c"

definition request_target ::
  "env \<Rightarrow> bytes list \<Rightarrow> nat \<Rightarrow> coap_packet \<Rightarrow> coap_packet \<Rightarrow> lwm2m_request_type \<Rightarrow> lwm2m_uri \<Rightarrow> 's client \<Rightarrow>
   (u8 \<times> coap_packet \<times> 's client) option" where
  "request_target E behind peer m response type u c =
     (case type of
        LWM2M_REQUEST_TYPE_DM \<Rightarrow>
          (case find_peer c peer of
             None \<Rightarrow> Some (COAP_IGNORE, response, c)
           | Some (False, sv) \<Rightarrow> dm_handleRequest E behind u sv m response c
           | Some (True, sv) \<Rightarrow> bootstrap_handleCommand E u (sv_secObjInstID sv) m response c)
      | LWM2M_REQUEST_TYPE_DELETE_ALL \<Rightarrow>
          map_option (\<lambda>(result, c). (result, response, c)) (bootstrap_handleDeleteAll E peer c)
      | LWM2M_REQUEST_TYPE_BOOTSTRAP \<Rightarrow>
          if p_code m = COAP_POST
          then map_option (\<lambda>(result, c). (result, response, c)) (bootstrap_handleFinish E peer c)
          else Some (COAP_IGNORE, response, c)
      | _ \<Rightarrow> Some (COAP_IGNORE, response, c))"

definition handle_request ::
  "env \<Rightarrow> bytes list \<Rightarrow> nat \<Rightarrow> coap_packet \<Rightarrow> coap_packet \<Rightarrow> 's client \<Rightarrow> (u8 \<times> coap_packet \<times> 's client) option" where
  "handle_request E behind peer m response c =
     do {
       (type, u) \<leftarrow> uri_decode (e_cfg E) (cl_altPath c) (p_uri_path m) (p_code m);
       if type = LWM2M_REQUEST_TYPE_UNKNOWN then Some (COAP_400_BAD_REQUEST, response, c)
       else do {
         (result, response, c) \<leftarrow> request_target E behind peer m response type u c;
         let response = fst (coap_set_status_code response (unat result));
         Some (if COAP_IGNORE < result \<and> result < COAP_400_BAD_REQUEST then NO_ERROR else result, response, c)
       }
     }"

section \<open>The blocks of a request\<close>

definition start_response :: "coap_packet \<Rightarrow> 's lwm2m_context \<Rightarrow> coap_packet \<times> 's lwm2m_context" where
  "start_response m net =
     (let (response, net) =
            (if p_type m = COAP_TYPE_CON then (coap_init_message COAP_TYPE_ACK COAP_205_CONTENT (p_mid m), net)
             else let (mid, net) = take_mid net in (coap_init_message COAP_TYPE_NON COAP_205_CONTENT mid, net))
      in (if p_token m \<noteq> [] then fst (coap_set_header_token response (p_token m)) else response, net))"

text \<open>The buffer of a complete transfer becomes the payload of the message.\<close>

definition complete_payload :: "bool \<Rightarrow> u8 \<Rightarrow> (block_buffer \<times> nat) option \<Rightarrow> coap_packet \<Rightarrow> coap_packet option" where
  "complete_payload raw code complete m =
     (if raw \<or> code \<noteq> NO_ERROR then Some m
      else
        (case complete of
           Some (Buffer b, n) \<Rightarrow> Some (m\<lparr>p_payload := Some (take n b)\<rparr>)
         | Some (Null, n) \<Rightarrow> Some (m\<lparr>p_payload := None\<rparr>)
         | _ \<Rightarrow> None))"

text \<open>A block of a request: the code, the message, the response and the client.\<close>

definition request_block ::
  "env \<Rightarrow> platform \<Rightarrow> nat \<Rightarrow> coap_packet \<Rightarrow> coap_packet \<Rightarrow> 's client \<Rightarrow> (u8 \<times> coap_packet \<times> coap_packet \<times> 's client) option" where
  "request_block E P peer m response c =
     (case find_peer c peer of
        None \<Rightarrow> Some (COAP_500_INTERNAL_SERVER_ERROR, m, response, c)
      | Some pr \<Rightarrow> do {
          uri \<leftarrow> coap_get_packet_uri_as_string (e_mem E) m;
          (code, m, c) \<leftarrow>
            (case uri of
               None \<Rightarrow> Some (COAP_500_INTERNAL_SERVER_ERROR, m, c)
             | Some uri \<Rightarrow> do {
                 (code, bds, complete) \<leftarrow> coap_block1_handler (raw_block1 (e_cfg E)) (e_mem E) (sv_blockData (snd pr)) (Some uri)
                   (p_mid m) (payload_of m) (p_block1_size m) (p_block1_num m) (p_block1_more m \<noteq> 0);
                 c \<leftarrow> put_blocks pr bds c;
                 m \<leftarrow> complete_payload (raw_block1 (e_cfg E)) code complete m;
                 Some (code, m, c)
               });
          let sz = min (p_block1_size m) (lwm2m_get_coap_block_size P);
          Some (code, m, fst (coap_set_header_block1 response (p_block1_num m) (p_block1_more m) sz), c)
        })"

definition accept_request ::
  "env \<Rightarrow> platform \<Rightarrow> nat \<Rightarrow> coap_packet \<Rightarrow> coap_packet \<Rightarrow> 's client \<Rightarrow> (u8 \<times> coap_packet \<times> coap_packet \<times> 's client) option" where
  "accept_request E P peer m response c =
     (let bs = lwm2m_get_coap_block_size P in
      if length (payload_of m) > unat bs then
        Some (COAP_413_ENTITY_TOO_LARGE, m,
          if IS_OPTION COAP_OPTION_BLOCK1 m
          then fst (coap_set_header_block1 response (p_block1_num m) (p_block1_more m) bs)
          else fst (coap_set_header_block1 response 0 1 bs), c)
      else if IS_OPTION COAP_OPTION_BLOCK1 m then request_block E P peer m response c
      else Some (NO_ERROR, m, response, c))"

text \<open>The part of the answer that is sent: the block asked for, or the first one.\<close>

definition response_block :: "platform \<Rightarrow> coap_packet \<Rightarrow> coap_packet \<Rightarrow> coap_packet" where
  "response_block P m response =
     (let bs = lwm2m_get_coap_block_size P; payload = payload_of response; len = length payload in
      if IS_OPTION COAP_OPTION_BLOCK2 m then
        (let sz = min (p_block2_size m) bs; offset = unat (p_block2_offset m) in
         if offset \<ge> len then
           fst (coap_set_payload (response\<lparr>p_code := COAP_402_BAD_OPTION\<rparr>) (ascii ''BlockOutOfScope''))
         else
           let p = fst (coap_set_header_block2 response (p_block2_num m) (if len - offset > unat sz then 1 else 0) sz) in
           fst (coap_set_payload p (take (min (len - offset) (unat sz)) (drop offset payload))))
      else if len > unat bs then
        fst (coap_set_payload (fst (coap_set_header_block2 response 0 1 bs)) (take (unat bs) payload))
      else response)"

text \<open>A repeated block is acknowledged like the first time.\<close>

definition error_status :: "u8 \<Rightarrow> coap_packet \<Rightarrow> u8" where
  "error_status code response =
     (if code = COAP_RETRANSMISSION \<and> IS_OPTION COAP_OPTION_BLOCK1 response
      then (if p_block1_more response \<noteq> 0 then COAP_231_CONTINUE else COAP_204_CHANGED) else code)"

definition incoming_request ::
  "env \<Rightarrow> platform \<Rightarrow> bytes list \<Rightarrow> nat \<Rightarrow> coap_packet \<Rightarrow> 's lwm2m_context \<Rightarrow> ('s lwm2m_context \<times> u8) option" where
  "incoming_request E P behind peer m net =
     do {
       let (response, net) = start_response m net;
       (code, m, response, c) \<leftarrow> accept_request E P peer m response (n_app net);
       (code, response, c) \<leftarrow>
         (if code = NO_ERROR \<or> raw_block1 (e_cfg E) \<and> code = COAP_231_CONTINUE
          then handle_request E behind peer m response c else Some (code, response, c));
       let net = net\<lparr>n_app := c\<rparr>;
       if code = NO_ERROR then message_send (e_mem E) (pf_transport P) net peer (response_block P m response)
       else if code \<noteq> COAP_IGNORE then
         message_send (e_mem E) (pf_transport P) net peer
           (fst (coap_set_status_code response (unat (error_status code response))))
       else Some (net, code)
     }"

section \<open>Answers\<close>

definition finish ::
  "env \<Rightarrow> platform \<Rightarrow> 's client callbacks \<Rightarrow> nat \<Rightarrow> coap_packet \<Rightarrow> 's lwm2m_context \<Rightarrow> 's lwm2m_context option" where
  "finish E P run peer m net =
     map_option fst (transaction_handleResponse (e_mem E) (e_now E) (pf_transport P) run net peer m False)"

text \<open>An answer that is too large is asked for again in blocks.\<close>

definition large_answer ::
  "env \<Rightarrow> platform \<Rightarrow> 's client callbacks \<Rightarrow> nat \<Rightarrow> coap_packet \<Rightarrow> 's lwm2m_context \<Rightarrow> 's lwm2m_context option" where
  "large_answer E P run peer m net =
     do {
       net \<leftarrow> (case find_peer (n_app net) peer of
                None \<Rightarrow> Some net
              | Some pr \<Rightarrow> map_option fst
                  (prv_send_get_block2 E P run peer pr (p_mid m) 0 (lwm2m_get_coap_block_size P) net));
       finish E P run peer m net
     }"

definition separate_answer ::
  "env \<Rightarrow> platform \<Rightarrow> 's client callbacks \<Rightarrow> nat \<Rightarrow> coap_packet \<Rightarrow> 's lwm2m_context \<Rightarrow> ('s lwm2m_context \<times> u8) option" where
  "separate_answer E P run peer m net =
     do {
       (net, found) \<leftarrow> transaction_handleResponse (e_mem E) (e_now E) (pf_transport P) run net peer m True;
       if \<not> found \<and> p_type m = COAP_TYPE_CON
       then message_send (e_mem E) (pf_transport P) net peer (coap_init_message COAP_TYPE_ACK 0 (p_mid m))
       else Some (net, NO_ERROR)
     }"

definition block1_answer ::
  "env \<Rightarrow> 's client callbacks \<Rightarrow> nat \<Rightarrow> coap_packet \<Rightarrow> 's lwm2m_context \<Rightarrow> 's lwm2m_context option" where
  "block1_answer E run peer m net =
     (if p_code m \<in> {COAP_201_CREATED, COAP_204_CHANGED, COAP_231_CONTINUE}
      then map_option fst (prv_send_next_block1 E run peer (p_mid m) (p_block1_size m) net)
      else if p_code m = COAP_413_ENTITY_TOO_LARGE \<and> \<not> p_block1_num m > 0
      then map_option fst (prv_retry_block1 E run peer (p_mid m) (p_block1_size m) net)
      else Some net)"

definition block2_answer ::
  "env \<Rightarrow> platform \<Rightarrow> 's client callbacks \<Rightarrow> nat \<Rightarrow> coap_packet \<Rightarrow> 's lwm2m_context \<Rightarrow> ('s lwm2m_context \<times> u8) option" where
  "block2_answer E P run peer m net =
     (case find_peer (n_app net) peer of
        None \<Rightarrow> Some (net, COAP_500_INTERNAL_SERVER_ERROR)
      | Some pr \<Rightarrow> do {
          (code, bds, complete) \<leftarrow> coap_block2_handler (e_mem E) (sv_blockData (snd pr)) (p_mid m) (payload_of m)
            (p_block2_size m) (p_block2_num m) (p_block2_more m \<noteq> 0);
          c \<leftarrow> put_blocks pr bds (n_app net);
          let net = net\<lparr>n_app := c\<rparr>;
          if code = NO_ERROR then do {
            m' \<leftarrow> complete_payload False code complete m;
            net \<leftarrow> finish E P run peer m' net;
            sv \<leftarrow> peer_again pr (n_app net);
            bds \<leftarrow> block2_delete (raw_block1 (e_cfg E)) (sv_blockData sv) (p_mid m);
            c \<leftarrow> put_blocks pr bds (n_app net);
            Some (net\<lparr>n_app := c\<rparr>, NO_ERROR)
          }
          else if code = COAP_231_CONTINUE then do {
            (net, _) \<leftarrow> prv_send_get_next_block2 E P run peer pr (p_mid m) (p_block2_num m) (p_block2_size m) net;
            net \<leftarrow> finish E P run peer m net;
            Some (net, NO_ERROR)
          }
          else Some (net, code)
        })"

definition incoming_answer ::
  "env \<Rightarrow> platform \<Rightarrow> 's client callbacks \<Rightarrow> nat \<Rightarrow> coap_packet \<Rightarrow> 's lwm2m_context \<Rightarrow> ('s lwm2m_context \<times> u8) option" where
  "incoming_answer E P run peer m net =
     (let large = length (payload_of m) > unat (lwm2m_get_coap_block_size P);
          quiet = map_option (\<lambda>net. (net, NO_ERROR))
      in
      if p_type m = COAP_TYPE_NON \<or> p_type m = COAP_TYPE_CON then
        (if large then quiet (large_answer E P run peer m net) else separate_answer E P run peer m net)
      else if p_type m = COAP_TYPE_RST then do {
        c \<leftarrow> handle_reset peer m (n_app net);
        quiet (finish E P run peer m (net\<lparr>n_app := c\<rparr>))
      }
      else if large then quiet (large_answer E P run peer m net)
      else if IS_OPTION COAP_OPTION_BLOCK1 m then do {
        net \<leftarrow> block1_answer E run peer m net;
        quiet (finish E P run peer m net)
      }
      else if IS_OPTION COAP_OPTION_BLOCK2 m then block2_answer E P run peer m net
      else if p_code m = COAP_413_ENTITY_TOO_LARGE then do {
        (net, _) \<leftarrow> prv_change_to_block1 E P run peer (p_mid m) (p_size m) net;
        quiet (finish E P run peer m net)
      }
      else quiet (finish E P run peer m net))"

section \<open>Datagrams\<close>

text \<open>Whatever went wrong is answered with an acknowledgement, codes from 192 on as \<^verbatim>\<open>5.00\<close>.\<close>

definition report_error ::
  "env \<Rightarrow> platform \<Rightarrow> nat \<Rightarrow> bytes \<Rightarrow> u8 \<Rightarrow> coap_packet \<Rightarrow> 's lwm2m_context \<Rightarrow> 's lwm2m_context option" where
  "report_error E P peer error_text code m net =
     (if code \<noteq> NO_ERROR \<and> code \<noteq> COAP_IGNORE then
        (let code = (if code \<ge> 192 then COAP_500_INTERNAL_SERVER_ERROR else code);
             p = fst (coap_set_payload (coap_init_message COAP_TYPE_ACK code (p_mid m)) error_text)
         in map_option fst (message_send (e_mem E) (pf_transport P) net peer p))
      else Some net)"

definition lwm2m_handle_packet ::
  "env \<Rightarrow> platform \<Rightarrow> 's client callbacks \<Rightarrow> datagram \<Rightarrow> nat \<Rightarrow> 's lwm2m_context \<Rightarrow> 's lwm2m_context option" where
  "lwm2m_handle_packet E P run dg peer net =
     do {
       (code, m) \<leftarrow> coap_parse_message (e_mem E) (take (length (d_bytes dg) mod 65536) (d_bytes dg));
       (net, code) \<leftarrow>
         (if code \<noteq> NO_ERROR then Some (net, code)
          else if COAP_GET \<le> p_code m \<and> p_code m \<le> COAP_DELETE then incoming_request E P (d_behind dg) peer m net
          else incoming_answer E P run peer m net);
       report_error E P peer (d_error_text dg) code m net
     }"

end
