(* ===== verification/Registration_Order.thy ===== *)
theory Registration_Order
  imports Registration_State
begin

text \<open>
  What the walks over the servers of a client compute: the status that is reported, and which
  registrations are started and when.
\<close>

section \<open>The reported status\<close>

definition pending_status :: "lwm2m_status \<Rightarrow> bool" where
  "pending_status s \<longleftrightarrow> s \<in> {STATE_REG_HOLD_OFF, STATE_REG_PENDING}"

definition registered_status :: "lwm2m_status \<Rightarrow> bool" where
  "registered_status s \<longleftrightarrow>
     s \<in> {STATE_REGISTERED, STATE_REG_UPDATE_NEEDED, STATE_REG_FULL_UPDATE_NEEDED, STATE_REG_UPDATE_PENDING,
          STATE_DEREG_PENDING}"

lemma registration_status_value:
  "registration_status s svs =
     (if \<exists>sv \<in> set svs. pending_status (sv_status sv) then STATE_REG_PENDING
      else if s = STATE_REG_FAILED \<and> (\<exists>sv \<in> set svs. registered_status (sv_status sv)) then STATE_REGISTERED
      else s)"
proof (induction svs arbitrary: s)
  case Nil
  show ?case by simp
next
  case (Cons sv svs)
  show ?case
    by (cases "sv_status sv") (simp_all add: Cons.IH pending_status_def registered_status_def)
qed

text \<open>
  C37: The reported status is what the comment of \<^verbatim>\<open>registration_getStatus\<close> promises: pending when some
  registration is held off or pending, else registered when the client is registered with some server,
  else failed.
\<close>

theorem registration_status_reported:
  "registration_getStatus c =
     (if \<exists>sv \<in> set (cl_serverList c). pending_status (sv_status sv) then STATE_REG_PENDING
      else if \<exists>sv \<in> set (cl_serverList c). registered_status (sv_status sv) then STATE_REGISTERED
      else STATE_REG_FAILED)"
  by (simp add: registration_getStatus_def registration_status_value)

section \<open>The order of the registrations\<close>

definition fresh :: "lwm2m_server \<Rightarrow> lwm2m_server" where
  "fresh sv = sv\<lparr>sv_attempt := 0, sv_sequence := 0\<rparr>"

text \<open>The order of a server, if it has one, and its initial delay; both are read from the Server object.\<close>

definition order_of :: "env \<Rightarrow> 's lwm2m_object \<Rightarrow> lwm2m_server \<Rightarrow> u64 option" where
  "order_of E ob sv = (case prv_getRegistrationOrder E ob sv of Some (_, True, order) \<Rightarrow> order | _ \<Rightarrow> None)"

definition delay_of :: "env \<Rightarrow> 's lwm2m_object \<Rightarrow> lwm2m_server \<Rightarrow> u64" where
  "delay_of E ob sv =
     (case prv_readUint E ob (sv_servObjInstID sv) LWM2M_SERVER_INITIAL_REG_DELAY_ID of
        Some (result, Some delay) \<Rightarrow> if result = COAP_NO_ERROR then delay else 0
      | _ \<Rightarrow> 0)"

definition started :: "env \<Rightarrow> 's lwm2m_object \<Rightarrow> lwm2m_server \<Rightarrow> lwm2m_server" where
  "started E ob sv =
     sv\<lparr>sv_attempt := 0, sv_sequence := 0, sv_registration := time_after E (delay_of E ob sv), sv_status := STATE_REG_HOLD_OFF\<rparr>"

lemma fresh_reads [simp]:
  "prv_getRegistrationOrder E ob (fresh sv) = prv_getRegistrationOrder E ob sv"
  "order_of E ob (fresh sv) = order_of E ob sv" "delay_of E ob (fresh sv) = delay_of E ob sv"
  "sv_secObjInstID (fresh sv) = sv_secObjInstID sv" "fresh (fresh sv) = fresh sv"
  "sv_servObjInstID (fresh sv) = sv_servObjInstID sv"
  by (simp_all add: fresh_def order_of_def delay_of_def prv_getRegistrationOrder_def)

lemma fresh_eq: "sv\<lparr>sv_attempt := 0, sv_sequence := 0\<rparr> = fresh sv" by (simp add: fresh_def)

text \<open>The Server object answers the two questions that a start asks.\<close>

definition reads_ok :: "env \<Rightarrow> 's lwm2m_object \<Rightarrow> lwm2m_server \<Rightarrow> bool" where
  "reads_ok E ob sv \<longleftrightarrow>
     (\<exists>ordered order. prv_getRegistrationOrder E ob sv = Some (COAP_NO_ERROR, ordered, order) \<and> (ordered \<longrightarrow> order \<noteq> None)) \<and>
     (\<exists>result delay. prv_readUint E ob (sv_servObjInstID sv) LWM2M_SERVER_INITIAL_REG_DELAY_ID = Some (result, delay) \<and>
        (result = COAP_NO_ERROR \<and> delay \<noteq> None \<or> result = COAP_404_NOT_FOUND))"

lemma startRegistration_ok:
  assumes "reads_ok E ob sv"
  shows "prv_startRegistration E ob (fresh sv) = Some (COAP_NO_ERROR, started E ob sv)"
proof -
  obtain result delay where r: "prv_readUint E ob (sv_servObjInstID sv) LWM2M_SERVER_INITIAL_REG_DELAY_ID = Some (result, delay)"
    "result = COAP_NO_ERROR \<and> delay \<noteq> None \<or> result = COAP_404_NOT_FOUND"
    using assms by (auto simp: reads_ok_def)
  then show ?thesis
    by (auto simp: prv_startRegistration_def or_default_def started_def delay_of_def fresh_def split: option.splits)
qed

text \<open>The choice among the ordered servers seen so far, as the walk makes it.\<close>

definition lower :: "(u16 \<times> u64) option \<Rightarrow> u16 \<times> u64 \<Rightarrow> (u16 \<times> u64) option" where
  "lower first new = (case first of None \<Rightarrow> Some new | Some (i, low) \<Rightarrow> if snd new < low then Some new else first)"

definition ordered_ids :: "env \<Rightarrow> 's lwm2m_object \<Rightarrow> bool \<Rightarrow> lwm2m_server list \<Rightarrow> (u16 \<times> u64) list" where
  "ordered_ids E ob restartFailed svs =
     [(sv_secObjInstID sv, the (order_of E ob sv)). sv \<leftarrow> svs, startable restartFailed sv \<and> order_of E ob sv \<noteq> None]"

definition after_walk :: "env \<Rightarrow> 's lwm2m_object \<Rightarrow> bool \<Rightarrow> lwm2m_server \<Rightarrow> lwm2m_server" where
  "after_walk E ob restartFailed sv =
     (if \<not> startable restartFailed sv then sv
      else if order_of E ob sv = None then started E ob sv else fresh sv)"

lemma start_servers_ok:
  assumes "\<forall>sv \<in> set svs. startable restartFailed sv \<longrightarrow> reads_ok E ob sv"
  shows "start_servers E ob restartFailed svs first =
    Some (COAP_NO_ERROR, map (after_walk E ob restartFailed) svs, foldl lower first (ordered_ids E ob restartFailed svs))"
  using assms
proof (induction svs arbitrary: first)
  case Nil
  show ?case by (simp add: ordered_ids_def)
next
  case (Cons sv svs)
  then have IH: "start_servers E ob restartFailed svs first =
      Some (COAP_NO_ERROR, map (after_walk E ob restartFailed) svs, foldl lower first (ordered_ids E ob restartFailed svs))" for first
    by simp
  show ?case
  proof (cases "startable restartFailed sv")
    case False
    then show ?thesis by (simp add: IH after_walk_def ordered_ids_def)
  next
    case True
    then have ok: "reads_ok E ob sv" using Cons.prems by simp
    then obtain ordered order where o: "prv_getRegistrationOrder E ob sv = Some (COAP_NO_ERROR, ordered, order)"
      "ordered \<longrightarrow> order \<noteq> None" by (auto simp: reads_ok_def)
    show ?thesis
    proof (cases ordered)
      case ord: True
      then obtain n where n: "order = Some n" using o(2) by blast
      have "order_of E ob sv = Some n" using o n ord by (simp add: order_of_def)
      moreover have "(case first of None \<Rightarrow> Some (sv_secObjInstID (fresh sv), n)
          | Some (_, low) \<Rightarrow> if n < low then Some (sv_secObjInstID (fresh sv), n) else first) = lower first (sv_secObjInstID sv, n)"
        by (simp add: lower_def split: option.split)
      ultimately show ?thesis
        using True o ord n by (simp add: fresh_eq IH after_walk_def ordered_ids_def Let_def)
    next
      case False
      then have "order_of E ob sv = None" using o by (simp add: order_of_def)
      with True o False startRegistration_ok [OF ok] show ?thesis
        by (simp add: fresh_eq IH after_walk_def ordered_ids_def)
    qed
  qed
qed

definition not_above :: "u16 \<times> u64 \<Rightarrow> u16 \<times> u64 \<Rightarrow> bool" where
  "not_above a b \<longleftrightarrow> snd a < snd b \<or> snd a = snd b \<and> fst a \<le> fst b"

lemma not_above_trans: "not_above a b \<Longrightarrow> not_above b c \<Longrightarrow> not_above a c"
  unfolding not_above_def by auto

lemma lower_least:
  assumes "sorted_wrt (\<lambda>a b. fst a < fst b) (x # ids)"
  shows "\<exists>y. foldl lower (Some x) ids = Some y \<and> y \<in> set (x # ids) \<and> (\<forall>z \<in> set (x # ids). not_above y z)"
  using assms
proof (induction ids arbitrary: x)
  case Nil
  show ?case by (simp add: not_above_def)
next
  case (Cons a ids)
  define k where "k = (if snd a < snd x then a else x)"
  have "sorted_wrt (\<lambda>a b. fst a < fst b) (k # ids)" using Cons.prems by (simp add: k_def)
  from Cons.IH [OF this] obtain y where y: "foldl lower (Some k) ids = Some y" "y \<in> set (k # ids)"
    "\<forall>z \<in> set (k # ids). not_above y z" by blast
  have "lower (Some x) a = Some k" by (cases x) (simp add: lower_def k_def)
  moreover have "not_above k x" "not_above k a" using Cons.prems by (auto simp: k_def not_above_def)
  then have "not_above y x" "not_above y a" using y(3) not_above_trans by fastforce+
  moreover have "y \<in> set (x # a # ids)" using y(2) by (auto simp: k_def split: if_splits)
  ultimately show ?case using y by auto
qed

lemma find_map: "(\<And>x. key (f x) = key x) \<Longrightarrow>
    lwm2m_list_find key (map f xs) i = map_option f (lwm2m_list_find key xs i)"
  by (induction xs) auto

lemma put_map:
  assumes "\<And>x. key (f x) = key x" "ids_sorted key xs" "x \<in> set xs" "key y = key x"
  shows "list_put key (map f xs) y = map (\<lambda>z. if z = x then y else f z) xs"
  using assms(2,3)
proof (induction xs)
  case Nil
  then show ?case by simp
next
  case (Cons a xs)
  show ?case
  proof (cases "a = x")
    case True
    then have "map f xs = map (\<lambda>z. if z = x then y else f z) xs" using Cons.prems by auto
    with True assms(1,4) show ?thesis by simp
  next
    case False
    then have "x \<in> set xs" "key a \<noteq> key x" using Cons.prems by auto
    with False Cons assms(1,4) show ?thesis by simp
  qed
qed

text \<open>The ordered server that starts: the lowest order, and the first in the list of those.\<close>

definition first_ordered :: "env \<Rightarrow> 's lwm2m_object \<Rightarrow> bool \<Rightarrow> lwm2m_server list \<Rightarrow> lwm2m_server \<Rightarrow> bool" where
  "first_ordered E ob restartFailed svs sv \<longleftrightarrow>
     order_of E ob sv \<noteq> None \<and>
     (\<forall>s \<in> set svs. startable restartFailed s \<and> order_of E ob s \<noteq> None \<longrightarrow>
        not_above (sv_secObjInstID sv, the (order_of E ob sv)) (sv_secObjInstID s, the (order_of E ob s)))"

definition after_start :: "env \<Rightarrow> 's lwm2m_object \<Rightarrow> bool \<Rightarrow> lwm2m_server list \<Rightarrow> lwm2m_server \<Rightarrow> lwm2m_server" where
  "after_start E ob restartFailed svs sv =
     (if \<not> startable restartFailed sv then sv
      else if order_of E ob sv = None \<or> first_ordered E ob restartFailed svs sv then started E ob sv
      else fresh sv)"

lemma ordered_ids_sorted:
  "ids_sorted sv_secObjInstID svs \<Longrightarrow> sorted_wrt (\<lambda>a b. fst a < fst b) (ordered_ids E ob restartFailed svs)"
  by (induction svs) (auto simp: ordered_ids_def)

lemma ordered_ids_set:
  "set (ordered_ids E ob restartFailed svs) =
    (\<lambda>sv. (sv_secObjInstID sv, the (order_of E ob sv))) ` {sv \<in> set svs. startable restartFailed sv \<and> order_of E ob sv \<noteq> None}"
  by (auto simp: ordered_ids_def)

lemma after_walk_id [simp]: "sv_secObjInstID (after_walk E ob restartFailed sv) = sv_secObjInstID sv"
  by (simp add: after_walk_def started_def)

lemma start_in_order:
  assumes "find_object c LWM2M_SERVER_OBJECT_ID = Some ob" "ids_sorted sv_secObjInstID (cl_serverList c)"
    and "\<forall>sv \<in> set (cl_serverList c). startable restartFailed sv \<longrightarrow> reads_ok E ob sv"
  shows "registration_start E restartFailed c =
    Some (COAP_NO_ERROR, c\<lparr>cl_serverList := map (after_start E ob restartFailed (cl_serverList c)) (cl_serverList c)\<rparr>)"
proof -
  let ?svs = "cl_serverList c" and ?walk = "after_walk E ob restartFailed"
  let ?ids = "ordered_ids E ob restartFailed ?svs"
  note walk = start_servers_ok [OF assms(3), of None]
  show ?thesis
  proof (cases ?ids)
    case Nil
    then have "{sv \<in> set ?svs. startable restartFailed sv \<and> order_of E ob sv \<noteq> None} = {}"
      using ordered_ids_set [of E ob restartFailed ?svs] by simp
    then have same: "after_start E ob restartFailed ?svs sv = ?walk sv" if "sv \<in> set ?svs" for sv
      using that by (auto simp: after_start_def after_walk_def)
    have "map (after_start E ob restartFailed ?svs) ?svs = map ?walk ?svs" by (simp add: same)
    with walk Nil assms(1) show ?thesis by (simp add: registration_start_def)
  next
    case (Cons x ids)
    obtain y where y: "foldl lower None ?ids = Some y" "y \<in> set ?ids" "\<forall>z \<in> set ?ids. not_above y z"
      using lower_least [of x ids] ordered_ids_sorted [OF assms(2), of E ob restartFailed] Cons
      by (auto simp: lower_def)
    then obtain sv where sv: "sv \<in> set ?svs" "startable restartFailed sv" "order_of E ob sv \<noteq> None"
      and y_eq: "y = (sv_secObjInstID sv, the (order_of E ob sv))" by (auto simp: ordered_ids_set)
    have only: "first_ordered E ob restartFailed ?svs s \<longleftrightarrow> s = sv"
      if "s \<in> set ?svs" "startable restartFailed s" "order_of E ob s \<noteq> None" for s
    proof -
      have "first_ordered E ob restartFailed ?svs sv"
        using y(3) sv(3) by (simp add: first_ordered_def ordered_ids_set y_eq)
      moreover have "s = sv" if "first_ordered E ob restartFailed ?svs s"
      proof -
        have "not_above (sv_secObjInstID s, the (order_of E ob s)) y" "not_above y (sv_secObjInstID s, the (order_of E ob s))"
          using that sv y(3) \<open>s \<in> set ?svs\<close> \<open>startable restartFailed s\<close> \<open>order_of E ob s \<noteq> None\<close>
          by (auto simp: first_ordered_def ordered_ids_set y_eq)
        then have "sv_secObjInstID s = sv_secObjInstID sv" by (auto simp: not_above_def y_eq)
        then show ?thesis using find_member [OF assms(2) sv(1)] find_member [OF assms(2) \<open>s \<in> set ?svs\<close>] by simp
      qed
      ultimately show ?thesis by blast
    qed
    have fresh: "?walk sv = fresh sv" using sv by (auto simp: after_walk_def)
    have found: "find_server (c\<lparr>cl_serverList := map ?walk ?svs\<rparr>) (sv_secObjInstID sv) = Some (fresh sv)"
      using find_member [OF assms(2) sv(1)] fresh by (simp add: find_server_def find_map)
    have start: "prv_startRegistration E ob (fresh sv) = Some (COAP_NO_ERROR, started E ob sv)"
      using startRegistration_ok assms(3) sv by blast
    have "list_put sv_secObjInstID (map ?walk ?svs) (started E ob sv) =
        map (\<lambda>z. if z = sv then started E ob sv else ?walk z) ?svs"
      using put_map [OF _ assms(2) sv(1)] by (simp add: started_def)
    also have "\<dots> = map (after_start E ob restartFailed ?svs) ?svs"
      using only sv by (auto simp: after_start_def after_walk_def)
    finally show ?thesis
      using walk assms(1) found start y(1) by (simp add: registration_start_def put_server_def y_eq)
  qed
qed

text \<open>
  C38: Starting the registrations. When the Server object answers, every server that is to start without
  an order starts after its own delay; of those with an order only the lowest starts, the first of the list
  among equals, and the others wait with their counters reset; no other server changes.
\<close>

theorem registrations_start_in_order:
  assumes "find_object c LWM2M_SERVER_OBJECT_ID = Some ob" "ids_sorted sv_secObjInstID (cl_serverList c)"
    and "\<forall>sv \<in> set (cl_serverList c). startable restartFailed sv \<longrightarrow> reads_ok E ob sv"
  shows "registration_start E restartFailed c =
    Some (COAP_NO_ERROR, c\<lparr>cl_serverList := map (after_start E ob restartFailed (cl_serverList c)) (cl_serverList c)\<rparr>)"
  using assms by (rule start_in_order)

text \<open>A Server object that answers from a table: an instance and a resource to a number.\<close>

definition table_object :: "(u16 \<Rightarrow> u16 \<Rightarrow> u64 option) \<Rightarrow> unit lwm2m_object" where
  "table_object value = \<lparr>o_objID = 1, o_versionMajor = 0, o_versionMinor = 0, o_state = (), o_instanceList = (\<lambda>_. [0, 1, 2]),
     o_readFunc = Some (\<lambda>_ i ds.
       (case value i (did (hd ds)) of
          None \<Rightarrow> Some (COAP_404_NOT_FOUND, ds)
        | Some v \<Rightarrow> Some (COAP_205_CONTENT, map (set_value LWM2M_TYPE_INTEGER (AsInteger v)) ds))),
     o_writeFunc = None, o_executeFunc = None, o_createFunc = None, o_deleteFunc = None, o_discoverFunc = None,
     o_rawBlock1CreateFunc = None, o_rawBlock1WriteFunc = None, o_rawBlock1ExecuteFunc = None\<rparr>"

lemma table_reads:
  assumes "\<And>n. e_mem E n" "\<And>i r v. value i r = Some v \<Longrightarrow> 0 \<le> sint v"
  shows "prv_readUint E (table_object value) i r =
    Some (case value i r of None \<Rightarrow> (COAP_404_NOT_FOUND, None) | Some v \<Rightarrow> (COAP_NO_ERROR, Some v))"
  using assms
  by (auto simp: prv_readUint_def read_one_def table_object_def lwm2m_data_new_def set_id_def set_value_def
      lwm2m_data_decode_uint_def split: option.splits)

definition ordered_servers :: "u16 \<Rightarrow> u16 \<Rightarrow> u64 option" where
  "ordered_servers i r = (if r = 13 then (if i = 0 then Some 5 else if i = 1 then Some 3 else None) else None)"

theorem registrations_start_in_order_witness:
  "\<exists>c. registration_start \<lparr>e_cfg = client_build, e_mem = (\<lambda>_. True), e_ext = no_formats, e_now = 100, e_stack = [], e_freed = id\<rparr>
      False ((bare_client [])\<lparr>cl_objectList := [table_object ordered_servers],
        cl_serverList := [zero_server_entry 7, (zero_server_entry 8)\<lparr>sv_servObjInstID := 1\<rparr>,
          (zero_server_entry 9)\<lparr>sv_servObjInstID := 2\<rparr>]\<rparr>) = Some (COAP_NO_ERROR, c) \<and>
     map sv_status (cl_serverList c) = [STATE_DEREGISTERED, STATE_REG_HOLD_OFF, STATE_REG_HOLD_OFF]"
proof -
  let ?E = "\<lparr>e_cfg = client_build, e_mem = (\<lambda>_. True), e_ext = no_formats, e_now = 100, e_stack = [], e_freed = id\<rparr>"
  let ?c = "(bare_client [])\<lparr>cl_objectList := [table_object ordered_servers],
        cl_serverList := [zero_server_entry 7, (zero_server_entry 8)\<lparr>sv_servObjInstID := 1\<rparr>,
          (zero_server_entry 9)\<lparr>sv_servObjInstID := 2\<rparr>]\<rparr>"
  have reads: "prv_readUint ?E (table_object ordered_servers) i r =
      Some (case ordered_servers i r of None \<Rightarrow> (COAP_404_NOT_FOUND, None) | Some v \<Rightarrow> (COAP_NO_ERROR, Some v))" for i r
    by (rule table_reads) (auto simp: ordered_servers_def split: if_splits)
  have ob: "find_object ?c LWM2M_SERVER_OBJECT_ID = Some (table_object ordered_servers)"
    by (simp add: find_object_def table_object_def)
  have order: "order_of ?E (table_object ordered_servers) sv = ordered_servers (sv_servObjInstID sv) 13" for sv
    by (simp add: order_of_def prv_getRegistrationOrder_def reads split: option.splits)
  have "reads_ok ?E (table_object ordered_servers) sv" for sv
    by (auto simp: reads_ok_def prv_getRegistrationOrder_def reads ordered_servers_def)
  moreover have "ids_sorted sv_secObjInstID (cl_serverList ?c)"
    by (simp add: zero_server_entry_def)
  ultimately show ?thesis
    using registrations_start_in_order [OF ob, of False ?E]
    by (simp add: after_start_def startable_def first_ordered_def order started_def fresh_def not_above_def
        ordered_servers_def zero_server_entry_def)
qed

end
