(* ===== verification/Registration_Exchange.thy ===== *)
theory Registration_Exchange
  imports Registration_Client Registration_Order Request_Wire
begin

text \<open>
  A registration from end to end: what \<^verbatim>\<open>prv_register\<close> puts on the wire is read by the server as a
  registration with the name, the parameters and the objects of the client, and its answer makes the client
  registered.
\<close>

section \<open>The first transmission of a request\<close>

definition transmitted :: "transaction \<Rightarrow> int \<Rightarrow> transaction" where
  "transmitted t now =
     t\<lparr>t_message := fst (coap_serialize_message (t_message t)), t_buffer := Some (snd (coap_serialize_message (t_message t))),
       t_retrans_time := now + COAP_RESPONSE_TIMEOUT, t_retrans_counter := 2\<rparr>"

definition fresh_transaction :: "transaction \<Rightarrow> bool" where
  "fresh_transaction t \<longleftrightarrow> t_buffer t = None \<and> t_retrans_counter t = 0 \<and> \<not> t_ack_received t"

lemma first_transmission:
  assumes "fresh_transaction t" "small_values (t_message t)" "coap_serialize_get_size (t_message t) < 2 ^ 16"
    and "0 \<le> now" "net_ok net" "lwm2m_list_find t_mID (n_transactions net) (t_mID t) = None"
  shows "\<exists>c'. transaction_send (\<lambda>n. True) now run (net\<lparr>n_transactions := lwm2m_list_add t_mID (n_transactions net) t\<rparr>) t = Some (c', 0) \<and>
    n_sent c' = n_sent net @ [(t_peerH t, snd (coap_serialize_message (t_message t)))] \<and> n_app c' = n_app net \<and>
    lwm2m_list_find t_mID (n_transactions c') (t_mID t) = Some (transmitted t now) \<and>
    ids_sorted t_mID (n_transactions c') \<and> set (n_transactions c') \<subseteq> insert (transmitted t now) (set (n_transactions net))"
proof -
  let ?out = "snd (coap_serialize_message (t_message t))" and ?xs = "lwm2m_list_add t_mID (n_transactions net) t"
  define t' where "t' = t\<lparr>t_message := fst (coap_serialize_message (t_message t)), t_buffer := Some ?out\<rparr>"
  have out: "length ?out \<le> coap_serialize_get_size (t_message t)" "?out \<noteq> []"
    using serialize_fits [OF assms(2)] serialize_message_length [of "t_message t"] by auto
  then have "coap_serialize_get_size (t_message t) \<noteq> 0" by (metis le_zero_eq length_0_conv)
  with out have buf: "transaction_buffer (\<lambda>n. True) t = Some (Some t')"
    using assms(1,3) by (simp add: transaction_buffer_def fresh_transaction_def t'_def case_prod_unfold Let_def)
  have new: "t_mID t \<notin> t_mID ` set (n_transactions net)"
    using assms(5,6) find_None_iff by (auto simp: net_ok_def)
  have sorted: "ids_sorted t_mID ?xs" and found: "lwm2m_list_find t_mID ?xs (t_mID t) = Some t"
    using assms(5) new ids_sorted_add [of t_mID "n_transactions net" t] find_add [of t_mID "n_transactions net" t]
    by (simp_all add: net_ok_def)
  have t': "transmitted t now = t'\<lparr>t_retrans_time := now + COAP_RESPONSE_TIMEOUT, t_retrans_counter := 2\<rparr>"
    "t_retrans_counter t' = 0" "\<not> t_ack_received t'" "t_mID t' = t_mID t" "t_peerH t' = t_peerH t" "t_buffer t' = Some ?out"
    using assms(1) by (simp_all add: t'_def transmitted_def fresh_transaction_def)
  have twice: "list_put t_mID (list_put t_mID ?xs t') (transmitted t now) = list_put t_mID ?xs (transmitted t now)"
    using id_list.put_put [OF sorted, of t' t "transmitted t now"] found by (simp add: t'(4) transmitted_def)
  have send: "transaction_send (\<lambda>n. True) now run (net\<lparr>n_transactions := ?xs\<rparr>) t =
      Some (net\<lparr>n_transactions := list_put t_mID ?xs (transmitted t now), n_sent := n_sent net @ [(t_peerH t, ?out)]\<rparr>, 0)"
    using assms(4) t' twice
    by (simp add: transaction_send_def buf next_time_def put_transaction_def buffer_send_def)
  have "lwm2m_list_find t_mID (list_put t_mID ?xs (transmitted t now)) (t_mID t) = Some (transmitted t now)"
    using find_put [of t_mID ?xs "transmitted t now" t] found by (simp add: transmitted_def)
  moreover have "set (list_put t_mID ?xs (transmitted t now)) \<subseteq> insert (transmitted t now) (set (n_transactions net))"
  proof
    fix x assume x: "x \<in> set (list_put t_mID ?xs (transmitted t now))"
    with sorted have "lwm2m_list_find t_mID (list_put t_mID ?xs (transmitted t now)) (t_mID x) = Some x"
      by (simp add: find_member)
    then have "x = transmitted t now \<or> lwm2m_list_find t_mID (n_transactions net) (t_mID x) = Some x"
      using find_put [of t_mID ?xs "transmitted t now" t] found
        find_add [of t_mID "n_transactions net" t "t_mID x"] assms(5) new
      by (auto simp: net_ok_def transmitted_def split: if_splits)
    then show "x \<in> insert (transmitted t now) (set (n_transactions net))" using find_Some by fastforce
  qed
  ultimately show ?thesis using send sorted by simp
qed

section \<open>The message of a registration\<close>

definition register_packet :: "u16 \<Rightarrow> bytes \<Rightarrow> bytes list \<Rightarrow> bytes \<Rightarrow> coap_packet" where
  "register_packet mID token parts payload =
     (set_known COAP_OPTION_CONTENT_TYPE
       ((set_known COAP_OPTION_URI_QUERY
         ((set_known COAP_OPTION_URI_PATH
           ((set_known COAP_OPTION_TOKEN
             ((coap_init_message COAP_TYPE_CON COAP_POST mID)\<lparr>p_token := token\<rparr>))
            \<lparr>p_uri_path := [ascii ''rd'']\<rparr>))
          \<lparr>p_uri_query := parts\<rparr>))
        \<lparr>p_content_type := 40\<rparr>))\<lparr>p_payload := Some payload\<rparr>"

lemma option_fields [simp]:
  "IS_OPTION n (p\<lparr>p_token := x1\<rparr>) = IS_OPTION n p" "IS_OPTION n (p\<lparr>p_uri_path := x2\<rparr>) = IS_OPTION n p"
  "IS_OPTION n (p\<lparr>p_uri_query := x2\<rparr>) = IS_OPTION n p" "IS_OPTION n (p\<lparr>p_content_type := x3\<rparr>) = IS_OPTION n p"
  "IS_OPTION n (p\<lparr>p_payload := x4\<rparr>) = IS_OPTION n p" "\<not> IS_OPTION n (coap_init_message t c mid)"
  by (simp_all add: IS_OPTION_def coap_init_message_def zero_packet_def)

lemma register_packet_fields:
  fixes mID :: u16
  assumes "parts \<noteq> []" "list_all (\<lambda>s. length s < 256) parts" "0 < length token" "length token \<le> 8" "payload \<noteq> []"
  defines "p \<equiv> register_packet mID token parts payload"
  shows "p_type p = COAP_TYPE_CON" "p_code p = COAP_POST" "p_mid p = mID" "p_token p = token"
    "p_uri_path p = [ascii ''rd'']" "p_uri_query p = parts" "payload_of p = payload" "p_payload p = Some payload"
    "IS_OPTION n p \<longleftrightarrow> n \<in> {11, 12, 15, 19}" "small_values p" "packet_ok p"
    "coap_serialize_get_size p = 4 + (1 + length payload) + length token + 7 + 5 + sum_list (map (\<lambda>v. 5 + length v) parts)"
proof -
  show opt: "IS_OPTION n p \<longleftrightarrow> n \<in> {11, 12, 15, 19}" for n by (auto simp: p_def register_packet_def)
  show f: "p_type p = COAP_TYPE_CON" "p_code p = COAP_POST" "p_mid p = mID" "p_token p = token"
    "p_uri_path p = [ascii ''rd'']" "p_uri_query p = parts" "payload_of p = payload" "p_payload p = Some payload"
    "small_values p"
    by (simp_all add: p_def register_packet_def set_known_def coap_init_message_def zero_packet_def payload_of_def
        small_values_def)
  have z: "p_if_match p = []" "p_uri_host p = []" "p_etag p = []" "p_observe p = 0" "p_uri_port p = 0"
    "p_location_path p = []" "p_content_type p = 40" "p_max_age p = 0" "p_accept p = []"
    "p_location_query p = []" "p_block2_num p = 0" "p_block2_more p = 0" "p_block2_size p = 0" "p_block2_offset p = 0"
    "p_block1_num p = 0" "p_block1_more p = 0" "p_block1_size p = 0" "p_block1_offset p = 0" "p_size p = 0"
    "p_proxy_uri p = []"
    by (simp_all add: p_def register_packet_def set_known_def coap_init_message_def zero_packet_def)
  show "packet_ok p"
    unfolding packet_ok_def multi_ok_def unset_or_def block_ok_def opt foreign_options_def
    by (simp add: f z assms(1,2,4,5) assms(3) [simplified] ascii_def)
  show "coap_serialize_get_size p = 4 + (1 + length payload) + length token + 7 + 5 + sum_list (map (\<lambda>v. 5 + length v) parts)"
    using assms(5) by (simp add: coap_serialize_get_size_def opt f z Let_def ascii_def)
qed

text \<open>Every part of the query is short, and there are at most six.\<close>

lemma parts_size:
  assumes "list_all (\<lambda>s. ch_ampersand \<notin> set s \<and> length s < 256) (query_parts name msisdn sv)"
  shows "sum_list (map (\<lambda>v. 5 + length v) (query_parts name msisdn sv)) \<le> 6 * 260"
proof -
  have sum: "sum_list (map (\<lambda>v. 5 + length v) ps) \<le> 260 * length ps" if "list_all (\<lambda>s. length s < 256) ps" for ps :: "bytes list"
    using that by (induction ps) auto
  have "length (query_parts name msisdn sv) \<le> 6" by (auto simp: query_parts_def split: option.splits)
  moreover have "list_all (\<lambda>s. length s < 256) (query_parts name msisdn sv)"
    using assms by (auto simp: list_all_iff)
  ultimately show ?thesis using sum [of "query_parts name msisdn sv"] by linarith
qed

section \<open>Registering\<close>

text \<open>What a client must look like to register in one message, and to be understood.\<close>

definition registrable :: "build \<Rightarrow> 's client \<Rightarrow> lwm2m_server \<Rightarrow> bytes \<Rightarrow> nat \<Rightarrow> bool" where
  "registrable cfg c sv name block \<longleftrightarrow>
     \<not> version_1_0 cfg \<and> cl_endpointName c = Some name \<and> plain 253 name \<and>
     (\<forall>m. cl_msisdn c = Some m \<longrightarrow> plain 252 m) \<and>
     0 \<le> sv_lifetime sv \<and> sv_lifetime sv < 2 ^ 32 \<and> sv_binding sv < 64 \<and>
     (\<forall>ob \<in> set (cl_objectList c). o_objID ob \<noteq> LWM2M_OSCORE_OBJECT_ID) \<and>
     length (objects_text cfg c) \<le> block + 1"

lemma objects_text_not_Nil: "2 \<le> length (objects_text cfg c)"
  by (simp add: objects_text_def root_path_def REG_DEFAULT_PATH_def ascii_def Suc_le_eq split: option.split list.split)

lemma registrable_texts:
  assumes "registrable (e_cfg E) c sv name block" "\<And>n. e_mem E n"
  shows "registration_payload E c = Some (butlast (objects_text (e_cfg E) c))"
    and "registration_query E c sv = Some (Some (query_text name (cl_msisdn c) sv))"
proof -
  note r = assms(1) [unfolded registrable_def]
  have oscore: "\<forall>ob \<in> set (cl_objectList c). version_1_0 (e_cfg E) \<or> o_objID ob \<noteq> LWM2M_OSCORE_OBJECT_ID" using r by simp
  show "registration_payload E c = Some (butlast (objects_text (e_cfg E) c))"
    using payload_text [OF oscore] assms(2) objects_text_not_Nil [of "e_cfg E" c] by (simp add: registration_payload_def)
  show "registration_query E c sv = Some (Some (query_text name (cl_msisdn c) sv))"
    using query_length [of "e_cfg E" c name sv] query_writes [of "e_cfg E" c name sv "length (query_text name (cl_msisdn c) sv) + 1"]
      r assms(2) by (simp add: registration_query_def)
qed

text \<open>The request that is sent, the transaction that waits for its answer, and the server after it.\<close>

definition register_request :: "env \<Rightarrow> 's client \<Rightarrow> lwm2m_server \<Rightarrow> bytes \<Rightarrow> coap_packet" where
  "register_request E c sv name =
     register_packet (cl_nextMID c) (take 4 (temp_token (cl_nextMID c) (e_now E) (e_stack E)))
       (query_parts name (cl_msisdn c) sv) (butlast (objects_text (e_cfg E) c))"

definition register_transaction :: "env \<Rightarrow> 's client \<Rightarrow> lwm2m_server \<Rightarrow> bytes \<Rightarrow> nat \<Rightarrow> transaction" where
  "register_transaction E c sv name peer =
     \<lparr>t_mID = cl_nextMID c, t_peerH = peer, t_ack_received = False, t_response_timeout = 0, t_retrans_counter = 0,
       t_retrans_time = 0, t_message = register_request E c sv name, t_buffer = None,
       t_payload = Some (butlast (objects_text (e_cfg E) c)), t_callback = Some REGISTRATION_REPLY,
       t_userData = Some (registration_data (cl_nextMID c) (sv_secObjInstID sv))\<rparr>"

definition registering :: "nat \<Rightarrow> lwm2m_server \<Rightarrow> lwm2m_server" where
  "registering peer sv =
     sv\<lparr>sv_sessionH := Some peer, sv_sequence := (if sv_attempt sv = 0 then sv_sequence sv + 1 else sv_sequence sv),
        sv_attempt := sv_attempt sv + 1, sv_status := STATE_REG_PENDING\<rparr>"

lemma register_request_fields:
  assumes "registrable (e_cfg E) c sv name block" "block \<le> 1024"
  shows "p_code (register_request E c sv name) = COAP_POST" "p_mid (register_request E c sv name) = cl_nextMID c"
    "p_uri_path (register_request E c sv name) = [ascii ''rd'']"
    "p_uri_query (register_request E c sv name) = query_parts name (cl_msisdn c) sv"
    "p_payload (register_request E c sv name) = Some (butlast (objects_text (e_cfg E) c))"
    "small_values (register_request E c sv name)" "packet_ok (register_request E c sv name)"
    "coap_serialize_get_size (register_request E c sv name) < 2 ^ 16"
    "IS_OPTION COAP_OPTION_TOKEN (register_request E c sv name)"
    "p_token (register_request E c sv name) = take 4 (temp_token (cl_nextMID c) (e_now E) (e_stack E))"
proof -
  note r = assms(1) [unfolded registrable_def]
  let ?token = "take 4 (temp_token (cl_nextMID c) (e_now E) (e_stack E))"
  let ?payload = "butlast (objects_text (e_cfg E) c)" and ?parts = "query_parts name (cl_msisdn c) sv"
  have plain: "list_all (\<lambda>s. ch_ampersand \<notin> set s \<and> length s < 256) ?parts"
    using parts_plain(1) [of name "cl_msisdn c" sv] r by simp
  have bounds: "?parts \<noteq> []" "list_all (\<lambda>s. length s < 256) ?parts" "0 < length ?token" "length ?token \<le> 8"
    using plain by (auto simp: query_parts_def temp_token_def list_all_iff Let_def)
  have "?payload \<noteq> []" "length ?payload \<le> 1024"
    using objects_text_not_Nil [of "e_cfg E" c] r assms(2) by (auto simp: length_0_conv [symmetric] simp del: length_0_conv)
  note f = register_packet_fields [where mID = "cl_nextMID c", OF bounds this(1)] and this(2)
  with f parts_size [OF plain] bounds(4) show "p_code (register_request E c sv name) = COAP_POST"
    "p_mid (register_request E c sv name) = cl_nextMID c"
    "p_uri_path (register_request E c sv name) = [ascii ''rd'']"
    "p_uri_query (register_request E c sv name) = query_parts name (cl_msisdn c) sv"
    "p_payload (register_request E c sv name) = Some (butlast (objects_text (e_cfg E) c))"
    "small_values (register_request E c sv name)" "packet_ok (register_request E c sv name)"
    "coap_serialize_get_size (register_request E c sv name) < 2 ^ 16"
    "IS_OPTION COAP_OPTION_TOKEN (register_request E c sv name)"
    "p_token (register_request E c sv name) = ?token"
    unfolding register_request_def by simp_all
qed

lemma rd_path: "coap_set_header_uri_path (\<lambda>n. True) p (ascii ''/rd'') = (set_known COAP_OPTION_URI_PATH (p\<lparr>p_uri_path := [ascii ''rd'']\<rparr>), 2)"
  by (simp add: coap_set_header_uri_path_def skip_first_def ascii_def coap_add_multi_option_def split_loop.simps Let_def)

lemma query_options:
  assumes "registrable (e_cfg E) c sv name block"
  shows "fst (coap_set_header_uri_query (\<lambda>n. True) p (query_text name (cl_msisdn c) sv)) =
    set_known COAP_OPTION_URI_QUERY (p\<lparr>p_uri_query := query_parts name (cl_msisdn c) sv\<rparr>)"
proof -
  note r = assms(1) [unfolded registrable_def]
  let ?parts = "query_parts name (cl_msisdn c) sv"
  have "?parts \<noteq> []" by (simp add: query_parts_def)
  moreover have "list_all (\<lambda>s. ch_ampersand \<notin> set s \<and> length s < 256) ?parts" "last ?parts \<noteq> []"
    using parts_plain [of name "cl_msisdn c" sv] r by simp_all
  ultimately have "p_uri_query (fst (coap_set_header_uri_query (\<lambda>n. True) p (query_text name (cl_msisdn c) sv))) = ?parts"
    using query_split [of ?parts "\<lambda>n. True" p] by (simp add: query_text_def)
  then show ?thesis
    by (simp add: coap_set_header_uri_query_def set_known_def split: prod.splits)
qed

definition session_of :: "platform \<Rightarrow> lwm2m_server \<Rightarrow> nat option" where
  "session_of P sv = (if sv_sessionH sv = None then pf_connect P (sv_secObjInstID sv) else sv_sessionH sv)"

lemma find_server_put:
  assumes "find_server c (sv_secObjInstID sv) = Some sv'"
  shows "find_server (put_server sv c) i = (if i = sv_secObjInstID sv then Some sv else find_server c i)"
  using find_put [of sv_secObjInstID "cl_serverList c" sv sv'] assms by (simp add: find_server_def put_server_def)

lemma put_server_put:
  assumes "ids_sorted sv_secObjInstID (cl_serverList c)" "find_server c (sv_secObjInstID sv) = Some s"
    "sv_secObjInstID sv' = sv_secObjInstID sv"
  shows "put_server sv' (put_server sv c) = put_server sv' c"
  using id_list.put_put [OF assms(1), of sv s sv'] assms(2,3) by (simp add: find_server_def put_server_def)

lemma register_sends:
  assumes "registrable (e_cfg E) (n_app net) sv name (unat (pf_block_size P))" "unat (pf_block_size P) \<le> 1024"
    and "e_mem E = (\<lambda>n. True)" "0 \<le> e_now E" "net_ok net"
    and "ids_sorted sv_secObjInstID (cl_serverList (n_app net))" "find_server (n_app net) i = Some sv"
    and "session_of P sv = Some peer"
    and "lwm2m_list_find t_mID (n_transactions net) (cl_nextMID (n_app net)) = None"
  defines "M \<equiv> register_request E (n_app net) sv name"
  shows "\<exists>net'. prv_register E P run i net = Some (COAP_NO_ERROR, net') \<and>
    n_sent net' = n_sent net @ [(peer, snd (coap_serialize_message M))] \<and>
    n_app net' = put_server (registering peer sv) ((n_app net)\<lparr>cl_nextMID := cl_nextMID (n_app net) + 1\<rparr>) \<and>
    lwm2m_list_find t_mID (n_transactions net') (cl_nextMID (n_app net)) =
      Some (transmitted (register_transaction E (n_app net) sv name peer) (e_now E)) \<and>
    net_ok net'"
proof -
  let ?c = "n_app net"
  let ?mid = "cl_nextMID ?c" and ?payload = "butlast (objects_text (e_cfg E) ?c)"
  let ?t = "register_transaction E ?c sv name peer"
  let ?sv1 = "sv\<lparr>sv_sessionH := Some peer\<rparr>"
  let ?net1 = "with_client (\<lambda>c. c\<lparr>cl_nextMID := ?mid + 1\<rparr>) (with_client (put_server ?sv1) net)"
  note r = assms(1) [unfolded registrable_def]
  note f = register_request_fields [OF assms(1,2)]
  have i: "sv_secObjInstID sv = i" using find_Some assms(7) by (fastforce simp: find_server_def)
  have mem: "e_mem E n" for n using assms(3) by simp
  note texts = registrable_texts [OF assms(1) mem]
  have session: "(if sv_sessionH sv = None then sv\<lparr>sv_sessionH := pf_connect P i\<rparr> else sv) = ?sv1"
    using assms(8) i by (cases "sv_sessionH sv") (auto simp: session_of_def)
  have "length ?payload \<le> unat (pf_block_size P)" using r by (metis length_butlast le_diff_conv)
  moreover have "length ?payload < 65536" using calculation assms(2) by simp
  ultimately have payload: "transaction_set_payload (\<lambda>n. True) (pf_block_size P) t ?payload =
      (True, t\<lparr>t_payload := Some ?payload, t_message := (t_message t)\<lparr>p_payload := Some ?payload\<rparr>\<rparr>)" for t
    by (simp add: transaction_set_payload_def coap_set_payload_def)
  have put: "put_server ?sv1 (?c\<lparr>cl_nextMID := n\<rparr>) = (put_server ?sv1 ?c)\<lparr>cl_nextMID := n\<rparr>" for n
    by (simp add: put_server_def)
  have fresh: "fresh_transaction ?t" "t_mID ?t = ?mid" "t_peerH ?t = peer" "t_message ?t = M"
    by (simp_all add: fresh_transaction_def register_transaction_def M_def)
  have net1: "net_ok ?net1" "n_transactions ?net1 = n_transactions net" "n_sent ?net1 = n_sent net"
    using assms(5) by (simp_all add: net_ok_def with_client_def)
  obtain net2 where send: "transaction_send (\<lambda>n. True) (e_now E) run (add_transaction ?t ?net1) ?t = Some (net2, 0)"
    and net2: "n_sent net2 = n_sent net @ [(peer, snd (coap_serialize_message M))]" "n_app net2 = n_app ?net1"
      "lwm2m_list_find t_mID (n_transactions net2) ?mid = Some (transmitted ?t (e_now E))"
      "ids_sorted t_mID (n_transactions net2)" "set (n_transactions net2) \<subseteq> insert (transmitted ?t (e_now E)) (set (n_transactions net))"
    using first_transmission [OF fresh(1), of "e_now E" ?net1 run] fresh f(6,8) assms(4,9) net1
    by (auto simp: add_transaction_def M_def)
  have found: "find_server (n_app net2) i = Some ?sv1"
    using find_server_put [of ?c ?sv1 sv i] assms(7) i
    by (simp add: net2(2) with_client_def find_server_def)
  let ?net' = "with_client (put_server (registering peer sv)) net2"
  have "prv_register E P run i net = Some (COAP_NO_ERROR, ?net')"
  proof -
    let ?token = "take 4 (temp_token ?mid (e_now E) (e_stack E))"
    let ?start = "\<lparr>t_mID = ?mid, t_peerH = peer, t_ack_received = False, t_response_timeout = 0, t_retrans_counter = 0,
      t_retrans_time = 0, t_message = fst (coap_set_header_token (coap_init_message COAP_TYPE_CON COAP_POST ?mid) ?token),
      t_buffer = None, t_payload = None, t_callback = None, t_userData = None\<rparr>"
    have new: "transaction_new (e_cfg E) (\<lambda>n. True) (e_now E) (e_stack E) (Some peer) COAP_POST None None ?mid 4 None = Some (Some ?start)"
      by (simp add: transaction_new_def)
    have token: "take 8 ?token = ?token" by simp
    have message: "(fst (coap_set_header_content_type
        (fst (coap_set_header_uri_query (\<lambda>n. True)
          (fst (coap_set_header_uri_path (\<lambda>n. True) (t_message ?start) (ascii ''/rd'')))
          (query_text name (cl_msisdn ?c) sv)))
        (ucast (media_type_num LWM2M_CONTENT_LINK))))\<lparr>p_payload := Some ?payload\<rparr> = M"
      unfolding query_options [OF assms(1)] rd_path M_def register_request_def register_packet_def
      using token
      by (simp add: coap_set_header_token_def coap_set_header_content_type_def set_known_def coap_init_message_def zero_packet_def)
    have whole: "\<lparr>t_mID = ?mid, t_peerH = peer, t_ack_received = False, t_response_timeout = 0, t_retrans_counter = 0,
      t_retrans_time = 0, t_message = M, t_buffer = None, t_payload = Some ?payload, t_callback = Some REGISTRATION_REPLY,
      t_userData = Some (registration_data ?mid i)\<rparr> = ?t"
      by (simp add: register_transaction_def M_def i)
    have "cl_nextMID (put_server s c) = cl_nextMID c" for s and c :: "'a client" by (simp add: put_server_def)
    then show ?thesis
      unfolding prv_register_def texts(1) option.case
      using texts(2) found session send assms(3,7) new message whole r
      by (simp add: take_mid_def with_client_def payload) (simp add: Let_def registering_def)
  qed
  moreover have "n_app ?net' = put_server (registering peer sv) (?c\<lparr>cl_nextMID := ?mid + 1\<rparr>)"
    using put_server_put [of "?c\<lparr>cl_nextMID := ?mid + 1\<rparr>" ?sv1 sv "registering peer sv"] assms(6,7) i put
    by (simp add: net2(2) with_client_def find_server_def registering_def)
  moreover have "net_ok ?net'"
    using net2(4,5) assms(5) f(2)
    by (auto simp: net_ok_def with_client_def transaction_ok_def transmitted_def register_transaction_def
        coap_serialize_message_def coap_free_header_def Let_def)
  ultimately show ?thesis using net2 by (auto simp: with_client_def)
qed

text \<open>The objects can be listed and read back.\<close>

definition listable :: "'s client \<Rightarrow> bool" where
  "listable c \<longleftrightarrow>
     cl_altPath c = None \<and> ids_sorted o_objID (listed c) \<and> (\<forall>ob \<in> set (listed c). readable ob) \<and>
     (listed c \<noteq> [] \<longrightarrow> has_version (last (listed c)) \<longrightarrow> instances_of (last (listed c)) \<noteq> [])"

text \<open>
  C6: A registration arrives. The request of \<^verbatim>\<open>prv_register\<close> goes to the session of the server; whoever
  parses its bytes finds a registration, reads from its query the name, the lifetime, the number, the
  version and the bindings of the client, and lists from its payload the objects of the client with their
  versions and instances. The server is then pending. A client in queue mode is refused by the server.
\<close>

theorem registration_arrives:
  assumes "registrable (e_cfg E) (n_app net) sv name (unat (pf_block_size P))" "unat (pf_block_size P) \<le> 1024"
    and "listable (n_app net)" "e_mem E = (\<lambda>n. True)" "0 \<le> e_now E" "net_ok net"
    and "ids_sorted sv_secObjInstID (cl_serverList (n_app net))" "find_server (n_app net) i = Some sv"
    and "session_of P sv = Some peer"
    and "lwm2m_list_find t_mID (n_transactions net) (cl_nextMID (n_app net)) = None"
  shows "\<exists>net' out m b.
    prv_register E P run i net = Some (COAP_NO_ERROR, net') \<and> n_sent net' = n_sent net @ [(peer, out)] \<and>
    map_option sv_status (find_server (n_app net') i) = Some STATE_REG_PENDING \<and>
    coap_parse_message (\<lambda>n. True) out = Some (NO_ERROR, m) \<and>
    uri_decode (e_cfg E) None (p_uri_path m) (p_code m) = Some (LWM2M_REQUEST_TYPE_REGISTRATION, uri_reset) \<and>
    prv_getParameters (e_cfg E) (\<lambda>n. True) (p_uri_query m) =
      Some (if sv_binding sv AND BINDING_Q \<noteq> 0 then None
        else Some \<lparr>rp_name = Some name, rp_lifetime = of_int (sv_lifetime sv), rp_msisdn = cl_msisdn (n_app net),
          rp_binding = (sv_binding sv AND 0x1E) OR BINDING_UNKNOWN, rp_version = VERSION_1_1\<rparr>) \<and>
    p_payload m = Some b \<and>
    prv_decodeRegisterPayload (e_cfg E) (\<lambda>n. True) b =
      Some (map listed_object (listed (n_app net)), listed_format (e_cfg E), None)"
proof -
  let ?c = "n_app net" and ?M = "register_request E (n_app net) sv name"
  note r = assms(1) [unfolded registrable_def]
  note f = register_request_fields [OF assms(1,2)]
  obtain net' where net': "prv_register E P run i net = Some (COAP_NO_ERROR, net')"
    "n_sent net' = n_sent net @ [(peer, snd (coap_serialize_message ?M))]"
    "n_app net' = put_server (registering peer sv) (?c\<lparr>cl_nextMID := cl_nextMID ?c + 1\<rparr>)"
    using register_sends [OF assms(1,2,4-10)] by blast
  have i: "sv_secObjInstID sv = i" using find_Some assms(8) by (fastforce simp: find_server_def)
  have "find_server (n_app net') i = Some (registering peer sv)"
    unfolding net'(3) using find_server_put [of "?c\<lparr>cl_nextMID := cl_nextMID ?c + 1\<rparr>" "registering peer sv" sv i] assms(8) i
    by (simp add: find_server_def registering_def)
  then have status: "map_option sv_status (find_server (n_app net') i) = Some STATE_REG_PENDING"
    by (simp add: registering_def)
  have parse: "coap_parse_message (\<lambda>n. True) (snd (coap_serialize_message ?M)) = Some (NO_ERROR, parsed_view ?M)"
    by (rule parse_serialized [OF f(7) TrueI])
  have fields: "p_code (parsed_view ?M) = COAP_POST" "p_uri_path (parsed_view ?M) = [ascii ''rd'']"
    "p_uri_query (parsed_view ?M) = query_parts name (cl_msisdn ?c) sv"
    "p_payload (parsed_view ?M) = Some (butlast (objects_text (e_cfg E) ?c))"
    using f by (simp_all add: parsed_view_def)
  have decode: "uri_decode (e_cfg E) None [ascii ''rd''] COAP_POST = Some (LWM2M_REQUEST_TYPE_REGISTRATION, uri_reset)"
    by (simp add: uri_decode_def ascii_def)
  have name: "name \<noteq> []" "cl_msisdn ?c \<noteq> Some []" using r by (auto simp: plain_def)
  have params: "prv_getParameters (e_cfg E) (\<lambda>n. True) (query_parts name (cl_msisdn ?c) sv) =
      Some (if sv_binding sv AND BINDING_Q \<noteq> 0 then None
        else Some \<lparr>rp_name = Some name, rp_lifetime = of_int (sv_lifetime sv), rp_msisdn = cl_msisdn (n_app net),
          rp_binding = (sv_binding sv AND 0x1E) OR BINDING_UNKNOWN, rp_version = VERSION_1_1\<rparr>)"
    by (rule read_parts) (use r name in auto)
  have objects: "prv_decodeRegisterPayload (e_cfg E) (\<lambda>n. True) (butlast (objects_text (e_cfg E) ?c)) =
      Some (map listed_object (listed ?c), listed_format (e_cfg E), None)"
    by (rule objects_text_read) (use assms(3) in \<open>auto simp: listable_def\<close>)
  show ?thesis
    by (intro exI conjI) (rule net'(1) net'(2) status parse fields(4) objects
      | simp only: fields, rule decode | simp only: fields, rule params)+
qed

section \<open>The answer\<close>

text \<open>
  The callbacks of this file by their numbers. A callback whose behaviour is undefined takes its transaction
  away, which \<^verbatim>\<open>transaction_end\<close> then finds missing.
\<close>

definition registration_callbacks :: "env \<Rightarrow> 's client callbacks" where
  "registration_callbacks E f t answer net =
     (case (if f = REGISTRATION_REPLY then prv_handleRegistrationReply E t answer (n_app net)
            else if f = REGISTRATION_UPDATE_REPLY then prv_handleRegistrationUpdateReply E t answer (n_app net)
            else if f = DEREGISTRATION_REPLY then prv_handleDeregistrationReply t (n_app net)
            else Some (n_app net)) of
        None \<Rightarrow> net\<lparr>n_transactions := []\<rparr>
      | Some c \<Rightarrow> net\<lparr>n_app := c\<rparr>)"

text \<open>The Server object, if there is one, answers what the registrations ask of it.\<close>

definition server_answers :: "env \<Rightarrow> 's client \<Rightarrow> bool" where
  "server_answers E c \<longleftrightarrow>
     (\<forall>ob. find_object c LWM2M_SERVER_OBJECT_ID = Some ob \<longrightarrow>
       (\<forall>sv. reads_ok E ob sv \<and> (\<exists>b. prv_getRegistrationFailureBlocking E ob sv = Some (COAP_NO_ERROR, Some b))))"

definition registered :: "env \<Rightarrow> coap_packet \<Rightarrow> lwm2m_server \<Rightarrow> lwm2m_server" where
  "registered E m sv =
     sv\<lparr>sv_registration := e_now E, sv_status := STATE_REGISTERED,
        sv_location := coap_get_multi_option_as_path_string (e_mem E) (p_location_path m)\<rparr>"

lemma start_keeps_registered:
  assumes "server_answers E c" "ids_sorted sv_secObjInstID (cl_serverList c)" "find_server c i = Some sv"
    "sv_status sv = STATE_REGISTERED"
  shows "\<exists>c'. map_option snd (registration_start E False c) = Some c' \<and> find_server c' i = Some sv"
proof (cases "find_object c LWM2M_SERVER_OBJECT_ID")
  case None
  with assms(3) show ?thesis by (simp add: registration_start_def)
next
  case (Some ob)
  have "after_start E ob False (cl_serverList c) sv = sv" using assms(4) by (simp add: after_start_def startable_def)
  moreover have "sv_secObjInstID (after_start E ob False svs s) = sv_secObjInstID s" for svs s
    by (simp add: after_start_def started_def fresh_def)
  moreover have "registration_start E False c =
      Some (COAP_NO_ERROR, c\<lparr>cl_serverList := map (after_start E ob False (cl_serverList c)) (cl_serverList c)\<rparr>)"
    by (rule start_in_order [OF Some assms(2)]) (use assms(1) Some in \<open>simp add: server_answers_def\<close>)
  ultimately show ?thesis using assms(3) by (simp add: find_server_def find_map)
qed

lemma registered_next_keeps:
  assumes "server_answers E c" "ids_sorted sv_secObjInstID (cl_serverList c)" "find_server c i = Some sv"
    "sv_status sv = STATE_REGISTERED"
  shows "\<exists>c'. registered_next E s c = Some c' \<and> find_server c' i = Some sv"
proof (cases "find_object c LWM2M_SERVER_OBJECT_ID")
  case None
  with assms(3) show ?thesis by (simp add: registered_next_def)
next
  case (Some ob)
  obtain ordered order where o: "prv_getRegistrationOrder E ob s = Some (COAP_NO_ERROR, ordered, order)"
    using assms(1) Some by (simp add: server_answers_def reads_ok_def) blast
  obtain b where b: "prv_getRegistrationFailureBlocking E ob s = Some (COAP_NO_ERROR, Some b)"
    using assms(1) Some by (auto simp: server_answers_def)
  show ?thesis
    using start_keeps_registered [OF assms] assms(3) Some o b
    by (auto simp: registered_next_def)
qed

lemma reply_created:
  assumes "t_userData t = Some p" "find_server c (data_server p) = Some sv" "sv_status sv = STATE_REG_PENDING"
    and "0 \<le> e_now E" "p_code m = COAP_201_CREATED" "\<not> version_1_0 (e_cfg E)" "server_answers E c"
    and "ids_sorted sv_secObjInstID (cl_serverList c)"
  shows "\<exists>c'. prv_handleRegistrationReply E t (Some m) c = Some c' \<and>
    find_server c' (data_server p) = Some (registered E m sv)"
proof -
  let ?sv = "sv\<lparr>sv_registration := e_now E\<rparr>" and ?sv' = "registered E m sv"
  let ?c' = "put_server ?sv' (put_server ?sv c)"
  have i: "sv_secObjInstID sv = data_server p" using find_Some assms(2) by (fastforce simp: find_server_def)
  have twice: "?c' = put_server ?sv' c"
    using put_server_put [OF assms(8), of ?sv sv ?sv'] assms(2) i by (simp add: registered_def)
  have "server_answers E ?c'" using assms(7) by (simp add: server_answers_def put_server_def find_object_def)
  moreover have "ids_sorted sv_secObjInstID (cl_serverList ?c')" using assms(8) by (simp add: put_server_def)
  moreover have "find_server ?c' (data_server p) = Some ?sv'"
    unfolding twice using find_server_put [of c ?sv' sv] assms(2) i by (simp add: registered_def)
  moreover have "sv_status ?sv' = STATE_REGISTERED" by (simp add: registered_def)
  ultimately have "\<exists>c''. registered_next E ?sv' ?c' = Some c'' \<and> find_server c'' (data_server p) = Some ?sv'"
    by (rule registered_next_keeps)
  then show ?thesis
    using assms(1-6) by (simp add: prv_handleRegistrationReply_def touch_def transfer_goes_on_def registered_def Let_def)
qed

text \<open>
  C7: A registration completes. When the server acknowledges the request of \<^verbatim>\<open>prv_register\<close> with 2.01, its
  token and a location, the client is registered with that location from then on, and the transaction is
  gone; the next ordered registration may have been started meanwhile.
\<close>

theorem registration_completes:
  assumes "registrable (e_cfg E) (n_app net) sv name (unat (pf_block_size P))" "unat (pf_block_size P) \<le> 1024"
    and "e_mem E = (\<lambda>n. True)" "0 \<le> e_now E" "net_ok net"
    and "ids_sorted sv_secObjInstID (cl_serverList (n_app net))" "find_server (n_app net) i = Some sv"
    and "session_of P sv = Some peer"
    and "lwm2m_list_find t_mID (n_transactions net) (cl_nextMID (n_app net)) = None"
    and "p_type m = COAP_TYPE_ACK" "p_code m = COAP_201_CREATED" "p_mid m = cl_nextMID (n_app net)"
    and "coap_get_header_token m = Some (take 4 (temp_token (cl_nextMID (n_app net)) (e_now E) (e_stack E)))"
    and "e_cfg E' = e_cfg E" "0 \<le> e_now E'" "server_answers E' (n_app net)"
  shows "\<exists>net' net''. prv_register E P run i net = Some (COAP_NO_ERROR, net') \<and>
    transaction_handleResponse mem (e_now E') transport (registration_callbacks E') net' peer m wants_ack = Some (net'', True) \<and>
    lwm2m_list_find t_mID (n_transactions net'') (p_mid m) = None \<and>
    find_server (n_app net'') i = Some (registered E' m (registering peer sv))"
proof -
  let ?c = "n_app net"
  let ?t = "transmitted (register_transaction E ?c sv name peer) (e_now E)"
  let ?t' = "?t\<lparr>t_ack_received := True\<rparr>"
  note f = register_request_fields [OF assms(1,2)]
  have i: "sv_secObjInstID sv = i" using find_Some assms(7) by (fastforce simp: find_server_def)
  obtain net' where net': "prv_register E P run i net = Some (COAP_NO_ERROR, net')"
    "n_app net' = put_server (registering peer sv) (?c\<lparr>cl_nextMID := cl_nextMID ?c + 1\<rparr>)"
    "lwm2m_list_find t_mID (n_transactions net') (p_mid m) = Some ?t" "net_ok net'"
    using register_sends [OF assms(1-9)] assms(12) by auto
  have found: "find_server (n_app net') i = Some (registering peer sv)"
    unfolding net'(2) using find_server_put [of "?c\<lparr>cl_nextMID := cl_nextMID ?c + 1\<rparr>" "registering peer sv" sv i] assms(7) i
    by (simp add: find_server_def registering_def)
  have t: "t_peerH ?t = peer" "\<not> t_ack_received ?t" "t_callback ?t = Some REGISTRATION_REPLY"
    "t_userData ?t' = Some (registration_data (cl_nextMID ?c) i)"
    by (simp_all add: transmitted_def register_transaction_def i)
  have "ids_sorted sv_secObjInstID (cl_serverList (n_app net'))" "server_answers E' (n_app net')"
    using assms(6,16) by (simp_all add: net'(2) put_server_def server_answers_def find_object_def)
  moreover have "\<not> version_1_0 (e_cfg E')" using assms(1,14) by (simp add: registrable_def)
  ultimately obtain c' where c': "prv_handleRegistrationReply E' ?t' (Some m) (n_app net') = Some c'"
    "find_server c' i = Some (registered E' m (registering peer sv))"
    using reply_created [OF t(4), of "n_app net'" "registering peer sv" E' m] found assms(11,15)
    by (auto simp: registering_def)
  have run: "registration_callbacks E' REGISTRATION_REPLY ?t' (Some m) (put_transaction ?t' net') =
      (put_transaction ?t' net')\<lparr>n_app := c'\<rparr>"
    using c'(1) by (simp add: registration_callbacks_def put_transaction_def)
  have token: "IS_OPTION COAP_OPTION_TOKEN (t_message ?t) \<longrightarrow> coap_get_header_token m = Some (p_token (t_message ?t))"
    using f(10) assms(13) by (simp add: transmitted_def register_transaction_def coap_serialize_message_def coap_free_header_def Let_def)
  obtain net'' where "transaction_handleResponse mem (e_now E') transport (registration_callbacks E') net' peer m wants_ack = Some (net'', True)"
    "n_transactions net'' = fst (lwm2m_list_remove t_mID (n_transactions net') (p_mid m))" "n_app net'' = c'"
    using ack_finishes [where run = "registration_callbacks E'" and mem = mem and now = "e_now E'" and
        transport = transport and wants_ack = wants_ack, OF net'(4) _ net'(3) t(1,2) assms(10) _ token] run t(3) assms(11)
    by auto
  moreover have "lwm2m_list_find t_mID (fst (lwm2m_list_remove t_mID (n_transactions net') (p_mid m))) (p_mid m) = None"
    using net'(4) find_remove_after [of t_mID "n_transactions net'" "p_mid m" "p_mid m"]
    by (simp add: net_ok_def list_remove_eq_after)
  ultimately show ?thesis using net'(1) c'(2) by auto
qed

section \<open>A client with two objects\<close>

definition reg_env :: env where
  "reg_env = \<lparr>e_cfg = client_build, e_mem = (\<lambda>n. True), e_ext = no_formats, e_now = 1000, e_stack = [0, 0], e_freed = id\<rparr>"

definition reg_platform :: platform where
  "reg_platform = \<lparr>pf_connect = (\<lambda>_. Some 4), pf_transport = (\<lambda>_ _. 0), pf_block_size = 1024\<rparr>"

definition reg_server :: lwm2m_server where
  "reg_server = (zero_server_entry 7)\<lparr>sv_lifetime := 300, sv_binding := BINDING_U, sv_status := STATE_REG_HOLD_OFF\<rparr>"

definition reg_client :: "u16 list client" where
  "reg_client = (bare_client [bare_object 3 0 0 [0], bare_object 5 0 0 []])
     \<lparr>cl_endpointName := Some [97], cl_serverList := [reg_server], cl_nextMID := 21\<rparr>"

definition reg_net :: "u16 list lwm2m_context" where
  "reg_net = \<lparr>n_transactions = [], n_sent = [], n_app = reg_client\<rparr>"

lemma reg_objects: "objects_text client_build reg_client = ascii ''</>;rt=\"oma.lwm2m\";ct=110,</3/0>,</5>,''"
  by (simp add: objects_text_def root_path_def REG_LWM2M_RESOURCE_TYPE_def REG_DEFAULT_PATH_def client_build_def
      reg_client_def bare_client_def bare_object_def object_text_def link_start_def instance_text_def has_version_def
      instances_of_def ascii_def dec_digits.simps)

lemma reg_facts:
  "registrable (e_cfg reg_env) (n_app reg_net) reg_server [97] (unat (pf_block_size reg_platform))"
  "unat (pf_block_size reg_platform) \<le> 1024" "listable (n_app reg_net)" "e_mem reg_env = (\<lambda>n. True)" "0 \<le> e_now reg_env"
  "net_ok reg_net" "ids_sorted sv_secObjInstID (cl_serverList (n_app reg_net))" "find_server (n_app reg_net) 7 = Some reg_server"
  "session_of reg_platform reg_server = Some 4"
  "lwm2m_list_find t_mID (n_transactions reg_net) (cl_nextMID (n_app reg_net)) = None"
proof -
  have "length (objects_text client_build reg_client) \<le> 1025" by (simp add: reg_objects ascii_def)
  then show "registrable (e_cfg reg_env) (n_app reg_net) reg_server [97] (unat (pf_block_size reg_platform))"
    by (simp add: registrable_def reg_env_def reg_net_def reg_platform_def)
      (simp add: client_build_def reg_client_def reg_server_def plain_def zero_server_entry_def bare_client_def bare_object_def)
  have "listed reg_client = [bare_object 3 0 0 [0], bare_object 5 0 0 []]"
    by (simp add: listed_def reg_client_def bare_client_def bare_object_def)
  then show "listable (n_app reg_net)"
    by (simp add: listable_def reg_net_def)
      (simp add: reg_client_def bare_client_def bare_object_def readable_def instances_of_def has_version_def)
  show "unat (pf_block_size reg_platform) \<le> 1024" "e_mem reg_env = (\<lambda>n. True)" "0 \<le> e_now reg_env"
    "net_ok reg_net" "ids_sorted sv_secObjInstID (cl_serverList (n_app reg_net))" "find_server (n_app reg_net) 7 = Some reg_server"
    "session_of reg_platform reg_server = Some 4"
    "lwm2m_list_find t_mID (n_transactions reg_net) (cl_nextMID (n_app reg_net)) = None"
    by (simp_all add: reg_platform_def reg_env_def reg_net_def net_ok_def reg_client_def reg_server_def zero_server_entry_def
        find_server_def session_of_def bare_client_def)
qed

theorem registration_arrives_witness:
  "\<exists>net out m b. prv_register reg_env reg_platform (registration_callbacks reg_env) 7 reg_net = Some (COAP_NO_ERROR, net) \<and>
     n_sent net = [(4, out)] \<and> coap_parse_message (\<lambda>n. True) out = Some (NO_ERROR, m) \<and> p_payload m = Some b \<and>
     prv_decodeRegisterPayload client_build (\<lambda>n. True) b =
       Some ([client_object 3 0 0 [0], client_object 5 0 0 []], LWM2M_CONTENT_SENML_JSON, None)"
proof -
  have "map listed_object (listed (n_app reg_net)) = [client_object 3 0 0 [0], client_object 5 0 0 []]"
    by (simp add: listed_def reg_net_def reg_client_def bare_client_def bare_object_def listed_object_def instances_of_def)
  moreover have "listed_format (e_cfg reg_env) = LWM2M_CONTENT_SENML_JSON" "e_cfg reg_env = client_build" "n_sent reg_net = []"
    by (simp_all add: listed_format_def reg_env_def client_build_def reg_net_def)
  ultimately show ?thesis
    using registration_arrives [OF reg_facts, of "registration_callbacks reg_env"] by auto
qed

theorem registration_completes_witness:
  "\<exists>net net' sv. prv_register reg_env reg_platform (registration_callbacks reg_env) 7 reg_net = Some (COAP_NO_ERROR, net) \<and>
     transaction_handleResponse (\<lambda>n. True) 1000 (\<lambda>_ _. 0) (registration_callbacks reg_env) net 4
       ((set_known COAP_OPTION_TOKEN (coap_init_message COAP_TYPE_ACK COAP_201_CREATED 21))
          \<lparr>p_token := [21, 0, 0xE8, 3], p_location_path := [ascii ''rd'', ascii ''5'']\<rparr>) True = Some (net', True) \<and>
     find_server (n_app net') 7 = Some sv \<and> sv_status sv = STATE_REGISTERED \<and> sv_location sv = Some (ascii ''/rd/5'')"
proof -
  let ?m = "(set_known COAP_OPTION_TOKEN (coap_init_message COAP_TYPE_ACK COAP_201_CREATED 21))
          \<lparr>p_token := [21, 0, 0xE8, 3], p_location_path := [ascii ''rd'', ascii ''5'']\<rparr>"
  have m: "p_type ?m = COAP_TYPE_ACK" "p_code ?m = COAP_201_CREATED" "p_mid ?m = cl_nextMID (n_app reg_net)"
    "coap_get_header_token ?m = Some (take 4 (temp_token (cl_nextMID (n_app reg_net)) (e_now reg_env) (e_stack reg_env)))"
    "e_cfg reg_env = e_cfg reg_env"
    by (simp_all add: set_known_def coap_init_message_def reg_net_def reg_client_def coap_get_header_token_def
        IS_OPTION_def temp_token_def reg_env_def Let_def zero_packet_def)
  have "server_answers reg_env (n_app reg_net)"
    by (simp add: server_answers_def reg_net_def reg_client_def bare_client_def bare_object_def find_object_def)
  moreover have "sv_location (registered reg_env ?m (registering 4 reg_server)) = Some (ascii ''/rd/5'')"
    "sv_status (registered reg_env ?m (registering 4 reg_server)) = STATE_REGISTERED"
    by (simp_all add: registered_def coap_get_multi_option_as_path_string_def prv_coap_get_multi_option_as_string_def
        reg_env_def ascii_def)
  moreover have "e_now reg_env = 1000" by (simp add: reg_env_def)
  ultimately show ?thesis
    using registration_completes [OF reg_facts(1,2,4-10) m(1-5) reg_facts(5), of "registration_callbacks reg_env" "\<lambda>n. True" "\<lambda>_ _. 0" True]
    by metis
qed

end
