(* ===== verification/Client_Step.thy ===== *)
theory Client_Step
  imports Message_Dispatch Registration_Exchange
begin

text \<open>
  The life of a client (\<^verbatim>\<open>core/liblwm2m.c\<close>): its configuration, adding and removing objects, the list
  of servers after a bootstrap, and the state machine of the periodic step.

  \<open>None\<close> is undefined behaviour. Releasing memory and closing connections have no effect on the context.
\<close>

section \<open>The context\<close>

text \<open>\<^verbatim>\<open>random\<close> is the result of \<^verbatim>\<open>rand\<close>, cut to 16 bits.\<close>

definition sizeof_context :: nat where "sizeof_context = 128"

definition empty_client :: "u16 \<Rightarrow> 's client" where
  "empty_client mid = \<lparr>cl_state = STATE_INITIAL, cl_endpointName = None, cl_msisdn = None, cl_altPath = None,
     cl_bootstrapServerList = [], cl_serverList = [], cl_objectList = [], cl_observedList = [], cl_nextMID = mid\<rparr>"

definition lwm2m_init :: "allocator \<Rightarrow> u16 \<Rightarrow> 's lwm2m_context option" where
  "lwm2m_init mem random =
     (if mem sizeof_context then Some \<lparr>n_transactions = [], n_sent = [], n_app = empty_client random\<rparr> else None)"

fun deregister_each :: "env \<Rightarrow> 's client callbacks \<Rightarrow> u16 list \<Rightarrow> 's lwm2m_context \<Rightarrow> 's lwm2m_context option" where
  "deregister_each E run [] net = Some net"
| "deregister_each E run (i # is) net =
     (case registration_deregister E run i net of None \<Rightarrow> None | Some net \<Rightarrow> deregister_each E run is net)"

definition lwm2m_deregister :: "env \<Rightarrow> 's client callbacks \<Rightarrow> 's lwm2m_context \<Rightarrow> 's lwm2m_context option" where
  "lwm2m_deregister E run net = deregister_each E run (map sv_secObjInstID (cl_serverList (n_app net))) net"

section \<open>Configuration\<close>

definition mandatory_objects :: "'s lwm2m_object list \<Rightarrow> bool" where
  "mandatory_objects obs \<longleftrightarrow>
     {LWM2M_SECURITY_OBJECT_ID, LWM2M_SERVER_OBJECT_ID, LWM2M_DEVICE_OBJECT_ID} \<subseteq> o_objID ` set obs"

text \<open>A path of a single slash is no path.\<close>

definition add_objects :: "'s lwm2m_object list \<Rightarrow> 's client \<Rightarrow> 's client" where
  "add_objects obs c = c\<lparr>cl_objectList := fold (\<lambda>ob xs. lwm2m_list_add o_objID xs ob) obs (cl_objectList c)\<rparr>"

definition configure_texts ::
  "allocator \<Rightarrow> bytes \<Rightarrow> bytes option \<Rightarrow> bytes option \<Rightarrow> 's lwm2m_object list \<Rightarrow> 's client \<Rightarrow> u8 \<times> 's client" where
  "configure_texts mem name msisdn altPath obs c =
     (let stored = (\<lambda>s. case s of None \<Rightarrow> True | Some b \<Rightarrow> mem (length b + 1));
          failed = (\<lambda>c. (COAP_500_INTERNAL_SERVER_ERROR, c))
      in
      if \<not> mem (length name + 1) then failed c
      else
        let c = c\<lparr>cl_endpointName := Some name\<rparr> in
        if \<not> stored msisdn then failed c
        else
          let c = c\<lparr>cl_msisdn := (if msisdn = None then cl_msisdn c else msisdn)\<rparr> in
          if \<not> stored altPath then failed c
          else
            let c = c\<lparr>cl_altPath := (if altPath = None then cl_altPath c else altPath)\<rparr> in
            (COAP_NO_ERROR, add_objects obs c))"

definition lwm2m_configure ::
  "allocator \<Rightarrow> bytes option \<Rightarrow> bytes option \<Rightarrow> bytes option \<Rightarrow> 's lwm2m_object list \<Rightarrow> 's client \<Rightarrow> u8 \<times> 's client" where
  "lwm2m_configure mem endpointName msisdn altPath obs c =
     (let refused = (COAP_400_BAD_REQUEST, c) in
      if cl_endpointName c \<noteq> None \<or> cl_objectList c \<noteq> [] then refused
      else
        (case endpointName of
           None \<Rightarrow> refused
         | Some name \<Rightarrow>
             if length obs < 3 then refused
             else if \<not> mandatory_objects obs then refused
             else if altPath \<noteq> None \<and> \<not> utils_isAltPathValid altPath then refused
             else configure_texts mem name msisdn (if altPath = Some [ch_slash] then None else altPath) obs c))"

definition lwm2m_add_object :: "env \<Rightarrow> 's lwm2m_object \<Rightarrow> 's client \<Rightarrow> (u8 \<times> 's client) option" where
  "lwm2m_add_object E ob c =
     (if find_object c (o_objID ob) \<noteq> None then Some (COAP_406_NOT_ACCEPTABLE, c)
      else
        let c = c\<lparr>cl_objectList := lwm2m_list_add o_objID (cl_objectList c) ob\<rparr> in
        if cl_state c = STATE_READY then lwm2m_update_registration E 0 True c else Some (COAP_NO_ERROR, c))"

definition lwm2m_remove_object :: "env \<Rightarrow> u16 \<Rightarrow> 's client \<Rightarrow> (u8 \<times> 's client) option" where
  "lwm2m_remove_object E i c =
     (let (obs, found) = lwm2m_list_remove o_objID (cl_objectList c) i; c = c\<lparr>cl_objectList := obs\<rparr> in
      if found = None then Some (COAP_404_NOT_FOUND, c)
      else if cl_state c = STATE_READY then lwm2m_update_registration E 0 True c
      else Some (COAP_NO_ERROR, c))"

section \<open>The servers after a bootstrap\<close>

definition kept_servers :: "(lwm2m_server \<Rightarrow> lwm2m_server) \<Rightarrow> lwm2m_server list \<Rightarrow> lwm2m_server list" where
  "kept_servers f svs =
     fold (\<lambda>sv xs. if sv_dirty sv then xs else lwm2m_list_add sv_secObjInstID xs (f sv)) svs []"

text \<open>The result: whether \<^verbatim>\<open>0\<close> is returned, and the context. A watcher of a server that goes stays.\<close>

definition prv_refreshServerList :: "env \<Rightarrow> 's client \<Rightarrow> (bool \<times> 's client) option" where
  "prv_refreshServerList E c =
     object_getServers E False
       (c\<lparr>cl_bootstrapServerList := kept_servers (\<lambda>sv. sv\<lparr>sv_status := STATE_DEREGISTERED\<rparr>) (cl_bootstrapServerList c),
          cl_serverList := kept_servers id (cl_serverList c)\<rparr>)"

section \<open>The state machine\<close>

text \<open>
  A case of the switch: the returned code, or \<open>None\<close> to go on with the steps of the parts; the context
  and the time to wait. A jump to \<^verbatim>\<open>next_step\<close> is the case of the new state.
\<close>

type_synonym 's step_result = "(u8 option \<times> 's lwm2m_context \<times> int) option"

definition set_state :: "lwm2m_client_state \<Rightarrow> 's lwm2m_context \<Rightarrow> 's lwm2m_context" where
  "set_state st net = with_client (\<lambda>c. c\<lparr>cl_state := st\<rparr>) net"

definition step_bootstrap_required ::
  "env \<Rightarrow> platform \<Rightarrow> 's client callbacks \<Rightarrow> 's lwm2m_context \<Rightarrow> int \<Rightarrow> 's step_result" where
  "step_bootstrap_required E P run net timeout =
     (if cl_bootstrapServerList (n_app net) = [] then Some (Some COAP_503_SERVICE_UNAVAILABLE, net, timeout)
      else map_option (Pair None)
        (bootstrap_step E P run (e_now E) (set_state STATE_BOOTSTRAPPING (with_client (bootstrap_start P) net)) timeout))"

definition step_register_required ::
  "env \<Rightarrow> platform \<Rightarrow> 's client callbacks \<Rightarrow> 's lwm2m_context \<Rightarrow> int \<Rightarrow> 's step_result" where
  "step_register_required E P run net timeout =
     map_option (\<lambda>(result, net).
         if result \<noteq> COAP_NO_ERROR then (Some result, net, timeout)
         else (None, set_state STATE_REGISTERING net, timeout))
       (start_registrations E P run True net)"

definition step_initial ::
  "env \<Rightarrow> platform \<Rightarrow> 's client callbacks \<Rightarrow> 's lwm2m_context \<Rightarrow> int \<Rightarrow> 's step_result" where
  "step_initial E P run net timeout =
     (case prv_refreshServerList E (n_app net) of
        None \<Rightarrow> None
      | Some (ok, c) \<Rightarrow>
          let net = net\<lparr>n_app := c\<rparr> in
          if \<not> ok then Some (Some COAP_503_SERVICE_UNAVAILABLE, net, timeout)
          else if cl_serverList c \<noteq> [] then step_register_required E P run (set_state STATE_REGISTER_REQUIRED net) timeout
          else step_bootstrap_required E P run (set_state STATE_BOOTSTRAP_REQUIRED net) timeout)"

definition step_bootstrapping ::
  "env \<Rightarrow> platform \<Rightarrow> 's client callbacks \<Rightarrow> 's lwm2m_context \<Rightarrow> int \<Rightarrow> 's step_result" where
  "step_bootstrapping E P run net timeout =
     (let st = bootstrap_getStatus (n_app net) in
      if st = STATE_BS_FINISHED then step_initial E P run (set_state STATE_INITIAL net) timeout
      else if st = STATE_BS_FAILED then Some (Some COAP_503_SERVICE_UNAVAILABLE, net, timeout)
      else map_option (Pair None) (bootstrap_step E P run (e_now E) net timeout))"

definition step_registering ::
  "env \<Rightarrow> platform \<Rightarrow> 's client callbacks \<Rightarrow> 's lwm2m_context \<Rightarrow> int \<Rightarrow> 's step_result" where
  "step_registering E P run net timeout =
     (let st = registration_getStatus (n_app net) in
      if st = STATE_REGISTERED then Some (None, set_state STATE_READY net, timeout)
      else if st = STATE_REG_FAILED
      then step_bootstrap_required E P run (set_state STATE_BOOTSTRAP_REQUIRED net) timeout
      else Some (None, net, timeout))"

definition step_ready ::
  "env \<Rightarrow> platform \<Rightarrow> 's client callbacks \<Rightarrow> 's lwm2m_context \<Rightarrow> int \<Rightarrow> 's step_result" where
  "step_ready E P run net timeout =
     (if registration_getStatus (n_app net) = STATE_REG_FAILED
      then step_bootstrap_required E P run (set_state STATE_BOOTSTRAP_REQUIRED net) timeout
      else Some (None, net, timeout))"

definition step_state ::
  "env \<Rightarrow> platform \<Rightarrow> 's client callbacks \<Rightarrow> 's lwm2m_context \<Rightarrow> int \<Rightarrow> 's step_result" where
  "step_state E P run net timeout =
     (case cl_state (n_app net) of
        STATE_INITIAL \<Rightarrow> step_initial E P run net timeout
      | STATE_BOOTSTRAP_REQUIRED \<Rightarrow> step_bootstrap_required E P run net timeout
      | STATE_BOOTSTRAPPING \<Rightarrow> step_bootstrapping E P run net timeout
      | STATE_REGISTER_REQUIRED \<Rightarrow> step_register_required E P run net timeout
      | STATE_REGISTERING \<Rightarrow> step_registering E P run net timeout
      | STATE_READY \<Rightarrow> step_ready E P run net timeout)"

definition lwm2m_step ::
  "env \<Rightarrow> platform \<Rightarrow> 's client callbacks \<Rightarrow> 's lwm2m_context \<Rightarrow> int \<Rightarrow> (u8 \<times> 's lwm2m_context \<times> int) option" where
  "lwm2m_step E P run net timeout =
     (if e_now E < 0 then Some (COAP_500_INTERNAL_SERVER_ERROR, net, timeout)
      else do {
        (returned, net, timeout) \<leftarrow> step_state E P run net timeout;
        case returned of
          Some code \<Rightarrow> Some (code, net, timeout)
        | None \<Rightarrow> do {
            (net, timeout) \<leftarrow> observe_step E (pf_transport P) (e_now E) net timeout;
            (net, timeout) \<leftarrow> registration_step E P run (e_now E) net timeout;
            (net, timeout) \<leftarrow> transaction_step (e_mem E) (e_now E) run net (e_now E) timeout;
            Some (0, net, timeout)
          }
      })"

text \<open>The callbacks of the transactions of a client.\<close>

definition client_callbacks :: "env \<Rightarrow> 's client callbacks" where
  "client_callbacks E f t answer net =
     (if f = BOOTSTRAP_REPLY then
        (case prv_handleBootstrapReply E t answer (n_app net) of
           None \<Rightarrow> net\<lparr>n_transactions := []\<rparr>
         | Some c \<Rightarrow> net\<lparr>n_app := c\<rparr>)
      else registration_callbacks E f t answer net)"

end
