(* ===== verification/Client_Security.thy ===== *)
theory Client_Security
  imports Client_Context Security_Object
begin

text \<open>
  The Security object of the wakaama client (\<^verbatim>\<open>wakaama/examples/client/object_security.c\<close>), whose calls
  have the types that \<^verbatim>\<open>liblwm2m.h\<close> declares and the core uses. The record of an instance and what a single
  resource reads and writes are, line by line, those of \<^verbatim>\<open>lwm2m/src/object_security.c\<close> (\<open>Security_Object\<close>);
  a multiple resource is refused before. The calls of \<^verbatim>\<open>lwm2m/src/object_security.c\<close> itself have no
  \<^verbatim>\<open>contextP\<close> and cannot be called by the core with the arguments it passes.
\<close>

definition client_security_get ::
  "allocator \<Rightarrow> security_instance \<Rightarrow> lwm2m_data \<Rightarrow> (u8 \<times> lwm2m_data) option" where
  "client_security_get mem t d =
     (if dtype d = LWM2M_TYPE_MULTIPLE_RESOURCE then Some (COAP_404_NOT_FOUND, d) else security_get_value mem t d)"

definition client_security_read ::
  "allocator \<Rightarrow> security_instance list \<Rightarrow> u16 \<Rightarrow> lwm2m_data list \<Rightarrow> (u8 \<times> lwm2m_data list) option" where
  "client_security_read mem = instances_read x_instanceId security_resList (client_security_get mem) mem"

definition client_security_set1 ::
  "build \<Rightarrow> allocator \<Rightarrow> security_instance \<Rightarrow> lwm2m_data \<Rightarrow> (u8 \<times> security_instance) option" where
  "client_security_set1 cfg mem t d =
     (if dtype d = LWM2M_TYPE_MULTIPLE_RESOURCE then Some (COAP_404_NOT_FOUND, t) else security_set1 cfg mem t d)"

text \<open>The type of the write is ignored.\<close>

definition client_security_write ::
  "build \<Rightarrow> allocator \<Rightarrow> security_instance list \<Rightarrow> u16 \<Rightarrow> lwm2m_data list \<Rightarrow> lwm2m_write_type \<Rightarrow>
   (u8 \<times> security_instance list) option" where
  "client_security_write cfg mem insts i data writeType =
     instances_write x_instanceId (client_security_set1 cfg mem) insts i data"

definition client_security_delete :: "security_instance list \<Rightarrow> u16 \<Rightarrow> (u8 \<times> security_instance list) option" where
  "client_security_delete insts i = Some (instances_delete x_instanceId insts i)"

definition client_security_create ::
  "build \<Rightarrow> allocator \<Rightarrow> security_instance list \<Rightarrow> u16 \<Rightarrow> lwm2m_data list \<Rightarrow>
   (u8 \<times> security_instance list) option" where
  "client_security_create cfg mem =
     instances_create x_instanceId sizeof_security_instance zero_security (client_security_set1 cfg mem) mem"

text \<open>The object that \<^verbatim>\<open>get_security_object\<close> gives to the core; the instances are its state.\<close>

definition security_object :: "build \<Rightarrow> allocator \<Rightarrow> security_instance list lwm2m_object" where
  "security_object cfg mem = \<lparr>o_objID = 0, o_versionMajor = 0, o_versionMinor = 0, o_state = [],
     o_instanceList = map x_instanceId,
     o_readFunc = Some (client_security_read mem),
     o_writeFunc = Some (client_security_write cfg mem),
     o_executeFunc = None,
     o_createFunc = Some (client_security_create cfg mem),
     o_deleteFunc = Some client_security_delete,
     o_discoverFunc = None, o_rawBlock1CreateFunc = None, o_rawBlock1WriteFunc = None, o_rawBlock1ExecuteFunc = None\<rparr>"

end
