(* ===== verification/Bootstrap_Proofs.thy ===== *)
theory Bootstrap_Proofs
  imports Bootstrap_Command Client_Security
begin

text \<open>
  What bootstrapping changes: the status of a bootstrap server moves along its graph, a command changes
  only the object it names and marks servers, and the deadline of a bootstrap.
\<close>

section \<open>What a command changes\<close>

definition undirty :: "lwm2m_server \<Rightarrow> lwm2m_server" where
  "undirty sv = sv\<lparr>sv_dirty := False\<rparr>"

lemma undirty_fields [simp]:
  "sv_status (undirty sv) = sv_status sv" "sv_registration (undirty sv) = sv_registration sv"
  "sv_secObjInstID (undirty sv) = sv_secObjInstID sv" "sv_sessionH (undirty sv) = sv_sessionH sv"
  by (simp_all add: undirty_def)

lemma undirty_dirty [simp]: "undirty (sv\<lparr>sv_dirty := b\<rparr>) = undirty sv"
  by (simp add: undirty_def)

definition boots_sorted :: "'s client \<Rightarrow> bool" where
  "boots_sorted c \<longleftrightarrow> ids_sorted sv_secObjInstID (cl_bootstrapServerList c)"

definition commanded :: "u16 set \<Rightarrow> 's client \<Rightarrow> 's client \<Rightarrow> bool" where
  "commanded oids c c' \<longleftrightarrow>
     map o_objID (cl_objectList c') = map o_objID (cl_objectList c) \<and>
     (\<forall>i. i \<notin> oids \<longrightarrow> find_object c' i = find_object c i) \<and>
     (boots_sorted c \<longrightarrow> boots_sorted c' \<and> map undirty (cl_bootstrapServerList c') = map undirty (cl_bootstrapServerList c)) \<and>
     map sv_secObjInstID (cl_serverList c') = map sv_secObjInstID (cl_serverList c) \<and>
     cl_state c' = cl_state c \<and> (client_ok c \<longrightarrow> client_ok c')"

lemma commanded_refl [simp]: "commanded oids c c"
  by (simp add: commanded_def)

lemma commanded_trans: "commanded oids a b \<Longrightarrow> commanded oids b c \<Longrightarrow> commanded oids a c"
  by (simp add: commanded_def)

lemma commanded_mono: "commanded A a b \<Longrightarrow> A \<subseteq> B \<Longrightarrow> commanded B a b"
  by (auto simp: commanded_def)

lemma touches_commanded: "touches oid c c' \<Longrightarrow> oid \<in> oids \<Longrightarrow> commanded oids c c'"
  by (auto simp: touches_def commanded_def boots_sorted_def)

lemma map_put_same:
  "ids_sorted key xs \<Longrightarrow> lwm2m_list_find key xs (key n) = Some x \<Longrightarrow> f n = f x \<Longrightarrow> map f (list_put key xs n) = map f xs"
  by (induction xs) (auto split: if_splits)

lemma commanded_tag [simp]: "commanded oids c (prv_tagServer i c)"
proof (cases "find_bootstrap c i")
  case (Some sv)
  have "map undirty (list_put sv_secObjInstID (cl_bootstrapServerList c) (sv\<lparr>sv_dirty := True\<rparr>)) =
      map undirty (cl_bootstrapServerList c)" if "boots_sorted c"
    using that Some find_Some [of sv_secObjInstID "cl_bootstrapServerList c" i sv]
    by (intro map_put_same [of _ _ _ sv]) (simp_all add: find_bootstrap_def boots_sorted_def)
  with Some client_ok_same [of "put_bootstrap (sv\<lparr>sv_dirty := True\<rparr>) c" c] show ?thesis
    by (simp add: prv_tagServer_def commanded_def put_bootstrap_def find_object_def boots_sorted_def)
next
  case None
  have "commanded oids c (put_server sv c)" for sv
    using client_ok_same [of "put_server sv c" c]
    by (simp add: commanded_def put_server_def find_object_def key_list_put boots_sorted_def)
  with None show ?thesis by (simp add: prv_tagServer_def split: option.splits)
qed

lemma commanded_tag_all [simp]: "commanded oids c (prv_tagAllServer own c)"
proof -
  have "sv_secObjInstID \<circ> (\<lambda>sv. if own \<noteq> Some (sv_secObjInstID sv) then sv\<lparr>sv_dirty := True\<rparr> else sv) =
      (sv_secObjInstID :: lwm2m_server \<Rightarrow> u16)"
    by (auto simp: fun_eq_iff)
  moreover have "map undirty (map (\<lambda>sv. if own \<noteq> Some (sv_secObjInstID sv) then sv\<lparr>sv_dirty := True\<rparr> else sv) svs) = map undirty svs"
    for svs :: "lwm2m_server list"
    by (induction svs) auto
  moreover have "map sv_secObjInstID (map (\<lambda>sv. sv\<lparr>sv_dirty := True\<rparr>) svs) = map sv_secObjInstID svs" for svs :: "lwm2m_server list"
    by (induction svs) auto
  ultimately show ?thesis
    using client_ok_same [of "prv_tagAllServer own c" c] by (simp add: prv_tagAllServer_def commanded_def find_object_def boots_sorted_def ids_sorted_def)
qed

lemma commanded_changed [simp]: "commanded oids c (tag_changed u i r c)"
  by (simp add: tag_changed_def)

lemma write_one_commanded:
  "write_one E u format m c = Some (r, c') \<Longrightarrow> commanded {objectId u} c c'"
  using touches_commanded [OF create_touches [THEN conjunct1]]
    commanded_trans [OF touches_commanded [OF write_touches] commanded_changed]
  by (fastforce simp: write_one_def split: if_splits)

lemma write_each_commanded:
  "write_each u r ds c = Some (r', c') \<Longrightarrow> commanded {objectId u} c c'"
proof (induction u r ds c arbitrary: r' c' rule: write_each.induct)
  case (2 u result d ds c)
  show ?case
  proof (cases "dtype d = LWM2M_TYPE_OBJECT_INSTANCE")
    case True
    obtain r1 c1 where one: "(if object_isInstanceNew (objectId u) (did d) c
           then map_option (\<lambda>(result, c). (created_is_changed result, c)) (object_createInstance u d c)
           else map_option (\<lambda>(result, c). (result, tag_changed u (did d) result c)) (object_writeInstance u d c)) = Some (r1, c1)"
      using "2.prems" True by (auto simp: bind_eq_Some_conv)
    then have t: "commanded {objectId u} c c1"
      using touches_commanded [OF instance_touches(1)]
        commanded_trans [OF touches_commanded [OF instance_touches(2)] commanded_changed]
      by (fastforce split: if_splits)
    show ?thesis
    proof (cases "r1 = COAP_204_CHANGED")
      case False
      with "2.prems" True one t show ?thesis by simp
    next
      case changed: True
      with "2.prems" True one have "write_each u r1 ds c1 = Some (r', c')" by simp
      with "2.IH"(1) [OF True one refl] changed commanded_trans [OF t] show ?thesis by simp
    qed
  next
    case False
    with 2 show ?thesis by simp
  qed
qed auto

lemma put_commanded: "bootstrap_put E u format m c = Some (r, c') \<Longrightarrow> commanded {objectId u} c c'"
  using write_one_commanded write_each_commanded
  by (auto simp: bootstrap_put_def split: if_splits list.splits option.splits)


section \<open>Deleting the other accounts\<close>

text \<open>
  What deleting relies on in an object: a deletion of an instance succeeds, removes that instance and
  keeps the others. \<open>valid\<close> holds of the states the object can be in.
\<close>

locale deletable =
  fixes ob :: "'s lwm2m_object" and delete :: "'s \<Rightarrow> u16 \<Rightarrow> (u8 \<times> 's) option" and valid :: "'s \<Rightarrow> bool"
    and record_of :: "'s \<Rightarrow> u16 \<Rightarrow> 'i option"
  assumes delete_func: "o_deleteFunc ob = Some delete"
    and valid_id: "valid s \<Longrightarrow> LWM2M_MAX_ID \<notin> set (o_instanceList ob s)"
    and deletes: "valid s \<Longrightarrow> i \<in> set (o_instanceList ob s) \<Longrightarrow>
      \<exists>s'. delete s i = Some (COAP_202_DELETED, s') \<and> valid s' \<and>
        set (o_instanceList ob s') = set (o_instanceList ob s) - {i} \<and>
        (\<forall>j. j \<noteq> i \<longrightarrow> record_of s' j = record_of s j)"
begin

lemma delete_one:
  assumes "find_object c oid = Some (ob\<lparr>o_state := s\<rparr>)" "valid s" "i \<in> set (o_instanceList ob s)"
  shows "\<exists>s'. object_delete E (uri_reset\<lparr>objectId := oid, instanceId := i\<rparr>) c = Some (COAP_202_DELETED,
      observe_clear (uri_reset\<lparr>objectId := oid, instanceId := i\<rparr>) (put_state (ob\<lparr>o_state := s\<rparr>) s' c)) \<and>
    valid s' \<and> set (o_instanceList ob s') = set (o_instanceList ob s) - {i} \<and>
    (\<forall>j. j \<noteq> i \<longrightarrow> record_of s' j = record_of s j)"
proof -
  from assms(2,3) obtain s' where s': "delete s i = Some (COAP_202_DELETED, s')" "valid s'"
    "set (o_instanceList ob s') = set (o_instanceList ob s) - {i}" "\<forall>j. j \<noteq> i \<longrightarrow> record_of s' j = record_of s j" using deletes by blast
  have "i \<noteq> LWM2M_MAX_ID" using assms(2,3) valid_id by metis
  with s' assms(1) delete_func show ?thesis by (auto simp: object_delete_def uri_reset_def Let_def)
qed

lemma delete_others_total:
  assumes "find_object c oid = Some (ob\<lparr>o_state := s\<rparr>)" "valid s"
  shows "\<exists>c' s'. delete_others E own oid c = Some (COAP_202_DELETED, c') \<and> find_object c' oid = Some (ob\<lparr>o_state := s'\<rparr>) \<and>
    valid s' \<and> set (o_instanceList ob s') = set (o_instanceList ob s) \<inter> {own} \<and> record_of s' own = record_of s own \<and>
    touches oid c c'"
  using assms
proof (induction "card (set (o_instanceList ob s) - {own})" arbitrary: c s rule: less_induct)
  case less
  let ?is = "o_instanceList ob s"
  show ?case
  proof (cases "dropWhile (\<lambda>i. i = own) ?is")
    case Nil
    then have "delete_others E own oid c = Some (COAP_202_DELETED, c)"
      using less.prems(1) by (subst delete_others.simps) (simp add: instances_of_def del: dropWhile_eq_Nil_conv)
    moreover have "set ?is \<subseteq> {own}" using Nil by (simp add: dropWhile_eq_Nil_conv subset_iff)
    then have "set ?is = set ?is \<inter> {own}" by (rule Int_absorb2 [symmetric])
    ultimately show ?thesis using less.prems touches_refl [of oid c] by blast
  next
    case (Cons i rest)
    have "i \<in> set (dropWhile (\<lambda>i. i = own) ?is)" unfolding Cons by simp
    then have "i \<in> set ?is" by (metis set_dropWhileD)
    moreover have "i \<noteq> own" using dropWhile_eq_Cons_conv [THEN iffD1, OF Cons] by (rule conjunct2)
    ultimately have i: "i \<in> set ?is" "i \<noteq> own" .
    obtain s' where s': "object_delete E (uri_reset\<lparr>objectId := oid, instanceId := i\<rparr>) c = Some (COAP_202_DELETED,
        observe_clear (uri_reset\<lparr>objectId := oid, instanceId := i\<rparr>) (put_state (ob\<lparr>o_state := s\<rparr>) s' c))"
      "valid s'" "set (o_instanceList ob s') = set ?is - {i}" "\<forall>j. j \<noteq> i \<longrightarrow> record_of s' j = record_of s j"
      using delete_one [OF less.prems i(1)] by blast
    let ?c = "observe_clear (uri_reset\<lparr>objectId := oid, instanceId := i\<rparr>) (put_state (ob\<lparr>o_state := s\<rparr>) s' c)"
    have id: "o_objID ob = oid" using less.prems(1) find_Some by (fastforce simp: find_object_def)
    have "find_object ?c oid = Some (ob\<lparr>o_state := s'\<rparr>)"
      using less.prems(1) find_put [of o_objID "cl_objectList c" "ob\<lparr>o_state := s'\<rparr>" "ob\<lparr>o_state := s\<rparr>" oid] id
      by (simp add: observe_clear_def put_state_def put_object_def find_object_def)
    moreover have "card (set (o_instanceList ob s') - {own}) < card (set ?is - {own})"
      using i s'(3) by (intro psubset_card_mono) auto
    moreover have t: "touches oid c ?c"
      using touches_trans [OF put_state_touches [OF less.prems(1)] observe_clear_touches] .
    ultimately obtain c' s'' where d: "delete_others E own oid ?c = Some (COAP_202_DELETED, c')"
      "find_object c' oid = Some (ob\<lparr>o_state := s''\<rparr>)" "valid s''"
      "set (o_instanceList ob s'') = set (o_instanceList ob s') \<inter> {own}" "record_of s'' own = record_of s' own"
      "touches oid ?c c'"
      using less.hyps [of s' ?c] s'(2) by blast
    have "delete_others E own oid c = Some (COAP_202_DELETED, c')"
      using less.prems(1) Cons s'(1) d(1) by (subst delete_others.simps) (simp add: instances_of_def)
    with d s'(3,4) i touches_trans [OF t d(6)] show ?thesis by auto
  qed
qed

end


lemma instances_deleted:
  assumes "ids_sorted key insts" "i \<in> key ` set insts"
  shows "fst (instances_delete key insts i) = COAP_202_DELETED \<and> ids_sorted key (snd (instances_delete key insts i)) \<and>
    key ` set (snd (instances_delete key insts i)) = key ` set insts - {i} \<and>
    (\<forall>j. j \<noteq> i \<longrightarrow> lwm2m_list_find key (snd (instances_delete key insts i)) j = lwm2m_list_find key insts j)"
proof -
  let ?r = "fst (lwm2m_list_remove key insts i)"
  have sorted: "ids_sorted key ?r" using id_list.inv_remove [OF assms(1)] .
  have "j \<notin> key ` set ?r \<longleftrightarrow> j = i \<or> j \<notin> key ` set insts" for j
    unfolding find_None_iff [OF sorted, symmetric] find_None_iff [OF assms(1), symmetric]
      id_list.find_remove [OF assms(1)] by simp
  then have ids: "key ` set ?r = key ` set insts - {i}" by blast
  have "lwm2m_list_find key insts i \<noteq> None" unfolding find_None_iff [OF assms(1)] using assms(2) by simp
  then obtain x where "snd (lwm2m_list_remove key insts i) = Some x"
    using id_list.removed [OF assms(1), of i] by (metis not_None_eq)
  then have "instances_delete key insts i = (COAP_202_DELETED, ?r)"
    by (simp add: instances_delete_def case_prod_beta)
  with sorted ids show ?thesis by (simp add: id_list.find_remove [OF assms(1)])
qed

interpretation accounts: deletable "security_object cfg mem" client_security_delete
  "\<lambda>insts. ids_sorted x_instanceId insts \<and> LWM2M_MAX_ID \<notin> x_instanceId ` set insts"
  "lwm2m_list_find x_instanceId"
proof unfold_locales
  fix insts :: "security_instance list" and i
  let ?valid = "\<lambda>insts. ids_sorted x_instanceId insts \<and> LWM2M_MAX_ID \<notin> x_instanceId ` set insts"
  assume "?valid insts" "i \<in> set (o_instanceList (security_object cfg mem) insts)"
  then show "\<exists>s'. client_security_delete insts i = Some (COAP_202_DELETED, s') \<and> ?valid s' \<and>
      set (o_instanceList (security_object cfg mem) s') = set (o_instanceList (security_object cfg mem) insts) - {i} \<and>
      (\<forall>j. j \<noteq> i \<longrightarrow> lwm2m_list_find x_instanceId s' j = lwm2m_list_find x_instanceId insts j)"
    using instances_deleted [of x_instanceId insts i]
    by (cases "instances_delete x_instanceId insts i") (auto simp: security_object_def client_security_delete_def)
qed (auto simp: security_object_def)

lemma tag_all_dirty:
  "sv \<in> set (cl_bootstrapServerList (prv_tagAllServer (Some own) c)) \<Longrightarrow> sv_secObjInstID sv \<noteq> own \<Longrightarrow> sv_dirty sv"
  "sv \<in> set (cl_serverList (prv_tagAllServer (Some own) c)) \<Longrightarrow> sv_dirty sv"
  "find_object (prv_tagAllServer (Some own) c) i = find_object c i"
  by (auto simp: prv_tagAllServer_def find_object_def split: if_splits)

text \<open>
  C13: A bootstrap server that deletes the Security object of the wakaama client
  (\<^verbatim>\<open>wakaama/examples/client/object_security.c\<close>): the walk ends, the answer is 2.02, exactly the account of that server
  is left, as it was, no other object changes, and every other server is marked to be dropped. The instances are sorted
  and none has the number 65535, which would stand for no instance.
\<close>

theorem bootstrap_deletes_other_accounts:
  assumes "find_object c LWM2M_SECURITY_OBJECT_ID = Some (security_object cfg mem\<lparr>o_state := insts\<rparr>)"
    and "ids_sorted x_instanceId insts" and "LWM2M_MAX_ID \<notin> x_instanceId ` set insts"
  shows "\<exists>c' insts'. bootstrap_delete E own (uri_reset\<lparr>objectId := LWM2M_SECURITY_OBJECT_ID\<rparr>) c = Some (COAP_202_DELETED, c') \<and>
    find_object c' LWM2M_SECURITY_OBJECT_ID = Some (security_object cfg mem\<lparr>o_state := insts'\<rparr>) \<and>
    x_instanceId ` set insts' = x_instanceId ` set insts \<inter> {own} \<and>
    lwm2m_list_find x_instanceId insts' own = lwm2m_list_find x_instanceId insts own \<and>
    (\<forall>i. i \<noteq> LWM2M_SECURITY_OBJECT_ID \<longrightarrow> find_object c' i = find_object c i) \<and>
    (\<forall>sv \<in> set (cl_bootstrapServerList c'). sv_secObjInstID sv \<noteq> own \<longrightarrow> sv_dirty sv) \<and>
    (\<forall>sv \<in> set (cl_serverList c'). sv_dirty sv)"
proof -
  obtain c' insts' where d: "delete_others E own LWM2M_SECURITY_OBJECT_ID c = Some (COAP_202_DELETED, c')"
    "find_object c' LWM2M_SECURITY_OBJECT_ID = Some (security_object cfg mem\<lparr>o_state := insts'\<rparr>)"
    "set (o_instanceList (security_object cfg mem) insts') = set (o_instanceList (security_object cfg mem) insts) \<inter> {own}"
    "lwm2m_list_find x_instanceId insts' own = lwm2m_list_find x_instanceId insts own" "touches LWM2M_SECURITY_OBJECT_ID c c'"
    using accounts.delete_others_total [OF assms(1)] assms(2,3) by metis
  have "bootstrap_delete E own (uri_reset\<lparr>objectId := LWM2M_SECURITY_OBJECT_ID\<rparr>) c =
      Some (COAP_202_DELETED, prv_tagAllServer (Some own) c')"
    using assms(1) d(1) by (simp add: bootstrap_delete_def delete_accounts_def uri_reset_def)
  moreover have "x_instanceId ` set insts' = x_instanceId ` set insts \<inter> {own}"
    using d(3) by (simp add: security_object_def)
  moreover have "\<forall>i. i \<noteq> LWM2M_SECURITY_OBJECT_ID \<longrightarrow> find_object c' i = find_object c i"
    using d(5) by (simp add: touches_def)
  ultimately show ?thesis
    using d(2,4) tag_all_dirty [where own = own and c = c'] by (intro exI conjI) (assumption | simp)+
qed

definition three_accounts :: "security_instance list client" where
  "three_accounts = \<lparr>cl_state = STATE_BOOTSTRAPPING, cl_endpointName = None, cl_msisdn = None, cl_altPath = None,
     cl_bootstrapServerList = [], cl_serverList = [],
     cl_objectList = [security_object client_build (\<lambda>_. True)\<lparr>o_state := map zero_security [1, 2, 5]\<rparr>],
     cl_observedList = [], cl_nextMID = 77\<rparr>"

theorem bootstrap_deletes_other_accounts_witness:
  "\<exists>c' insts'. bootstrap_delete plain_env 2 (uri_reset\<lparr>objectId := LWM2M_SECURITY_OBJECT_ID\<rparr>) three_accounts =
      Some (COAP_202_DELETED, c') \<and>
    find_object c' LWM2M_SECURITY_OBJECT_ID = Some (security_object client_build (\<lambda>_. True)\<lparr>o_state := insts'\<rparr>) \<and>
    x_instanceId ` set insts' = {2}"
proof -
  let ?insts = "map zero_security [1, 2, 5]"
  have "find_object three_accounts LWM2M_SECURITY_OBJECT_ID = Some (security_object client_build (\<lambda>_. True)\<lparr>o_state := ?insts\<rparr>)"
    by (simp add: three_accounts_def find_object_def security_object_def)
  moreover have "ids_sorted x_instanceId ?insts" "LWM2M_MAX_ID \<notin> x_instanceId ` set ?insts"
    by (simp_all add: zero_security_def)
  ultimately show ?thesis
    using bootstrap_deletes_other_accounts [where E = plain_env and own = 2]
    by (fastforce simp: zero_security_def)
qed


section \<open>The whole handler\<close>

lemma delete_others_touches:
  assumes "delete_others E own oid c = Some p"
  shows "touches oid c (snd p)"
proof (rule delete_others.raw_induct [where P = "\<lambda>E own oid c p. touches oid c (snd p)", OF _ assms])
  fix loop :: "env \<Rightarrow> u16 \<Rightarrow> u16 \<Rightarrow> 's client \<Rightarrow> (u8 \<times> 's client) option"
    and E own oid and c :: "'s client" and p
  assume IH: "\<And>E own oid c p. loop E own oid c = Some p \<Longrightarrow> touches oid c (snd p)"
    and ret: "(case find_object c oid of None \<Rightarrow> None
      | Some ob \<Rightarrow> (case dropWhile (\<lambda>i. i = own) (instances_of ob) of [] \<Rightarrow> Some (COAP_202_DELETED, c)
         | i # _ \<Rightarrow> (case object_delete E (uri_reset\<lparr>objectId := oid, instanceId := i\<rparr>) c of None \<Rightarrow> None
              | Some (result, c) \<Rightarrow> if result = COAP_202_DELETED then loop E own oid c else Some (result, c)))) = Some p"
  have "touches oid c c'" if "object_delete E (uri_reset\<lparr>objectId := oid, instanceId := i\<rparr>) c = Some (r, c')" for i r c'
    using delete_touches [OF that] by simp
  with ret show "touches oid c (snd p)"
    by (auto split: option.splits list.splits if_splits dest!: IH) (metis touches_trans)
qed

lemma delete_accounts_commanded:
  "delete_accounts E own c = Some (r, c') \<Longrightarrow> commanded {LWM2M_SECURITY_OBJECT_ID} c c'"
  using touches_commanded [OF delete_others_touches, of E own LWM2M_SECURITY_OBJECT_ID c _ "{LWM2M_SECURITY_OBJECT_ID}"]
    commanded_trans [OF _ commanded_tag_all]
  by (auto simp: delete_accounts_def)

lemma delete_commanded: "bootstrap_delete E own u c = Some (r, c') \<Longrightarrow> commanded {objectId u} c c'"
  using delete_accounts_commanded touches_commanded [OF delete_touches]
    commanded_trans [OF touches_commanded [OF delete_touches] commanded_tag]
  by (fastforce simp: bootstrap_delete_def split: if_splits)

text \<open>The status of the servers may change besides.\<close>

definition confined :: "u16 \<Rightarrow> 's client \<Rightarrow> 's client \<Rightarrow> bool" where
  "confined oid c c' \<longleftrightarrow>
     map o_objID (cl_objectList c') = map o_objID (cl_objectList c) \<and>
     (\<forall>i. i \<noteq> oid \<longrightarrow> find_object c' i = find_object c i) \<and>
     map sv_secObjInstID (cl_serverList c') = map sv_secObjInstID (cl_serverList c) \<and>
     (client_ok c \<longrightarrow> client_ok c')"

lemma confined_trans: "confined oid a b \<Longrightarrow> confined oid b c \<Longrightarrow> confined oid a c"
  by (simp add: confined_def)

lemma commanded_confined: "commanded {oid} c c' \<Longrightarrow> confined oid c c'"
  by (simp add: commanded_def confined_def)

lemma status_confined [simp]: "confined oid c (put_bootstrap sv c)" "confined oid c (put_bootstrap sv c\<lparr>cl_state := x\<rparr>)"
  using client_ok_same [of "put_bootstrap sv c" c] client_ok_same [of "put_bootstrap sv c\<lparr>cl_state := x\<rparr>" c]
  by (simp_all add: confined_def put_bootstrap_def find_object_def)

lemma changed_confined: "bootstrap_changed r own c = Some c' \<Longrightarrow> confined oid c c'"
proof -
  assume a: "bootstrap_changed r own c = Some c'"
  have "c' = c \<or> (\<exists>sv. c' = put_bootstrap sv c\<lparr>cl_state := STATE_BOOTSTRAPPING\<rparr>)"
    using a by (auto simp: bootstrap_changed_def split: if_splits)
  then show ?thesis using status_confined(2) [of oid c] by (auto simp: confined_def)
qed

text \<open>
  C12: A command of a bootstrap server, whatever it asks for, changes no object but the one that its URI names, adds and
  removes no object and no server of a registration, and keeps the client well formed.
\<close>

theorem bootstrap_command_confined:
  assumes "bootstrap_handleCommand E u own m response c = Some (r, response', c')"
  shows "map o_objID (cl_objectList c') = map o_objID (cl_objectList c) \<and>
    (\<forall>i. i \<noteq> objectId u \<longrightarrow> find_object c' i = find_object c i) \<and>
    map sv_secObjInstID (cl_serverList c') = map sv_secObjInstID (cl_serverList c) \<and> (client_ok c \<longrightarrow> client_ok c')"
proof -
  let ?u = "objectId u"
  obtain sv code sv' where sv: "find_bootstrap c own = Some sv" "prv_checkServerStatus E sv = (code, sv')"
    using assms by (cases "find_bootstrap c own"; cases "prv_checkServerStatus E (the (find_bootstrap c own))")
      (auto simp: bootstrap_handleCommand_def)
  let ?c = "put_bootstrap sv' c"
  have "confined ?u c c'"
  proof (cases "code = COAP_NO_ERROR")
    case False
    with assms sv have "c' = ?c" by (simp add: bootstrap_handleCommand_def)
    then show ?thesis by simp
  next
    case True
    define run where "run = (if p_code m = COAP_PUT
        then map_option (\<lambda>(result, c). (result, response, c)) (bootstrap_put E u (utils_convertMediaType (e_cfg E) (p_content_type m)) m ?c)
        else if p_code m = COAP_DELETE
        then map_option (\<lambda>(result, c). (result, response, c)) (bootstrap_delete E own u ?c)
        else if p_code m = COAP_GET
        then map_option (\<lambda>(result, response). (result, response, ?c))
          (bootstrap_get E u m response (utils_convertMediaType (e_cfg E) (p_content_type m)) ?c)
        else Some (COAP_400_BAD_REQUEST, response, ?c))"
    have "bootstrap_handleCommand E u own m response c =
        do { (result, response, c) \<leftarrow> run; c \<leftarrow> bootstrap_changed result own c; Some (result, response, c) }"
      using sv True by (simp add: bootstrap_handleCommand_def run_def Let_def)
    with assms obtain code' answer c1 where step: "run = Some (code', answer, c1)" "bootstrap_changed code' own c1 = Some c'"
      by (auto simp: bind_eq_Some_conv split: prod.splits)
    have "c1 = ?c \<or> commanded {?u} ?c c1"
      using step(1) put_commanded [of E u _ m ?c] delete_commanded [of E own u ?c]
      by (auto simp: run_def split: if_splits)
    then have "confined ?u ?c c1" using commanded_confined by (auto simp: confined_def)
    with changed_confined [OF step(2)] show ?thesis by (metis confined_trans status_confined(1))
  qed
  then show ?thesis by (simp add: confined_def)
qed

text \<open>\<^verbatim>\<open>DELETE /0/5\<close> from the server of the account 2.\<close>

definition boot_server :: lwm2m_server where
  "boot_server = \<lparr>sv_secObjInstID = 2, sv_shortID = 0, sv_lifetime = 10, sv_registration = 147, sv_binding = 0,
     sv_sessionH = Some 1, sv_status = STATE_BS_PENDING, sv_location = None, sv_dirty = False, sv_blockData = [],
     sv_servObjInstID = 0xFFFF, sv_attempt = 0, sv_sequence = 0\<rparr>"

definition boots_client :: "security_instance list client" where
  "boots_client = three_accounts\<lparr>cl_bootstrapServerList := [boot_server]\<rparr>"

theorem bootstrap_command_confined_witness:
  "\<exists>answer c'. bootstrap_handleCommand plain_env (uri_reset\<lparr>objectId := LWM2M_SECURITY_OBJECT_ID, instanceId := 5\<rparr>) 2
      (coap_init_message COAP_TYPE_CON COAP_DELETE 9) answer boots_client = Some (COAP_202_DELETED, answer, c') \<and>
    map o_objID (cl_objectList c') = [LWM2M_SECURITY_OBJECT_ID] \<and> find_object c' 3 = None"
proof -
  let ?u = "uri_reset\<lparr>objectId := LWM2M_SECURITY_OBJECT_ID, instanceId := 5\<rparr>" and ?m = "coap_init_message COAP_TYPE_CON COAP_DELETE 9"
  define c where "c = put_bootstrap (boot_server\<lparr>sv_registration := 347\<rparr>) boots_client"
  have sv: "find_bootstrap boots_client 2 = Some boot_server" "prv_checkServerStatus plain_env boot_server =
      (COAP_NO_ERROR, boot_server\<lparr>sv_registration := 347\<rparr>)"
    by (simp_all add: boots_client_def find_bootstrap_def boot_server_def prv_checkServerStatus_def)
  have ob: "find_object c LWM2M_SECURITY_OBJECT_ID =
      Some (security_object client_build (\<lambda>_. True)\<lparr>o_state := map zero_security [1, 2, 5]\<rparr>)"
    by (simp add: c_def boots_client_def put_bootstrap_def three_accounts_def find_object_def security_object_def)
  obtain c1 where d: "object_delete plain_env ?u c = Some (COAP_202_DELETED, c1)" "touches LWM2M_SECURITY_OBJECT_ID c c1"
    using accounts.delete_one [where c = c and oid = 0 and i = 5 and E = plain_env, OF ob]
      delete_touches [of plain_env ?u c]
    by (fastforce simp: zero_security_def security_object_def)
  let ?c = "prv_tagServer 5 c1"
  have status: "find_bootstrap ?c 2 = Some (boot_server\<lparr>sv_registration := 347\<rparr>)"
  proof -
    have "cl_bootstrapServerList c1 = [boot_server\<lparr>sv_registration := 347\<rparr>]"
      using d(2) by (simp add: touches_def c_def put_bootstrap_def boots_client_def boot_server_def)
    then show ?thesis by (simp add: prv_tagServer_def find_bootstrap_def boot_server_def put_server_def split: option.splits)
  qed
  have "bootstrap_delete plain_env 2 ?u c = Some (COAP_202_DELETED, ?c)"
    using d(1) by (simp add: bootstrap_delete_def uri_reset_def)
  moreover have "sv_status boot_server = STATE_BS_PENDING" by (simp add: boot_server_def)
  ultimately have run: "bootstrap_handleCommand plain_env ?u 2 ?m a boots_client = Some (COAP_202_DELETED, a, ?c)" for a
    using sv status by (simp add: bootstrap_handleCommand_def c_def [symmetric] bootstrap_changed_def coap_init_message_def)
  from bootstrap_command_confined [OF run] run show ?thesis
    by (auto simp: boots_client_def three_accounts_def security_object_def find_object_def uri_reset_def)
qed

end
