(* ===== verification/Client_Safety.thy ===== *)
theory Client_Safety
  imports Client_Step Bootstrap_Proofs
begin

text \<open>
  Properties of the whole client: what a datagram may change, how a request is answered, and how the
  state machine moves.
\<close>

section \<open>What the client does on its own account\<close>

text \<open>
  Everything but a request leaves the objects alone. It changes the state of the client at most to ask
  for a bootstrap, which is what the failure of a registration does.
\<close>

definition kept :: "'s client \<Rightarrow> 's client \<Rightarrow> bool" where
  "kept c c' \<longleftrightarrow> cl_objectList c' = cl_objectList c \<and>
     (cl_state c' = cl_state c \<or> cl_state c' = STATE_BOOTSTRAP_REQUIRED)"

lemma kept_refl [simp]: "kept c c"
  by (simp add: kept_def)

lemma kept_trans: "kept a b \<Longrightarrow> kept b c \<Longrightarrow> kept a c"
  by (auto simp: kept_def)

lemma kept_updates [simp]:
  "kept c (put_server sv c)" "kept c (put_bootstrap sv c)" "kept c (c\<lparr>cl_serverList := svs\<rparr>)"
  "kept c (c\<lparr>cl_nextMID := i\<rparr>)" "kept c (c\<lparr>cl_observedList := obs\<rparr>)"
  by (simp_all add: kept_def put_server_def put_bootstrap_def)

lemma kept_put [simp]:
  "kept a (put_server sv c) \<longleftrightarrow> kept a c" "kept a (put_bootstrap sv c) \<longleftrightarrow> kept a c"
  "kept (put_server sv a) c \<longleftrightarrow> kept a c" "kept (put_bootstrap sv a) c \<longleftrightarrow> kept a c"
  by (simp_all add: kept_def put_server_def put_bootstrap_def)

lemma kept_list [simp]: "kept (a\<lparr>cl_serverList := svs\<rparr>) c \<longleftrightarrow> kept a c" "kept a (c\<lparr>cl_serverList := svs\<rparr>) \<longleftrightarrow> kept a c"
  by (simp_all add: kept_def)

text \<open>The same of a computation: whatever it results in. A rule per construct.\<close>

definition yields :: "('r \<Rightarrow> bool) \<Rightarrow> 'r option \<Rightarrow> bool" where
  "yields Q m \<longleftrightarrow> (\<forall>r. m = Some r \<longrightarrow> Q r)"

abbreviation (input) keeps :: "('r \<Rightarrow> 's client) \<Rightarrow> 's client \<Rightarrow> 'r option \<Rightarrow> bool" where
  "keeps app c \<equiv> yields (\<lambda>r. kept c (app r))"

lemma yields_None: "yields Q None"
  by (simp add: yields_def)

lemma yields_Some: "Q r \<Longrightarrow> yields Q (Some r)"
  by (simp add: yields_def)

lemma yields_bind: "(\<And>x. m = Some x \<Longrightarrow> yields Q (f x)) \<Longrightarrow> yields Q (m \<bind> f)"
  by (cases m) (simp_all add: yields_def)

lemma yields_option:
  "(x = None \<Longrightarrow> yields Q a) \<Longrightarrow> (\<And>y. x = Some y \<Longrightarrow> yields Q (b y)) \<Longrightarrow>
    yields Q (case x of None \<Rightarrow> a | Some y \<Rightarrow> b y)"
  by (cases x) simp_all

lemma yields_prod: "(\<And>a b. p = (a, b) \<Longrightarrow> yields Q (f a b)) \<Longrightarrow> yields Q (case p of (a, b) \<Rightarrow> f a b)"
  by (cases p) simp

lemma yields_if: "(b \<Longrightarrow> yields Q x) \<Longrightarrow> (\<not> b \<Longrightarrow> yields Q y) \<Longrightarrow> yields Q (if b then x else y)"
  by simp

lemma yields_Let: "(\<And>x. x = e \<Longrightarrow> yields Q (f x)) \<Longrightarrow> yields Q (Let e f)"
  by simp

lemma yields_map: "yields (\<lambda>r. Q (f r)) m \<Longrightarrow> yields Q (map_option f m)"
  by (auto simp: yields_def)

lemma yieldsI: "(\<And>r. Q r) \<Longrightarrow> yields Q m"
  by (simp add: yields_def)

lemma yields_result: "yields Q m \<Longrightarrow> m = Some r \<Longrightarrow> Q r"
  by (simp add: yields_def)

lemma keeps_after: "keeps app a m \<Longrightarrow> kept c a \<Longrightarrow> keeps app c m"
  by (auto simp: yields_def intro: kept_trans)

lemmas yields_rules = yields_None yields_Some yields_bind yields_option yields_prod yields_if yields_Let yields_map

lemmas context_defs = take_mid_def with_client_def add_transaction_def put_server_def put_bootstrap_def kept_def

section \<open>Transactions\<close>

text \<open>What sending and finishing transactions rests on: the callbacks keep the client.\<close>

locale kept_callbacks =
  fixes run :: "'s client callbacks"
  assumes run_kept: "kept (n_app net) (n_app (run f t answer net))"
begin

lemma end_kept: "transaction_end run t answer net = Some net' \<Longrightarrow> kept (n_app net) (n_app net')"
  using run_kept by (auto simp: transaction_end_def transaction_remove_def Let_def split: option.splits if_splits)

lemma send_kept: "transaction_send mem now run net t = Some (net', r) \<Longrightarrow> kept (n_app net) (n_app net')"
  by (auto simp: transaction_send_def Let_def put_transaction_def transaction_remove_def buffer_send_def
      split: option.splits if_splits prod.splits dest!: end_kept)

lemma response_from_kept:
  "handle_response_from mem now transport run peer m wants_ack net ts = Some (net', found) \<Longrightarrow> kept (n_app net) (n_app net')"
proof (induction ts)
  case (Cons t ts)
  have acked: "n_app net'' = n_app net"
    if "message_send mem transport net peer p = Some (net'', r)" for p net'' r
    using that by (auto simp: message_send_def buffer_send_def Let_def split: if_splits)
  show ?case
    using Cons.prems Cons.IH acked
    by (auto simp: Let_def put_transaction_def split: option.splits if_splits dest!: end_kept) 
qed simp

lemma response_kept:
  "transaction_handleResponse mem now transport run net peer m wants_ack = Some (net', found) \<Longrightarrow> kept (n_app net) (n_app net')"
  unfolding transaction_handleResponse_def by (rule response_from_kept)

lemma step_one_kept: "step_one mem now currentTime run net timeout i = Some (net', timeout') \<Longrightarrow> kept (n_app net) (n_app net')"
  by (auto simp: step_one_def split: option.splits if_splits prod.splits dest!: send_kept)

lemma step_from_kept:
  assumes "step_from mem now currentTime run net timeout cursor = Some p"
  shows "kept (n_app net) (n_app (fst p))"
proof -
  have "(\<forall>f t a net. kept (n_app net) (n_app (run f t a net))) \<longrightarrow> kept (n_app net) (n_app (fst p))"
  proof (rule step_from.raw_induct [where P = "\<lambda>mem now currentTime run net timeout cursor p.
      (\<forall>f t a net. kept (n_app net) (n_app (run f t a net))) \<longrightarrow> kept (n_app net) (n_app (fst p))", OF _ assms], intro impI)
    fix loop :: "allocator \<Rightarrow> int \<Rightarrow> int \<Rightarrow> 's client callbacks \<Rightarrow> 's lwm2m_context \<Rightarrow> int \<Rightarrow> u16 option \<Rightarrow> ('s lwm2m_context \<times> int) option"
      and mem now currentTime and run' :: "'s client callbacks" and net timeout cursor p
    assume IH: "\<And>mem now currentTime run net timeout cursor p. loop mem now currentTime run net timeout cursor = Some p \<Longrightarrow>
        (\<forall>f t a net. kept (n_app net) (n_app (run f t a net))) \<longrightarrow> kept (n_app net) (n_app (fst p))"
      and ret: "(case cursor of None \<Rightarrow> Some (net, timeout)
        | Some i \<Rightarrow> let nextP = next_node i (n_transactions net) in
            (case step_one mem now currentTime run' net timeout i of None \<Rightarrow> None
             | Some (c, timeoutP) \<Rightarrow> loop mem now currentTime run' c timeoutP nextP)) = Some p"
      and r: "\<forall>f t a net. kept (n_app net) (n_app (run' f t a net))"
    have one: "kept (n_app net) (n_app c)" if "step_one mem now currentTime run' net timeout i = Some (c, t)" for i c t
      by (rule kept_callbacks.step_one_kept [OF _ that]) (unfold_locales, use r in blast)
    show "kept (n_app net) (n_app (fst p))"
      using ret by (auto simp: Let_def split: option.splits dest!: one) (blast intro: kept_trans IH [THEN mp, OF _ r])
  qed
  with run_kept show ?thesis by blast
qed

lemma step_kept:
  "transaction_step mem now run net currentTime timeout = Some (net', timeout') \<Longrightarrow> kept (n_app net) (n_app net')"
  unfolding transaction_step_def by (auto dest: step_from_kept)

text \<open>The requests of the registrations and of a bootstrap.\<close>

lemma register_keeps: "keeps (\<lambda>r. n_app (snd r)) (n_app net) (prv_register E P run i net)"
  unfolding prv_register_def by (intro yields_rules) (auto simp: context_defs dest!: send_kept)

lemma update_keeps: "keeps (\<lambda>r. n_app (snd r)) (n_app net) (prv_updateRegistration E P run i withObjects net)"
  unfolding prv_updateRegistration_def by (intro yields_rules) (auto simp: context_defs dest!: send_kept)

lemma bootstrap_request_keeps: "keeps n_app (n_app net) (prv_requestBootstrap E P run i net)"
  unfolding prv_requestBootstrap_def by (intro yields_rules) (auto simp: context_defs dest!: send_kept)

lemma step_server_keeps: "keeps (\<lambda>r. n_app (fst r)) (n_app net) (step_server E P run currentTime i net timeout)"
  unfolding step_server_def
  by (intro yields_rules) (auto simp: context_defs case_prod_beta intro!: yields_map register_keeps [unfolded kept_def] update_keeps [unfolded kept_def])

lemma step_servers_keeps: "keeps (\<lambda>r. n_app (fst r)) (n_app net) (step_servers E P run currentTime is net timeout)"
proof (induction "is" arbitrary: net timeout)
  case (Cons i "is")
  show ?case
    by (simp, intro yields_bind yields_prod) (auto dest!: yields_result [OF step_server_keeps] intro: keeps_after [OF Cons])
qed (simp add: yields_def)

lemma register_all_keeps: "keeps (\<lambda>r. n_app (snd r)) (n_app net) (register_all E P run restartFailed is net)"
proof (induction "is" arbitrary: net)
  case (Cons i "is")
  show ?case
    by (simp, intro yields_bind yields_prod yields_if yields_Some)
      (auto dest!: yields_result [OF register_keeps] intro: keeps_after [OF Cons] split: if_splits)
qed (simp add: yields_def)

lemma bootstrap_server_keeps: "keeps (\<lambda>r. n_app (fst r)) (n_app net) (bootstrap_server E P run currentTime i net timeout)"
  unfolding bootstrap_server_def
  by (intro yields_rules) (auto simp: context_defs intro: bootstrap_request_keeps [unfolded kept_def])

lemma bootstrap_servers_keeps: "keeps (\<lambda>r. n_app (fst r)) (n_app net) (bootstrap_servers E P run currentTime is net timeout)"
proof (induction "is" arbitrary: net timeout)
  case (Cons i "is")
  show ?case
    by (simp, intro yields_bind yields_prod) (auto dest!: yields_result [OF bootstrap_server_keeps] intro: keeps_after [OF Cons])
qed (simp add: yields_def)

end

text \<open>Starting the registrations, and the callbacks of the client.\<close>

lemma start_keeps: "keeps snd c (registration_start E restartFailed c)"
  unfolding registration_start_def by (intro yields_rules) (auto simp: context_defs)

lemma sequence_failure_keeps: "keeps id c (prv_handleRegistrationSequenceFailure E ob i c)"
  unfolding prv_handleRegistrationSequenceFailure_def next_ordered_def
  by (intro yields_rules) (auto simp: context_defs bind_eq_Some_conv intro!: yieldsI dest!: yields_result [OF start_keeps] split: if_splits)

lemma attempt_failure_keeps: "keeps id c (prv_handleRegistrationAttemptFailure E i c)"
  unfolding prv_handleRegistrationAttemptFailure_def
  by (intro yields_rules) (auto simp: context_defs intro: sequence_failure_keeps [unfolded kept_def id_apply] yieldsI)

lemma next_start_keeps: "keeps id c (registered_next E sv c)"
  unfolding registered_next_def
  by (intro yields_rules) (auto simp: context_defs intro: start_keeps [unfolded kept_def])

lemma bootstrap_reply_keeps: "keeps id c (prv_handleBootstrapReply E t answer c)"
  unfolding prv_handleBootstrapReply_def by (intro yields_rules) (auto simp: context_defs)

lemma registration_reply_keeps: "keeps id c (prv_handleRegistrationReply E t answer c)"
proof -
  have failed: "keeps id c (prv_handleRegistrationAttemptFailure E i (put_server sv c))" for i sv
    by (rule keeps_after [OF attempt_failure_keeps]) simp
  have registered: "keeps id c (registered_next E sv (put_server sv' (put_server sv'' c)))" for sv sv' sv''
    by (rule keeps_after [OF next_start_keeps]) simp
  show ?thesis
    unfolding prv_handleRegistrationReply_def Let_def
    by (intro yields_rules) (auto intro: failed [unfolded id_apply] registered [unfolded id_apply] yields_Some)
qed

lemma update_reply_keeps: "keeps id c (prv_handleRegistrationUpdateReply E t answer c)"
  unfolding prv_handleRegistrationUpdateReply_def by (intro yields_rules) (auto simp: context_defs)

lemma deregistration_reply_keeps: "keeps id c (prv_handleDeregistrationReply t c)"
  unfolding prv_handleDeregistrationReply_def by (intro yields_rules) (auto simp: context_defs intro!: yieldsI)

interpretation client: kept_callbacks "client_callbacks E :: 's client callbacks"
proof
  show "kept (n_app net) (n_app (client_callbacks E f t answer net))" for net :: "'s lwm2m_context" and f t answer
    unfolding client_callbacks_def registration_callbacks_def
    by (auto split: option.splits if_splits
      dest!: yields_result [OF bootstrap_reply_keeps] yields_result [OF registration_reply_keeps]
        yields_result [OF update_reply_keeps] yields_result [OF deregistration_reply_keeps])
qed

section \<open>Answers\<close>

lemma put_blocks_keeps: "keeps id c (put_blocks pr bds c)"
  unfolding put_blocks_def by (intro yields_rules yieldsI) simp

context kept_callbacks
begin

lemma new_block1_keeps: "keeps (\<lambda>r. n_app (fst r)) (n_app net) (prv_send_new_block1 E run t num sz net)"
  unfolding prv_send_new_block1_def by (intro yields_rules) (auto simp: context_defs yields_def dest!: send_kept)

lemma next_block1_keeps: "keeps (\<lambda>r. n_app (fst r)) (n_app net) (prv_send_next_block1 E run peer mid sz net)"
  unfolding prv_send_next_block1_def by (intro yields_rules new_block1_keeps) simp_all

lemma change_to_block1_keeps: "keeps (\<lambda>r. n_app (fst r)) (n_app net) (prv_change_to_block1 E P run peer mid sz net)"
  unfolding prv_change_to_block1_def by (intro yields_rules new_block1_keeps)

lemma retry_block1_keeps: "keeps (\<lambda>r. n_app (fst r)) (n_app net) (prv_retry_block1 E run peer mid sz net)"
  unfolding prv_retry_block1_def by (intro yields_rules new_block1_keeps) simp_all

lemma get_block2_keeps: "keeps (\<lambda>r. n_app (fst r)) (n_app net) (prv_send_get_block2 E P run peer pr mid num sz net)"
  unfolding prv_send_get_block2_def
  by (intro yields_rules) (auto simp: context_defs yields_def dest!: send_kept yields_result [OF put_blocks_keeps])

lemma finish_keeps: "keeps n_app (n_app net) (finish E P run peer m net)"
  unfolding finish_def yields_def using response_kept by fastforce

lemma large_answer_keeps: "keeps n_app (n_app net) (large_answer E P run peer m net)"
  unfolding large_answer_def
  by (rule yields_bind, rule keeps_after [OF finish_keeps])
    (auto split: option.splits dest!: yields_result [OF get_block2_keeps])

lemma separate_answer_keeps: "keeps (\<lambda>r. n_app (fst r)) (n_app net) (separate_answer E P run peer m net)"
  unfolding separate_answer_def
  by (intro yields_bind yields_prod yields_if yields_Some)
    (auto simp: yields_def dest!: response_kept message_send_app)

lemma block1_answer_keeps: "keeps n_app (n_app net) (block1_answer E run peer m net)"
  unfolding block1_answer_def by (intro yields_if yields_map yields_Some next_block1_keeps retry_block1_keeps) simp

lemma block2_answer_keeps: "keeps (\<lambda>r. n_app (fst r)) (n_app net) (block2_answer E P run peer m net)"
  unfolding block2_answer_def prv_send_get_next_block2_def
  by (intro yields_rules) (auto simp: kept_def dest!: yields_result [OF put_blocks_keeps] yields_result [OF finish_keeps]
    yields_result [OF get_block2_keeps])

lemma answer_keeps: "keeps (\<lambda>r. n_app (fst r)) (n_app net) (incoming_answer E P run peer m net)"
proof -
  have cancelled: "keeps id c (handle_reset peer m c)" for c
    unfolding handle_reset_def observe_cancel_def by (intro yields_map yieldsI) simp
  have finished: "keeps n_app c (finish E P run peer m net')" if "kept c (n_app net')" for c net'
    by (rule keeps_after [OF finish_keeps that])
  show ?thesis
    unfolding incoming_answer_def Let_def
    by (intro yields_rules separate_answer_keeps block2_answer_keeps large_answer_keeps finished)
      (auto simp: case_prod_beta intro!: finished yields_map large_answer_keeps
        dest: yields_result [OF cancelled] yields_result [OF block1_answer_keeps] yields_result [OF change_to_block1_keeps])
qed

end

section \<open>Requests\<close>

lemma request_target_apart:
  assumes "request_target E behind peer m response type u c = Some (r, response', c')" "utils_findBootstrapServer c peer = None"
  shows "c' = c \<or> (\<exists>sv. utils_findServer c peer = Some sv \<and> objectId u \<noteq> LWM2M_SECURITY_OBJECT_ID \<and> touches (objectId u) c c')"
proof (cases "type = LWM2M_REQUEST_TYPE_DM \<and> utils_findServer c peer \<noteq> None")
  case True
  then obtain sv where sv: "utils_findServer c peer = Some sv" by auto
  then have "sv \<in> set (cl_serverList c)" by (auto simp: utils_findServer_def find_Some_iff)
  moreover have r: "dm_handleRequest E behind u sv m response c = Some (r, response', c')"
    using assms(1) True sv by (simp add: request_target_def find_peer_def)
  ultimately have "touches (objectId u) c c'" by (rule request_touches [rotated])
  moreover have "c' = c" if "objectId u = LWM2M_SECURITY_OBJECT_ID"
    using r that by (simp add: dm_handleRequest_def Let_def)
  ultimately show ?thesis using sv by blast
next
  case False
  with assms show ?thesis
    by (auto simp: request_target_def find_peer_def bootstrap_handleDeleteAll_def bootstrap_handleFinish_def
      split: lwm2m_request_type.splits option.splits if_splits)
qed

lemma request_apart:
  assumes "handle_request E behind peer m response c = Some (r, response', c')" "utils_findBootstrapServer c peer = None"
  shows "c' = c \<or> (\<exists>sv oid. utils_findServer c peer = Some sv \<and> oid \<noteq> LWM2M_SECURITY_OBJECT_ID \<and> touches oid c c')"
  using assms request_target_apart [OF _ assms(2)]
  by (fastforce simp: handle_request_def bind_eq_Some_conv Let_def split: prod.splits if_splits)

lemma accept_apart:
  assumes "accept_request E P peer m response c = Some (code, m', response', c')"
  shows "kept c c' \<and> (find_peer c peer = None \<longrightarrow> c' = c) \<and>
    (utils_findBootstrapServer c peer = None \<longrightarrow> cl_bootstrapServerList c' = cl_bootstrapServerList c \<and> cl_state c' = cl_state c)"
proof -
  have blocks: "kept c c' \<and> (\<not> fst pr \<longrightarrow> cl_bootstrapServerList c' = cl_bootstrapServerList c) \<and> cl_state c' = cl_state c"
    if "put_blocks pr bds c = Some c'" for pr bds
    using that by (auto simp: put_blocks_def put_server_def put_bootstrap_def kept_def)
  have pr: "find_peer c peer = Some pr \<Longrightarrow> utils_findBootstrapServer c peer = None \<Longrightarrow> \<not> fst pr" for pr
    by (auto simp: find_peer_def split: option.splits)
  show ?thesis
    using assms
    by (auto simp: accept_request_def request_block_def Let_def bind_eq_Some_conv
      split: if_splits option.splits dest!: blocks dest: pr)
qed

lemma start_response_app: "n_app (snd (start_response m net)) = n_app net \<or>
    n_app (snd (start_response m net)) = (n_app net)\<lparr>cl_nextMID := cl_nextMID (n_app net) + 1\<rparr>"
  by (simp add: start_response_def take_mid_def with_client_def Let_def)

text \<open>\<open>spares\<close>: at most one object changes, and it is not the Security object.\<close>

definition spares :: "bool \<Rightarrow> 's client \<Rightarrow> 's client \<Rightarrow> bool" where
  "spares server c c' \<longleftrightarrow> (cl_state c' = cl_state c \<or> cl_state c' = STATE_BOOTSTRAP_REQUIRED) \<and>
     (cl_objectList c' = cl_objectList c \<or> server \<and> (\<exists>oid. oid \<noteq> LWM2M_SECURITY_OBJECT_ID \<and>
       map o_objID (cl_objectList c') = map o_objID (cl_objectList c) \<and>
       (\<forall>i. i \<noteq> oid \<longrightarrow> find_object c' i = find_object c i)))"

lemma kept_spares: "kept c c' \<Longrightarrow> spares server c c'"
  by (auto simp: kept_def spares_def)

text \<open>The parts of the handling of a request.\<close>

lemma incoming_request_parts:
  assumes "incoming_request E P behind peer m net = Some (net', code)"
  obtains response net1 code1 m1 response1 c1 code2 response2 c2 where
    "start_response m net = (response, net1)"
    "accept_request E P peer m response (n_app net1) = Some (code1, m1, response1, c1)"
    "(if code1 = NO_ERROR \<or> raw_block1 (e_cfg E) \<and> code1 = COAP_231_CONTINUE
      then handle_request E behind peer m1 response1 c1 else Some (code1, response1, c1)) = Some (code2, response2, c2)"
    "(if code2 = NO_ERROR then message_send (e_mem E) (pf_transport P) (net1\<lparr>n_app := c2\<rparr>) peer (response_block P m1 response2)
      else if code2 \<noteq> COAP_IGNORE then message_send (e_mem E) (pf_transport P) (net1\<lparr>n_app := c2\<rparr>) peer
        (fst (coap_set_status_code response2 (unat (error_status code2 response2))))
      else Some (net1\<lparr>n_app := c2\<rparr>, code2)) = Some (net', code)"
proof -
  obtain response net1 where start: "start_response m net = (response, net1)" by fastforce
  from assms show ?thesis
    unfolding incoming_request_def start Let_def prod.case bind_eq_Some_conv
    by (elim exE conjE) (auto simp: bind_eq_Some_conv split: prod.splits split del: if_split intro: that [OF start])
qed

lemma incoming_request_spares:
  assumes "incoming_request E P behind peer m net = Some (net', code)" "utils_findBootstrapServer (n_app net) peer = None"
  shows "spares (utils_findServer (n_app net) peer \<noteq> None) (n_app net) (n_app net')"
  using assms(1)
proof (rule incoming_request_parts)
  fix response net1 code1 m1 response1 c1 code2 response2 c2
  assume start: "start_response m net = (response, net1)"
    and accept: "accept_request E P peer m response (n_app net1) = Some (code1, m1, response1, c1)"
    and handle: "(if code1 = NO_ERROR \<or> raw_block1 (e_cfg E) \<and> code1 = COAP_231_CONTINUE
      then handle_request E behind peer m1 response1 c1 else Some (code1, response1, c1)) = Some (code2, response2, c2)"
    and send: "(if code2 = NO_ERROR then message_send (e_mem E) (pf_transport P) (net1\<lparr>n_app := c2\<rparr>) peer (response_block P m1 response2)
      else if code2 \<noteq> COAP_IGNORE then message_send (e_mem E) (pf_transport P) (net1\<lparr>n_app := c2\<rparr>) peer
        (fst (coap_set_status_code response2 (unat (error_status code2 response2))))
      else Some (net1\<lparr>n_app := c2\<rparr>, code2)) = Some (net', code)"
  have app: "n_app net' = c2" using send by (auto split: if_splits dest: message_send_app)
  have same: "kept (n_app net) (n_app net1)" "utils_findBootstrapServer (n_app net1) peer = None"
    "find_peer (n_app net1) peer = None \<longleftrightarrow> utils_findServer (n_app net) peer = None"
    using start_response_app [of m net] start assms(2)
    by (auto simp: kept_def utils_findBootstrapServer_def find_peer_def utils_findServer_def split: option.splits)
  have kept1: "kept (n_app net) c1" using accept_apart [OF accept] same(1) kept_trans by blast
  have none: "utils_findBootstrapServer c1 peer = None"
    using accept_apart [OF accept] same(2) by (simp add: utils_findBootstrapServer_def)
  have server: "utils_findServer (n_app net) peer \<noteq> None" if "utils_findServer c1 peer \<noteq> None"
    using that same(3) accept_apart [OF accept] by (auto simp: find_peer_def split: option.splits)
  from handle consider "c2 = c1" | "handle_request E behind peer m1 response1 c1 = Some (code2, response2, c2)"
    by (auto split: if_splits)
  then show ?thesis
  proof cases
    case 1
    with app kept_spares [OF kept1] show ?thesis by simp
  next
    case 2
    from request_apart [OF this none] server kept1 app show ?thesis
      by (auto simp: spares_def kept_def touches_def find_object_def)
  qed
qed

text \<open>
  C2: a datagram from a peer that is not a bootstrap server never changes the Security object, whatever it holds:
  a request, an answer, a block, a reset, or bytes that are no message. At most one object changes at all, and only
  when the peer is a server of the client; no object is added or removed, and the state of the client at most
  becomes that of asking for a bootstrap.
\<close>

theorem only_bootstrap_changes_accounts:
  assumes "lwm2m_handle_packet E P (client_callbacks E) dg peer net = Some net'"
    and "utils_findBootstrapServer (n_app net) peer = None"
  shows "find_object (n_app net') LWM2M_SECURITY_OBJECT_ID = find_object (n_app net) LWM2M_SECURITY_OBJECT_ID \<and>
    map o_objID (cl_objectList (n_app net')) = map o_objID (cl_objectList (n_app net)) \<and>
    (\<exists>oid. \<forall>i. i \<noteq> oid \<longrightarrow> find_object (n_app net') i = find_object (n_app net) i) \<and>
    (utils_findServer (n_app net) peer = None \<longrightarrow> cl_objectList (n_app net') = cl_objectList (n_app net)) \<and>
    (cl_state (n_app net') = cl_state (n_app net) \<or> cl_state (n_app net') = STATE_BOOTSTRAP_REQUIRED)"
proof -
  have report: "n_app net2 = n_app net1" if "report_error E P peer b code m net1 = Some net2" for b code m net1 net2
    using that by (auto simp: report_error_def Let_def split: if_splits dest: message_send_app)
  obtain code m net1 code1 where handled: "(if code \<noteq> NO_ERROR then Some (net, code)
      else if COAP_GET \<le> p_code m \<and> p_code m \<le> COAP_DELETE then incoming_request E P (d_behind dg) peer m net
      else incoming_answer E P (client_callbacks E) peer m net) = Some (net1, code1)"
    and "report_error E P peer (d_error_text dg) code1 m net1 = Some net'"
    using assms(1) by (auto simp: lwm2m_handle_packet_def bind_eq_Some_conv split del: if_split)
  then have "n_app net' = n_app net1" using report by blast
  moreover have "spares (utils_findServer (n_app net) peer \<noteq> None) (n_app net) (n_app net1)"
    using handled incoming_request_spares [OF _ assms(2), of E P "d_behind dg" m net1 code1]
      yields_result [OF client.answer_keeps, where r = "(net1, code1)"] kept_spares [of "n_app net" "n_app net1"]
      kept_spares [OF kept_refl]
    by (auto split: if_splits)
  ultimately have "spares (utils_findServer (n_app net) peer \<noteq> None) (n_app net) (n_app net')" by simp
  then show ?thesis by (auto simp: spares_def find_object_def)
qed

text \<open>\<^verbatim>\<open>DELETE /\<close>, which would delete everything, from a stranger.\<close>

definition boots_net :: "security_instance list lwm2m_context" where
  "boots_net = \<lparr>n_transactions = [], n_sent = [], n_app = boots_client\<rparr>"

definition delete_everything :: datagram where
  "delete_everything = \<lparr>d_bytes = [0x40, 4, 0, 5], d_behind = [], d_error_text = []\<rparr>"

definition quiet_platform :: platform where
  "quiet_platform = \<lparr>pf_connect = (\<lambda>_. None), pf_transport = (\<lambda>_ _. 0), pf_block_size = 1024\<rparr>"

lemma delete_everything_ignored:
  "lwm2m_handle_packet plain_env quiet_platform run delete_everything 9 boots_net = Some boots_net"
proof -
  let ?m = "(coap_init_message 0 4 5)\<lparr>p_version := 1\<rparr>"
  have parse: "coap_parse_message (e_mem plain_env) (take (length (d_bytes delete_everything) mod 65536) (d_bytes delete_everything)) =
      Some (0, ?m)"
    by (simp add: coap_parse_message_def delete_everything_def coap_init_message_def zero_packet_def parse_options.simps)
  have uri: "uri_decode (e_cfg plain_env) (cl_altPath boots_client) (p_uri_path ?m) (p_code ?m) =
      Some (LWM2M_REQUEST_TYPE_DELETE_ALL, uri_reset)"
    by (simp add: uri_decode_def decode_dm_def boots_client_def three_accounts_def coap_init_message_def zero_packet_def)
  have target: "request_target plain_env b 9 ?m r LWM2M_REQUEST_TYPE_DELETE_ALL uri_reset boots_client = Some (COAP_IGNORE, r, boots_client)" for b r
    by (simp add: request_target_def bootstrap_handleDeleteAll_def utils_findBootstrapServer_def boots_client_def boot_server_def)
  have accept: "accept_request plain_env quiet_platform 9 ?m r boots_client = Some (0, ?m, r, boots_client)" for r
    by (simp add: accept_request_def payload_of_def IS_OPTION_def coap_init_message_def zero_packet_def)
  have start: "start_response ?m boots_net = (coap_init_message COAP_TYPE_ACK COAP_205_CONTENT 5, boots_net)"
    by (simp add: start_response_def coap_init_message_def zero_packet_def)
  have app: "n_app boots_net = boots_client" "boots_net\<lparr>n_app := boots_client\<rparr> = boots_net" by (simp_all add: boots_net_def)
  have "incoming_request plain_env quiet_platform b 9 ?m boots_net = Some (boots_net, COAP_IGNORE)" for b
    using accept target uri app by (simp add: incoming_request_def start handle_request_def Let_def)
  with parse show ?thesis
    by (simp add: lwm2m_handle_packet_def report_error_def coap_init_message_def)
qed

theorem only_bootstrap_changes_accounts_witness:
  "lwm2m_handle_packet plain_env quiet_platform (client_callbacks plain_env) delete_everything 9 boots_net = Some boots_net \<and>
   utils_findServer (n_app boots_net) 9 = None \<and> map o_objID (cl_objectList (n_app boots_net)) = [LWM2M_SECURITY_OBJECT_ID]"
proof -
  have none: "utils_findBootstrapServer (n_app boots_net) 9 = None" "utils_findServer (n_app boots_net) 9 = None"
    by (simp_all add: utils_findBootstrapServer_def utils_findServer_def boots_net_def boots_client_def boot_server_def three_accounts_def)
  show ?thesis
    using only_bootstrap_changes_accounts [OF delete_everything_ignored none(1)] none(2) delete_everything_ignored
    by (simp add: boots_net_def boots_client_def three_accounts_def security_object_def)
qed

end
