(* ===== verification/Client_States.thy ===== *)
theory Client_States
  imports Client_Safety
begin

text \<open>
  The state machine of \<^verbatim>\<open>lwm2m_step\<close>: which states one step leads to.
\<close>

section \<open>The parts of a step\<close>

text \<open>Nothing here sets the state.\<close>

definition settled :: "'s client \<Rightarrow> 's client \<Rightarrow> bool" where
  "settled c c' \<longleftrightarrow> cl_objectList c' = cl_objectList c \<and> cl_state c' = cl_state c"

lemma getServers_loop_settled: "getServers_loop E checkOnly sec ob is c = Some (ok, c') \<Longrightarrow> settled c c'"
proof (induction "is" arbitrary: c)
  case (Cons i "is")
  then show ?case
    by (auto simp: settled_def split: if_splits option.splits bool.splits dest!: Cons.IH)
qed (simp add: settled_def)

lemma refresh_settled: "prv_refreshServerList E c = Some (ok, c') \<Longrightarrow> settled c c'"
  by (auto simp: prv_refreshServerList_def object_getServers_def settled_def split: option.splits
    dest!: getServers_loop_settled)

lemma observe_kept: "observe_step E transport currentTime net timeout = Some (net', timeout') \<Longrightarrow> kept (n_app net) (n_app net')"
  by (auto simp: observe_step_def kept_def same_client_def dest!: step_targets_result)

lemma bootstrap_step_kept:
  "bootstrap_step E P (client_callbacks E) currentTime net timeout = Some (net', timeout') \<Longrightarrow> kept (n_app net) (n_app net')"
  unfolding bootstrap_step_def using yields_result [OF client.bootstrap_servers_keeps] by fastforce

lemma registration_step_kept:
  "registration_step E P (client_callbacks E) currentTime net timeout = Some (net', timeout') \<Longrightarrow> kept (n_app net) (n_app net')"
  unfolding registration_step_def using yields_result [OF client.step_servers_keeps] by fastforce

lemma start_registrations_kept:
  "start_registrations E P (client_callbacks E) restartFailed net = Some (r, net') \<Longrightarrow> kept (n_app net) (n_app net')"
  using yields_result [OF client.register_all_keeps] yields_result [OF start_keeps]
  by (fastforce simp: start_registrations_def split: if_splits)

section \<open>The cases of the switch\<close>

text \<open>
  The states that a step may leave the client in. Asking for a bootstrap is always possible: that is
  what a registration does that failed for good.
\<close>

abbreviation bootstrap_states :: "lwm2m_client_state set" where
  "bootstrap_states \<equiv> {STATE_BOOTSTRAP_REQUIRED, STATE_BOOTSTRAPPING}"

definition initial_states :: "lwm2m_client_state set" where
  "initial_states = {STATE_INITIAL, STATE_REGISTER_REQUIRED, STATE_REGISTERING} \<union> bootstrap_states"

definition next_states :: "'s client \<Rightarrow> lwm2m_client_state set" where
  "next_states c =
     (case cl_state c of
        STATE_INITIAL \<Rightarrow> initial_states
      | STATE_BOOTSTRAP_REQUIRED \<Rightarrow> bootstrap_states
      | STATE_BOOTSTRAPPING \<Rightarrow>
          (if bootstrap_getStatus c = STATE_BS_FINISHED then initial_states else bootstrap_states)
      | STATE_REGISTER_REQUIRED \<Rightarrow> {STATE_REGISTER_REQUIRED, STATE_REGISTERING, STATE_BOOTSTRAP_REQUIRED}
      | STATE_REGISTERING \<Rightarrow>
          (if registration_getStatus c = STATE_REGISTERED then {STATE_READY, STATE_BOOTSTRAP_REQUIRED}
           else if registration_getStatus c = STATE_REG_FAILED then bootstrap_states
           else {STATE_REGISTERING, STATE_BOOTSTRAP_REQUIRED})
      | STATE_READY \<Rightarrow>
          (if registration_getStatus c = STATE_REG_FAILED then bootstrap_states
           else {STATE_READY, STATE_BOOTSTRAP_REQUIRED}))"

text \<open>A case that goes on leaves the client neither at the start nor about to register.\<close>

definition moved :: "lwm2m_client_state set \<Rightarrow> 's client \<Rightarrow> u8 option \<Rightarrow> 's client \<Rightarrow> bool" where
  "moved states c returned c' \<longleftrightarrow> cl_objectList c' = cl_objectList c \<and> cl_state c' \<in> states \<and>
     (returned = None \<longrightarrow> cl_state c' \<notin> {STATE_INITIAL, STATE_REGISTER_REQUIRED}) \<and> returned \<noteq> Some 0"

lemma bootstrap_required_moves:
  assumes "step_bootstrap_required E P (client_callbacks E) net timeout = Some (returned, net', timeout')"
    and "cl_state (n_app net) = STATE_BOOTSTRAP_REQUIRED"
  shows "moved bootstrap_states (n_app net) returned (n_app net')"
  using assms by (auto simp: step_bootstrap_required_def moved_def set_state_def with_client_def bootstrap_start_def kept_def
    split: if_splits dest!: bootstrap_step_kept)

lemma register_required_moves:
  assumes "step_register_required E P (client_callbacks E) net timeout = Some (returned, net', timeout')"
    and "cl_state (n_app net) = STATE_REGISTER_REQUIRED"
  shows "moved {STATE_REGISTER_REQUIRED, STATE_REGISTERING, STATE_BOOTSTRAP_REQUIRED} (n_app net) returned (n_app net')"
  using assms by (auto simp: step_register_required_def moved_def set_state_def with_client_def kept_def
    split: if_splits dest!: start_registrations_kept)

lemma initial_moves:
  assumes "step_initial E P (client_callbacks E) net timeout = Some (returned, net', timeout')" "cl_state (n_app net) = STATE_INITIAL"
  shows "moved initial_states (n_app net) returned (n_app net')"
proof -
  obtain ok c where refresh: "prv_refreshServerList E (n_app net) = Some (ok, c)"
    using assms(1) by (auto simp: step_initial_def split: option.splits)
  then have c: "cl_objectList c = cl_objectList (n_app net)" "cl_state c = STATE_INITIAL"
    using refresh_settled [OF refresh] assms(2) by (auto simp: settled_def)
  let ?net = "net\<lparr>n_app := c\<rparr>"
  consider "\<not> ok" | "ok" "cl_serverList c \<noteq> []" | "ok" "cl_serverList c = []" by blast
  then show ?thesis
  proof cases
    case 1
    with assms(1) refresh c show ?thesis by (auto simp: step_initial_def moved_def initial_states_def)
  next
    case 2
    then have "step_register_required E P (client_callbacks E) (set_state STATE_REGISTER_REQUIRED ?net) timeout =
        Some (returned, net', timeout')"
      using assms(1) refresh by (simp add: step_initial_def)
    from register_required_moves [OF this] c show ?thesis
      by (auto simp: moved_def initial_states_def set_state_def with_client_def)
  next
    case 3
    then have "step_bootstrap_required E P (client_callbacks E) (set_state STATE_BOOTSTRAP_REQUIRED ?net) timeout =
        Some (returned, net', timeout')"
      using assms(1) refresh by (simp add: step_initial_def)
    from bootstrap_required_moves [OF this] c show ?thesis
      by (auto simp: moved_def initial_states_def set_state_def with_client_def)
  qed
qed

lemma state_moves:
  assumes "step_state E P (client_callbacks E) net timeout = Some (returned, net', timeout')"
  shows "moved (next_states (n_app net)) (n_app net) returned (n_app net')"
proof (cases "cl_state (n_app net)")
  case STATE_INITIAL
  with assms initial_moves [of E P net timeout returned net' timeout'] show ?thesis by (simp add: step_state_def next_states_def)
next
  case STATE_BOOTSTRAP_REQUIRED
  with assms bootstrap_required_moves [of E P net timeout returned net' timeout'] show ?thesis
    by (simp add: step_state_def next_states_def)
next
  case STATE_REGISTER_REQUIRED
  with assms register_required_moves [of E P net timeout returned net' timeout'] show ?thesis
    by (simp add: step_state_def next_states_def)
next
  case STATE_BOOTSTRAPPING
  show ?thesis
  proof (cases "bootstrap_getStatus (n_app net) = STATE_BS_FINISHED")
    case True
    with STATE_BOOTSTRAPPING assms
    have "step_initial E P (client_callbacks E) (set_state STATE_INITIAL net) timeout = Some (returned, net', timeout')"
      by (simp add: step_state_def step_bootstrapping_def)
    from initial_moves [OF this] STATE_BOOTSTRAPPING True show ?thesis
      by (simp add: moved_def next_states_def set_state_def with_client_def)
  next
    case False
    with STATE_BOOTSTRAPPING assms show ?thesis
      by (auto simp: step_state_def step_bootstrapping_def moved_def next_states_def kept_def Let_def split: if_splits
        dest!: bootstrap_step_kept)
  qed
next
  case STATE_REGISTERING
  have "moved bootstrap_states (n_app net) returned (n_app net')" if "registration_getStatus (n_app net) = STATE_REG_FAILED"
    using STATE_REGISTERING assms that
      bootstrap_required_moves [of E P "set_state STATE_BOOTSTRAP_REQUIRED net" timeout returned net' timeout']
    by (simp add: step_state_def step_registering_def moved_def set_state_def with_client_def)
  with STATE_REGISTERING assms show ?thesis
    by (auto simp: step_state_def step_registering_def next_states_def moved_def set_state_def with_client_def Let_def split: if_splits)
next
  case STATE_READY
  have "moved bootstrap_states (n_app net) returned (n_app net')" if "registration_getStatus (n_app net) = STATE_REG_FAILED"
    using STATE_READY assms that
      bootstrap_required_moves [of E P "set_state STATE_BOOTSTRAP_REQUIRED net" timeout returned net' timeout']
    by (simp add: step_state_def step_ready_def moved_def set_state_def with_client_def)
  with STATE_READY assms show ?thesis
    by (auto simp: step_state_def step_ready_def next_states_def moved_def split: if_splits)
qed

section \<open>The step\<close>

text \<open>
  C3: one call of \<^verbatim>\<open>lwm2m_step\<close> moves the client along its graph: it is ready only when it was, or when the
  registrations that it waited for all succeeded; it leaves the bootstrap for registering only when a bootstrap
  server finished; from the states of registering it goes to a bootstrap when they failed. A step that returns 0
  leaves it neither at the start nor about to register, and no step touches the objects.
\<close>

theorem step_follows_graph:
  assumes "lwm2m_step E P (client_callbacks E) net timeout = Some (code, net', timeout')" and "0 \<le> e_now E"
  shows "cl_state (n_app net') \<in> next_states (n_app net) \<and>
    (code = 0 \<longrightarrow> cl_state (n_app net') \<notin> {STATE_INITIAL, STATE_REGISTER_REQUIRED}) \<and>
    cl_objectList (n_app net') = cl_objectList (n_app net)"
proof -
  obtain returned net1 timeout1 where state: "step_state E P (client_callbacks E) net timeout = Some (returned, net1, timeout1)"
    and rest: "(case returned of Some code \<Rightarrow> Some (code, net1, timeout1)
      | None \<Rightarrow> do {
          (net, timeout) \<leftarrow> observe_step E (pf_transport P) (e_now E) net1 timeout1;
          (net, timeout) \<leftarrow> registration_step E P (client_callbacks E) (e_now E) net timeout;
          (net, timeout) \<leftarrow> transaction_step (e_mem E) (e_now E) (client_callbacks E) net (e_now E) timeout;
          Some (0, net, timeout)
        }) = Some (code, net', timeout')"
    using assms by (auto simp: lwm2m_step_def bind_eq_Some_conv)
  note moved = state_moves [OF state]
  show ?thesis
  proof (cases returned)
    case (Some r)
    with moved rest show ?thesis by (auto simp: moved_def)
  next
    case None
    obtain net2 t2 net3 t3 where "observe_step E (pf_transport P) (e_now E) net1 timeout1 = Some (net2, t2)"
      "registration_step E P (client_callbacks E) (e_now E) net2 t2 = Some (net3, t3)"
      "transaction_step (e_mem E) (e_now E) (client_callbacks E) net3 (e_now E) t3 = Some (net', timeout')"
      using rest None by (auto simp: bind_eq_Some_conv)
    then have "kept (n_app net1) (n_app net')"
      using observe_kept registration_step_kept client.step_kept by (metis kept_trans)
    moreover have "STATE_BOOTSTRAP_REQUIRED \<in> next_states (n_app net)"
      by (auto simp: next_states_def initial_states_def split: lwm2m_client_state.splits)
    ultimately show ?thesis using moved None by (auto simp: moved_def kept_def)
  qed
qed

text \<open>The first step of a bootstrap.\<close>

definition waiting_net :: "security_instance list lwm2m_context" where
  "waiting_net = \<lparr>n_transactions = [], n_sent = [], n_app = boots_client\<lparr>cl_state := STATE_BOOTSTRAP_REQUIRED\<rparr>\<rparr>"

theorem step_follows_graph_witness:
  "\<exists>net' t. lwm2m_step plain_env quiet_platform (client_callbacks plain_env) waiting_net 60 = Some (0, net', t) \<and>
    cl_state (n_app net') \<in> {STATE_BOOTSTRAP_REQUIRED, STATE_BOOTSTRAPPING} \<and>
    map o_objID (cl_objectList (n_app net')) = [LWM2M_SECURITY_OBJECT_ID]"
proof -
  have run: "\<exists>net' t. lwm2m_step plain_env quiet_platform (client_callbacks plain_env) waiting_net 60 = Some (0, net', t)"
    by (simp add: lwm2m_step_def step_state_def waiting_net_def step_bootstrap_required_def boots_client_def boot_server_def
      three_accounts_def set_state_def with_client_def bootstrap_start_def bootstrap_step_def bootstrap_server_def
      find_bootstrap_def Let_def put_bootstrap_def observe_step_def registration_step_def transaction_step_def step_from.simps)
  then obtain net' t where r: "lwm2m_step plain_env quiet_platform (client_callbacks plain_env) waiting_net 60 = Some (0, net', t)" by blast
  have "0 \<le> e_now plain_env" by simp
  from step_follows_graph [OF r this] r show ?thesis
    by (auto simp: next_states_def waiting_net_def boots_client_def three_accounts_def security_object_def)
qed

end
