(* ===== verification/Client_Answers.thy ===== *)
theory Client_Answers
  imports Client_Safety
begin

text \<open>
  What a request sends back: at most one answer, with its token, and what \<^verbatim>\<open>lwm2m_handle_packet\<close> adds when
  the answer could not be sent.
\<close>

section \<open>The head of the response\<close>

definition same_head :: "coap_packet \<Rightarrow> coap_packet \<Rightarrow> bool" where
  "same_head p q \<longleftrightarrow> p_type q = p_type p \<and> p_mid q = p_mid p \<and> p_token q = p_token p"

lemma same_head_refl [simp]: "same_head p p"
  by (simp add: same_head_def)

lemma same_head_trans: "same_head p q \<Longrightarrow> same_head q r \<Longrightarrow> same_head p r"
  by (simp add: same_head_def)

lemma same_head_updates [simp]:
  "same_head p (q\<lparr>p_code := code\<rparr>) = same_head p q" "same_head p (q\<lparr>p_payload := b\<rparr>) = same_head p q"
  "same_head p (fst (coap_set_status_code q n)) = same_head p q"
  "same_head p (fst (coap_set_payload q bs)) = same_head p q"
  "same_head p (fst (coap_set_header_content_type q ct)) = same_head p q"
  "same_head p (fst (coap_set_header_observe q count)) = same_head p q"
  "same_head p (fst (coap_set_header_block1 q num mb sz)) = same_head p q"
  "same_head p (fst (coap_set_header_block2 q num mb sz)) = same_head p q"
  "same_head p (fst (coap_set_header_location_path mem q path)) = same_head p q"
  by (simp_all add: same_head_def coap_set_status_code_def coap_set_payload_def coap_set_header_content_type_def
    coap_set_header_observe_def coap_set_header_block1_def coap_set_header_block2_def coap_set_header_location_path_def
    set_known_def Let_def case_prod_beta)

lemma same_head_content [simp]: "same_head (fst (coap_set_header_content_type p ct)) q = same_head p q"
  by (simp add: same_head_def coap_set_header_content_type_def set_known_def)

lemma observe_option_head: "(q, n) = coap_set_header_observe p count \<Longrightarrow> same_head p q"
  by (auto simp: same_head_def coap_set_header_observe_def set_known_def)

lemma set_result_head [simp]: "same_head p (set_result format buffer q) = same_head p q"
  by (simp add: set_result_def Let_def split: option.splits)

abbreviation (input) heads :: "coap_packet \<Rightarrow> (u8 \<times> coap_packet \<times> 's client) option \<Rightarrow> bool" where
  "heads p \<equiv> yields (\<lambda>r. same_head p (fst (snd r)))"

lemma observe_heads: "heads p (observe_handleRequest cfg mem now u sv ds m p c)"
  unfolding observe_handleRequest_def observe_start_def
  by (intro yields_rules) (auto intro!: yieldsI yields_rules dest: observe_option_head)

lemma get_heads: "heads p (dm_get E u sv m p format c)"
proof -
  have "yields (\<lambda>(_, _, _, r, _). same_head p r) (dm_observe E u sv m p format c)"
    unfolding dm_observe_def
    by (intro yields_rules) (auto dest!: yields_result [OF observe_heads])
  then show ?thesis
    unfolding dm_get_def by (intro yields_rules) (auto simp: yields_def split: if_splits)
qed

lemma post_heads: "heads p (dm_post E u m p format c)"
  unfolding dm_post_def dm_create_def by (intro yields_rules) (auto intro!: yieldsI yields_rules)

lemma request_heads: "heads p (dm_handleRequest E behind u sv m p c)"
  unfolding dm_handleRequest_def Let_def dm_put_def dm_delete_def
  by (intro yields_if yields_Some get_heads post_heads yields_map yieldsI) (simp_all add: case_prod_beta)

lemma command_heads: "heads p (bootstrap_handleCommand E u own m p c)"
proof -
  have "yields (\<lambda>r. same_head p (snd r)) (bootstrap_get E u m p format c)" for format and c :: "'s client"
    unfolding bootstrap_get_def by (intro yields_map yieldsI) (simp add: case_prod_beta)
  then show ?thesis
    unfolding bootstrap_handleCommand_def
    by (intro yields_rules) (auto simp: yields_def split: if_splits)
qed

lemma target_heads: "heads p (request_target E behind peer m p type u c)"
  by (cases type) (auto simp: request_target_def yields_def split: option.splits bool.splits if_splits
    dest!: yields_result [OF request_heads] yields_result [OF command_heads])

lemma handle_request_heads: "heads p (handle_request E behind peer m p c)"
  unfolding handle_request_def
  by (intro yields_rules) (auto dest!: yields_result [OF target_heads])

section \<open>The answer\<close>

lemma accept_heads: "accept_request E P peer m p c = Some (code, m', p', c') \<Longrightarrow> same_head p p'"
  by (auto simp: accept_request_def request_block_def Let_def bind_eq_Some_conv split: if_splits option.splits)

lemma response_block_head: "same_head p (response_block P m q) = same_head p q"
  by (simp add: response_block_def Let_def)

lemma message_sent:
  assumes "message_send mem transport net peer p = Some (net', code)"
  shows "n_transactions net' = n_transactions net \<and>
    (n_sent net' = n_sent net @ [(peer, snd (coap_serialize_message p))] \<and>
       code = transport peer (snd (coap_serialize_message p)) \<or>
     n_sent net' = n_sent net \<and> code = COAP_500_INTERNAL_SERVER_ERROR)"
  using assms by (auto simp: message_send_def buffer_send_def Let_def split: if_splits)

lemma start_head:
  assumes "start_response m net = (p, net')" "length (p_token m) \<le> 8"
  shows "p_token p = p_token m \<and> (p_type m = COAP_TYPE_CON \<longrightarrow> p_type p = COAP_TYPE_ACK \<and> p_mid p = p_mid m) \<and>
    (p_type m \<noteq> COAP_TYPE_CON \<longrightarrow> p_type p = COAP_TYPE_NON \<and> p_mid p = cl_nextMID (n_app net)) \<and>
    n_transactions net' = n_transactions net \<and> n_sent net' = n_sent net"
  using assms by (auto simp: start_response_def Let_def take_mid_def with_client_def coap_set_header_token_def set_known_def
    coap_init_message_def zero_packet_def split: if_splits)

text \<open>
  The part for the request itself. A code other than \<^verbatim>\<open>NO_ERROR\<close> and \<^verbatim>\<open>COAP_IGNORE\<close> is left for
  \<^verbatim>\<open>report_error\<close>: the answer could not be made, or the transport refused it.
\<close>

definition answers :: "coap_packet \<Rightarrow> u16 \<Rightarrow> coap_packet \<Rightarrow> bool" where
  "answers m mid response \<longleftrightarrow> p_token response = p_token m \<and>
     (if p_type m = COAP_TYPE_CON then p_type response = COAP_TYPE_ACK \<and> p_mid response = p_mid m
      else p_type response = COAP_TYPE_NON \<and> p_mid response = mid)"

abbreviation sent_to :: "nat \<Rightarrow> coap_packet list \<Rightarrow> (nat \<times> bytes) list" where
  "sent_to peer \<equiv> map (\<lambda>p. (peer, snd (coap_serialize_message p)))"

lemma incoming_request_answer:
  assumes "incoming_request E P behind peer m net = Some (net', code)" and "length (p_token m) \<le> 8"
  shows "n_transactions net' = n_transactions net \<and>
    (n_sent net' = n_sent net \<and> (code = COAP_IGNORE \<or> code = COAP_500_INTERNAL_SERVER_ERROR) \<or>
     (\<exists>response. n_sent net' = n_sent net @ sent_to peer [response] \<and> answers m (cl_nextMID (n_app net)) response \<and>
       code = pf_transport P peer (snd (coap_serialize_message response))))"
  using assms(1)
proof (rule incoming_request_parts)
  fix response net1 code1 m1 response1 c1 code2 response2 c2
  assume start: "start_response m net = (response, net1)"
    and accept: "accept_request E P peer m response (n_app net1) = Some (code1, m1, response1, c1)"
    and handle: "(if code1 = NO_ERROR \<or> raw_block1 (e_cfg E) \<and> code1 = COAP_231_CONTINUE
      then handle_request E behind peer m1 response1 c1 else Some (code1, response1, c1)) = Some (code2, response2, c2)"
    and send: "(if code2 = NO_ERROR then message_send (e_mem E) (pf_transport P) (net1\<lparr>n_app := c2\<rparr>) peer (response_block P m1 response2)
      else if code2 \<noteq> COAP_IGNORE then message_send (e_mem E) (pf_transport P) (net1\<lparr>n_app := c2\<rparr>) peer
        (fst (coap_set_status_code response2 (unat (error_status code2 response2))))
      else Some (net1\<lparr>n_app := c2\<rparr>, code2)) = Some (net', code)"
  have "same_head response1 response2"
    using handle yields_result [OF handle_request_heads, where r = "(code2, response2, c2)"] by (auto split: if_splits)
  then have head: "same_head response response2" using accept_heads [OF accept] same_head_trans by blast
  obtain q where q: "same_head response q" and sent: "n_transactions net' = n_transactions net1 \<and>
      (n_sent net' = n_sent net1 @ sent_to peer [q] \<and> code = pf_transport P peer (snd (coap_serialize_message q)) \<or>
       n_sent net' = n_sent net1 \<and> (code = COAP_IGNORE \<or> code = COAP_500_INTERNAL_SERVER_ERROR))"
  proof (cases "code2 = COAP_IGNORE")
    case True
    with send that [of response2] head show ?thesis by auto
  next
    case False
    define q where "q = (if code2 = NO_ERROR then response_block P m1 response2
      else fst (coap_set_status_code response2 (unat (error_status code2 response2))))"
    have "message_send (e_mem E) (pf_transport P) (net1\<lparr>n_app := c2\<rparr>) peer q = Some (net', code)"
      using send False by (auto simp: q_def split: if_splits)
    from message_sent [OF this] that [of q] head show ?thesis by (auto simp: q_def response_block_head)
  qed
  then show ?thesis using start_head [OF start assms(2)] by (auto simp: same_head_def answers_def)
qed

text \<open>The report of an error, if there is one.\<close>

lemma report_error_sends:
  assumes "report_error E P peer error_text code m net = Some net'"
  shows "\<exists>reports. n_transactions net' = n_transactions net \<and> n_sent net' = n_sent net @ sent_to peer reports \<and>
    length reports \<le> 1 \<and> (reports \<noteq> [] \<longrightarrow> code \<notin> {NO_ERROR, COAP_IGNORE}) \<and>
    (\<forall>report\<in>set reports. p_type report = COAP_TYPE_ACK \<and> p_mid report = p_mid m \<and> p_token report = [] \<and>
      p_payload report = Some (take (length error_text mod 65536) error_text))"
proof (cases "code \<noteq> NO_ERROR \<and> code \<noteq> COAP_IGNORE")
  case True
  define p where "p = fst (coap_set_payload (coap_init_message COAP_TYPE_ACK
    (if code \<ge> 192 then COAP_500_INTERNAL_SERVER_ERROR else code) (p_mid m)) error_text)"
  obtain code' where send: "message_send (e_mem E) (pf_transport P) net peer p = Some (net', code')"
    using assms True by (auto simp: report_error_def p_def Let_def)
  have p: "p_type p = COAP_TYPE_ACK" "p_mid p = p_mid m" "p_token p = []"
    "p_payload p = Some (take (length error_text mod 65536) error_text)"
    by (simp_all add: p_def coap_set_payload_def coap_init_message_def zero_packet_def Let_def)
  show ?thesis using message_sent [OF send]
  proof (elim conjE disjE)
    assume "n_sent net' = n_sent net @ [(peer, snd (coap_serialize_message p))]" "n_transactions net' = n_transactions net"
    with True p show ?thesis by (intro exI [of _ "[p]"]) simp
  qed (intro exI [of _ "[]"], simp)
next
  case False
  with assms show ?thesis by (intro exI [of _ "[]"]) (auto simp: report_error_def)
qed

text \<open>
  C4: a request is answered at most once, and only to its sender. The answer carries the token of the request; to a
  confirmable request it is the acknowledgement with the message identifier of the request, to another a message of
  the type \<^verbatim>\<open>NON\<close> with the next identifier of the client itself. The end of \<^verbatim>\<open>lwm2m_handle_packet\<close> can add one
  more datagram to the same peer, an acknowledgement with the identifier of the request, without its token, and
  with the text of the last error of the parser (up to 65535 bytes of it); after an answer it does so only when the
  transport reported a failure for that answer. No transaction starts or ends.
\<close>

theorem request_answered_once:
  assumes "lwm2m_handle_packet E P run dg peer net = Some net'"
    and "coap_parse_message (e_mem E) (take (length (d_bytes dg) mod 65536) (d_bytes dg)) = Some (NO_ERROR, m)"
    and "COAP_GET \<le> p_code m" and "p_code m \<le> COAP_DELETE"
  shows "n_transactions net' = n_transactions net \<and>
    (\<exists>responses reports. n_sent net' = n_sent net @ sent_to peer responses @ sent_to peer reports \<and>
      length responses \<le> 1 \<and> length reports \<le> 1 \<and>
      (\<forall>response\<in>set responses. answers m (cl_nextMID (n_app net)) response) \<and>
      (\<forall>report\<in>set reports. p_type report = COAP_TYPE_ACK \<and> p_mid report = p_mid m \<and> p_token report = [] \<and>
        p_payload report = Some (take (length (d_error_text dg) mod 65536) (d_error_text dg))) \<and>
      (\<forall>response\<in>set responses. reports = [] \<or> pf_transport P peer (snd (coap_serialize_message response)) \<notin> {NO_ERROR, COAP_IGNORE}))"
proof -
  obtain net1 code where request: "incoming_request E P (d_behind dg) peer m net = Some (net1, code)"
    and report: "report_error E P peer (d_error_text dg) code m net1 = Some net'"
    using assms by (auto simp: lwm2m_handle_packet_def bind_eq_Some_conv)
  have "length (p_token m) \<le> 8" using parsed_in_arrays [OF assms(2)] by (simp add: in_arrays_def)
  note part = incoming_request_answer [OF request this]
  obtain reports where tail: "n_transactions net' = n_transactions net1" "n_sent net' = n_sent net1 @ sent_to peer reports"
      "length reports \<le> 1" "reports \<noteq> [] \<longrightarrow> code \<notin> {NO_ERROR, COAP_IGNORE}"
      "\<forall>report\<in>set reports. p_type report = COAP_TYPE_ACK \<and> p_mid report = p_mid m \<and> p_token report = [] \<and>
        p_payload report = Some (take (length (d_error_text dg) mod 65536) (d_error_text dg))"
    using report_error_sends [OF report] by blast
  obtain responses where answer: "n_sent net1 = n_sent net @ sent_to peer responses" "length responses \<le> 1"
      "\<forall>response\<in>set responses. answers m (cl_nextMID (n_app net)) response \<and>
        code = pf_transport P peer (snd (coap_serialize_message response))"
    using part that [of "[]"] that [of "[_]"] by fastforce
  have "\<forall>response\<in>set responses. reports = [] \<or> pf_transport P peer (snd (coap_serialize_message response)) \<notin> {NO_ERROR, COAP_IGNORE}"
    using answer(3) tail(4) by metis
  moreover have "n_sent net' = n_sent net @ sent_to peer responses @ sent_to peer reports" using answer(1) tail(2) by simp
  moreover have "n_transactions net' = n_transactions net" using part tail(1) by simp
  ultimately show ?thesis using answer(2,3) tail(3,5) by blast
qed

text \<open>
  A confirmable \<^verbatim>\<open>POST\<close> to the path \<^verbatim>\<open>/x\<close>, from a stranger, over a transport that fails: \<^verbatim>\<open>4.00\<close>, and then
  \<^verbatim>\<open>5.00\<close>.
\<close>

definition post_x :: datagram where
  "post_x = \<lparr>d_bytes = [0x40, 2, 0, 5, 0xB1, 120], d_behind = [], d_error_text = []\<rparr>"

definition failing_platform :: platform where
  "failing_platform = quiet_platform\<lparr>pf_transport := (\<lambda>_ _. COAP_500_INTERNAL_SERVER_ERROR)\<rparr>"

lemma short_message_sent:
  assumes "code \<in> {COAP_400_BAD_REQUEST, COAP_500_INTERNAL_SERVER_ERROR}" "b = None \<or> b = Some []"
  shows "message_send (\<lambda>n. True) transport net peer ((coap_init_message COAP_TYPE_ACK code 5)\<lparr>p_payload := b\<rparr>) =
    Some (buffer_send peer [0x60, code, 0, 5] net, transport peer [0x60, code, 0, 5])"
proof -
  let ?p = "(coap_init_message COAP_TYPE_ACK code 5)\<lparr>p_payload := b\<rparr>"
  have "coap_serialize_get_size ?p = 4" using assms
    by (auto simp: coap_serialize_get_size_def coap_init_message_def zero_packet_def payload_of_def IS_OPTION_def)
  moreover have "snd (coap_serialize_message ?p) = [0x60, code, 0, 5]" using assms by (elim insertE emptyE disjE) (hypsubst, code_simp)+
  ultimately show ?thesis by (simp add: message_send_def Let_def)
qed

theorem request_answered_once_witness:
  "\<exists>net'. lwm2m_handle_packet plain_env failing_platform (client_callbacks plain_env) post_x 9 boots_net = Some net' \<and>
    n_sent net' = [(9, [0x60, 0x80, 0, 5]), (9, [0x60, 0xA0, 0, 5])] \<and> n_transactions net' = []"
proof -
  let ?r = "coap_init_message COAP_TYPE_ACK COAP_205_CONTENT 5"
  define m where "m = (set_known COAP_OPTION_URI_PATH (coap_init_message COAP_TYPE_CON COAP_POST 5))\<lparr>p_version := 1, p_uri_path := [[120]]\<rparr>"
  have parse: "coap_parse_message (e_mem plain_env) (take (length (d_bytes post_x) mod 65536) (d_bytes post_x)) = Some (NO_ERROR, m)"
    by (simp add: coap_parse_message_def post_x_def m_def coap_init_message_def zero_packet_def parse_options.simps
      read_ext_def SET_OPTION_def apply_option_def coap_add_multi_option_def set_known_def plain_env_def Let_def)
  have start: "start_response m boots_net = (?r, boots_net)"
    by (simp add: start_response_def m_def coap_init_message_def zero_packet_def set_known_def)
  have accept: "accept_request plain_env failing_platform 9 m ?r boots_client = Some (NO_ERROR, m, ?r, boots_client)"
    by (simp add: accept_request_def payload_of_def IS_OPTION_def m_def coap_init_message_def zero_packet_def set_known_def
      failing_platform_def quiet_platform_def)
  have uri: "uri_decode (e_cfg plain_env) (cl_altPath boots_client) (p_uri_path m) (p_code m) = Some uri_error"
    by (simp add: uri_decode_def decode_dm_def read_segment_def uri_getNumber_def prv_parseNumber_def parse_number_loop.simps
      boots_client_def three_accounts_def m_def coap_init_message_def zero_packet_def set_known_def)
  have handle: "handle_request plain_env [] 9 m ?r boots_client = Some (COAP_400_BAD_REQUEST, ?r, boots_client)"
    using uri by (simp add: handle_request_def uri_error_def)
  have status: "fst (coap_set_status_code ?r (unat (error_status COAP_400_BAD_REQUEST ?r))) =
      (coap_init_message COAP_TYPE_ACK COAP_400_BAD_REQUEST 5)\<lparr>p_payload := None\<rparr>"
    by (simp add: coap_set_status_code_def error_status_def coap_init_message_def zero_packet_def)
  have app: "n_app boots_net = boots_client" "boots_net\<lparr>n_app := boots_client\<rparr> = boots_net" by (simp_all add: boots_net_def)
  have mem: "e_mem plain_env = (\<lambda>n. True)" by (simp add: plain_env_def)
  have request: "incoming_request plain_env failing_platform [] 9 m boots_net =
      Some (buffer_send 9 [0x60, 0x80, 0, 5] boots_net, COAP_500_INTERNAL_SERVER_ERROR)"
    using accept handle by (simp add: incoming_request_def start app status short_message_sent mem failing_platform_def)
  have report: "report_error plain_env failing_platform 9 [] COAP_500_INTERNAL_SERVER_ERROR m net =
      Some (buffer_send 9 [0x60, 0xA0, 0, 5] net)" for net :: "security_instance list lwm2m_context"
    using short_message_sent [of COAP_500_INTERNAL_SERVER_ERROR "Some []" "pf_transport failing_platform" net 9]
    by (simp add: report_error_def coap_set_payload_def m_def coap_init_message_def mem set_known_def)
  have code: "COAP_GET \<le> p_code m" "p_code m \<le> COAP_DELETE"
    by (simp_all add: m_def coap_init_message_def set_known_def)
  have run: "lwm2m_handle_packet plain_env failing_platform (client_callbacks plain_env) post_x 9 boots_net =
      Some (buffer_send 9 [0x60, 0xA0, 0, 5] (buffer_send 9 [0x60, 0x80, 0, 5] boots_net))"
    using parse code request report by (simp add: lwm2m_handle_packet_def post_x_def)
  from request_answered_once [OF run parse code] run show ?thesis by (auto simp: boots_net_def buffer_send_def)
qed

end
