(* ===== verification/Spec2Isabelle.thy ===== *)
theory Spec2Isabelle
  imports Id_List Num_Text Base64 Formats Uri Data_Model Coap_Bounds Block_Transfer Server_Object Security_Object Device_Object Snap_Objects Json_Roundtrip Request_Wire Observe_Proofs Client_States Client_Answers
begin

text \<open>
  \<^bold>\<open>A model of the LWM2M client for snapd and of its Wakaama library.\<close>

  The program is a client of the OMA Lightweight M2M protocol. \<^verbatim>\<open>lwm2m/wakaama\<close> is the protocol library
  in C: \<^verbatim>\<open>coap\<close> holds the CoAP messages, the block-wise transfers and the transactions, \<^verbatim>\<open>data\<close> the
  values and their formats, \<^verbatim>\<open>core\<close> the URIs, the object dispatch, the registration and the observations.
  \<^verbatim>\<open>lwm2m/src\<close> holds the objects of this client, which the library calls through function pointers, and the
  Go files beside it answer for the snaps of the device. A request arrives as a CoAP message, is parsed and
  checked, its URI is decoded, the object is asked, the values are written in the format of the
  request, and the answer goes back; the client for its part registers its objects, repeats what was not
  acknowledged and notifies the servers that observe a value.

  \<^bold>\<open>Conventions.\<close> \<^verbatim>\<open>Prelude_C\<close> holds them. Integers are words of their width, so that
  they wrap where C wraps; a buffer is the list of its bytes; a string is the list before its terminator; a
  structure is a record, with \<open>None\<close> for a null pointer; a linked list is the list of its nodes.
  A result \<open>option\<close> is \<open>None\<close> where C leaves its definition: a read or a write outside of a buffer, a null
  or released pointer, a signed overflow. An allocation of \<open>n\<close> bytes succeeds when \<open>mem n\<close> holds
  (\<open>allocator\<close>), so that every path after a failed allocation is in the model. The preprocessor flags are
  the fields of \<open>build\<close>. Code that is not in the repository, the platform functions and the transport, is an
  argument of the definitions that call it.

  \<^bold>\<open>The theories.\<close>

  \<^item> \<^verbatim>\<open>Id_List\<close> (\<^verbatim>\<open>core/list.c\<close>): sorted lists of numbered nodes. They refine a map, through the
    locale \<open>id_store\<close>, which every component with such a list rests on.
  \<^item> \<^verbatim>\<open>Num_Text\<close>, \<^verbatim>\<open>Base64\<close>, \<^verbatim>\<open>Formats\<close> (\<^verbatim>\<open>core/utils.c\<close>): numbers and links as text,
    base64, versions, bindings, media types and the choice of the format of an answer.
  \<^item> \<^verbatim>\<open>Uri\<close> (\<^verbatim>\<open>core/uri.c\<close>): paths to identifiers and back.
  \<^item> \<^verbatim>\<open>Data_Types\<close>, \<^verbatim>\<open>Data_Values\<close>, \<^verbatim>\<open>Float_Bits\<close>, \<^verbatim>\<open>Tlv\<close>, \<^verbatim>\<open>Data_Model\<close>
    (\<^verbatim>\<open>data/data.c\<close>, \<^verbatim>\<open>data/tlv.c\<close>): values, the encoding and decoding of each type, the TLV format
    with its length pass, and the dispatch on the format. Floating-point numbers are their IEEE bits.
  \<^item> \<^verbatim>\<open>Json_Text\<close>, \<^verbatim>\<open>Json_Tree\<close>, \<^verbatim>\<open>Json_Write\<close>, \<^verbatim>\<open>Json_Read\<close>, \<^verbatim>\<open>Json_Scan\<close>,
    \<^verbatim>\<open>Json_Items\<close>, \<^verbatim>\<open>Json_Roundtrip\<close> (\<^verbatim>\<open>data/json.c\<close>, \<^verbatim>\<open>data/json_common.c\<close>): the scanner of
    items and members, the escape sequences, the trees that the reader builds and the writer walks; what the
    scanner does on the text of one value, of one item and of a message, and the round trip that follows.
  \<^item> \<^verbatim>\<open>Coap_Packet\<close>, \<^verbatim>\<open>Coap_Serialize\<close>, \<^verbatim>\<open>Coap_Parse\<close>, \<^verbatim>\<open>Coap_Roundtrip\<close>, \<^verbatim>\<open>Coap_Bounds\<close>
    (\<^verbatim>\<open>coap/er-coap-13\<close>): packets and their options, the serializer, the parser, the proof that one reads
    what the other wrote, and the limits of their buffers.
  \<^item> \<^verbatim>\<open>Block_Transfer\<close> (\<^verbatim>\<open>coap/block.c\<close>): block-wise transfers against a specification of reassembly;
    the locale \<open>block_keys\<close> serves both kinds of transfer.
  \<^item> \<^verbatim>\<open>Transaction\<close>, \<^verbatim>\<open>Request_Wire\<close> (\<^verbatim>\<open>coap/transaction.c\<close>, \<^verbatim>\<open>core/packet.c\<close>): requests with their
    retransmissions and answers, on a network state \<open>net\<close> that records what was sent; a request from
    its making to the decoded URI.
  \<^item> \<^verbatim>\<open>Client_Context\<close>, \<^verbatim>\<open>Object_Dispatch\<close>, \<^verbatim>\<open>Discover\<close> (\<^verbatim>\<open>include/liblwm2m.h\<close>,
    \<^verbatim>\<open>core/objects.c\<close>, \<^verbatim>\<open>core/discover.c\<close>): the state of the client, the operations on its objects
    through their callbacks, the links of a discover request.
  \<^item> \<^verbatim>\<open>Observed_List\<close>, \<^verbatim>\<open>Observe_Notify\<close>, \<^verbatim>\<open>Observe_Proofs\<close> (\<^verbatim>\<open>core/observe.c\<close>): the observed URIs
    with their watchers, attributes, and the periodic step that notifies.
  \<^item> \<^verbatim>\<open>Register_Payload\<close>, \<^verbatim>\<open>Registration_Query\<close>, \<^verbatim>\<open>Registration_Decode\<close>,
    \<^verbatim>\<open>Registration_Roundtrip\<close> (\<^verbatim>\<open>core/objects.c\<close>, \<^verbatim>\<open>core/registration.c\<close>): the two parts of a
    registration as the client writes and the server reads them.
  \<^item> \<^verbatim>\<open>Registration_State\<close>, \<^verbatim>\<open>Registration_Order\<close>, \<^verbatim>\<open>Registration_Client\<close>,
    \<^verbatim>\<open>Registration_Exchange\<close> (\<^verbatim>\<open>core/registration.c\<close>): the registration of the client as a state of each
    server: the start in the order of priority, the request, its answer, updates, retries, the periodic
    step; the exchange of a registration with a server, from the request to the registered state.
  \<^item> \<^verbatim>\<open>Object_Proofs\<close>, \<^verbatim>\<open>Device_Management\<close> (\<^verbatim>\<open>core/management.c\<close>): what an operation on an object
    leaves alone (\<open>touches\<close>), and the requests of a registered server.
  \<^item> \<^verbatim>\<open>Bootstrap_State\<close>, \<^verbatim>\<open>Bootstrap_Discover\<close>, \<^verbatim>\<open>Bootstrap_Command\<close>, \<^verbatim>\<open>Bootstrap_Proofs\<close>
    (\<^verbatim>\<open>core/bootstrap.c\<close>): the status of a bootstrap server with its request and deadline, the list of
    accounts it may ask for, and its commands. The locale \<open>deletable\<close> holds what deleting accounts relies on.
  \<^item> \<^verbatim>\<open>Message_Blocks\<close>, \<^verbatim>\<open>Message_Dispatch\<close> (\<^verbatim>\<open>core/packet.c\<close>): the way of a datagram:
    \<open>lwm2m_handle_packet\<close> parses it, reassembles the blocks of a request, hands it to device management or
    bootstrapping and sends the answer or its block; an answer finishes its transaction, after the next
    block was asked for or sent.
  \<^item> \<^verbatim>\<open>Client_Step\<close> (\<^verbatim>\<open>core/liblwm2m.c\<close>): configuration, and \<open>lwm2m_step\<close>, the state machine that goes from
    bootstrapping to registering to ready and runs the periodic steps of the parts.
  \<^item> \<^verbatim>\<open>Client_Safety\<close>, \<^verbatim>\<open>Client_States\<close>, \<^verbatim>\<open>Client_Answers\<close>: what holds of the whole client. The locale
    \<open>kept_callbacks\<close> carries what every transmission and answer leaves alone, given the same of the
    callbacks, and is interpreted on the callbacks of the client; from it follow the frame of
    \<open>lwm2m_handle_packet\<close> and the graph of \<open>lwm2m_step\<close>; a request has at
    most one answer, to which a report of the failed transmission can be added.
  \<^item> \<^verbatim>\<open>Client_Object\<close>, \<^verbatim>\<open>Server_Object\<close>, \<^verbatim>\<open>Security_Object\<close>, \<^verbatim>\<open>Device_Object\<close>, \<^verbatim>\<open>Snap_Objects\<close>
    (\<^verbatim>\<open>lwm2m/src/object_*.c\<close>, \<^verbatim>\<open>lwm2m/callbacks_*.go\<close>): the objects of this client: what each call
    does with memory, instances and values. The locales \<open>client_object\<close> and \<open>safe_object\<close> hold what the
    calls share, given how an object stores one value.
  \<^item> \<^verbatim>\<open>Client_Security\<close> (\<^verbatim>\<open>wakaama/examples/client/object_security.c\<close>): the Security object of the example
    client, whose calls take the arguments that the core passes; those of \<^verbatim>\<open>lwm2m/src\<close> lack \<^verbatim>\<open>contextP\<close>, so that
    the deletion of accounts is stated for this one.

  \<^bold>\<open>What is shown.\<close> Round trips hold between the parts that talk to each other:
  serializer and parser of CoAP, of TLV and of JSON, text and value, base64, URI and path, request and handler,
  registration and server list. Refinements state what a component
  promises: a sorted list is a map, the Server object is a map from numbers to records, the block handlers
  reassemble. Invariants are those that keep the operations defined, such as the
  observations with their servers and the transactions within their limits. The periodic step of the
  observations is compared with an independent account of the watchers that are due. Bounds state that the length
  passes are exact. Where the code has a fault, a theorem states what it does there, so the
  round trip of the registration query includes the refusal of the queue mode that the client sends.

  \<^bold>\<open>Bounds and fuel.\<close> Loops over lists are structural, the others recurse with a measure: the
  parsers on the bytes left, the printers on the value. The nested TLV serializer and the object dispatch
  recurse on the tree of values. No definition uses fuel. Bytes that nobody wrote (an array on the stack, a
  field of a new allocation) are arguments, \<open>e_stack\<close> for the dispatch.
  Messages are shorter than 64 KiB, so that the lengths that the code keeps in 16 bits do not wrap unless
  a theorem says so.

  \<^bold>\<open>Not modelled.\<close> The SenML format and the text of floating-point numbers are arguments of the
  dispatch. The server side of the library (the requests a server makes, its list of clients, the bootstrap
  server, received notifications) is not compiled into this client and is modelled only where it reads what
  the client wrote. \<^verbatim>\<open>lwm2m_close\<close> and the functions that only release memory are left out. The main
  loop, sockets, signals, examples, tests and Go programs are input and output.
\<close>

end
